(* ===== verification/Prelude.thy ===== *)
theory Prelude
  imports Complex_Main "HOL-Library.AList" "HOL-Library.Char_ord" "HOL-Library.List_Lexorder"
    "HOL-Library.Product_Lexorder"
begin

text \<open>
  The shared vocabulary of the development: the Python values the components use (errors,
  floats, datetimes, strings, insertion-ordered dictionaries), the loops that recur in the
  code (sliding time windows, bounded recency caches), and the interfaces of those loops as
  locales, with the facts their clients use proved once.

  \<^item> A Python \<open>float\<close> is a rational number: sums, products and comparisons are exact, the
    rounding of IEEE doubles is not represented.
  \<^item> A Python \<open>datetime\<close> is a number of microseconds since the epoch, tagged by whether it
    carries a time zone.
  \<^item> A Python \<open>str\<close> is a char list; case conversion is the one of ASCII.
  \<^item> A Python \<open>dict\<close> or \<open>OrderedDict\<close> is an association list in insertion order:
    \<open>AList.update\<close> replaces in place or appends, as item assignment does, and
    \<open>AList.delete\<close> removes.
\<close>

named_theorems py_simps \<open>equations of the modelled Python primitives\<close>

section \<open>Errors, floats and datetimes\<close>

datatype py_error =
    ValueError string
  | PermissionError string
  | LookupError string
  | KeyError string
  | TypeError string
  | IntegrityError string
  | RuntimeError string

type_synonym 'a py = "py_error + 'a"

type_synonym pyfloat = rat

datatype datetime = Aware int | Naive int

fun utc_micros :: "datetime \<Rightarrow> int" where
  "utc_micros (Aware t) = t"
| "utc_micros (Naive t) = t"

fun tz_aware :: "datetime \<Rightarrow> bool" where
  "tz_aware (Aware t) = True"
| "tz_aware (Naive t) = False"

text \<open>The float \<open>(a - b).total_seconds()\<close> of two instants given in microseconds.\<close>

definition total_seconds :: "int \<Rightarrow> pyfloat" where
  "total_seconds us = of_int us / 1000000"

definition py_bind :: "'e + 'a \<Rightarrow> ('a \<Rightarrow> 'e + 'b) \<Rightarrow> 'e + 'b" where
  "py_bind r f = (case r of Inl e \<Rightarrow> Inl e | Inr x \<Rightarrow> f x)"

lemma py_bind_simps [simp]:
  "py_bind (Inl e) f = Inl e"
  "py_bind (Inr x) f = f x"
  by (simp_all add: py_bind_def)

lemma py_bind_Inr_iff:
  "py_bind r f = Inr y \<longleftrightarrow> (\<exists>x. r = Inr x \<and> f x = Inr y)"
  by (cases r) auto

definition py_guard :: "bool \<Rightarrow> 'e \<Rightarrow> 'e + unit" where
  "py_guard b e = (if b then Inl e else Inr ())"

lemma py_guard_simps [simp]:
  "py_guard True e = Inl e"
  "py_guard False e = Inr ()"
  "py_guard b e = Inr u \<longleftrightarrow> \<not> b"
  by (simp_all add: py_guard_def)

section \<open>Strings\<close>

definition upper_char :: "char \<Rightarrow> char" where
  "upper_char c = (let n = (of_char c :: nat) in
     if 97 \<le> n \<and> n \<le> 122 then char_of (n - 32) else c)"

definition lower_char :: "char \<Rightarrow> char" where
  "lower_char c = (let n = (of_char c :: nat) in
     if 65 \<le> n \<and> n \<le> 90 then char_of (n + 32) else c)"

definition str_upper :: "string \<Rightarrow> string" where
  "str_upper = map upper_char"

definition str_lower :: "string \<Rightarrow> string" where
  "str_lower = map lower_char"

definition startswith :: "string \<Rightarrow> string \<Rightarrow> bool" where
  "startswith s p \<longleftrightarrow> take (length p) s = p"

text \<open>\<open>p in s\<close>.\<close>

fun str_contains :: "string \<Rightarrow> string \<Rightarrow> bool" where
  "str_contains p [] = (p = [])"
| "str_contains p (c # s) = (startswith (c # s) p \<or> str_contains p s)"

fun str_join :: "string \<Rightarrow> string list \<Rightarrow> string" where
  "str_join sep [] = ''''"
| "str_join sep [x] = x"
| "str_join sep (x # y # ys) = x @ sep @ str_join sep (y # ys)"

fun str_nat :: "nat \<Rightarrow> string" where
  "str_nat n = (if n < 10 then [char_of (48 + n)]
     else str_nat (n div 10) @ [char_of (48 + n mod 10)])"

declare str_nat.simps [simp del]

definition str_int :: "int \<Rightarrow> string" where
  "str_int i = (if i < 0 then ''-'' @ str_nat (nat (- i)) else str_nat (nat i))"

text \<open>\<open>s.replace(old, new)\<close> for a non-empty \<open>old\<close>, from left to right.\<close>

fun str_replace :: "string \<Rightarrow> string \<Rightarrow> string \<Rightarrow> string" where
  "str_replace old_s new_s [] = []"
| "str_replace old_s new_s (c # s) =
     (if old_s \<noteq> [] \<and> startswith (c # s) old_s
      then new_s @ str_replace old_s new_s (drop (length old_s - 1) s)
      else c # str_replace old_s new_s s)"

text \<open>The whitespace \<open>str.strip()\<close> removes at both ends (space, tab, LF, VT, FF, CR and the
  ASCII separators 28 to 31).\<close>

definition is_space :: "char \<Rightarrow> bool" where
  "is_space c = (let n = (of_char c :: nat) in n = 32 \<or> (9 \<le> n \<and> n \<le> 13) \<or> (28 \<le> n \<and> n \<le> 31))"

definition str_strip :: "string \<Rightarrow> string" where
  "str_strip s = rev (dropWhile is_space (rev (dropWhile is_space s)))"

text \<open>Python's \<open>round(x)\<close> and the \<open>.0f\<close> and \<open>.0%\<close> formats round halves to even.\<close>

definition round_half_even :: "pyfloat \<Rightarrow> int" where
  "round_half_even x = (let f = \<lfloor>x\<rfloor>; d = x - of_int f in
     if d < 1 / 2 then f else if 1 / 2 < d then f + 1
     else if even f then f else f + 1)"

definition fmt_0f :: "pyfloat \<Rightarrow> string" where
  "fmt_0f x = str_int (round_half_even x)"

definition fmt_0pct :: "pyfloat \<Rightarrow> string" where
  "fmt_0pct x = str_int (round_half_even (x * 100)) @ ''%''"

definition fmt_2pct :: "pyfloat \<Rightarrow> string" where
  "fmt_2pct x = (let h = round_half_even (x * 10000) in
     (if h < 0 then ''-'' else '''') @ str_int (\<bar>h\<bar> div 100) @ ''.'' @
       (if \<bar>h\<bar> mod 100 < 10 then ''0'' else '''') @ str_int (\<bar>h\<bar> mod 100) @ ''%'')"

text \<open>Python's \<open>round(x, n)\<close>.\<close>

definition round_to :: "nat \<Rightarrow> pyfloat \<Rightarrow> pyfloat" where
  "round_to n x = of_int (round_half_even (x * 10 ^ n)) / 10 ^ n"

text \<open>\<open>len({f(x) for x in xs})\<close>, and \<open>sum(p(x) for x in xs)\<close> for a condition.\<close>

definition count_distinct :: "'a list \<Rightarrow> nat" where
  "count_distinct xs = length (remdups xs)"

definition count_if :: "('a \<Rightarrow> bool) \<Rightarrow> 'a list \<Rightarrow> nat" where
  "count_if p xs = length (filter p xs)"

lemma count_distinct_card: "count_distinct xs = card (set xs)"
  by (simp add: count_distinct_def length_remdups_card_conv)

lemma count_distinct_le: "count_distinct (map f xs) \<le> length xs"
  by (simp add: count_distinct_def length_remdups_leq le_trans [OF length_remdups_leq])

lemma count_distinct_mono: "set xs \<subseteq> set ys \<Longrightarrow> count_distinct xs \<le> count_distinct ys"
  by (simp add: count_distinct_card card_mono)

lemma count_if_le: "count_if p xs \<le> length xs"
  by (simp add: count_if_def)

lemma count_if_append [simp]: "count_if p (xs @ ys) = count_if p xs + count_if p ys"
  by (simp add: count_if_def)

lemma round_half_even_of_int [simp]: "round_half_even (of_int i) = i"
  by (simp add: round_half_even_def)

lemma round_half_even_near: "\<bar>of_int (round_half_even x) - x\<bar> \<le> 1 / 2"
proof -
  have "of_int \<lfloor>x\<rfloor> \<le> x" and "x < of_int \<lfloor>x\<rfloor> + 1"
    by linarith+
  then show ?thesis by (auto simp: round_half_even_def Let_def abs_le_iff)
qed

section \<open>Insertion-ordered dictionaries\<close>

type_synonym ('k, 'v) odict = "('k \<times> 'v) list"

abbreviation od_keys :: "('k, 'v) odict \<Rightarrow> 'k list" where
  "od_keys d \<equiv> map fst d"

abbreviation od_values :: "('k, 'v) odict \<Rightarrow> 'v list" where
  "od_values d \<equiv> map snd d"

abbreviation od_wf :: "('k, 'v) odict \<Rightarrow> bool" where
  "od_wf d \<equiv> distinct (od_keys d)"

text \<open>\<open>OrderedDict.move_to_end(k)\<close>, for a key that is present.\<close>

definition move_to_end :: "'k \<Rightarrow> ('k, 'v) odict \<Rightarrow> ('k, 'v) odict" where
  "move_to_end k d = (case map_of d k of None \<Rightarrow> d | Some v \<Rightarrow> AList.delete k d @ [(k, v)])"

text \<open>\<open>d.get(k, v)\<close>.\<close>

definition od_get :: "('k, 'v) odict \<Rightarrow> 'k \<Rightarrow> 'v \<Rightarrow> 'v" where
  "od_get d k v = (case map_of d k of None \<Rightarrow> v | Some x \<Rightarrow> x)"

text \<open>The loop \<open>while len(d) > cap: d.popitem(last=False)\<close> (or \<open>popleft\<close> on a deque).\<close>

fun pop_excess :: "nat \<Rightarrow> 'a list \<Rightarrow> 'a list" where
  "pop_excess cap [] = []"
| "pop_excess cap (x # xs) =
     (if cap < length (x # xs) then pop_excess cap xs else x # xs)"

lemma pop_excess_drop: "pop_excess cap xs = drop (length xs - cap) xs"
proof (induction xs)
  case (Cons x xs)
  then show ?case by (cases "cap < length (x # xs)") (auto simp: Suc_diff_le)
qed simp

lemma length_pop_excess [simp]: "length (pop_excess cap xs) = min cap (length xs)"
  by (simp add: pop_excess_drop)

lemma set_pop_excess: "set (pop_excess cap xs) \<subseteq> set xs"
  by (simp add: pop_excess_drop set_drop_subset)

lemma pop_excess_snoc:
  "0 < cap \<Longrightarrow> pop_excess cap (xs @ [x]) = pop_excess (cap - 1) xs @ [x]"
  by (cases cap) (auto simp: pop_excess_drop)

lemma map_pop_excess: "map f (pop_excess cap xs) = pop_excess cap (map f xs)"
  by (simp add: pop_excess_drop drop_map)

lemma od_wf_update [simp]: "od_wf d \<Longrightarrow> od_wf (AList.update k v d)"
  by (simp add: distinct_update)

lemma od_wf_delete [simp]: "od_wf d \<Longrightarrow> od_wf (AList.delete k d)"
  by (simp add: distinct_delete)

lemma set_keys_delete [simp]: "set (od_keys (AList.delete k d)) = set (od_keys d) - {k}"
  by (auto simp: AList.delete_eq)

lemma set_keys_update: "set (od_keys (AList.update k v d)) = insert k (set (od_keys d))"
  by (induction d) auto

lemma map_of_od_update [simp]:
  "map_of (AList.update k v d) = (map_of d)(k \<mapsto> v)"
  by (rule update_conv')

lemma map_of_od_delete [simp]:
  "map_of (AList.delete k d) = (map_of d)(k := None)"
  by (rule delete_conv')

lemma od_get_update: "od_get (AList.update k v d) k' x = (if k' = k then v else od_get d k' x)"
  by (simp add: od_get_def update_conv')

lemma length_delete_present:
  "od_wf d \<Longrightarrow> k \<in> set (od_keys d) \<Longrightarrow> length (AList.delete k d) = length d - 1"
proof (induction d)
  case (Cons p d)
  obtain a b where p: "p = (a, b)" by (cases p)
  show ?case
  proof (cases "a = k")
    case True
    with Cons.prems p have "k \<notin> fst ` set d" by auto
    then have "AList.delete k d = d" by (simp add: AList.delete_eq filter_id_conv image_iff Ball_def)
    with True p show ?thesis by simp
  next
    case False
    with Cons p have "k \<in> set (od_keys d)" by auto
    then have "0 < length d" by (cases d) auto
    with False Cons p \<open>k \<in> set (od_keys d)\<close> show ?thesis by auto
  qed
qed simp

lemma length_update_le: "length (AList.update k v d) \<le> Suc (length d)"
  by (induction d) auto

lemma length_update_present:
  "k \<in> set (od_keys d) \<Longrightarrow> length (AList.update k v d) = length d"
  by (induction d) auto

lemma length_delete_le: "length (AList.delete k d) \<le> length d"
  by (simp add: AList.delete_eq)

lemma update_absent: "k \<notin> set (od_keys d) \<Longrightarrow> AList.update k v d = d @ [(k, v)]"
  by (induction d) auto

lemma delete_absent: "k \<notin> set (od_keys d) \<Longrightarrow> AList.delete k d = d"
  by (induction d) auto

lemma length_delete_snoc:
  "od_wf d \<Longrightarrow> length (AList.delete k d @ [(k, v)]) = length (AList.update k v d)"
proof (cases "k \<in> set (od_keys d)")
  case True
  assume "od_wf d"
  then have "length (AList.delete k d) = length d - 1" using True by (rule length_delete_present)
  moreover have "0 < length d" using True by (cases d) auto
  ultimately show ?thesis using length_update_present [OF True] by simp
next
  case False
  then show ?thesis by (simp add: delete_absent update_absent)
qed

lemma move_to_end_update:
  "move_to_end k (AList.update k v d) = AList.delete k d @ [(k, v)]"
proof -
  have "AList.delete k (AList.update k v d) = AList.delete k d"
    by (induction d) (auto simp: AList.delete_eq)
  then show ?thesis by (simp add: move_to_end_def)
qed

section \<open>Interfaces of the recurring loops\<close>

subsection \<open>Sliding time windows\<close>

text \<open>
  The loop \<open>while q and time(q[0]) < cutoff: q.popleft()\<close>. On a queue ordered by time it
  keeps exactly the events at or after the cutoff.
\<close>

locale time_window =
  fixes tm :: "'e \<Rightarrow> pyfloat"
    and expire :: "pyfloat \<Rightarrow> 'e list \<Rightarrow> 'e list"
  assumes expire_eq: "expire c q = dropWhile (\<lambda>e. tm e < c) q"
begin

lemma expire_subset: "set (expire c q) \<subseteq> set q"
  by (auto simp: expire_eq dest: set_dropWhileD)

lemma length_expire: "length (expire c q) \<le> length q"
  by (simp add: expire_eq length_dropWhile_le)

lemma expire_sorted: "sorted (map tm q) \<Longrightarrow> sorted (map tm (expire c q))"
proof -
  assume "sorted (map tm q)"
  then have "sorted (map tm (takeWhile (\<lambda>e. tm e < c) q) @ map tm (dropWhile (\<lambda>e. tm e < c) q))"
    by (simp flip: map_append)
  then show ?thesis by (simp add: expire_eq sorted_append)
qed

lemma expire_filter:
  "sorted (map tm q) \<Longrightarrow> expire c q = filter (\<lambda>e. c \<le> tm e) q"
  unfolding expire_eq
proof (induction q)
  case (Cons e q)
  show ?case
  proof (cases "tm e < c")
    case True
    with Cons show ?thesis by simp
  next
    case False
    with Cons.prems have "\<forall>x \<in> set q. c \<le> tm x" by auto
    with False show ?thesis by (simp add: filter_id_conv)
  qed
qed simp

text \<open>
  A queue that is expired at every arrival holds what one filter of the whole history gives.
\<close>

lemma expire_history:
  assumes "sorted (map tm (h @ [e]))" and "c \<le> c'"
  shows "expire c' (filter (\<lambda>x. c \<le> tm x) h @ [e]) = filter (\<lambda>x. c' \<le> tm x) (h @ [e])"
proof -
  have "sorted (map tm (filter (\<lambda>x. c \<le> tm x) (h @ [e])))"
    using assms(1) by (rule sorted_filter)
  then have "sorted (map tm (filter (\<lambda>x. c \<le> tm x) h @ [e]))"
    using assms(1) by (auto simp: sorted_append intro: sorted_filter)
  then have "expire c' (filter (\<lambda>x. c \<le> tm x) h @ [e])
      = filter (\<lambda>x. c' \<le> tm x) (filter (\<lambda>x. c \<le> tm x) h @ [e])"
    by (rule expire_filter)
  also have "\<dots> = filter (\<lambda>x. c' \<le> tm x) (h @ [e])"
    using assms(2) by (auto intro: filter_cong)
  finally show ?thesis .
qed

lemma expire_recent:
  "sorted (map tm q) \<Longrightarrow> e \<in> set (expire c q) \<Longrightarrow> c \<le> tm e"
  by (simp add: expire_filter)

end

subsection \<open>Bounded recency caches\<close>

text \<open>
  The idiom \<open>d[k] = v; d.move_to_end(k); while len(d) > cap: d.popitem(last=False)\<close>: the
  entry becomes the newest, and the oldest entries are evicted down to the capacity.
\<close>

locale recency_cache =
  fixes cap :: nat
    and touch :: "'k \<Rightarrow> 'v \<Rightarrow> ('k, 'v) odict \<Rightarrow> ('k, 'v) odict"
  assumes touch_eq: "touch k v d = pop_excess cap (AList.delete k d @ [(k, v)])"
    and cap_pos: "0 < cap"
begin

lemma length_touch: "length (touch k v d) \<le> cap"
  by (simp add: touch_eq)

lemma touch_snoc: "touch k v d = pop_excess (cap - 1) (AList.delete k d) @ [(k, v)]"
  using cap_pos by (simp add: touch_eq pop_excess_snoc)

lemma touch_wf: "od_wf d \<Longrightarrow> od_wf (touch k v d)"
proof -
  assume "od_wf d"
  then have "od_wf (AList.delete k d)" by simp
  moreover have "k \<notin> set (od_keys (AList.delete k d))" by (simp only: set_keys_delete) simp
  ultimately have "od_wf (AList.delete k d @ [(k, v)])" by simp
  then show ?thesis
    unfolding touch_eq map_pop_excess by (simp only: pop_excess_drop distinct_drop)
qed

lemma touch_newest: "od_wf d \<Longrightarrow> map_of (touch k v d) k = Some v"
proof -
  assume "od_wf d"
  then have "od_wf (touch k v d)" by (rule touch_wf)
  moreover have "(k, v) \<in> set (touch k v d)" by (simp add: touch_snoc)
  ultimately show ?thesis by simp
qed

lemma touch_other:
  "od_wf d \<Longrightarrow> k' \<noteq> k \<Longrightarrow> map_of (touch k v d) k' = Some w \<Longrightarrow> map_of d k' = Some w"
proof -
  assume wf: "od_wf d" and ne: "k' \<noteq> k" and "map_of (touch k v d) k' = Some w"
  then have "(k', w) \<in> set (touch k v d)" by (simp add: map_of_SomeD)
  with ne have "(k', w) \<in> set (pop_excess (cap - 1) (AList.delete k d))"
    by (auto simp: touch_snoc)
  then have "(k', w) \<in> set (AList.delete k d)"
    using set_pop_excess by fast
  then have "(k', w) \<in> set d" by (auto simp: AList.delete_eq)
  with wf show ?thesis by simp
qed

text \<open>
  How long an entry survives: it is still there after any run of touches of other keys that
  names fewer than \<open>cap\<close> of them. The position of the key from the newest end is what
  the induction counts.
\<close>

lemma touch_keys_suffix:
  "k' \<noteq> k \<Longrightarrow> od_keys d = xs @ k' # ys \<Longrightarrow> length ys + 1 < cap \<Longrightarrow>
   \<exists>xs' ys'. od_keys (touch k v d) = xs' @ k' # ys' \<and> length ys' \<le> length ys + 1"
proof -
  assume ne: "k' \<noteq> k" and keys: "od_keys d = xs @ k' # ys" and len: "length ys + 1 < cap"
  let ?f = "filter (\<lambda>a. a \<noteq> k)"
  have "od_keys (AList.delete k d) = ?f (od_keys d)"
    by (simp add: AList.delete_eq filter_map comp_def case_prod_beta' neq_commute)
  then have k1: "od_keys (AList.delete k d @ [(k, v)]) = (?f xs @ k' # ?f ys) @ [k]"
    using ne keys by simp
  let ?zs = "?f ys @ [k]"
  have lz: "length ?zs \<le> length ys + 1" by simp
  have "od_keys (touch k v d) = pop_excess cap (?f xs @ k' # ?zs)"
    by (simp only: touch_eq map_pop_excess k1) simp
  moreover have "length (k' # ?zs) \<le> cap" using lz len by (simp only: list.size)
  then have "pop_excess cap (?f xs @ k' # ?zs) =
      drop (length (?f xs) + length (k' # ?zs) - cap) (?f xs) @ k' # ?zs"
    by (simp add: pop_excess_drop)
  ultimately show ?thesis using lz by metis
qed

end

text \<open>The idiom itself.\<close>

definition touch_key :: "nat \<Rightarrow> 'k \<Rightarrow> 'v \<Rightarrow> ('k, 'v) odict \<Rightarrow> ('k, 'v) odict" where
  "touch_key cap k v d = pop_excess cap (move_to_end k (AList.update k v d))"

lemma touch_key_eq: "touch_key cap k v d = pop_excess cap (AList.delete k d @ [(k, v)])"
  by (simp add: touch_key_def move_to_end_update)

interpretation tk: recency_cache "Suc n" "touch_key (Suc n)"
  by unfold_locales (simp_all add: touch_key_eq)

lemma values_touch_key:
  "set (od_values (touch_key cap k v d)) \<subseteq> insert v (set (od_values d))"
proof -
  have "set (touch_key cap k v d) \<subseteq> set (AList.delete k d @ [(k, v)])"
    unfolding touch_key_eq by (rule set_pop_excess)
  then show ?thesis by (force simp: AList.delete_eq)
qed

lemma pop_excess_all: "length xs \<le> n \<Longrightarrow> pop_excess n xs = xs"
  by (simp add: pop_excess_drop)

lemma touch_key_get:
  assumes "od_wf d" and "length (AList.update k v d) \<le> cap"
  shows "od_get (touch_key cap k v d) k' x = (if k' = k then v else od_get d k' x)"
proof -
  have "length (AList.delete k d @ [(k, v)]) = length (AList.update k v d)"
    using assms(1) by (rule length_delete_snoc)
  then have "touch_key cap k v d = AList.delete k d @ [(k, v)]"
    using assms(2) by (simp only: touch_key_eq pop_excess_all)
  moreover have "map_of (AList.delete k d @ [(k, v)]) k' = (if k' = k then Some v else map_of d k')"
    by (auto simp: map_add_def split: option.splits)
  ultimately show ?thesis by (simp add: od_get_def)
qed

subsection \<open>Invariants of event-driven components\<close>

locale invariant_machine =
  fixes step :: "'e \<Rightarrow> 's \<Rightarrow> 's"
    and good :: "'s \<Rightarrow> bool"
  assumes step_good: "good s \<Longrightarrow> good (step e s)"
begin

lemma run_good: "good s \<Longrightarrow> good (fold step es s)"
  by (induction es arbitrary: s) (auto simp: step_good)

end

end
