(* ===== verification/Resource_Budget.thy ===== *)
theory Resource_Budget
  imports Prelude
begin

text \<open>
  The resource budgets of \<open>performance/resource_budget.py\<close>: the three profiles, the choice of a
  budget from a profile name or from the stored preference, and the write of the preference.
  The preference store is the key-value table behind
  \<open>AuditDatabase.get_background_monitor_state\<close> and \<open>set_background_monitor_state\<close>.
\<close>

datatype ResourceProfile = LOW_RESOURCE | BALANCED_PROFILE | THOROUGH

fun profile_value :: "ResourceProfile \<Rightarrow> string" where
  "profile_value LOW_RESOURCE = ''low_resource''"
| "profile_value BALANCED_PROFILE = ''balanced''"
| "profile_value THOROUGH = ''thorough''"

record ResourceBudget =
  profile :: string
  max_cpu_percent_target :: int
  max_memory_mb_soft :: int
  max_memory_mb_hard :: int
  max_concurrent_tasks :: int
  max_subprocesses :: int
  max_api_requests_per_minute :: int
  api_timeout_seconds :: int
  scan_timeout_seconds :: int
  export_timeout_seconds :: int
  refresh_min_interval_seconds :: int
  low_power_mode_behavior :: string
  battery_mode_behavior :: string
  heavy_refresh_requires_user_action :: bool

definition LOW_RESOURCE_BUDGET :: ResourceBudget where
  "LOW_RESOURCE_BUDGET = \<lparr> profile = profile_value LOW_RESOURCE, max_cpu_percent_target = 35,
     max_memory_mb_soft = 512, max_memory_mb_hard = 1024, max_concurrent_tasks = 1,
     max_subprocesses = 1, max_api_requests_per_minute = 10, api_timeout_seconds = 10,
     scan_timeout_seconds = 60, export_timeout_seconds = 120,
     refresh_min_interval_seconds = 3600, low_power_mode_behavior = ''defer_heavy_work'',
     battery_mode_behavior = ''manual_heavy_refresh_only'',
     heavy_refresh_requires_user_action = True \<rparr>"

definition BALANCED_BUDGET :: ResourceBudget where
  "BALANCED_BUDGET = \<lparr> profile = profile_value BALANCED_PROFILE, max_cpu_percent_target = 55,
     max_memory_mb_soft = 1024, max_memory_mb_hard = 2048, max_concurrent_tasks = 2,
     max_subprocesses = 2, max_api_requests_per_minute = 30, api_timeout_seconds = 15,
     scan_timeout_seconds = 180, export_timeout_seconds = 240,
     refresh_min_interval_seconds = 1800,
     low_power_mode_behavior = ''defer_background_heavy_work'',
     battery_mode_behavior = ''stagger_background_refresh'',
     heavy_refresh_requires_user_action = False \<rparr>"

definition THOROUGH_BUDGET :: ResourceBudget where
  "THOROUGH_BUDGET = \<lparr> profile = profile_value THOROUGH, max_cpu_percent_target = 75,
     max_memory_mb_soft = 2048, max_memory_mb_hard = 4096, max_concurrent_tasks = 3,
     max_subprocesses = 3, max_api_requests_per_minute = 60, api_timeout_seconds = 20,
     scan_timeout_seconds = 600, export_timeout_seconds = 600,
     refresh_min_interval_seconds = 900, low_power_mode_behavior = ''warn_before_heavy_work'',
     battery_mode_behavior = ''allow_user_initiated_heavy_work'',
     heavy_refresh_requires_user_action = False \<rparr>"

definition DEFAULT_RESOURCE_PROFILE :: string where
  "DEFAULT_RESOURCE_PROFILE = profile_value LOW_RESOURCE"

definition budgets :: "(string, ResourceBudget) odict" where
  "budgets = map (\<lambda>b. (profile b, b)) [LOW_RESOURCE_BUDGET, BALANCED_BUDGET, THOROUGH_BUDGET]"

text \<open>\<open>str(profile or DEFAULT_RESOURCE_PROFILE)\<close>: \<open>None\<close> and the empty string both give the default.\<close>

definition budget_for_profile :: "string option \<Rightarrow> ResourceBudget" where
  "budget_for_profile p =
     (let name = (case p of None \<Rightarrow> DEFAULT_RESOURCE_PROFILE
                  | Some s \<Rightarrow> if s = '''' then DEFAULT_RESOURCE_PROFILE else s)
      in case map_of budgets name of Some b \<Rightarrow> b | None \<Rightarrow> BALANCED_BUDGET)"

text \<open>The database read can fail: \<open>None\<close> stands for a raised exception.\<close>

type_synonym monitor_state = "string \<rightharpoonup> string"

definition load_resource_profile_from_db :: "monitor_state option \<Rightarrow> string" where
  "load_resource_profile_from_db db =
     (case db of None \<Rightarrow> DEFAULT_RESOURCE_PROFILE
      | Some m \<Rightarrow> (case m ''performance.resource_profile'' of
                     None \<Rightarrow> DEFAULT_RESOURCE_PROFILE | Some v \<Rightarrow> v))"

definition load_resource_budget ::
  "monitor_state option option \<Rightarrow> string option \<Rightarrow> ResourceBudget" where
  "load_resource_budget db p =
     (if p \<noteq> None \<and> p \<noteq> Some '''' then budget_for_profile p
      else case db of Some d \<Rightarrow> budget_for_profile (Some (load_resource_profile_from_db d))
           | None \<Rightarrow> BALANCED_BUDGET)"

text \<open>\<open>json.dumps\<close> of the budget is left to the parameter \<open>dumps\<close>.\<close>

definition persist_resource_profile ::
  "(ResourceBudget \<Rightarrow> string) \<Rightarrow> monitor_state \<Rightarrow> string \<Rightarrow> ResourceBudget \<times> monitor_state" where
  "persist_resource_profile dumps db p =
     (let b = budget_for_profile (Some p)
      in (b, db(''performance.resource_profile'' \<mapsto> profile b,
                ''performance.resource_budget_json'' \<mapsto> dumps b)))"

lemmas budget_defs = LOW_RESOURCE_BUDGET_def BALANCED_BUDGET_def THOROUGH_BUDGET_def

lemma budgets_lookup:
  "map_of budgets ''low_resource'' = Some LOW_RESOURCE_BUDGET"
  "map_of budgets ''balanced'' = Some BALANCED_BUDGET"
  "map_of budgets ''thorough'' = Some THOROUGH_BUDGET"
  by (simp_all add: budgets_def budget_defs)

lemma budgets_SomeD: "map_of budgets n = Some b \<Longrightarrow> profile b = n \<and> n \<noteq> '''' \<and>
    b \<in> {LOW_RESOURCE_BUDGET, BALANCED_BUDGET, THOROUGH_BUDGET}"
  by (auto simp: budgets_def budget_defs split: if_splits)

lemma budget_for_profile_cases:
  "budget_for_profile p \<in> {LOW_RESOURCE_BUDGET, BALANCED_BUDGET, THOROUGH_BUDGET}"
  by (auto simp: budget_for_profile_def Let_def dest: budgets_SomeD split: option.splits)

lemma budget_positive: "0 < max_concurrent_tasks (budget_for_profile p)"
  using budget_for_profile_cases [of p] by (auto simp: budget_defs)

lemma budget_for_own_profile:
  "budget_for_profile (Some (profile (budget_for_profile p))) = budget_for_profile p"
  using budget_for_profile_cases [of p]
  by (auto simp: budget_for_profile_def budgets_lookup budget_defs)

text \<open>
  The stored profile round-trips: whatever name is persisted (a known profile, the empty
  string or an unknown one), a later load from the same store gives the very budget that
  \<open>persist_resource_profile\<close> returned, and that budget always allows at least one task.
\<close>

theorem persist_then_load_budget:
  "case persist_resource_profile dumps db p of (b, db') \<Rightarrow>
     load_resource_budget (Some (Some db')) None = b \<and> 0 < max_concurrent_tasks b"
  by (simp add: persist_resource_profile_def load_resource_budget_def
      load_resource_profile_from_db_def Let_def budget_for_own_profile budget_positive)

text \<open>
  With neither a database nor a profile name, \<open>load_resource_budget\<close> gives the balanced
  budget, although the declared default profile is the low-resource one, whose budget is
  different: it allows a single concurrent task, the balanced budget two.
\<close>

theorem default_budget_is_not_default_profile:
  "load_resource_budget None None = BALANCED_BUDGET \<and>
   budget_for_profile (Some DEFAULT_RESOURCE_PROFILE) = LOW_RESOURCE_BUDGET \<and>
   max_concurrent_tasks LOW_RESOURCE_BUDGET = 1 \<and> max_concurrent_tasks BALANCED_BUDGET = 2"
  by (simp add: load_resource_budget_def budget_for_profile_def DEFAULT_RESOURCE_PROFILE_def
      budgets_lookup) (simp add: budget_defs)

end
