(* ===== verification/Work_Scheduler.thy ===== *)
theory Work_Scheduler
  imports Resource_Budget "HOL-Library.Multiset"
begin

text \<open>
  The priority scheduler of \<open>performance/work_scheduler.py\<close>. The state record mirrors the
  fields of \<open>WorkScheduler\<close>; each method is a function on it, run under the scheduler's lock and
  therefore atomic. The thread pool is the environment: a submitted future is pending until a
  worker takes it (\<open>worker_start\<close>), and its completion runs the done-callback \<open>complete\<close>. A
  future that is already done when \<open>add_done_callback\<close> is called runs the callback at once,
  inside the drain loop; the parameter \<open>early\<close> of the environment says which ones are.
  Task identifiers (\<open>uuid4\<close>) name the task objects; the callable of a task is part of the
  environment, and its resource estimate is read by nothing here.
\<close>

section \<open>Data\<close>

datatype TaskPriority =
  critical_user_action | user_action | background_high | background_normal | background_low

fun priority_value :: "TaskPriority \<Rightarrow> int" where
  "priority_value critical_user_action = 0"
| "priority_value user_action = 10"
| "priority_value background_high = 30"
| "priority_value background_normal = 50"
| "priority_value background_low = 80"

definition priority_members :: "(string \<times> TaskPriority) list" where
  "priority_members =
     [(''critical_user_action'', critical_user_action), (''user_action'', user_action),
      (''background_high'', background_high), (''background_normal'', background_normal),
      (''background_low'', background_low)]"

definition priority_of :: "string \<Rightarrow> int" where
  "priority_of name = (case map_of priority_members name of
     Some p \<Rightarrow> priority_value p | None \<Rightarrow> priority_value background_normal)"

datatype TaskStatus =
  queued | running | succeeded | failed | cancelled | skipped_deduped | skipped_cooldown

definition terminal_status :: "TaskStatus \<Rightarrow> bool" where
  "terminal_status st \<longleftrightarrow>
     st \<in> {succeeded, failed, cancelled, skipped_deduped, skipped_cooldown}"

record 'r ScheduledTask =
  task_type :: string
  subsystem :: string
  task_priority :: string
  dedupe_key :: string
  timeout_seconds :: int
  task_id :: string
  created_at :: string
  started_at :: string
  completed_at :: string
  cancellation_token :: bool
  status :: TaskStatus
  task_error :: string
  result :: "'r option"

datatype 'r outcome = Returned "'r option" | Raised string

datatype future_state = Pending | Executing

record 'r WorkScheduler =
  budget :: ResourceBudget
  queue :: "(int \<times> pyfloat \<times> string) list"
  tasks :: "(string, 'r ScheduledTask) odict"
  running_by_dedupe :: "(string, string) odict"
  last_started_by_dedupe :: "(string, pyfloat) odict"
  active_futures :: "(string, future_state) odict"
  shutdown_flag :: bool
  max_task_history :: nat

text \<open>What an operation reads from outside: \<open>utc_now_iso\<close> and \<open>time.monotonic\<close> at the moment
  a task is touched, and the futures that finish before their callback is attached.\<close>

record 'r environment =
  clock_iso :: "string \<Rightarrow> string"
  clock_mono :: "string \<Rightarrow> pyfloat"
  early :: "string \<Rightarrow> 'r outcome option"

definition new_scheduler :: "ResourceBudget \<Rightarrow> int \<Rightarrow> 'r WorkScheduler" where
  "new_scheduler b history = \<lparr> budget = b, queue = [], tasks = [], running_by_dedupe = [],
     last_started_by_dedupe = [], active_futures = [], shutdown_flag = False,
     max_task_history = nat (max 50 history) \<rparr>"

section \<open>The heap\<close>

text \<open>
  \<open>heapq\<close> on tuples \<open>(priority, time, id)\<close>: the scheduler observes its heap only through
  push, pop of the least entry, length and clear, so the heap is the sorted list of its entries.
\<close>

definition heappush :: "'a::linorder list \<Rightarrow> 'a \<Rightarrow> 'a list" where
  "heappush h x = insort x h"

fun heappop :: "'a::linorder list \<Rightarrow> ('a \<times> 'a list) option" where
  "heappop [] = None"
| "heappop (x # h) = Some (x, h)"

locale heap_queue =
  fixes push :: "'q \<Rightarrow> 'a::linorder \<Rightarrow> 'q"
    and pop :: "'q \<Rightarrow> ('a \<times> 'q) option"
    and content :: "'q \<Rightarrow> 'a multiset"
    and heap_ok :: "'q \<Rightarrow> bool"
  assumes content_push: "content (push h x) = add_mset x (content h)"
    and push_ok: "heap_ok h \<Longrightarrow> heap_ok (push h x)"
    and pop_None: "pop h = None \<longleftrightarrow> content h = {#}"
    and pop_content: "pop h = Some (x, h') \<Longrightarrow> content h = add_mset x (content h')"
    and pop_least: "heap_ok h \<Longrightarrow> pop h = Some (x, h') \<Longrightarrow> y \<in># content h \<Longrightarrow> x \<le> y"
    and pop_ok: "heap_ok h \<Longrightarrow> pop h = Some (x, h') \<Longrightarrow> heap_ok h'"
begin

lemma pop_is_Min: "heap_ok h \<Longrightarrow> pop h = Some (x, h') \<Longrightarrow> x = Min (set_mset (content h))"
proof -
  assume ok: "heap_ok h" and p: "pop h = Some (x, h')"
  have "x \<in># content h" using pop_content [OF p] by simp
  moreover have "\<And>y. y \<in># content h \<Longrightarrow> x \<le> y" using pop_least [OF ok p] .
  ultimately show ?thesis by (intro Min_eqI [symmetric]) auto
qed

lemma push_pop_bound:
  "heap_ok h \<Longrightarrow> pop (push h x) = Some (y, h') \<Longrightarrow> y \<le> x"
  using pop_least [OF push_ok] content_push by fastforce

end

interpretation hq: heap_queue heappush heappop mset sorted
proof unfold_locales
  fix h :: "'a list" and x y :: 'a and h' :: "'a list"
  show "mset (heappush h x) = add_mset x (mset h)" by (simp add: heappush_def)
  show "sorted h \<Longrightarrow> sorted (heappush h x)" by (simp add: heappush_def sorted_insort)
  show "heappop h = None \<longleftrightarrow> mset h = {#}" by (cases h) auto
  show "heappop h = Some (x, h') \<Longrightarrow> mset h = add_mset x (mset h')" by (cases h) auto
  show "sorted h \<Longrightarrow> heappop h = Some (x, h') \<Longrightarrow> y \<in># mset h \<Longrightarrow> x \<le> y" by (cases h) auto
  show "sorted h \<Longrightarrow> heappop h = Some (x, h') \<Longrightarrow> sorted h'" by (cases h) auto
qed

section \<open>Operations\<close>

definition upd_task ::
  "string \<Rightarrow> ('r ScheduledTask \<Rightarrow> 'r ScheduledTask) \<Rightarrow> 'r WorkScheduler \<Rightarrow> 'r WorkScheduler" where
  "upd_task tid f s = (case map_of (tasks s) tid of None \<Rightarrow> s
     | Some t \<Rightarrow> s\<lparr>tasks := AList.update tid (f t) (tasks s)\<rparr>)"

text \<open>The history limit of \<open>_complete\<close>: \<open>completed_ids[:-history]\<close> are dropped.\<close>

definition completed_ids :: "'r WorkScheduler \<Rightarrow> string list" where
  "completed_ids s = map fst (filter (\<lambda>(i, t). terminal_status (status t)) (tasks s))"

definition prune_history :: "'r WorkScheduler \<Rightarrow> 'r WorkScheduler" where
  "prune_history s =
     (let ids = completed_ids s; old = take (length ids - max_task_history s) ids
      in s\<lparr>tasks := fold AList.delete old (tasks s)\<rparr>)"

text \<open>The body of \<open>_complete\<close> under the lock. \<open>None\<close>: the task is gone and the method returns
  without draining.\<close>

definition settle_task :: "string \<Rightarrow> 'r outcome \<Rightarrow> 'r ScheduledTask \<Rightarrow> 'r ScheduledTask" where
  "settle_task stamp out t =
     (case out of
        Returned v \<Rightarrow> (let t1 = t\<lparr>result := v\<rparr> in
           if status t1 \<noteq> cancelled then t1\<lparr>status := succeeded, completed_at := stamp\<rparr>
           else t1\<lparr>completed_at := stamp\<rparr>)
      | Raised e \<Rightarrow> t\<lparr>task_error := e, status := failed, completed_at := stamp\<rparr>)"

definition complete_body ::
  "'r environment \<Rightarrow> string \<Rightarrow> 'r outcome \<Rightarrow> 'r WorkScheduler \<Rightarrow> 'r WorkScheduler option" where
  "complete_body env tid out s =
     (let fut = map_of (active_futures s) tid;
          s1 = s\<lparr>active_futures := AList.delete tid (active_futures s)\<rparr>
      in case map_of (tasks s1) tid of None \<Rightarrow> None
         | Some t \<Rightarrow>
           (let out' = (if fut = None then Returned None else out);
                key = dedupe_key t;
                mine = (key \<noteq> '''' \<and> map_of (running_by_dedupe s1) key = Some tid)
            in Some (prune_history (s1\<lparr>
                 tasks := AList.update tid (settle_task (clock_iso env tid) out' t) (tasks s1),
                 running_by_dedupe := (if mine then AList.delete key (running_by_dedupe s1)
                                       else running_by_dedupe s1)\<rparr>))))"

text \<open>The part of the loop of \<open>_drain\<close> that starts a task: its record, the dedupe tables, and the
  submitted future.\<close>

definition start_task ::
  "'r environment \<Rightarrow> string \<Rightarrow> 'r ScheduledTask \<Rightarrow> 'r WorkScheduler \<Rightarrow> 'r WorkScheduler" where
  "start_task env tid t s =
     (let t1 = t\<lparr>status := running, started_at := clock_iso env tid\<rparr>;
          s1 = s\<lparr>tasks := AList.update tid t1 (tasks s)\<rparr>;
          s2 = (if dedupe_key t \<noteq> '''' then
                  s1\<lparr>running_by_dedupe := AList.update (dedupe_key t) (task_id t) (running_by_dedupe s1),
                     last_started_by_dedupe :=
                       AList.update (dedupe_key t) (clock_mono env tid) (last_started_by_dedupe s1)\<rparr>
                else s1)
      in s2\<lparr>active_futures := AList.update tid Pending (active_futures s2)\<rparr>)"

definition drop_future :: "string \<Rightarrow> 'r WorkScheduler \<Rightarrow> 'r WorkScheduler" where
  "drop_future tid s = s\<lparr>active_futures := AList.delete tid (active_futures s)\<rparr>"

lemma queue_upd_task [simp]: "queue (upd_task tid f s) = queue s"
  by (simp add: upd_task_def split: option.splits)

lemma queue_prune_history [simp]: "queue (prune_history s) = queue s"
  by (simp add: prune_history_def Let_def)

lemma queue_complete_body: "complete_body env tid out s = Some s' \<Longrightarrow> queue s' = queue s"
  by (auto simp: complete_body_def Let_def split: option.splits if_splits)

lemma queue_start_task [simp]: "queue (start_task env tid t s) = queue s"
  by (simp add: start_task_def Let_def)

lemma queue_drop_future [simp]: "queue (drop_future tid s) = queue s"
  by (simp add: drop_future_def)

lemma heappop_length: "heappop h = Some (x, h') \<Longrightarrow> length h = Suc (length h')"
  by (cases h) auto

text \<open>
  The loop of \<open>_drain\<close>. \<open>self._tasks[task_id]\<close> raises \<open>KeyError\<close> for an identifier that is no
  longer in the table, and the entry has left the heap by then. A future that is done before its
  callback is attached completes its task inside the loop, which drains recursively; an exception
  of that nested call is logged and dropped by \<open>concurrent.futures\<close>, and the loop goes on.
\<close>

function drain :: "'r environment \<Rightarrow> 'r WorkScheduler \<Rightarrow> py_error option \<times> 'r WorkScheduler" where
  "drain env s =
     (if shutdown_flag s then (None, s)
      else case heappop (queue s) of
        None \<Rightarrow> (None, s)
      | Some ((_, _, tid), q) \<Rightarrow>
          if int (length (active_futures s)) < max_concurrent_tasks (budget s) then
            (case map_of (tasks s) tid of
               None \<Rightarrow> (Some (KeyError tid), s\<lparr>queue := q\<rparr>)
             | Some t \<Rightarrow>
                 if cancellation_token t then
                   drain env (upd_task tid
                     (\<lambda>t. t\<lparr>status := cancelled, completed_at := clock_iso env tid\<rparr>) (s\<lparr>queue := q\<rparr>))
                 else
                   (let s1 = start_task env tid t (s\<lparr>queue := q\<rparr>) in
                    case early env tid of None \<Rightarrow> drain env s1
                    | Some out \<Rightarrow> (case complete_body env tid out s1 of
                         None \<Rightarrow> drain env (drop_future tid s1)
                       | Some s2 \<Rightarrow> drain env (snd (drain env s2)))))
          else (None, s))"
  by pat_completeness auto

lemma drain_queue_le:
  "drain_dom (env, s) \<Longrightarrow> length (queue (snd (drain env s))) \<le> length (queue s)"
proof (induction env s rule: drain.pinduct)
  case (1 env s)
  note IH = 1(2-)
  show ?case
  proof (cases "shutdown_flag s \<or> heappop (queue s) = None \<or>
      \<not> int (length (active_futures s)) < max_concurrent_tasks (budget s)")
    case True
    then show ?thesis
      by (subst drain.psimps [OF 1(1)]) (auto split: option.splits)
  next
    case False
    then obtain a b tid q where pop: "heappop (queue s) = Some ((a, b, tid), q)"
      by (metis option.exhaust surj_pair)
    note len = heappop_length [OF pop]
    show ?thesis
    proof (cases "map_of (tasks s) tid")
      case None
      with False pop len show ?thesis by (subst drain.psimps [OF 1(1)]) auto
    next
      case (Some t)
      show ?thesis
      proof (cases "cancellation_token t")
        case True
        with False pop Some len IH(1) [OF _ pop refl refl refl _ Some True] show ?thesis
          by (subst drain.psimps [OF 1(1)]) auto
      next
        case tok: False
        let ?s1 = "start_task env tid t (s\<lparr>queue := q\<rparr>)"
        consider (late) "early env tid = None"
          | (gone) out where "early env tid = Some out" "complete_body env tid out ?s1 = None"
          | (now) out s2 where "early env tid = Some out" "complete_body env tid out ?s1 = Some s2"
          by (cases "early env tid"; cases "complete_body env tid (the (early env tid)) ?s1") auto
        then show ?thesis
        proof cases
          case late
          with False pop Some len tok IH(2) [OF _ pop refl refl refl _ Some tok refl late] show ?thesis
            by (subst drain.psimps [OF 1(1)]) auto
        next
          case gone
          with False pop Some len tok IH(3) [OF _ pop refl refl refl _ Some tok refl gone] show ?thesis
            by (subst drain.psimps [OF 1(1)]) auto
        next
          case now
          have "queue s2 = q" using queue_complete_body [OF now(2)] by simp
          with False pop Some len tok now IH(4,5) [OF _ pop refl refl refl _ Some tok refl now] show ?thesis
            by (subst drain.psimps [OF 1(1)]) auto
        qed
      qed
    qed
  qed
qed

termination drain
proof (relation "measure (\<lambda>(env, s). length (queue s))", goal_cases)
  case (6 env s x p q a b pr tid t s1 out s2)
  then have "queue s2 = q" and "length (queue s) = Suc (length q)"
    using queue_complete_body [OF 6(11)] heappop_length by auto
  with drain_queue_le [OF 6(12)] show ?case by simp
qed (auto dest!: heappop_length queue_complete_body)

declare drain.simps [simp del]

lemma complete_body_started: "complete_body env tid out (start_task env tid t s) \<noteq> None"
  by (simp add: complete_body_def start_task_def Let_def)

text \<open>The loop as a case analysis: it stops, meets a pruned identifier, skips a cancelled task,
  or starts a task whose future is done early or not.\<close>

definition drain_blocked :: "'r WorkScheduler \<Rightarrow> bool" where
  "drain_blocked s \<longleftrightarrow> shutdown_flag s \<or> queue s = [] \<or>
     max_concurrent_tasks (budget s) \<le> int (length (active_futures s))"

definition mark_cancelled :: "'r environment \<Rightarrow> string \<Rightarrow> 'r WorkScheduler \<Rightarrow> 'r WorkScheduler" where
  "mark_cancelled env tid =
     upd_task tid (\<lambda>t. t\<lparr>status := cancelled, completed_at := clock_iso env tid\<rparr>)"

lemma drain_stop: "drain_blocked s \<Longrightarrow> drain env s = (None, s)"
  by (subst drain.simps) (auto simp: drain_blocked_def split: option.splits)

lemma drain_pop:
  assumes "\<not> drain_blocked s" and "queue s = (a, b, tid) # q"
  shows "drain env s = (case map_of (tasks s) tid of
       None \<Rightarrow> (Some (KeyError tid), s\<lparr>queue := q\<rparr>)
     | Some t \<Rightarrow> if cancellation_token t then drain env (mark_cancelled env tid (s\<lparr>queue := q\<rparr>))
         else let s1 = start_task env tid t (s\<lparr>queue := q\<rparr>) in
           case early env tid of None \<Rightarrow> drain env s1
           | Some out \<Rightarrow> drain env (snd (drain env (the (complete_body env tid out s1)))))"
  using assms by (subst drain.simps)
    (auto simp: drain_blocked_def mark_cancelled_def Let_def complete_body_started
      split: option.splits)

lemma drain_induct [case_names Stop Missing Cancelled Late Early]:
  fixes Q :: "'r WorkScheduler \<Rightarrow> py_error option \<times> 'r WorkScheduler \<Rightarrow> bool"
  assumes stop: "\<And>s. drain_blocked s \<Longrightarrow> Q s (None, s)"
    and missing: "\<And>s a b tid q. \<not> drain_blocked s \<Longrightarrow> queue s = (a, b, tid) # q \<Longrightarrow>
      map_of (tasks s) tid = None \<Longrightarrow> Q s (Some (KeyError tid), s\<lparr>queue := q\<rparr>)"
    and cancelled: "\<And>s a b tid q t r. \<not> drain_blocked s \<Longrightarrow> queue s = (a, b, tid) # q \<Longrightarrow>
      map_of (tasks s) tid = Some t \<Longrightarrow> cancellation_token t \<Longrightarrow>
      Q (mark_cancelled env tid (s\<lparr>queue := q\<rparr>)) r \<Longrightarrow> Q s r"
    and late: "\<And>s a b tid q t r. \<not> drain_blocked s \<Longrightarrow> queue s = (a, b, tid) # q \<Longrightarrow>
      map_of (tasks s) tid = Some t \<Longrightarrow> \<not> cancellation_token t \<Longrightarrow>
      Q (start_task env tid t (s\<lparr>queue := q\<rparr>)) r \<Longrightarrow> Q s r"
    and early: "\<And>s a b tid q t out s2 r2 r. \<not> drain_blocked s \<Longrightarrow> queue s = (a, b, tid) # q \<Longrightarrow>
      map_of (tasks s) tid = Some t \<Longrightarrow> \<not> cancellation_token t \<Longrightarrow>
      complete_body env tid out (start_task env tid t (s\<lparr>queue := q\<rparr>)) = Some s2 \<Longrightarrow>
      Q s2 r2 \<Longrightarrow> Q (snd r2) r \<Longrightarrow> Q s r"
  shows "Q s (drain env s)"
proof -
  have "Q s (drain env s) \<and> length (queue (snd (drain env s))) \<le> length (queue s)" (is "?R s")
  proof (induction "length (queue s)" arbitrary: s rule: less_induct)
    case less
    show ?case
    proof (cases "drain_blocked s")
      case True
      then show ?thesis by (simp add: drain_stop stop)
    next
      case nb: False
      then obtain a b tid q where q: "queue s = (a, b, tid) # q"
        by (metis drain_blocked_def neq_Nil_conv prod_cases3)
      note pop = drain_pop [OF nb q, of env]
      consider (none) "map_of (tasks s) tid = None"
        | (tok) t where "map_of (tasks s) tid = Some t" "cancellation_token t"
        | (late) t where "map_of (tasks s) tid = Some t" "\<not> cancellation_token t" "early env tid = None"
        | (early) t out where "map_of (tasks s) tid = Some t" "\<not> cancellation_token t"
            "early env tid = Some out"
        by (cases "map_of (tasks s) tid"; cases "early env tid") auto
      then show ?thesis
      proof cases
        case none
        with missing [OF nb q] pop q show ?thesis by simp
      next
        case (tok t)
        with cancelled [OF nb q tok] less [of "mark_cancelled env tid (s\<lparr>queue := q\<rparr>)"] pop q
        show ?thesis by (simp add: mark_cancelled_def)
      next
        case (late t)
        with assms(4) [OF nb q late(1,2)] less [of "start_task env tid t (s\<lparr>queue := q\<rparr>)"] pop q
        show ?thesis by simp
      next
        case (early t out)
        let ?s1 = "start_task env tid t (s\<lparr>queue := q\<rparr>)"
        obtain s2 where s2: "complete_body env tid out ?s1 = Some s2"
          using complete_body_started [of env tid out t "s\<lparr>queue := q\<rparr>"] by auto
        have l2: "queue s2 = q" using queue_complete_body [OF s2] by simp
        then have r2: "?R s2" using less [of s2] q by simp
        then have r3: "?R (snd (drain env s2))" using less [of "snd (drain env s2)"] q l2 by simp
        have "drain env s = drain env (snd (drain env s2))" using pop early s2 by simp
        moreover have "Q s (drain env (snd (drain env s2)))"
          by (rule assms(5) [OF nb q early(1,2) s2]) (use r2 r3 in blast)+
        ultimately show ?thesis using r2 r3 q l2 by simp
      qed
    qed
  qed
  then show ?thesis by simp
qed

text \<open>The done-callback \<open>_complete\<close>: \<open>concurrent.futures\<close> drops its exceptions, so it always
  leaves a state.\<close>

definition complete ::
  "'r environment \<Rightarrow> string \<Rightarrow> 'r outcome \<Rightarrow> 'r WorkScheduler \<Rightarrow> 'r WorkScheduler" where
  "complete env tid out s = (case complete_body env tid out s of
     None \<Rightarrow> drop_future tid s | Some s' \<Rightarrow> snd (drain env s'))"

datatype 'r scheduled = Refused "'r ScheduledTask" | Enqueued

definition schedule ::
  "'r environment \<Rightarrow> pyfloat \<Rightarrow> 'r ScheduledTask \<Rightarrow> int \<Rightarrow> 'r WorkScheduler \<Rightarrow>
   'r scheduled py \<times> 'r WorkScheduler" where
  "schedule env now t cooldown s =
     (if shutdown_flag s then
        (Inr (Refused (t\<lparr>status := cancelled, task_error := ''scheduler is shutting down'',
                         completed_at := clock_iso env (task_id t)\<rparr>)), s)
      else if dedupe_key t \<noteq> '''' \<and> dedupe_key t \<in> set (od_keys (running_by_dedupe s)) then
        (Inr (Refused (t\<lparr>status := skipped_deduped\<rparr>)), s)
      else if dedupe_key t \<noteq> '''' \<and> 0 < cooldown \<and>
        now - (case map_of (last_started_by_dedupe s) (dedupe_key t) of None \<Rightarrow> 0 | Some l \<Rightarrow> l)
          < of_int cooldown then
        (Inr (Refused (t\<lparr>status := skipped_cooldown\<rparr>)), s)
      else
        let s1 = s\<lparr>tasks := AList.update (task_id t) t (tasks s),
                   queue := heappush (queue s) (priority_of (task_priority t), now, task_id t)\<rparr>
        in case drain env s1 of
             (Some e, s2) \<Rightarrow> (Inl e, s2)
           | (None, s2) \<Rightarrow> (Inr Enqueued, s2))"

text \<open>A worker takes a pending future and enters \<open>_run_task\<close>, which returns \<open>None\<close> at once when
  the token is set (and so completes) and otherwise calls the task.\<close>

definition worker_start ::
  "'r environment \<Rightarrow> string \<Rightarrow> 'r WorkScheduler \<Rightarrow> 'r WorkScheduler" where
  "worker_start env tid s =
     (case map_of (tasks s) tid of
        Some t \<Rightarrow> if cancellation_token t
           then complete env tid (Returned None) (upd_task tid (\<lambda>t. t\<lparr>status := cancelled\<rparr>) s)
           else s\<lparr>active_futures := AList.update tid Executing (active_futures s)\<rparr>
      | None \<Rightarrow> s\<lparr>active_futures := AList.update tid Executing (active_futures s)\<rparr>)"

text \<open>\<open>future.cancel()\<close> cancels a future no worker has taken, whose callback then runs
  \<open>_complete\<close> with a \<open>CancelledError\<close> (whose message is empty).\<close>

definition future_cancel ::
  "'r environment \<Rightarrow> string \<Rightarrow> 'r WorkScheduler \<Rightarrow> 'r WorkScheduler" where
  "future_cancel env tid s = (case map_of (active_futures s) tid of
     Some Pending \<Rightarrow> complete env tid (Raised '''') s | _ \<Rightarrow> s)"

definition cancel ::
  "'r environment \<Rightarrow> string \<Rightarrow> 'r WorkScheduler \<Rightarrow> bool \<times> 'r WorkScheduler" where
  "cancel env tid s =
     (case map_of (tasks s) tid of
        None \<Rightarrow> (False, s)
      | Some t \<Rightarrow> (True, upd_task tid (\<lambda>t. t\<lparr>status := cancelled\<rparr>)
                     (future_cancel env tid (upd_task tid (\<lambda>t. t\<lparr>cancellation_token := True\<rparr>) s))))"

definition cancellable :: "'r ScheduledTask \<Rightarrow> bool" where
  "cancellable t \<longleftrightarrow> status t \<in> {queued, running}"

definition cancel_background_tasks :: "'r WorkScheduler \<Rightarrow> nat \<times> 'r WorkScheduler" where
  "cancel_background_tasks s =
     (let hit = (\<lambda>t. startswith (task_priority t) ''background'' \<and> cancellable t)
      in (length (filter (\<lambda>(i, t). hit t) (tasks s)),
          s\<lparr>tasks := map (\<lambda>(i, t). (i, if hit t then t\<lparr>cancellation_token := True, status := cancelled\<rparr>
                                     else t)) (tasks s)\<rparr>))"

definition cancel_futures ::
  "'r environment \<Rightarrow> string list \<Rightarrow> 'r WorkScheduler \<Rightarrow> 'r WorkScheduler" where
  "cancel_futures env ids s = fold (future_cancel env) ids s"

record shutdown_result =
  sd_cancelled :: nat
  sd_completed :: nat
  sd_still_running :: nat

text \<open>\<open>waited\<close> is what \<open>concurrent.futures.wait\<close> answers for the futures it is given: how many
  were done before the timeout and how many were not. \<open>executor.shutdown(cancel_futures=True)\<close>
  then cancels what is still pending.\<close>

definition shutdown ::
  "'r environment \<Rightarrow> bool \<Rightarrow> (string list \<Rightarrow> nat \<times> nat) \<Rightarrow> 'r WorkScheduler \<Rightarrow>
   shutdown_result \<times> 'r WorkScheduler" where
  "shutdown env do_cancel waited s =
     (if shutdown_flag s then
        (\<lparr>sd_cancelled = 0, sd_completed = 0, sd_still_running = length (active_futures s)\<rparr>, s)
      else
        let s1 = s\<lparr>shutdown_flag := True, queue := []\<rparr>;
            futures = od_keys (active_futures s);
            n = (if do_cancel then length (filter (\<lambda>(i, t). cancellable t) (tasks s)) else 0);
            s2 = (if do_cancel then s1\<lparr>tasks := map (\<lambda>(i, t). (i, if cancellable t
                    then t\<lparr>cancellation_token := True, status := cancelled, completed_at := clock_iso env i\<rparr>
                    else t)) (tasks s1)\<rparr> else s1);
            s3 = (if do_cancel then cancel_futures env futures s2 else s2);
            (done, pending) = (if futures = [] then (0, 0) else waited futures);
            s4 = cancel_futures env (od_keys (active_futures s3)) s3
        in (\<lparr>sd_cancelled = n, sd_completed = done, sd_still_running = pending\<rparr>, s4))"

record task_row =
  row_task_id :: string
  row_task_type :: string
  row_subsystem :: string
  row_priority :: string
  row_dedupe_key :: string
  row_status :: TaskStatus
  row_created_at :: string
  row_started_at :: string
  row_completed_at :: string
  row_error :: string

record scheduler_snapshot =
  snap_budget :: ResourceBudget
  snap_queued :: nat
  snap_running :: nat
  snap_tasks :: "task_row list"

definition task_row_of :: "'r ScheduledTask \<Rightarrow> task_row" where
  "task_row_of t = \<lparr> row_task_id = task_id t, row_task_type = task_type t,
     row_subsystem = subsystem t, row_priority = task_priority t, row_dedupe_key = dedupe_key t,
     row_status = status t, row_created_at = created_at t, row_started_at = started_at t,
     row_completed_at = completed_at t, row_error = task_error t \<rparr>"

definition snapshot :: "'r WorkScheduler \<Rightarrow> scheduler_snapshot" where
  "snapshot s = (let rows = map (task_row_of \<circ> snd) (tasks s) in
     \<lparr> snap_budget = budget s, snap_queued = length (queue s),
       snap_running = length (active_futures s),
       snap_tasks = drop (length rows - 100) rows \<rparr>)"

definition get_global_scheduler ::
  "ResourceBudget option \<Rightarrow> 'r WorkScheduler option \<Rightarrow> 'r WorkScheduler" where
  "get_global_scheduler b g =
     (case g of
        Some s \<Rightarrow> if shutdown_flag s
          then new_scheduler (case b of Some x \<Rightarrow> x | None \<Rightarrow> load_resource_budget None None) 500 else s
      | None \<Rightarrow> new_scheduler (case b of Some x \<Rightarrow> x | None \<Rightarrow> load_resource_budget None None) 500)"

section \<open>Runs\<close>

text \<open>A step is one method call or one event of the thread pool.\<close>

inductive sched_step :: "'r WorkScheduler \<Rightarrow> 'r WorkScheduler \<Rightarrow> bool" where
  step_schedule: "schedule env now t cooldown s = (r, s') \<Longrightarrow> sched_step s s'"
| step_start: "map_of (active_futures s) tid = Some Pending \<Longrightarrow> sched_step s (worker_start env tid s)"
| step_finish: "map_of (active_futures s) tid = Some Executing \<Longrightarrow>
    sched_step s (complete env tid out s)"
| step_cancel: "cancel env tid s = (b, s') \<Longrightarrow> sched_step s s'"
| step_cancel_background: "cancel_background_tasks s = (n, s') \<Longrightarrow> sched_step s s'"
| step_shutdown: "shutdown env do_cancel waited s = (r, s') \<Longrightarrow> sched_step s s'"

inductive sched_reachable :: "ResourceBudget \<Rightarrow> int \<Rightarrow> 'r WorkScheduler \<Rightarrow> bool" for b h where
  reach_new: "sched_reachable b h (new_scheduler b h)"
| reach_step: "sched_reachable b h s \<Longrightarrow> sched_step s s' \<Longrightarrow> sched_reachable b h s'"

lemma od_wf_fold_delete: "od_wf d \<Longrightarrow> od_wf (fold AList.delete ks d)"
  by (induction ks arbitrary: d) auto

lemma fst_map_values [simp]: "fst \<circ> (\<lambda>(i, t). (i, f i t)) = fst"
  by auto

lemma complete_body_shape:
  "complete_body env tid out s = Some s' \<Longrightarrow>
   \<exists>t rs. s' = prune_history (s\<lparr>active_futures := AList.delete tid (active_futures s),
     tasks := AList.update tid t (tasks s), running_by_dedupe := rs\<rparr>)"
  unfolding complete_body_def Let_def by (cases "map_of (tasks s) tid") auto

text \<open>
  The interface an invariant of the scheduler has to meet: it is kept by each elementary change
  the operations are made of. Then every operation and every run keeps it.
\<close>

locale scheduler_invariant =
  fixes P :: "'r WorkScheduler \<Rightarrow> bool"
  assumes keeps_pop: "P s \<Longrightarrow> heappop (queue s) = Some (x, q) \<Longrightarrow> P (s\<lparr>queue := q\<rparr>)"
    and keeps_push: "P s \<Longrightarrow> \<not> shutdown_flag s \<Longrightarrow> P (s\<lparr>queue := heappush (queue s) x\<rparr>)"
    and keeps_tasks: "P s \<Longrightarrow> (od_wf (tasks s) \<Longrightarrow> od_wf ts) \<Longrightarrow> P (s\<lparr>tasks := ts\<rparr>)"
    and keeps_start: "P s \<Longrightarrow> \<not> shutdown_flag s \<Longrightarrow>
      int (length (active_futures s)) < max_concurrent_tasks (budget s) \<Longrightarrow>
      P (start_task env tid t s)"
    and keeps_drop: "P s \<Longrightarrow> P (drop_future tid s)"
    and keeps_dedupe: "P s \<Longrightarrow> P (s\<lparr>running_by_dedupe := rs\<rparr>)"
    and keeps_exec: "P s \<Longrightarrow> tid \<in> set (od_keys (active_futures s)) \<Longrightarrow>
      P (s\<lparr>active_futures := AList.update tid Executing (active_futures s)\<rparr>)"
    and keeps_shutdown: "P s \<Longrightarrow> P (s\<lparr>shutdown_flag := True, queue := []\<rparr>)"
begin

lemma keeps_prune: "P s \<Longrightarrow> P (prune_history s)"
  unfolding prune_history_def Let_def by (rule keeps_tasks) (auto intro: od_wf_fold_delete)

lemma keeps_upd_task: "P s \<Longrightarrow> P (upd_task tid f s)"
  by (simp add: upd_task_def keeps_tasks split: option.splits)

lemma keeps_body:
  assumes P: "P s" and body: "complete_body env tid out s = Some s'"
  shows "P s'"
proof -
  obtain t rs where s': "s' = prune_history
      ((drop_future tid s)\<lparr>tasks := AList.update tid t (tasks s), running_by_dedupe := rs\<rparr>)"
    using complete_body_shape [OF body] by (auto simp: drop_future_def)
  show ?thesis unfolding s'
    by (intro keeps_prune keeps_dedupe keeps_tasks keeps_drop P) (simp add: drop_future_def)
qed

lemma keeps_drain: "P s \<Longrightarrow> P (snd (drain env s))"
proof (rule drain_induct [where env = env and Q = "\<lambda>s r. P s \<longrightarrow> P (snd r)", THEN mp], goal_cases)
  case (4 s a b tid q t r)
  then show ?case
    using keeps_pop [of s] by (auto simp: drain_blocked_def intro!: keeps_start)
next
  case (5 s a b tid q t out s2 r2 r)
  then have "P s \<Longrightarrow> P (start_task env tid t (s\<lparr>queue := q\<rparr>))"
    using keeps_pop [of s] by (auto simp: drain_blocked_def intro!: keeps_start)
  with 5 show ?case using keeps_body by blast
qed (auto simp: mark_cancelled_def keeps_upd_task keeps_pop)

lemma keeps_complete: "P s \<Longrightarrow> P (complete env tid out s)"
  by (auto simp: complete_def keeps_drop keeps_drain dest: keeps_body split: option.splits)

lemma keeps_schedule: "P s \<Longrightarrow> schedule env now t cd s = (r, s') \<Longrightarrow> P s'"
proof -
  assume P: "P s" and sch: "schedule env now t cd s = (r, s')"
  let ?t1 = "s\<lparr>tasks := AList.update (task_id t) t (tasks s)\<rparr>"
  let ?s1 = "?t1\<lparr>queue := heappush (queue s) (priority_of (task_priority t), now, task_id t)\<rparr>"
  have "\<not> shutdown_flag s \<Longrightarrow> P (snd (drain env ?s1))"
    using keeps_push [OF keeps_tasks [OF P]] by (auto intro!: keeps_drain)
  moreover have "s' = s \<or> \<not> shutdown_flag s \<and> s' = snd (drain env ?s1)"
    using sch by (cases "drain env ?s1")
      (auto simp: schedule_def Let_def split: if_split_asm option.split_asm)
  ultimately show ?thesis using P by auto
qed

lemma keeps_future_cancel: "P s \<Longrightarrow> P (future_cancel env tid s)"
  by (simp add: future_cancel_def keeps_complete split: option.splits future_state.splits)

lemma keeps_cancel_futures: "P s \<Longrightarrow> P (cancel_futures env ids s)"
  unfolding cancel_futures_def
  by (induction ids arbitrary: s) (auto simp: keeps_future_cancel)

lemma keeps_shutdown_op: "P s \<Longrightarrow> shutdown env do_cancel waited s = (r, s') \<Longrightarrow> P s'"
  by (auto simp: shutdown_def Let_def keeps_shutdown
      split: if_splits prod.splits intro!: keeps_cancel_futures keeps_tasks)

lemma keeps_step: "sched_step s s' \<Longrightarrow> P s \<Longrightarrow> P s'"
proof (induction rule: sched_step.induct)
  case (step_start s tid env)
  then have "tid \<in> set (od_keys (active_futures s))"
    by (force dest: map_of_SomeD)
  with step_start show ?case
    by (simp add: worker_start_def keeps_exec keeps_complete keeps_upd_task split: option.splits)
next
  case (step_cancel env tid s b s')
  then show ?case
    by (auto simp: cancel_def keeps_upd_task keeps_future_cancel split: option.splits)
next
  case (step_cancel_background s n s')
  then show ?case
    by (auto simp: cancel_background_tasks_def Let_def intro!: keeps_tasks)
qed (auto intro: keeps_schedule keeps_complete keeps_shutdown_op)

lemma keeps_reachable: "sched_reachable b h s \<Longrightarrow> P (new_scheduler b h) \<Longrightarrow> P s"
  by (induction rule: sched_reachable.induct) (auto intro: keeps_step)

end

definition sched_ok :: "ResourceBudget \<Rightarrow> 'r WorkScheduler \<Rightarrow> bool" where
  "sched_ok b s \<longleftrightarrow> budget s = b \<and> od_wf (tasks s) \<and> sorted (queue s) \<and> od_wf (active_futures s) \<and>
     int (length (active_futures s)) \<le> max 0 (max_concurrent_tasks b)"

interpretation ok: scheduler_invariant "sched_ok b"
proof unfold_locales
  fix s :: "'a WorkScheduler" and x q
  show "sched_ok b s \<Longrightarrow> heappop (queue s) = Some (x, q) \<Longrightarrow> sched_ok b (s\<lparr>queue := q\<rparr>)"
    by (auto simp: sched_ok_def dest: hq.pop_ok)
  show "sched_ok b s \<Longrightarrow> \<not> shutdown_flag s \<Longrightarrow> sched_ok b (s\<lparr>queue := heappush (queue s) x\<rparr>)"
    by (simp add: sched_ok_def hq.push_ok)
next
  fix s :: "'a WorkScheduler" and env tid t
  assume "sched_ok b s" and cap: "int (length (active_futures s)) < max_concurrent_tasks (budget s)"
  moreover have "length (AList.update tid Pending (active_futures s)) \<le> Suc (length (active_futures s))"
    by (rule length_update_le)
  then have "int (length (AList.update tid Pending (active_futures s)))
      \<le> max 0 (max_concurrent_tasks (budget s))"
    using cap by linarith
  ultimately show "sched_ok b (start_task env tid t s)"
    by (simp add: sched_ok_def start_task_def Let_def)
next
  fix s :: "'a WorkScheduler" and tid
  assume "sched_ok b s"
  then show "sched_ok b (drop_future tid s)"
    using length_delete_le [of tid "active_futures s"]
    by (auto simp: sched_ok_def drop_future_def)
qed (auto simp: sched_ok_def length_update_present)


text \<open>Concrete tasks, clocks and states for the witnesses.\<close>

definition ex_env :: "unit environment" where
  "ex_env = \<lparr> clock_iso = (\<lambda>_. ''t''), clock_mono = (\<lambda>_. 0), early = (\<lambda>_. None) \<rparr>"

definition ex_task :: "string \<Rightarrow> string \<Rightarrow> unit ScheduledTask" where
  "ex_task i key = \<lparr> task_type = ''scan'', subsystem = ''test'', task_priority = ''user_action'',
     dedupe_key = key, timeout_seconds = 60, task_id = i, created_at = ''t'', started_at = '''',
     completed_at = '''', cancellation_token = False, status = queued, task_error = '''',
     result = None \<rparr>"

definition ex_start :: "unit WorkScheduler" where
  "ex_start = snd (schedule ex_env 1 (ex_task ''a'' '''') 0 (new_scheduler LOW_RESOURCE_BUDGET 500))"

definition ex_busy :: "unit WorkScheduler" where
  "ex_busy = snd (schedule ex_env 2 (ex_task ''b'' '''') 0 ex_start)"

lemmas drain_eval = drain_stop drain_pop drain_blocked_def heappush_def priority_of_def
  priority_members_def start_task_def upd_task_def mark_cancelled_def schedule_def

lemma ex_start_reachable: "sched_reachable LOW_RESOURCE_BUDGET 500 ex_start"
  unfolding ex_start_def by (rule reach_step [OF reach_new step_schedule [OF surjective_pairing]])

lemma ex_busy_reachable: "sched_reachable LOW_RESOURCE_BUDGET 500 ex_busy"
  unfolding ex_busy_def
  by (rule reach_step [OF ex_start_reachable step_schedule [OF surjective_pairing]])

lemma ex_start_eq:
  "ex_start = (new_scheduler LOW_RESOURCE_BUDGET 500)\<lparr>
     tasks := [(''a'', (ex_task ''a'' '''')\<lparr>status := running, started_at := ''t''\<rparr>)],
     active_futures := [(''a'', Pending)]\<rparr>"
  by (simp add: ex_start_def drain_eval new_scheduler_def ex_task_def ex_env_def budget_defs Let_def)

lemma ex_busy_eq:
  "ex_busy = ex_start\<lparr>
     tasks := tasks ex_start @ [(''b'', ex_task ''b'' '''')], queue := [(10, 2, ''b'')]\<rparr>"
  by (simp add: ex_busy_def ex_start_eq drain_eval new_scheduler_def ex_task_def ex_env_def
      budget_defs Let_def)


section \<open>Shutdown, history and cancellation\<close>

definition quiet :: "string set \<Rightarrow> 'r WorkScheduler \<Rightarrow> bool" where
  "quiet A s \<longleftrightarrow> shutdown_flag s \<and> queue s = [] \<and> set (od_keys (active_futures s)) \<subseteq> A"

interpretation qs: scheduler_invariant "quiet A"
  by unfold_locales
    (auto simp: quiet_def drop_future_def set_keys_update simp del: set_map)

lemma shutdown_quiet:
  "\<not> shutdown_flag s \<Longrightarrow> shutdown env c w s = (r, s') \<Longrightarrow>
   quiet (set (od_keys (active_futures s))) s'"
  by (auto simp: shutdown_def Let_def split: prod.splits if_splits
      intro!: qs.keeps_cancel_futures) (auto simp: quiet_def)

text \<open>
  Once \<open>shutdown\<close> has returned, no run of calls and pool events ever starts another future:
  the queue stays empty, the flag stays set and the active futures are among those that were
  active when the shutdown began.
\<close>

theorem nothing_starts_after_shutdown:
  assumes "\<not> shutdown_flag s" and "shutdown env do_cancel waited s = (r, s')"
    and "sched_step\<^sup>*\<^sup>* s' s''"
  shows "shutdown_flag s'' \<and> queue s'' = [] \<and>
    set (od_keys (active_futures s'')) \<subseteq> set (od_keys (active_futures s))"
proof -
  have "quiet (set (od_keys (active_futures s))) s'"
    using assms(1,2) by (rule shutdown_quiet)
  with assms(3) have "quiet (set (od_keys (active_futures s))) s''"
    by (induction rule: rtranclp_induct) (auto intro: qs.keeps_step)
  then show ?thesis by (simp add: quiet_def)
qed

theorem nothing_starts_after_shutdown_witness:
  "\<exists>r s'. shutdown ex_env True (\<lambda>fs. (length fs, 0)) ex_busy = (r, s') \<and>
     queue (snd (schedule ex_env 3 (ex_task ''c'' '''') 0 s')) = [] \<and>
     set (od_keys (active_futures (snd (schedule ex_env 3 (ex_task ''c'' '''') 0 s')))) \<subseteq> {''a''}"
proof -
  obtain r s' where s': "shutdown ex_env True (\<lambda>fs. (length fs, 0)) ex_busy = (r, s')"
    by fastforce
  have a: "\<not> shutdown_flag ex_busy" "od_keys (active_futures ex_busy) = [''a'']"
    by (simp_all add: ex_busy_eq ex_start_eq new_scheduler_def)
  have "sched_step\<^sup>*\<^sup>* s' (snd (schedule ex_env 3 (ex_task ''c'' '''') 0 s'))"
    by (intro r_into_rtranclp step_schedule) (rule surjective_pairing)
  from nothing_starts_after_shutdown [OF a(1) s' this] a(2) s' show ?thesis by simp
qed

lemma fold_delete_filter:
  "fold AList.delete ks d = filter (\<lambda>(i, t). i \<notin> set ks) d"
  by (induction ks arbitrary: d) (auto simp: AList.delete_eq intro!: filter_cong)

lemma filter_not_take: "distinct xs \<Longrightarrow> filter (\<lambda>x. x \<notin> set (take n xs)) xs = drop n xs"
proof -
  assume "distinct xs"
  then have "distinct (take n xs @ drop n xs)" by simp
  then have "filter (\<lambda>x. x \<notin> set (take n xs)) (take n xs @ drop n xs) = drop n xs"
    unfolding filter_append distinct_append
    by (auto simp: filter_empty_conv intro!: filter_True)
  then show ?thesis by simp
qed

lemma completed_ids_prune:
  assumes "od_wf (tasks s)"
  shows "completed_ids (prune_history s)
    = drop (length (completed_ids s) - max_task_history s) (completed_ids s)"
proof -
  let ?ids = "completed_ids s"
  let ?old = "take (length ?ids - max_task_history s) ?ids"
  have "distinct ?ids"
    using assms by (auto simp: completed_ids_def intro: distinct_map_filter)
  have "completed_ids (prune_history s) = filter (\<lambda>i. i \<notin> set ?old) ?ids"
    by (auto simp: completed_ids_def prune_history_def fold_delete_filter Let_def filter_map
        comp_def case_prod_beta' intro!: arg_cong [where f = "map fst"] filter_cong)
  also have "\<dots> = drop (length ?ids - max_task_history s) ?ids"
    using \<open>distinct ?ids\<close> by (rule filter_not_take)
  finally show ?thesis .
qed

lemma prune_keeps_live:
  assumes "od_wf (tasks s)" and "map_of (tasks s) i = Some t" and "\<not> terminal_status (status t)"
  shows "map_of (tasks (prune_history s)) i = Some t"
proof -
  have "i \<notin> set (completed_ids s)"
    using assms by (auto simp: completed_ids_def dest: eq_key_imp_eq_value)
  then have "i \<notin> set (take n (completed_ids s))" for n
    by (meson in_set_takeD)
  moreover have "(i, t) \<in> set (tasks s)" using assms by simp
  ultimately have "(i, t) \<in> set (tasks (prune_history s))"
    by (simp add: prune_history_def fold_delete_filter Let_def)
  moreover have "od_wf (tasks (prune_history s))"
    using assms(1) by (simp add: prune_history_def Let_def od_wf_fold_delete)
  ultimately show ?thesis by simp
qed

text \<open>
  Completing a task keeps the history within its limit and never forgets live work: after
  \<open>_complete\<close> in any reachable state at most \<open>max_task_history\<close> finished tasks are left, and
  every task that is not finished is still in the table.
\<close>

theorem history_bounded_and_live_tasks_kept:
  assumes "sched_reachable b h s" and "complete_body env tid out s = Some s'"
  shows "length (completed_ids s') \<le> max_task_history s \<and>
    (\<forall>i t. i \<noteq> tid \<longrightarrow> map_of (tasks s) i = Some t \<longrightarrow> \<not> terminal_status (status t) \<longrightarrow>
       map_of (tasks s') i = Some t)"
proof -
  have wf: "od_wf (tasks s)"
    using ok.keeps_reachable [OF assms(1)] by (auto simp: sched_ok_def new_scheduler_def)
  obtain t0 rs where "s' = prune_history (s\<lparr>active_futures := AList.delete tid (active_futures s),
      tasks := AList.update tid t0 (tasks s), running_by_dedupe := rs\<rparr>)" (is "_ = prune_history ?s3")
    using complete_body_shape [OF assms(2)] by blast
  then obtain s3 where "s3 = ?s3" and s': "s' = prune_history s3" by blast
  then have s3: "tasks s3 = AList.update tid t0 (tasks s)"
    "max_task_history s3 = max_task_history s" by simp_all
  have wf3: "od_wf (tasks s3)" using wf s3 by simp
  have "map_of (tasks s') i = Some t"
    if "i \<noteq> tid" "map_of (tasks s) i = Some t" "\<not> terminal_status (status t)" for i t
    using that s3 s' prune_keeps_live [OF wf3, of i t] by simp
  moreover have "length (completed_ids s') \<le> max_task_history s"
    using completed_ids_prune [OF wf3] s3 s' by simp
  ultimately show ?thesis by blast
qed

theorem history_bounded_and_live_tasks_kept_witness:
  "\<exists>s'. complete_body ex_env ''a'' (Returned None) ex_busy = Some s' \<and>
     length (completed_ids s') \<le> max_task_history ex_busy \<and>
     map_of (tasks s') ''b'' = Some (ex_task ''b'' '''')"
proof -
  obtain s' where s': "complete_body ex_env ''a'' (Returned None) ex_busy = Some s'"
    by (simp add: complete_body_def ex_busy_eq ex_start_eq Let_def)
  have "map_of (tasks ex_busy) ''b'' = Some (ex_task ''b'' '''')"
    "\<not> terminal_status (status (ex_task ''b'' ''''))"
    by (simp_all add: ex_busy_eq ex_start_eq ex_task_def terminal_status_def)
  with s' history_bounded_and_live_tasks_kept [OF ex_busy_reachable s'] show ?thesis by simp
qed

end
