(* ===== verification/Work_Scheduler_Limits.thy ===== *)
theory Work_Scheduler_Limits
  imports Work_Scheduler
begin

text \<open>
  What the scheduler does not guarantee, shown on runs from a new scheduler: a history limit that
  forgets entries still in the heap, a shutdown that relabels cancelled tasks, and dedupe keys
  that are compared with running tasks only.
\<close>

section \<open>A pruned task that is still queued\<close>

lemma insort_last: "sorted (q @ [x]) \<Longrightarrow> insort x q = q @ [x]"
  using properties_for_sort [of "q @ [x]" "x # q"] by (simp add: sorted_append sorted_sort_id)

lemma fold_heappush_sorted:
  "sorted (q @ ys) \<Longrightarrow> fold (\<lambda>y q. heappush q y) ys q = q @ ys"
proof (induction ys arbitrary: q)
  case (Cons y ys)
  then have "sorted ((q @ [y]) @ ys)" and "sorted (q @ [y])"
    by (auto simp: sorted_append)
  with Cons.IH [of "q @ [y]"] show ?case by (simp add: heappush_def insort_last)
qed simp

lemma schedule_full:
  assumes "\<not> shutdown_flag s" and "dedupe_key t = ''''"
    and "max_concurrent_tasks (budget s) \<le> int (length (active_futures s))"
  shows "schedule env now t cd s = (Inr Enqueued, s\<lparr>tasks := AList.update (task_id t) t (tasks s),
    queue := heappush (queue s) (priority_of (task_priority t), now, task_id t)\<rparr>)"
  using assms by (simp add: schedule_def drain_stop drain_blocked_def Let_def)

definition jam_entry :: "string \<Rightarrow> int \<times> pyfloat \<times> string" where
  "jam_entry i = (10, 1, i)"

definition jam_fill :: "string list \<Rightarrow> unit WorkScheduler \<Rightarrow> unit WorkScheduler" where
  "jam_fill = fold (\<lambda>i s. snd (schedule ex_env 1 (ex_task i '''') 0 s))"

definition jam_cancel :: "string list \<Rightarrow> unit WorkScheduler \<Rightarrow> unit WorkScheduler" where
  "jam_cancel = fold (\<lambda>i s. snd (cancel ex_env i s))"

lemma jam_fill_eq:
  assumes "\<not> shutdown_flag s"
    and "max_concurrent_tasks (budget s) \<le> int (length (active_futures s))"
    and "distinct xs" and "set xs \<inter> set (od_keys (tasks s)) = {}"
    and "sorted (queue s @ map jam_entry xs)"
  shows "jam_fill xs s = s\<lparr>tasks := tasks s @ map (\<lambda>i. (i, ex_task i '''')) xs,
    queue := queue s @ map jam_entry xs\<rparr>"
  using assms
proof (induction xs arbitrary: s)
  case (Cons x xs)
  have e: "dedupe_key (ex_task x '''') = ''''" "task_id (ex_task x '''') = x"
    "(priority_of (task_priority (ex_task x '''')), 1, x) = jam_entry x"
    by (simp_all add: ex_task_def priority_of_def priority_members_def jam_entry_def)
  have q: "heappush (queue s) (jam_entry x) = queue s @ [jam_entry x]"
    using Cons.prems(5) by (auto simp: heappush_def sorted_append intro!: insort_last)
  let ?s1 = "s\<lparr>tasks := tasks s @ [(x, ex_task x '''')], queue := queue s @ [jam_entry x]\<rparr>"
  have "x \<notin> set (od_keys (tasks s))" using Cons.prems(4) by auto
  then have "snd (schedule ex_env 1 (ex_task x '''') 0 s) = ?s1"
    using Cons.prems(1,2) e q by (simp add: schedule_full update_absent)
  moreover have "jam_fill xs ?s1 = ?s1\<lparr>tasks := tasks ?s1 @ map (\<lambda>i. (i, ex_task i '''')) xs,
      queue := queue ?s1 @ map jam_entry xs\<rparr>"
    by (rule Cons.IH) (use Cons.prems in auto)
  ultimately show ?case by (simp add: jam_fill_def)
qed (simp add: jam_fill_def)

definition set_cancelled :: "unit ScheduledTask \<Rightarrow> unit ScheduledTask" where
  "set_cancelled t = t\<lparr>cancellation_token := True, status := cancelled\<rparr>"

lemma cancel_queued:
  assumes "map_of (tasks s) i = Some t" and "map_of (active_futures s) i = None"
  shows "snd (cancel env i s) = s\<lparr>tasks := AList.update i (set_cancelled t) (tasks s)\<rparr>"
proof -
  have "AList.update i v (AList.update i u d) = AList.update i v d" for u v d
    by (induction d) auto
  then show ?thesis using assms
    by (simp add: cancel_def future_cancel_def upd_task_def set_cancelled_def)
qed

lemma update_middle:
  "x \<notin> set (od_keys pre) \<Longrightarrow> AList.update x v (pre @ (x, u) # d) = pre @ (x, v) # d"
  by (induction pre) auto

lemma map_of_middle: "x \<notin> set (od_keys pre) \<Longrightarrow> map_of (pre @ (x, u) # d) x = Some u"
  by (induction pre) auto

lemma jam_cancel_eq:
  assumes "distinct xs" and "set xs \<inter> set (od_keys pre) = {}"
    and "\<forall>i \<in> set xs. map_of (active_futures s) i = None"
  shows "jam_cancel xs (s\<lparr>tasks := pre @ map (\<lambda>i. (i, f i)) xs\<rparr>)
    = s\<lparr>tasks := pre @ map (\<lambda>i. (i, set_cancelled (f i))) xs\<rparr>"
  using assms
proof (induction xs arbitrary: pre)
  case (Cons x xs)
  let ?pre = "pre @ [(x, set_cancelled (f x))]"
  have x: "x \<notin> set (od_keys pre)" using Cons.prems(2) by auto
  have "snd (cancel ex_env x (s\<lparr>tasks := pre @ map (\<lambda>i. (i, f i)) (x # xs)\<rparr>))
      = s\<lparr>tasks := ?pre @ map (\<lambda>i. (i, f i)) xs\<rparr>"
    using Cons.prems(3) x
      cancel_queued [of "s\<lparr>tasks := pre @ map (\<lambda>i. (i, f i)) (x # xs)\<rparr>" x "f x" ex_env]
    by (simp add: update_middle map_of_middle del: map_of_append)
  moreover have "jam_cancel xs (s\<lparr>tasks := ?pre @ map (\<lambda>i. (i, f i)) xs\<rparr>)
      = s\<lparr>tasks := ?pre @ map (\<lambda>i. (i, set_cancelled (f i))) xs\<rparr>"
    by (rule Cons.IH) (use Cons.prems in auto)
  ultimately show ?case by (simp add: jam_cancel_def)
qed (simp add: jam_cancel_def)

definition jam_ids :: "string list" where
  "jam_ids = map (\<lambda>i. [char_of i]) [40..<(92::nat)]"

definition jam_begin :: "unit WorkScheduler" where
  "jam_begin = worker_start ex_env ''r''
     (snd (schedule ex_env 0 (ex_task ''r'' '''') 0 (new_scheduler LOW_RESOURCE_BUDGET 50)))"

definition jam_cancelled :: "unit WorkScheduler" where
  "jam_cancelled = jam_cancel jam_ids (jam_fill jam_ids jam_begin)"

definition jam_state :: "unit WorkScheduler" where
  "jam_state = complete ex_env ''r'' (Returned None) jam_cancelled"

lemma jam_ids_facts: "sorted (map jam_entry jam_ids)" "distinct jam_ids" "''r'' \<notin> set jam_ids"
  "length jam_ids = 52" "jam_ids = ''('' # '')'' # drop 2 jam_ids"
proof -
  have "sorted jam_ids" by code_simp
  then show "sorted (map jam_entry jam_ids)"
    by (auto simp: sorted_map jam_entry_def less_eq_prod_def elim: sorted_wrt_mono_rel [rotated])
qed (code_simp, code_simp, simp add: jam_ids_def, code_simp)

lemma jam_begin_eq: "jam_begin = (new_scheduler LOW_RESOURCE_BUDGET 50)\<lparr>
     tasks := [(''r'', (ex_task ''r'' '''')\<lparr>status := running, started_at := ''t''\<rparr>)],
     active_futures := [(''r'', Executing)]\<rparr>"
  by (simp add: jam_begin_def worker_start_def drain_eval new_scheduler_def ex_task_def ex_env_def
      budget_defs Let_def)

lemma jam_cancelled_eq: "jam_cancelled = jam_begin\<lparr>
    tasks := tasks jam_begin @ map (\<lambda>i. (i, set_cancelled (ex_task i ''''))) jam_ids,
    queue := map jam_entry jam_ids\<rparr>"
proof -
  have "jam_fill jam_ids jam_begin = jam_begin\<lparr>
      tasks := tasks jam_begin @ map (\<lambda>i. (i, ex_task i '''')) jam_ids,
      queue := queue jam_begin @ map jam_entry jam_ids\<rparr>"
    using jam_ids_facts
    by (intro jam_fill_eq) (auto simp: jam_begin_eq new_scheduler_def budget_defs)
  moreover have "map_of (active_futures jam_begin) i = None" if "i \<in> set jam_ids" for i
    using that jam_ids_facts by (auto simp: jam_begin_eq)
  ultimately show ?thesis
    using jam_cancel_eq [of jam_ids "tasks jam_begin"
        "jam_begin\<lparr>queue := map jam_entry jam_ids\<rparr>" "\<lambda>i. ex_task i ''''"] jam_ids_facts
    by (auto simp: jam_cancelled_def jam_begin_eq new_scheduler_def)
qed

definition jam_body :: "unit WorkScheduler" where
  "jam_body = jam_cancelled\<lparr>active_futures := [],
     tasks := map (\<lambda>i. (i, set_cancelled (ex_task i ''''))) (drop 2 jam_ids)\<rparr>"

lemma jam_pruned:
  "fold AList.delete [''r'', ''('', '')''] ((''r'', r) # map (\<lambda>i. (i, f i)) jam_ids)
    = map (\<lambda>i. (i, f i)) (drop 2 jam_ids)"
proof -
  obtain ids where ids: "ids = drop 2 jam_ids" by simp
  have j: "jam_ids = ''('' # '')'' # ids" using jam_ids_facts(5) ids by simp
  then have "''r'' \<notin> set ids" "''('' \<notin> set ids" "'')'' \<notin> set ids"
    using jam_ids_facts(2,3) unfolding j by auto
  then show ?thesis
    by (auto simp: AList.delete_eq j ids [symmetric] filter_id_conv)
qed

lemma jam_body_eq: "complete_body ex_env ''r'' (Returned None) jam_cancelled = Some jam_body"
proof -
  let ?r = "(ex_task ''r'' '''')\<lparr>status := succeeded, started_at := ''t'', completed_at := ''t''\<rparr>"
  let ?c = "\<lambda>i. (i, set_cancelled (ex_task i ''''))"
  let ?ts = "(''r'', ?r) # map ?c jam_ids"
  have body: "complete_body ex_env ''r'' (Returned None) jam_cancelled
      = Some (prune_history (jam_cancelled\<lparr>active_futures := [], tasks := ?ts\<rparr>))"
    by (simp add: complete_body_def jam_cancelled_eq jam_begin_eq new_scheduler_def ex_env_def
        settle_task_def ex_task_def Let_def)
  have "completed_ids (jam_cancelled\<lparr>active_futures := [], tasks := ?ts\<rparr>) = ''r'' # jam_ids"
    by (simp add: completed_ids_def terminal_status_def set_cancelled_def ex_task_def comp_def
        filter_map)
  moreover have "take 3 (''r'' # jam_ids) = [''r'', ''('', '')'']"
    by (subst jam_ids_facts(5)) simp
  moreover have "fold AList.delete [''r'', ''('', '')''] ?ts = map ?c (drop 2 jam_ids)"
    by (rule jam_pruned)
  moreover have "max_task_history jam_cancelled = 50"
    by (simp add: jam_cancelled_eq jam_begin_eq new_scheduler_def)
  ultimately show ?thesis
    using body jam_ids_facts(4) by (simp add: prune_history_def jam_body_def Let_def)
qed

lemma jam_body_queue: "queue jam_body = map jam_entry jam_ids"
  by (simp add: jam_body_def jam_cancelled_eq)

lemma jam_state_eq: "jam_state = jam_body\<lparr>queue := map jam_entry (tl jam_ids)\<rparr>"
proof -
  have "drain ex_env jam_body = (Some (KeyError ''(''), jam_body\<lparr>queue := map jam_entry (tl jam_ids)\<rparr>)"
  proof -
    have q: "queue jam_body = jam_entry ''('' # map jam_entry (tl jam_ids)"
      using jam_ids_facts(5) by (metis jam_body_queue list.sel(3) list.simps(9))
    have "''('' \<notin> set (drop 2 jam_ids)"
      using jam_ids_facts(2,5) by (metis distinct.simps(2) list.set_intros(2))
    then have "map_of (tasks jam_body) ''('' = None"
      by (auto simp: jam_body_def map_of_eq_None_iff)
    moreover have "\<not> shutdown_flag jam_body" "active_futures jam_body = []"
      "max_concurrent_tasks (budget jam_body) = 1"
      by (simp_all add: jam_body_def jam_cancelled_eq jam_begin_eq new_scheduler_def budget_defs)
    ultimately show ?thesis
      using q by (subst drain_pop) (auto simp: jam_entry_def drain_blocked_def)
  qed
  then show ?thesis by (simp add: jam_state_def complete_def jam_body_eq)
qed

lemma reach_fold:
  "(\<And>i s. sched_step s (f i s)) \<Longrightarrow> sched_reachable b h s \<Longrightarrow> sched_reachable b h (fold f xs s)"
proof (induction xs arbitrary: s)
  case (Cons x xs)
  have "sched_reachable b h (f x s)" using Cons.prems by (blast intro: reach_step)
  with Cons show ?case by simp
qed simp

lemma jam_reachable: "sched_reachable LOW_RESOURCE_BUDGET 50 jam_state"
proof -
  let ?R = "sched_reachable LOW_RESOURCE_BUDGET 50"
  let ?s = "snd (schedule ex_env 0 (ex_task ''r'' '''') 0 (new_scheduler LOW_RESOURCE_BUDGET 50))"
  have "?R ?s" by (rule reach_step [OF reach_new step_schedule [OF surjective_pairing]])
  moreover have "map_of (active_futures ?s) ''r'' = Some Pending"
    by (simp add: drain_eval new_scheduler_def ex_task_def ex_env_def budget_defs Let_def)
  ultimately have "?R jam_begin" unfolding jam_begin_def by (rule reach_step [OF _ step_start])
  then have "?R jam_cancelled" unfolding jam_cancelled_def jam_fill_def jam_cancel_def
    by (intro reach_fold) (auto intro: step_schedule step_cancel surjective_pairing)
  then show ?thesis unfolding jam_state_def
    by (rule reach_step) (rule step_finish, simp add: jam_cancelled_eq jam_begin_eq)
qed

text \<open>
  The history limit can break later calls. From a new low-resource scheduler with history 50,
  fifty-two queued tasks are cancelled while one runs; when it completes, the limit forgets the
  two oldest cancelled tasks, whose heap entries stay. The state is reachable, no future is
  active, and the next call of \<open>schedule\<close>, for an unrelated task, raises \<open>KeyError\<close> although
  the task has been put into the table; nothing is started.
\<close>

theorem pruned_queue_entry_breaks_schedule:
  "sched_reachable LOW_RESOURCE_BUDGET 50 jam_state \<and> active_futures jam_state = [] \<and>
   (\<exists>s'. schedule ex_env 2 (ex_task ''z'' '''') 0 jam_state = (Inl (KeyError '')''), s') \<and>
     map_of (tasks s') ''z'' = Some (ex_task ''z'' '''') \<and> active_futures s' = [])"
proof -
  let ?z = "ex_task ''z'' ''''"
  let ?s1 = "jam_state\<lparr>tasks := AList.update ''z'' ?z (tasks jam_state),
    queue := heappush (queue jam_state) (10, 2, ''z'')\<rparr>"
  obtain ids where ids: "ids = drop 2 jam_ids" by simp
  have j: "jam_ids = ''('' # '')'' # ids" using jam_ids_facts(5) ids by simp
  have "'')'' \<notin> set ids" using jam_ids_facts(2) unfolding j by auto
  then have none: "map_of (tasks ?s1) '')'' = None"
    by (auto simp: jam_state_eq jam_body_def map_of_eq_None_iff ids [symmetric])
  have q: "queue ?s1 = (10, 1, '')'') # insort (10, 2, ''z'') (map jam_entry ids)"
    by (simp add: jam_state_eq j heappush_def jam_entry_def)
  have nb: "\<not> drain_blocked ?s1" and act: "active_futures jam_state = []"
    "\<not> shutdown_flag jam_state"
    using q by (simp_all add: drain_blocked_def jam_state_eq jam_body_def jam_cancelled_eq jam_begin_eq
        new_scheduler_def budget_defs)
  have "drain ex_env ?s1 = (Some (KeyError '')''),
      ?s1\<lparr>queue := insort (10, 2, ''z'') (map jam_entry ids)\<rparr>)"
    using drain_pop [OF nb q] none by simp
  then have "schedule ex_env 2 ?z 0 jam_state = (Inl (KeyError '')''),
      ?s1\<lparr>queue := insort (10, 2, ''z'') (map jam_entry ids)\<rparr>)"
    using act by (simp add: schedule_def ex_task_def priority_of_def priority_members_def)
  then show ?thesis using act jam_reachable by simp
qed

section \<open>Status after a shutdown\<close>

text \<open>
  \<open>shutdown(cancel=True)\<close> counts a submitted task that no worker has taken as cancelled, and
  leaves it with status \<open>failed\<close> and an empty error: cancelling its future runs \<open>_complete\<close>, whose
  \<open>except\<close> branch overwrites the status.
\<close>

theorem shutdown_reports_cancelled_leaves_failed:
  "sched_reachable LOW_RESOURCE_BUDGET 500 ex_start \<and>
   (\<exists>r s' t. shutdown ex_env True (\<lambda>fs. (length fs, 0)) ex_start = (r, s') \<and> sd_cancelled r = 1 \<and>
      map_of (tasks s') ''a'' = Some t \<and> status t = failed \<and> task_error t = '''')"
proof -
  have "shutdown ex_env True (\<lambda>fs. (length fs, 0)) ex_start
    = (\<lparr>sd_cancelled = 1, sd_completed = 1, sd_still_running = 0\<rparr>,
       ex_start\<lparr>shutdown_flag := True, active_futures := [],
         tasks := [(''a'', (ex_task ''a'' '''')\<lparr>status := failed, started_at := ''t'',
           completed_at := ''t'', cancellation_token := True\<rparr>)]\<rparr>)"
    by (simp add: ex_start_eq shutdown_def cancellable_def ex_task_def new_scheduler_def Let_def
        cancel_futures_def future_cancel_def complete_def complete_body_def settle_task_def
        prune_history_def completed_ids_def terminal_status_def drain_stop drain_blocked_def ex_env_def)
  then show ?thesis using ex_start_reachable by (simp add: ex_task_def)
qed

section \<open>Two running tasks with one dedupe key\<close>

definition ex_pair :: "unit WorkScheduler" where
  "ex_pair = fold (\<lambda>t s. snd (schedule ex_env 1 t 0 s))
     [ex_task ''a'' '''', ex_task ''b'' '''', ex_task ''c'' ''k'', ex_task ''d'' ''k'']
     (new_scheduler BALANCED_BUDGET 500)"

definition ex_twins :: "unit WorkScheduler" where
  "ex_twins = complete ex_env ''b'' (Returned None) (worker_start ex_env ''b''
     (complete ex_env ''a'' (Returned None) (worker_start ex_env ''a'' ex_pair)))"

lemma ex_pair_eq: "ex_pair = (new_scheduler BALANCED_BUDGET 500)\<lparr>
   tasks := [(''a'', (ex_task ''a'' '''')\<lparr>status := running, started_at := ''t''\<rparr>),
     (''b'', (ex_task ''b'' '''')\<lparr>status := running, started_at := ''t''\<rparr>),
     (''c'', ex_task ''c'' ''k''), (''d'', ex_task ''d'' ''k'')],
   active_futures := [(''a'', Pending), (''b'', Pending)],
   queue := [(10, 1, ''c''), (10, 1, ''d'')]\<rparr>"
  by (simp add: ex_pair_def drain_eval new_scheduler_def ex_task_def ex_env_def budget_defs Let_def)

lemmas complete_eval = complete_def complete_body_def settle_task_def prune_history_def
  completed_ids_def terminal_status_def worker_start_def

lemma ex_half_eq:
  "complete ex_env ''a'' (Returned None) (worker_start ex_env ''a'' ex_pair) = ex_pair\<lparr>
   tasks := [(''a'', (ex_task ''a'' '''')\<lparr>status := succeeded, started_at := ''t'', completed_at := ''t''\<rparr>),
     (''b'', (ex_task ''b'' '''')\<lparr>status := running, started_at := ''t''\<rparr>),
     (''c'', (ex_task ''c'' ''k'')\<lparr>status := running, started_at := ''t''\<rparr>), (''d'', ex_task ''d'' ''k'')],
   active_futures := [(''b'', Pending), (''c'', Pending)],
   running_by_dedupe := [(''k'', ''c'')], last_started_by_dedupe := [(''k'', 0)],
   queue := [(10, 1, ''d'')]\<rparr>"
  by (simp add: ex_pair_eq complete_eval drain_eval new_scheduler_def ex_task_def ex_env_def
      budget_defs Let_def)

lemma ex_twins_eq: "ex_twins = ex_pair\<lparr>
   tasks := [(''a'', (ex_task ''a'' '''')\<lparr>status := succeeded, started_at := ''t'', completed_at := ''t''\<rparr>),
     (''b'', (ex_task ''b'' '''')\<lparr>status := succeeded, started_at := ''t'', completed_at := ''t''\<rparr>),
     (''c'', (ex_task ''c'' ''k'')\<lparr>status := running, started_at := ''t''\<rparr>),
     (''d'', (ex_task ''d'' ''k'')\<lparr>status := running, started_at := ''t''\<rparr>)],
   active_futures := [(''c'', Pending), (''d'', Pending)],
   running_by_dedupe := [(''k'', ''d'')], last_started_by_dedupe := [(''k'', 0)], queue := []\<rparr>"
  unfolding ex_twins_def ex_half_eq
  by (simp add: ex_pair_eq complete_eval drain_eval new_scheduler_def ex_task_def ex_env_def
      budget_defs Let_def)

lemma ex_pair_reachable: "sched_reachable BALANCED_BUDGET 500 ex_pair"
  unfolding ex_pair_def
  by (intro reach_fold reach_new) (auto intro: step_schedule surjective_pairing)

lemma start_finish_reachable:
  assumes "sched_reachable b h s" and "map_of (active_futures s) tid = Some Pending"
    and "map_of (active_futures (worker_start env tid s)) tid = Some Executing"
  shows "sched_reachable b h (complete env tid out (worker_start env tid s))"
  using assms by (blast intro: reach_step step_start step_finish)

lemma ex_twins_reachable: "sched_reachable BALANCED_BUDGET 500 ex_twins"
proof -
  let ?half = "complete ex_env ''a'' (Returned None) (worker_start ex_env ''a'' ex_pair)"
  have "sched_reachable BALANCED_BUDGET 500 ?half"
    by (rule start_finish_reachable [OF ex_pair_reachable])
      (simp_all add: ex_pair_eq worker_start_def ex_task_def)
  moreover have "map_of (active_futures ?half) ''b'' = Some Pending"
    "map_of (active_futures (worker_start ex_env ''b'' ?half)) ''b'' = Some Executing"
    unfolding ex_half_eq by (simp_all add: worker_start_def ex_task_def)
  ultimately show ?thesis unfolding ex_twins_def by (rule start_finish_reachable)
qed

text \<open>
  A dedupe key is compared with running tasks only: two tasks with the same key that are
  queued while the pool is full are both running later, in a state reached from a new balanced
  scheduler.
\<close>

theorem dedupe_does_not_stop_queued_twins:
  "sched_reachable BALANCED_BUDGET 500 ex_twins \<and>
   (\<exists>t u. map_of (tasks ex_twins) ''c'' = Some t \<and> map_of (tasks ex_twins) ''d'' = Some u \<and>
      status t = running \<and> status u = running \<and> dedupe_key t = ''k'' \<and> dedupe_key u = ''k'')"
  using ex_twins_reachable by (simp add: ex_twins_eq) (simp add: ex_task_def)

end
