(* ===== verification/AR_Models.thy ===== *)
theory AR_Models
  imports Prelude
begin

text \<open>
  The data of the anti-ransomware package (\<open>anti_ransomware/models.py\<close>), its additive risk
  engine (\<open>risk_engine.py\<close>), the multi-signal behavior engine (\<open>behavior_engine.py\<close>) and the
  containment policy (\<open>containment_policy.py\<close>). The \<open>uuid4\<close> of a decision is an argument.
\<close>

section \<open>Data\<close>

datatype ProtectionMode = OBSERVE | BALANCED | HIGH_ASSURANCE | ADAPTIVE | COMPATIBILITY

datatype SensorMode = SENSOR_NONE | SAFE_SIMULATION_ONLY | DEGRADED_OBSERVATION_ONLY
  | EXTERNAL_TELEMETRY_OBSERVATION | ENDPOINT_SECURITY_NOTIFY_ONLY | ENDPOINT_SECURITY_AUTH_AND_NOTIFY

datatype HealthState = HEALTHY | DEGRADED | UNAVAILABLE | STALE | MISCONFIGURED | TAMPERED
  | CRASH_LOOP | EVENT_LOSS_DETECTED | PERMISSION_REQUIRED | NOT_APPLICABLE_NO_GUI_SESSION
  | NOT_VERIFIED

record ProcessIdentity =
  pid :: int
  pid_version :: int
  executable_path :: string
  executable_sha256 :: string
  effective_uid :: int
  boot_session_id :: string
  parent_pid :: "int option"
  responsible_pid :: "int option"
  signing_id :: string
  team_id :: string
  script_path :: string
  script_sha256 :: string
  platform_binary :: bool
  notarized :: "bool option"
  audit_token_hash :: string
  executable_file_id :: string
  cdhash :: string
  process_start_time_ns :: int

definition stable_key :: "ProcessIdentity \<Rightarrow> string" where
  "stable_key p = boot_session_id p @ '':'' @ str_int (pid p) @ '':'' @ str_int (pid_version p) @ '':''
     @ str_int (effective_uid p) @ '':'' @ executable_sha256 p @ '':'' @ script_sha256 p"

definition matches_exact :: "ProcessIdentity \<Rightarrow> ProcessIdentity \<Rightarrow> bool" where
  "matches_exact a b \<longleftrightarrow> pid a = pid b \<and> pid_version a = pid_version b \<and>
     effective_uid a = effective_uid b \<and> boot_session_id a = boot_session_id b \<and>
     executable_path a = executable_path b \<and> executable_sha256 a = executable_sha256 b \<and>
     script_path a = script_path b \<and> script_sha256 a = script_sha256 b \<and>
     audit_token_hash a = audit_token_hash b \<and> executable_file_id a = executable_file_id b \<and>
     cdhash a = cdhash b \<and> process_start_time_ns a = process_start_time_ns b"

record FileStatistics =
  fs_size :: int
  entropy :: pyfloat
  chi_square :: pyfloat
  monte_carlo_pi_error :: pyfloat
  base64_ratio :: pyfloat
  recognized_image :: bool
  gzip_header :: bool
  bytes_sampled :: int

record FileMutation =
  fm_event_id :: string
  fm_timestamp :: pyfloat
  fm_process :: ProcessIdentity
  fm_path_token :: string
  fm_operation :: string
  fm_statistics :: FileStatistics

datatype evidence_value = EInt int | EFloat pyfloat | EStr string | EBool bool

record DetectionSignal =
  signal_id :: string
  weight :: int
  rationale :: string
  evidence :: "(string, evidence_value) odict"

record DetectionDecision =
  decision_id :: string
  score :: int
  confidence :: string
  severity :: string
  recommended_response :: string
  automatic_response_eligible :: bool
  signals :: "DetectionSignal list"
  policy_version :: string
  ruleset_version :: string

section \<open>The additive risk engine\<close>

definition decide :: "string \<Rightarrow> DetectionSignal list \<Rightarrow> bool \<Rightarrow> DetectionDecision" where
  "decide hex sigs critical_continuity =
     (let sc = max 0 (min 100 (sum_list (map weight sigs)));
          automatic = (85 \<le> sc \<and> \<not> critical_continuity)
      in \<lparr> decision_id = ''ar-decision-'' @ hex, score = sc,
           confidence = (if 80 \<le> sc then ''high'' else if 50 \<le> sc then ''medium'' else ''low''),
           severity = (if 90 \<le> sc then ''critical'' else if 70 \<le> sc then ''high''
                       else if 40 \<le> sc then ''medium'' else ''low''),
           recommended_response = (if automatic then ''pause_exact_process''
                                   else if 50 \<le> sc then ''manual_review'' else ''observe''),
           automatic_response_eligible = automatic, signals = sigs,
           policy_version = ''1.0'', ruleset_version = ''1.0'' \<rparr>)"

lemma decide_score_range: "0 \<le> score (decide h sigs c)" "score (decide h sigs c) \<le> 100"
  by (simp_all add: decide_def Let_def)

lemma decide_automatic_iff:
  "automatic_response_eligible (decide h sigs c) \<longleftrightarrow> 85 \<le> sum_list (map weight sigs) \<and> \<not> c"
  by (auto simp: decide_def Let_def)

section \<open>The behavior engine\<close>

datatype RiskState = NORMAL | SUSPICIOUS | ELEVATED | PROBABLE | CONFIRMED_POLICY | CONTAINED
  | OBSERVATION_ONLY | RISK_DEGRADED

record BehaviorSignal =
  bs_signal_id :: string
  bs_confidence :: pyfloat
  bs_weight :: int
  bs_explanation :: string
  bs_evidence :: "(string, evidence_value) odict"
  bs_high_confidence :: bool

record BehaviorAssessment =
  risk_state :: RiskState
  ba_score :: int
  ba_confidence :: pyfloat
  ba_signals :: "BehaviorSignal list"
  ba_explanation :: "string list"
  ba_limitations :: "string list"

fun risk_value :: "RiskState \<Rightarrow> string" where
  "risk_value NORMAL = ''normal''"
| "risk_value SUSPICIOUS = ''suspicious''"
| "risk_value ELEVATED = ''elevated''"
| "risk_value PROBABLE = ''probable_ransomware_behavior''"
| "risk_value CONFIRMED_POLICY = ''confirmed_by_policy_threshold''"
| "risk_value CONTAINED = ''contained''"
| "risk_value OBSERVATION_ONLY = ''observation_only_due_to_missing_permissions''"
| "risk_value RISK_DEGRADED = ''degraded_due_to_missing_sensor''"

fun threat_state :: "RiskState \<Rightarrow> string" where
  "threat_state NORMAL = ''NORMAL''"
| "threat_state SUSPICIOUS = ''SUSPICIOUS''"
| "threat_state ELEVATED = ''ELEVATED''"
| "threat_state PROBABLE = ''PROBABLE''"
| "threat_state CONFIRMED_POLICY = ''CONFIRMED''"
| "threat_state CONTAINED = ''CONTAINED''"
| "threat_state OBSERVATION_ONLY = ''UNKNOWN''"
| "threat_state RISK_DEGRADED = ''UNKNOWN''"

definition signal_family :: "BehaviorSignal \<Rightarrow> string" where
  "signal_family s = takeWhile (\<lambda>c. c \<noteq> CHR '':'') (bs_signal_id s)"

definition strong_signal :: "BehaviorSignal \<Rightarrow> bool" where
  "strong_signal s \<longleftrightarrow> bs_high_confidence s \<or> 8 / 10 \<le> bs_confidence s"

definition behavior_score :: "BehaviorSignal list \<Rightarrow> int" where
  "behavior_score obs = min 100 (sum_list (map (\<lambda>s. max 0 (bs_weight s)) obs))"

definition evaluate_behavior ::
  "BehaviorSignal list \<Rightarrow> bool \<Rightarrow> bool \<Rightarrow> bool \<Rightarrow> BehaviorAssessment" where
  "evaluate_behavior observed sensor_available permissions_available containment_applied =
     (let sc = behavior_score observed;
          conf = (if observed = [] then 0
                  else round_to 3 (sum_list (map bs_confidence observed) / of_nat (length observed)));
          strong = count_if strong_signal observed;
          independent = count_distinct (map signal_family observed);
          (state, limits) =
            (if \<not> sensor_available then
               (RISK_DEGRADED, [''Primary sensor unavailable; conclusions are limited.''])
             else if \<not> permissions_available then
               (OBSERVATION_ONLY, [''Required macOS permissions are unavailable.''])
             else if 90 \<le> sc \<and> 3 \<le> strong \<and> 3 \<le> independent then (CONFIRMED_POLICY, [])
             else if 70 \<le> sc \<and> 2 \<le> strong \<and> 2 \<le> independent then (PROBABLE, [])
             else if 45 \<le> sc \<and> 2 \<le> independent then (ELEVATED, [])
             else if 20 \<le> sc \<or> observed \<noteq> [] then (SUSPICIOUS, [])
             else (NORMAL, []));
          state' = (if containment_applied \<and> state \<in> {PROBABLE, CONFIRMED_POLICY} then CONTAINED
                    else state)
      in \<lparr> risk_state = state', ba_score = sc, ba_confidence = conf, ba_signals = observed,
           ba_explanation = map bs_explanation observed, ba_limitations = limits \<rparr>)"

section \<open>Containment policy\<close>

datatype ContainmentMode = MODE_OBSERVE | MODE_WARN | MODE_CONFIRM | MODE_STRICT

record ContainmentPolicy =
  mode :: ContainmentMode
  allow_process_suspend :: bool
  allow_process_terminate :: bool
  allow_quarantine :: bool
  delete_files :: bool
  require_local_confirmation :: bool

definition containment_post_init :: "ContainmentPolicy \<Rightarrow> ContainmentPolicy py" where
  "containment_post_init p = (if delete_files p
     then Inl (ValueError ''MSAA does not permit automatic file deletion'') else Inr p)"

section \<open>Properties\<close>

fun risk_rank :: "RiskState \<Rightarrow> nat" where
  "risk_rank NORMAL = 0"
| "risk_rank SUSPICIOUS = 1"
| "risk_rank ELEVATED = 2"
| "risk_rank PROBABLE = 3"
| "risk_rank CONFIRMED_POLICY = 4"
| "risk_rank CONTAINED = 5"
| "risk_rank OBSERVATION_ONLY = 0"
| "risk_rank RISK_DEGRADED = 0"

lemma behavior_score_range: "0 \<le> behavior_score obs" "behavior_score obs \<le> 100"
proof -
  have "0 \<le> sum_list (map (\<lambda>s. max 0 (bs_weight s)) obs)" by (rule sum_list_nonneg) auto
  then show "0 \<le> behavior_score obs" "behavior_score obs \<le> 100"
    by (auto simp: behavior_score_def)
qed

lemma behavior_score_append: "behavior_score obs \<le> behavior_score (obs @ extra)"
proof -
  have "0 \<le> sum_list (map (\<lambda>s. max 0 (bs_weight s)) extra)" by (rule sum_list_nonneg) auto
  then show ?thesis by (simp add: behavior_score_def)
qed

lemma families_need_signals: "count_distinct (map signal_family obs) \<le> length obs"
  by (rule count_distinct_le)

lemma families_append:
  "count_distinct (map signal_family obs) \<le> count_distinct (map signal_family (obs @ extra))"
  by (rule count_distinct_mono) auto

text \<open>The states that call the behavior ransomware.\<close>

definition alarming :: "RiskState \<Rightarrow> bool" where
  "alarming st \<longleftrightarrow> st \<in> {PROBABLE, CONFIRMED_POLICY, CONTAINED}"

text \<open>
  Corroboration: the engine calls a behavior probable, confirmed or contained ransomware only
  with the sensor and its permissions available, a score of at least 70, two strong signals and
  signals of two distinct families; one signal never suffices. The score is always in 0..100.
\<close>

theorem behavior_needs_corroboration:
  assumes "alarming (risk_state (evaluate_behavior obs sensor perms applied))"
  shows "sensor \<and> perms \<and> 2 \<le> length obs \<and> 2 \<le> count_if strong_signal obs \<and>
    2 \<le> count_distinct (map signal_family obs) \<and>
    70 \<le> ba_score (evaluate_behavior obs sensor perms applied) \<and>
    ba_score (evaluate_behavior obs sensor perms applied) \<le> 100"
  using assms families_need_signals [of obs] behavior_score_range [of obs]
  by (auto simp: evaluate_behavior_def alarming_def Let_def split: if_splits)

definition ex_behavior :: "string \<Rightarrow> BehaviorSignal" where
  "ex_behavior i = \<lparr> bs_signal_id = i, bs_confidence = 9 / 10, bs_weight = 40,
     bs_explanation = ''x'', bs_evidence = [], bs_high_confidence = False \<rparr>"

theorem behavior_needs_corroboration_witness:
  "risk_state (evaluate_behavior [ex_behavior ''entropy:1'', ex_behavior ''rename:1''] True True False)
     = PROBABLE \<and>
   2 \<le> count_distinct (map signal_family [ex_behavior ''entropy:1'', ex_behavior ''rename:1''])"
proof -
  let ?o = "[ex_behavior ''entropy:1'', ex_behavior ''rename:1'']"
  have "risk_state (evaluate_behavior ?o True True False) = PROBABLE" by code_simp
  with behavior_needs_corroboration [of ?o True True False] show ?thesis by (simp add: alarming_def)
qed

text \<open>
  More evidence never lowers the verdict: with the sensor and permissions available and no
  containment, adding signals never moves the risk state down, and never lowers the score.
\<close>

theorem more_evidence_never_lowers_risk:
  "risk_rank (risk_state (evaluate_behavior obs True True False))
     \<le> risk_rank (risk_state (evaluate_behavior (obs @ extra) True True False)) \<and>
   ba_score (evaluate_behavior obs True True False)
     \<le> ba_score (evaluate_behavior (obs @ extra) True True False)"
  using behavior_score_append [of obs extra] families_append [of obs extra]
  by (auto simp: evaluate_behavior_def Let_def)

end
