(* ===== verification/AR_Adaptive.thy ===== *)
theory AR_Adaptive
  imports AR_Models
begin

text \<open>
  The adaptive detector of \<open>anti_ransomware/adaptive_detector.py\<close>: policy and event validation,
  \<open>ingest\<close> with its bounded tables, and \<open>_assessment\<close>, which turns the events of a process tree
  inside the correlation window into signals and a decision. The random identifier of the decision
  is an argument. The demonstration scenarios of the module are run as theorems.
\<close>

section \<open>Data\<close>

record AdaptiveDetectionPolicy =
  short_window_seconds :: pyfloat
  correlation_window_seconds :: pyfloat
  maximum_process_trees :: int
  maximum_events_per_tree :: int
  entropy_file_threshold :: int
  rename_threshold :: int
  deletion_threshold :: int
  directory_spread_threshold :: int
  distinct_file_threshold :: int
  volume_spread_threshold :: int
  minimum_rate_multiplier :: pyfloat
  write_volume_threshold :: int

definition default_policy :: AdaptiveDetectionPolicy where
  "default_policy = \<lparr> short_window_seconds = 5, correlation_window_seconds = 30,
     maximum_process_trees = 2048, maximum_events_per_tree = 4096, entropy_file_threshold = 5,
     rename_threshold = 5, deletion_threshold = 5, directory_spread_threshold = 3,
     distinct_file_threshold = 8, volume_spread_threshold = 2, minimum_rate_multiplier = 4,
     write_volume_threshold = 32 * 1024 * 1024 \<rparr>"

definition policy_validated :: "AdaptiveDetectionPolicy \<Rightarrow> AdaptiveDetectionPolicy py" where
  "policy_validated p =
     (if \<not> (1 \<le> maximum_process_trees p \<and> maximum_process_trees p \<le> 100000) then
        Inl (ValueError ''maximum_process_trees must be between 1 and 100000'')
      else if \<not> (8 \<le> maximum_events_per_tree p \<and> maximum_events_per_tree p \<le> 100000) then
        Inl (ValueError ''maximum_events_per_tree must be between 8 and 100000'')
      else if \<not> (1 \<le> short_window_seconds p \<and>
          short_window_seconds p \<le> correlation_window_seconds p \<and>
          correlation_window_seconds p \<le> 600) then
        Inl (ValueError ''correlation windows must be ordered and no longer than 600 seconds'')
      else if minimum_rate_multiplier p < 1 then
        Inl (ValueError ''minimum_rate_multiplier must be at least 1'')
      else Inr p)"

record ProcessTrustContext =
  signing_state :: string
  tr_platform_binary :: bool
  tr_notarized :: "bool option"
  first_seen :: bool
  executable_location :: string
  interpreter :: bool
  script_signed :: "bool option"

definition default_trust :: ProcessTrustContext where
  "default_trust = \<lparr> signing_state = ''UNKNOWN'', tr_platform_binary = False, tr_notarized = None,
     first_seen = False, executable_location = ''OTHER'', interpreter = False,
     script_signed = None \<rparr>"

record AdaptiveMutationEvent =
  event_id :: string
  monotonic_time :: pyfloat
  process_key :: string
  tree_key :: string
  path_token :: string
  directory_token :: string
  volume_token :: string
  operation :: string
  bytes_changed :: int
  entropy_transition :: bool
  extension_changed :: bool
  renamed_over_original :: bool
  original_deleted :: bool
  canary_modified :: bool
  ransom_note_pattern :: bool
  telemetry_complete :: bool
  expected_events_per_30s :: "pyfloat option"
  trust :: ProcessTrustContext

definition event_validated :: "AdaptiveMutationEvent \<Rightarrow> AdaptiveMutationEvent py" where
  "event_validated e =
     (if list_ex (\<lambda>v. v = '''' \<or> 256 < length v) [event_id e, process_key e, tree_key e,
          path_token e, directory_token e, volume_token e, operation e] then
        Inl (ValueError ''adaptive event identifiers must be non-empty and at most 256 characters'')
      else if monotonic_time e < 0 \<or> bytes_changed e < 0 then
        Inl (ValueError ''adaptive event numeric values must be non-negative'')
      else if (case expected_events_per_30s e of None \<Rightarrow> False | Some x \<Rightarrow> x < 0) then
        Inl (ValueError ''expected event rate must be non-negative'')
      else Inr e)"

record AdaptiveAssessment =
  model_version :: string
  process_tree_key :: string
  decision :: DetectionDecision
  reason_codes :: "string list"
  window_evidence :: "(string, evidence_value) odict"
  telemetry_coverage :: string
  event_accepted :: bool
  automatic_containment_performed :: bool

record AdaptiveRansomwareDetector =
  policy :: AdaptiveDetectionPolicy
  events :: "(string, AdaptiveMutationEvent list) odict"
  seen_event_ids :: "(string, unit) odict"
  evicted_trees :: nat
  evicted_events :: nat
  duplicate_events :: nat

definition MODEL_VERSION :: string where
  "MODEL_VERSION = ''msaa-adaptive-ransomware-1.0''"

definition new_detector :: "AdaptiveDetectionPolicy \<Rightarrow> AdaptiveRansomwareDetector py" where
  "new_detector p = py_bind (policy_validated p) (\<lambda>p. Inr \<lparr> policy = p, events = [],
     seen_event_ids = [], evicted_trees = 0, evicted_events = 0, duplicate_events = 0 \<rparr>)"

section \<open>Assessment\<close>

text \<open>\<open>add(signal_id, weight, rationale, evidence)\<close> under its condition.\<close>

definition signal_if ::
  "bool \<Rightarrow> string \<Rightarrow> int \<Rightarrow> string \<Rightarrow> (string, evidence_value) odict \<Rightarrow> DetectionSignal list" where
  "signal_if b i w why ev = (if b
     then [\<lparr> signal_id = i, weight = w, rationale = why, evidence = ev \<rparr>] else [])"

definition window_events ::
  "AdaptiveDetectionPolicy \<Rightarrow> pyfloat \<Rightarrow> AdaptiveMutationEvent list \<Rightarrow> AdaptiveMutationEvent list" where
  "window_events p now q = filter (\<lambda>e. 0 \<le> now - monotonic_time e \<and>
     now - monotonic_time e \<le> correlation_window_seconds p) q"

definition distinct_paths ::
  "(AdaptiveMutationEvent \<Rightarrow> bool) \<Rightarrow> AdaptiveMutationEvent list \<Rightarrow> int" where
  "distinct_paths c es = int (count_distinct (map path_token (filter c es)))"

definition renames :: "AdaptiveMutationEvent \<Rightarrow> bool" where
  "renames e \<longleftrightarrow> extension_changed e \<or> renamed_over_original e"

definition deletes :: "AdaptiveMutationEvent \<Rightarrow> bool" where
  "deletes e \<longleftrightarrow> original_deleted e \<or> str_lower (operation e) = ''delete''"

definition expected_rate :: "AdaptiveMutationEvent list \<Rightarrow> pyfloat option" where
  "expected_rate es = (case List.map_filter expected_events_per_30s es of
     [] \<Rightarrow> None | x # xs \<Rightarrow> Some (fold max xs x))"

definition rate_signal ::
  "AdaptiveDetectionPolicy \<Rightarrow> AdaptiveMutationEvent list \<Rightarrow> DetectionSignal list" where
  "rate_signal p es = (case expected_rate es of None \<Rightarrow> []
     | Some expected \<Rightarrow>
         (let multiplier = of_nat (length es) / max 1 expected
          in signal_if (distinct_file_threshold p \<le> int (length es) \<and>
               minimum_rate_multiplier p \<le> multiplier) ''AR_ADAPTIVE_RATE_DEVIATION'' 20
             ''process-tree file activity materially exceeded its local baseline''
             [(''observed'', EInt (int (length es))), (''expected'', EFloat expected),
              (''multiplier'', EFloat (round_to 2 multiplier))]))"

definition behavior_signals ::
  "AdaptiveDetectionPolicy \<Rightarrow> AdaptiveMutationEvent list \<Rightarrow> DetectionSignal list" where
  "behavior_signals p es =
     (let paths = distinct_paths (\<lambda>_. True) es;
          directories = int (count_distinct (map directory_token es));
          volumes = int (count_distinct (map volume_token es));
          entropy_paths = distinct_paths entropy_transition es;
          rename_paths = distinct_paths renames es;
          deletion_paths = distinct_paths deletes es;
          total_bytes = sum_list (map bytes_changed es)
      in signal_if (entropy_file_threshold p \<le> entropy_paths) ''AR_ADAPTIVE_ENTROPY_WAVE'' 45
           ''multiple distinct files transitioned toward encrypted-looking content''
           [(''distinct_files'', EInt entropy_paths),
            (''window_seconds'', EFloat (correlation_window_seconds p))] @
         signal_if (rename_threshold p \<le> rename_paths) ''AR_ADAPTIVE_RENAME_FANOUT'' 20
           ''one process tree renamed or changed extensions across multiple files''
           [(''distinct_files'', EInt rename_paths)] @
         signal_if (deletion_threshold p \<le> deletion_paths) ''AR_ADAPTIVE_DELETION_FANOUT'' 25
           ''one process tree removed originals across multiple files''
           [(''distinct_files'', EInt deletion_paths)] @
         signal_if (distinct_file_threshold p \<le> paths \<and> directory_spread_threshold p \<le> directories)
           ''AR_ADAPTIVE_DIRECTORY_SPREAD'' 15 ''file mutations spread across several directories''
           [(''distinct_files'', EInt paths), (''directories'', EInt directories)] @
         signal_if (volume_spread_threshold p \<le> volumes \<and> distinct_file_threshold p \<le> paths)
           ''AR_ADAPTIVE_VOLUME_SPREAD'' 15 ''one process tree modified files across multiple volumes''
           [(''volumes'', EInt volumes), (''distinct_files'', EInt paths)] @
         signal_if (write_volume_threshold p \<le> total_bytes \<and> entropy_file_threshold p \<le> paths)
           ''AR_ADAPTIVE_WRITE_VOLUME'' 15 ''bounded metadata indicates an unusually large write volume''
           [(''bytes_changed'', EInt total_bytes), (''distinct_files'', EInt paths)] @
         rate_signal p es @
         signal_if (list_ex canary_modified es) ''AR_ADAPTIVE_CANARY'' 60
           ''an approved protected canary changed''
           [(''count'', EInt (int (count_if canary_modified es)))] @
         signal_if (list_ex ransom_note_pattern es \<and>
             (0 < entropy_paths \<or> 0 < deletion_paths \<or> 0 < rename_paths))
           ''AR_ADAPTIVE_NOTE_SEQUENCE'' 30
           ''a ransom-note pattern followed correlated mutation behavior''
           [(''note_events'', EInt (int (count_if ransom_note_pattern es)))])"

definition context_signals ::
  "bool \<Rightarrow> ProcessTrustContext \<Rightarrow> DetectionSignal list" where
  "context_signals behavior_present tr =
     (let signing = str_upper (signing_state tr); location = str_upper (executable_location tr)
      in signal_if (behavior_present \<and>
             signing \<in> {''UNSIGNED'', ''AD_HOC'', ''INVALID'', ''MODIFIED_AFTER_SIGNING''})
           ''AR_ADAPTIVE_UNTRUSTED_PROCESS_CONTEXT'' 10
           ''suspicious behavior originated from a process without a valid trusted signature''
           [(''signing_state'', EStr signing)] @
         signal_if (behavior_present \<and> first_seen tr \<and>
             location \<in> {''DOWNLOADS'', ''TEMPORARY'', ''CACHE''})
           ''AR_ADAPTIVE_FIRST_SEEN_LOCATION'' 15
           ''a first-seen process executed from a higher-risk transient location''
           [(''location_class'', EStr location)] @
         signal_if (behavior_present \<and> interpreter tr \<and> script_signed tr = Some False)
           ''AR_ADAPTIVE_INTERPRETER_SCRIPT'' 10
           ''an interpreter attributed the behavior to an untrusted script'' [])"

definition coverage_complete :: "AdaptiveMutationEvent list \<Rightarrow> bool" where
  "coverage_complete es \<longleftrightarrow> es \<noteq> [] \<and> list_all telemetry_complete es"

definition adaptive_signals ::
  "AdaptiveDetectionPolicy \<Rightarrow> AdaptiveMutationEvent list \<Rightarrow> DetectionSignal list" where
  "adaptive_signals p es =
     (let behavior = behavior_signals p es;
          behavior_present = list_ex (\<lambda>s. 15 \<le> weight s) behavior;
          tr = (if es = [] then default_trust else trust (last es))
      in behavior @ context_signals behavior_present tr @
         signal_if (\<not> coverage_complete es) ''AR_ADAPTIVE_PARTIAL_COVERAGE'' 0
           ''sensor coverage was incomplete; confidence and automated response are reduced'' [])"

definition DESTRUCTIVE_FAMILIES :: "string list" where
  "DESTRUCTIVE_FAMILIES = [''AR_ADAPTIVE_ENTROPY_WAVE'', ''AR_ADAPTIVE_RENAME_FANOUT'',
     ''AR_ADAPTIVE_DELETION_FANOUT'', ''AR_ADAPTIVE_CANARY'', ''AR_ADAPTIVE_NOTE_SEQUENCE'']"

definition destructive_families :: "DetectionSignal list \<Rightarrow> nat" where
  "destructive_families sigs =
     count_distinct (filter (\<lambda>i. i \<in> set DESTRUCTIVE_FAMILIES) (map signal_id sigs))"

definition manual_review :: "DetectionDecision \<Rightarrow> DetectionDecision" where
  "manual_review d =
     d\<lparr>automatic_response_eligible := False, recommended_response := ''manual_review''\<rparr>"

definition assessment ::
  "string \<Rightarrow> string \<Rightarrow> pyfloat \<Rightarrow> bool \<Rightarrow> AdaptiveRansomwareDetector \<Rightarrow> AdaptiveAssessment" where
  "assessment hex k now accepted det =
     (let p = policy det;
          es = window_events p now (od_get (events det) k []);
          short = filter (\<lambda>e. now - monotonic_time e \<le> short_window_seconds p) es;
          sigs = adaptive_signals p es;
          d0 = decide hex sigs False;
          d1 = (if automatic_response_eligible d0 \<and> destructive_families sigs < 2
                then manual_review d0 else d0);
          d2 = (if \<not> coverage_complete es \<and> automatic_response_eligible d1
                then manual_review d1 else d1)
      in \<lparr> model_version = MODEL_VERSION, process_tree_key = k, decision = d2,
           reason_codes = map signal_id sigs,
           window_evidence =
             [(''window_seconds'', EFloat (correlation_window_seconds p)),
              (''short_window_seconds'', EFloat (short_window_seconds p)),
              (''event_count'', EInt (int (length es))),
              (''short_window_event_count'', EInt (int (length short))),
              (''distinct_files'', EInt (distinct_paths (\<lambda>_. True) es)),
              (''distinct_directories'', EInt (int (count_distinct (map directory_token es)))),
              (''distinct_volumes'', EInt (int (count_distinct (map volume_token es)))),
              (''entropy_transition_files'', EInt (distinct_paths entropy_transition es)),
              (''renamed_files'', EInt (distinct_paths renames es)),
              (''deleted_files'', EInt (distinct_paths deletes es)),
              (''bytes_changed'', EInt (sum_list (map bytes_changed es))),
              (''raw_paths_retained'', EBool False)],
           telemetry_coverage = (if coverage_complete es then ''COMPLETE'' else ''PARTIAL''),
           event_accepted = accepted, automatic_containment_performed = False \<rparr>)"

section \<open>Ingestion\<close>

fun expire_mutations :: "pyfloat \<Rightarrow> AdaptiveMutationEvent list \<Rightarrow> AdaptiveMutationEvent list" where
  "expire_mutations cutoff [] = []"
| "expire_mutations cutoff (e # es) =
     (if monotonic_time e < cutoff then expire_mutations cutoff es else e # es)"

definition ingest_queue ::
  "AdaptiveMutationEvent \<Rightarrow> AdaptiveRansomwareDetector \<Rightarrow> AdaptiveMutationEvent list" where
  "ingest_queue e det =
     expire_mutations (monotonic_time e - correlation_window_seconds (policy det))
       (pop_excess (nat (maximum_events_per_tree (policy det)))
          (od_get (events det) (tree_key e) [] @ [e]))"

definition accept_event ::
  "AdaptiveMutationEvent \<Rightarrow> AdaptiveRansomwareDetector \<Rightarrow> AdaptiveRansomwareDetector" where
  "accept_event e det =
     (let p = policy det; trees = nat (maximum_process_trees p);
          q0 = od_get (events det) (tree_key e) [] @ [e]; q = ingest_queue e det
      in det\<lparr> seen_event_ids := touch_key (nat (maximum_process_trees p * 4)) (event_id e) ()
                (seen_event_ids det),
              events := touch_key trees (tree_key e) q (events det),
              evicted_events := evicted_events det + (length q0 - nat (maximum_events_per_tree p)),
              evicted_trees := evicted_trees det +
                (length (AList.update (tree_key e) q (events det)) - trees) \<rparr>)"

definition ingest ::
  "string \<Rightarrow> AdaptiveMutationEvent \<Rightarrow> AdaptiveRansomwareDetector \<Rightarrow>
   AdaptiveAssessment py \<times> AdaptiveRansomwareDetector" where
  "ingest hex ev det = (case event_validated ev of
     Inl err \<Rightarrow> (Inl err, det)
   | Inr e \<Rightarrow>
       if event_id e \<in> set (od_keys (seen_event_ids det)) then
         (let det' = det\<lparr>duplicate_events := duplicate_events det + 1\<rparr>
          in (Inr (assessment hex (tree_key e) (monotonic_time e) False det'), det'))
       else
         (let det' = accept_event e det
          in (Inr (assessment hex (tree_key e) (monotonic_time e) True det'), det')))"

definition retained_event_count :: "AdaptiveRansomwareDetector \<Rightarrow> nat" where
  "retained_event_count det = sum_list (map length (od_values (events det)))"

section \<open>The demonstration\<close>

definition demo_unsigned :: ProcessTrustContext where
  "demo_unsigned = default_trust\<lparr>signing_state := ''UNSIGNED'', first_seen := True,
     executable_location := ''TEMPORARY''\<rparr>"

definition demo_signed :: ProcessTrustContext where
  "demo_signed = default_trust\<lparr>signing_state := ''DEVELOPER_ID'', tr_notarized := Some True\<rparr>"

definition demo_event :: "nat \<Rightarrow> AdaptiveMutationEvent" where
  "demo_event n = \<lparr> event_id = ''demo-'' @ str_nat n, monotonic_time = 100 + of_nat n,
     process_key = ''demo-process'', tree_key = ''demo-tree'', path_token = ''path-'' @ str_nat n,
     directory_token = ''directory-'' @ str_nat (n mod 3), volume_token = ''volume-1'',
     operation = ''modified'', bytes_changed = 8 * 1024 * 1024, entropy_transition = False,
     extension_changed = False, renamed_over_original = False, original_deleted = False,
     canary_modified = False, ransom_note_pattern = False, telemetry_complete = True,
     expected_events_per_30s = Some 1, trust = demo_unsigned \<rparr>"

record demo_scenario =
  scenario_id :: string
  scenario_events :: "AdaptiveMutationEvent list"
  required_codes :: "string list"
  automatic_expected :: bool

definition composite :: "AdaptiveMutationEvent list" where
  "composite = map (\<lambda>n. (demo_event n)\<lparr>entropy_transition := True, extension_changed := True,
     original_deleted := True, volume_token := ''volume-'' @ str_nat (n mod 2),
     ransom_note_pattern := (n = 10)\<rparr>) [1..<11]"

definition renumber ::
  "string \<Rightarrow> (AdaptiveMutationEvent \<Rightarrow> AdaptiveMutationEvent) \<Rightarrow> AdaptiveMutationEvent list \<Rightarrow>
   AdaptiveMutationEvent list" where
  "renumber pre f es = map (\<lambda>(i, e). (f e)\<lparr>event_id := pre @ str_nat i\<rparr>) (zip [1..<Suc (length es)] es)"

definition demo_scenarios :: "demo_scenario list" where
  "demo_scenarios =
     [\<lparr> scenario_id = ''AR-ADAPT-01'', scenario_events = [(demo_event 1)\<lparr>bytes_changed := 1\<rparr>],
        required_codes = [], automatic_expected = False \<rparr>,
      \<lparr> scenario_id = ''AR-ADAPT-02'',
        scenario_events = map (\<lambda>n. (demo_event n)\<lparr>entropy_transition := True\<rparr>) [1..<6],
        required_codes = [''AR_ADAPTIVE_ENTROPY_WAVE'', ''AR_ADAPTIVE_UNTRUSTED_PROCESS_CONTEXT''],
        automatic_expected = False \<rparr>,
      \<lparr> scenario_id = ''AR-ADAPT-03'', scenario_events = composite,
        required_codes = [''AR_ADAPTIVE_ENTROPY_WAVE'', ''AR_ADAPTIVE_RENAME_FANOUT'',
          ''AR_ADAPTIVE_DELETION_FANOUT''], automatic_expected = True \<rparr>,
      \<lparr> scenario_id = ''AR-ADAPT-04'',
        scenario_events = renumber ''signed-'' (trust_update (\<lambda>_. demo_signed)) composite,
        required_codes = [''AR_ADAPTIVE_ENTROPY_WAVE'', ''AR_ADAPTIVE_DELETION_FANOUT''],
        automatic_expected = True \<rparr>,
      \<lparr> scenario_id = ''AR-ADAPT-05'',
        scenario_events = renumber ''partial-'' (telemetry_complete_update (\<lambda>_. False)) composite,
        required_codes = [''AR_ADAPTIVE_PARTIAL_COVERAGE''], automatic_expected = False \<rparr>,
      \<lparr> scenario_id = ''AR-ADAPT-06'',
        scenario_events = map (\<lambda>n. (demo_event n)\<lparr>bytes_changed := 1\<rparr>) [1..<9],
        required_codes = [''AR_ADAPTIVE_RATE_DEVIATION'', ''AR_ADAPTIVE_DIRECTORY_SPREAD''],
        automatic_expected = False \<rparr>]"

text \<open>\<open>execute\<close>: a fresh detector ingests the events; the last result decides.\<close>

fun ingest_all ::
  "string \<Rightarrow> AdaptiveMutationEvent list \<Rightarrow> AdaptiveRansomwareDetector \<Rightarrow> AdaptiveAssessment option \<Rightarrow>
   AdaptiveAssessment option py" where
  "ingest_all hex [] det r = Inr r"
| "ingest_all hex (e # es) det r = (case ingest hex e det of
     (Inl err, _) \<Rightarrow> Inl err | (Inr a, det') \<Rightarrow> ingest_all hex es det' (Some a))"

definition execute_scenario :: "string \<Rightarrow> demo_scenario \<Rightarrow> bool py" where
  "execute_scenario hex sc =
     py_bind (new_detector default_policy) (\<lambda>det.
     py_bind (ingest_all hex (scenario_events sc) det None) (\<lambda>r. case r of
         None \<Rightarrow> Inl (ValueError ''assertion'')
       | Some a \<Rightarrow> Inr (list_all (\<lambda>c. c \<in> set (reason_codes a)) (required_codes sc) \<and>
           automatic_response_eligible (decision a) = automatic_expected sc)))"

section \<open>Properties\<close>

subsection \<open>Decisions\<close>

text \<open>
  Automatic response has exactly three conditions: a score of at least 85, two distinct
  destructive signal families among the reason codes, and complete telemetry for every event in the
  window. Without them the recommendation is never to pause a process, and the detector itself
  never performs containment. The score is always in 0..100.
\<close>

theorem automatic_response_conditions:
  "let a = assessment hex k now acc det; d = decision a in
   (automatic_response_eligible d \<longleftrightarrow> 85 \<le> score d \<and> telemetry_coverage a = ''COMPLETE'' \<and>
      2 \<le> count_distinct (filter (\<lambda>c. c \<in> set DESTRUCTIVE_FAMILIES) (reason_codes a))) \<and>
   (recommended_response d = ''pause_exact_process'' \<longleftrightarrow> automatic_response_eligible d) \<and>
   \<not> automatic_containment_performed a \<and> 0 \<le> score d \<and> score d \<le> 100"
  by (auto simp: assessment_def decide_def manual_review_def destructive_families_def Let_def)

lemma signal_if_weight: "s \<in> set (signal_if b i w r e) \<Longrightarrow> weight s = w"
  by (auto simp: signal_if_def split: if_splits)

lemma behavior_signal_weight: "s \<in> set (behavior_signals p es) \<Longrightarrow> 15 \<le> weight s"
  by (auto simp: behavior_signals_def rate_signal_def Let_def dest!: signal_if_weight
      split: option.splits)

lemma no_behavior_no_context:
  "behavior_signals p es = [] \<Longrightarrow> \<forall>s \<in> set (adaptive_signals p es). weight s = 0"
  by (auto simp: adaptive_signals_def context_signals_def Let_def signal_if_def)

text \<open>
  Trust context never accuses by itself: an unsigned, first-seen or scripted process whose
  window shows none of the behavior signals has score 0 and is only observed; and whenever the
  score is positive, the reason codes hold a behavior signal of weight at least 15.
\<close>

theorem context_alone_scores_zero:
  "let a = assessment hex k now acc det;
       b = behavior_signals (policy det) (window_events (policy det) now (od_get (events det) k []))
   in (b = [] \<longrightarrow> score (decision a) = 0 \<and> recommended_response (decision a) = ''observe'') \<and>
      (0 < score (decision a) \<longrightarrow> (\<exists>s \<in> set b. 15 \<le> weight s \<and> signal_id s \<in> set (reason_codes a)))"
proof -
  let ?es = "window_events (policy det) now (od_get (events det) k [])"
  let ?b = "behavior_signals (policy det) ?es" and ?a = "assessment hex k now acc det"
  have zero: "score (decision ?a) = 0 \<and> recommended_response (decision ?a) = ''observe''" if "?b = []"
  proof -
    have "map weight (adaptive_signals (policy det) ?es)
        = map (\<lambda>_. 0) (adaptive_signals (policy det) ?es)"
      using no_behavior_no_context [OF that] by simp
    then have "sum_list (map weight (adaptive_signals (policy det) ?es)) = 0"
      by (simp only: sum_list_0)
    then show ?thesis by (simp add: assessment_def decide_def manual_review_def Let_def)
  qed
  have "\<exists>s \<in> set ?b. 15 \<le> weight s \<and> signal_id s \<in> set (reason_codes ?a)" if "0 < score (decision ?a)"
  proof -
    have "?b \<noteq> []" using zero that by auto
    then obtain s where "s \<in> set ?b" by (meson last_in_set)
    then show ?thesis
      by (auto simp: assessment_def adaptive_signals_def Let_def intro!: bexI [of _ s]
          dest: behavior_signal_weight)
  qed
  with zero show ?thesis by (simp add: Let_def)
qed

theorem context_alone_scores_zero_witness:
  "let det = \<lparr> policy = default_policy, events = [(''demo-tree'', [(demo_event 1)\<lparr>bytes_changed := 1\<rparr>])],
       seen_event_ids = [], evicted_trees = 0, evicted_events = 0, duplicate_events = 0 \<rparr>
   in signing_state (trust (demo_event 1)) = ''UNSIGNED'' \<and>
      score (decision (assessment ''x'' ''demo-tree'' 101 True det)) = 0"
proof -
  let ?det = "\<lparr> policy = default_policy, events = [(''demo-tree'', [(demo_event 1)\<lparr>bytes_changed := 1\<rparr>])],
       seen_event_ids = [], evicted_trees = 0, evicted_events = 0, duplicate_events = 0 \<rparr>"
  have "behavior_signals default_policy (window_events default_policy 101
      (od_get (events ?det) ''demo-tree'' [])) = []"
    by (simp add: behavior_signals_def rate_signal_def window_events_def od_get_def demo_event_def
        default_policy_def signal_if_def distinct_paths_def count_distinct_def expected_rate_def
        map_filter_simps renames_def deletes_def str_lower_def lower_char_def Let_def)
  moreover have "signing_state (trust (demo_event 1)) = ''UNSIGNED''"
    by (simp add: demo_event_def demo_unsigned_def)
  ultimately show ?thesis
    using context_alone_scores_zero [of "''x''" "''demo-tree''" 101 True ?det] by (simp add: Let_def)
qed

subsection \<open>Ingestion\<close>

definition detector_ok :: "AdaptiveRansomwareDetector \<Rightarrow> bool" where
  "detector_ok det \<longleftrightarrow> policy_validated (policy det) = Inr (policy det) \<and>
     od_wf (events det) \<and> od_wf (seen_event_ids det) \<and>
     int (length (events det)) \<le> maximum_process_trees (policy det) \<and>
     int (length (seen_event_ids det)) \<le> maximum_process_trees (policy det) * 4 \<and>
     (\<forall>q \<in> set (od_values (events det)). int (length q) \<le> maximum_events_per_tree (policy det))"

interpretation at: time_window monotonic_time expire_mutations
proof
  show "expire_mutations c q = dropWhile (\<lambda>e. monotonic_time e < c) q" for c q
    by (induction q) auto
qed

lemma policy_bounds:
  assumes "policy_validated p = Inr p'"
  shows "1 \<le> maximum_process_trees p" "8 \<le> maximum_events_per_tree p"
    "1 \<le> correlation_window_seconds p" "p' = p"
  using assms by (auto simp: policy_validated_def split: if_splits)

lemma event_validated_same: "event_validated e = Inr e' \<Longrightarrow> e' = e"
  by (auto simp: event_validated_def split: if_splits)

lemma new_detector_ok: "new_detector p = Inr det \<Longrightarrow> detector_ok det"
proof -
  assume "new_detector p = Inr det"
  then have v: "policy_validated p = Inr p" and det: "policy det = p" "events det = []" "seen_event_ids det = []"
    using policy_bounds(4) by (auto simp: new_detector_def py_bind_Inr_iff)
  with policy_bounds(1) [OF v] show ?thesis by (simp add: detector_ok_def)
qed

lemma trees_Suc:
  assumes "detector_ok det"
  obtains n m where "nat (maximum_process_trees (policy det)) = Suc n"
    "nat (maximum_process_trees (policy det) * 4) = Suc m"
proof -
  have "1 \<le> maximum_process_trees (policy det)"
    using assms policy_bounds(1) by (auto simp: detector_ok_def)
  then have "nat (maximum_process_trees (policy det)) = Suc (nat (maximum_process_trees (policy det) - 1))"
    "nat (maximum_process_trees (policy det) * 4) = Suc (nat (maximum_process_trees (policy det) * 4 - 1))"
    by simp_all
  then show ?thesis by (rule that)
qed

lemma ok_wf: "detector_ok det \<Longrightarrow> od_wf (events det)" "detector_ok det \<Longrightarrow> od_wf (seen_event_ids det)"
  by (simp_all add: detector_ok_def)

lemma length_ingest_queue:
  "int (length (ingest_queue e det)) \<le> max 0 (maximum_events_per_tree (policy det))"
proof -
  have "length (ingest_queue e det) \<le> nat (maximum_events_per_tree (policy det))"
    unfolding ingest_queue_def by (rule order_trans [OF at.length_expire]) simp
  then show ?thesis by simp
qed

lemma ingest_queue_last: "detector_ok det \<Longrightarrow> \<exists>q. ingest_queue e det = q @ [e]"
proof -
  assume "detector_ok det"
  then have "0 < nat (maximum_events_per_tree (policy det))"
    "0 < correlation_window_seconds (policy det)"
    using policy_bounds(2,3) by (fastforce simp: detector_ok_def)+
  moreover have "dropWhile P (xs @ [e]) = dropWhile P xs @ [e]" if "\<not> P e" for P xs
    using that by (induction xs) auto
  ultimately show ?thesis
    by (auto simp: ingest_queue_def at.expire_eq pop_excess_snoc)
qed

lemma accept_event_fields:
  "policy (accept_event e det) = policy det"
  "events (accept_event e det) = touch_key (nat (maximum_process_trees (policy det))) (tree_key e)
     (ingest_queue e det) (events det)"
  "seen_event_ids (accept_event e det) = touch_key (nat (maximum_process_trees (policy det) * 4))
     (event_id e) () (seen_event_ids det)"
  by (simp_all add: accept_event_def Let_def)

lemma accept_event_ok: "detector_ok det \<Longrightarrow> detector_ok (accept_event e det)"
proof -
  assume ok: "detector_ok det"
  then obtain n m where n: "nat (maximum_process_trees (policy det)) = Suc n"
    "nat (maximum_process_trees (policy det) * 4) = Suc m" by (rule trees_Suc)
  let ?d = "events (accept_event e det)" and ?s = "seen_event_ids (accept_event e det)"
  have "od_wf ?d" "od_wf ?s" "length ?d \<le> Suc n" "length ?s \<le> Suc m"
    using ok n tk.touch_wf tk.length_touch by (auto simp: accept_event_fields detector_ok_def)
  moreover have "0 \<le> maximum_events_per_tree (policy det)"
    using ok policy_bounds(2) by (fastforce simp: detector_ok_def)
  then have "\<forall>q \<in> set (od_values ?d). int (length q) \<le> maximum_events_per_tree (policy det)"
    using ok values_touch_key length_ingest_queue [of e det] unfolding detector_ok_def
      accept_event_fields by fastforce
  moreover have "maximum_process_trees (policy det) = int (Suc n)"
    "maximum_process_trees (policy det) * 4 = int (Suc m)" using n by linarith+
  ultimately show ?thesis
    using ok by (simp add: detector_ok_def accept_event_fields del: of_nat_Suc)
qed

definition ingest_step :: "AdaptiveMutationEvent \<Rightarrow> AdaptiveRansomwareDetector \<Rightarrow> AdaptiveRansomwareDetector" where
  "ingest_step e det = snd (ingest '''' e det)"

lemma ingest_cases:
  obtains (invalid) err where "event_validated e = Inl err" "ingest hex e det = (Inl err, det)"
  | (duplicate) "event_validated e = Inr e" "event_id e \<in> set (od_keys (seen_event_ids det))"
      "snd (ingest hex e det) = det\<lparr>duplicate_events := duplicate_events det + 1\<rparr>"
  | (accepted) "event_validated e = Inr e" "event_id e \<notin> set (od_keys (seen_event_ids det))"
      "snd (ingest hex e det) = accept_event e det"
  using event_validated_same [of e]
  by (cases "event_validated e"; cases "event_id e \<in> set (od_keys (seen_event_ids det))")
    (auto simp: ingest_def Let_def)

interpretation dm: invariant_machine ingest_step detector_ok
proof
  show "detector_ok (ingest_step e det)" if "detector_ok det" for e det
    by (rule ingest_cases [of e "''''" det])
      (use that in \<open>auto simp: ingest_step_def accept_event_ok\<close>, simp_all add: detector_ok_def)
qed

lemma int_sum_list_bound:
  "(\<forall>q \<in> set qs. int (length q) \<le> m) \<Longrightarrow> int (sum_list (map length qs)) \<le> int (length qs) * m"
  by (induction qs) (auto simp: distrib_right)

text \<open>
  The detector is bounded whatever is fed to it: after any list of events, valid or not, at
  most \<open>maximum_process_trees\<close> trees of at most \<open>maximum_events_per_tree\<close> events and four
  identifiers per tree are kept; and an event it accepts is the newest of its tree's queue when
  the assessment is made.
\<close>

theorem detector_bounded:
  assumes "new_detector p = Inr d0" and "det = fold ingest_step es d0"
  shows "int (length (events det)) \<le> maximum_process_trees p \<and>
    int (retained_event_count det) \<le> maximum_process_trees p * maximum_events_per_tree p \<and>
    int (length (seen_event_ids det)) \<le> maximum_process_trees p * 4 \<and>
    (event_validated e = Inr e \<and> event_id e \<notin> set (od_keys (seen_event_ids det)) \<longrightarrow>
      (\<exists>q. map_of (events (ingest_step e det)) (tree_key e) = Some (q @ [e])))"
proof -
  have ok: "detector_ok det"
    unfolding assms(2) by (rule dm.run_good [OF new_detector_ok [OF assms(1)]])
  have "policy (fold ingest_step es d0) = policy d0"
  proof (induction es arbitrary: d0)
    case (Cons e es)
    have "policy (ingest_step e d0) = policy d0"
      by (rule ingest_cases [of e "''''" d0]) (auto simp: ingest_step_def accept_event_fields)
    with Cons show ?case by simp
  qed simp
  then have p: "policy det = p"
    using assms policy_bounds(4) by (auto simp: new_detector_def py_bind_Inr_iff)
  have len: "int (length (events det)) \<le> maximum_process_trees p"
    and per: "\<forall>q \<in> set (od_values (events det)). int (length q) \<le> maximum_events_per_tree p"
    and "0 \<le> maximum_events_per_tree p"
    using ok p policy_bounds(2) by (fastforce simp: detector_ok_def)+
  then have "int (retained_event_count det) \<le> maximum_process_trees p * maximum_events_per_tree p"
    using order_trans [OF int_sum_list_bound [OF per] mult_right_mono]
    by (simp add: retained_event_count_def)
  moreover have "\<exists>q. map_of (events (ingest_step e det)) (tree_key e) = Some (q @ [e])"
    if "event_validated e = Inr e" "event_id e \<notin> set (od_keys (seen_event_ids det))"
  proof -
    obtain n m where n: "nat (maximum_process_trees (policy det)) = Suc n"
      "nat (maximum_process_trees (policy det) * 4) = Suc m" using ok by (rule trees_Suc)
    have "ingest_step e det = accept_event e det"
      using that by (simp add: ingest_step_def ingest_def Let_def)
    moreover obtain q where "ingest_queue e det = q @ [e]" using ingest_queue_last [OF ok] by blast
    ultimately show ?thesis
      using n tk.touch_newest [OF ok_wf(1) [OF ok]] by (simp add: accept_event_fields)
  qed
  ultimately show ?thesis using ok p len by (auto simp: detector_ok_def)
qed

definition ex_policy :: AdaptiveDetectionPolicy where
  "ex_policy = default_policy\<lparr>maximum_process_trees := 1\<rparr>"

definition ex_detector :: AdaptiveRansomwareDetector where
  "ex_detector = \<lparr> policy = ex_policy, events = [], seen_event_ids = [], evicted_trees = 0,
     evicted_events = 0, duplicate_events = 0 \<rparr>"

lemma ex_detector_new: "new_detector ex_policy = Inr ex_detector"
  by (simp add: new_detector_def policy_validated_def ex_policy_def default_policy_def ex_detector_def)

lemma demo_event_valid: "n < 10 \<Longrightarrow> event_validated (demo_event n) = Inr (demo_event n)"
  by (simp add: event_validated_def demo_event_def str_nat.simps)

theorem detector_bounded_witness:
  "int (length (events (fold ingest_step [demo_event 1, (demo_event 2)\<lparr>tree_key := ''other''\<rparr>]
     ex_detector))) \<le> 1"
  using detector_bounded [OF ex_detector_new refl,
      of "[demo_event 1, (demo_event 2)\<lparr>tree_key := ''other''\<rparr>]"]
  by (simp add: ex_policy_def)

text \<open>How long an identifier is remembered.\<close>

lemma seen_position:
  assumes "detector_ok det" and "od_keys (seen_event_ids det) = xs @ i # ys"
    and "length ys + 1 < nat (maximum_process_trees (policy det) * 4)"
  shows "\<exists>xs' ys'. od_keys (seen_event_ids (ingest_step e det)) = xs' @ i # ys' \<and>
    length ys' \<le> length ys + 1 \<and> policy (ingest_step e det) = policy det"
proof -
  have same: ?thesis if "seen_event_ids (ingest_step e det) = seen_event_ids det"
    "policy (ingest_step e det) = policy det"
    using assms(2) that by (intro exI [of _ xs] exI [of _ ys]) simp
  show ?thesis
proof (rule ingest_cases [of e "''''" det])
  assume acc: "event_id e \<notin> set (od_keys (seen_event_ids det))"
    "snd (ingest '''' e det) = accept_event e det"
  obtain n m where m: "nat (maximum_process_trees (policy det) * 4) = Suc m"
    using assms(1) by (rule trees_Suc)
  have "i \<noteq> event_id e" using acc(1) assms(2) by auto
  from tk.touch_keys_suffix [OF this assms(2), of m] assms(3) m acc(2) show ?thesis
    by (simp add: ingest_step_def accept_event_fields)
qed (rule same; simp add: ingest_step_def)+
qed

lemma seen_remembered:
  assumes "detector_ok det" and "od_keys (seen_event_ids det) = xs @ i # ys"
    and "length ys + length es < nat (maximum_process_trees (policy det) * 4)"
  shows "i \<in> set (od_keys (seen_event_ids (fold ingest_step es det)))"
  using assms
proof (induction es arbitrary: det xs ys)
  case (Cons e es)
  obtain xs' ys' where n: "od_keys (seen_event_ids (ingest_step e det)) = xs' @ i # ys'"
    "length ys' \<le> length ys + 1" "policy (ingest_step e det) = policy det"
    using seen_position [OF Cons.prems(1,2)] Cons.prems(3) by fastforce
  have "i \<in> set (od_keys (seen_event_ids (fold ingest_step es (ingest_step e det))))"
    by (rule Cons.IH [OF dm.step_good [OF Cons.prems(1)] n(1)]) (use n Cons.prems(3) in simp)
  then show ?case by simp
qed auto

text \<open>
  Replays are rejected while remembered: an event accepted once and sent again after fewer than
  \<open>4 * maximum_process_trees\<close> other events (of any trees, valid or not) is not accepted, is
  counted as a duplicate, and leaves the retained events as they are.
\<close>

theorem replayed_event_rejected:
  assumes "detector_ok det" and "event_validated e = Inr e"
    and "event_id e \<notin> set (od_keys (seen_event_ids det))"
    and "int (length es) < maximum_process_trees (policy det) * 4"
    and "later = fold ingest_step es (ingest_step e det)"
  shows "\<exists>a. ingest hex e later = (Inr a, later\<lparr>duplicate_events := duplicate_events later + 1\<rparr>) \<and>
    \<not> event_accepted a"
proof -
  obtain n m where n: "nat (maximum_process_trees (policy det) * 4) = Suc m"
    using assms(1) by (rule trees_Suc)
  have step: "ingest_step e det = accept_event e det"
    using assms(2,3) by (simp add: ingest_step_def ingest_def Let_def)
  have "od_keys (seen_event_ids (ingest_step e det))
      = od_keys (pop_excess m (AList.delete (event_id e) (seen_event_ids det))) @ event_id e # []"
    using n by (simp add: step accept_event_fields tk.touch_snoc)
  moreover have "policy (ingest_step e det) = policy det" by (simp add: step accept_event_fields)
  ultimately have "event_id e \<in> set (od_keys (seen_event_ids later))"
    unfolding assms(5) using assms(4)
    by (intro seen_remembered [OF dm.step_good [OF assms(1)], where ys = "[]"]) auto
  then show ?thesis
    using assms(2) by (simp add: ingest_def assessment_def Let_def)
qed

theorem replayed_event_rejected_witness:
  "\<exists>a. fst (ingest ''x'' (demo_event 1) (fold ingest_step [demo_event 2, demo_event 3]
     (ingest_step (demo_event 1) ex_detector))) = Inr a \<and> \<not> event_accepted a"
proof -
  have "detector_ok ex_detector" by (rule new_detector_ok [OF ex_detector_new])
  moreover have "event_id (demo_event 1) \<notin> set (od_keys (seen_event_ids ex_detector))"
    "int (length [demo_event 2, demo_event 3]) < maximum_process_trees (policy ex_detector) * 4"
    by (simp_all add: ex_detector_def ex_policy_def)
  ultimately show ?thesis
    using replayed_event_rejected [OF _ demo_event_valid, of ex_detector 1 "[demo_event 2, demo_event 3]"
        _ "''x''"] by fastforce
qed

text \<open>
  Process trees do not interfere: an event of one tree changes no event retained for another
  tree; that tree is either untouched or, when the table is full, evicted as a whole.
\<close>

theorem trees_do_not_interfere:
  assumes "detector_ok det" and "k \<noteq> tree_key e"
    and "map_of (events (ingest_step e det)) k = Some q"
  shows "map_of (events det) k = Some q"
proof (rule ingest_cases [of e "''''" det])
  assume acc: "snd (ingest '''' e det) = accept_event e det"
  obtain n m where "nat (maximum_process_trees (policy det)) = Suc n"
    using assms(1) by (rule trees_Suc)
  with assms(3) acc show ?thesis
    using tk.touch_other [OF ok_wf(1) [OF assms(1)] assms(2)]
    by (simp only: ingest_step_def accept_event_fields)
qed (use assms in \<open>auto simp: ingest_step_def\<close>)

theorem trees_do_not_interfere_witness:
  "map_of (events (ingest_step (demo_event 1) (ex_detector\<lparr>policy := default_policy,
     events := [(''t'', [demo_event 2])]\<rparr>))) ''t'' = Some [demo_event 2] \<and>
   map_of (events (ex_detector\<lparr>policy := default_policy, events := [(''t'', [demo_event 2])]\<rparr>)) ''t''
     = Some [demo_event 2]"
proof -
  let ?det = "ex_detector\<lparr>policy := default_policy, events := [(''t'', [demo_event 2])]\<rparr>"
  have "detector_ok ?det"
    by (simp add: detector_ok_def ex_detector_def policy_validated_def default_policy_def)
  moreover have "''t'' \<noteq> tree_key (demo_event 1)" by (simp add: demo_event_def)
  moreover have "map_of (events (ingest_step (demo_event 1) ?det)) ''t'' = Some [demo_event 2]"
    by (simp add: ingest_step_def ingest_def demo_event_valid accept_event_fields ex_detector_def
        touch_key_eq default_policy_def Let_def) (simp add: demo_event_def)
  ultimately show ?thesis using trees_do_not_interfere [of ?det "''t''" "demo_event 1"] by blast
qed

end
