(* ===== verification/AR_Adaptive_Demo.thy ===== *)
theory AR_Adaptive_Demo
  imports AR_Adaptive
begin

text \<open>
  The six scenarios of \<open>run_adaptive_detector_demo\<close>, evaluated by the kernel: each one is a fresh
  detector with the default policy that ingests the events of the scenario.
\<close>

lemma demo_1: "execute_scenario ''x'' (demo_scenarios ! 0) = Inr True" by code_simp

lemma demo_2: "execute_scenario ''x'' (demo_scenarios ! 1) = Inr True" by code_simp

lemma demo_3: "execute_scenario ''x'' (demo_scenarios ! 2) = Inr True" by code_simp

lemma demo_4: "execute_scenario ''x'' (demo_scenarios ! 3) = Inr True" by code_simp

lemma demo_5: "execute_scenario ''x'' (demo_scenarios ! 4) = Inr True" by code_simp

lemma demo_6: "execute_scenario ''x'' (demo_scenarios ! 5) = Inr True" by code_simp

text \<open>
  Every scenario of the demonstration passes: the required reason codes are reported, and
  automatic response is eligible exactly in the two scenarios (unsigned and signed) with a
  correlated ransomware chain and complete telemetry.
\<close>

theorem demo_all_passed:
  "map (execute_scenario ''x'') demo_scenarios = replicate 6 (Inr True)"
proof (rule nth_equalityI)
  show "length (map (execute_scenario ''x'') demo_scenarios) = length (replicate 6 (Inr True))"
    by (simp add: demo_scenarios_def)
next
  fix i assume "i < length (map (execute_scenario ''x'') demo_scenarios)"
  then have len: "i < length demo_scenarios" "i < 6" by (simp_all add: demo_scenarios_def)
  then have "i \<in> {0, 1, 2, 3, 4, 5}" by auto
  then have "execute_scenario ''x'' (demo_scenarios ! i) = Inr True"
    using demo_1 demo_2 demo_3 demo_4 demo_5 demo_6 by auto
  then show "map (execute_scenario ''x'') demo_scenarios ! i = replicate 6 (Inr True) ! i"
    using len by simp
qed

end
