(* ===== verification/Json_Values.thy ===== *)
theory Json_Values
  imports Prelude "HOL-Library.Multiset"
begin

text \<open>
  JSON documents as \<open>json.loads\<close> returns them (which accepts \<open>NaN\<close> and the infinities), the
  Python comparisons the code makes on them, and chains of hashed records. The text of a document
  (\<open>json.dumps\<close>) and SHA-256 are parameters of the definitions that use them.
\<close>

datatype nonfinite = NaN | PosInf | NegInf

datatype json = JNull | JBool bool | JInt int | JFloat pyfloat | JNonFinite nonfinite | JStr string
  | JList "json list" | JObj "(string \<times> json) list"

type_synonym json_object = "(string, json) odict"

text \<open>Python compares \<open>bool\<close>, \<open>int\<close> and \<open>float\<close> by value.\<close>

fun json_eq_int :: "json \<Rightarrow> int \<Rightarrow> bool" where
  "json_eq_int (JInt i) n \<longleftrightarrow> i = n"
| "json_eq_int (JBool b) n \<longleftrightarrow> (if b then 1 else 0) = n"
| "json_eq_int (JFloat x) n \<longleftrightarrow> x = of_int n"
| "json_eq_int _ n \<longleftrightarrow> False"

text \<open>Python truth of a JSON value.\<close>

fun truthy :: "json \<Rightarrow> bool" where
  "truthy JNull = False"
| "truthy (JBool b) = b"
| "truthy (JInt i) = (i \<noteq> 0)"
| "truthy (JFloat x) = (x \<noteq> 0)"
| "truthy (JNonFinite x) = True"
| "truthy (JStr s) = (s \<noteq> '''')"
| "truthy (JList xs) = (xs \<noteq> [])"
| "truthy (JObj d) = (d \<noteq> [])"

text \<open>\<open>str(v)\<close>; the text of floats and containers is a parameter.\<close>

fun json_str :: "(json \<Rightarrow> string) \<Rightarrow> json \<Rightarrow> string" where
  "json_str r (JStr s) = s"
| "json_str r (JInt i) = str_int i"
| "json_str r (JBool b) = (if b then ''True'' else ''False'')"
| "json_str r JNull = ''None''"
| "json_str r v = r v"

text \<open>\<open>json.dumps(d, sort_keys=True)\<close> prints the entries in the order of their keys.\<close>

definition canonical :: "json_object \<Rightarrow> json_object" where
  "canonical d = sort_key fst d"

lemma set_canonical [simp]: "set (canonical d) = set d"
  by (simp add: canonical_def)

lemma od_wf_canonical [simp]: "od_wf (canonical d) \<longleftrightarrow> od_wf d"
proof -
  have "mset (od_keys (canonical d)) = mset (od_keys d)"
    by (simp add: canonical_def mset_map)
  then show ?thesis by (metis mset_eq_imp_distinct_iff)
qed

lemma map_of_canonical [simp]: "map_of (canonical d) = map_of d"
proof
  fix k
  have m: "map_of e k = (case filter (\<lambda>p. fst p = k) e of [] \<Rightarrow> None | p # _ \<Rightarrow> Some (snd p))"
    for e :: json_object by (induction e) auto
  show "map_of (canonical d) k = map_of d k"
    unfolding m canonical_def by (simp add: sort_key_stable)
qed

lemma canonical_cong:
  assumes "od_wf d" and "od_wf d'" and "set d = set d'"
  shows "canonical d = canonical d'"
proof -
  have "mset d = mset d'"
    using assms by (metis distinct_map set_eq_iff_mset_eq_distinct)
  moreover have "inj_on fst (set d)" using assms(1) by (simp add: distinct_map)
  ultimately show ?thesis unfolding canonical_def
    by (intro sort_key_inj_key_eq) simp_all
qed

section \<open>Chains of hashed records\<close>

text \<open>
  A verifier that walks the records from a starting hash and accepts each one by its position and
  the hash of its predecessor.
\<close>

locale hash_chain =
  fixes ok :: "nat \<Rightarrow> 'h \<Rightarrow> 'r \<Rightarrow> bool"
    and hash_of :: "'r \<Rightarrow> 'h"
    and verify_from :: "nat \<Rightarrow> 'h \<Rightarrow> 'r list \<Rightarrow> bool"
  assumes verify_Nil: "verify_from n p []"
    and verify_Cons: "verify_from n p (r # rs) \<longleftrightarrow> ok n p r \<and> verify_from (Suc n) (hash_of r) rs"
begin

lemma verify_append:
  "verify_from n p (xs @ ys) \<longleftrightarrow> verify_from n p xs \<and>
     verify_from (n + length xs) (if xs = [] then p else hash_of (last xs)) ys"
  by (induction xs arbitrary: n p) (auto simp: verify_Nil verify_Cons)

lemma verify_take: "verify_from n p xs \<Longrightarrow> verify_from n p (take k xs)"
  using verify_append [of n p "take k xs" "drop k xs"] by simp

lemma verify_snoc:
  "verify_from n p (xs @ [x]) \<longleftrightarrow> verify_from n p xs \<and>
     ok (n + length xs) (if xs = [] then p else hash_of (last xs)) x"
  by (simp add: verify_append verify_Cons verify_Nil)

text \<open>Records that agree with their hash determine their predecessor's hash, so two chains of one
  length with the same last hash are the same, up to what the hash does not see.\<close>

lemma same_last_same_chain:
  assumes link: "\<And>n p r q s. r \<in> set xs \<Longrightarrow> s \<in> set ys \<Longrightarrow> ok n p r \<Longrightarrow> ok n q s \<Longrightarrow>
      hash_of r = hash_of s \<Longrightarrow> p = q \<and> view r = view s"
    and "verify_from n p xs" and "verify_from n q ys" and "length xs = length ys"
    and "xs \<noteq> []" and "hash_of (last xs) = hash_of (last ys)"
  shows "p = q \<and> map view xs = map view ys"
  using assms
proof (induction xs arbitrary: ys rule: rev_induct)
  case (snoc x xs)
  then obtain y ys' where ys: "ys = ys' @ [y]" "length xs = length ys'"
    by (metis length_append_singleton length_greater_0_conv rev_exhaust list.size(3) zero_less_Suc
        append_is_Nil_conv not_Cons_self2 nat.inject)
  have okx: "ok (n + length xs) (if xs = [] then p else hash_of (last xs)) x"
    and oky: "ok (n + length xs) (if ys' = [] then q else hash_of (last ys')) y"
    and vx: "verify_from n p xs" and vy: "verify_from n q ys'"
    using snoc.prems ys by (auto simp: verify_snoc)
  have h: "hash_of x = hash_of y" using snoc.prems(6) ys by simp
  have l: "(if xs = [] then p else hash_of (last xs)) = (if ys' = [] then q else hash_of (last ys')) \<and>
      view x = view y"
    by (rule snoc.prems(1) [OF _ _ okx oky h]) (simp_all add: ys)
  show ?case
  proof (cases "xs = []")
    case True
    with l ys show ?thesis by simp
  next
    case False
    moreover from False ys have "ys' \<noteq> []" by auto
    ultimately have "hash_of (last xs) = hash_of (last ys')" using l False by simp
    moreover have "p = q \<and> view r = view s"
      if "r \<in> set xs" "s \<in> set ys'" "ok n p r" "ok n q s" "hash_of r = hash_of s" for n p r q s
      using snoc.prems(1) [of r s n p q] that ys by simp
    ultimately have "p = q \<and> map view xs = map view ys'"
      using snoc.IH [OF _ vx vy ys(2) False] by blast
    with ys l show ?thesis by simp
  qed
qed simp

end

end
