(* ===== verification/AR_Audit.thy ===== *)
theory AR_Audit
  imports Json_Values
begin

text \<open>
  The two hash chains of the anti-ransomware package: the JSON-lines audit log of
  \<open>audit_chain.py\<close> and the chain of custody of \<open>evidence.py\<close>. SHA-256 and \<open>json.dumps\<close> are the
  parameters \<open>sha\<close> and \<open>dumps\<close>; a log file is the list of the objects its lines hold. Timestamps
  are arguments.
\<close>

definition GENESIS_HASH :: string where
  "GENESIS_HASH = replicate 64 CHR ''0''"

section \<open>The audit log\<close>

definition row_digest :: "(string \<Rightarrow> string) \<Rightarrow> (json_object \<Rightarrow> string) \<Rightarrow> json_object \<Rightarrow> string" where
  "row_digest sha dumps row = sha (dumps (canonical row))"

record audit_call =
  utc_timestamp :: string
  monotonic_ns :: int
  actor :: string
  component :: string
  action :: string
  policy_version :: string
  details :: json

definition audit_base :: "audit_call \<Rightarrow> int \<Rightarrow> json \<Rightarrow> json_object" where
  "audit_base c n previous =
     [(''sequence'', JInt n), (''previous_hash'', previous), (''utc_timestamp'', JStr (utc_timestamp c)),
      (''monotonic_ns'', JInt (monotonic_ns c)), (''actor'', JStr (actor c)),
      (''component'', JStr (component c)), (''action'', JStr (action c)),
      (''policy_version'', JStr (policy_version c)), (''schema_version'', JStr ''1.0''),
      (''details'', details c)]"

text \<open>\<open>rows[-1]["entry_hash"]\<close> raises \<open>KeyError\<close> when the last line has no hash. The new line is
  written with sorted keys, which is how it is read back.\<close>

definition audit_append ::
  "(string \<Rightarrow> string) \<Rightarrow> (json_object \<Rightarrow> string) \<Rightarrow> audit_call \<Rightarrow> json_object list \<Rightarrow>
   json_object list py" where
  "audit_append sha dumps c rows =
     (let n = int (length rows) + 1;
          previous = (if rows = [] then Inr (JStr GENESIS_HASH)
            else case map_of (last rows) ''entry_hash'' of
                   Some h \<Rightarrow> Inr h | None \<Rightarrow> Inl (KeyError ''entry_hash''))
      in py_bind previous (\<lambda>prev.
           let base = audit_base c n prev;
               entry = base @ [(''entry_hash'', JStr (row_digest sha dumps base))]
           in Inr (rows @ [canonical entry])))"

definition entry_hash :: "json_object \<Rightarrow> json" where
  "entry_hash row = od_get row ''entry_hash'' (JStr '''')"

definition audit_row_ok ::
  "(string \<Rightarrow> string) \<Rightarrow> (json_object \<Rightarrow> string) \<Rightarrow> nat \<Rightarrow> json \<Rightarrow> json_object \<Rightarrow> bool" where
  "audit_row_ok sha dumps n previous row =
     (let body = AList.delete ''entry_hash'' row
      in (case map_of body ''sequence'' of Some j \<Rightarrow> json_eq_int j (int n) | None \<Rightarrow> False) \<and>
         map_of body ''previous_hash'' = Some previous \<and>
         JStr (row_digest sha dumps body) = entry_hash row)"

fun audit_verify_from ::
  "(string \<Rightarrow> string) \<Rightarrow> (json_object \<Rightarrow> string) \<Rightarrow> nat \<Rightarrow> json \<Rightarrow> json_object list \<Rightarrow> bool" where
  "audit_verify_from sha dumps n previous [] \<longleftrightarrow> True"
| "audit_verify_from sha dumps n previous (row # rows) \<longleftrightarrow>
     (if \<not> audit_row_ok sha dumps n previous row then False
      else audit_verify_from sha dumps (Suc n) (entry_hash row) rows)"

definition audit_verify ::
  "(string \<Rightarrow> string) \<Rightarrow> (json_object \<Rightarrow> string) \<Rightarrow> json_object list \<Rightarrow> bool" where
  "audit_verify sha dumps rows = audit_verify_from sha dumps 1 (JStr GENESIS_HASH) rows"

interpretation al: hash_chain "audit_row_ok sha dumps" entry_hash "audit_verify_from sha dumps"
  by unfold_locales auto

text \<open>What \<open>audit_append\<close> writes is a row its verifier accepts.\<close>

lemma audit_base_wf: "od_wf (audit_base c n p)" "''entry_hash'' \<notin> set (od_keys (audit_base c n p))"
  by (simp_all add: audit_base_def)

lemma canonical_entry:
  assumes "od_wf base" and "''entry_hash'' \<notin> set (od_keys base)"
    and "row = canonical (base @ [(''entry_hash'', h)])"
  shows "od_wf row" "entry_hash row = h"
    "canonical (AList.delete ''entry_hash'' row) = canonical base"
    "k \<noteq> ''entry_hash'' \<Longrightarrow> map_of row k = map_of base k"
proof -
  let ?e = "base @ [(''entry_hash'', h)]"
  have we: "od_wf ?e" using assms(1,2) by auto
  then show wf: "od_wf row" using assms(3) by simp
  have n: "map_of base ''entry_hash'' = None" using assms(2) by (simp add: map_of_eq_None_iff)
  then show "entry_hash row = h" "k \<noteq> ''entry_hash'' \<Longrightarrow> map_of row k = map_of base k"
    using assms(3) by (simp_all add: entry_hash_def od_get_def map_add_def split: option.splits)
  show "canonical (AList.delete ''entry_hash'' row) = canonical base"
  proof (rule canonical_cong)
    show "od_wf (AList.delete ''entry_hash'' row)" using wf by simp
    show "od_wf base" by (rule assms(1))
    show "set (AList.delete ''entry_hash'' row) = set base"
      using assms(2,3) by (force simp: AList.delete_eq)
  qed
qed

lemma audit_append_verifies:
  assumes "audit_verify sha dumps rows" and "audit_append sha dumps c rows = Inr rows'"
  shows "audit_verify sha dumps rows'"
proof -
  let ?p = "if rows = [] then JStr GENESIS_HASH else entry_hash (last rows)"
  let ?base = "audit_base c (int (length rows) + 1) ?p"
  let ?row = "canonical (?base @ [(''entry_hash'', JStr (row_digest sha dumps ?base))])"
  have rows': "rows' = rows @ [?row]"
    using assms(2) by (auto simp: audit_append_def Let_def entry_hash_def od_get_def
        split: if_splits option.splits)
  note ce = canonical_entry [OF audit_base_wf [of c "int (length rows) + 1" ?p] refl [of ?row]]
  have "map_of (AList.delete ''entry_hash'' ?row) ''sequence'' = Some (JInt (int (length rows) + 1))"
    "map_of (AList.delete ''entry_hash'' ?row) ''previous_hash'' = Some ?p"
    using ce(4) [of "''sequence''"] ce(4) [of "''previous_hash''"]
    by (simp_all add: audit_base_def)
  then have "audit_row_ok sha dumps (1 + length rows) ?p ?row"
    using ce(2,3) by (simp add: audit_row_ok_def row_digest_def Let_def)
  then show ?thesis using assms(1) unfolding rows' audit_verify_def
    by (simp add: al.verify_snoc)
qed

definition audit_log ::
  "(string \<Rightarrow> string) \<Rightarrow> (json_object \<Rightarrow> string) \<Rightarrow> audit_call list \<Rightarrow> json_object list py" where
  "audit_log sha dumps cs = fold (\<lambda>c r. py_bind r (audit_append sha dumps c)) cs (Inr [])"

text \<open>
  A log written by the logger verifies: for every hash function and encoder, any sequence of
  appends to an empty log succeeds, writes one row per call, and the result verifies; so does
  every prefix of it, which is why a cut-off tail is not noticed.
\<close>

theorem audit_log_verifies:
  "\<exists>rows. audit_log sha dumps cs = Inr rows \<and> length rows = length cs \<and>
     audit_verify sha dumps rows \<and> (\<forall>k. audit_verify sha dumps (take k rows))"
proof -
  have "\<exists>rows. audit_log sha dumps cs = Inr rows \<and> length rows = length cs \<and>
      audit_verify sha dumps rows \<and> (rows \<noteq> [] \<longrightarrow> map_of (last rows) ''entry_hash'' \<noteq> None)"
  proof (induction cs rule: rev_induct)
    case Nil
    then show ?case by (simp add: audit_log_def audit_verify_def)
  next
    case (snoc c cs)
    then obtain rows where r: "audit_log sha dumps cs = Inr rows" "length rows = length cs"
      "audit_verify sha dumps rows" "rows \<noteq> [] \<longrightarrow> map_of (last rows) ''entry_hash'' \<noteq> None"
      by blast
    then obtain rows' where r': "audit_append sha dumps c rows = Inr rows'"
      "length rows' = Suc (length rows)" "map_of (last rows') ''entry_hash'' \<noteq> None"
    proof (cases "rows = []")
      case False
      with r(4) obtain h where "map_of (last rows) ''entry_hash'' = Some h" by blast
      with False show ?thesis
        using that by (simp add: audit_append_def Let_def map_of_eq_None_iff)
    qed (auto simp: audit_append_def Let_def map_of_eq_None_iff)
    with r audit_append_verifies [OF r(3) r'(1)] show ?case
      by (simp add: audit_log_def)
  qed
  then show ?thesis
    using al.verify_take by (auto simp: audit_verify_def)
qed

definition audit_body :: "json_object \<Rightarrow> json_object" where
  "audit_body row = canonical (AList.delete ''entry_hash'' row)"

text \<open>
  C36. The audit log is tamper evident: if two logs of the same length both verify and end in the
  same hash, then they have the same content row by row and the same hashes, unless two different
  rows of them have the same digest (a SHA-256 or encoding collision).
\<close>

theorem audit_log_tamper_evident:
  assumes "audit_verify sha dumps xs" and "audit_verify sha dumps ys"
    and "length xs = length ys" and "xs \<noteq> []" and "entry_hash (last xs) = entry_hash (last ys)"
    and collision_free: "\<forall>r \<in> set xs. \<forall>s \<in> set ys.
      sha (dumps (audit_body r)) = sha (dumps (audit_body s)) \<longrightarrow> audit_body r = audit_body s"
  shows "map (\<lambda>r. (audit_body r, entry_hash r)) xs = map (\<lambda>r. (audit_body r, entry_hash r)) ys"
proof -
  have "p = q \<and> (audit_body r, entry_hash r) = (audit_body s, entry_hash s)"
    if "r \<in> set xs" "s \<in> set ys" "audit_row_ok sha dumps n p r" "audit_row_ok sha dumps n q s"
      "entry_hash r = entry_hash s" for n p r q s
  proof -
    have "sha (dumps (audit_body r)) = sha (dumps (audit_body s))"
      using that(3-5) unfolding audit_row_ok_def row_digest_def audit_body_def Let_def
      by (metis json.inject(5))
    then have b: "audit_body r = audit_body s" using collision_free that(1,2) by blast
    have "map_of (audit_body r) ''previous_hash'' = Some p" "map_of (audit_body s) ''previous_hash'' = Some q"
      using that(3,4) by (simp_all add: audit_row_ok_def audit_body_def Let_def)
    with b that(5) show ?thesis by simp
  qed
  from al.same_last_same_chain [OF this] assms show ?thesis by (auto simp: audit_verify_def)
qed

definition ex_audit_call :: audit_call where
  "ex_audit_call = \<lparr> utc_timestamp = ''t'', monotonic_ns = 1, actor = ''a'', component = ''c'',
     action = ''x'', policy_version = ''1'', details = JNull \<rparr>"

theorem audit_log_tamper_evident_witness:
  "\<exists>xs. audit_log id (\<lambda>_. ''d'') [ex_audit_call] = Inr xs \<and> length xs = 1 \<and>
     map (\<lambda>r. (audit_body r, entry_hash r)) xs = map (\<lambda>r. (audit_body r, entry_hash r)) [last xs]"
proof -
  obtain xs where xs: "audit_log id (\<lambda>_. ''d'') [ex_audit_call] = Inr xs"
    by (auto simp: audit_log_def audit_append_def Let_def)
  then have len: "length xs = 1" by (auto simp: audit_log_def audit_append_def Let_def)
  have v: "audit_verify id (\<lambda>_. ''d'') xs"
    using audit_append_verifies [of id "\<lambda>_. ''d''" "[]" ex_audit_call xs] xs
    by (simp add: audit_log_def audit_verify_def)
  obtain x where x: "xs = [x]" using len by (cases xs) auto
  from audit_log_tamper_evident [OF v v] xs len x show ?thesis by auto
qed

section \<open>The chain of custody\<close>

record custody_row =
  cu_incident_id :: string
  cu_created_at :: string
  cu_actor :: string
  cu_action :: string
  cu_object_id :: string
  cu_previous_hash :: string
  cu_entry_hash :: string
  cu_details_json :: string

definition custody_material :: "string \<Rightarrow> custody_row \<Rightarrow> string" where
  "custody_material previous r = str_join ''|'' [previous, cu_incident_id r, cu_created_at r,
     cu_actor r, cu_action r, cu_object_id r, cu_details_json r]"

definition append_chain_entry ::
  "(string \<Rightarrow> string) \<Rightarrow> (json_object \<Rightarrow> string) \<Rightarrow> string \<Rightarrow> string \<Rightarrow> string \<Rightarrow> string \<Rightarrow> string \<Rightarrow>
   json_object \<Rightarrow> custody_row list \<Rightarrow> custody_row list" where
  "append_chain_entry sha dumps incident created act what obj det rows =
     (let previous = (if rows = [] then GENESIS_HASH else cu_entry_hash (last rows));
          r = \<lparr> cu_incident_id = incident, cu_created_at = created, cu_actor = act,
                cu_action = what, cu_object_id = obj, cu_previous_hash = previous,
                cu_entry_hash = '''', cu_details_json = dumps (canonical det) \<rparr>
      in rows @ [r\<lparr>cu_entry_hash := sha (custody_material previous r)\<rparr>])"

definition custody_ok :: "(string \<Rightarrow> string) \<Rightarrow> nat \<Rightarrow> string \<Rightarrow> custody_row \<Rightarrow> bool" where
  "custody_ok sha n previous r \<longleftrightarrow>
     cu_previous_hash r = previous \<and> sha (custody_material previous r) = cu_entry_hash r"

fun verify_chain_from :: "(string \<Rightarrow> string) \<Rightarrow> nat \<Rightarrow> string \<Rightarrow> custody_row list \<Rightarrow> bool" where
  "verify_chain_from sha n previous [] \<longleftrightarrow> True"
| "verify_chain_from sha n previous (r # rows) \<longleftrightarrow>
     (if \<not> custody_ok sha n previous r then False
      else verify_chain_from sha (Suc n) (cu_entry_hash r) rows)"

definition verify_chain :: "(string \<Rightarrow> string) \<Rightarrow> custody_row list \<Rightarrow> bool" where
  "verify_chain sha rows = verify_chain_from sha 0 GENESIS_HASH rows"

interpretation cc: hash_chain "custody_ok sha" cu_entry_hash "verify_chain_from sha"
  by unfold_locales auto

lemma custody_material_hash [simp]:
  "custody_material p (r\<lparr>cu_entry_hash := h\<rparr>) = custody_material p r"
  by (simp add: custody_material_def)

lemma append_chain_entry_verifies:
  "verify_chain sha rows \<Longrightarrow>
   verify_chain sha (append_chain_entry sha dumps incident created act what obj det rows)"
  by (simp add: verify_chain_def append_chain_entry_def Let_def cc.verify_snoc custody_ok_def
      custody_material_def)

text \<open>
  The chain of custody does not protect the borders of its fields: the hashed material joins
  them with a bar, so moving text across a bar between the actor and the action of a stored
  entry leaves the chain exactly as valid as before, whatever the hash function.
\<close>

theorem custody_field_shift_undetected:
  "verify_chain sha (xs @ r\<lparr>cu_actor := a @ ''|'' @ b, cu_action := c\<rparr> # ys)
     = verify_chain sha (xs @ r\<lparr>cu_actor := a, cu_action := b @ ''|'' @ c\<rparr> # ys)"
proof -
  have "custody_ok sha n p (r\<lparr>cu_actor := a @ ''|'' @ b, cu_action := c\<rparr>)
      = custody_ok sha n p (r\<lparr>cu_actor := a, cu_action := b @ ''|'' @ c\<rparr>)" for n p
    by (simp add: custody_ok_def custody_material_def)
  then show ?thesis by (simp add: verify_chain_def cc.verify_append del: append_assoc)
qed

end
