(* ===== verification/AR_Evidence.thy ===== *)
theory AR_Evidence
  imports AR_Audit
begin

text \<open>
  The incident vault of \<open>anti_ransomware/evidence.py\<close>: one component per SQL table, with the
  primary and foreign keys the schema declares (the connection enforces them). A table whose rows
  the package only deletes is the list of its \<open>incident_id\<close> column. SHA-256, \<open>json.dumps\<close> and
  \<open>isoformat\<close> are parameters. The constructor's file handling, migrations and exports are not
  represented.
\<close>

section \<open>The vault\<close>

record IncidentRecord =
  incident_id :: string
  first_event_time :: string
  last_event_time :: string
  inc_boot_session_id :: string
  endpoint_id :: string
  inc_severity :: string
  inc_confidence :: string
  inc_score :: int
  inc_policy_version :: string
  inc_ruleset_version :: string
  containment_state :: string
  notification_state :: string
  inc_created_at :: string
  inc_updated_at :: string
  risk_score_version :: string
  user_context :: "json option"
  responsible_process :: "json option"
  process_tree :: "json option"
  inc_signals :: "json option"
  affected_file_count :: int
  affected_directories :: "string list"
  affected_volumes :: "string list"
  canary_state :: string
  backup_sabotage_state :: string
  tamper_state :: string
  analyst_state :: string
  resolution :: string
  limitations :: "string list"
  closed_at :: "string option"

record EvidenceRecord =
  evidence_id :: string
  ev_incident_id :: string
  ev_created_at :: string
  kind :: string
  payload :: json_object

record evidence_row =
  er_evidence_id :: string
  er_incident_id :: string
  er_created_at :: string
  er_kind :: string
  payload_json :: string
  payload_sha256 :: string

record notification_row =
  nt_incident_id :: string
  user_id_token :: string
  nt_state :: string
  sanitized_json :: string
  nt_created_at :: string
  nt_updated_at :: string
  nt_expires_at :: string

record lease_row =
  lr_incident_id :: string
  lr_process_key :: string
  lr_state :: string
  lr_started_at :: string
  lr_expires_at :: string
  lr_policy :: string
  lr_owner :: string
  lr_renewal_count :: int
  lr_maximum_renewal :: int
  lr_rollback_action :: string
  lr_updated_at :: string
  lr_no_user_policy :: string
  lr_criticality :: string
  lr_evidence_state :: string
  process_identity_json :: string

record action_row =
  action_id :: string
  ar_lease_id :: string
  previous_state :: string
  new_state :: string
  ar_actor :: string
  ar_reason :: string
  ar_created_at :: string

record evidence_store =
  incidents :: "(string, IncidentRecord) odict"
  process_identities :: "string list"
  process_edges :: "string list"
  file_mutations :: "string list"
  detection_signals :: "string list"
  decisions :: "string list"
  lease_rows :: "(string, lease_row) odict"
  action_rows :: "action_row list"
  notification_rows :: "(string, notification_row) odict"
  evidence_rows :: "evidence_row list"
  custody :: "custody_row list"

definition empty_store :: evidence_store where
  "empty_store = \<lparr> incidents = [], process_identities = [], process_edges = [], file_mutations = [],
     detection_signals = [], decisions = [], lease_rows = [], action_rows = [],
     notification_rows = [], evidence_rows = [], custody = [] \<rparr>"

section \<open>Operations\<close>

definition evidence_sha256 ::
  "(string \<Rightarrow> string) \<Rightarrow> (json_object \<Rightarrow> string) \<Rightarrow> EvidenceRecord \<Rightarrow> string" where
  "evidence_sha256 sha dumps r = sha (dumps (canonical (payload r)))"

definition store_append ::
  "(string \<Rightarrow> string) \<Rightarrow> (json_object \<Rightarrow> string) \<Rightarrow> EvidenceRecord \<Rightarrow> evidence_store \<Rightarrow>
   evidence_store py" where
  "store_append sha dumps r st =
     (if evidence_id r \<in> set (map er_evidence_id (evidence_rows st))
      then Inl (IntegrityError ''UNIQUE constraint failed: anti_ransomware_evidence.evidence_id'')
      else Inr (st\<lparr>evidence_rows := evidence_rows st @
        [\<lparr> er_evidence_id = evidence_id r, er_incident_id = ev_incident_id r,
           er_created_at = ev_created_at r, er_kind = kind r,
           payload_json = dumps (canonical (payload r)),
           payload_sha256 = evidence_sha256 sha dumps r \<rparr>]\<rparr>))"

definition store_verify :: "(string \<Rightarrow> string) \<Rightarrow> string \<Rightarrow> evidence_store \<Rightarrow> bool" where
  "store_verify sha i st = (case find (\<lambda>r. er_evidence_id r = i) (evidence_rows st) of
     None \<Rightarrow> False | Some r \<Rightarrow> sha (payload_json r) = payload_sha256 r)"

text \<open>\<open>user_context or {}\<close> and \<open>process_tree or []\<close>: falsy documents become the empty one.\<close>

definition or_empty :: "json \<Rightarrow> json option \<Rightarrow> json option" where
  "or_empty e j = (case j of None \<Rightarrow> Some e
     | Some v \<Rightarrow> if v \<in> {JNull, JBool False, JInt 0, JFloat 0, JStr '''', JList [], JObj []}
         then Some e else Some v)"

definition upsert_incident :: "IncidentRecord \<Rightarrow> evidence_store \<Rightarrow> evidence_store" where
  "upsert_incident r st =
     (let row = r\<lparr> user_context := or_empty (JObj []) (user_context r),
                   responsible_process := or_empty (JObj []) (responsible_process r),
                   process_tree := or_empty (JList []) (process_tree r),
                   inc_signals := or_empty (JList []) (inc_signals r) \<rparr>
      in st\<lparr>incidents := AList.update (incident_id r) row (incidents st)\<rparr>)"

definition FORBIDDEN_NOTIFICATION_KEYS :: "string list" where
  "FORBIDDEN_NOTIFICATION_KEYS =
     [''full_path'', ''file_content'', ''environment'', ''raw_command_line'', ''root_database'']"

definition record_notification ::
  "(string \<Rightarrow> string) \<Rightarrow> (json_object \<Rightarrow> string) \<Rightarrow> string \<Rightarrow> string \<Rightarrow> string \<Rightarrow> string \<Rightarrow> json_object \<Rightarrow>
   string \<Rightarrow> string \<Rightarrow> string \<Rightarrow> evidence_store \<Rightarrow> evidence_store py" where
  "record_notification sha dumps delivery incident user st_name sanitized created updated expires st =
     (if list_ex (\<lambda>k. k \<in> set (od_keys sanitized)) FORBIDDEN_NOTIFICATION_KEYS then
        Inl (ValueError ''notification payload contains privileged evidence fields'')
      else if incident \<notin> set (od_keys (incidents st)) then
        Inl (IntegrityError ''FOREIGN KEY constraint failed'')
      else
        (let row = \<lparr> nt_incident_id = incident, user_id_token = user, nt_state = st_name,
               sanitized_json = dumps (canonical sanitized), nt_created_at = created,
               nt_updated_at = updated, nt_expires_at = expires \<rparr>
         in Inr (st\<lparr> notification_rows :=
                       AList.delete delivery (notification_rows st) @ [(delivery, row)],
                     custody := append_chain_entry sha dumps incident updated ''system_engine''
                       ''notification_state'' delivery [(''state'', JStr st_name)] (custody st) \<rparr>)))"

definition purge_rows :: "string \<Rightarrow> evidence_store \<Rightarrow> evidence_store" where
  "purge_rows i st = st\<lparr>
     detection_signals := filter (\<lambda>j. j \<noteq> i) (detection_signals st),
     file_mutations := filter (\<lambda>j. j \<noteq> i) (file_mutations st),
     process_identities := filter (\<lambda>j. j \<noteq> i) (process_identities st),
     decisions := filter (\<lambda>j. j \<noteq> i) (decisions st),
     evidence_rows := filter (\<lambda>r. er_incident_id r \<noteq> i) (evidence_rows st) \<rparr>"

text \<open>The rows that reference an incident: \<open>DELETE\<close> of the incident fails while one is left.\<close>

definition incident_referenced :: "string \<Rightarrow> evidence_store \<Rightarrow> bool" where
  "incident_referenced i st \<longleftrightarrow>
     i \<in> set (process_identities st @ process_edges st @ file_mutations st @ detection_signals st @
       decisions st) \<or>
     i \<in> set (map lr_incident_id (od_values (lease_rows st))) \<or>
     i \<in> set (map nt_incident_id (od_values (notification_rows st)))"

definition delete_incident :: "string \<Rightarrow> evidence_store \<Rightarrow> evidence_store py" where
  "delete_incident i st = (let st1 = purge_rows i st in
     if incident_referenced i st1 then Inl (IntegrityError ''FOREIGN KEY constraint failed'')
     else Inr (st1\<lparr>incidents := AList.delete i (incidents st1)\<rparr>))"

fun delete_incidents :: "string list \<Rightarrow> evidence_store \<Rightarrow> evidence_store py" where
  "delete_incidents [] st = Inr st"
| "delete_incidents (i # ids) st = py_bind (delete_incident i st) (delete_incidents ids)"

definition retention_due :: "string \<Rightarrow> evidence_store \<Rightarrow> string list" where
  "retention_due cutoff st = map fst (filter (\<lambda>(i, r).
     case closed_at r of None \<Rightarrow> False | Some c \<Rightarrow> c < cutoff) (incidents st))"

text \<open>The transaction rolls back on an error, so the store of an \<open>Inl\<close> result is the old one.\<close>

definition apply_retention ::
  "(int \<Rightarrow> string) \<Rightarrow> int \<Rightarrow> bool \<Rightarrow> int \<Rightarrow> evidence_store \<Rightarrow> (nat \<times> evidence_store) py" where
  "apply_retention isoformat days authorized now st =
     (if \<not> authorized then Inl (PermissionError ''retention purge requires explicit authorization'')
      else if days < 1 then Inl (ValueError ''retention must be at least one day'')
      else (let due = retention_due (isoformat (now - days * 86400 * 1000000)) st
            in py_bind (delete_incidents due st) (\<lambda>st'. Inr (length due, st'))))"

section \<open>Evidence bundles\<close>

definition FORBIDDEN_BUNDLE_KEYS :: "string list" where
  "FORBIDDEN_BUNDLE_KEYS = [''file_content'', ''contents'', ''secret'', ''credential'', ''raw_bytes'']"

definition redact_home :: "string \<Rightarrow> bool \<Rightarrow> string \<Rightarrow> string" where
  "redact_home home redact s = (if redact \<and> home \<noteq> '''' \<and> home \<noteq> ''/''
     then str_replace home ''<HOME>'' s else s)"

fun sanitize :: "string \<Rightarrow> bool \<Rightarrow> json \<Rightarrow> json" where
  "sanitize home redact (JObj kvs) = JObj (map (\<lambda>(k, v). (k, sanitize home redact v))
     (filter (\<lambda>(k, v). str_lower k \<notin> set FORBIDDEN_BUNDLE_KEYS) kvs))"
| "sanitize home redact (JList xs) = JList (map (sanitize home redact) xs)"
| "sanitize home redact (JStr s) = JStr (redact_home home redact s)"
| "sanitize home redact v = v"

fun all_keys :: "json \<Rightarrow> string list" where
  "all_keys (JObj kvs) = concat (map (\<lambda>(k, v). k # all_keys v) kvs)"
| "all_keys (JList xs) = concat (map all_keys xs)"
| "all_keys v = []"

section \<open>Properties\<close>

lemma store_append_ok:
  "store_append sha dumps r st = Inr st' \<Longrightarrow>
   evidence_id r \<notin> set (map er_evidence_id (evidence_rows st)) \<and>
   st' = st\<lparr>evidence_rows := evidence_rows st @
        [\<lparr> er_evidence_id = evidence_id r, er_incident_id = ev_incident_id r,
           er_created_at = ev_created_at r, er_kind = kind r,
           payload_json = dumps (canonical (payload r)),
           payload_sha256 = evidence_sha256 sha dumps r \<rparr>]\<rparr>"
  by (auto simp: store_append_def split: if_splits)

lemma find_snoc: "find P (xs @ [x]) = (case find P xs of None \<Rightarrow> if P x then Some x else None | r \<Rightarrow> r)"
  by (induction xs) auto

text \<open>
  Preserved evidence verifies and is write-once: after a successful append the record verifies,
  every other record verifies exactly as before, and a second append under the same identifier
  raises an integrity error.
\<close>

theorem evidence_write_once:
  assumes "store_append sha dumps r st = Inr st'"
  shows "store_verify sha (evidence_id r) st' \<and>
    (\<forall>i. i \<noteq> evidence_id r \<longrightarrow> store_verify sha i st' = store_verify sha i st) \<and>
    (\<forall>r2. evidence_id r2 = evidence_id r \<longrightarrow> (\<exists>m. store_append sha dumps r2 st' = Inl (IntegrityError m)))"
proof -
  note s = store_append_ok [OF assms]
  have "find (\<lambda>x. er_evidence_id x = evidence_id r) (evidence_rows st) = None"
    using s by (force simp: find_None_iff)
  then have "store_verify sha (evidence_id r) st'"
    using s by (simp add: store_verify_def find_snoc evidence_sha256_def)
  moreover have "store_verify sha i st' = store_verify sha i st" if "i \<noteq> evidence_id r" for i
    using s that by (auto simp: store_verify_def find_snoc split: option.splits)
  moreover have "\<exists>m. store_append sha dumps r2 st' = Inl (IntegrityError m)"
    if "evidence_id r2 = evidence_id r" for r2
    using s that by (simp add: store_append_def)
  ultimately show ?thesis by blast
qed

definition ex_evidence :: EvidenceRecord where
  "ex_evidence = \<lparr> evidence_id = ''e1'', ev_incident_id = ''i1'', ev_created_at = ''t'',
     kind = ''file'', payload = [(''b'', JInt 1), (''a'', JNull)] \<rparr>"

theorem evidence_write_once_witness:
  "\<exists>st'. store_append id (\<lambda>d. ''x'') ex_evidence empty_store = Inr st' \<and>
     store_verify id ''e1'' st' \<and>
     (\<exists>m. store_append id (\<lambda>d. ''x'') ex_evidence st' = Inl (IntegrityError m))"
proof -
  obtain st' where st': "store_append id (\<lambda>d. ''x'') ex_evidence empty_store = Inr st'"
    by (simp add: store_append_def empty_store_def)
  from evidence_write_once [OF st'] show ?thesis using st' by (auto simp: ex_evidence_def)
qed

subsection \<open>Retention\<close>

lemma delete_incident_Inr:
  assumes "delete_incident i st = Inr st'"
  shows "st' = (purge_rows i st)\<lparr>incidents := AList.delete i (incidents st)\<rparr>"
    "\<not> incident_referenced i (purge_rows i st)"
  using assms by (auto simp: delete_incident_def Let_def purge_rows_def split: if_splits)

text \<open>The tables the purge does not touch.\<close>

definition lasting_reference :: "string \<Rightarrow> evidence_store \<Rightarrow> bool" where
  "lasting_reference i st \<longleftrightarrow> i \<in> set (process_edges st) \<or>
     i \<in> set (map lr_incident_id (od_values (lease_rows st))) \<or>
     i \<in> set (map nt_incident_id (od_values (notification_rows st)))"

lemma incident_referenced_purged:
  "incident_referenced i (purge_rows i st) \<longleftrightarrow> lasting_reference i st"
  by (auto simp: incident_referenced_def lasting_reference_def purge_rows_def)

lemma lasting_reference_kept:
  "delete_incident i st = Inr st' \<Longrightarrow> lasting_reference j st' = lasting_reference j st"
  using delete_incident_Inr(1) [of i st st'] by (simp add: lasting_reference_def purge_rows_def)

lemma delete_incidents_blocked:
  "\<exists>i \<in> set ids. lasting_reference i st \<Longrightarrow>
   delete_incidents ids st = Inl (IntegrityError ''FOREIGN KEY constraint failed'')"
proof (induction ids arbitrary: st)
  case (Cons i ids)
  show ?case
  proof (cases "delete_incident i st")
    case (Inl e)
    then show ?thesis by (auto simp: delete_incident_def Let_def split: if_splits)
  next
    case (Inr st')
    then have "\<not> lasting_reference i st"
      using delete_incident_Inr(2) incident_referenced_purged by blast
    with Cons.prems have "\<exists>j \<in> set ids. lasting_reference j st'"
      using lasting_reference_kept [OF Inr] by auto
    with Cons.IH Inr show ?thesis by simp
  qed
qed simp

lemma delete_incidents_ok:
  "\<forall>i \<in> set ids. \<not> lasting_reference i st \<Longrightarrow>
   \<exists>st'. delete_incidents ids st = Inr st' \<and> incidents st' = fold AList.delete ids (incidents st) \<and>
     custody st' = custody st \<and>
     evidence_rows st' = filter (\<lambda>r. er_incident_id r \<notin> set ids) (evidence_rows st)"
proof (induction ids arbitrary: st)
  case (Cons i ids)
  then have "\<not> incident_referenced i (purge_rows i st)"
    by (simp add: incident_referenced_purged)
  then obtain st1 where st1: "delete_incident i st = Inr st1"
    by (simp add: delete_incident_def Let_def)
  then have "\<forall>j \<in> set ids. \<not> lasting_reference j st1"
    using Cons.prems by (simp add: lasting_reference_kept)
  from Cons.IH [OF this] st1 delete_incident_Inr(1) [OF st1] show ?case
    by (auto simp: purge_rows_def intro!: filter_cong)
qed simp

text \<open>
  Retention is all or nothing, and a contained or notified incident blocks it: as soon as one
  incident that is due has a containment lease, a notification or a process edge, the authorized
  purge raises a foreign-key error and nothing at all is purged. Otherwise it removes exactly the
  incidents that are due, with their evidence, and keeps the whole chain of custody.
\<close>

theorem retention_blocked_or_exact:
  fixes st isoformat days now
  defines "due \<equiv> retention_due (isoformat (now - days * 86400 * 1000000)) st"
  assumes "1 \<le> days"
  shows "if \<exists>i \<in> set due. lasting_reference i st
    then apply_retention isoformat days True now st
      = Inl (IntegrityError ''FOREIGN KEY constraint failed'')
    else \<exists>st'. apply_retention isoformat days True now st = Inr (length due, st') \<and>
      incidents st' = filter (\<lambda>(i, r). i \<notin> set due) (incidents st) \<and> custody st' = custody st \<and>
      evidence_rows st' = filter (\<lambda>r. er_incident_id r \<notin> set due) (evidence_rows st)"
proof -
  have fd: "fold AList.delete ks d = filter (\<lambda>(i, t). i \<notin> set ks) d" for ks and d :: "(string, IncidentRecord) odict"
    by (induction ks arbitrary: d) (auto simp: AList.delete_eq intro!: filter_cong)
  have ap: "apply_retention isoformat days True now st
      = py_bind (delete_incidents due st) (\<lambda>st'. Inr (length due, st'))"
    using assms(2) by (simp add: apply_retention_def due_def Let_def)
  show ?thesis
    using delete_incidents_blocked [of due st] delete_incidents_ok [of due st]
    by (auto simp: ap fd simp del: fold.simps)
qed

definition ex_incident :: IncidentRecord where
  "ex_incident = \<lparr> incident_id = ''i1'', first_event_time = ''t'', last_event_time = ''t'',
     inc_boot_session_id = ''b'', endpoint_id = ''e'', inc_severity = ''high'', inc_confidence = ''high'',
     inc_score = 90, inc_policy_version = ''1'', inc_ruleset_version = ''1'',
     containment_state = ''closed'', notification_state = ''sent'', inc_created_at = ''t'',
     inc_updated_at = ''t'', risk_score_version = ''1.0'', user_context = None,
     responsible_process = None, process_tree = None, inc_signals = None, affected_file_count = 0,
     affected_directories = [], affected_volumes = [], canary_state = '''', backup_sabotage_state = '''',
     tamper_state = '''', analyst_state = '''', resolution = '''', limitations = [],
     closed_at = Some ''2020'' \<rparr>"

definition ex_store :: evidence_store where
  "ex_store = upsert_incident ex_incident empty_store"

definition ex_notified :: evidence_store where
  "ex_notified = projr (record_notification id (\<lambda>_. ''{}'') ''d1'' ''i1'' ''u'' ''SENT'' [] ''t'' ''t'' ''t'' ex_store)"

theorem retention_blocked_or_exact_witness:
  "record_notification id (\<lambda>_. ''{}'') ''d1'' ''i1'' ''u'' ''SENT'' [] ''t'' ''t'' ''t'' ex_store
     = Inr ex_notified \<and>
   apply_retention (\<lambda>_. ''2024'') 30 True 0 ex_notified
     = Inl (IntegrityError ''FOREIGN KEY constraint failed'')"
proof -
  let ?r = "record_notification id (\<lambda>_. ''{}'') ''d1'' ''i1'' ''u'' ''SENT'' [] ''t'' ''t'' ''t'' ex_store"
  have eq: "?r = Inr ex_notified"
    unfolding ex_notified_def
    by (simp add: record_notification_def ex_store_def upsert_incident_def ex_incident_def
        empty_store_def FORBIDDEN_NOTIFICATION_KEYS_def Let_def)
  have due: "retention_due ''2024'' ex_notified = [''i1'']"
    unfolding ex_notified_def
    by (simp add: retention_due_def record_notification_def ex_store_def upsert_incident_def
        ex_incident_def empty_store_def FORBIDDEN_NOTIFICATION_KEYS_def Let_def)
  have "lasting_reference ''i1'' ex_notified"
    unfolding ex_notified_def
    by (simp add: lasting_reference_def record_notification_def ex_store_def upsert_incident_def
        ex_incident_def empty_store_def FORBIDDEN_NOTIFICATION_KEYS_def Let_def)
  with retention_blocked_or_exact [of 30 "\<lambda>_. ''2024''" 0 ex_notified] due eq show ?thesis by simp
qed

subsection \<open>Sanitization\<close>

text \<open>
  Bundles are sanitized at every depth: whatever the detection document holds, no key of the
  bundle's copy, however deeply nested, is one of the forbidden content or credential keys in any
  letter case.
\<close>

theorem sanitize_removes_forbidden_keys:
  "\<forall>k \<in> set (all_keys (sanitize home redact v)). str_lower k \<notin> set FORBIDDEN_BUNDLE_KEYS"
proof (induction home redact v rule: sanitize.induct)
  case (1 home redact kvs)
  then show ?case
    by (fastforce split: if_splits prod.splits)
qed auto

theorem sanitize_removes_forbidden_keys_witness:
  "all_keys (sanitize ''/Users/x'' True (JObj [(''Secret'', JNull), (''p'', JList [JObj [(''q'', JStr ''s''),
     (''contents'', JStr ''s'')]])])) = [''p'', ''q''] \<and>
   list_all (\<lambda>k. str_lower k \<notin> set FORBIDDEN_BUNDLE_KEYS)
     (all_keys (sanitize ''/Users/x'' True (JObj [(''Secret'', JNull), (''note'', JStr ''s'')])))"
proof -
  have "all_keys (sanitize ''/Users/x'' True (JObj [(''Secret'', JNull), (''p'', JList [JObj [(''q'', JStr ''s''),
     (''contents'', JStr ''s'')]])])) = [''p'', ''q'']" by code_simp
  then show ?thesis using sanitize_removes_forbidden_keys unfolding list_all_iff by blast
qed

end
