(* ===== verification/AR_Production.thy ===== *)
theory AR_Production
  imports AR_Models
begin

text \<open>
  The helper side of containment (\<open>anti_ransomware/containment_production.py\<close>): the bounded
  registry of sensor-attested targets, the durable lease journal with its two SQL tables, and the
  readiness conjunction. SHA-256 and \<open>json.dumps\<close> of an identity are the parameters \<open>sha\<close> and
  \<open>dumps\<close>; wall-clock strings are arguments.
\<close>

section \<open>The sensor registry\<close>

datatype ContainmentFailureCode = HELPER_NOT_INSTALLED | HELPER_SIGNATURE_INVALID | XPC_AUTH_FAILED
  | REPLAY_REJECTED | TARGET_TICKET_INVALID | PID_VERSION_MISMATCH | START_TIME_MISMATCH
  | CDHASH_MISMATCH | FILE_IDENTITY_MISMATCH | BOOT_SESSION_MISMATCH | TARGET_EXITED
  | CRITICAL_PROCESS | JOURNAL_UNAVAILABLE | WATCHDOG_UNAVAILABLE | SOURCE_MODE_BLOCKED | UNEXPECTED

fun failure_value :: "ContainmentFailureCode \<Rightarrow> string" where
  "failure_value HELPER_NOT_INSTALLED = ''AR-CNT-001''"
| "failure_value HELPER_SIGNATURE_INVALID = ''AR-CNT-002''"
| "failure_value XPC_AUTH_FAILED = ''AR-CNT-004''"
| "failure_value REPLAY_REJECTED = ''AR-CNT-006''"
| "failure_value TARGET_TICKET_INVALID = ''AR-CNT-007''"
| "failure_value PID_VERSION_MISMATCH = ''AR-CNT-010''"
| "failure_value START_TIME_MISMATCH = ''AR-CNT-011''"
| "failure_value CDHASH_MISMATCH = ''AR-CNT-012''"
| "failure_value FILE_IDENTITY_MISMATCH = ''AR-CNT-015''"
| "failure_value BOOT_SESSION_MISMATCH = ''AR-CNT-016''"
| "failure_value TARGET_EXITED = ''AR-CNT-017''"
| "failure_value CRITICAL_PROCESS = ''AR-CNT-018''"
| "failure_value JOURNAL_UNAVAILABLE = ''AR-CNT-019''"
| "failure_value WATCHDOG_UNAVAILABLE = ''AR-CNT-020''"
| "failure_value SOURCE_MODE_BLOCKED = ''AR-CNT-030''"
| "failure_value UNEXPECTED = ''AR-CNT-999''"

record SensorTargetRecord =
  incident_id :: string
  event_id :: string
  identity :: ProcessIdentity
  source_sensor_version :: string
  source_boot_session :: string
  created_monotonic :: pyfloat
  expires_monotonic :: pyfloat
  identity_strength :: string

definition target_key :: "SensorTargetRecord \<Rightarrow> string" where
  "target_key r = incident_id r @ '':'' @ event_id r"

definition identity_hash ::
  "(string \<Rightarrow> string) \<Rightarrow> (ProcessIdentity \<Rightarrow> string) \<Rightarrow> SensorTargetRecord \<Rightarrow> string" where
  "identity_hash sha dumps r = sha (dumps (identity r))"

record SensorIdentityRegistry =
  capacity :: int
  items :: "(string, SensorTargetRecord) odict"

text \<open>With a negative capacity the eviction loop empties the table and then pops once more.\<close>

definition register_from_sensor ::
  "SensorTargetRecord \<Rightarrow> bool \<Rightarrow> SensorIdentityRegistry \<Rightarrow> unit py \<times> SensorIdentityRegistry" where
  "register_from_sensor r authenticated reg =
     (if \<not> authenticated then (Inl (PermissionError (failure_value TARGET_TICKET_INVALID)), reg)
      else if boot_session_id (identity r) \<noteq> source_boot_session r \<or>
        expires_monotonic r \<le> created_monotonic r then
        (Inl (ValueError (failure_value TARGET_TICKET_INVALID)), reg)
      else if capacity reg < 0 then
        (Inl (KeyError ''dictionary is empty''), reg\<lparr>items := []\<rparr>)
      else (Inr (), reg\<lparr>items := touch_key (nat (capacity reg)) (target_key r) r (items reg)\<rparr>))"

definition resolve ::
  "string \<Rightarrow> string \<Rightarrow> pyfloat \<Rightarrow> string \<Rightarrow> SensorIdentityRegistry \<Rightarrow> SensorTargetRecord py" where
  "resolve incident event now boot reg =
     (case map_of (items reg) (incident @ '':'' @ event) of
        None \<Rightarrow> Inl (LookupError (failure_value TARGET_TICKET_INVALID))
      | Some r \<Rightarrow>
          if expires_monotonic r \<le> now then Inl (LookupError (failure_value TARGET_TICKET_INVALID))
          else if source_boot_session r \<noteq> boot then
            Inl (PermissionError (failure_value BOOT_SESSION_MISMATCH))
          else Inr r)"

section \<open>The lease journal\<close>

datatype TransactionState = REQUESTED | CALLER_AUTHENTICATED | TARGET_RESOLVED | TARGET_VALIDATED
  | EVIDENCE_PRESERVED | PREPARED | WATCHDOG_ARMED | PAUSE_REQUESTED | PAUSED_VERIFIED
  | RESUME_REQUESTED | RESUMED_VERIFIED | TERMINATE_REQUESTED | TERMINATED_VERIFIED | LEASE_EXPIRED
  | RECOVERED_AFTER_RESTART | RECONCILED_AFTER_REBOOT | STALE_IDENTITY_REJECTED | FAILED | CLOSED

record journal_lease =
  jl_incident_id :: string
  jl_event_id :: string
  jl_identity_hash :: string
  jl_identity_json :: string
  boot_session :: string
  jl_state :: TransactionState
  prepared_monotonic :: pyfloat
  jl_expires_monotonic :: pyfloat
  helper_generation :: string
  prepared_token_hash :: string

text \<open>The prior state of the first transition is the empty string, here \<open>None\<close>.\<close>

record transition_row =
  tr_lease_id :: string
  wall_time :: string
  monotonic_time :: pyfloat
  prior_state :: "TransactionState option"
  new_state :: TransactionState
  tr_actor :: string
  tr_reason :: string
  tr_identity_hash :: string

record NativeLeaseJournal =
  leases :: "(string, journal_lease) odict"
  transitions :: "transition_row list"

definition log_transition ::
  "string \<Rightarrow> string \<Rightarrow> TransactionState option \<Rightarrow> TransactionState \<Rightarrow> string \<Rightarrow> string \<Rightarrow> string \<Rightarrow>
   pyfloat \<Rightarrow> NativeLeaseJournal \<Rightarrow> NativeLeaseJournal" where
  "log_transition wall lid prior new act why ih tick j =
     j\<lparr>transitions := transitions j @ [\<lparr> tr_lease_id = lid, wall_time = wall, monotonic_time = tick,
       prior_state = prior, new_state = new, tr_actor = act, tr_reason = why,
       tr_identity_hash = ih \<rparr>]\<rparr>"

definition journal_prepare ::
  "(string \<Rightarrow> string) \<Rightarrow> (ProcessIdentity \<Rightarrow> string) \<Rightarrow> string \<Rightarrow> string \<Rightarrow> SensorTargetRecord \<Rightarrow> pyfloat \<Rightarrow>
   pyfloat \<Rightarrow> string \<Rightarrow> string \<Rightarrow> NativeLeaseJournal \<Rightarrow> NativeLeaseJournal py" where
  "journal_prepare sha dumps wall lid target now expires generation token j =
     (if expires \<le> now \<or> expires_monotonic target < expires then
        Inl (ValueError ''invalid lease deadline'')
      else if lid \<in> set (od_keys (leases j)) then
        Inl (IntegrityError ''UNIQUE constraint failed: leases.lease_id'')
      else if sha token \<in> set (map prepared_token_hash (od_values (leases j))) then
        Inl (IntegrityError ''UNIQUE constraint failed: leases.prepared_token_hash'')
      else
        (let row = \<lparr> jl_incident_id = incident_id target, jl_event_id = event_id target,
               jl_identity_hash = identity_hash sha dumps target,
               jl_identity_json = dumps (identity target), boot_session = source_boot_session target,
               jl_state = PREPARED, prepared_monotonic = now, jl_expires_monotonic = expires,
               helper_generation = generation, prepared_token_hash = sha token \<rparr>
         in Inr (log_transition wall lid None PREPARED ''helper'' ''durable_prepare''
              (identity_hash sha dumps target) now (j\<lparr>leases := leases j @ [(lid, row)]\<rparr>))))"

definition set_state :: "string \<Rightarrow> TransactionState \<Rightarrow> NativeLeaseJournal \<Rightarrow> NativeLeaseJournal" where
  "set_state lid st j = j\<lparr>leases := map (\<lambda>(i, r). (i, if i = lid then r\<lparr>jl_state := st\<rparr> else r)) (leases j)\<rparr>"

definition journal_transition ::
  "string \<Rightarrow> string \<Rightarrow> TransactionState \<Rightarrow> TransactionState \<Rightarrow> string \<Rightarrow> string \<Rightarrow> pyfloat \<Rightarrow>
   NativeLeaseJournal \<Rightarrow> NativeLeaseJournal py" where
  "journal_transition wall lid expected new act why tick j =
     (case map_of (leases j) lid of
        None \<Rightarrow> Inl (ValueError ''stale lease transition'')
      | Some row \<Rightarrow>
          if jl_state row \<noteq> expected then Inl (ValueError ''stale lease transition'')
          else Inr (log_transition wall lid (Some expected) new act why (jl_identity_hash row) tick
                 (set_state lid new j)))"

definition needs_reconcile :: "string \<Rightarrow> journal_lease \<Rightarrow> bool" where
  "needs_reconcile boot r \<longleftrightarrow>
     jl_state r \<notin> {CLOSED, RECONCILED_AFTER_REBOOT} \<and> boot_session r \<noteq> boot"

definition reconcile_boot ::
  "string \<Rightarrow> string \<Rightarrow> pyfloat \<Rightarrow> NativeLeaseJournal \<Rightarrow> nat \<times> NativeLeaseJournal" where
  "reconcile_boot wall boot tick j =
     (let rows = filter (\<lambda>(i, r). needs_reconcile boot r) (leases j)
      in (length rows,
          fold (\<lambda>(i, r) j. log_transition wall i (Some (jl_state r)) RECONCILED_AFTER_REBOOT ''helper''
                 ''boot_session_changed_no_signal'' (jl_identity_hash r) tick
                 (set_state i RECONCILED_AFTER_REBOOT j)) rows j))"

definition journal_active :: "journal_lease \<Rightarrow> bool" where
  "journal_active r \<longleftrightarrow> jl_state r \<notin>
     {CLOSED, RECONCILED_AFTER_REBOOT, RESUMED_VERIFIED, TERMINATED_VERIFIED}"

definition active_count :: "NativeLeaseJournal \<Rightarrow> nat" where
  "active_count j = count_if journal_active (od_values (leases j))"

section \<open>Readiness\<close>

record ActiveContainmentEvidence =
  helper_is_native :: bool
  helper_is_developer_id_signed :: bool
  helper_signature_is_valid :: bool
  helper_is_installed :: bool
  helper_is_running :: bool
  system_engine_is_signed :: bool
  live_xpc_is_authenticated :: bool
  unauthorized_xpc_clients_are_rejected :: bool
  request_replay_is_rejected :: bool
  target_identity_originates_from_sensor :: bool
  audit_token_is_revalidated :: bool
  pidversion_is_revalidated :: bool
  start_time_is_revalidated :: bool
  cdhash_is_revalidated :: bool
  signing_identity_is_revalidated :: bool
  file_identity_is_revalidated :: bool
  boot_session_is_revalidated :: bool
  identity_checked_before_signal :: bool
  pause_live_verified :: bool
  resume_live_verified :: bool
  termination_live_verified :: bool
  lease_is_durable :: bool
  watchdog_is_crash_safe :: bool
  engine_crash_test_passed :: bool
  helper_crash_test_passed :: bool
  restart_reconciliation_passed :: bool
  reboot_reconciliation_passed :: bool
  developer_id_fixture_matrix_passed :: bool
  suspended_fixture_count :: int
  active_test_lease_count :: int
  emergency_cleanup_required :: bool
  required_checks_clear :: bool

definition required_values :: "ActiveContainmentEvidence \<Rightarrow> bool list" where
  "required_values e =
     [helper_is_native e, helper_is_developer_id_signed e, helper_signature_is_valid e,
      helper_is_installed e, helper_is_running e, system_engine_is_signed e,
      live_xpc_is_authenticated e, unauthorized_xpc_clients_are_rejected e,
      request_replay_is_rejected e, target_identity_originates_from_sensor e,
      audit_token_is_revalidated e, pidversion_is_revalidated e, start_time_is_revalidated e,
      cdhash_is_revalidated e, signing_identity_is_revalidated e, file_identity_is_revalidated e,
      boot_session_is_revalidated e, identity_checked_before_signal e, pause_live_verified e,
      resume_live_verified e, termination_live_verified e, lease_is_durable e,
      watchdog_is_crash_safe e, engine_crash_test_passed e, helper_crash_test_passed e,
      restart_reconciliation_passed e, reboot_reconciliation_passed e,
      developer_id_fixture_matrix_passed e, required_checks_clear e]"

definition active_containment_ready :: "ActiveContainmentEvidence \<Rightarrow> bool" where
  "active_containment_ready e \<longleftrightarrow> list_all id (required_values e) \<and> \<not> emergency_cleanup_required e \<and>
     suspended_fixture_count e = 0 \<and> active_test_lease_count e = 0"

section \<open>Properties\<close>

text \<open>
  Only unexpired targets of the current boot resolve, and a fresh registration does: a target
  that an authenticated sensor registered resolves, under its own identifiers and boot session and
  before its expiry, to exactly that record; and whatever resolves is unexpired and of the asked
  boot session.
\<close>

theorem registry_roundtrip:
  assumes "0 < capacity reg" and "od_wf (items reg)"
    and "register_from_sensor r auth reg = (Inr (), reg')"
  shows "auth \<and> boot_session_id (identity r) = source_boot_session r \<and>
    (now < expires_monotonic r \<longrightarrow>
      resolve (incident_id r) (event_id r) now (source_boot_session r) reg' = Inr r) \<and>
    (\<forall>i e b q. resolve i e now b reg' = Inr q \<longrightarrow> now < expires_monotonic q \<and> source_boot_session q = b) \<and>
    int (length (items reg')) \<le> capacity reg"
proof -
  obtain n where n: "nat (capacity reg) = Suc n" using assms(1) by (cases "nat (capacity reg)") auto
  have reg': "reg' = reg\<lparr>items := touch_key (Suc n) (target_key r) r (items reg)\<rparr>"
    and a: "auth" "boot_session_id (identity r) = source_boot_session r"
    using assms(3) n by (auto simp: register_from_sensor_def split: if_splits)
  have m: "map_of (items reg') (incident_id r @ '':'' @ event_id r) = Some r"
    using tk.touch_newest [OF assms(2)] reg' by (simp add: target_key_def)
  have "int (length (items reg')) \<le> capacity reg"
    using tk.length_touch [of n "target_key r" r "items reg"] reg' n by simp
  with a m show ?thesis
    by (auto simp: resolve_def not_le split: option.splits if_splits)
qed

definition ex_identity :: ProcessIdentity where
  "ex_identity = \<lparr> pid = 5, pid_version = 1, executable_path = ''/x'', executable_sha256 = ''h'',
     effective_uid = 501, boot_session_id = ''b'', parent_pid = None, responsible_pid = None,
     signing_id = '''', team_id = '''', script_path = '''', script_sha256 = '''',
     platform_binary = False, notarized = None, audit_token_hash = ''t'', executable_file_id = ''f'',
     cdhash = ''c'', process_start_time_ns = 1 \<rparr>"

definition ex_target :: "string \<Rightarrow> string \<Rightarrow> SensorTargetRecord" where
  "ex_target i e = \<lparr> incident_id = i, event_id = e, identity = ex_identity,
     source_sensor_version = ''1'', source_boot_session = ''b'', created_monotonic = 1,
     expires_monotonic = 10, identity_strength = ''STRONG_MATCH'' \<rparr>"

definition ex_registry :: "SensorTargetRecord \<Rightarrow> SensorIdentityRegistry" where
  "ex_registry r = snd (register_from_sensor r True \<lparr> capacity = 2, items = [] \<rparr>)"

lemma ex_register:
  "register_from_sensor (ex_target i e) True \<lparr> capacity = 2, items = [] \<rparr>
     = (Inr (), ex_registry (ex_target i e))"
  by (simp add: register_from_sensor_def ex_registry_def ex_target_def ex_identity_def)

theorem registry_roundtrip_witness:
  "resolve ''i'' ''e'' 5 ''b'' (ex_registry (ex_target ''i'' ''e'')) = Inr (ex_target ''i'' ''e'')"
  using registry_roundtrip [OF _ _ ex_register, of "''i''" "''e''" 5] by (simp add: ex_target_def)

text \<open>
  The registry key does not separate incident and event: a target registered for incident
  \<open>a\<close> and event \<open>b:c\<close> resolves for incident \<open>a:b\<close> and event \<open>c\<close>, for all such identifiers.
\<close>

theorem registry_key_collision:
  assumes "0 < capacity reg" and "od_wf (items reg)"
    and "register_from_sensor r True reg = (Inr (), reg')" and "event_id r = b @ '':'' @ c"
    and "now < expires_monotonic r"
  shows "resolve (incident_id r @ '':'' @ b) c now (source_boot_session r) reg' = Inr r"
proof -
  obtain n where n: "nat (capacity reg) = Suc n" using assms(1) by (cases "nat (capacity reg)") auto
  have reg': "reg' = reg\<lparr>items := touch_key (Suc n) (target_key r) r (items reg)\<rparr>"
    using assms(3) n by (auto simp: register_from_sensor_def split: if_splits)
  have "map_of (items reg') (target_key r) = Some r"
    using tk.touch_newest [OF assms(2)] reg' by simp
  with assms(4,5) show ?thesis by (simp add: resolve_def target_key_def)
qed

theorem registry_key_collision_witness:
  "resolve ''i:j'' ''e'' 5 ''b'' (ex_registry (ex_target ''i'' ''j:e'')) = Inr (ex_target ''i'' ''j:e'')"
  using registry_key_collision [OF _ _ ex_register, of "''i''" "''j:e''" "''j''" "''e''" 5]
  by (simp add: ex_target_def)

subsection \<open>The journal\<close>

text \<open>The transitions of one lease form a path that starts with the preparation and ends in the
  state of its row.\<close>

fun path_from :: "TransactionState option \<Rightarrow> transition_row list \<Rightarrow> TransactionState option \<Rightarrow> bool" where
  "path_from a [] b \<longleftrightarrow> a = b"
| "path_from a (t # ts) b \<longleftrightarrow> prior_state t = a \<and> path_from (Some (new_state t)) ts b"

definition lease_history :: "string \<Rightarrow> NativeLeaseJournal \<Rightarrow> transition_row list" where
  "lease_history lid j = filter (\<lambda>t. tr_lease_id t = lid) (transitions j)"

definition journal_ok :: "NativeLeaseJournal \<Rightarrow> bool" where
  "journal_ok j \<longleftrightarrow> od_wf (leases j) \<and>
     (\<forall>lid. path_from None (lease_history lid j) (map_option jl_state (map_of (leases j) lid)))"

lemma path_from_snoc:
  "path_from a (ts @ [t]) b \<longleftrightarrow> path_from a ts (prior_state t) \<and> b = Some (new_state t)"
  by (induction ts arbitrary: a) auto

lemma history_log:
  "lease_history lid (log_transition wall i p n act why ih tick j) = lease_history lid j @
     (if lid = i then [\<lparr> tr_lease_id = i, wall_time = wall, monotonic_time = tick, prior_state = p,
        new_state = n, tr_actor = act, tr_reason = why, tr_identity_hash = ih \<rparr>] else [])"
  by (simp add: lease_history_def log_transition_def)

lemma leases_log [simp]: "leases (log_transition wall i p n act why ih tick j) = leases j"
  by (simp add: log_transition_def)

lemma history_set_state [simp]: "lease_history lid (set_state i st j) = lease_history lid j"
  by (simp add: lease_history_def set_state_def)

lemma map_of_set_state:
  "map_of (leases (set_state i st j)) lid = (if lid = i
     then map_option (\<lambda>r. r\<lparr>jl_state := st\<rparr>) (map_of (leases j) lid) else map_of (leases j) lid)"
proof -
  have h: "map_of (map (\<lambda>(i', r). (i', if i' = i then r\<lparr>jl_state := st\<rparr> else r)) d) lid = (if lid = i
     then map_option (\<lambda>r. r\<lparr>jl_state := st\<rparr>) (map_of d lid) else map_of d lid)" for d
    by (induction d) auto
  have "leases (set_state i st j)
      = map (\<lambda>(i', r). (i', if i' = i then r\<lparr>jl_state := st\<rparr> else r)) (leases j)"
    by (simp add: set_state_def)
  then show ?thesis by (simp only: h)
qed

lemma keys_set_state: "od_keys (leases (set_state i st j)) = od_keys (leases j)"
  by (auto simp: set_state_def comp_def case_prod_beta')

lemma log_after_set_ok:
  assumes "journal_ok j" and "map_of (leases j) i = Some r"
  shows "journal_ok (log_transition wall i (Some (jl_state r)) st act why ih tick (set_state i st j))"
proof -
  have "path_from None (lease_history lid j) (map_option jl_state (map_of (leases j) lid))" for lid
    using assms(1) by (simp add: journal_ok_def)
  from this [of i] this show ?thesis
    using assms by (auto simp: journal_ok_def history_log map_of_set_state keys_set_state path_from_snoc)
qed

lemma prepare_ok:
  assumes "journal_ok j" and "journal_prepare sha dumps wall lid t now ex gen tok j = Inr j'"
  shows "journal_ok j'"
proof -
  obtain row ih where j': "j' = log_transition wall lid None PREPARED ''helper'' ''durable_prepare'' ih now
      (j\<lparr>leases := leases j @ [(lid, row)]\<rparr>)" "jl_state row = PREPARED"
    and new: "lid \<notin> set (od_keys (leases j))"
    using assms(2) by (auto simp: journal_prepare_def Let_def split: if_splits)
  have none: "map_of (leases j) lid = None" using new by (simp add: map_of_eq_None_iff)
  have h: "lease_history k (j\<lparr>leases := x\<rparr>) = lease_history k j" for k x
    by (simp add: lease_history_def)
  have old: "path_from None (lease_history k j) (map_option jl_state (map_of (leases j) k))" for k
    using assms(1) by (simp add: journal_ok_def)
  have "path_from None (lease_history k j') (map_option jl_state (map_of (leases j') k))" for k
  proof (cases "k = lid")
    case True
    with old [of lid] none j' show ?thesis
      by (simp add: history_log h path_from_snoc map_add_def)
  next
    case False
    with old [of k] j' show ?thesis
      by (cases "map_of (leases j) k") (simp_all add: history_log h map_add_def)
  qed
  moreover have "od_wf (leases j')" using assms(1) new j' by (simp add: journal_ok_def)
  ultimately show ?thesis unfolding journal_ok_def by blast
qed

lemma transition_ok:
  assumes "journal_ok j" and "journal_transition wall lid a b act why tick j = Inr j'"
  shows "journal_ok j'"
  using assms by (auto simp: journal_transition_def split: option.splits if_splits
      intro: log_after_set_ok [OF assms(1)])

definition reconcile_one ::
  "string \<Rightarrow> pyfloat \<Rightarrow> string \<times> journal_lease \<Rightarrow> NativeLeaseJournal \<Rightarrow> NativeLeaseJournal" where
  "reconcile_one wall tick = (\<lambda>(i, r) j. log_transition wall i (Some (jl_state r))
     RECONCILED_AFTER_REBOOT ''helper'' ''boot_session_changed_no_signal'' (jl_identity_hash r) tick
     (set_state i RECONCILED_AFTER_REBOOT j))"

lemma reconcile_fold:
  assumes "journal_ok j" and "od_wf rows" and "\<forall>(i, r) \<in> set rows. map_of (leases j) i = Some r"
  shows "journal_ok (fold (reconcile_one wall tick) rows j) \<and>
    leases (fold (reconcile_one wall tick) rows j) = map (\<lambda>(i, r). (i,
      if i \<in> set (od_keys rows) then r\<lparr>jl_state := RECONCILED_AFTER_REBOOT\<rparr> else r)) (leases j)"
  using assms
proof (induction rows arbitrary: j)
  case Nil
  then show ?case by (simp add: case_prod_beta')
next
  case (Cons p rows)
  obtain i r where p: "p = (i, r)" by (cases p)
  let ?j = "reconcile_one wall tick (i, r) j"
  have ok: "journal_ok ?j"
    using Cons.prems p by (auto simp: reconcile_one_def intro: log_after_set_ok)
  have l: "leases ?j = map (\<lambda>(k, r). (k, if k = i then r\<lparr>jl_state := RECONCILED_AFTER_REBOOT\<rparr> else r)) (leases j)"
    by (simp add: reconcile_one_def set_state_def)
  have "i \<notin> set (od_keys rows)" using Cons.prems(2) p by auto
  then have "\<forall>(k, r) \<in> set rows. k \<noteq> i" by (auto simp: image_iff)
  then have "\<forall>(k, r) \<in> set rows. map_of (leases ?j) k = Some r"
    using Cons.prems(3) p by (fastforce simp: reconcile_one_def map_of_set_state simp del: map_of_eq_Some_iff)
  then have IH: "journal_ok (fold (reconcile_one wall tick) rows ?j) \<and>
    leases (fold (reconcile_one wall tick) rows ?j) = map (\<lambda>(i, r). (i,
      if i \<in> set (od_keys rows) then r\<lparr>jl_state := RECONCILED_AFTER_REBOOT\<rparr> else r)) (leases ?j)"
    using Cons.IH [OF ok] Cons.prems(2) p by simp
  have f: "fold (reconcile_one wall tick) (p # rows) j = fold (reconcile_one wall tick) rows ?j"
    by (simp add: p)
  have "map (\<lambda>(k, r). (k, if k \<in> set (od_keys rows) then r\<lparr>jl_state := RECONCILED_AFTER_REBOOT\<rparr> else r))
      (leases ?j) = map (\<lambda>(k, r). (k, if k \<in> set (od_keys (p # rows))
        then r\<lparr>jl_state := RECONCILED_AFTER_REBOOT\<rparr> else r)) (leases j)"
    unfolding l by (simp add: p case_prod_beta')
  with IH show ?case unfolding f by metis
qed

text \<open>
  Reboot reconciliation: from a consistent journal (every lease's transitions form a path from
  its preparation to its current state) it gives a consistent journal with no open lease of
  another boot session, changes no lease of the current boot, counts the leases it changed, and a
  second run changes nothing.
\<close>

theorem reconcile_boot_closes_old_leases:
  assumes "journal_ok j" and "reconcile_boot wall boot tick j = (n, j')"
  shows "journal_ok j' \<and> (\<forall>r \<in> set (od_values (leases j')). \<not> needs_reconcile boot r) \<and>
    (\<forall>i r. map_of (leases j) i = Some r \<longrightarrow> boot_session r = boot \<longrightarrow> map_of (leases j') i = Some r) \<and>
    n = count_if (needs_reconcile boot) (od_values (leases j)) \<and>
    reconcile_boot wall2 boot tick2 j' = (0, j')"
proof -
  let ?rows = "filter (\<lambda>(i, r). needs_reconcile boot r) (leases j)"
  have wf: "od_wf (leases j)" using assms(1) by (simp add: journal_ok_def)
  have rows: "od_wf ?rows" "\<forall>(i, r) \<in> set ?rows. map_of (leases j) i = Some r"
    using wf by (auto intro: distinct_map_filter)
  have j': "j' = fold (reconcile_one wall tick) ?rows j" and n: "n = length ?rows"
    using assms(2) by (auto simp: reconcile_boot_def reconcile_one_def Let_def)
  note f = reconcile_fold [OF assms(1) rows, of wall tick]
  have key: "i \<in> set (od_keys ?rows) \<longleftrightarrow> needs_reconcile boot r" if "(i, r) \<in> set (leases j)" for i r
    using that wf by (force dest: eq_key_imp_eq_value)
  have l: "leases j' = map (\<lambda>(i, r). (i, if needs_reconcile boot r
      then r\<lparr>jl_state := RECONCILED_AFTER_REBOOT\<rparr> else r)) (leases j)"
    using f j' key by (auto intro!: map_cong)
  have done_all: "\<forall>r \<in> set (od_values (leases j')). \<not> needs_reconcile boot r"
    unfolding l by (auto simp: needs_reconcile_def)
  then have "filter (\<lambda>(i, r). needs_reconcile boot r) (leases j') = []"
    by (auto simp: filter_empty_conv)
  then have "reconcile_boot wall2 boot tick2 j' = (0, j')"
    by (simp add: reconcile_boot_def Let_def)
  moreover have "map_of (leases j') i = Some r"
    if "map_of (leases j) i = Some r" "boot_session r = boot" for i r
  proof -
    have "(i, r) \<in> set (leases j')"
      unfolding l using that by (auto simp: needs_reconcile_def image_iff dest!: map_of_SomeD
          intro!: bexI [of _ "(i, r)"])
    moreover have "od_wf (leases j')" using f unfolding j' journal_ok_def by blast
    ultimately show ?thesis by simp
  qed
  moreover have "n = count_if (needs_reconcile boot) (od_values (leases j))"
    by (simp add: n count_if_def filter_map comp_def case_prod_beta')
  ultimately show ?thesis using f j' done_all by blast
qed

definition ex_journal :: NativeLeaseJournal where
  "ex_journal = projr (journal_prepare id (\<lambda>_. ''{}'') ''w'' ''l1'' (ex_target ''i'' ''e'') 2 8 ''g'' ''tok''
     \<lparr> leases = [], transitions = [] \<rparr>)"

theorem reconcile_boot_closes_old_leases_witness:
  "fst (reconcile_boot ''w'' ''b2'' 3 ex_journal) = 1 \<and> journal_ok ex_journal \<and>
   journal_ok (snd (reconcile_boot ''w'' ''b2'' 3 ex_journal))"
proof -
  have empty: "journal_ok \<lparr> leases = [], transitions = [] \<rparr>"
    by (simp add: journal_ok_def lease_history_def)
  have prep: "journal_prepare id (\<lambda>_. ''{}'') ''w'' ''l1'' (ex_target ''i'' ''e'') 2 8 ''g'' ''tok''
     \<lparr> leases = [], transitions = [] \<rparr> = Inr ex_journal"
    by (simp add: ex_journal_def journal_prepare_def ex_target_def Let_def)
  have ok: "journal_ok ex_journal" by (rule prepare_ok [OF empty prep])
  have "fst (reconcile_boot ''w'' ''b2'' 3 ex_journal) = 1"
    by (simp add: reconcile_boot_def ex_journal_def journal_prepare_def ex_target_def Let_def
        needs_reconcile_def)
  with ok reconcile_boot_closes_old_leases [OF ok surjective_pairing] show ?thesis by blast
qed

end
