(* ===== verification/AR_Containment.thy ===== *)
theory AR_Containment
  imports AR_Models AR_Evidence
begin

text \<open>
  Containment: the lease state machine (\<open>leases.py\<close>), the one-shot authorization
  (\<open>containment.py\<close>) and the durable coordinator (\<open>containment_orchestrator.py\<close>). The native
  boundary, the clock, \<open>isoformat\<close>, SHA-256 and \<open>json.dumps\<close> are the fields of an environment
  record; the coordinator's state holds the vault, the state of the machine behind the boundary, the
  number of clock reads, and the log of the signals it has sent.
\<close>

section \<open>Leases\<close>

datatype LeaseState = REQUESTED | VALIDATING | REJECTED_IDENTITY_MISMATCH | REJECTED_POLICY
  | REJECTED_CRITICAL_PROCESS | EVIDENCE_PRESERVED | PAUSE_REQUESTED | PAUSED | PAUSE_FAILED
  | USER_OR_ADMIN_DECISION_PENDING | RESUME_REQUESTED | RESUMED | TERMINATE_REQUESTED | TERMINATED
  | TERMINATE_FAILED | PROCESS_EXITED | LEASE_EXPIRED | ROLLBACK_REQUESTED | ROLLED_BACK | FAILED
  | CLOSED

fun state_value :: "LeaseState \<Rightarrow> string" where
  "state_value REQUESTED = ''REQUESTED''"
| "state_value VALIDATING = ''VALIDATING''"
| "state_value REJECTED_IDENTITY_MISMATCH = ''REJECTED_IDENTITY_MISMATCH''"
| "state_value REJECTED_POLICY = ''REJECTED_POLICY''"
| "state_value REJECTED_CRITICAL_PROCESS = ''REJECTED_CRITICAL_PROCESS''"
| "state_value EVIDENCE_PRESERVED = ''EVIDENCE_PRESERVED''"
| "state_value PAUSE_REQUESTED = ''PAUSE_REQUESTED''"
| "state_value PAUSED = ''PAUSED''"
| "state_value PAUSE_FAILED = ''PAUSE_FAILED''"
| "state_value USER_OR_ADMIN_DECISION_PENDING = ''USER_OR_ADMIN_DECISION_PENDING''"
| "state_value RESUME_REQUESTED = ''RESUME_REQUESTED''"
| "state_value RESUMED = ''RESUMED''"
| "state_value TERMINATE_REQUESTED = ''TERMINATE_REQUESTED''"
| "state_value TERMINATED = ''TERMINATED''"
| "state_value TERMINATE_FAILED = ''TERMINATE_FAILED''"
| "state_value PROCESS_EXITED = ''PROCESS_EXITED''"
| "state_value LEASE_EXPIRED = ''LEASE_EXPIRED''"
| "state_value ROLLBACK_REQUESTED = ''ROLLBACK_REQUESTED''"
| "state_value ROLLED_BACK = ''ROLLED_BACK''"
| "state_value FAILED = ''FAILED''"
| "state_value CLOSED = ''CLOSED''"

fun ALLOWED_TRANSITIONS :: "LeaseState \<Rightarrow> LeaseState list" where
  "ALLOWED_TRANSITIONS REQUESTED = [VALIDATING]"
| "ALLOWED_TRANSITIONS VALIDATING = [REJECTED_IDENTITY_MISMATCH, REJECTED_POLICY,
     REJECTED_CRITICAL_PROCESS, EVIDENCE_PRESERVED]"
| "ALLOWED_TRANSITIONS EVIDENCE_PRESERVED = [PAUSE_REQUESTED]"
| "ALLOWED_TRANSITIONS PAUSE_REQUESTED = [PAUSED, PAUSE_FAILED, PROCESS_EXITED]"
| "ALLOWED_TRANSITIONS PAUSED = [USER_OR_ADMIN_DECISION_PENDING, RESUME_REQUESTED,
     TERMINATE_REQUESTED, LEASE_EXPIRED, PROCESS_EXITED]"
| "ALLOWED_TRANSITIONS USER_OR_ADMIN_DECISION_PENDING = [RESUME_REQUESTED, TERMINATE_REQUESTED,
     LEASE_EXPIRED, PROCESS_EXITED]"
| "ALLOWED_TRANSITIONS RESUME_REQUESTED = [RESUMED, FAILED, PROCESS_EXITED]"
| "ALLOWED_TRANSITIONS TERMINATE_REQUESTED = [TERMINATED, TERMINATE_FAILED, PROCESS_EXITED]"
| "ALLOWED_TRANSITIONS LEASE_EXPIRED = [ROLLBACK_REQUESTED]"
| "ALLOWED_TRANSITIONS ROLLBACK_REQUESTED = [ROLLED_BACK, FAILED, PROCESS_EXITED]"
| "ALLOWED_TRANSITIONS RESUMED = [CLOSED]"
| "ALLOWED_TRANSITIONS TERMINATED = [CLOSED]"
| "ALLOWED_TRANSITIONS ROLLED_BACK = [CLOSED]"
| "ALLOWED_TRANSITIONS PROCESS_EXITED = [CLOSED]"
| "ALLOWED_TRANSITIONS _ = []"

record ContainmentLease =
  lease_id :: string
  le_incident_id :: string
  process :: ProcessIdentity
  state :: LeaseState
  started_at :: datetime
  expires_at :: datetime
  policy :: string
  owner :: string
  rollback_action :: string
  renewal_count :: int
  maximum_renewal :: int
  no_user_policy :: string
  criticality :: string
  evidence_state :: string

definition lease_transition :: "ContainmentLease \<Rightarrow> LeaseState \<Rightarrow> ContainmentLease py" where
  "lease_transition l st = (if st \<notin> set (ALLOWED_TRANSITIONS (state l))
     then Inl (ValueError (''[AR030] Invalid containment transition '' @ state_value (state l) @ ''->''
       @ state_value st))
     else Inr (l\<lparr>state := st\<rparr>))"

text \<open>Python refuses to order an aware and a naive datetime.\<close>

definition lease_expired :: "ContainmentLease \<Rightarrow> datetime \<Rightarrow> bool py" where
  "lease_expired l now = (if \<not> tz_aware (expires_at l) then Inr True
     else if \<not> tz_aware now then Inl (TypeError ''can't compare offset-naive and offset-aware datetimes'')
     else Inr (utc_micros (expires_at l) \<le> utc_micros now))"

section \<open>One-shot authorization\<close>

datatype ContainmentAction = OBSERVE_ONLY | PAUSE_EXACT_PROCESS | TERMINATE_EXACT_PROCESS

record ContainmentRequest =
  cr_incident_id :: string
  expected_identity :: ProcessIdentity
  cr_action :: ContainmentAction
  cr_expires_at :: datetime
  approver :: string
  rollback :: string
  cr_evidence_id :: string
  critical_continuity :: bool

record ContainmentResult =
  result_status :: string
  error_code :: string
  message :: string
  action_performed :: bool

definition containment_result :: "string \<Rightarrow> string \<Rightarrow> string \<Rightarrow> bool \<Rightarrow> ContainmentResult" where
  "containment_result s e m b =
     \<lparr> result_status = s, error_code = e, message = m, action_performed = b \<rparr>"

text \<open>The result, and the call of \<open>perform\<close> if one was made.\<close>

definition authorize_containment ::
  "ContainmentRequest \<Rightarrow> ProcessIdentity \<Rightarrow> int \<Rightarrow>
   (ContainmentAction \<Rightarrow> ProcessIdentity \<Rightarrow> bool) option \<Rightarrow>
   ContainmentResult \<times> (ContainmentAction \<times> ProcessIdentity) option" where
  "authorize_containment req live now perform =
     (if \<not> tz_aware (cr_expires_at req) \<or> utc_micros (cr_expires_at req) \<le> now then
        (containment_result ''blocked'' ''AR034''
           ''Response authorization expired; no process action performed.'' False, None)
      else if \<not> matches_exact (expected_identity req) live then
        (containment_result ''blocked'' ''AR030''
           ''Process identity changed or PID was reused; unsafe response blocked.'' False, None)
      else if cr_evidence_id req = '''' then
        (containment_result ''blocked'' ''AR030''
           ''Evidence must be preserved before containment.'' False, None)
      else if critical_continuity req \<and> cr_action req \<noteq> OBSERVE_ONLY then
        (containment_result ''blocked'' ''AR033''
           ''Critical continuity exclusion applied; administrator escalation required.'' False, None)
      else if cr_action req = OBSERVE_ONLY then
        (containment_result ''observed'' ''''
           ''Observe-only policy performed no process action.'' False, None)
      else case perform of
        None \<Rightarrow> (containment_result ''not_verified'' ''AR016''
           ''Containment helper is unavailable; no signal was sent.'' False, None)
      | Some f \<Rightarrow> (let ok = f (cr_action req) live in
          (containment_result (if ok then ''contained'' else ''failed'')
             (if ok then '''' else ''AR017'')
             (if ok then ''Exact process action verified.''
              else ''Containment action could not be verified.'') ok,
           Some (cr_action req, live))))"

section \<open>The coordinator\<close>

datatype native_signal = SigPause | SigResume | SigTerminate

record 'w native_env =
  live_identity :: "int \<Rightarrow> 'w \<Rightarrow> ProcessIdentity option \<times> 'w"
  pause_exact :: "ProcessIdentity \<Rightarrow> 'w \<Rightarrow> bool \<times> 'w"
  resume_exact :: "ProcessIdentity \<Rightarrow> 'w \<Rightarrow> bool \<times> 'w"
  terminate_exact :: "ProcessIdentity \<Rightarrow> 'w \<Rightarrow> bool \<times> 'w"
  is_paused :: "ProcessIdentity \<Rightarrow> 'w \<Rightarrow> bool \<times> 'w"
  clock :: "nat \<Rightarrow> datetime"
  isoformat :: "datetime \<Rightarrow> string"
  sha256 :: "string \<Rightarrow> string"
  dumps_identity :: "ProcessIdentity \<Rightarrow> string"
  dumps_details :: "json_object \<Rightarrow> string"

record 'w coordinator =
  vault :: evidence_store
  world :: 'w
  ticks :: nat
  sent :: "(native_signal \<times> ProcessIdentity) list"

type_synonym ('a, 'w) co = "'w coordinator \<Rightarrow> 'a py \<times> 'w coordinator"

definition co_return :: "'a \<Rightarrow> ('a, 'w) co" where
  "co_return x c = (Inr x, c)"

definition co_bind :: "('a, 'w) co \<Rightarrow> ('a \<Rightarrow> ('b, 'w) co) \<Rightarrow> ('b, 'w) co" where
  "co_bind m f c = (case m c of (Inl e, c') \<Rightarrow> (Inl e, c') | (Inr x, c') \<Rightarrow> f x c')"

definition co_now :: "'w native_env \<Rightarrow> (datetime, 'w) co" where
  "co_now env c = (Inr (clock env (ticks c)), c\<lparr>ticks := ticks c + 1\<rparr>)"

definition co_live :: "'w native_env \<Rightarrow> int \<Rightarrow> (ProcessIdentity option, 'w) co" where
  "co_live env p c = (let (r, w) = live_identity env p (world c) in (Inr r, c\<lparr>world := w\<rparr>))"

definition co_is_paused :: "'w native_env \<Rightarrow> ProcessIdentity \<Rightarrow> (bool, 'w) co" where
  "co_is_paused env i c = (let (r, w) = is_paused env i (world c) in (Inr r, c\<lparr>world := w\<rparr>))"

fun native_call :: "'w native_env \<Rightarrow> native_signal \<Rightarrow> ProcessIdentity \<Rightarrow> 'w \<Rightarrow> bool \<times> 'w" where
  "native_call env SigPause = pause_exact env"
| "native_call env SigResume = resume_exact env"
| "native_call env SigTerminate = terminate_exact env"

definition co_signal :: "'w native_env \<Rightarrow> native_signal \<Rightarrow> ProcessIdentity \<Rightarrow> (bool, 'w) co" where
  "co_signal env g i c = (let (r, w) = native_call env g i (world c)
     in (Inr r, c\<lparr>world := w, sent := sent c @ [(g, i)]\<rparr>))"

text \<open>The SQL transaction of \<open>_transition\<close>: the incident must exist, the action identifier must
  be new; then the lease row is replaced and the action row added.\<close>

definition journal_transition ::
  "'w native_env \<Rightarrow> ContainmentLease \<Rightarrow> LeaseState \<Rightarrow> string \<Rightarrow> string \<Rightarrow> evidence_store \<Rightarrow>
   evidence_store py" where
  "journal_transition env updated previous reason now st =
     (let aid = lease_id updated @ '':'' @ state_value (state updated) @ '':'' @ now;
          row = \<lparr> lr_incident_id = le_incident_id updated,
            lr_process_key = stable_key (process updated), lr_state = state_value (state updated),
            lr_started_at = isoformat env (started_at updated),
            lr_expires_at = isoformat env (expires_at updated), lr_policy = policy updated,
            lr_owner = owner updated, lr_renewal_count = renewal_count updated,
            lr_maximum_renewal = maximum_renewal updated,
            lr_rollback_action = rollback_action updated, lr_updated_at = now,
            lr_no_user_policy = no_user_policy updated, lr_criticality = criticality updated,
            lr_evidence_state = evidence_state updated,
            process_identity_json = dumps_identity env (process updated) \<rparr>
      in if le_incident_id updated \<notin> set (od_keys (incidents st)) then
           Inl (IntegrityError ''FOREIGN KEY constraint failed'')
         else if aid \<in> set (map action_id (action_rows st)) then
           Inl (IntegrityError ''UNIQUE constraint failed: anti_ransomware_containment_actions.action_id'')
         else Inr (st\<lparr>
           lease_rows := AList.delete (lease_id updated) (lease_rows st) @ [(lease_id updated, row)],
           action_rows := action_rows st @ [\<lparr> action_id = aid, ar_lease_id = lease_id updated,
             previous_state = state_value previous, new_state = state_value (state updated),
             ar_actor = owner updated, ar_reason = reason, ar_created_at = now \<rparr>],
           custody := append_chain_entry (sha256 env) (dumps_details env) (le_incident_id updated) now
             (owner updated) ''containment_transition'' (lease_id updated)
             [(''from'', JStr (state_value previous)), (''to'', JStr (state_value (state updated))),
              (''reason'', JStr reason),
              (''process_identity_sha256'', JStr (executable_sha256 (process updated))),
              (''process_identity'', JStr (dumps_identity env (process updated)))] (custody st) \<rparr>))"

definition co_journal ::
  "'w native_env \<Rightarrow> ContainmentLease \<Rightarrow> LeaseState \<Rightarrow> string \<Rightarrow> string \<Rightarrow> (ContainmentLease, 'w) co" where
  "co_journal env updated previous reason now c =
     (case journal_transition env updated previous reason now (vault c) of
        Inl e \<Rightarrow> (Inl e, c) | Inr st \<Rightarrow> (Inr updated, c\<lparr>vault := st\<rparr>))"

definition co_transition ::
  "'w native_env \<Rightarrow> ContainmentLease \<Rightarrow> LeaseState \<Rightarrow> string \<Rightarrow> (ContainmentLease, 'w) co" where
  "co_transition env l st reason c =
     (case lease_transition l st of
        Inl e \<Rightarrow> (Inl e, c)
      | Inr updated \<Rightarrow> co_bind (co_now env)
          (\<lambda>now. co_journal env updated (state l) reason (isoformat env now)) c)"

definition co_pause :: "'w native_env \<Rightarrow> ContainmentLease \<Rightarrow> (ContainmentLease, 'w) co" where
  "co_pause env lease =
     co_bind (co_transition env lease VALIDATING ''validation_started'') (\<lambda>l.
     co_bind (co_live env (pid (process l))) (\<lambda>live.
     case live of
       None \<Rightarrow> co_transition env l REJECTED_IDENTITY_MISMATCH ''exact_identity_mismatch''
     | Some i \<Rightarrow>
         if \<not> matches_exact (process l) i then
           co_transition env l REJECTED_IDENTITY_MISMATCH ''exact_identity_mismatch''
         else if criticality l \<noteq> ''noncritical'' then
           co_transition env l REJECTED_CRITICAL_PROCESS ''critical_continuity_exclusion''
         else if evidence_state l \<noteq> ''preserved'' then
           co_transition env l REJECTED_POLICY ''evidence_not_preserved''
         else
           co_bind (co_transition env l EVIDENCE_PRESERVED ''evidence_verified'') (\<lambda>l1.
           co_bind (co_transition env l1 PAUSE_REQUESTED ''pause_requested'') (\<lambda>l2.
           co_bind (co_signal env SigPause i) (\<lambda>ok.
           if \<not> ok then co_transition env l2 PAUSE_FAILED ''pause_not_verified''
           else co_bind (co_is_paused env i) (\<lambda>paused.
             if \<not> paused then co_transition env l2 PAUSE_FAILED ''pause_not_verified''
             else co_transition env l2 PAUSED ''pause_verified''))))))"

definition co_resume :: "'w native_env \<Rightarrow> ContainmentLease \<Rightarrow> string \<Rightarrow> (ContainmentLease, 'w) co" where
  "co_resume env lease reason =
     co_bind (co_transition env lease RESUME_REQUESTED reason) (\<lambda>l.
     co_bind (co_live env (pid (process l))) (\<lambda>live.
     case live of
       None \<Rightarrow> co_transition env l PROCESS_EXITED ''process_exited_before_resume''
     | Some i \<Rightarrow>
         if \<not> matches_exact (process l) i then
           co_transition env l FAILED ''identity_changed_before_resume''
         else co_bind (co_signal env SigResume i) (\<lambda>ok.
           if \<not> ok then co_transition env l FAILED ''resume_not_verified''
           else co_bind (co_is_paused env i) (\<lambda>paused.
             if paused then co_transition env l FAILED ''resume_not_verified''
             else co_transition env l RESUMED ''resume_verified''))))"

definition co_terminate :: "'w native_env \<Rightarrow> ContainmentLease \<Rightarrow> string \<Rightarrow> (ContainmentLease, 'w) co" where
  "co_terminate env lease reason =
     co_bind (co_transition env lease TERMINATE_REQUESTED reason) (\<lambda>l.
     co_bind (co_live env (pid (process l))) (\<lambda>live.
     case live of
       None \<Rightarrow> co_transition env l PROCESS_EXITED ''process_exited_before_termination''
     | Some i \<Rightarrow>
         if \<not> matches_exact (process l) i then
           co_transition env l TERMINATE_FAILED ''identity_changed_before_termination''
         else co_bind (co_signal env SigTerminate i) (\<lambda>ok.
           if \<not> ok then co_transition env l TERMINATE_FAILED ''termination_failed''
           else co_transition env l TERMINATED ''termination_verified'')))"

text \<open>The tail of \<open>reconcile\<close>, for a live process that still matches.\<close>

definition co_rollback :: "'w native_env \<Rightarrow> ProcessIdentity \<Rightarrow> ContainmentLease \<Rightarrow> (ContainmentLease, 'w) co" where
  "co_rollback env i l =
     (if state l \<noteq> ROLLBACK_REQUESTED then co_return l
      else if rollback_action l \<noteq> ''resume'' then co_transition env l FAILED ''rollback_failed''
      else co_bind (co_signal env SigResume i) (\<lambda>ok.
        if \<not> ok then co_transition env l FAILED ''rollback_failed''
        else co_bind (co_is_paused env i) (\<lambda>paused.
          if paused then co_transition env l FAILED ''rollback_failed''
          else co_transition env l ROLLED_BACK ''rollback_verified'')))"

definition co_expire :: "'w native_env \<Rightarrow> ContainmentLease \<Rightarrow> (ContainmentLease, 'w) co" where
  "co_expire env l =
     co_bind (co_now env) (\<lambda>now c. case lease_expired l now of
         Inl e \<Rightarrow> (Inl e, c)
       | Inr ex \<Rightarrow> (if ex \<and> state l \<in> {PAUSED, USER_OR_ADMIN_DECISION_PENDING}
           then co_transition env l LEASE_EXPIRED ''lease_expired'' c else (Inr l, c)))"

definition co_reconcile :: "'w native_env \<Rightarrow> ContainmentLease \<Rightarrow> (ContainmentLease, 'w) co" where
  "co_reconcile env lease =
     (if state lease \<notin> {PAUSED, USER_OR_ADMIN_DECISION_PENDING, LEASE_EXPIRED, ROLLBACK_REQUESTED}
      then co_return lease
      else co_bind (co_live env (pid (process lease))) (\<lambda>live.
        case live of
          None \<Rightarrow> co_transition env lease PROCESS_EXITED ''restart_reconcile_process_exited''
        | Some i \<Rightarrow>
            if \<not> matches_exact (process lease) i then
              (if state lease = ROLLBACK_REQUESTED then
                 co_transition env lease FAILED ''restart_reconcile_identity_changed''
               else if state lease = LEASE_EXPIRED then
                 co_bind (co_transition env lease ROLLBACK_REQUESTED ''restart_rollback_requested'')
                   (\<lambda>l. co_transition env l FAILED ''restart_reconcile_identity_changed'')
               else co_return lease)
            else
              co_bind (co_expire env lease) (\<lambda>l.
              co_bind (if state l = LEASE_EXPIRED
                       then co_transition env l ROLLBACK_REQUESTED ''bounded_rollback_requested''
                       else co_return l)
                (co_rollback env i))))"

section \<open>Invariants of the coordinator\<close>

text \<open>
  What an invariant about the lease of one process has to survive: clock reads, answers of the
  boundary, a signal to an identity that matches the process exactly, and the journal entry of an
  allowed transition. Every operation on a lease of that process then keeps it.
\<close>

locale coordinator_invariant =
  fixes env :: "'w native_env" and target :: ProcessIdentity and I :: "'w coordinator \<Rightarrow> bool"
  assumes keeps_tick: "I c \<Longrightarrow> I (c\<lparr>ticks := n\<rparr>)"
    and keeps_world: "I c \<Longrightarrow> I (c\<lparr>world := w\<rparr>)"
    and keeps_signal: "I c \<Longrightarrow> matches_exact target i \<Longrightarrow>
      I (c\<lparr>world := w, sent := sent c @ [(g, i)]\<rparr>)"
    and keeps_journal: "I c \<Longrightarrow> state l \<in> set (ALLOWED_TRANSITIONS prev) \<Longrightarrow>
      journal_transition env l prev reason now (vault c) = Inr st \<Longrightarrow> I (c\<lparr>vault := st\<rparr>)"
begin

definition holds :: "('a \<Rightarrow> bool) \<Rightarrow> ('a, 'w) co \<Rightarrow> bool" where
  "holds R m \<longleftrightarrow> (\<forall>c. I c \<longrightarrow> I (snd (m c)) \<and> (\<forall>x. fst (m c) = Inr x \<longrightarrow> R x))"

definition on_target :: "ContainmentLease \<Rightarrow> bool" where
  "on_target l \<longleftrightarrow> process l = target"

lemma on_target_matches: "on_target l \<Longrightarrow> matches_exact (process l) i \<Longrightarrow> matches_exact target i"
  by (simp add: on_target_def)

lemma holds_bind:
  "holds Q m \<Longrightarrow> (\<And>x. Q x \<Longrightarrow> holds R (f x)) \<Longrightarrow> holds R (co_bind m f)"
  unfolding holds_def co_bind_def by (auto split: prod.splits sum.splits)

lemma holds_return: "R x \<Longrightarrow> holds R (co_return x)"
  by (simp add: holds_def co_return_def)

lemma holds_now: "holds (\<lambda>_. True) (co_now env)"
  by (simp add: holds_def co_now_def keeps_tick)

lemma holds_live: "holds (\<lambda>_. True) (co_live env p)"
  by (simp add: holds_def co_live_def keeps_world split: prod.splits)

lemma holds_is_paused: "holds (\<lambda>_. True) (co_is_paused env i)"
  by (simp add: holds_def co_is_paused_def keeps_world split: prod.splits)

lemma holds_signal: "matches_exact target i \<Longrightarrow> holds (\<lambda>_. True) (co_signal env g i)"
  by (simp add: holds_def co_signal_def keeps_signal split: prod.splits)

lemma holds_journal:
  "on_target l \<Longrightarrow> state l \<in> set (ALLOWED_TRANSITIONS prev) \<Longrightarrow>
   holds on_target (co_journal env l prev reason now)"
  by (auto simp: holds_def co_journal_def keeps_journal split: sum.splits)

lemma holds_transition:
  assumes "on_target l"
  shows "holds on_target (co_transition env l st reason)"
proof (cases "lease_transition l st")
  case (Inl e)
  then show ?thesis by (simp add: holds_def co_transition_def)
next
  case (Inr u)
  then have u: "state u \<in> set (ALLOWED_TRANSITIONS (state l))" "on_target u"
    using assms by (auto simp: lease_transition_def on_target_def split: if_splits)
  have "co_transition env l st reason
      = co_bind (co_now env) (\<lambda>now. co_journal env u (state l) reason (isoformat env now))"
    by (rule ext) (simp add: co_transition_def Inr)
  then show ?thesis using u by (auto intro: holds_bind [OF holds_now] holds_journal)
qed

lemma holds_expire: "on_target l \<Longrightarrow> holds on_target (co_expire env l)"
  unfolding co_expire_def
proof (rule holds_bind [OF holds_now])
  fix now
  assume "on_target l"
  then show "holds on_target (\<lambda>c. case lease_expired l now of Inl e \<Rightarrow> (Inl e, c)
      | Inr ex \<Rightarrow> if ex \<and> state l \<in> {PAUSED, USER_OR_ADMIN_DECISION_PENDING}
          then co_transition env l LEASE_EXPIRED ''lease_expired'' c else (Inr l, c))"
    using holds_transition [of l LEASE_EXPIRED "''lease_expired''"]
    by (auto simp: holds_def split: sum.splits)
qed

lemmas holds_rules = holds_bind [OF holds_transition] holds_bind [OF holds_live]
  holds_bind [OF holds_signal] holds_bind [OF holds_is_paused] holds_bind [OF holds_expire]
  holds_transition holds_return

lemma holds_pause: "on_target l \<Longrightarrow> holds on_target (co_pause env l)"
  unfolding co_pause_def
  by (rule holds_rules, assumption, rule holds_rules, split option.split)
    (auto intro!: holds_rules intro: on_target_matches)

lemma holds_resume: "on_target l \<Longrightarrow> holds on_target (co_resume env l reason)"
  unfolding co_resume_def
  by (rule holds_rules, assumption, rule holds_rules, split option.split)
    (auto intro!: holds_rules intro: on_target_matches)

lemma holds_terminate: "on_target l \<Longrightarrow> holds on_target (co_terminate env l reason)"
  unfolding co_terminate_def
  by (rule holds_rules, assumption, rule holds_rules, split option.split)
    (auto intro!: holds_rules intro: on_target_matches)

lemma holds_rollback:
  "on_target l \<Longrightarrow> matches_exact target i \<Longrightarrow> holds on_target (co_rollback env i l)"
  unfolding co_rollback_def by (auto intro!: holds_rules)

lemma holds_reconcile: "on_target l \<Longrightarrow> holds on_target (co_reconcile env l)"
proof -
  assume l: "on_target l"
  have "holds on_target (co_bind (co_expire env l) (\<lambda>l.
      co_bind (if state l = LEASE_EXPIRED
               then co_transition env l ROLLBACK_REQUESTED ''bounded_rollback_requested''
               else co_return l) (co_rollback env i)))" if "matches_exact (process l) i" for i
    using l on_target_matches [OF l that] by (intro holds_bind [OF holds_expire])
      (auto intro!: holds_bind [where Q = on_target] holds_rollback holds_transition holds_return)
  then show ?thesis
    unfolding co_reconcile_def using l
    by (auto intro!: holds_bind [OF holds_live] holds_bind [OF holds_transition] holds_transition
        holds_return split: option.split)
qed

end

text \<open>The calls of the coordinator on one lease.\<close>

datatype co_call = Pause | Resume string | Terminate string | Reconcile

fun co_run :: "'w native_env \<Rightarrow> co_call \<Rightarrow> ContainmentLease \<Rightarrow> (ContainmentLease, 'w) co" where
  "co_run env Pause l = co_pause env l"
| "co_run env (Resume r) l = co_resume env l r"
| "co_run env (Terminate r) l = co_terminate env l r"
| "co_run env Reconcile l = co_reconcile env l"

context coordinator_invariant
begin

lemma holds_run: "on_target l \<Longrightarrow> holds on_target (co_run env call l)"
  by (cases call) (simp_all add: holds_pause holds_resume holds_terminate holds_reconcile)

lemma run_keeps: "process l = target \<Longrightarrow> I c \<Longrightarrow> I (snd (co_run env call l c))"
  using holds_run [of l call] by (simp add: holds_def on_target_def)

end

definition sent_only_to ::
  "(native_signal \<times> ProcessIdentity) list \<Rightarrow> ProcessIdentity \<Rightarrow> 'w coordinator \<Rightarrow> bool" where
  "sent_only_to before p c \<longleftrightarrow> (\<exists>new. sent c = before @ new \<and> (\<forall>(g, i) \<in> set new. matches_exact p i))"

interpretation so: coordinator_invariant env p "sent_only_to before p"
  by unfold_locales (auto simp: sent_only_to_def)

definition lawful_row :: "action_row \<Rightarrow> bool" where
  "lawful_row r \<longleftrightarrow> (\<exists>a b. b \<in> set (ALLOWED_TRANSITIONS a) \<and>
     previous_state r = state_value a \<and> new_state r = state_value b)"

definition journal_ok :: "'w native_env \<Rightarrow> 'w coordinator \<Rightarrow> bool" where
  "journal_ok env c \<longleftrightarrow> verify_chain (sha256 env) (custody (vault c)) \<and>
     distinct (map action_id (action_rows (vault c))) \<and>
     (\<forall>r \<in> set (action_rows (vault c)). lawful_row r)"

lemma journal_transition_rows:
  "journal_transition env u prev reason now st = Inr st' \<Longrightarrow>
   \<exists>r. action_rows st' = action_rows st @ [r] \<and> action_id r \<notin> set (map action_id (action_rows st)) \<and>
     previous_state r = state_value prev \<and> new_state r = state_value (state u) \<and>
     (verify_chain (sha256 env) (custody st) \<longrightarrow> verify_chain (sha256 env) (custody st'))"
  by (auto simp: journal_transition_def Let_def append_chain_entry_verifies split: if_splits)

interpretation jo: coordinator_invariant env p "journal_ok env"
proof unfold_locales
  fix c :: "'a coordinator" and l prev reason now st
  assume c: "journal_ok env c" and al: "state l \<in> set (ALLOWED_TRANSITIONS prev)"
    and tr: "journal_transition env l prev reason now (vault c) = Inr st"
  obtain r where r: "action_rows st = action_rows (vault c) @ [r]"
    "action_id r \<notin> set (map action_id (action_rows (vault c)))"
    "previous_state r = state_value prev" "new_state r = state_value (state l)"
    "verify_chain (sha256 env) (custody (vault c)) \<longrightarrow> verify_chain (sha256 env) (custody st)"
    using journal_transition_rows [OF tr] by blast
  then have "lawful_row r" using al by (auto simp: lawful_row_def)
  with r c show "journal_ok env (c\<lparr>vault := st\<rparr>)" by (auto simp: journal_ok_def)
qed (simp_all add: journal_ok_def)

section \<open>Properties\<close>


definition ex_request :: ContainmentRequest where
  "ex_request = \<lparr> cr_incident_id = ''i'', expected_identity = \<lparr> pid = 5, pid_version = 1,
       executable_path = ''/x'', executable_sha256 = ''h'', effective_uid = 501, boot_session_id = ''b'',
       parent_pid = None, responsible_pid = None, signing_id = '''', team_id = '''', script_path = '''',
       script_sha256 = '''', platform_binary = False, notarized = None, audit_token_hash = ''t'',
       executable_file_id = ''f'', cdhash = ''c'', process_start_time_ns = 1 \<rparr>,
     cr_action = PAUSE_EXACT_PROCESS, cr_expires_at = Aware 10, approver = ''admin'',
     rollback = ''resume'', cr_evidence_id = ''e1'', critical_continuity = False \<rparr>"


text \<open>
  C1. A reused PID is never signalled: whatever operation is run on a lease, in whatever state of
  the vault and of the machine, every signal it sends goes to a live identity that equals the
  leased process in all twelve identity fields.
\<close>

theorem signals_only_exact_process:
  "\<exists>new. sent (snd (co_run env call l c)) = sent c @ new \<and>
     (\<forall>(g, i) \<in> set new. matches_exact (process l) i)"
  using so.run_keeps [of l "process l" "sent c" c env call] by (simp add: sent_only_to_def)

text \<open>
  C16. The journal is complete and lawful: starting from a vault whose custody chain verifies, any
  operation leaves a chain that verifies, action identifiers that are distinct, and only action
  rows whose state change is one of the allowed transitions.
\<close>

theorem journal_stays_lawful:
  assumes "journal_ok env c"
  shows "journal_ok env (snd (co_run env call l c))"
  using jo.run_keeps [OF refl assms] .

subsection \<open>Runs of single transitions\<close>

lemma state_value_no_colon: "CHR '':'' \<notin> set (state_value a)"
  by (cases a) simp_all

lemma state_value_prefix:
  assumes "state_value a @ '':'' @ t = state_value b @ '':'' @ t'"
  shows "state_value a = state_value b"
proof -
  have "takeWhile (\<lambda>c. c \<noteq> CHR '':'') (state_value x @ '':'' @ u) = state_value x" for x u
    using state_value_no_colon [of x] by (subst takeWhile_append2) auto
  with assms show ?thesis by metis
qed

lemma state_value_inj: "state_value a = state_value b \<longleftrightarrow> a = b"
  by (cases a; cases b) simp_all

definition fresh :: "ContainmentLease \<Rightarrow> 'w coordinator \<Rightarrow> LeaseState \<Rightarrow> bool" where
  "fresh l c st \<longleftrightarrow> (\<forall>t. lease_id l @ '':'' @ state_value st @ '':'' @ t
     \<notin> set (map action_id (action_rows (vault c))))"

definition incident_known :: "ContainmentLease \<Rightarrow> 'w coordinator \<Rightarrow> bool" where
  "incident_known l c \<longleftrightarrow> le_incident_id l \<in> set (od_keys (incidents (vault c)))"

lemma co_transition_ok:
  assumes "incident_known l c" and "fresh l c st" and "st \<in> set (ALLOWED_TRANSITIONS (state l))"
  shows "\<exists>c'. co_transition env l st reason c = (Inr (l\<lparr>state := st\<rparr>), c') \<and>
    world c' = world c \<and> sent c' = sent c \<and> ticks c' = Suc (ticks c) \<and>
    incidents (vault c') = incidents (vault c) \<and> (\<forall>s. s \<noteq> st \<longrightarrow> fresh l c s \<longrightarrow> fresh l c' s)"
proof -
  let ?u = "l\<lparr>state := st\<rparr>" and ?now = "isoformat env (clock env (ticks c))"
  let ?aid = "lease_id l @ '':'' @ state_value st @ '':'' @ ?now"
  have "?aid \<notin> set (map action_id (action_rows (vault c)))" using assms(2) by (simp add: fresh_def)
  then obtain v r where v: "journal_transition env ?u (state l) reason ?now (vault c) = Inr v"
    "incidents v = incidents (vault c)" "action_rows v = action_rows (vault c) @ [r]" "action_id r = ?aid"
    using assms(1) by (auto simp: journal_transition_def incident_known_def Let_def)
  let ?c = "c\<lparr>ticks := Suc (ticks c), vault := v\<rparr>"
  have "co_transition env l st reason c = (Inr ?u, ?c)"
    using assms(3) v by (simp add: co_transition_def lease_transition_def co_bind_def co_now_def co_journal_def)
  moreover have "fresh l ?c s" if "s \<noteq> st" "fresh l c s" for s
    using that v(3,4) state_value_prefix [of s _ st ?now] state_value_inj [of s st]
    by (auto simp: fresh_def)
  ultimately show ?thesis using v(2) by (intro exI [of _ ?c]) simp
qed

lemma lease_state_irrelevant [simp]:
  "fresh (l\<lparr>state := x\<rparr>) c st = fresh l c st" "incident_known (l\<lparr>state := x\<rparr>) c = incident_known l c"
  by (simp_all add: fresh_def incident_known_def)

lemma vault_only [simp]:
  "fresh l (c\<lparr>ticks := n\<rparr>) st = fresh l c st"
  "fresh l (c\<lparr>sent := g\<rparr>) st = fresh l c st"
  "fresh l (c\<lparr>world := w\<rparr>) st = fresh l c st"
  by (simp_all add: fresh_def)

lemma sent_transition [simp]: "sent (snd (co_transition env l st reason c)) = sent c"
  by (auto simp: co_transition_def co_bind_def co_now_def co_journal_def split: sum.splits)

lemma co_transition_Inr: "fst (co_transition env l st reason c) = Inr l' \<Longrightarrow> l' = l\<lparr>state := st\<rparr>"
  by (auto simp: co_transition_def co_bind_def co_now_def co_journal_def lease_transition_def
      split: sum.splits if_splits)

lemma incident_known_eq:
  "incidents (vault c') = incidents (vault c) \<Longrightarrow> incident_known l c' = incident_known l c"
  by (simp add: incident_known_def)

subsection \<open>Pausing and rolling back\<close>

text \<open>
  Critical processes and missing evidence stop a pause before any signal: on a lease that is
  not noncritical, or whose evidence is not preserved, \<open>pause\<close> sends nothing and never ends in
  \<open>PAUSED\<close>.
\<close>

theorem pause_guards:
  assumes "criticality l \<noteq> ''noncritical'' \<or> evidence_state l \<noteq> ''preserved''"
  shows "sent (snd (co_pause env l c)) = sent c \<and>
    (\<forall>l'. fst (co_pause env l c) = Inr l' \<longrightarrow> state l' \<noteq> PAUSED)"
proof -
  obtain r c1 where t: "co_transition env l VALIDATING ''validation_started'' c = (r, c1)"
    by (cases "co_transition env l VALIDATING ''validation_started'' c")
  then have s1: "sent c1 = sent c" by (metis sent_transition snd_conv)
  show ?thesis
  proof (cases r)
    case (Inl e)
    with t s1 show ?thesis by (simp add: co_pause_def co_bind_def)
  next
    case (Inr l1)
    then have l1: "l1 = l\<lparr>state := VALIDATING\<rparr>" using t co_transition_Inr [of env l VALIDATING "''validation_started''" c] by simp
    obtain live w where w: "live_identity env (pid (process l1)) (world c1) = (live, w)" by fastforce
    have g: "criticality l1 \<noteq> ''noncritical'' \<or> evidence_state l1 \<noteq> ''preserved''"
      using assms l1 by simp
    define c2 where "c2 = c1\<lparr>world := w\<rparr>"
    have p: "co_pause env l c = (case live of
        None \<Rightarrow> co_transition env l1 REJECTED_IDENTITY_MISMATCH ''exact_identity_mismatch''
      | Some i \<Rightarrow> if \<not> matches_exact (process l1) i
          then co_transition env l1 REJECTED_IDENTITY_MISMATCH ''exact_identity_mismatch''
          else if criticality l1 \<noteq> ''noncritical''
          then co_transition env l1 REJECTED_CRITICAL_PROCESS ''critical_continuity_exclusion''
          else co_transition env l1 REJECTED_POLICY ''evidence_not_preserved'') c2"
      using t Inr w g by (auto simp: co_pause_def co_bind_def co_live_def c2_def split: option.splits)
    have "\<exists>st reason. co_pause env l c = co_transition env l1 st reason c2 \<and> st \<noteq> PAUSED"
      unfolding p by (cases live) auto
    then obtain st reason where q: "co_pause env l c = co_transition env l1 st reason c2" "st \<noteq> PAUSED"
      by blast
    have "sent c2 = sent c" using s1 by (simp add: c2_def)
    then show ?thesis using q by (auto dest: co_transition_Inr)
  qed
qed


subsection \<open>Where reconciliation stops\<close>

text \<open>
  A lease left in \<open>LEASE_EXPIRED\<close> (a crash after that entry was written) whose process has
  exited can not be reconciled: \<open>PROCESS_EXITED\<close> is not an allowed successor, so every attempt
  raises the AR030 error, and neither the vault nor the process table changes.
\<close>

theorem expired_lease_of_exited_process_raises:
  assumes "state l = LEASE_EXPIRED" and "live_identity env (pid (process l)) (world c) = (None, w)"
  shows "co_reconcile env l c = (Inl (ValueError
    ''[AR030] Invalid containment transition LEASE_EXPIRED->PROCESS_EXITED''), c\<lparr>world := w\<rparr>)"
  using assms by (simp add: co_reconcile_def co_bind_def co_live_def co_transition_def lease_transition_def)

text \<open>
  A failed termination strands the process: when the boundary fails to terminate a paused
  process, the lease ends in \<open>TERMINATE_FAILED\<close>; from then on reconciliation returns it unchanged in
  every later state and at every later time, and resuming, pausing or terminating it raises,
  without any signal.
\<close>

theorem failed_termination_strands_process:
  fixes env :: "'w native_env"
  assumes "state l = PAUSED"
    and "live_identity env (pid (process l)) (world c) = (Some i, w)" and "matches_exact (process l) i"
    and "terminate_exact env i w = (False, w1)"
    and "incident_known l c" and "\<forall>st. fresh l c st"
  shows "\<exists>l' c'. co_terminate env l reason c = (Inr l', c') \<and> state l' = TERMINATE_FAILED \<and>
    (\<forall>(env' :: 'w native_env) c2. co_reconcile env' l' c2 = (Inr l', c2)) \<and>
    (\<forall>(env' :: 'w native_env) call c2. call \<noteq> Reconcile \<longrightarrow> (\<exists>e. co_run env' call l' c2 = (Inl e, c2)))"
proof -
  let ?l1 = "l\<lparr>state := TERMINATE_REQUESTED\<rparr>" and ?l2 = "l\<lparr>state := TERMINATE_FAILED\<rparr>"
  have f: "fresh l c TERMINATE_REQUESTED" "fresh l c TERMINATE_FAILED" using assms(6) by blast+
  have "TERMINATE_REQUESTED \<in> set (ALLOWED_TRANSITIONS (state l))" using assms(1) by simp
  from co_transition_ok [OF assms(5) f(1) this, of env reason]
  obtain c1 where c1: "co_transition env l TERMINATE_REQUESTED reason c = (Inr ?l1, c1)"
    "world c1 = world c" "sent c1 = sent c" "incidents (vault c1) = incidents (vault c)"
    "fresh l c1 TERMINATE_FAILED" using f(2) by auto
  let ?c2 = "c1\<lparr>world := w1, sent := sent c1 @ [(SigTerminate, i)]\<rparr>"
  have k: "incident_known ?l1 ?c2" "fresh ?l1 ?c2 TERMINATE_FAILED"
    "TERMINATE_FAILED \<in> set (ALLOWED_TRANSITIONS (state ?l1))"
    using assms(5) c1 by (simp_all add: incident_known_def)
  from co_transition_ok [OF k, of env "''termination_failed''"]
  obtain c3 where c3: "co_transition env ?l1 TERMINATE_FAILED ''termination_failed'' ?c2 = (Inr ?l2, c3)"
    by auto
  have "co_terminate env l reason c = (Inr ?l2, c3)"
    using assms(2-4) c1 c3
    by (simp add: co_terminate_def co_bind_def co_live_def co_signal_def)
  moreover have "co_reconcile env' ?l2 c2 = (Inr ?l2, c2)" for env' :: "'w native_env" and c2
    by (simp add: co_reconcile_def co_return_def)
  moreover have "\<exists>e. co_run env' call ?l2 c2 = (Inl e, c2)" if "call \<noteq> Reconcile"
    for env' :: "'w native_env" and call c2
    using that by (cases call) (simp_all add: co_pause_def co_resume_def co_terminate_def co_bind_def
        co_transition_def lease_transition_def)
  ultimately show ?thesis by (intro exI [of _ ?l2] exI [of _ c3]) simp
qed

text \<open>
  A changed identity of a paused lease is not recorded: when the process of a \<open>PAUSED\<close> or
  undecided lease has been replaced, \<open>reconcile\<close> returns the lease unchanged and writes nothing, so
  no failure is left for review, however long the lease has expired.
\<close>

theorem changed_identity_not_recorded:
  assumes "state l \<in> {PAUSED, USER_OR_ADMIN_DECISION_PENDING}"
    and "live_identity env (pid (process l)) (world c) = (Some i, w)"
    and "\<not> matches_exact (process l) i"
  shows "co_reconcile env l c = (Inr l, c\<lparr>world := w\<rparr>)"
  using assms by (auto simp: co_reconcile_def co_bind_def co_live_def co_return_def)

subsection \<open>Witnesses\<close>

text \<open>A machine with one process, whose state is whether it is paused; \<open>present\<close> is what the boundary
  reports as running.\<close>

definition ex_env :: "ProcessIdentity option \<Rightarrow> bool native_env" where
  "ex_env present = \<lparr> live_identity = (\<lambda>p w. (present, w)), pause_exact = (\<lambda>i w. (True, True)),
     resume_exact = (\<lambda>i w. (True, False)), terminate_exact = (\<lambda>i w. (False, w)),
     is_paused = (\<lambda>i w. (w, w)), clock = (\<lambda>n. Aware (int n)), isoformat = (\<lambda>d. str_int (utc_micros d)),
     sha256 = id, dumps_identity = (\<lambda>i. ''{}''), dumps_details = (\<lambda>d. ''{}'') \<rparr>"

definition ex_lease :: "LeaseState \<Rightarrow> ContainmentLease" where
  "ex_lease st = \<lparr> lease_id = ''l'', le_incident_id = ''i1'', process = expected_identity ex_request,
     state = st, started_at = Aware 0, expires_at = Aware 0, policy = ''p'', owner = ''o'',
     rollback_action = ''resume'', renewal_count = 0, maximum_renewal = 0,
     no_user_policy = ''PAUSE_BOUNDED_THEN_RESUME'', criticality = ''noncritical'',
     evidence_state = ''preserved'' \<rparr>"

definition ex_coordinator :: "bool coordinator" where
  "ex_coordinator = \<lparr> vault = ex_store, world = True, ticks = 0, sent = [] \<rparr>"

lemma ex_ready:
  "incident_known (ex_lease st) ex_coordinator" "fresh (ex_lease st) ex_coordinator s"
  by (simp_all add: incident_known_def fresh_def ex_lease_def ex_coordinator_def ex_store_def
      upsert_incident_def ex_incident_def empty_store_def)

lemma ex_matches: "matches_exact (expected_identity ex_request) (expected_identity ex_request)"
  by (simp add: matches_exact_def)

theorem journal_stays_lawful_witness:
  "journal_ok (ex_env None) ex_coordinator \<and>
   journal_ok (ex_env None) (snd (co_run (ex_env None) Reconcile (ex_lease PAUSED) ex_coordinator))"
proof -
  have "journal_ok (ex_env None) ex_coordinator"
    by (simp add: journal_ok_def ex_coordinator_def ex_store_def upsert_incident_def ex_incident_def
        empty_store_def verify_chain_def)
  with journal_stays_lawful [OF this] show ?thesis by blast
qed

theorem signals_only_exact_process_witness:
  "\<exists>new. sent (snd (co_run (ex_env None) Pause (ex_lease REQUESTED) ex_coordinator)) = new \<and>
     list_all (\<lambda>(g, i). matches_exact (expected_identity ex_request) i) new"
  using signals_only_exact_process [of "ex_env None" Pause "ex_lease REQUESTED" ex_coordinator]
  by (simp add: ex_coordinator_def ex_lease_def list_all_iff)

theorem pause_guards_witness:
  "sent (snd (co_pause (ex_env (Some (expected_identity ex_request)))
     ((ex_lease REQUESTED)\<lparr>criticality := ''accessibility''\<rparr>) ex_coordinator)) = []"
  using pause_guards [of "(ex_lease REQUESTED)\<lparr>criticality := ''accessibility''\<rparr>"
      "ex_env (Some (expected_identity ex_request))" ex_coordinator]
  by (simp add: ex_coordinator_def)


theorem expired_lease_of_exited_process_raises_witness:
  "\<exists>e. fst (co_reconcile (ex_env None) (ex_lease LEASE_EXPIRED) ex_coordinator) = Inl e"
  using expired_lease_of_exited_process_raises [of "ex_lease LEASE_EXPIRED" "ex_env None" ex_coordinator True]
  by (simp add: ex_lease_def ex_env_def ex_coordinator_def)

theorem failed_termination_strands_process_witness:
  "\<exists>l' c'. co_terminate (ex_env (Some (expected_identity ex_request))) (ex_lease PAUSED) ''admin''
     ex_coordinator = (Inr l', c') \<and> state l' = TERMINATE_FAILED"
proof -
  let ?e = "ex_env (Some (expected_identity ex_request))" and ?l = "ex_lease PAUSED"
  have "\<exists>l' c'. co_terminate ?e ?l ''admin'' ex_coordinator = (Inr l', c') \<and> state l' = TERMINATE_FAILED \<and>
      (\<forall>(env' :: bool native_env) c2. co_reconcile env' l' c2 = (Inr l', c2)) \<and>
      (\<forall>(env' :: bool native_env) call c2. call \<noteq> Reconcile \<longrightarrow> (\<exists>e. co_run env' call l' c2 = (Inl e, c2)))"
    by (rule failed_termination_strands_process [where w = True and ?w1.0 = True
          and i = "expected_identity ex_request"])
      (simp_all add: ex_ready, simp_all add: ex_lease_def ex_env_def ex_coordinator_def matches_exact_def)
  then show ?thesis by blast
qed

theorem changed_identity_not_recorded_witness:
  "co_reconcile (ex_env (Some ((expected_identity ex_request)\<lparr>pid_version := 9\<rparr>))) (ex_lease PAUSED)
     ex_coordinator = (Inr (ex_lease PAUSED), ex_coordinator)"
  using changed_identity_not_recorded [of "ex_lease PAUSED"
      "ex_env (Some ((expected_identity ex_request)\<lparr>pid_version := 9\<rparr>))" ex_coordinator
      "(expected_identity ex_request)\<lparr>pid_version := 9\<rparr>" True]
  by (simp add: ex_lease_def ex_env_def ex_coordinator_def matches_exact_def ex_request_def)

end
