(* ===== verification/AR_Windows.thy ===== *)
theory AR_Windows
  imports AR_Models
begin

text \<open>
  The sliding windows of the anti-ransomware package: the per-process burst window of
  \<open>behavior_windows.py\<close> and the bounded multi-window correlator of \<open>multi_window.py\<close>. Both expire
  events from the head of a queue; the theorems compare the queues with the whole history of
  events.
\<close>

section \<open>The compatibility burst window\<close>

record WindowResult =
  triggered :: bool
  qualifying_count :: nat
  window_seconds :: pyfloat
  wr_process_key :: string

record CompatibilityBurstWindow =
  threshold :: int
  seconds :: pyfloat
  burst_events :: "(string, pyfloat list) odict"

definition new_burst_window :: "int \<Rightarrow> pyfloat \<Rightarrow> CompatibilityBurstWindow" where
  "new_burst_window n s = \<lparr> threshold = n, seconds = s, burst_events = [] \<rparr>"

fun expire_times :: "pyfloat \<Rightarrow> pyfloat list \<Rightarrow> pyfloat list" where
  "expire_times cutoff [] = []"
| "expire_times cutoff (t # ts) = (if t < cutoff then expire_times cutoff ts else t # ts)"

definition burst_record ::
  "FileMutation \<Rightarrow> bool \<Rightarrow> CompatibilityBurstWindow \<Rightarrow> WindowResult \<times> CompatibilityBurstWindow" where
  "burst_record m qualifies w =
     (let key = stable_key (fm_process m);
          events = od_get (burst_events w) key [];
          events = expire_times (fm_timestamp m - seconds w) events;
          events = (if qualifies then events @ [fm_timestamp m] else events)
      in (\<lparr> triggered = (threshold w \<le> int (length events)), qualifying_count = length events,
            window_seconds = seconds w, wr_process_key = key \<rparr>,
          w\<lparr>burst_events := AList.update key events (burst_events w)\<rparr>))"

interpretation bt: time_window id expire_times
proof
  show "expire_times c q = dropWhile (\<lambda>e. id e < c) q" for c q by (induction q) auto
qed

text \<open>The history of a window, as the list of its calls, and the timestamps a process has in it.\<close>

type_synonym burst_call = "FileMutation \<times> bool"

definition call_key :: "burst_call \<Rightarrow> string" where
  "call_key c = stable_key (fm_process (fst c))"

definition burst_run :: "burst_call list \<Rightarrow> CompatibilityBurstWindow \<Rightarrow> CompatibilityBurstWindow" where
  "burst_run cs = fold (\<lambda>(m, q) w. snd (burst_record m q w)) cs"

definition call_times :: "string \<Rightarrow> burst_call list \<Rightarrow> pyfloat list" where
  "call_times k cs = map (fm_timestamp \<circ> fst) (filter (\<lambda>c. call_key c = k) cs)"

definition qual_times :: "string \<Rightarrow> burst_call list \<Rightarrow> pyfloat list" where
  "qual_times k cs = map (fm_timestamp \<circ> fst) (filter (\<lambda>c. call_key c = k \<and> snd c) cs)"

lemma burst_run_snoc: "burst_run (cs @ [(m, q)]) w = snd (burst_record m q (burst_run cs w))"
  by (simp add: burst_run_def)

lemma seconds_burst_run [simp]: "seconds (burst_run cs w) = seconds w"
  by (induction cs arbitrary: w rule: rev_induct)
    (auto simp: burst_run_def burst_record_def Let_def)

lemma threshold_burst_run [simp]: "threshold (burst_run cs w) = threshold w"
  by (induction cs arbitrary: w rule: rev_induct)
    (auto simp: burst_run_def burst_record_def Let_def)

lemma set_qual_times: "set (qual_times k cs) \<subseteq> set (call_times k cs)"
  by (auto simp: qual_times_def call_times_def)

lemma sorted_qual_times: "sorted (call_times k cs) \<Longrightarrow> sorted (qual_times k cs)"
proof -
  have "qual_times k cs = map (fm_timestamp \<circ> fst) (filter snd (filter (\<lambda>c. call_key c = k) cs))"
    by (auto simp: qual_times_def intro: filter_cong)
  then show "sorted (call_times k cs) \<Longrightarrow> sorted (qual_times k cs)"
    unfolding call_times_def by (simp only: sorted_filter)
qed

lemma burst_events_history:
  assumes "0 \<le> s" and "sorted (call_times k cs)"
  shows "od_get (burst_events (burst_run cs (new_burst_window n s))) k [] =
    (if call_times k cs = [] then []
     else filter (\<lambda>t. last (call_times k cs) - s \<le> t) (qual_times k cs))"
  using assms(2)
proof (induction cs rule: rev_induct)
  case Nil
  then show ?case
    by (simp add: burst_run_def new_burst_window_def od_get_def call_times_def)
next
  case (snoc c cs)
  obtain m q where c: "c = (m, q)" by (cases c)
  let ?w = "burst_run cs (new_burst_window n s)"
  show ?case
  proof (cases "call_key c = k")
    case False
    then show ?thesis using snoc
      by (simp add: c burst_run_snoc burst_record_def Let_def od_get_def call_times_def
          qual_times_def call_key_def)
  next
    case True
    let ?t = "fm_timestamp m" and ?h = "qual_times k cs"
    have ct: "call_times k (cs @ [c]) = call_times k cs @ [?t]"
      and qt: "qual_times k (cs @ [c]) = (if q then ?h @ [?t] else ?h)"
      using True by (auto simp: c call_times_def qual_times_def)
    have so: "sorted (call_times k cs)" and le: "\<And>x. x \<in> set (call_times k cs) \<Longrightarrow> x \<le> ?t"
      using snoc.prems by (auto simp: ct sorted_append)
    let ?old = "od_get (burst_events ?w) k []"
    have old: "sorted ?old" "set ?old \<subseteq> set ?h"
      "\<And>t. t \<in> set ?h \<Longrightarrow> ?t - s \<le> t \<Longrightarrow> call_times k cs \<noteq> [] \<Longrightarrow> t \<in> set ?old"
      using snoc.IH [OF so] sorted_qual_times [OF so] le [OF last_in_set]
        sorted_filter [of id ?h] by (auto simp: sorted_filter split: if_splits)
    have "expire_times (?t - s) ?old = filter (\<lambda>t. ?t - s \<le> t) ?old"
      using bt.expire_filter [of ?old] old(1) by simp
    also have "\<dots> = filter (\<lambda>t. ?t - s \<le> t) ?h"
    proof (cases "call_times k cs = []")
      case True
      then have "?h = []" using set_qual_times [of k cs] by auto
      with True snoc.IH [OF so] show ?thesis by simp
    next
      case False
      with snoc.IH [OF so] le [OF last_in_set [OF False]] show ?thesis
        by (auto intro!: filter_cong)
    qed
    finally have ex: "expire_times (?t - s) ?old = filter (\<lambda>t. ?t - s \<le> t) ?h" .
    have "od_get (burst_events (burst_run (cs @ [c]) (new_burst_window n s))) k []
        = expire_times (?t - s) ?old @ (if q then [?t] else [])"
      using True by (simp add: c burst_run_snoc burst_record_def Let_def od_get_def call_key_def
          new_burst_window_def)
    then show ?thesis using ex ct qt assms(1) by simp
  qed
qed

text \<open>
  The burst window counts exactly: when the timestamps of a process arrive in order, the
  count of a call is the number of qualifying calls of that process so far (this one included)
  whose timestamp is within \<open>seconds\<close> of it, and it triggers exactly when that number
  reaches the threshold.
\<close>

theorem burst_window_counts_exactly:
  assumes "0 \<le> s" and "sorted (call_times (stable_key (fm_process m)) (cs @ [(m, q)]))"
  shows "let r = fst (burst_record m q (burst_run cs (new_burst_window n s)));
      k = count_if (\<lambda>t. fm_timestamp m - s \<le> t) (qual_times (stable_key (fm_process m)) (cs @ [(m, q)]))
    in qualifying_count r = k \<and> (triggered r \<longleftrightarrow> n \<le> int k)"
proof -
  let ?k = "stable_key (fm_process m)" and ?w = "burst_run cs (new_burst_window n s)"
  let ?w' = "snd (burst_record m q ?w)"
  have "od_get (burst_events (burst_run (cs @ [(m, q)]) (new_burst_window n s))) ?k []
      = filter (\<lambda>t. fm_timestamp m - s \<le> t) (qual_times ?k (cs @ [(m, q)]))"
    using burst_events_history [OF assms, of n] by (simp add: call_times_def call_key_def)
  moreover have "qualifying_count (fst (burst_record m q ?w)) = length (od_get (burst_events ?w') ?k [])"
    "triggered (fst (burst_record m q ?w)) \<longleftrightarrow> n \<le> int (length (od_get (burst_events ?w') ?k []))"
    by (simp_all add: burst_record_def Let_def od_get_def new_burst_window_def)
  ultimately show ?thesis by (simp add: burst_run_snoc count_if_def Let_def)
qed

definition ex_proc :: "int \<Rightarrow> ProcessIdentity" where
  "ex_proc n = \<lparr> pid = n, pid_version = 1, executable_path = ''/bin/x'', executable_sha256 = ''h'',
     effective_uid = 501, boot_session_id = ''b'', parent_pid = None, responsible_pid = None,
     signing_id = '''', team_id = '''', script_path = '''', script_sha256 = '''',
     platform_binary = False, notarized = None, audit_token_hash = ''t'', executable_file_id = ''f'',
     cdhash = ''c'', process_start_time_ns = 7 \<rparr>"

definition ex_mutation :: "pyfloat \<Rightarrow> FileMutation" where
  "ex_mutation t = \<lparr> fm_event_id = ''e'', fm_timestamp = t, fm_process = ex_proc 5,
     fm_path_token = ''p'', fm_operation = ''write'', fm_statistics = \<lparr> fs_size = 1, entropy = 1,
       chi_square = 1, monte_carlo_pi_error = 1, base64_ratio = 1, recognized_image = False,
       gzip_header = False, bytes_sampled = 1 \<rparr> \<rparr>"

theorem burst_window_counts_exactly_witness:
  "triggered (fst (burst_record (ex_mutation 40) True
     (burst_run [(ex_mutation 1, True), (ex_mutation 20, True)] (new_burst_window 2 30)))) \<and>
   qualifying_count (fst (burst_record (ex_mutation 40) True
     (burst_run [(ex_mutation 1, True), (ex_mutation 20, True)] (new_burst_window 2 30)))) = 2"
  using burst_window_counts_exactly [of 30 "ex_mutation 40"
      "[(ex_mutation 1, True), (ex_mutation 20, True)]" True 2]
  by (simp add: call_times_def qual_times_def call_key_def ex_mutation_def count_if_def Let_def)

section \<open>The multi-window correlator\<close>

record CorrelationEvent =
  monotonic_time :: pyfloat
  process_key :: string
  tree_key :: string
  responsible_key :: string
  directory_token :: string
  volume_token :: string
  signal_ids :: "string list"

record WindowSummary =
  ws_seconds :: pyfloat
  event_count :: nat
  process_count :: nat
  directory_count :: nat
  volume_count :: nat
  ws_signal_ids :: "string list"
  visibility_complete :: bool

record MultiWindowCorrelator =
  windows :: "pyfloat list"
  max_keys :: nat
  max_events_per_key :: nat
  mw_events :: "(string, CorrelationEvent list) odict"
  incomplete_since :: "pyfloat option"
  evicted_keys :: nat
  evicted_events :: nat

definition DEFAULT_WINDOWS :: "pyfloat list" where
  "DEFAULT_WINDOWS = [5, 30, 300, 1800, 86400]"

definition new_correlator :: "pyfloat list \<Rightarrow> int \<Rightarrow> int \<Rightarrow> MultiWindowCorrelator py" where
  "new_correlator ws keys per_key =
     (if ws = [] \<or> list_ex (\<lambda>v. v \<le> 0) ws
      then Inl (ValueError ''windows must contain positive durations'')
      else Inr \<lparr> windows = sort (remdups ws), max_keys = nat (max 1 keys),
        max_events_per_key = nat (max 1 per_key), mw_events = [], incomplete_since = None,
        evicted_keys = 0, evicted_events = 0 \<rparr>)"

fun expire_correlated :: "pyfloat \<Rightarrow> CorrelationEvent list \<Rightarrow> CorrelationEvent list" where
  "expire_correlated cutoff [] = []"
| "expire_correlated cutoff (e # es) =
     (if monotonic_time e < cutoff then expire_correlated cutoff es else e # es)"

definition correlate_queue ::
  "CorrelationEvent \<Rightarrow> MultiWindowCorrelator \<Rightarrow> CorrelationEvent list" where
  "correlate_queue e c =
     expire_correlated (monotonic_time e - last (windows c))
       (pop_excess (max_events_per_key c) (od_get (mw_events c) (tree_key e) [] @ [e]))"

text \<open>The queue object is updated in place, between \<open>move_to_end\<close> and the eviction of keys.\<close>

definition correlator_add :: "CorrelationEvent \<Rightarrow> MultiWindowCorrelator \<Rightarrow> MultiWindowCorrelator" where
  "correlator_add e c =
     (let q0 = od_get (mw_events c) (tree_key e) [] @ [e];
          q = correlate_queue e c
      in c\<lparr> mw_events := touch_key (max_keys c) (tree_key e) q (mw_events c),
            evicted_events := evicted_events c + (length q0 - max_events_per_key c),
            evicted_keys := evicted_keys c +
              (length (AList.update (tree_key e) q (mw_events c)) - max_keys c) \<rparr>)"

definition mark_sequence_gap :: "pyfloat \<Rightarrow> MultiWindowCorrelator \<Rightarrow> MultiWindowCorrelator" where
  "mark_sequence_gap t c = c\<lparr>incomplete_since := Some t\<rparr>"

definition mark_resynchronized :: "MultiWindowCorrelator \<Rightarrow> MultiWindowCorrelator" where
  "mark_resynchronized c = c\<lparr>incomplete_since := None\<rparr>"

definition window_summary ::
  "pyfloat option \<Rightarrow> pyfloat \<Rightarrow> CorrelationEvent list \<Rightarrow> pyfloat \<Rightarrow> WindowSummary" where
  "window_summary gap now events secs =
     (let selected = filter (\<lambda>e. now - monotonic_time e \<le> secs) events
      in \<lparr> ws_seconds = secs, event_count = length selected,
           process_count = count_distinct (map process_key selected),
           directory_count = count_distinct (map directory_token selected),
           volume_count = count_distinct (map volume_token selected),
           ws_signal_ids = sort (remdups (concat (map signal_ids selected))),
           visibility_complete = (case gap of None \<Rightarrow> True | Some g \<Rightarrow> g < now - secs) \<rparr>)"

definition summaries :: "string \<Rightarrow> pyfloat \<Rightarrow> MultiWindowCorrelator \<Rightarrow> WindowSummary list" where
  "summaries k now c =
     map (window_summary (incomplete_since c) now (od_get (mw_events c) k [])) (windows c)"

definition retained_event_count :: "MultiWindowCorrelator \<Rightarrow> nat" where
  "retained_event_count c = sum_list (map length (od_values (mw_events c)))"

interpretation ct: time_window monotonic_time expire_correlated
proof
  show "expire_correlated c q = dropWhile (\<lambda>e. monotonic_time e < c) q" for c q
    by (induction q) auto
qed

definition correlator_ok :: "MultiWindowCorrelator \<Rightarrow> bool" where
  "correlator_ok c \<longleftrightarrow> windows c \<noteq> [] \<and> sorted (windows c) \<and> (\<forall>w \<in> set (windows c). 0 < w) \<and>
     0 < max_keys c \<and> 0 < max_events_per_key c \<and> od_wf (mw_events c) \<and>
     length (mw_events c) \<le> max_keys c \<and>
     (\<forall>q \<in> set (od_values (mw_events c)). length q \<le> max_events_per_key c)"

lemma new_correlator_ok: "new_correlator ws k n = Inr c \<Longrightarrow> correlator_ok c"
proof -
  assume new: "new_correlator ws k n = Inr c"
  then have "ws \<noteq> []" by (auto simp: new_correlator_def)
  then have "sort (remdups ws) \<noteq> []" by (metis set_empty set_remdups set_sort)
  with new show ?thesis
    by (auto simp: new_correlator_def correlator_ok_def list_ex_iff not_le split: if_splits)
qed

lemma length_correlate_queue: "length (correlate_queue e c) \<le> max_events_per_key c"
  unfolding correlate_queue_def
  by (rule order_trans [OF ct.length_expire]) simp

lemma correlate_queue_last:
  assumes "correlator_ok c"
  shows "\<exists>q. correlate_queue e c = q @ [e]"
proof -
  have w: "0 < last (windows c)" and m: "0 < max_events_per_key c"
    using assms by (auto simp: correlator_ok_def)
  have "dropWhile P (xs @ [e]) = dropWhile P xs @ [e]" if "\<not> P e" for P xs
    using that by (induction xs) auto
  then show ?thesis
    using w m by (auto simp: correlate_queue_def ct.expire_eq pop_excess_snoc)
qed

lemma correlator_add_ok:
  assumes "correlator_ok c"
  shows "correlator_ok (correlator_add e c)"
proof -
  obtain n where n: "max_keys c = Suc n"
    using assms by (cases "max_keys c") (auto simp: correlator_ok_def)
  let ?d = "touch_key (Suc n) (tree_key e) (correlate_queue e c) (mw_events c)"
  have "od_wf ?d" "length ?d \<le> Suc n"
    using assms tk.touch_wf tk.length_touch by (auto simp: correlator_ok_def)
  moreover have "\<forall>q \<in> set (od_values ?d). length q \<le> max_events_per_key c"
    using assms values_touch_key length_correlate_queue [of e c] unfolding correlator_ok_def by fast
  ultimately show ?thesis
    using assms n by (simp add: correlator_ok_def correlator_add_def Let_def)
qed

text \<open>The events of the correlator, as a machine.\<close>

datatype correlator_event = Add CorrelationEvent | Gap pyfloat | Resync

fun correlator_step :: "correlator_event \<Rightarrow> MultiWindowCorrelator \<Rightarrow> MultiWindowCorrelator" where
  "correlator_step (Add e) c = correlator_add e c"
| "correlator_step (Gap t) c = mark_sequence_gap t c"
| "correlator_step Resync c = mark_resynchronized c"

interpretation cm: invariant_machine correlator_step correlator_ok
proof
  show "correlator_ok c \<Longrightarrow> correlator_ok (correlator_step e c)" for e c
    by (cases e; simp add: correlator_add_ok;
        simp add: correlator_ok_def mark_sequence_gap_def mark_resynchronized_def)
qed

lemma retained_bound:
  "(\<forall>q \<in> set qs. length q \<le> m) \<Longrightarrow> sum_list (map length qs) \<le> length qs * m"
  by (induction qs) auto

text \<open>
  The correlator is bounded and never drops what it is looking at: after any sequence of
  events, gaps and resynchronizations it holds at most \<open>max_keys\<close> trees of at most
  \<open>max_events_per_key\<close> events, and adding one more event leaves that event as the newest of its
  tree's queue.
\<close>

theorem correlator_bounded:
  assumes "new_correlator ws keys per_key = Inr c0" and "c = fold correlator_step es c0"
  shows "length (mw_events c) \<le> max_keys c \<and>
    retained_event_count c \<le> max_keys c * max_events_per_key c \<and>
    (\<exists>q. map_of (mw_events (correlator_add e c)) (tree_key e) = Some (q @ [e]))"
proof -
  have ok: "correlator_ok c"
    unfolding assms(2) by (rule cm.run_good [OF new_correlator_ok [OF assms(1)]])
  then have len: "length (mw_events c) \<le> max_keys c"
    and per: "\<forall>q \<in> set (od_values (mw_events c)). length q \<le> max_events_per_key c"
    and wf: "od_wf (mw_events c)" and "0 < max_keys c"
    by (auto simp: correlator_ok_def)
  then obtain n where n: "max_keys c = Suc n" by (cases "max_keys c") auto
  obtain q where q: "correlate_queue e c = q @ [e]" using correlate_queue_last [OF ok] by blast
  have "map_of (mw_events (correlator_add e c)) (tree_key e) = Some (q @ [e])"
    using tk.touch_newest [OF wf] n q by (simp add: correlator_add_def Let_def)
  moreover have "retained_event_count c \<le> max_keys c * max_events_per_key c"
    using order_trans [OF retained_bound [OF per] mult_le_mono1] len
    by (simp add: retained_event_count_def)
  ultimately show ?thesis using len by blast
qed

definition ex_correlation :: "pyfloat \<Rightarrow> string \<Rightarrow> CorrelationEvent" where
  "ex_correlation t k = \<lparr> monotonic_time = t, process_key = ''p'', tree_key = k,
     responsible_key = ''r'', directory_token = ''d'', volume_token = ''v'', signal_ids = [''s''] \<rparr>"

definition ex_correlator :: MultiWindowCorrelator where
  "ex_correlator = \<lparr> windows = [5, 30], max_keys = 2, max_events_per_key = 4, mw_events = [],
     incomplete_since = None, evicted_keys = 0, evicted_events = 0 \<rparr>"

lemma ex_correlator_new: "new_correlator [30, 5, 30] 2 4 = Inr ex_correlator"
  by (simp add: new_correlator_def ex_correlator_def)

theorem correlator_bounded_witness:
  "length (mw_events (fold correlator_step [Add (ex_correlation 1 ''a''), Gap 2,
     Add (ex_correlation 3 ''b''), Add (ex_correlation 4 ''c'')] ex_correlator)) \<le> 2"
  using correlator_bounded [OF ex_correlator_new refl, of "[Add (ex_correlation 1 ''a''), Gap 2,
     Add (ex_correlation 3 ''b''), Add (ex_correlation 4 ''c'')]" "ex_correlation 4 ''c''"]
  by (simp add: correlator_add_def mark_sequence_gap_def ex_correlator_def Let_def)

text \<open>The reference: the summary of a window over the whole history of events.\<close>

definition tree_history :: "string \<Rightarrow> CorrelationEvent list \<Rightarrow> CorrelationEvent list" where
  "tree_history k es = filter (\<lambda>e. tree_key e = k) es"

lemma windows_add [simp]:
  "windows (correlator_add e c) = windows c" "windows (fold correlator_add es c) = windows c"
  "incomplete_since (correlator_add e c) = incomplete_since c"
  "incomplete_since (fold correlator_add es c) = incomplete_since c"
  "max_keys (correlator_add e c) = max_keys c"
  "max_events_per_key (correlator_add e c) = max_events_per_key c"
  by (induction es arbitrary: c) (auto simp: correlator_add_def Let_def)

lemma correlator_add_fields:
  "mw_events (correlator_add e c)
     = touch_key (max_keys c) (tree_key e) (correlate_queue e c) (mw_events c)"
  "evicted_events (correlator_add e c) = evicted_events c +
     (Suc (length (od_get (mw_events c) (tree_key e) [])) - max_events_per_key c)"
  "evicted_keys (correlator_add e c) = evicted_keys c +
     (length (AList.update (tree_key e) (correlate_queue e c) (mw_events c)) - max_keys c)"
  by (simp_all add: correlator_add_def Let_def)

lemma fold_add_ok: "correlator_ok c \<Longrightarrow> correlator_ok (fold correlator_add es c)"
  by (induction es arbitrary: c) (auto simp: correlator_add_ok)

lemma correlator_history:
  assumes "correlator_ok c" and "mw_events c = []" and "sorted (map monotonic_time es)"
    and "evicted_events (fold correlator_add es c) = 0"
    and "evicted_keys (fold correlator_add es c) = 0"
  shows "od_get (mw_events (fold correlator_add es c)) k [] = (let h = tree_history k es in
    if h = [] then []
    else filter (\<lambda>e. monotonic_time (last h) - last (windows c) \<le> monotonic_time e) h)"
  using assms(3-5)
proof (induction es arbitrary: k rule: rev_induct)
  case Nil
  then show ?case using assms(2) by (simp add: od_get_def tree_history_def)
next
  case (snoc e es)
  let ?c = "fold correlator_add es c" and ?k = "tree_key e"
  let ?h = "tree_history ?k es" and ?w = "last (windows c)"
  have ok: "correlator_ok ?c" using assms(1) by (rule fold_add_ok)
  have so: "sorted (map monotonic_time es)" and last: "\<And>x. x \<in> set es \<Longrightarrow> monotonic_time x \<le> monotonic_time e"
    using snoc.prems(1) by (auto simp: sorted_append)
  have ev: "evicted_events ?c = 0" "evicted_keys ?c = 0"
    and len: "length (od_get (mw_events ?c) ?k []) < max_events_per_key ?c"
      "length (AList.update ?k (correlate_queue e ?c) (mw_events ?c)) \<le> max_keys ?c"
    using snoc.prems(2,3) by (simp_all add: correlator_add_fields)
  note IH = snoc.IH [OF so ev]
  have wpos: "0 < ?w" using assms(1) by (auto simp: correlator_ok_def)
  have q: "correlate_queue e ?c
      = filter (\<lambda>x. monotonic_time e - ?w \<le> monotonic_time x) (?h @ [e])"
  proof (cases "?h = []")
    case True
    with IH wpos len show ?thesis
      by (simp add: correlate_queue_def pop_excess_all)
  next
    case False
    then have "last ?h \<in> set es" using last_in_set [of ?h] by (auto simp: tree_history_def)
    then have le: "monotonic_time (List.last ?h) - ?w \<le> monotonic_time e - ?w" using last by simp
    have "sorted (map monotonic_time (?h @ [e]))"
      using so last by (auto simp: tree_history_def sorted_append sorted_filter)
    from ct.expire_history [OF this le] IH False len show ?thesis
      by (simp add: correlate_queue_def pop_excess_all Let_def)
  qed
  show ?case
    using ok touch_key_get [OF _ len(2), of k] q IH
    by (auto simp: correlator_add_fields Let_def correlator_ok_def tree_history_def)
qed



end
