(* ===== verification/AR_IPC.thy ===== *)
theory AR_IPC
  imports Json_Values
begin

text \<open>
  The message protocol between the ransomware sensor, the engine, the notifier and their clients
  (\<open>anti_ransomware/ipc_protocol.py\<close>): authentication of a peer, the replay cache, the parsing of
  an envelope and the authorization of a privileged action. A byte is a char. Parameters of the
  model are the JSON decoder (\<open>raw.decode\<close> followed by \<open>json.loads\<close>), the length of the canonical
  encoding of a value, the text \<open>str\<close> gives for floats and containers, \<open>datetime.fromisoformat\<close>
  and the clock.
\<close>

section \<open>Constants and data\<close>

definition PROTOCOL_VERSION :: string where "PROTOCOL_VERSION = ''1.0''"

definition SCHEMA_VERSION :: string where "SCHEMA_VERSION = ''1.0''"

definition MAX_MESSAGE_BYTES :: nat where "MAX_MESSAGE_BYTES = 65536"

definition MAX_STRING :: nat where "MAX_STRING = 4096"

definition MAX_CLOCK_SKEW_SECONDS :: pyfloat where "MAX_CLOCK_SKEW_SECONDS = 30"

definition MAX_MESSAGE_AGE_SECONDS :: pyfloat where "MAX_MESSAGE_AGE_SECONDS = 300"

definition alnum_char :: "char \<Rightarrow> bool" where
  "alnum_char c = (let n = (of_char c :: nat) in
     (65 \<le> n \<and> n \<le> 90) \<or> (97 \<le> n \<and> n \<le> 122) \<or> (48 \<le> n \<and> n \<le> 57))"

definition IDENTIFIER_PATTERN :: "string \<Rightarrow> bool" where
  "IDENTIFIER_PATTERN s \<longleftrightarrow> 1 \<le> length s \<and> length s \<le> 128 \<and>
     list_all (\<lambda>c. alnum_char c \<or> c \<in> set ''._:-'') s"

definition NONCE_PATTERN :: "string \<Rightarrow> bool" where
  "NONCE_PATTERN s \<longleftrightarrow> 16 \<le> length s \<and> length s \<le> 128 \<and>
     list_all (\<lambda>c. alnum_char c \<or> c \<in> set ''_-'') s"

definition SHA256_PATTERN :: "string \<Rightarrow> bool" where
  "SHA256_PATTERN s \<longleftrightarrow> length s = 64 \<and> list_all (\<lambda>c. c \<in> set ''0123456789abcdef'') s"

datatype MessageType = SENSOR_EVENT | HEALTH_QUERY | HEALTH_RESPONSE | NOTIFICATION
  | ACKNOWLEDGEMENT | ACTION_REQUEST | ACTION_RESPONSE

definition message_types :: "(string \<times> MessageType) list" where
  "message_types = [(''SENSOR_EVENT'', SENSOR_EVENT), (''HEALTH_QUERY'', HEALTH_QUERY),
     (''HEALTH_RESPONSE'', HEALTH_RESPONSE), (''NOTIFICATION'', NOTIFICATION),
     (''ACKNOWLEDGEMENT'', ACKNOWLEDGEMENT), (''ACTION_REQUEST'', ACTION_REQUEST),
     (''ACTION_RESPONSE'', ACTION_RESPONSE)]"

datatype SenderRole = NATIVE_SENSOR | SYSTEM_ENGINE | USER_NOTIFIER | ADMIN_CLIENT | DIAGNOSTIC_CLIENT

definition sender_roles :: "(string \<times> SenderRole) list" where
  "sender_roles = [(''NATIVE_SENSOR'', NATIVE_SENSOR), (''SYSTEM_ENGINE'', SYSTEM_ENGINE),
     (''USER_NOTIFIER'', USER_NOTIFIER), (''ADMIN_CLIENT'', ADMIN_CLIENT),
     (''DIAGNOSTIC_CLIENT'', DIAGNOSTIC_CLIENT)]"

text \<open>The lookup \<open>E(value)\<close> of an enum whose members have string values.\<close>

definition enum_of :: "(string \<times> 'e) list \<Rightarrow> json \<Rightarrow> 'e py" where
  "enum_of members v = (case v of
     JStr s \<Rightarrow> (case map_of members s of None \<Rightarrow> Inl (ValueError ''is not a valid member'') | Some x \<Rightarrow> Inr x)
   | _ \<Rightarrow> Inl (ValueError ''is not a valid member''))"

definition ALLOWED_FIELDS :: "string list" where
  "ALLOWED_FIELDS = [''protocol_version'', ''schema_version'', ''message_type'', ''message_id'',
     ''correlation_id'', ''incident_id'', ''event_id'', ''boot_session_id'', ''sender_role'',
     ''sender_build_id'', ''created_at'', ''expires_at'', ''nonce'', ''payload_length'', ''payload'']"

definition REQUIRED_FIELDS :: "string list" where
  "REQUIRED_FIELDS = filter (\<lambda>k. k \<noteq> ''incident_id'' \<and> k \<noteq> ''event_id'') ALLOWED_FIELDS"

record AuthenticatedPeer =
  audit_token_hash :: string
  team_id :: string
  signing_id :: string
  designated_requirement :: string
  ad_hoc :: bool
  peer_role :: SenderRole

fun PRIVILEGED_ACTIONS :: "SenderRole \<Rightarrow> string list" where
  "PRIVILEGED_ACTIONS USER_NOTIFIER =
     [''ACKNOWLEDGE'', ''ALLOW_ONCE'', ''KEEP_PAUSED'', ''REQUEST_ADMIN_REVIEW'']"
| "PRIVILEGED_ACTIONS ADMIN_CLIENT =
     [''ACKNOWLEDGE'', ''ALLOW_ONCE'', ''KEEP_PAUSED'', ''RESUME_EXACT_PROCESS'',
      ''TERMINATE_EXACT_PROCESS'', ''BLOCK_EXACT_IDENTITY'', ''TRUST_EXACT_IDENTITY'']"
| "PRIVILEGED_ACTIONS SYSTEM_ENGINE =
     [''PAUSE_EXACT_PROCESS'', ''INCREASE_TELEMETRY'', ''EXPIRE_CONTAINMENT'', ''ROLLBACK_CONTAINMENT'']"
| "PRIVILEGED_ACTIONS _ = []"

definition ACTION_REQUIRED_IDENTITY :: "string list" where
  "ACTION_REQUIRED_IDENTITY = [''ALLOW_ONCE'', ''KEEP_PAUSED'', ''RESUME_EXACT_PROCESS'',
     ''TERMINATE_EXACT_PROCESS'', ''BLOCK_EXACT_IDENTITY'', ''TRUST_EXACT_IDENTITY'',
     ''PAUSE_EXACT_PROCESS'', ''EXPIRE_CONTAINMENT'', ''ROLLBACK_CONTAINMENT'']"

definition PROCESS_IDENTITY_FIELDS :: "string list" where
  "PROCESS_IDENTITY_FIELDS =
     [''pid'', ''pid_version'', ''boot_session_id'', ''executable_sha256'', ''effective_uid'']"

section \<open>The replay cache\<close>

record ReplayCache =
  capacity :: nat
  items :: "(string, unit) odict"

definition new_replay_cache :: "nat \<Rightarrow> ReplayCache" where
  "new_replay_cache cap = \<lparr> capacity = cap, items = [] \<rparr>"

definition cache_key :: "string \<Rightarrow> string \<Rightarrow> string" where
  "cache_key connection_id nonce = connection_id @ '':'' @ nonce"

definition accept :: "string \<Rightarrow> string \<Rightarrow> ReplayCache \<Rightarrow> bool \<times> ReplayCache" where
  "accept connection_id nonce rc = (let key = cache_key connection_id nonce in
     if key \<in> set (od_keys (items rc)) then (False, rc)
     else (True, rc\<lparr> items := touch_key (capacity rc) key () (items rc) \<rparr>))"

section \<open>Authentication of a peer\<close>

definition authenticate_peer ::
  "AuthenticatedPeer \<Rightarrow> bool \<Rightarrow> string \<Rightarrow> string list \<Rightarrow> SenderRole \<Rightarrow> unit py" where
  "authenticate_peer p production expected_team_id allowed_signing_ids expected_role =
     (if length (audit_token_hash p) < 32 then
        Inl (PermissionError ''[AR014] IPC audit-token identity is missing or malformed.'')
      else if peer_role p \<noteq> expected_role then
        Inl (PermissionError ''[AR014] IPC caller role is not authorized for this channel.'')
      else if production \<and> ad_hoc p then
        Inl (PermissionError ''[AR014] Ad-hoc or unsigned IPC clients are rejected in managed production mode.'')
      else if production \<and> (team_id p \<noteq> expected_team_id \<or> signing_id p \<notin> set allowed_signing_ids
          \<or> designated_requirement p = '''') then
        Inl (PermissionError ''[AR014] IPC code-signing requirement did not match the managed policy.'')
      else Inr ())"

record AuthorizedConnection =
  connection_id :: string
  peer :: AuthenticatedPeer
  expected_boot_session :: string
  replay_cache :: ReplayCache
  closed :: bool

definition new_connection :: "string \<Rightarrow> AuthenticatedPeer \<Rightarrow> bool \<Rightarrow> string \<Rightarrow> string list \<Rightarrow>
    SenderRole \<Rightarrow> string \<Rightarrow> nat \<Rightarrow> AuthorizedConnection py" where
  "new_connection cid p production expected_team_id allowed_signing_ids expected_role boot replay_capacity =
     (if \<not> IDENTIFIER_PATTERN cid then
        Inl (PermissionError ''[AR014] IPC connection identifier is malformed.'')
      else py_bind (authenticate_peer p production expected_team_id allowed_signing_ids expected_role)
        (\<lambda>_. Inr \<lparr> connection_id = cid, peer = p, expected_boot_session = boot,
           replay_cache = new_replay_cache replay_capacity, closed = False \<rparr>))"

definition close_connection :: "AuthorizedConnection \<Rightarrow> AuthorizedConnection" where
  "close_connection c = c\<lparr> closed := True \<rparr>"

section \<open>Authorization of an action\<close>

definition action_payload_error :: py_error where
  "action_payload_error = PermissionError ''[AR014] Privileged action payload has unknown fields.''"

definition identifier_json :: "json \<Rightarrow> bool" where
  "identifier_json v = (case v of JStr s \<Rightarrow> IDENTIFIER_PATTERN s | _ \<Rightarrow> False)"

text \<open>\<open>action in frozenset(...)\<close> hashes its left side.\<close>

definition member_of :: "json \<Rightarrow> string list \<Rightarrow> bool py" where
  "member_of v xs = (case v of JStr s \<Rightarrow> Inr (s \<in> set xs)
     | JList _ \<Rightarrow> Inl (TypeError ''unhashable type'') | JObj _ \<Rightarrow> Inl (TypeError ''unhashable type'')
     | _ \<Rightarrow> Inr False)"

text \<open>\<open>isinstance(v, int)\<close> holds for a \<open>bool\<close> as well; \<open>json_int\<close> is the value compared.\<close>

fun json_int :: "json \<Rightarrow> int option" where
  "json_int (JInt i) = Some i"
| "json_int (JBool b) = Some (if b then 1 else 0)"
| "json_int _ = None"

definition authorize_identity :: "json_object \<Rightarrow> json \<Rightarrow> unit py" where
  "authorize_identity envelope v = (case v of
     JObj identity \<Rightarrow>
       if set (od_keys identity) \<noteq> set PROCESS_IDENTITY_FIELDS then
         Inl (PermissionError ''[AR014] Privileged action requires an exact bounded process identity.'')
       else if (case json_int (od_get identity ''pid'' JNull) of None \<Rightarrow> True | Some n \<Rightarrow> n \<le> 0) \<or>
           (case json_int (od_get identity ''pid_version'' JNull) of None \<Rightarrow> True | Some n \<Rightarrow> n < 0) then
         Inl (PermissionError ''[AR014] Process generation identity is invalid.'')
       else (case map_of envelope ''boot_session_id'' of
         None \<Rightarrow> Inl (KeyError ''boot_session_id'')
       | Some b \<Rightarrow>
         if od_get identity ''boot_session_id'' JNull \<noteq> b then
           Inl (PermissionError ''[AR014] Process identity belongs to another boot session.'')
         else (case od_get identity ''executable_sha256'' JNull of
             JStr digest \<Rightarrow> if SHA256_PATTERN digest then Inr ()
               else Inl (PermissionError ''[AR014] Exact executable identity hash is invalid.'')
           | _ \<Rightarrow> Inl (PermissionError ''[AR014] Exact executable identity hash is invalid.'')))
   | _ \<Rightarrow> Inl (PermissionError ''[AR014] Privileged action requires an exact bounded process identity.''))"

definition authorize_action :: "json_object \<Rightarrow> SenderRole \<Rightarrow> unit py" where
  "authorize_action envelope role = (case od_get envelope ''payload'' JNull of
     JObj payload \<Rightarrow>
       if \<not> set (od_keys payload) \<subseteq> set [''action'', ''process_identity'', ''idempotency_key'', ''rationale''] then
         Inl action_payload_error
       else (let action = od_get payload ''action'' JNull in
         py_bind (member_of action (PRIVILEGED_ACTIONS role)) (\<lambda>inside.
           if \<not> inside then
             Inl (PermissionError ''[AR014] Requested action is outside the authenticated caller role.'')
           else if \<not> truthy (od_get envelope ''incident_id'' JNull) \<or> \<not> truthy (od_get envelope ''event_id'' JNull) then
             Inl (PermissionError ''[AR014] Privileged action must bind incident and event identifiers.'')
           else if \<not> identifier_json (od_get payload ''idempotency_key'' JNull) then
             Inl (PermissionError ''[AR014] Privileged action idempotency key is missing or malformed.'')
           else py_bind (member_of action ACTION_REQUIRED_IDENTITY) (\<lambda>needs.
             if needs then authorize_identity envelope (od_get payload ''process_identity'' JNull)
             else Inr ())))
   | _ \<Rightarrow> Inl action_payload_error)"

section \<open>Envelopes\<close>

text \<open>The values of the payload: nesting, lists, objects, strings and numbers are bounded.\<close>

fun validate_value :: "nat \<Rightarrow> json \<Rightarrow> unit py"
  and validate_list :: "nat \<Rightarrow> json list \<Rightarrow> unit py"
  and validate_dict :: "nat \<Rightarrow> (string \<times> json) list \<Rightarrow> unit py" where
  "validate_value depth v =
     (if 6 < depth then Inl (ValueError ''[AR014] IPC object nesting exceeds the protocol limit.'')
      else case v of
        JStr s \<Rightarrow> if MAX_STRING < length s then
            Inl (ValueError ''[AR014] IPC string exceeds the protocol limit.'') else Inr ()
      | JList xs \<Rightarrow> if 256 < length xs then
            Inl (ValueError ''[AR014] IPC list exceeds the protocol limit.'') else validate_list (depth + 1) xs
      | JObj d \<Rightarrow> if 64 < length d then
            Inl (ValueError ''[AR014] IPC object exceeds the field limit.'') else validate_dict (depth + 1) d
      | JNonFinite _ \<Rightarrow> Inl (ValueError ''[AR014] IPC non-finite numbers are prohibited.'')
      | _ \<Rightarrow> Inr ())"
| "validate_list depth [] = Inr ()"
| "validate_list depth (x # xs) = py_bind (validate_value depth x) (\<lambda>_. validate_list depth xs)"
| "validate_dict depth [] = Inr ()"
| "validate_dict depth ((k, x) # d) =
     (if 128 < length k then Inl (ValueError ''[AR014] IPC field name is invalid.'')
      else py_bind (validate_value depth x) (\<lambda>_. validate_dict depth d))"

declare validate_value.simps [simp del]

record ipc_env =
  loads :: "char list \<Rightarrow> json py"
  dumps_length :: "json \<Rightarrow> nat"
  repr_of :: "json \<Rightarrow> string"
  fromisoformat :: "string \<Rightarrow> datetime option"
  now_micros :: int

definition decode_envelope :: "ipc_env \<Rightarrow> char list \<Rightarrow> json_object py" where
  "decode_envelope env raw =
     (if MAX_MESSAGE_BYTES < length raw then Inl (ValueError ''[AR014] IPC message exceeds 65,536 bytes.'')
      else case loads env raw of
        Inl e \<Rightarrow> if e = ValueError ''UnicodeDecodeError'' then
              Inl (ValueError ''[AR014] IPC message is not valid UTF-8 JSON: UnicodeDecodeError'')
            else if e = ValueError ''JSONDecodeError'' then
              Inl (ValueError ''[AR014] IPC message is not valid UTF-8 JSON: JSONDecodeError'')
            else Inl e
      | Inr (JObj payload) \<Rightarrow>
          if \<not> set (od_keys payload) \<subseteq> set ALLOWED_FIELDS \<or> \<not> set REQUIRED_FIELDS \<subseteq> set (od_keys payload)
          then Inl (ValueError ''[AR014] IPC envelope has missing or unknown fields.'')
          else Inr payload
      | Inr _ \<Rightarrow> Inl (ValueError ''[AR014] IPC envelope has missing or unknown fields.''))"

fun check_identifiers :: "bool \<Rightarrow> json_object \<Rightarrow> string list \<Rightarrow> unit py" where
  "check_identifiers optional payload [] = Inr ()"
| "check_identifiers optional payload (f # fs) =
     (if \<not> (optional \<and> f \<notin> set (od_keys payload)) \<and> \<not> identifier_json (od_get payload f JNull)
      then Inl (ValueError (''[AR014] IPC '' @ f @ '' is malformed.''))
      else check_identifiers optional payload fs)"

definition check_times :: "ipc_env \<Rightarrow> json_object \<Rightarrow> unit py" where
  "check_times env payload =
     (let stamp = (\<lambda>k. fromisoformat env
            (str_replace ''Z'' ''+00:00'' (json_str (repr_of env) (od_get payload k JNull)))) in
      case (stamp ''created_at'', stamp ''expires_at'') of
        (Some created, Some expires) \<Rightarrow>
          if \<not> tz_aware created \<or> \<not> tz_aware expires \<or> utc_micros expires \<le> now_micros env
              \<or> utc_micros expires \<le> utc_micros created then
            Inl (PermissionError ''[AR014] IPC request is expired.'')
          else if MAX_CLOCK_SKEW_SECONDS < total_seconds (utc_micros created - now_micros env) \<or>
              MAX_MESSAGE_AGE_SECONDS < total_seconds (now_micros env - utc_micros created) then
            Inl (PermissionError ''[AR014] IPC request creation time is outside the permitted window.'')
          else Inr ()
      | _ \<Rightarrow> Inl (ValueError ''[AR014] IPC timestamps are malformed.''))"

text \<open>The checks of an envelope before its nonce is used, in the order of the code.\<close>

definition check_envelope :: "ipc_env \<Rightarrow> string \<Rightarrow> SenderRole \<Rightarrow> json_object \<Rightarrow> unit py" where
  "check_envelope env boot allowed_role payload =
     (if od_get payload ''protocol_version'' JNull \<noteq> JStr PROTOCOL_VERSION \<or>
         od_get payload ''schema_version'' JNull \<noteq> JStr SCHEMA_VERSION then
        Inl (ValueError ''[AR024] Native protocol version mismatch or downgrade request.'')
      else py_bind (enum_of message_types (od_get payload ''message_type'' JNull)) (\<lambda>_.
        py_bind (check_identifiers False payload
            [''message_id'', ''correlation_id'', ''boot_session_id'', ''sender_build_id'']) (\<lambda>_.
        py_bind (check_identifiers True payload [''incident_id'', ''event_id'']) (\<lambda>_.
        py_bind (enum_of sender_roles (od_get payload ''sender_role'' JNull)) (\<lambda>sender.
          if sender \<noteq> allowed_role then
            Inl (PermissionError ''[AR014] Sender role is not valid for this IPC channel.'')
          else if od_get payload ''boot_session_id'' JNull \<noteq> JStr boot then
            Inl (PermissionError ''[AR014] IPC request belongs to a different boot session.'')
          else check_times env payload)))))"

definition check_payload :: "ipc_env \<Rightarrow> json_object \<Rightarrow> unit py" where
  "check_payload env payload =
     (if od_get payload ''payload_length'' JNull \<noteq>
         JInt (int (dumps_length env (od_get payload ''payload'' JNull))) then
        Inl (ValueError ''[AR014] IPC payload length does not match the envelope.'')
      else validate_value 0 (od_get payload ''payload'' JNull))"

definition nonce_of :: "ipc_env \<Rightarrow> json_object \<Rightarrow> string" where
  "nonce_of env payload = json_str (repr_of env) (od_get payload ''nonce'' JNull)"

definition parse_envelope :: "ipc_env \<Rightarrow> string \<Rightarrow> string \<Rightarrow> SenderRole \<Rightarrow> char list \<Rightarrow> ReplayCache \<Rightarrow>
    json_object py \<times> ReplayCache" where
  "parse_envelope env cid boot allowed_role raw rc =
     (case py_bind (decode_envelope env raw)
         (\<lambda>payload. py_bind (check_envelope env boot allowed_role payload) (\<lambda>_. Inr payload)) of
        Inl e \<Rightarrow> (Inl e, rc)
      | Inr payload \<Rightarrow>
          (let rejected = (Inl (PermissionError ''[AR014] IPC nonce is malformed or has already been used.'')) in
           if \<not> NONCE_PATTERN (nonce_of env payload) then (rejected, rc)
           else (let (fresh, rc') = accept cid (nonce_of env payload) rc in
             if \<not> fresh then (rejected, rc')
             else (py_bind (check_payload env payload) (\<lambda>_. Inr payload), rc'))))"

definition receive :: "ipc_env \<Rightarrow> char list \<Rightarrow> string option \<Rightarrow> AuthorizedConnection \<Rightarrow>
    json_object py \<times> AuthorizedConnection" where
  "receive env raw expected_incident_id c =
     (if closed c then
        (Inl (PermissionError ''[AR014] IPC connection authentication is no longer valid.''), c)
      else (let (r, rc) = parse_envelope env (connection_id c) (expected_boot_session c)
              (peer_role (peer c)) raw (replay_cache c) in
        (py_bind r (\<lambda>envelope.
           if expected_incident_id \<noteq> None \<and>
              map_of envelope ''incident_id'' \<noteq> map_option JStr expected_incident_id then
             Inl (PermissionError ''[AR014] IPC action is bound to a different incident.'')
           else if od_get envelope ''message_type'' JNull = JStr ''ACTION_REQUEST'' then
             py_bind (authorize_action envelope (peer_role (peer c))) (\<lambda>_. Inr envelope)
           else Inr envelope),
         c\<lparr> replay_cache := rc \<rparr>)))"

section \<open>Relative paths\<close>

text \<open>\<open>str.split("/")\<close>, and the parts of a \<open>PurePosixPath\<close>: empty and single-dot components are
  dropped.\<close>

fun split_slash :: "string \<Rightarrow> string list" where
  "split_slash [] = [[]]"
| "split_slash (c # s) = (if c = CHR ''/'' then [] # split_slash s
     else (c # hd (split_slash s)) # tl (split_slash s))"

definition path_parts :: "string \<Rightarrow> string list" where
  "path_parts s = filter (\<lambda>p. p \<noteq> '''' \<and> p \<noteq> ''.'') (split_slash s)"

definition normalize_relative_path :: "string \<Rightarrow> string py" where
  "normalize_relative_path value =
     (if startswith value ''/'' \<or> ''..'' \<in> set (path_parts value) then
        Inl (ValueError ''[AR014] IPC path traversal or absolute path is prohibited.'')
      else Inr (if path_parts value = [] then ''.'' else str_join ''/'' (path_parts value)))"

section \<open>The replay cache remembers the last accepted nonces\<close>

text \<open>A run of the cache, and the specification: the list of the nonces accepted so far, of which
  the last \<open>cap\<close> are refused.\<close>

fun accept_run :: "string \<Rightarrow> string list \<Rightarrow> ReplayCache \<Rightarrow> bool list" where
  "accept_run cid [] rc = []"
| "accept_run cid (n # ns) rc = (let (b, rc') = accept cid n rc in b # accept_run cid ns rc')"

fun remembers_last :: "nat \<Rightarrow> string list \<Rightarrow> string list \<Rightarrow> bool list" where
  "remembers_last cap past [] = []"
| "remembers_last cap past (n # ns) =
     (if n \<in> set (drop (length past - cap) past) then False # remembers_last cap past ns
      else True # remembers_last cap (past @ [n]) ns)"

lemma cache_key_inject [simp]: "cache_key cid m = cache_key cid n \<longleftrightarrow> m = n"
  by (simp add: cache_key_def)

lemma accept_keys:
  assumes "accept cid n rc = (b, rc')"
  shows "b \<longleftrightarrow> cache_key cid n \<notin> set (od_keys (items rc))"
    and "capacity rc' = capacity rc"
    and "b \<Longrightarrow> items rc' = touch_key (capacity rc) (cache_key cid n) () (items rc)"
    and "\<not> b \<Longrightarrow> rc' = rc"
  using assms by (auto simp: accept_def Let_def split: if_splits)

lemma touch_fresh_keys:
  "k \<notin> set (od_keys d) \<Longrightarrow> od_keys (touch_key cap k v d) = pop_excess cap (od_keys d @ [k])"
  by (simp add: touch_key_eq map_pop_excess delete_absent)

lemma pop_excess_pop_excess_snoc:
  "pop_excess cap (pop_excess cap xs @ [x]) = pop_excess cap (xs @ [x])"
proof -
  have "drop (length (drop (length xs - cap) xs @ [x]) - cap) (drop (length xs - cap) xs @ [x])
      = drop (length (xs @ [x]) - cap) (xs @ [x])"
    by (cases "cap \<le> length xs") (auto simp: Suc_diff_le)
  then show ?thesis by (simp only: pop_excess_drop)
qed

lemma replay_cache_remembers_last_run:
  "accept_run cid ns (new_replay_cache cap) = remembers_last cap [] ns"
proof -
  have "accept_run cid ns rc = remembers_last (capacity rc) past ns"
    if "od_keys (items rc) = map (cache_key cid) (pop_excess (capacity rc) past)" for rc past
    using that
  proof (induction ns arbitrary: rc past)
    case (Cons n ns)
    obtain b rc' where a: "accept cid n rc = (b, rc')" by fastforce
    note k = accept_keys [OF a]
    have mem: "cache_key cid n \<in> set (od_keys (items rc)) \<longleftrightarrow> n \<in> set (pop_excess (capacity rc) past)"
      unfolding Cons.prems by (auto simp: image_iff)
    show ?case
    proof (cases b)
      case True
      with k have "od_keys (items rc') = pop_excess (capacity rc)
          (map (cache_key cid) (pop_excess (capacity rc) past) @ [cache_key cid n])"
        using touch_fresh_keys [of "cache_key cid n" "items rc"] Cons.prems by simp
      also have "\<dots> = map (cache_key cid) (pop_excess (capacity rc) (past @ [n]))"
        by (simp add: map_pop_excess pop_excess_pop_excess_snoc)
      finally have "accept_run cid ns rc' = remembers_last (capacity rc) (past @ [n]) ns"
        using Cons.IH [of rc' "past @ [n]"] k(2) by simp
      with True k(1) mem a show ?thesis by (simp add: pop_excess_drop)
    next
      case False
      with k(4) Cons a mem k(1) show ?thesis by (simp add: pop_excess_drop)
    qed
  qed simp
  from this [of "new_replay_cache cap" "[]"] show ?thesis by (simp add: new_replay_cache_def)
qed

text \<open>
  The replay cache refines its specification: whatever nonces arrive on a connection, it refuses
  exactly those that are among the last \<open>capacity\<close> accepted ones.
\<close>

theorem replay_cache_remembers_last:
  "accept_run cid ns (new_replay_cache cap) = remembers_last cap [] ns"
  by (rule replay_cache_remembers_last_run)

lemma remembers_last_fresh:
  "distinct (past @ ns) \<Longrightarrow>
   remembers_last cap past (ns @ ms) = replicate (length ns) True @ remembers_last cap (past @ ns) ms"
proof (induction ns arbitrary: past)
  case (Cons n ns)
  then have "n \<notin> set (drop (length past - cap) past)" by (auto dest: in_set_dropD)
  with Cons show ?case by simp
qed simp

text \<open>
  A nonce is one-time only within the capacity of the cache: once \<open>capacity\<close> other nonces have been
  accepted on the connection, the nonce of the first message is accepted again.
\<close>

theorem evicted_nonce_accepted_again:
  assumes "distinct (n # ns)" and "length ns = cap"
  shows "accept_run cid (n # ns @ [n]) (new_replay_cache cap) = replicate (cap + 2) True"
proof -
  have "remembers_last cap [] ((n # ns) @ [n]) =
      replicate (length (n # ns)) True @ remembers_last cap ([] @ n # ns) [n]"
    using assms by (intro remembers_last_fresh) simp
  also have "remembers_last cap ([] @ n # ns) [n] = [True]" using assms by auto
  finally have "accept_run cid (n # ns @ [n]) (new_replay_cache cap) =
      replicate (Suc (length ns)) True @ [True]"
    by (simp add: replay_cache_remembers_last_run)
  then show ?thesis using assms(2) by (simp add: replicate_append_same)
qed

theorem evicted_nonce_accepted_again_witness:
  "accept_run ''c'' [''a'', ''b'', ''d'', ''a''] (new_replay_cache 2) = replicate 4 True"
  using evicted_nonce_accepted_again [of "''a''" "[''b'', ''d'']" 2 "''c''"] by (simp add: eval_nat_numeral)

section \<open>What an accepted message is\<close>

lemma check_identifiers_iff:
  "check_identifiers optional payload fs = Inr () \<longleftrightarrow>
   (\<forall>f \<in> set fs. (optional \<and> f \<notin> set (od_keys payload)) \<or> identifier_json (od_get payload f JNull))"
  by (induction fs) auto

lemma enum_of_iff:
  "enum_of members v = Inr x \<longleftrightarrow> (\<exists>s. v = JStr s \<and> map_of members s = Some x)"
  by (auto simp: enum_of_def split: json.splits option.splits)

lemma member_of_iff: "member_of v xs = Inr b \<Longrightarrow> b \<Longrightarrow> \<exists>s. v = JStr s \<and> s \<in> set xs"
  by (auto simp: member_of_def split: json.splits)

lemma identifier_json_iff: "identifier_json v \<longleftrightarrow> (\<exists>s. v = JStr s \<and> IDENTIFIER_PATTERN s)"
  by (auto simp: identifier_json_def split: json.splits)

lemma unit_py_cases: "(r :: unit py) = Inr () \<or> (\<exists>e. r = Inl e)"
  by (cases r) auto

text \<open>The window of the timestamps: an accepted message was created at most 300 seconds ago and at
  most 30 seconds in the future, and it has not expired.\<close>

definition timely :: "ipc_env \<Rightarrow> json_object \<Rightarrow> bool" where
  "timely env payload = (case (fromisoformat env (str_replace ''Z'' ''+00:00''
         (json_str (repr_of env) (od_get payload ''created_at'' JNull))),
       fromisoformat env (str_replace ''Z'' ''+00:00''
         (json_str (repr_of env) (od_get payload ''expires_at'' JNull)))) of
     (Some (Aware created), Some (Aware expires)) \<Rightarrow>
        now_micros env - 300 * 1000000 \<le> created \<and> created \<le> now_micros env + 30 * 1000000 \<and>
        now_micros env < expires \<and> created < expires
   | _ \<Rightarrow> False)"

lemma total_seconds_greater: "of_int n < total_seconds us \<longleftrightarrow> n * 1000000 < us"
proof -
  have "of_int n < total_seconds us \<longleftrightarrow> (of_int (n * 1000000) :: rat) < of_int us"
    by (simp add: total_seconds_def pos_less_divide_eq)
  then show ?thesis by (simp only: of_int_less_iff)
qed

lemma check_times_iff: "check_times env payload = Inr () \<longleftrightarrow> timely env payload"
proof -
  have skew: "MAX_CLOCK_SKEW_SECONDS < total_seconds us \<longleftrightarrow> 30 * 1000000 < us"
    and age: "MAX_MESSAGE_AGE_SECONDS < total_seconds us \<longleftrightarrow> 300 * 1000000 < us" for us
    using total_seconds_greater [of 30 us] total_seconds_greater [of 300 us]
    by (simp_all add: MAX_CLOCK_SKEW_SECONDS_def MAX_MESSAGE_AGE_SECONDS_def)
  show ?thesis
    unfolding check_times_def timely_def Let_def skew age
    by (auto split: option.splits datetime.splits if_splits)
qed

text \<open>What the envelope checks establish, as one predicate.\<close>

definition well_formed_envelope :: "ipc_env \<Rightarrow> string \<Rightarrow> SenderRole \<Rightarrow> json_object \<Rightarrow> bool" where
  "well_formed_envelope env boot role payload \<longleftrightarrow>
     set REQUIRED_FIELDS \<subseteq> set (od_keys payload) \<and> set (od_keys payload) \<subseteq> set ALLOWED_FIELDS \<and>
     od_get payload ''protocol_version'' JNull = JStr ''1.0'' \<and>
     od_get payload ''schema_version'' JNull = JStr ''1.0'' \<and>
     (\<exists>s. od_get payload ''message_type'' JNull = JStr s \<and> s \<in> set (map fst message_types)) \<and>
     (\<forall>f \<in> {''message_id'', ''correlation_id'', ''sender_build_id''}.
        identifier_json (od_get payload f JNull)) \<and>
     (\<forall>f \<in> {''incident_id'', ''event_id''}.
        f \<in> set (od_keys payload) \<longrightarrow> identifier_json (od_get payload f JNull)) \<and>
     (\<exists>s. od_get payload ''sender_role'' JNull = JStr s \<and> map_of sender_roles s = Some role) \<and>
     od_get payload ''boot_session_id'' JNull = JStr boot \<and> IDENTIFIER_PATTERN boot \<and>
     timely env payload"

lemma check_envelope_iff:
  assumes "decode_envelope env raw = Inr payload"
  shows "check_envelope env boot role payload = Inr () \<longleftrightarrow> well_formed_envelope env boot role payload"
proof -
  have fields: "set REQUIRED_FIELDS \<subseteq> set (od_keys payload)" "set (od_keys payload) \<subseteq> set ALLOWED_FIELDS"
    using assms by (auto simp: decode_envelope_def split: if_splits sum.splits json.splits)
  have types: "(\<exists>x. map_of message_types s = Some x) \<longleftrightarrow> s \<in> set (map fst message_types)" for s
    by (simp add: map_of_eq_None_iff flip: not_None_eq)
  show ?thesis
    unfolding check_envelope_def well_formed_envelope_def PROTOCOL_VERSION_def SCHEMA_VERSION_def
    using fields
    by (auto simp: py_bind_Inr_iff check_identifiers_iff enum_of_iff check_times_iff
        identifier_json_iff simp del: set_map simp flip: types split: if_splits)
qed

lemma parse_envelope_accepts:
  assumes "parse_envelope env cid boot role raw rc = (Inr e, rc')"
  shows "length raw \<le> MAX_MESSAGE_BYTES" and "loads env raw = Inr (JObj e)"
    and "well_formed_envelope env boot role e" and "NONCE_PATTERN (nonce_of env e)"
    and "accept cid (nonce_of env e) rc = (True, rc')"
    and "od_get e ''payload_length'' JNull = JInt (int (dumps_length env (od_get e ''payload'' JNull)))"
    and "validate_value 0 (od_get e ''payload'' JNull) = Inr ()"
proof -
  from assms have d: "decode_envelope env raw = Inr e" and c: "check_envelope env boot role e = Inr ()"
    and n: "NONCE_PATTERN (nonce_of env e)" "accept cid (nonce_of env e) rc = (True, rc')"
    and p: "check_payload env e = Inr ()"
    by (auto simp: parse_envelope_def Let_def py_bind_Inr_iff split: sum.splits if_splits prod.splits)
  from d show "length raw \<le> MAX_MESSAGE_BYTES" "loads env raw = Inr (JObj e)"
    by (auto simp: decode_envelope_def split: if_splits sum.splits json.splits)
  from c show "well_formed_envelope env boot role e" by (simp add: check_envelope_iff [OF d])
  show "NONCE_PATTERN (nonce_of env e)" "accept cid (nonce_of env e) rc = (True, rc')" by (fact n)+
  from p show "od_get e ''payload_length'' JNull = JInt (int (dumps_length env (od_get e ''payload'' JNull)))"
    "validate_value 0 (od_get e ''payload'' JNull) = Inr ()"
    by (auto simp: check_payload_def split: if_splits)
qed

text \<open>Every call leaves the cache as it is, or records one nonce that was not in it.\<close>

lemma parse_envelope_cache:
  assumes "parse_envelope env cid boot role raw rc = (r, rc')"
  shows "(rc' = rc \<and> (\<forall>e. r \<noteq> Inr e)) \<or>
    (\<exists>n. accept cid n rc = (True, rc') \<and> (\<forall>e. r = Inr e \<longrightarrow> n = nonce_of env e))"
  using assms accept_keys(1,4) [of cid _ rc]
  by (fastforce simp: parse_envelope_def Let_def py_bind_Inr_iff split: sum.splits if_splits prod.splits)

lemma receive_accepts:
  assumes "receive env raw incident c = (Inr e, c')"
  shows "\<not> closed c"
    and "\<exists>rc. parse_envelope env (connection_id c) (expected_boot_session c) (peer_role (peer c)) raw
           (replay_cache c) = (Inr e, rc) \<and> c' = c\<lparr> replay_cache := rc \<rparr>"
    and "\<forall>i. incident = Some i \<longrightarrow> map_of e ''incident_id'' = Some (JStr i)"
    and "od_get e ''message_type'' JNull = JStr ''ACTION_REQUEST'' \<longrightarrow>
           authorize_action e (peer_role (peer c)) = Inr ()"
  using assms
  by (auto simp: receive_def py_bind_Inr_iff split: if_splits prod.splits)

text \<open>What authorization establishes: the action belongs to the role, and an action on a process
  names one process exactly.\<close>

definition exact_identity :: "string \<Rightarrow> json \<Rightarrow> bool" where
  "exact_identity boot v = (case v of JObj d \<Rightarrow>
       set (od_keys d) = set PROCESS_IDENTITY_FIELDS \<and>
       (\<exists>n > 0. json_int (od_get d ''pid'' JNull) = Some n) \<and>
       (\<exists>n \<ge> 0. json_int (od_get d ''pid_version'' JNull) = Some n) \<and>
       od_get d ''boot_session_id'' JNull = JStr boot \<and>
       (\<exists>h. od_get d ''executable_sha256'' JNull = JStr h \<and> SHA256_PATTERN h)
     | _ \<Rightarrow> False)"

definition permitted_action :: "string \<Rightarrow> SenderRole \<Rightarrow> json_object \<Rightarrow> bool" where
  "permitted_action boot role envelope = (case od_get envelope ''payload'' JNull of
     JObj d \<Rightarrow> set (od_keys d) \<subseteq> {''action'', ''process_identity'', ''idempotency_key'', ''rationale''} \<and>
       (\<exists>a. od_get d ''action'' JNull = JStr a \<and> a \<in> set (PRIVILEGED_ACTIONS role) \<and>
          (a \<in> set ACTION_REQUIRED_IDENTITY \<longrightarrow>
             exact_identity boot (od_get d ''process_identity'' JNull))) \<and>
       truthy (od_get envelope ''incident_id'' JNull) \<and> truthy (od_get envelope ''event_id'' JNull) \<and>
       identifier_json (od_get d ''idempotency_key'' JNull)
   | _ \<Rightarrow> False)"

lemma authorize_identity_iff:
  assumes "map_of envelope ''boot_session_id'' = Some (JStr boot)"
  shows "authorize_identity envelope v = Inr () \<longleftrightarrow> exact_identity boot v"
  using assms
  by (auto simp: authorize_identity_def exact_identity_def split: json.splits option.splits if_splits)

lemma authorize_action_accepts_iff:
  assumes "map_of envelope ''boot_session_id'' = Some (JStr boot)"
  shows "authorize_action envelope role = Inr () \<longleftrightarrow> permitted_action boot role envelope"
proof -
  have m: "member_of v xs = Inr True \<longleftrightarrow> (\<exists>s. v = JStr s \<and> s \<in> set xs)" for v xs
    by (auto simp: member_of_def split: json.splits)
  have s: "member_of (JStr s) xs = Inr (s \<in> set xs)" for s xs by (simp add: member_of_def)
  show ?thesis
  proof (cases "od_get envelope ''payload'' JNull")
    case (JObj d)
    show ?thesis
    proof (cases "\<exists>a. od_get d ''action'' JNull = JStr a \<and> a \<in> set (PRIVILEGED_ACTIONS role)")
      case True
      then obtain a where "od_get d ''action'' JNull = JStr a" "a \<in> set (PRIVILEGED_ACTIONS role)" by blast
      with JObj assms show ?thesis
        by (simp add: authorize_action_def permitted_action_def Let_def s authorize_identity_iff [OF assms]
            action_payload_error_def) blast
    next
      case False
      then have "member_of (od_get d ''action'' JNull) (PRIVILEGED_ACTIONS role) \<noteq> Inr True" by (simp add: m)
      then have "authorize_action envelope role \<noteq> Inr ()"
        using JObj by (auto simp: authorize_action_def Let_def py_bind_Inr_iff action_payload_error_def split: if_splits)
      with False JObj show ?thesis by (auto simp: permitted_action_def)
    qed
  qed (simp_all add: authorize_action_def permitted_action_def action_payload_error_def)
qed

text \<open>
  An action request is authorized exactly when it is well formed: its payload has the four known
  fields only, its action is one of the authenticated role's, it binds an incident and an event, its
  idempotency key is an identifier, and an action on a process carries an exact identity of this
  boot session (every other request raises).
\<close>

theorem authorize_action_exact:
  assumes "map_of envelope ''boot_session_id'' = Some (JStr boot)"
  shows "authorize_action envelope role = Inr () \<longleftrightarrow> permitted_action boot role envelope"
  using assms by (rule authorize_action_accepts_iff)

text \<open>
  The process identity of an action is not checked in full: a \<open>bool\<close> passes for a process id and
  for a generation, because \<open>isinstance(True, int)\<close> holds, and \<open>effective_uid\<close> may be any value.
\<close>

theorem process_identity_partly_checked:
  assumes "map_of envelope ''boot_session_id'' = Some (JStr boot)" and "SHA256_PATTERN h"
  shows "authorize_identity envelope (JObj [(''pid'', JBool True), (''pid_version'', JBool False),
     (''boot_session_id'', JStr boot), (''executable_sha256'', JStr h), (''effective_uid'', u)]) = Inr ()"
  using assms
  by (auto simp: authorize_identity_iff exact_identity_def PROCESS_IDENTITY_FIELDS_def od_get_def)

definition example_hash :: string where
  "example_hash = replicate 64 CHR ''a''"

lemma example_hash_ok: "SHA256_PATTERN example_hash"
  by (simp add: SHA256_PATTERN_def example_hash_def list_all_iff)

theorem process_identity_partly_checked_witness:
  "authorize_identity [(''boot_session_id'', JStr ''b'')] (JObj [(''pid'', JBool True),
     (''pid_version'', JBool False), (''boot_session_id'', JStr ''b''),
     (''executable_sha256'', JStr example_hash), (''effective_uid'', JNull)]) = Inr ()"
  by (rule process_identity_partly_checked) (simp_all add: example_hash_ok)

section \<open>Sessions\<close>

text \<open>A session is the messages that arrive on one connection, each with its own environment (the
  clock moves) and expected incident.\<close>

fun run_session :: "(ipc_env \<times> char list \<times> string option) list \<Rightarrow> AuthorizedConnection \<Rightarrow>
    json_object py list \<times> AuthorizedConnection" where
  "run_session [] c = ([], c)"
| "run_session ((env, raw, incident) # ms) c =
     (let (r, c1) = receive env raw incident c; (rs, c2) = run_session ms c1 in (r # rs, c2))"

lemma receive_frame:
  assumes "receive env raw incident c = (r, c')"
  shows "connection_id c' = connection_id c" "peer c' = peer c" "closed c' = closed c"
    "expected_boot_session c' = expected_boot_session c"
    "capacity (replay_cache c') = capacity (replay_cache c)"
proof -
  obtain q rc where q: "parse_envelope env (connection_id c) (expected_boot_session c)
      (peer_role (peer c)) raw (replay_cache c) = (q, rc)" by fastforce
  have "capacity rc = capacity (replay_cache c)"
    using parse_envelope_cache [OF q] accept_keys(2) by fastforce
  then show "connection_id c' = connection_id c" "peer c' = peer c" "closed c' = closed c"
    "expected_boot_session c' = expected_boot_session c"
    "capacity (replay_cache c') = capacity (replay_cache c)"
    using assms q by (auto simp: receive_def split: if_splits)
qed

lemma receive_cache:
  assumes "receive env raw incident c = (r, c')"
  shows "(replay_cache c' = replay_cache c \<and> (\<forall>e. r \<noteq> Inr e)) \<or>
    (\<exists>n. accept (connection_id c) n (replay_cache c) = (True, replay_cache c') \<and>
       (\<forall>e. r = Inr e \<longrightarrow> n = nonce_of env e))"
proof (cases "closed c")
  case False
  obtain q rc where q: "parse_envelope env (connection_id c) (expected_boot_session c)
      (peer_role (peer c)) raw (replay_cache c) = (q, rc)" by fastforce
  have c': "c' = c\<lparr> replay_cache := rc \<rparr>" and r: "r = Inr e \<Longrightarrow> q = Inr e" for e
    using assms q False by (auto simp: receive_def py_bind_Inr_iff split: if_splits)
  show ?thesis using parse_envelope_cache [OF q] r unfolding c' by auto
qed (use assms in \<open>auto simp: receive_def\<close>)

text \<open>A key recorded \<open>m\<close> messages ago is still in the cache while \<open>m\<close> is below the capacity.\<close>

lemma accept_keeps_recent:
  assumes "accept cid n rc = (True, rc')" and "od_keys (items rc) = xs @ k # ys"
    and "length ys + 1 < capacity rc"
  shows "\<exists>xs' ys'. od_keys (items rc') = xs' @ k # ys' \<and> length ys' \<le> length ys + 1"
proof -
  have ne: "k \<noteq> cache_key cid n" using accept_keys(1) [OF assms(1)] assms(2) by auto
  from assms(3) obtain m where "capacity rc = Suc m" by (cases "capacity rc") auto
  with accept_keys(3) [OF assms(1)] have "items rc' = touch_key (Suc m) (cache_key cid n) () (items rc)"
    by simp
  then show ?thesis
    using tk.touch_keys_suffix [OF ne assms(2), of m] assms(3) \<open>capacity rc = Suc m\<close> by auto
qed

lemma session_keeps_recent:
  assumes "od_keys (items (replay_cache c)) = xs @ k # ys"
    and "length ys + j < capacity (replay_cache c)" and "j < length ms"
    and "run_session ms c = (rs, c')" and "rs ! j = Inr e"
  shows "k \<noteq> cache_key (connection_id c) (nonce_of (fst (ms ! j)) e)"
  using assms
proof (induction ms arbitrary: c xs ys j rs c')
  case (Cons m ms)
  obtain env raw incident where m: "m = (env, raw, incident)" by (cases m)
  obtain r c1 where r: "receive env raw incident c = (r, c1)" by fastforce
  obtain rs1 c2 where s: "run_session ms c1 = (rs1, c2)" by fastforce
  have rs: "rs = r # rs1" using Cons.prems(4) m r s by simp
  note fr = receive_frame [OF r]
  show ?case
  proof (cases j)
    case 0
    with rs Cons.prems(5) have "r = Inr e" by simp
    with receive_cache [OF r] have "accept (connection_id c) (nonce_of env e) (replay_cache c) = (True, replay_cache c1)"
      by auto
    from accept_keys(1) [OF this] Cons.prems(1) 0 m show ?thesis by auto
  next
    case (Suc i)
    from receive_cache [OF r] obtain xs' ys' where
      k: "od_keys (items (replay_cache c1)) = xs' @ k # ys'" "length ys' \<le> length ys + 1"
    proof
      assume "replay_cache c1 = replay_cache c \<and> (\<forall>e. r \<noteq> Inr e)"
      with that Cons.prems(1) show ?thesis by auto
    next
      assume "\<exists>n. accept (connection_id c) n (replay_cache c) = (True, replay_cache c1) \<and>
        (\<forall>e. r = Inr e \<longrightarrow> n = nonce_of env e)"
      then obtain n where "accept (connection_id c) n (replay_cache c) = (True, replay_cache c1)" by blast
      from accept_keeps_recent [OF this Cons.prems(1)] Cons.prems(2) Suc that show ?thesis by auto
    qed
    from k(2) have "length ys' + i < capacity (replay_cache c1)" using Cons.prems(2) Suc fr by simp
    from Cons.IH [OF k(1) this _ s] show ?thesis using Cons.prems(3,5) rs Suc fr by simp
  qed
qed simp

lemma run_session_Cons:
  assumes "run_session (m # ms) c = (rs, c')"
  obtains r c1 rs1 where "receive (fst m) (fst (snd m)) (snd (snd m)) c = (r, c1)"
    "run_session ms c1 = (rs1, c')" "rs = r # rs1"
  using assms by (cases m) (auto split: prod.splits)

text \<open>
  C9. No replay within the capacity of the cache: whatever messages arrive on a connection, two of them
  that are both accepted and are at most \<open>capacity\<close> messages apart carry different nonces.
\<close>

theorem no_replay_within_capacity:
  assumes "run_session ms c = (rs, c')" and "i < j" and "j < length ms"
    and "j - i \<le> capacity (replay_cache c)"
    and "rs ! i = Inr e" and "rs ! j = Inr e'"
  shows "nonce_of (fst (ms ! i)) e \<noteq> nonce_of (fst (ms ! j)) e'"
  using assms
proof (induction ms arbitrary: c rs i j)
  case (Cons m ms)
  from Cons.prems(1) obtain r c1 rs1 where
    r: "receive (fst m) (fst (snd m)) (snd (snd m)) c = (r, c1)" and
    s: "run_session ms c1 = (rs1, c')" and rs: "rs = r # rs1" by (rule run_session_Cons)
  note fr = receive_frame [OF r]
  obtain j' where j: "j = Suc j'" using Cons.prems(2) by (cases j) auto
  show ?case
  proof (cases i)
    case 0
    with rs Cons.prems(5) have "r = Inr e" by simp
    with receive_cache [OF r] have a: "accept (connection_id c) (nonce_of (fst m) e) (replay_cache c)
        = (True, replay_cache c1)" by auto
    let ?k = "cache_key (connection_id c) (nonce_of (fst m) e)"
    from Cons.prems(2,4) 0 obtain q where cap: "capacity (replay_cache c) = Suc q"
      by (cases "capacity (replay_cache c)") auto
    have "od_keys (items (replay_cache c1)) = od_keys (pop_excess q (AList.delete ?k (items (replay_cache c)))) @ [?k]"
      using accept_keys(3) [OF a] cap by (simp add: tk.touch_snoc)
    then have "od_keys (items (replay_cache c1)) =
        od_keys (pop_excess q (AList.delete ?k (items (replay_cache c)))) @ ?k # []" by simp
    from session_keeps_recent [OF this _ _ s, of j' e'] show ?thesis
      using Cons.prems j rs fr 0 by simp
  next
    case (Suc i')
    from Cons.IH [OF s, of i' j'] show ?thesis using Cons.prems j rs fr Suc by simp
  qed
qed simp

text \<open>
  C2. Whatever a connection accepts has been checked: the connection is open and its peer authenticated
  for the channel (in production by team, signing identity and requirement, never ad hoc), the
  message is a well formed and timely envelope of this boot session and of the peer's role, within
  65,536 bytes, and an action request in it is permitted to that role.
\<close>

theorem accepted_message_is_authorized:
  assumes "new_connection cid p production team signers role boot cap = Inr c0"
    and "run_session ms c0 = (rs, c1)"
    and "receive env raw incident c1 = (Inr e, c2)"
  shows "peer_role p = role \<and> 32 \<le> length (audit_token_hash p) \<and>
    (production \<longrightarrow> \<not> ad_hoc p \<and> team_id p = team \<and> signing_id p \<in> set signers \<and>
       designated_requirement p \<noteq> '''') \<and>
    length raw \<le> 65536 \<and> loads env raw = Inr (JObj e) \<and> well_formed_envelope env boot role e \<and>
    (\<forall>i. incident = Some i \<longrightarrow> map_of e ''incident_id'' = Some (JStr i)) \<and>
    (od_get e ''message_type'' JNull = JStr ''ACTION_REQUEST'' \<longrightarrow> permitted_action boot role e)"
proof -
  from assms(1) have a: "authenticate_peer p production team signers role = Inr ()"
    and c0: "peer c0 = p" "expected_boot_session c0 = boot"
    by (auto simp: new_connection_def py_bind_Inr_iff split: if_splits)
  have "peer c1 = peer c0 \<and> expected_boot_session c1 = expected_boot_session c0"
    using assms(2)
  proof (induction ms arbitrary: c0 rs)
    case (Cons m ms)
    from Cons.prems obtain r d rs1 where
      "receive (fst m) (fst (snd m)) (snd (snd m)) c0 = (r, d)" "run_session ms d = (rs1, c1)"
      by (rule run_session_Cons)
    with Cons.IH receive_frame [OF this(1)] show ?case by metis
  qed simp
  with c0 have c1: "peer c1 = p" "expected_boot_session c1 = boot" by simp_all
  have role: "peer_role p = role" and auth: "32 \<le> length (audit_token_hash p)"
    "production \<longrightarrow> \<not> ad_hoc p \<and> team_id p = team \<and> signing_id p \<in> set signers \<and>
       designated_requirement p \<noteq> ''''"
    using a by (auto simp: authenticate_peer_def split: if_splits)
  note ra = receive_accepts [OF assms(3)]
  from ra(2) obtain rc where "parse_envelope env (connection_id c1) (expected_boot_session c1)
      (peer_role (peer c1)) raw (replay_cache c1) = (Inr e, rc)" by blast
  note pe = parse_envelope_accepts [OF this]
  have wf: "well_formed_envelope env boot role e" using pe(3) c1 role by simp
  then have "map_of e ''boot_session_id'' = Some (JStr boot)"
    by (auto simp: well_formed_envelope_def od_get_def split: option.splits)
  from authorize_action_accepts_iff [OF this] ra(4) c1 role
  have "od_get e ''message_type'' JNull = JStr ''ACTION_REQUEST'' \<longrightarrow> permitted_action boot role e"
    by simp
  with role auth wf pe(1,2) ra(3) show ?thesis by (simp add: MAX_MESSAGE_BYTES_def)
qed

text \<open>A connection of the engine, and the messages of an environment whose decoder takes the bytes
  for the nonce of a request to pause a process.\<close>

definition example_envelope :: "string \<Rightarrow> json_object" where
  "example_envelope nonce = [(''protocol_version'', JStr ''1.0''), (''schema_version'', JStr ''1.0''),
     (''message_type'', JStr ''ACTION_REQUEST''), (''message_id'', JStr ''m1''),
     (''correlation_id'', JStr ''k1''), (''incident_id'', JStr ''i1''), (''event_id'', JStr ''e1''),
     (''boot_session_id'', JStr ''boot''), (''sender_role'', JStr ''SYSTEM_ENGINE''),
     (''sender_build_id'', JStr ''b1''), (''created_at'', JStr ''c''), (''expires_at'', JStr ''x''),
     (''nonce'', JStr nonce), (''payload_length'', JInt 2),
     (''payload'', JObj [(''action'', JStr ''PAUSE_EXACT_PROCESS''), (''idempotency_key'', JStr ''q''),
        (''process_identity'', JObj [(''pid'', JInt 7), (''pid_version'', JInt 1),
           (''boot_session_id'', JStr ''boot''), (''executable_sha256'', JStr example_hash),
           (''effective_uid'', JInt 501)])])]"

definition example_ipc_env :: ipc_env where
  "example_ipc_env = \<lparr> loads = (\<lambda>raw. Inr (JObj (example_envelope raw))), dumps_length = (\<lambda>_. 2),
     repr_of = (\<lambda>_. ''''), fromisoformat = (\<lambda>s. Some (Aware (if s = ''c'' then 0 else 60000000))),
     now_micros = 1000000 \<rparr>"

definition example_peer :: AuthenticatedPeer where
  "example_peer = \<lparr> audit_token_hash = example_hash, team_id = ''T'', signing_id = ''S'',
     designated_requirement = ''R'', ad_hoc = False, peer_role = SYSTEM_ENGINE \<rparr>"

definition example_connection :: AuthorizedConnection where
  "example_connection = \<lparr> connection_id = ''c1'', peer = example_peer, expected_boot_session = ''boot'',
     replay_cache = new_replay_cache 2, closed = False \<rparr>"

lemma example_connection_new:
  "new_connection ''c1'' example_peer True ''T'' [''S''] SYSTEM_ENGINE ''boot'' 2 = Inr example_connection"
  by code_simp

lemma example_fields [simp]:
  "map_of (example_envelope n) ''boot_session_id'' = Some (JStr ''boot'')"
  "map_of (example_envelope n) ''incident_id'' = Some (JStr ''i1'')"
  "od_get (example_envelope n) ''message_type'' JNull = JStr ''ACTION_REQUEST''"
  "nonce_of example_ipc_env (example_envelope n) = n"
  by (simp_all add: example_envelope_def od_get_def nonce_of_def example_ipc_env_def)

lemma example_decode: "length n \<le> 128 \<Longrightarrow> decode_envelope example_ipc_env n = Inr (example_envelope n)"
  by (simp add: decode_envelope_def example_ipc_env_def example_envelope_def MAX_MESSAGE_BYTES_def
      ALLOWED_FIELDS_def REQUIRED_FIELDS_def)

lemma example_check: "check_envelope example_ipc_env ''boot'' SYSTEM_ENGINE (example_envelope n) = Inr ()"
  by (simp add: check_envelope_def check_times_def example_ipc_env_def example_envelope_def od_get_def
      PROTOCOL_VERSION_def SCHEMA_VERSION_def enum_of_def message_types_def sender_roles_def
      identifier_json_def IDENTIFIER_PATTERN_def alnum_char_def MAX_CLOCK_SKEW_SECONDS_def
      MAX_MESSAGE_AGE_SECONDS_def total_seconds_def startswith_def)

lemma example_payload: "check_payload example_ipc_env (example_envelope n) = Inr ()"
  by (simp add: check_payload_def example_ipc_env_def example_envelope_def od_get_def
      validate_value.simps MAX_STRING_def example_hash_def)

lemma example_authorized: "authorize_action (example_envelope n) SYSTEM_ENGINE = Inr ()"
  by (simp add: authorize_action_def example_envelope_def od_get_def member_of_def identifier_json_def
      IDENTIFIER_PATTERN_def alnum_char_def ACTION_REQUIRED_IDENTITY_def authorize_identity_def
      PROCESS_IDENTITY_FIELDS_def example_hash_ok)

lemma example_receive:
  assumes "NONCE_PATTERN n" and "accept ''c1'' n rc = (True, rc')" and "incident = None \<or> incident = Some ''i1''"
  shows "receive example_ipc_env n incident (example_connection\<lparr> replay_cache := rc \<rparr>) =
    (Inr (example_envelope n), example_connection\<lparr> replay_cache := rc' \<rparr>)"
proof -
  have "length n \<le> 128" using assms(1) by (simp add: NONCE_PATTERN_def)
  then show ?thesis using assms
    by (auto simp: receive_def parse_envelope_def example_decode example_check example_payload
        example_authorized example_connection_def example_peer_def)
qed

definition nonce1 :: string where "nonce1 = ''nonce-0000000001''"

definition nonce2 :: string where "nonce2 = ''nonce-0000000002''"

lemma example_nonces: "NONCE_PATTERN nonce1" "NONCE_PATTERN nonce2" "nonce1 \<noteq> nonce2"
  by (simp_all add: NONCE_PATTERN_def nonce1_def nonce2_def alnum_char_def)

lemma example_session:
  "run_session [(example_ipc_env, nonce1, None), (example_ipc_env, nonce2, Some ''i1'')] example_connection =
     ([Inr (example_envelope nonce1), Inr (example_envelope nonce2)],
      example_connection\<lparr> replay_cache := \<lparr> capacity = 2,
        items = [(''c1:'' @ nonce1, ()), (''c1:'' @ nonce2, ())] \<rparr> \<rparr>)"
proof -
  have "accept ''c1'' nonce1 (new_replay_cache 2) = (True, \<lparr> capacity = 2, items = [(''c1:'' @ nonce1, ())] \<rparr>)"
    by (simp add: accept_def new_replay_cache_def touch_key_eq cache_key_def)
  moreover have "accept ''c1'' nonce2 \<lparr> capacity = 2, items = [(''c1:'' @ nonce1, ())] \<rparr> =
      (True, \<lparr> capacity = 2, items = [(''c1:'' @ nonce1, ()), (''c1:'' @ nonce2, ())] \<rparr>)"
    using example_nonces(3) by (simp add: accept_def touch_key_eq cache_key_def)
  moreover have "example_connection = example_connection\<lparr> replay_cache := new_replay_cache 2 \<rparr>"
    by (simp add: example_connection_def)
  ultimately show ?thesis
    using example_receive [OF example_nonces(1), of "new_replay_cache 2" _ None]
      example_receive [OF example_nonces(2), of _ _ "Some ''i1''"] by simp
qed

theorem no_replay_within_capacity_witness:
  "nonce_of example_ipc_env (example_envelope nonce1) \<noteq> nonce_of example_ipc_env (example_envelope nonce2)"
  using no_replay_within_capacity [OF example_session, of 0 1 "example_envelope nonce1" "example_envelope nonce2"]
  by (simp add: example_connection_def new_replay_cache_def)

theorem accepted_message_is_authorized_witness:
  "well_formed_envelope example_ipc_env ''boot'' SYSTEM_ENGINE (example_envelope nonce1) \<and>
   permitted_action ''boot'' SYSTEM_ENGINE (example_envelope nonce1)"
proof -
  have "run_session [] example_connection = ([], example_connection\<lparr> replay_cache := new_replay_cache 2 \<rparr>)"
    by (simp add: example_connection_def)
  moreover have "accept ''c1'' nonce1 (new_replay_cache 2) = (True, snd (accept ''c1'' nonce1 (new_replay_cache 2)))"
    by (simp add: accept_def new_replay_cache_def)
  ultimately show ?thesis
    using accepted_message_is_authorized [OF example_connection_new _ example_receive [OF example_nonces(1), of _ _ None]]
    by fastforce
qed

theorem authorize_action_exact_witness:
  "permitted_action ''boot'' SYSTEM_ENGINE (example_envelope nonce1)"
  using authorize_action_exact [of "example_envelope nonce1" "''boot''" SYSTEM_ENGINE] example_authorized
  by simp

section \<open>Bounds of payload values\<close>

text \<open>The specification: the values a document contains, each with its depth, and the limits of
  one value by itself.\<close>

fun values_at :: "nat \<Rightarrow> json \<Rightarrow> (nat \<times> json) list" where
  "values_at n (JList xs) = (n, JList xs) # concat (map (values_at (n + 1)) xs)"
| "values_at n (JObj d) = (n, JObj d) # concat (map (\<lambda>(k, v). values_at (n + 1) v) d)"
| "values_at n v = [(n, v)]"

definition within_limits :: "json \<Rightarrow> bool" where
  "within_limits v = (case v of
     JStr s \<Rightarrow> length s \<le> 4096
   | JList xs \<Rightarrow> length xs \<le> 256
   | JObj d \<Rightarrow> length d \<le> 64 \<and> list_all (\<lambda>(k, _). length k \<le> 128) d
   | JNonFinite _ \<Rightarrow> False
   | _ \<Rightarrow> True)"

lemma validate_list_iff:
  "validate_list n xs = Inr () \<longleftrightarrow> list_all (\<lambda>x. validate_value n x = Inr ()) xs"
  by (induction xs) (auto simp: py_bind_Inr_iff)

lemma validate_dict_iff:
  "validate_dict n d = Inr () \<longleftrightarrow>
   list_all (\<lambda>(k, x). length k \<le> 128 \<and> validate_value n x = Inr ()) d"
  by (induction d) (auto simp: py_bind_Inr_iff split: if_splits)

text \<open>
  C40. A payload is accepted exactly when every value in it, at any depth, is nested at most six levels
  deep and within the limits of its own type; otherwise the message is refused.
\<close>

theorem validate_value_exact:
  "validate_value n v = Inr () \<longleftrightarrow> list_all (\<lambda>(m, w). m \<le> 6 \<and> within_limits w) (values_at n v)"
proof (induction n v rule: values_at.induct)
  case (1 n xs)
  then have "list_all (\<lambda>x. validate_value (n + 1) x = Inr ()) xs \<longleftrightarrow>
      list_all (\<lambda>x. list_all (\<lambda>(m, w). m \<le> 6 \<and> within_limits w) (values_at (n + 1) x)) xs"
    by (auto simp: list_all_iff)
  then show ?case
    by (auto simp: validate_value.simps validate_list_iff within_limits_def list_all_iff)
next
  case (2 n d)
  then have "(k, x) \<in> set d \<Longrightarrow> validate_value (n + 1) x = Inr () \<longleftrightarrow>
      list_all (\<lambda>(m, w). m \<le> 6 \<and> within_limits w) (values_at (n + 1) x)" for k x
    by auto
  then have "list_all (\<lambda>(k, x). length k \<le> 128 \<and> validate_value (n + 1) x = Inr ()) d \<longleftrightarrow>
      list_all (\<lambda>(k, x). length k \<le> 128) d \<and>
      list_all (\<lambda>(k, x). list_all (\<lambda>(m, w). m \<le> 6 \<and> within_limits w) (values_at (n + 1) x)) d"
    by (fastforce simp: list_all_iff)
  then show ?case
    by (auto simp: validate_value.simps validate_dict_iff within_limits_def list_all_iff)
qed (auto simp: validate_value.simps within_limits_def MAX_STRING_def)

section \<open>Normalized paths\<close>

lemma split_slash_parts: "p \<in> set (split_slash s) \<Longrightarrow> CHR ''/'' \<notin> set p"
proof (induction s arbitrary: p)
  case (Cons c s)
  have "split_slash s \<noteq> []" by (cases s) auto
  with Cons show ?case by (cases "split_slash s") (auto split: if_splits)
qed simp

lemma split_slash_append:
  "CHR ''/'' \<notin> set p \<Longrightarrow> split_slash (p @ ''/'' @ s) = p # split_slash s"
  by (induction p) auto

lemma split_slash_single: "CHR ''/'' \<notin> set p \<Longrightarrow> split_slash p = [p]"
  by (induction p) auto

lemma split_slash_join:
  "ps \<noteq> [] \<Longrightarrow> \<forall>p \<in> set ps. CHR ''/'' \<notin> set p \<Longrightarrow> split_slash (str_join ''/'' ps) = ps"
proof (induction ps rule: induct_list012)
  case (3 p q ps)
  then show ?case using split_slash_append [of p "str_join ''/'' (q # ps)"] by simp
qed (simp_all add: split_slash_single)

text \<open>
  A normalized path is safe to join to a directory: it is relative, none of its components is
  \<open>..\<close>, and normalizing it again changes nothing.
\<close>

theorem normalized_path_is_safe:
  assumes "normalize_relative_path value = Inr path"
  shows "path \<noteq> '''' \<and> hd path \<noteq> CHR ''/'' \<and> ''..'' \<notin> set (split_slash path) \<and>
    normalize_relative_path path = Inr path"
proof -
  let ?ps = "path_parts value"
  from assms have dots: "''..'' \<notin> set ?ps"
    and path: "path = (if ?ps = [] then ''.'' else str_join ''/'' ?ps)"
    by (auto simp: normalize_relative_path_def split: if_splits)
  show ?thesis
  proof (cases "?ps = []")
    case True
    with path show ?thesis by (simp add: normalize_relative_path_def path_parts_def startswith_def)
  next
    case False
    have slash: "\<forall>p \<in> set ?ps. CHR ''/'' \<notin> set p"
      by (auto simp: path_parts_def dest: split_slash_parts)
    have split: "split_slash path = ?ps" using split_slash_join [OF False slash] path False by simp
    have parts: "path_parts path = ?ps" unfolding path_parts_def split by (simp add: path_parts_def)
    obtain p ps where ps: "?ps = p # ps" using False by (cases ?ps) auto
    have "p \<noteq> ''''" using ps by (auto simp: path_parts_def filter_eq_Cons_iff)
    moreover have "CHR ''/'' \<notin> set p" using slash ps by simp
    ultimately have "path \<noteq> ''''" "hd path \<noteq> CHR ''/''"
      using path ps by (cases ps; cases p; auto)+
    then have "\<not> startswith path ''/''" by (cases path) (auto simp: startswith_def)
    with parts dots split path False \<open>path \<noteq> ''''\<close> \<open>hd path \<noteq> CHR ''/''\<close> show ?thesis
      by (simp add: normalize_relative_path_def)
  qed
qed

theorem normalized_path_is_safe_witness:
  "normalize_relative_path ''a//./b'' = Inr ''a/b'' \<and> normalize_relative_path ''a/b'' = Inr ''a/b'' \<and>
   ''..'' \<notin> set (split_slash ''a/b'')"
proof -
  have "normalize_relative_path ''a//./b'' = Inr ''a/b''"
    by (simp add: normalize_relative_path_def path_parts_def startswith_def)
  with normalized_path_is_safe [OF this] show ?thesis by blast
qed

end
