(* ===== verification/Health_Models.thy ===== *)
theory Health_Models
  imports Json_Values
begin

text \<open>
  The contracts of the sensor-health package (\<open>health/models.py\<close>), its per-sensor policies
  (\<open>health/policies.py\<close>) and the sensor registry (\<open>health/registry.py\<close>). Constructors that
  several enums share carry a prefix (\<open>CR_\<close>, \<open>CV_\<close>, \<open>DP_\<close>, \<open>PM_\<close>, \<open>CB_\<close>, \<open>RC_\<close>,
  \<open>RL_\<close>, \<open>PF_\<close>). The \<open>metadata\<close> of a snapshot is a JSON object.
\<close>

section \<open>Enumerations\<close>

datatype SensorState = UNKNOWN | INITIALIZING | HEALTHY | HEALTHY_IDLE | HEALTHY_WITH_WARNINGS
  | DEGRADED | IMPAIRED | RECOVERING | STABILIZING | STALE | FAILED | DISABLED | UNAVAILABLE
  | UNSUPPORTED | PERMISSION_BLOCKED | CONFIGURATION_ERROR | DEPENDENCY_FAILED | RATE_LIMITED
  | BACKPRESSURED | HIGH_LOAD | MAINTENANCE

datatype PlatformState = PF_HEALTHY | PF_HEALTHY_WITH_WARNINGS | PF_DEGRADED
  | PF_SEVERELY_DEGRADED | PF_FAILED | PF_MAINTENANCE | PF_UNKNOWN

datatype Criticality = CR_CRITICAL | CR_HIGH | CR_MEDIUM | CR_LOW | CR_INFORMATIONAL

datatype CoverageLevel = CV_FULL | CV_PARTIAL | CV_LIMITED | CV_NONE | CV_UNKNOWN

datatype DependencyState = DP_HEALTHY | DP_DEGRADED | DP_FAILED | DP_UNAVAILABLE | DP_UNKNOWN
  | DP_NOT_APPLICABLE

datatype PermissionState = PM_GRANTED | PM_DENIED | PM_REVOKED | PM_UNKNOWN | PM_UNSUPPORTED
  | PM_PENDING | PM_USER_ACTION_REQUIRED

datatype CircuitState = CB_CLOSED | CB_OPEN | CB_HALF_OPEN

datatype ReasonCode = RC_NONE | RC_INITIALIZING | RC_PROCESS_NOT_RUNNING | RC_HEARTBEAT_STALE
  | RC_EVENT_STREAM_STALE | RC_NO_EVENTS_EXPECTED | RC_TELEMETRY_SOURCE_UNAVAILABLE
  | RC_QUEUE_BACKPRESSURE | RC_QUEUE_OVERFLOW | RC_EVENT_LOSS | RC_PROCESSING_STALL
  | RC_DELIVERY_STALL | RC_PERSISTENCE_STALL | RC_DATABASE_UNAVAILABLE | RC_DATABASE_LATENCY
  | RC_IPC_DISCONNECTED | RC_HELPER_UNAVAILABLE | RC_PERMISSION_REVOKED | RC_PERMISSION_REQUIRED
  | RC_ENTITLEMENT_MISSING | RC_SIGNATURE_INVALID | RC_RULE_LOAD_FAILURE | RC_CONFIG_INVALID
  | RC_CONFIG_UNEXPECTED_CHANGE | RC_CONFIG_ROLLBACK_DETECTED | RC_RESOURCE_EXHAUSTION
  | RC_MEMORY_PRESSURE | RC_MEMORY_GROWTH | RC_DESCRIPTOR_PRESSURE | RC_DISK_PRESSURE
  | RC_SELF_TEST_FAILED | RC_SELF_TEST_TIMEOUT | RC_DEPENDENCY_FAILURE | RC_DEPENDENCY_TIMEOUT
  | RC_RESTART_LOOP | RC_DUPLICATE_INSTANCE | RC_PROCESSING_EVENT_FAILURE
  | RC_HEALTH_PROVIDER_TIMEOUT | RC_HEALTH_PROVIDER_INVALID | RC_FALLBACK_MODE_ACTIVE
  | RC_RECOVERY_IN_PROGRESS | RC_RECOVERY_VALIDATION_FAILED | RC_MAINTENANCE_ACTIVE
  | RC_CLOCK_DISCONTINUITY | RC_UNKNOWN_DEGRADATION

datatype RecoveryLevel = RL_OBSERVE | RL_RETRY | RL_RECONNECT | RL_REINITIALIZE
  | RL_RESTART_WORKER | RL_RESTART_SENSOR | RL_REQUEST_WATCHDOG | RL_OPERATOR_REQUIRED

fun sensor_state_value :: "SensorState \<Rightarrow> string" where
  "sensor_state_value UNKNOWN = ''UNKNOWN''"
| "sensor_state_value INITIALIZING = ''INITIALIZING''"
| "sensor_state_value HEALTHY = ''HEALTHY''"
| "sensor_state_value HEALTHY_IDLE = ''HEALTHY_IDLE''"
| "sensor_state_value HEALTHY_WITH_WARNINGS = ''HEALTHY_WITH_WARNINGS''"
| "sensor_state_value DEGRADED = ''DEGRADED''"
| "sensor_state_value IMPAIRED = ''IMPAIRED''"
| "sensor_state_value RECOVERING = ''RECOVERING''"
| "sensor_state_value STABILIZING = ''STABILIZING''"
| "sensor_state_value STALE = ''STALE''"
| "sensor_state_value FAILED = ''FAILED''"
| "sensor_state_value DISABLED = ''DISABLED''"
| "sensor_state_value UNAVAILABLE = ''UNAVAILABLE''"
| "sensor_state_value UNSUPPORTED = ''UNSUPPORTED''"
| "sensor_state_value PERMISSION_BLOCKED = ''PERMISSION_BLOCKED''"
| "sensor_state_value CONFIGURATION_ERROR = ''CONFIGURATION_ERROR''"
| "sensor_state_value DEPENDENCY_FAILED = ''DEPENDENCY_FAILED''"
| "sensor_state_value RATE_LIMITED = ''RATE_LIMITED''"
| "sensor_state_value BACKPRESSURED = ''BACKPRESSURED''"
| "sensor_state_value HIGH_LOAD = ''HIGH_LOAD''"
| "sensor_state_value MAINTENANCE = ''MAINTENANCE''"

fun criticality_value :: "Criticality \<Rightarrow> string" where
  "criticality_value CR_CRITICAL = ''CRITICAL''"
| "criticality_value CR_HIGH = ''HIGH''"
| "criticality_value CR_MEDIUM = ''MEDIUM''"
| "criticality_value CR_LOW = ''LOW''"
| "criticality_value CR_INFORMATIONAL = ''INFORMATIONAL''"

fun reason_code_value :: "ReasonCode \<Rightarrow> string" where
  "reason_code_value RC_NONE = ''NONE''"
| "reason_code_value RC_INITIALIZING = ''INITIALIZING''"
| "reason_code_value RC_PROCESS_NOT_RUNNING = ''PROCESS_NOT_RUNNING''"
| "reason_code_value RC_HEARTBEAT_STALE = ''HEARTBEAT_STALE''"
| "reason_code_value RC_EVENT_STREAM_STALE = ''EVENT_STREAM_STALE''"
| "reason_code_value RC_NO_EVENTS_EXPECTED = ''NO_EVENTS_EXPECTED''"
| "reason_code_value RC_TELEMETRY_SOURCE_UNAVAILABLE = ''TELEMETRY_SOURCE_UNAVAILABLE''"
| "reason_code_value RC_QUEUE_BACKPRESSURE = ''QUEUE_BACKPRESSURE''"
| "reason_code_value RC_QUEUE_OVERFLOW = ''QUEUE_OVERFLOW''"
| "reason_code_value RC_EVENT_LOSS = ''EVENT_LOSS''"
| "reason_code_value RC_PROCESSING_STALL = ''PROCESSING_STALL''"
| "reason_code_value RC_DELIVERY_STALL = ''DELIVERY_STALL''"
| "reason_code_value RC_PERSISTENCE_STALL = ''PERSISTENCE_STALL''"
| "reason_code_value RC_DATABASE_UNAVAILABLE = ''DATABASE_UNAVAILABLE''"
| "reason_code_value RC_DATABASE_LATENCY = ''DATABASE_LATENCY''"
| "reason_code_value RC_IPC_DISCONNECTED = ''IPC_DISCONNECTED''"
| "reason_code_value RC_HELPER_UNAVAILABLE = ''HELPER_UNAVAILABLE''"
| "reason_code_value RC_PERMISSION_REVOKED = ''PERMISSION_REVOKED''"
| "reason_code_value RC_PERMISSION_REQUIRED = ''PERMISSION_REQUIRED''"
| "reason_code_value RC_ENTITLEMENT_MISSING = ''ENTITLEMENT_MISSING''"
| "reason_code_value RC_SIGNATURE_INVALID = ''SIGNATURE_INVALID''"
| "reason_code_value RC_RULE_LOAD_FAILURE = ''RULE_LOAD_FAILURE''"
| "reason_code_value RC_CONFIG_INVALID = ''CONFIG_INVALID''"
| "reason_code_value RC_CONFIG_UNEXPECTED_CHANGE = ''CONFIG_UNEXPECTED_CHANGE''"
| "reason_code_value RC_CONFIG_ROLLBACK_DETECTED = ''CONFIG_ROLLBACK_DETECTED''"
| "reason_code_value RC_RESOURCE_EXHAUSTION = ''RESOURCE_EXHAUSTION''"
| "reason_code_value RC_MEMORY_PRESSURE = ''MEMORY_PRESSURE''"
| "reason_code_value RC_MEMORY_GROWTH = ''MEMORY_GROWTH''"
| "reason_code_value RC_DESCRIPTOR_PRESSURE = ''DESCRIPTOR_PRESSURE''"
| "reason_code_value RC_DISK_PRESSURE = ''DISK_PRESSURE''"
| "reason_code_value RC_SELF_TEST_FAILED = ''SELF_TEST_FAILED''"
| "reason_code_value RC_SELF_TEST_TIMEOUT = ''SELF_TEST_TIMEOUT''"
| "reason_code_value RC_DEPENDENCY_FAILURE = ''DEPENDENCY_FAILURE''"
| "reason_code_value RC_DEPENDENCY_TIMEOUT = ''DEPENDENCY_TIMEOUT''"
| "reason_code_value RC_RESTART_LOOP = ''RESTART_LOOP''"
| "reason_code_value RC_DUPLICATE_INSTANCE = ''DUPLICATE_INSTANCE''"
| "reason_code_value RC_PROCESSING_EVENT_FAILURE = ''PROCESSING_EVENT_FAILURE''"
| "reason_code_value RC_HEALTH_PROVIDER_TIMEOUT = ''HEALTH_PROVIDER_TIMEOUT''"
| "reason_code_value RC_HEALTH_PROVIDER_INVALID = ''HEALTH_PROVIDER_INVALID''"
| "reason_code_value RC_FALLBACK_MODE_ACTIVE = ''FALLBACK_MODE_ACTIVE''"
| "reason_code_value RC_RECOVERY_IN_PROGRESS = ''RECOVERY_IN_PROGRESS''"
| "reason_code_value RC_RECOVERY_VALIDATION_FAILED = ''RECOVERY_VALIDATION_FAILED''"
| "reason_code_value RC_MAINTENANCE_ACTIVE = ''MAINTENANCE_ACTIVE''"
| "reason_code_value RC_CLOCK_DISCONTINUITY = ''CLOCK_DISCONTINUITY''"
| "reason_code_value RC_UNKNOWN_DEGRADATION = ''UNKNOWN_DEGRADATION''"

fun criticality_weight :: "Criticality \<Rightarrow> int" where
  "criticality_weight CR_CRITICAL = 5"
| "criticality_weight CR_HIGH = 4"
| "criticality_weight CR_MEDIUM = 3"
| "criticality_weight CR_LOW = 2"
| "criticality_weight CR_INFORMATIONAL = 1"

section \<open>Records\<close>

record SensorDependency =
  dependency_id :: string
  required :: bool
  sd_state :: DependencyState
  sd_reason :: string
  sd_latency_ms :: "pyfloat option"
  sd_last_checked :: "datetime option"
  affected_capabilities :: "string list"

record CapabilityHealth =
  capability_id :: string
  coverage :: CoverageLevel
  ch_reason :: string
  fallback :: string
  ch_confidence :: string

record RuleHealth =
  ru_expected :: int
  ru_loaded :: int
  ru_failed :: int
  ru_disabled :: int
  ru_expired :: int
  ru_invalid :: int
  ru_version :: string
  ru_ruleset_hash :: string
  ru_last_reload :: "datetime option"

record ResourceMetrics =
  cpu_percent :: "pyfloat option"
  rss_bytes :: "int option"
  rss_growth_bytes :: "int option"
  thread_count :: "int option"
  open_descriptors :: "int option"
  descriptor_limit :: "int option"
  free_disk_bytes :: "int option"
  free_disk_percent :: "pyfloat option"
  database_latency_ms :: "pyfloat option"
  ipc_latency_ms :: "pyfloat option"

record SelfTestResult =
  st_passed :: bool
  st_test_id :: string
  st_reason :: string
  st_latency_ms :: "pyfloat option"
  st_canary_id :: string
  st_stages :: "string list"
  st_completed_at :: datetime

record RecoveryReason =
  rr_reason_code :: ReasonCode
  rr_detail :: string
  rr_requested_level :: RecoveryLevel

record RecoveryResult =
  rs_attempted :: bool
  rs_succeeded :: bool
  rs_action :: RecoveryLevel
  rs_detail :: string
  rs_requires_operator :: bool
  rs_verification_required :: bool

record SensorDescriptor =
  ds_sensor_id :: string
  ds_display_name :: string
  ds_criticality :: Criticality
  ds_expected :: bool
  ds_enabled :: bool
  ds_singleton :: bool
  ds_capabilities :: "string list"
  ds_dependencies :: "string list"
  ds_failure_domain :: string

record SensorHealthSnapshot =
  sensor_id :: string
  sensor_version :: string
  instance_uuid :: string
  pid :: "int option"
  process_alive :: bool
  initialized :: bool
  state :: SensorState
  health_score :: int
  reason_code :: ReasonCode
  reason :: string
  process_health :: SensorState
  collection_health :: SensorState
  processing_health :: SensorState
  delivery_health :: SensorState
  storage_health :: SensorState
  dependency_health :: SensorState
  permission_health :: SensorState
  configuration_health :: SensorState
  rule_health :: SensorState
  last_process_heartbeat :: "datetime option"
  last_collection_activity :: "datetime option"
  last_processing_activity :: "datetime option"
  last_delivery_activity :: "datetime option"
  last_persistence_activity :: "datetime option"
  events_received_total :: int
  events_processed_total :: int
  events_delivered_total :: int
  events_persisted_total :: int
  events_ignored_total :: int
  events_filtered_total :: int
  events_dropped_total :: int
  events_failed_total :: int
  events_duplicate_total :: int
  events_rejected_total :: int
  processing_latency_ms :: "pyfloat option"
  queue_depth :: int
  queue_capacity :: int
  oldest_event_age_seconds :: "pyfloat option"
  ingestion_rate :: "pyfloat option"
  processing_rate :: "pyfloat option"
  drop_rate :: "pyfloat option"
  peak_queue_depth :: int
  average_queue_depth :: pyfloat
  backpressure_duration_seconds :: pyfloat
  error_count :: int
  consecutive_error_count :: int
  restart_count :: int
  worker_sequence :: int
  permission_state :: PermissionState
  configuration_hash :: string
  expected_configuration_hash :: string
  dependencies :: "SensorDependency list"
  capabilities :: "CapabilityHealth list"
  rules :: RuleHealth
  resources :: ResourceMetrics
  last_self_test :: "SelfTestResult option"
  fallback_mode :: string
  lost_capabilities :: "string list"
  retained_capabilities :: "string list"
  operator_action_required :: bool
  remediation :: string
  sampled_at :: datetime
  monotonic_sample :: pyfloat
  metadata :: json_object

record HealthTransition =
  ht_event_type :: string
  ht_sensor_id :: string
  ht_timestamp :: datetime
  ht_previous_state :: SensorState
  ht_current_state :: SensorState
  ht_reason_code :: ReasonCode
  ht_reason :: string
  ht_severity :: string
  ht_affected_capabilities :: "string list"
  ht_metrics :: json_object
  ht_automatic_recovery_attempted :: bool
  ht_root_cause_dependency :: string

record root_cause =
  rc_dependency :: string
  rc_affected_sensors :: "string list"
  rc_affected_count :: nat

record PlatformHealthReport =
  overall_health :: PlatformState
  generated_at :: datetime
  report_sensors :: "SensorHealthSnapshot list"
  report_coverage :: "CapabilityHealth list"
  required_healthy :: nat
  required_total :: nat
  degraded_count :: nat
  failed_count :: nat
  active_recoveries :: nat
  root_causes :: "root_cause list"
  manager_health :: json_object

definition empty_rules :: RuleHealth where
  "empty_rules = \<lparr> ru_expected = 0, ru_loaded = 0, ru_failed = 0, ru_disabled = 0, ru_expired = 0,
     ru_invalid = 0, ru_version = '''', ru_ruleset_hash = '''', ru_last_reload = None \<rparr>"

definition empty_resources :: ResourceMetrics where
  "empty_resources = \<lparr> cpu_percent = None, rss_bytes = None, rss_growth_bytes = None,
     thread_count = None, open_descriptors = None, descriptor_limit = None, free_disk_bytes = None,
     free_disk_percent = None, database_latency_ms = None, ipc_latency_ms = None \<rparr>"

text \<open>\<open>SensorHealthSnapshot(sensor_id)\<close> with every default; \<open>sampled_at\<close> defaults to the clock.\<close>

definition new_snapshot :: "string \<Rightarrow> datetime \<Rightarrow> SensorHealthSnapshot" where
  "new_snapshot sid now = \<lparr> sensor_id = sid, sensor_version = ''unknown'', instance_uuid = '''',
     pid = None, process_alive = False, initialized = False, state = UNKNOWN, health_score = 0,
     reason_code = RC_NONE, reason = ''Insufficient functional-health evidence.'',
     process_health = UNKNOWN, collection_health = UNKNOWN, processing_health = UNKNOWN,
     delivery_health = UNKNOWN, storage_health = UNKNOWN, dependency_health = UNKNOWN,
     permission_health = UNKNOWN, configuration_health = UNKNOWN, rule_health = UNKNOWN,
     last_process_heartbeat = None, last_collection_activity = None,
     last_processing_activity = None, last_delivery_activity = None,
     last_persistence_activity = None, events_received_total = 0, events_processed_total = 0,
     events_delivered_total = 0, events_persisted_total = 0, events_ignored_total = 0,
     events_filtered_total = 0, events_dropped_total = 0, events_failed_total = 0,
     events_duplicate_total = 0, events_rejected_total = 0, processing_latency_ms = None,
     queue_depth = 0, queue_capacity = 0, oldest_event_age_seconds = None, ingestion_rate = None,
     processing_rate = None, drop_rate = None, peak_queue_depth = 0, average_queue_depth = 0,
     backpressure_duration_seconds = 0, error_count = 0, consecutive_error_count = 0,
     restart_count = 0, worker_sequence = 0, permission_state = PM_UNKNOWN,
     configuration_hash = '''', expected_configuration_hash = '''', dependencies = [],
     capabilities = [], rules = empty_rules, resources = empty_resources, last_self_test = None,
     fallback_mode = '''', lost_capabilities = [], retained_capabilities = [],
     operator_action_required = False, remediation = '''', sampled_at = now, monotonic_sample = 0,
     metadata = [] \<rparr>"

definition queue_utilization :: "SensorHealthSnapshot \<Rightarrow> pyfloat" where
  "queue_utilization s = (if queue_capacity s \<le> 0 then 0
     else min 1 (max 0 (of_int (queue_depth s) / of_int (queue_capacity s))))"

section \<open>Policies\<close>

record SensorHealthPolicy =
  heartbeat_timeout :: pyfloat
  event_stale_timeout :: pyfloat
  maximum_expected_idle_time :: pyfloat
  processing_stall_timeout :: pyfloat
  delivery_stall_timeout :: pyfloat
  persistence_stall_timeout :: pyfloat
  elevated_queue_utilization :: pyfloat
  degraded_queue_utilization :: pyfloat
  critical_queue_utilization :: pyfloat
  backpressure_sustain_seconds :: pyfloat
  max_drop_rate :: pyfloat
  max_processing_latency_ms :: pyfloat
  max_database_latency_ms :: pyfloat
  min_free_disk_bytes :: int
  min_free_disk_percent :: pyfloat
  descriptor_observe_ratio :: pyfloat
  descriptor_degraded_ratio :: pyfloat
  descriptor_critical_ratio :: pyfloat
  consecutive_failures_required :: int
  consecutive_successes_required :: int
  restart_budget_count :: int
  restart_budget_window_seconds :: int
  stabilization_seconds :: int
  provider_timeout_seconds :: pyfloat
  self_test_timeout_seconds :: pyfloat
  lightweight_self_test_interval :: int
  extended_self_test_interval :: int
  availability_degradation_budget_seconds :: int

definition DEFAULT_POLICY :: SensorHealthPolicy where
  "DEFAULT_POLICY = \<lparr>
     heartbeat_timeout = 180, event_stale_timeout = 300, maximum_expected_idle_time = 900,
     processing_stall_timeout = 120, delivery_stall_timeout = 180,
     persistence_stall_timeout = 180, elevated_queue_utilization = 1 / 2,
     degraded_queue_utilization = 3 / 4, critical_queue_utilization = 9 / 10,
     backpressure_sustain_seconds = 30, max_drop_rate = 1 / 100,
     max_processing_latency_ms = 2000, max_database_latency_ms = 750,
     min_free_disk_bytes = 1073741824, min_free_disk_percent = 5,
     descriptor_observe_ratio = 7 / 10, descriptor_degraded_ratio = 17 / 20,
     descriptor_critical_ratio = 19 / 20, consecutive_failures_required = 3,
     consecutive_successes_required = 5, restart_budget_count = 3,
     restart_budget_window_seconds = 300, stabilization_seconds = 30,
     provider_timeout_seconds = 5, self_test_timeout_seconds = 10,
     lightweight_self_test_interval = 900, extended_self_test_interval = 86400,
     availability_degradation_budget_seconds = 900 \<rparr>"

definition policy_post_init :: "SensorHealthPolicy \<Rightarrow> SensorHealthPolicy py" where
  "policy_post_init p =
     (case find (\<lambda>(n, v). v \<le> 0)
        [(''heartbeat_timeout'', heartbeat_timeout p), (''event_stale_timeout'', event_stale_timeout p),
         (''maximum_expected_idle_time'', maximum_expected_idle_time p),
         (''processing_stall_timeout'', processing_stall_timeout p),
         (''delivery_stall_timeout'', delivery_stall_timeout p),
         (''persistence_stall_timeout'', persistence_stall_timeout p),
         (''backpressure_sustain_seconds'', backpressure_sustain_seconds p),
         (''max_processing_latency_ms'', max_processing_latency_ms p),
         (''max_database_latency_ms'', max_database_latency_ms p),
         (''provider_timeout_seconds'', provider_timeout_seconds p),
         (''self_test_timeout_seconds'', self_test_timeout_seconds p)] of
        Some (n, v) \<Rightarrow> Inl (ValueError (n @ '' must be positive''))
      | None \<Rightarrow>
          if \<not> (0 < elevated_queue_utilization p \<and>
                elevated_queue_utilization p < degraded_queue_utilization p \<and>
                degraded_queue_utilization p < critical_queue_utilization p \<and>
                critical_queue_utilization p \<le> 1) then
            Inl (ValueError ''queue thresholds must be ordered fractions in (0, 1]'')
          else if \<not> (0 < descriptor_observe_ratio p \<and>
                descriptor_observe_ratio p < descriptor_degraded_ratio p \<and>
                descriptor_degraded_ratio p < descriptor_critical_ratio p \<and>
                descriptor_critical_ratio p \<le> 1) then
            Inl (ValueError ''descriptor thresholds must be ordered fractions in (0, 1]'')
          else if \<not> (0 \<le> max_drop_rate p \<and> max_drop_rate p \<le> 1) then
            Inl (ValueError ''max_drop_rate must be a fraction'')
          else if min (consecutive_failures_required p)
                (min (consecutive_successes_required p) (restart_budget_count p)) < 1 then
            Inl (ValueError ''hysteresis and restart-budget counts must be positive'')
          else Inr p)"

definition SENSOR_POLICY_OVERRIDES :: "(string, SensorHealthPolicy) odict" where
  "SENSOR_POLICY_OVERRIDES =
     [(''endpoint_security'', DEFAULT_POLICY\<lparr>heartbeat_timeout := 90, event_stale_timeout := 180,
         maximum_expected_idle_time := 300, max_drop_rate := 0\<rparr>),
      (''ransomware_monitor'', DEFAULT_POLICY\<lparr>heartbeat_timeout := 90, event_stale_timeout := 180,
         maximum_expected_idle_time := 300, max_drop_rate := 0\<rparr>),
      (''system_monitor'', DEFAULT_POLICY\<lparr>heartbeat_timeout := 180, maximum_expected_idle_time := 900\<rparr>),
      (''behavioral_telemetry'', DEFAULT_POLICY\<lparr>heartbeat_timeout := 600, event_stale_timeout := 900,
         maximum_expected_idle_time := 3600\<rparr>),
      (''malware_definitions'', DEFAULT_POLICY\<lparr>heartbeat_timeout := 3600, event_stale_timeout := 86400,
         maximum_expected_idle_time := 86400\<rparr>),
      (''user_notifier'', DEFAULT_POLICY\<lparr>heartbeat_timeout := 180, event_stale_timeout := 3600,
         maximum_expected_idle_time := 3600\<rparr>),
      (''sensor_health_manager'', DEFAULT_POLICY\<lparr>heartbeat_timeout := 180, event_stale_timeout := 300\<rparr>)]"

definition policy_for :: "string \<Rightarrow> SensorHealthPolicy" where
  "policy_for sid = od_get SENSOR_POLICY_OVERRIDES sid DEFAULT_POLICY"

section \<open>The registry\<close>

text \<open>\<open>^[a-z][a-z0-9_]{1,63}$\<close>.\<close>

definition valid_sensor_id :: "string \<Rightarrow> bool" where
  "valid_sensor_id s \<longleftrightarrow>
     (let lower = (\<lambda>c. CHR ''a'' \<le> c \<and> c \<le> CHR ''z'') in
      2 \<le> length s \<and> length s \<le> 64 \<and> lower (hd s) \<and>
      list_all (\<lambda>c. lower c \<or> (CHR ''0'' \<le> c \<and> c \<le> CHR ''9'') \<or> c = CHR ''_'') s)"

text \<open>\<open>repr\<close> of a string without quotes, backslashes and control characters.\<close>

definition repr_str :: "string \<Rightarrow> string" where
  "repr_str s = [CHR 0x27] @ s @ [CHR 0x27]"

record 'p SensorRegistry =
  registry_descriptors :: "(string, SensorDescriptor) odict"
  registry_providers :: "(string, 'p) odict"

definition new_registry :: "SensorDescriptor list \<Rightarrow> 'p SensorRegistry" where
  "new_registry ds = \<lparr> registry_descriptors = fold (\<lambda>d m. AList.update (ds_sensor_id d) d m) ds [],
     registry_providers = [] \<rparr>"

definition registry_register :: "string \<Rightarrow> 'p \<Rightarrow> 'p SensorRegistry \<Rightarrow> 'p SensorRegistry py" where
  "registry_register sid p r =
     (if \<not> valid_sensor_id sid then Inl (ValueError (''invalid sensor identifier: '' @ repr_str sid))
      else if sid \<notin> set (od_keys (registry_descriptors r)) then
        Inl (ValueError (''sensor '' @ repr_str sid @ '' is not declared in the expected manifest''))
      else if sid \<in> set (od_keys (registry_providers r)) then
        Inl (ValueError (''duplicate sensor provider: '' @ sid))
      else Inr (r\<lparr>registry_providers := registry_providers r @ [(sid, p)]\<rparr>))"

definition registry_descriptor :: "string \<Rightarrow> 'p SensorRegistry \<Rightarrow> SensorDescriptor py" where
  "registry_descriptor sid r = (case map_of (registry_descriptors r) sid of
     None \<Rightarrow> Inl (KeyError sid) | Some d \<Rightarrow> Inr d)"

definition registry_provider :: "string \<Rightarrow> 'p SensorRegistry \<Rightarrow> 'p option" where
  "registry_provider sid r = map_of (registry_providers r) sid"

definition missing_expected :: "'p SensorRegistry \<Rightarrow> SensorDescriptor list" where
  "missing_expected r = filter (\<lambda>d. ds_expected d \<and> ds_enabled d \<and>
     ds_sensor_id d \<notin> set (od_keys (registry_providers r))) (od_values (registry_descriptors r))"

lemma register_wf:
  "od_wf (registry_providers r) \<Longrightarrow> registry_register sid p r = Inr r' \<Longrightarrow>
   od_wf (registry_providers r') \<and> registry_provider sid r' = Some p"
proof -
  assume wf: "od_wf (registry_providers r)" and reg: "registry_register sid p r = Inr r'"
  then have "sid \<notin> set (od_keys (registry_providers r))"
    and r': "registry_providers r' = registry_providers r @ [(sid, p)]"
    by (auto simp: registry_register_def split: if_splits)
  then show ?thesis
    using wf by (simp add: registry_provider_def map_add_def map_of_eq_None_iff [symmetric])
qed

end
