(* ===== verification/Health_Evaluator.thy ===== *)
theory Health_Evaluator
  imports Health_Models
begin

text \<open>
  The evaluator of \<open>health/evaluator.py\<close>: staleness, the list of issues, the choice of the dominant
  one, the score, hysteresis, capability coverage and the platform report. The clock is an
  argument.
\<close>

section \<open>State tables\<close>

definition FAILURE_STATES :: "SensorState list" where
  "FAILURE_STATES = [FAILED, UNAVAILABLE, PERMISSION_BLOCKED, CONFIGURATION_ERROR, DEPENDENCY_FAILED]"

definition DEGRADED_STATES :: "SensorState list" where
  "DEGRADED_STATES = [DEGRADED, IMPAIRED, STALE, BACKPRESSURED, RATE_LIMITED]"

definition IMMEDIATE_REASON_CODES :: "ReasonCode list" where
  "IMMEDIATE_REASON_CODES = [RC_PROCESS_NOT_RUNNING, RC_PERMISSION_REVOKED, RC_ENTITLEMENT_MISSING,
     RC_SIGNATURE_INVALID, RC_QUEUE_OVERFLOW, RC_DATABASE_UNAVAILABLE, RC_RESTART_LOOP,
     RC_DUPLICATE_INSTANCE]"

text \<open>\<open>_age\<close>: a naive instant is read as UTC.\<close>

definition age :: "datetime option \<Rightarrow> int \<Rightarrow> pyfloat option" where
  "age v now = map_option (\<lambda>t. max 0 (total_seconds (now - utc_micros t))) v"

fun state_rank :: "SensorState \<Rightarrow> int" where
  "state_rank UNKNOWN = 20"
| "state_rank INITIALIZING = 25"
| "state_rank HEALTHY = 100"
| "state_rank HEALTHY_IDLE = 98"
| "state_rank HEALTHY_WITH_WARNINGS = 85"
| "state_rank HIGH_LOAD = 82"
| "state_rank DEGRADED = 65"
| "state_rank BACKPRESSURED = 55"
| "state_rank STALE = 50"
| "state_rank IMPAIRED = 40"
| "state_rank RECOVERING = 45"
| "state_rank STABILIZING = 75"
| "state_rank PERMISSION_BLOCKED = 20"
| "state_rank CONFIGURATION_ERROR = 20"
| "state_rank DEPENDENCY_FAILED = 20"
| "state_rank RATE_LIMITED = 35"
| "state_rank FAILED = 0"
| "state_rank UNAVAILABLE = 0"
| "state_rank DISABLED = 0"
| "state_rank UNSUPPORTED = 0"
| "state_rank MAINTENANCE = 70"

section \<open>Issues\<close>

datatype dimension = DProcess | DCollection | DProcessing | DDelivery | DStorage | DDependency
  | DPermission | DConfiguration | DRule

record issue =
  i_priority :: int
  i_state :: SensorState
  i_code :: ReasonCode
  i_message :: string
  i_field :: "dimension option"

definition issue_if ::
  "bool \<Rightarrow> int \<Rightarrow> SensorState \<Rightarrow> ReasonCode \<Rightarrow> string \<Rightarrow> dimension option \<Rightarrow> issue list" where
  "issue_if b p st c m f = (if b then [\<lparr> i_priority = p, i_state = st, i_code = c, i_message = m,
     i_field = f \<rparr>] else [])"

definition older_than :: "pyfloat option \<Rightarrow> pyfloat \<Rightarrow> bool" where
  "older_than a limit = (case a of None \<Rightarrow> True | Some x \<Rightarrow> limit < x)"

text \<open>\<open>metadata.get("duplicate_instances", 0) > 1\<close>, which raises for a value that is no number.\<close>

fun greater_one :: "json \<Rightarrow> bool py" where
  "greater_one (JInt i) = Inr (1 < i)"
| "greater_one (JBool b) = Inr False"
| "greater_one (JFloat x) = Inr (1 < x)"
| "greater_one (JNonFinite x) = Inr (x = PosInf)"
| "greater_one _ = Inl (TypeError ''not supported between these types'')"

definition process_issues ::
  "SensorHealthPolicy \<Rightarrow> int \<Rightarrow> SensorHealthSnapshot \<Rightarrow> issue list" where
  "process_issues p now s =
     (if \<not> process_alive s then
        issue_if True 100 FAILED RC_PROCESS_NOT_RUNNING
          ''Sensor process is not running; functional coverage is unavailable.'' (Some DProcess)
      else issue_if (\<not> initialized s) 55 INITIALIZING RC_INITIALIZING
          ''Sensor process is alive but initialization and readiness are not complete.'' (Some DProcess)) @
     issue_if (process_alive s \<and> older_than (age (last_process_heartbeat s) now) (heartbeat_timeout p))
       90 STALE RC_HEARTBEAT_STALE
       ''Execution-loop heartbeat is stale even though the process is present.'' (Some DProcess)"

definition permission_issues :: "SensorHealthSnapshot \<Rightarrow> issue list" where
  "permission_issues s =
     issue_if (permission_state s \<in> {PM_DENIED, PM_REVOKED, PM_USER_ACTION_REQUIRED}) 98
       PERMISSION_BLOCKED
       (if permission_state s = PM_REVOKED then RC_PERMISSION_REVOKED else RC_PERMISSION_REQUIRED)
       ''A required macOS permission is not granted; affected coverage cannot be restored automatically.''
       (Some DPermission)"

definition failed_dependencies :: "SensorHealthSnapshot \<Rightarrow> SensorDependency list" where
  "failed_dependencies s = filter (\<lambda>d. required d \<and> sd_state d \<in> {DP_FAILED, DP_UNAVAILABLE}) (dependencies s)"

definition degraded_dependencies :: "SensorHealthSnapshot \<Rightarrow> SensorDependency list" where
  "degraded_dependencies s = filter (\<lambda>d. required d \<and> sd_state d \<in> {DP_DEGRADED, DP_UNKNOWN}) (dependencies s)"

definition dependency_issues :: "SensorHealthSnapshot \<Rightarrow> issue list" where
  "dependency_issues s =
     (if failed_dependencies s \<noteq> [] then
        issue_if True 95 DEPENDENCY_FAILED RC_DEPENDENCY_FAILURE
          (''Required dependency unavailable: '' @
             str_join '', '' (map dependency_id (failed_dependencies s)) @ ''.'') (Some DDependency)
      else issue_if (degraded_dependencies s \<noteq> []) 60 DEGRADED RC_DEPENDENCY_FAILURE
          (''Dependency health is incomplete or degraded: '' @
             str_join '', '' (map dependency_id (degraded_dependencies s)) @ ''.'') (Some DDependency))"

definition configuration_issues :: "SensorHealthSnapshot \<Rightarrow> issue list" where
  "configuration_issues s =
     (if expected_configuration_hash s = '''' then []
      else if configuration_hash s = '''' then
        issue_if True 92 CONFIGURATION_ERROR RC_CONFIG_INVALID
          ''Effective runtime configuration hash is unavailable.'' (Some DConfiguration)
      else issue_if (configuration_hash s \<noteq> expected_configuration_hash s) 92 CONFIGURATION_ERROR
          RC_CONFIG_UNEXPECTED_CHANGE
          ''Effective runtime configuration differs from the expected signed configuration.''
          (Some DConfiguration))"

definition rules_incomplete :: "RuleHealth \<Rightarrow> bool" where
  "rules_incomplete r \<longleftrightarrow> ru_failed r \<noteq> 0 \<or> ru_invalid r \<noteq> 0 \<or>
     (ru_expected r \<noteq> 0 \<and> ru_loaded r < ru_expected r - ru_disabled r)"

definition rule_issues :: "SensorHealthSnapshot \<Rightarrow> issue list" where
  "rule_issues s = (let r = rules s in
     issue_if (rules_incomplete r) 78 DEGRADED RC_RULE_LOAD_FAILURE
       (''Ruleset coverage is incomplete ('' @ str_int (ru_loaded r) @ ''/'' @ str_int (ru_expected r) @
        '' loaded, '' @ str_int (ru_failed r + ru_invalid r) @ '' failed or invalid).'') (Some DRule))"

definition progress_issues ::
  "SensorHealthPolicy \<Rightarrow> int \<Rightarrow> SensorHealthSnapshot \<Rightarrow> issue list" where
  "progress_issues p now s =
     (let required_by = (\<lambda>k. truthy (od_get (metadata s) k (JBool True)));
          collection_age = age (last_collection_activity s) now;
          delivery_age = age (last_delivery_activity s) now;
          processing_age = age (last_processing_activity s) now;
          persistence_age = age (last_persistence_activity s) now;
          probe_passed = (case last_self_test s of None \<Rightarrow> False | Some t \<Rightarrow> st_passed t)
      in issue_if (0 < queue_depth s \<and> older_than processing_age (processing_stall_timeout p)) 88
           IMPAIRED RC_PROCESSING_STALL
           ''Pending events exist but the processing progress heartbeat is stale.'' (Some DProcessing) @
         issue_if (required_by ''delivery_required'' \<and>
             events_delivered_total s < events_processed_total s \<and>
             older_than delivery_age (delivery_stall_timeout p)) 82 IMPAIRED RC_DELIVERY_STALL
           ''Processed telemetry is not progressing to downstream consumers.'' (Some DDelivery) @
         issue_if (required_by ''persistence_required'' \<and>
             events_persisted_total s < events_processed_total s \<and>
             older_than persistence_age (persistence_stall_timeout p)) 84 IMPAIRED RC_PERSISTENCE_STALL
           ''Processed telemetry is not being persisted within the required window.'' (Some DStorage) @
         (if older_than collection_age (maximum_expected_idle_time p) then
            (if probe_passed then
               issue_if True 10 HEALTHY_IDLE RC_NO_EVENTS_EXPECTED
                 ''No external events were expected; the latest synthetic pipeline probe passed.''
                 (Some DCollection)
             else issue_if (initialized s) 75 STALE RC_EVENT_STREAM_STALE
                 ''No expected telemetry or successful synthetic pipeline proof is recent enough.''
                 (Some DCollection))
          else []))"

definition queue_issues :: "SensorHealthPolicy \<Rightarrow> SensorHealthSnapshot \<Rightarrow> issue list" where
  "queue_issues p s =
     (let u = queue_utilization s in
      if critical_queue_utilization p \<le> u then
        issue_if True 94 IMPAIRED
          (if events_dropped_total s \<noteq> 0 then RC_QUEUE_OVERFLOW else RC_QUEUE_BACKPRESSURE)
          (''Queue utilization is critical at '' @ fmt_0pct u @ ''.'') (Some DProcessing)
      else if degraded_queue_utilization p \<le> u \<and>
          backpressure_sustain_seconds p \<le> backpressure_duration_seconds s then
        issue_if True 80 BACKPRESSURED RC_QUEUE_BACKPRESSURE
          (''Queue utilization has remained at '' @ fmt_0pct u @ '' for '' @
             fmt_0f (backpressure_duration_seconds s) @ '' seconds.'') (Some DProcessing)
      else issue_if (elevated_queue_utilization p \<le> u) 35 HEALTHY_WITH_WARNINGS RC_QUEUE_BACKPRESSURE
          (''Queue utilization is elevated at '' @ fmt_0pct u @ ''; no sustained loss is proven.'')
          (Some DProcessing))"

definition calculated_drop_rate :: "SensorHealthSnapshot \<Rightarrow> pyfloat option" where
  "calculated_drop_rate s = (case drop_rate s of Some d \<Rightarrow> Some d
     | None \<Rightarrow> if events_received_total s \<noteq> 0
         then Some (of_int (events_dropped_total s) / of_int (events_received_total s)) else None)"

definition loss_issues :: "SensorHealthPolicy \<Rightarrow> SensorHealthSnapshot \<Rightarrow> issue list" where
  "loss_issues p s =
     (case calculated_drop_rate s of None \<Rightarrow> []
      | Some d \<Rightarrow> issue_if (events_dropped_total s \<noteq> 0 \<and> max_drop_rate p < d) 86 DEGRADED RC_EVENT_LOSS
          (''Unintended event loss is '' @ fmt_2pct d @
             ''; intentional filtering is accounted separately.'') (Some DCollection)) @
     (case processing_latency_ms s of None \<Rightarrow> []
      | Some l \<Rightarrow> issue_if (max_processing_latency_ms p < l) 68 DEGRADED RC_PROCESSING_STALL
          (''Processing latency is '' @ fmt_0f l @ '' ms, above the sensor policy SLO.'')
          (Some DProcessing))"

definition resource_issues :: "SensorHealthPolicy \<Rightarrow> SensorHealthSnapshot \<Rightarrow> issue list" where
  "resource_issues p s =
     (let r = resources s
      in issue_if (case database_latency_ms r of None \<Rightarrow> False | Some l \<Rightarrow> max_database_latency_ms p < l)
           65 DEGRADED RC_DATABASE_LATENCY
           ''Evidence database latency is above the configured operational SLO.'' (Some DStorage) @
         issue_if ((case free_disk_bytes r of None \<Rightarrow> False | Some b \<Rightarrow> b < min_free_disk_bytes p) \<or>
             (case free_disk_percent r of None \<Rightarrow> False | Some f \<Rightarrow> f < min_free_disk_percent p))
           87 DEGRADED RC_DISK_PRESSURE
           ''Available disk capacity is below the configured evidence reserve.'' (Some DStorage) @
         (case (descriptor_limit r, open_descriptors r) of
            (Some cap, Some n) \<Rightarrow>
              if cap = 0 then [] else
              (let ratio = of_int n / of_int cap in
               if descriptor_critical_ratio p \<le> ratio then
                 issue_if True 88 IMPAIRED RC_DESCRIPTOR_PRESSURE
                   (''File descriptor utilization is critical at '' @ fmt_0pct ratio @ ''.'') None
               else issue_if (descriptor_degraded_ratio p \<le> ratio) 66 DEGRADED RC_DESCRIPTOR_PRESSURE
                   (''File descriptor utilization is elevated at '' @ fmt_0pct ratio @ ''.'') None)
          | _ \<Rightarrow> []) @
         issue_if (case rss_growth_bytes r of None \<Rightarrow> False | Some g \<Rightarrow> 256 * 1024 * 1024 < g) 55 DEGRADED
           RC_MEMORY_GROWTH
           ''Sustained RSS growth requires investigation; a fixed memory threshold alone was not used.''
           None)"

definition lifecycle_issues ::
  "SensorHealthPolicy \<Rightarrow> bool \<Rightarrow> SensorHealthSnapshot \<Rightarrow> issue list" where
  "lifecycle_issues p duplicated s =
     issue_if (restart_budget_count p < restart_count s) 99 FAILED RC_RESTART_LOOP
       ''Restart budget is exhausted; automatic restarts must stop and evidence must be retained.'' None @
     issue_if duplicated 97 IMPAIRED RC_DUPLICATE_INSTANCE
       ''Multiple singleton sensor instances were observed; automatic termination was not attempted.''
       None @
     (case last_self_test s of None \<Rightarrow> []
      | Some t \<Rightarrow> issue_if (\<not> st_passed t) 83 DEGRADED RC_SELF_TEST_FAILED
          (''Functional self-test failed: '' @ st_reason t) None) @
     issue_if (fallback_mode s \<noteq> '''') 72 DEGRADED RC_FALLBACK_MODE_ACTIVE
       (''Fallback mode is active: '' @ fallback_mode s @ ''. Equivalent primary coverage is not claimed.'')
       None"

definition all_issues ::
  "SensorHealthPolicy \<Rightarrow> int \<Rightarrow> bool \<Rightarrow> SensorHealthSnapshot \<Rightarrow> issue list" where
  "all_issues p now duplicated s =
     process_issues p now s @ permission_issues s @ dependency_issues s @ configuration_issues s @
     rule_issues s @ progress_issues p now s @ queue_issues p s @ loss_issues p s @
     resource_issues p s @ lifecycle_issues p duplicated s"

definition evidence_present :: "SensorHealthSnapshot \<Rightarrow> bool" where
  "evidence_present s \<longleftrightarrow> last_process_heartbeat s \<noteq> None \<and> initialized s \<and>
     (last_collection_activity s \<noteq> None \<or> last_self_test s \<noteq> None \<or> events_received_total s \<noteq> 0)"

definition default_issue :: "SensorHealthSnapshot \<Rightarrow> issue" where
  "default_issue s = (if evidence_present s
     then \<lparr> i_priority = 0, i_state = HEALTHY, i_code = RC_NONE, i_message =
       ''Sensor is initialized and its functional telemetry path is within policy.'', i_field = None \<rparr>
     else \<lparr> i_priority = 45, i_state = UNKNOWN, i_code = RC_UNKNOWN_DEGRADATION, i_message =
       ''Functional telemetry evidence is incomplete; healthy status is withheld.'', i_field = None \<rparr>)"

definition reasons_of :: "SensorHealthPolicy \<Rightarrow> int \<Rightarrow> bool \<Rightarrow> SensorHealthSnapshot \<Rightarrow> issue list" where
  "reasons_of p now duplicated s = (let is = all_issues p now duplicated s in
     if is = [] then [default_issue s] else is)"

text \<open>\<open>max(reasons, key=...)\<close> gives the first issue of the greatest priority.\<close>

fun dominant :: "issue \<Rightarrow> issue list \<Rightarrow> issue" where
  "dominant best [] = best"
| "dominant best (i # is) = dominant (if i_priority best < i_priority i then i else best) is"

section \<open>Dimensions and score\<close>

definition activity_state :: "pyfloat option \<Rightarrow> pyfloat \<Rightarrow> SensorState" where
  "activity_state a limit = (case a of None \<Rightarrow> UNKNOWN | Some x \<Rightarrow> if x \<le> limit then HEALTHY else STALE)"

definition base_dimensions ::
  "SensorHealthPolicy \<Rightarrow> int \<Rightarrow> SensorHealthSnapshot \<Rightarrow> dimension \<Rightarrow> SensorState" where
  "base_dimensions p now s d = (case d of
     DProcess \<Rightarrow> if process_alive s then HEALTHY else FAILED
   | DCollection \<Rightarrow> activity_state (age (last_collection_activity s) now) (event_stale_timeout p)
   | DProcessing \<Rightarrow> activity_state (age (last_processing_activity s) now) (processing_stall_timeout p)
   | DDelivery \<Rightarrow> activity_state (age (last_delivery_activity s) now) (delivery_stall_timeout p)
   | DStorage \<Rightarrow> activity_state (age (last_persistence_activity s) now) (persistence_stall_timeout p)
   | DDependency \<Rightarrow> HEALTHY
   | DPermission \<Rightarrow> if permission_state s = PM_GRANTED then HEALTHY else UNKNOWN
   | DConfiguration \<Rightarrow> if expected_configuration_hash s \<noteq> ''''
       then (if configuration_hash s \<noteq> '''' \<and> configuration_hash s = expected_configuration_hash s
             then HEALTHY else UNKNOWN)
       else if configuration_hash s \<noteq> '''' then HEALTHY_WITH_WARNINGS else UNKNOWN
   | DRule \<Rightarrow> if \<not> rules_incomplete (rules s) \<and> ru_expected (rules s) \<noteq> 0 then HEALTHY else UNKNOWN)"

definition mark_dimension :: "issue \<Rightarrow> (dimension \<Rightarrow> SensorState) \<Rightarrow> dimension \<Rightarrow> SensorState" where
  "mark_dimension i ds = (case i_field i of None \<Rightarrow> ds | Some d \<Rightarrow> ds(d := i_state i))"

fun penalty :: "SensorState \<Rightarrow> int" where
  "penalty HEALTHY_WITH_WARNINGS = 8"
| "penalty HIGH_LOAD = 12"
| "penalty DEGRADED = 25"
| "penalty BACKPRESSURED = 35"
| "penalty STALE = 40"
| "penalty IMPAIRED = 55"
| "penalty PERMISSION_BLOCKED = 70"
| "penalty CONFIGURATION_ERROR = 70"
| "penalty DEPENDENCY_FAILED = 70"
| "penalty FAILED = 100"
| "penalty UNAVAILABLE = 100"
| "penalty UNKNOWN = 60"
| "penalty INITIALIZING = 50"
| "penalty HEALTHY_IDLE = 0"
| "penalty _ = 0"

definition health_score_of :: "SensorHealthSnapshot \<Rightarrow> issue list \<Rightarrow> int" where
  "health_score_of s is =
     (let sc = 100 - sum_list (map penalty (remdups (map i_state is)));
          sc = (if events_dropped_total s \<noteq> 0 then sc - min 20 (events_dropped_total s) else sc)
      in max 0 (min 100 sc))"

definition snapshot_validated :: "SensorHealthSnapshot \<Rightarrow> SensorHealthSnapshot py" where
  "snapshot_validated s =
     (if sensor_id s = '''' \<or> 64 < length (sensor_id s) then
        Inl (ValueError ''sensor_id is missing or too long'')
      else if list_ex (\<lambda>v. v < 0) [events_received_total s, events_processed_total s,
          events_delivered_total s, events_persisted_total s, events_dropped_total s,
          events_failed_total s, queue_depth s, queue_capacity s, restart_count s] then
        Inl (ValueError ''sensor counters and queue metrics cannot be negative'')
      else if queue_capacity s \<noteq> 0 \<and> queue_capacity s * 100 < queue_depth s then
        Inl (ValueError ''queue depth exceeds the bounded health payload range'')
      else if 128 < length (metadata s) then
        Inl (ValueError ''sensor health metadata exceeds the bounded field count'')
      else Inr s)"

section \<open>Evaluation\<close>

definition conclude ::
  "SensorHealthPolicy \<Rightarrow> int \<Rightarrow> bool \<Rightarrow> SensorHealthSnapshot \<Rightarrow> SensorHealthSnapshot" where
  "conclude p now duplicated s =
     (let is = reasons_of p now duplicated s;
          top = dominant (hd is) (tl is);
          st = i_state top;
          sc = min (state_rank st) (health_score_of s is);
          ds = fold mark_dimension is (base_dimensions p now s);
          dim = (\<lambda>d. if ds d = UNKNOWN \<and> st \<in> {HEALTHY, HEALTHY_IDLE} then HEALTHY else ds d)
      in s\<lparr> state := st, health_score := sc, reason_code := i_code top, reason := i_message top,
            sampled_at := Aware now, process_health := dim DProcess, collection_health := dim DCollection,
            processing_health := dim DProcessing, delivery_health := dim DDelivery,
            storage_health := dim DStorage, dependency_health := dim DDependency,
            permission_health := dim DPermission, configuration_health := dim DConfiguration,
            rule_health := dim DRule \<rparr>)"

definition evaluate ::
  "SensorHealthSnapshot \<Rightarrow> SensorHealthPolicy \<Rightarrow> int \<Rightarrow> SensorHealthSnapshot py" where
  "evaluate raw p now =
     py_bind (snapshot_validated raw) (\<lambda>s.
     py_bind (greater_one (od_get (metadata s) ''duplicate_instances'' (JInt 0))) (\<lambda>duplicated.
     Inr (conclude p now duplicated s)))"

section \<open>Hysteresis\<close>

record HysteresisTracker =
  candidate :: "(string, SensorState) odict"
  seen_count :: "(string, int) odict"

definition new_tracker :: HysteresisTracker where
  "new_tracker = \<lparr> candidate = [], seen_count = [] \<rparr>"

definition hysteresis_apply ::
  "SensorHealthSnapshot \<Rightarrow> SensorHealthSnapshot option \<Rightarrow> SensorHealthPolicy \<Rightarrow> HysteresisTracker \<Rightarrow>
   SensorHealthSnapshot \<times> HysteresisTracker" where
  "hysteresis_apply s previous p t =
     (let sid = sensor_id s; desired = state s in
      case previous of
        None \<Rightarrow> (s, t\<lparr>candidate := AList.update sid desired (candidate t),
                       seen_count := AList.update sid 1 (seen_count t)\<rparr>)
      | Some prev \<Rightarrow>
          if reason_code s \<in> set IMMEDIATE_REASON_CODES then
            (s, t\<lparr>candidate := AList.update sid desired (candidate t),
                  seen_count := AList.update sid 1 (seen_count t)\<rparr>)
          else
            (let n = (if map_of (candidate t) sid = Some desired then od_get (seen_count t) sid 0 + 1 else 1);
                 t' = t\<lparr>candidate := AList.update sid desired (candidate t),
                        seen_count := AList.update sid n (seen_count t)\<rparr>;
                 needed = (if desired \<in> {HEALTHY, HEALTHY_IDLE} then consecutive_successes_required p
                           else consecutive_failures_required p);
                 held = (if state prev \<in> {RECOVERING, STABILIZING} \<and> desired \<in> {HEALTHY, HEALTHY_IDLE}
                         then STABILIZING else state prev)
             in if desired \<noteq> state prev \<and> n < needed
                then (s\<lparr>state := held, health_score := min (health_score s) (health_score prev),
                        reason := ''Pending sustained validation ('' @ str_int n @ ''/'' @ str_int needed
                          @ ''): '' @ reason s\<rparr>, t')
                else (s, t')))"

section \<open>Coverage\<close>

fun coverage_rank :: "CoverageLevel \<Rightarrow> nat" where
  "coverage_rank CV_NONE = 0"
| "coverage_rank CV_UNKNOWN = 1"
| "coverage_rank CV_LIMITED = 2"
| "coverage_rank CV_PARTIAL = 3"
| "coverage_rank CV_FULL = 4"

definition maximum_coverage :: "SensorState \<Rightarrow> CoverageLevel" where
  "maximum_coverage st =
     (if st \<in> set FAILURE_STATES then CV_NONE
      else if st \<in> set DEGRADED_STATES \<or> st \<in> {HIGH_LOAD, RECOVERING, STABILIZING} then CV_PARTIAL
      else if st = MAINTENANCE then CV_UNKNOWN
      else CV_FULL)"

definition capability_coverage ::
  "SensorDescriptor \<Rightarrow> SensorHealthSnapshot \<Rightarrow> CapabilityHealth list" where
  "capability_coverage d s =
     (let declared = (if capabilities s = [] then
            map (\<lambda>c. \<lparr> capability_id = c, coverage = CV_UNKNOWN, ch_reason = reason s,
                       fallback = fallback_mode s, ch_confidence = ''unknown'' \<rparr>) (ds_capabilities d)
          else capabilities s);
          limit = maximum_coverage (state s)
      in map (\<lambda>c. let eff = (if coverage_rank (coverage c) \<le> coverage_rank limit then coverage c else limit)
            in c\<lparr>coverage := eff, ch_reason := (if eff \<noteq> coverage c
                 then ''Effective coverage is capped by '' @ sensor_state_value (state s) @ '': '' @ reason s
                 else ch_reason c)\<rparr>) declared)"

section \<open>The platform report\<close>

type_synonym sensor_pair = "SensorDescriptor \<times> SensorHealthSnapshot"

definition required_pairs :: "sensor_pair list \<Rightarrow> sensor_pair list" where
  "required_pairs pairs = filter (\<lambda>(d, s). ds_expected d \<and> ds_enabled d) pairs"

definition overall_state :: "sensor_pair list \<Rightarrow> PlatformState" where
  "overall_state req =
     (let critical = (\<lambda>d. ds_criticality d = CR_CRITICAL);
          failed_critical = list_ex (\<lambda>(d, s). critical d \<and> state s \<in> set FAILURE_STATES) req;
          degraded_critical = list_ex (\<lambda>(d, s). critical d \<and> state s \<in> set DEGRADED_STATES) req;
          failed_any = list_ex (\<lambda>(d, s). state s \<in> set FAILURE_STATES) req;
          degraded_any = list_ex (\<lambda>(d, s). state s \<in> set DEGRADED_STATES) req;
          unknown_any = list_ex (\<lambda>(d, s). state s \<in> {UNKNOWN, INITIALIZING}) req;
          maintenance = (req \<noteq> [] \<and> list_all (\<lambda>(d, s). state s = MAINTENANCE) req);
          warnings = list_ex (\<lambda>(d, s). state s = HEALTHY_WITH_WARNINGS) req
      in if maintenance then PF_MAINTENANCE
         else if failed_critical then PF_FAILED
         else if degraded_critical \<or> (failed_any \<and> 1 < length req) then PF_SEVERELY_DEGRADED
         else if failed_any \<or> degraded_any then PF_DEGRADED
         else if unknown_any \<or> warnings
           then (if \<not> unknown_any then PF_HEALTHY_WITH_WARNINGS else PF_UNKNOWN)
         else PF_HEALTHY)"

definition keep_worst ::
  "CapabilityHealth \<Rightarrow> (string, CapabilityHealth) odict \<Rightarrow> (string, CapabilityHealth) odict" where
  "keep_worst c m = (case map_of m (capability_id c) of
     None \<Rightarrow> AList.update (capability_id c) c m
   | Some prior \<Rightarrow> if coverage_rank (coverage c) < coverage_rank (coverage prior)
       then AList.update (capability_id c) c m else m)"

definition coverage_by_id :: "sensor_pair list \<Rightarrow> (string, CapabilityHealth) odict" where
  "coverage_by_id pairs = fold keep_worst (concat (map (\<lambda>(d, s). capability_coverage d s) pairs)) []"

definition add_root :: "SensorDescriptor \<Rightarrow> SensorDependency \<Rightarrow> (string, string list) odict \<Rightarrow>
  (string, string list) odict" where
  "add_root d dep m = (if required dep \<and> sd_state dep \<in> {DP_FAILED, DP_UNAVAILABLE}
     then AList.update (dependency_id dep) (od_get m (dependency_id dep) [] @ [ds_display_name d]) m else m)"

definition roots :: "sensor_pair list \<Rightarrow> (string, string list) odict" where
  "roots req = fold (\<lambda>(d, s). fold (add_root d) (dependencies s)) req []"

definition build_platform_report ::
  "sensor_pair list \<Rightarrow> json_object \<Rightarrow> datetime \<Rightarrow> PlatformHealthReport" where
  "build_platform_report pairs mh now =
     (let req = required_pairs pairs;
          states = map (state \<circ> snd) req
      in \<lparr> overall_health = overall_state req, generated_at = now, report_sensors = map snd pairs,
           report_coverage = sort_key capability_id (od_values (coverage_by_id pairs)),
           required_healthy = count_if (\<lambda>st. st \<in> {HEALTHY, HEALTHY_IDLE, HEALTHY_WITH_WARNINGS}) states,
           required_total = length req,
           degraded_count = count_if (\<lambda>st. st \<in> set DEGRADED_STATES) states,
           failed_count = count_if (\<lambda>st. st \<in> set FAILURE_STATES) states,
           active_recoveries = count_if (\<lambda>st. st \<in> {RECOVERING, STABILIZING}) states,
           root_causes = map (\<lambda>(dep, names). \<lparr> rc_dependency = dep, rc_affected_sensors = names,
             rc_affected_count = length names \<rparr>) (sort_key fst (roots req)),
           manager_health = mh \<rparr>)"

section \<open>Properties\<close>

subsection \<open>Evaluation\<close>

lemma dominant_max:
  "dominant b is \<in> set (b # is) \<and> (\<forall>i \<in> set (b # is). i_priority i \<le> i_priority (dominant b is))"
proof (induction "is" arbitrary: b)
  case (Cons i "is")
  from Cons [of "if i_priority b < i_priority i then i else b"] show ?case by (auto split: if_splits)
qed simp

lemma issue_if_iff [simp]: "issue_if b p st c m f = [] \<longleftrightarrow> \<not> b"
  by (simp add: issue_if_def)

lemma set_issue_if: "i \<in> set (issue_if b p st c m f) \<Longrightarrow>
    b \<and> i_priority i = p \<and> i_state i = st \<and> i_code i = c"
  by (auto simp: issue_if_def split: if_splits)

lemmas issue_defs = process_issues_def permission_issues_def dependency_issues_def
  configuration_issues_def rule_issues_def progress_issues_def queue_issues_def loss_issues_def
  resource_issues_def lifecycle_issues_def

text \<open>Every issue the evaluator raises has a priority between 10 and 100 and a state other than
  \<open>HEALTHY\<close> and \<open>UNKNOWN\<close>; only a process that is not running has priority 100.\<close>

definition issue_shape :: "SensorHealthSnapshot \<Rightarrow> issue \<Rightarrow> bool" where
  "issue_shape s i \<longleftrightarrow> 10 \<le> i_priority i \<and> i_priority i \<le> 100 \<and> i_state i \<notin> {HEALTHY, UNKNOWN} \<and>
     (i_priority i = 100 \<longrightarrow> \<not> process_alive s)"

lemma issue_if_shape:
  "10 \<le> p \<Longrightarrow> p < 100 \<Longrightarrow> st \<noteq> HEALTHY \<Longrightarrow> st \<noteq> UNKNOWN \<Longrightarrow>
   list_all (issue_shape s) (issue_if b p st c m f)"
  by (simp add: issue_if_def issue_shape_def)

lemma shape_if:
  "list_all P xs \<Longrightarrow> list_all P ys \<Longrightarrow> list_all P (if b then xs else ys)"
  by simp

lemma shape_option:
  "list_all P xs \<Longrightarrow> (\<And>y. list_all P (f y)) \<Longrightarrow> list_all P (case v of None \<Rightarrow> xs | Some y \<Rightarrow> f y)"
  by (simp split: option.split)

lemmas shape_intros = issue_if_shape shape_if shape_option list.pred_inject(1)

lemma process_shape: "list_all (issue_shape s) (process_issues p now s)"
  by (simp add: process_issues_def issue_if_def issue_shape_def)

lemma permission_shape: "list_all (issue_shape s) (permission_issues s)"
  unfolding permission_issues_def Let_def list_all_append prod.case by (intro conjI shape_intros; simp)

lemma dependency_shape: "list_all (issue_shape s) (dependency_issues s)"
  unfolding dependency_issues_def Let_def list_all_append prod.case by (intro conjI shape_intros; simp)

lemma configuration_shape: "list_all (issue_shape s) (configuration_issues s)"
  unfolding configuration_issues_def Let_def list_all_append prod.case by (intro conjI shape_intros; simp)

lemma rule_shape: "list_all (issue_shape s) (rule_issues s)"
  unfolding rule_issues_def Let_def list_all_append prod.case by (intro conjI shape_intros; simp)

lemma progress_shape: "list_all (issue_shape s) (progress_issues p now s)"
  unfolding progress_issues_def Let_def list_all_append prod.case by (intro conjI shape_intros; simp)

lemma queue_shape: "list_all (issue_shape s) (queue_issues p s)"
  unfolding queue_issues_def Let_def list_all_append prod.case by (intro conjI shape_intros; simp)

lemma loss_shape: "list_all (issue_shape s) (loss_issues p s)"
  unfolding loss_issues_def Let_def list_all_append prod.case by (intro conjI shape_intros; simp)

lemma resource_shape: "list_all (issue_shape s) (resource_issues p s)"
  unfolding resource_issues_def Let_def list_all_append prod.case by (intro conjI shape_intros; simp)

lemma lifecycle_shape: "list_all (issue_shape s) (lifecycle_issues p dup s)"
  unfolding lifecycle_issues_def Let_def list_all_append prod.case by (intro conjI shape_intros; simp)

lemmas issues_shape = process_shape permission_shape dependency_shape configuration_shape rule_shape
  progress_shape queue_shape loss_shape resource_shape lifecycle_shape

lemma all_issues_shape: "list_all (issue_shape s) (all_issues p now dup s)"
  by (simp add: all_issues_def issues_shape)

lemma all_issues_shapeD: "i \<in> set (all_issues p now dup s) \<Longrightarrow> issue_shape s i"
  using all_issues_shape [of s p now dup] by (simp add: list_all_iff)

lemma reasons_not_empty [simp]: "reasons_of p now dup s \<noteq> []"
  by (simp add: reasons_of_def Let_def)

definition top_issue :: "SensorHealthPolicy \<Rightarrow> int \<Rightarrow> bool \<Rightarrow> SensorHealthSnapshot \<Rightarrow> issue" where
  "top_issue p now dup s = dominant (hd (reasons_of p now dup s)) (tl (reasons_of p now dup s))"

lemma top_issue_max:
  "top_issue p now dup s \<in> set (reasons_of p now dup s)"
  "i \<in> set (reasons_of p now dup s) \<Longrightarrow> i_priority i \<le> i_priority (top_issue p now dup s)"
  using dominant_max [of "hd (reasons_of p now dup s)" "tl (reasons_of p now dup s)"]
  by (simp_all add: top_issue_def)

lemma conclude_fields [simp]:
  "state (conclude p now dup s) = i_state (top_issue p now dup s)"
  "reason_code (conclude p now dup s) = i_code (top_issue p now dup s)"
  "reason (conclude p now dup s) = i_message (top_issue p now dup s)"
  "health_score (conclude p now dup s) = min (state_rank (i_state (top_issue p now dup s)))
     (health_score_of s (reasons_of p now dup s))"
  "sensor_id (conclude p now dup s) = sensor_id s"
  "metadata (conclude p now dup s) = metadata s"
  "dependencies (conclude p now dup s) = dependencies s"
  "process_alive (conclude p now dup s) = process_alive s"
  "capabilities (conclude p now dup s) = capabilities s"
  by (simp_all add: conclude_def top_issue_def Let_def)

lemma snapshot_validated_same: "snapshot_validated raw = Inr s \<Longrightarrow> s = raw"
  unfolding snapshot_validated_def by (simp only: split: if_splits) simp_all

lemma evaluate_cases:
  assumes "evaluate raw p now = Inr s"
  obtains dup where "s = conclude p now dup raw"
    "greater_one (od_get (metadata raw) ''duplicate_instances'' (JInt 0)) = Inr dup"
    "snapshot_validated raw = Inr raw"
proof -
  from assms obtain r dup where r: "snapshot_validated raw = Inr r"
    and "greater_one (od_get (metadata r) ''duplicate_instances'' (JInt 0)) = Inr dup"
    and "s = conclude p now dup r"
    by (auto simp: evaluate_def py_bind_Inr_iff)
  with that snapshot_validated_same [OF r] show thesis by blast
qed

lemma no_issue_is_healthy:
  assumes "all_issues p now dup s = []"
  shows "top_issue p now dup s = default_issue s" "evidence_present s"
proof -
  show "top_issue p now dup s = default_issue s"
    using assms by (simp add: top_issue_def reasons_of_def)
  from assms have "process_issues p now s = []" "progress_issues p now s = []"
    by (simp_all add: all_issues_def)
  then show "evidence_present s"
    by (auto simp: process_issues_def progress_issues_def evidence_present_def Let_def age_def
        older_than_def split: if_splits option.splits)
qed

lemma top_issue_of_issues:
  assumes "all_issues p now dup s \<noteq> []"
  shows "issue_shape s (top_issue p now dup s)"
  using top_issue_max(1) [of p now dup s] assms
  by (auto simp: reasons_of_def intro: all_issues_shapeD)

lemma healthy_iff_no_issue:
  "i_state (top_issue p now dup s) = HEALTHY \<longleftrightarrow> all_issues p now dup s = []"
proof (cases "all_issues p now dup s = []")
  case True
  then show ?thesis by (simp add: no_issue_is_healthy default_issue_def)
next
  case False
  from top_issue_of_issues [OF this] False show ?thesis by (auto simp: issue_shape_def)
qed

text \<open>What the coordinator promises a \<open>HEALTHY\<close> sensor to be, stated without reference to
  issues and priorities.\<close>

definition fresh :: "datetime option \<Rightarrow> int \<Rightarrow> pyfloat \<Rightarrow> bool" where
  "fresh t now limit \<longleftrightarrow> (\<exists>v. t = Some v \<and> max 0 (total_seconds (now - utc_micros v)) \<le> limit)"

definition functionally_healthy ::
  "SensorHealthPolicy \<Rightarrow> int \<Rightarrow> bool \<Rightarrow> SensorHealthSnapshot \<Rightarrow> bool" where
  "functionally_healthy p now dup s \<longleftrightarrow>
     process_alive s \<and> initialized s \<and> fresh (last_process_heartbeat s) now (heartbeat_timeout p) \<and>
     fresh (last_collection_activity s) now (maximum_expected_idle_time p) \<and>
     (queue_depth s \<le> 0 \<or> fresh (last_processing_activity s) now (processing_stall_timeout p)) \<and>
     (\<not> truthy (od_get (metadata s) ''delivery_required'' (JBool True)) \<or>
       events_processed_total s \<le> events_delivered_total s \<or>
       fresh (last_delivery_activity s) now (delivery_stall_timeout p)) \<and>
     (\<not> truthy (od_get (metadata s) ''persistence_required'' (JBool True)) \<or>
       events_processed_total s \<le> events_persisted_total s \<or>
       fresh (last_persistence_activity s) now (persistence_stall_timeout p)) \<and>
     permission_state s \<notin> {PM_DENIED, PM_REVOKED, PM_USER_ACTION_REQUIRED} \<and>
     (\<forall>d \<in> set (dependencies s). required d \<longrightarrow>
        sd_state d \<notin> {DP_FAILED, DP_UNAVAILABLE, DP_DEGRADED, DP_UNKNOWN}) \<and>
     (expected_configuration_hash s = '''' \<or> configuration_hash s = expected_configuration_hash s) \<and>
     \<not> rules_incomplete (rules s) \<and>
     queue_utilization s < critical_queue_utilization p \<and>
     (queue_utilization s < degraded_queue_utilization p \<or>
       backpressure_duration_seconds s < backpressure_sustain_seconds p) \<and>
     queue_utilization s < elevated_queue_utilization p \<and>
     loss_issues p s = [] \<and> resource_issues p s = [] \<and>
     restart_count s \<le> restart_budget_count p \<and> \<not> dup \<and>
     (\<forall>t. last_self_test s = Some t \<longrightarrow> st_passed t) \<and> fallback_mode s = ''''"

lemma older_than_age: "older_than (age t now) limit \<longleftrightarrow> \<not> fresh t now limit"
  by (auto simp: older_than_def age_def fresh_def split: option.splits)

lemma process_clear: "process_issues p now s = [] \<longleftrightarrow>
    process_alive s \<and> initialized s \<and> fresh (last_process_heartbeat s) now (heartbeat_timeout p)"
  by (auto simp: process_issues_def older_than_age)

lemma dependency_clear: "dependency_issues s = [] \<longleftrightarrow> (\<forall>d \<in> set (dependencies s). required d \<longrightarrow>
    sd_state d \<notin> {DP_FAILED, DP_UNAVAILABLE, DP_DEGRADED, DP_UNKNOWN})"
  by (auto simp: dependency_issues_def failed_dependencies_def degraded_dependencies_def filter_empty_conv)

lemma configuration_clear: "configuration_issues s = [] \<longleftrightarrow>
    expected_configuration_hash s = '''' \<or> configuration_hash s = expected_configuration_hash s"
  by (auto simp: configuration_issues_def)

lemma queue_clear: "queue_issues p s = [] \<longleftrightarrow> queue_utilization s < critical_queue_utilization p \<and>
    (queue_utilization s < degraded_queue_utilization p \<or>
       backpressure_duration_seconds s < backpressure_sustain_seconds p) \<and>
    queue_utilization s < elevated_queue_utilization p"
  by (auto simp: queue_issues_def Let_def not_le)

lemma lifecycle_clear: "lifecycle_issues p dup s = [] \<longleftrightarrow>
    restart_count s \<le> restart_budget_count p \<and> \<not> dup \<and>
    (\<forall>t. last_self_test s = Some t \<longrightarrow> st_passed t) \<and> fallback_mode s = ''''"
  by (auto simp: lifecycle_issues_def not_less split: option.splits)

lemma progress_clear:
  assumes "initialized s"
  shows "progress_issues p now s = [] \<longleftrightarrow>
    fresh (last_collection_activity s) now (maximum_expected_idle_time p) \<and>
    (queue_depth s \<le> 0 \<or> fresh (last_processing_activity s) now (processing_stall_timeout p)) \<and>
    (\<not> truthy (od_get (metadata s) ''delivery_required'' (JBool True)) \<or>
       events_processed_total s \<le> events_delivered_total s \<or>
       fresh (last_delivery_activity s) now (delivery_stall_timeout p)) \<and>
    (\<not> truthy (od_get (metadata s) ''persistence_required'' (JBool True)) \<or>
       events_processed_total s \<le> events_persisted_total s \<or>
       fresh (last_persistence_activity s) now (persistence_stall_timeout p))"
  using assms by (auto simp: progress_issues_def Let_def older_than_age not_less)

lemma all_issues_clear: "all_issues p now dup s = [] \<longleftrightarrow> functionally_healthy p now dup s"
proof (cases "initialized s")
  case True
  then show ?thesis
    by (simp add: all_issues_def process_clear dependency_clear configuration_clear queue_clear
        lifecycle_clear progress_clear permission_issues_def rule_issues_def functionally_healthy_def Let_def)
      blast
next
  case False
  then show ?thesis by (simp add: all_issues_def process_clear functionally_healthy_def)
qed

lemma dead_process_top:
  assumes "\<not> process_alive s"
  shows "i_state (top_issue p now dup s) = FAILED \<and> i_code (top_issue p now dup s) = RC_PROCESS_NOT_RUNNING"
proof -
  have ne: "all_issues p now dup s \<noteq> []"
    using assms by (simp add: all_issues_clear functionally_healthy_def)
  let ?d = "\<lparr> i_priority = 100, i_state = FAILED, i_code = RC_PROCESS_NOT_RUNNING, i_message =
     ''Sensor process is not running; functional coverage is unavailable.'', i_field = Some DProcess \<rparr>"
  have hd: "reasons_of p now dup s = ?d # tl (reasons_of p now dup s)"
    using assms ne by (simp add: reasons_of_def Let_def all_issues_def process_issues_def issue_if_def)
  have "dominant ?d is = ?d" if "\<forall>i \<in> set is. i_priority i \<le> 100" for "is"
    using that by (induction "is") auto
  moreover have "\<forall>i \<in> set (tl (reasons_of p now dup s)). i_priority i \<le> 100"
    using ne all_issues_shapeD [of _ p now dup s] list.set_sel(2) [OF reasons_not_empty [of p now dup s]]
    by (auto simp: reasons_of_def issue_shape_def)
  ultimately have "top_issue p now dup s = ?d"
    using hd by (metis top_issue_def list.sel(1))
  then show ?thesis by simp
qed

lemma health_score_of_range: "0 \<le> health_score_of s is" "health_score_of s is \<le> 100"
  by (simp_all add: health_score_of_def Let_def)

lemma state_rank_range: "0 \<le> state_rank st"
  by (cases st) simp_all

lemma evaluated_healthy_iff:
  assumes "evaluate raw p now = Inr s"
  shows "(state s = HEALTHY \<longleftrightarrow> functionally_healthy p now
      (greater_one (od_get (metadata raw) ''duplicate_instances'' (JInt 0)) = Inr True) raw) \<and>
    state s \<noteq> UNKNOWN"
proof -
  obtain dup where s: "s = conclude p now dup raw"
    and d: "greater_one (od_get (metadata raw) ''duplicate_instances'' (JInt 0)) = Inr dup"
    by (rule evaluate_cases [OF assms])
  have "i_state (top_issue p now dup raw) \<noteq> UNKNOWN"
    using top_issue_of_issues [of p now dup raw] no_issue_is_healthy [of p now dup raw]
    by (cases "all_issues p now dup raw = []") (auto simp: issue_shape_def default_issue_def)
  then show ?thesis
    by (simp add: s d healthy_iff_no_issue all_issues_clear)
qed

text \<open>
  C13. The evaluator is sound and complete for functional health: a valid snapshot is concluded
  \<open>HEALTHY\<close> exactly when the process is alive and initialised, its heartbeat and collection are
  fresh, nothing pending is stalled, permission, dependencies, configuration and rules are in
  order, the queue is below its elevated mark, loss and resources are within policy, the restart
  budget is kept, the instance is the only one, no self test failed and no fallback is active. It
  never concludes \<open>UNKNOWN\<close>.
\<close>

theorem healthy_iff_functional_evidence:
  assumes "evaluate raw p now = Inr s"
  shows "(state s = HEALTHY \<longleftrightarrow> functionally_healthy p now
      (greater_one (od_get (metadata raw) ''duplicate_instances'' (JInt 0)) = Inr True) raw) \<and>
    state s \<noteq> UNKNOWN"
  using evaluated_healthy_iff [OF assms] .

definition live_snapshot :: SensorHealthSnapshot where
  "live_snapshot = (new_snapshot ''fs_sensor'' (Aware 0))\<lparr>process_alive := True, initialized := True,
     last_process_heartbeat := Some (Aware 0), last_collection_activity := Some (Aware 0)\<rparr>"

lemma live_snapshot_healthy:
  "functionally_healthy DEFAULT_POLICY 1000000 False live_snapshot"
  by (simp add: functionally_healthy_def live_snapshot_def new_snapshot_def fresh_def total_seconds_def
      DEFAULT_POLICY_def rules_incomplete_def empty_rules_def empty_resources_def queue_utilization_def
      loss_issues_def resource_issues_def calculated_drop_rate_def issue_if_def)

lemma live_snapshot_evaluates:
  "evaluate live_snapshot DEFAULT_POLICY 1000000 =
     Inr (conclude DEFAULT_POLICY 1000000 False live_snapshot)"
  by (simp add: evaluate_def snapshot_validated_def live_snapshot_def new_snapshot_def od_get_def)

theorem healthy_iff_functional_evidence_witness:
  "state (conclude DEFAULT_POLICY 1000000 False live_snapshot) = HEALTHY"
  using healthy_iff_functional_evidence [OF live_snapshot_evaluates] live_snapshot_healthy
  by (simp add: live_snapshot_def new_snapshot_def od_get_def)

text \<open>
  The conclusion explains itself: state, reason code and message are those of one raised
  issue, no raised issue has a higher priority, and the score lies between 0 and the rank of the
  state. A process that is not running dominates every other issue and scores 0.
\<close>

theorem evaluation_is_explained:
  assumes "evaluate raw p now = Inr s"
  shows "(\<exists>dup. \<exists>i \<in> set (reasons_of p now dup raw). state s = i_state i \<and> reason_code s = i_code i \<and>
      reason s = i_message i \<and> (\<forall>j \<in> set (reasons_of p now dup raw). i_priority j \<le> i_priority i)) \<and>
    0 \<le> health_score s \<and> health_score s \<le> state_rank (state s) \<and> health_score s \<le> 100 \<and>
    (\<not> process_alive raw \<longrightarrow> state s = FAILED \<and> reason_code s = RC_PROCESS_NOT_RUNNING \<and> health_score s = 0)"
proof -
  obtain dup where s: "s = conclude p now dup raw" by (rule evaluate_cases [OF assms])
  have "\<exists>i \<in> set (reasons_of p now dup raw). state s = i_state i \<and> reason_code s = i_code i \<and>
      reason s = i_message i \<and> (\<forall>j \<in> set (reasons_of p now dup raw). i_priority j \<le> i_priority i)"
    using top_issue_max(1) [of p now dup raw] top_issue_max(2) [of _ p now dup raw] by (auto simp: s)
  moreover have "0 \<le> health_score s" "health_score s \<le> state_rank (state s)" "health_score s \<le> 100"
    using health_score_of_range [of raw "reasons_of p now dup raw"] state_rank_range [of "state s"]
    by (simp_all add: s)
  moreover have "\<not> process_alive raw \<Longrightarrow> state s = FAILED \<and> reason_code s = RC_PROCESS_NOT_RUNNING"
    using dead_process_top [of raw p now dup] by (simp add: s)
  ultimately show ?thesis by fastforce
qed

theorem evaluation_is_explained_witness:
  "state (conclude DEFAULT_POLICY 0 False (new_snapshot ''fs_sensor'' (Aware 0))) = FAILED"
  using evaluation_is_explained [of "new_snapshot ''fs_sensor'' (Aware 0)" DEFAULT_POLICY 0
      "conclude DEFAULT_POLICY 0 False (new_snapshot ''fs_sensor'' (Aware 0))"]
  by (simp add: evaluate_def snapshot_validated_def new_snapshot_def od_get_def)

subsection \<open>Hysteresis\<close>

text \<open>Successive cycles: each applies the tracker with the previous result as prior snapshot.\<close>

fun hysteresis_run :: "SensorHealthPolicy \<Rightarrow> HysteresisTracker \<Rightarrow> SensorHealthSnapshot \<Rightarrow>
  SensorHealthSnapshot list \<Rightarrow> SensorHealthSnapshot list" where
  "hysteresis_run p t prev [] = []"
| "hysteresis_run p t prev (s # ss) = (case hysteresis_apply s (Some prev) p t of
     (r, t') \<Rightarrow> r # hysteresis_run p t' r ss)"

definition streak :: "HysteresisTracker \<Rightarrow> string \<Rightarrow> SensorState \<Rightarrow> int" where
  "streak t sid st = (if map_of (candidate t) sid = Some st then od_get (seen_count t) sid 0 else 0)"

definition needed_for :: "SensorHealthPolicy \<Rightarrow> SensorState \<Rightarrow> int" where
  "needed_for p st = (if st \<in> {HEALTHY, HEALTHY_IDLE} then consecutive_successes_required p
     else consecutive_failures_required p)"

lemma hysteresis_step:
  assumes "reason_code s \<notin> set IMMEDIATE_REASON_CODES" "hysteresis_apply s (Some prev) p t = (r, t')"
    and "state prev \<notin> {RECOVERING, STABILIZING}"
  shows "state r = (if state s \<noteq> state prev \<and> streak t (sensor_id s) (state s) + 1 < needed_for p (state s)
      then state prev else state s)"
    "streak t' (sensor_id s) st = (if st = state s then streak t (sensor_id s) (state s) + 1 else 0)"
  using assms
  by (auto simp: hysteresis_apply_def Let_def streak_def needed_for_def od_get_def update_conv'
      split: if_splits)

lemma hysteresis_candidate:
  "candidate (snd (hysteresis_apply s v p t)) = AList.update (sensor_id s) (state s) (candidate t)"
  by (simp add: hysteresis_apply_def Let_def split: option.split)

lemma steady_run:
  assumes "\<forall>s \<in> set ss. sensor_id s = sid \<and> state s = st \<and> reason_code s \<notin> set IMMEDIATE_REASON_CODES"
    and "state prev = (if needed_for p st \<le> streak t sid st then st else h)"
    and "h \<notin> {RECOVERING, STABILIZING}" "st \<notin> {RECOVERING, STABILIZING}"
  shows "map state (hysteresis_run p t prev ss) =
    map (\<lambda>j. if needed_for p st \<le> streak t sid st + 1 + int j then st else h) [0..<length ss]"
  using assms(1,2)
proof (induction ss arbitrary: t prev)
  case (Cons s ss)
  obtain r t' where a: "hysteresis_apply s (Some prev) p t = (r, t')" by (meson surj_pair)
  have prev: "state prev \<notin> {RECOVERING, STABILIZING}"
    using Cons.prems(2) assms(3,4) by (auto split: if_splits)
  have s: "sensor_id s = sid" "state s = st" "reason_code s \<notin> set IMMEDIATE_REASON_CODES"
    using Cons.prems(1) by auto
  have t': "streak t' sid st = streak t sid st + 1"
    using hysteresis_step(2) [OF s(3) a prev, of st] s by simp
  have r: "state r = (if needed_for p st \<le> streak t sid st + 1 then st else h)"
    using hysteresis_step(1) [OF s(3) a prev] s Cons.prems(2) by (auto split: if_splits)
  have "map state (hysteresis_run p t' r ss) =
      map (\<lambda>j. if needed_for p st \<le> streak t' sid st + 1 + int j then st else h) [0..<length ss]"
    using Cons.IH [of r t'] Cons.prems(1) r t' by simp
  then show ?case
    by (simp add: a r t' upt_conv_Cons map_Suc_upt [symmetric] del: upt_Suc)
qed simp

text \<open>
  C32. Hysteresis delays a change by exactly the configured evidence: from a settled state, a run of
  evaluations that all ask for one other state, none of them for an immediate reason, reports the
  old state until the required number of consecutive evaluations is reached and the new state from
  then on.
\<close>

theorem hysteresis_exact_delay:
  assumes "\<forall>s \<in> set ss. sensor_id s = sid \<and> state s = st \<and> reason_code s \<notin> set IMMEDIATE_REASON_CODES"
    and "map_of (candidate t) sid \<noteq> Some st" "0 < needed_for p st"
    and "state prev \<notin> {RECOVERING, STABILIZING}" "st \<notin> {RECOVERING, STABILIZING}"
  shows "map state (hysteresis_run p t prev ss) =
    map (\<lambda>j. if needed_for p st \<le> int j + 1 then st else state prev) [0..<length ss]"
  using steady_run [OF assms(1) _ assms(4,5), of prev p t] assms(2,3)
  by (simp add: streak_def add.commute)

definition state_snapshot :: "SensorState \<Rightarrow> ReasonCode \<Rightarrow> SensorHealthSnapshot" where
  "state_snapshot st c = (new_snapshot ''fs_sensor'' (Aware 0))\<lparr>state := st, reason_code := c\<rparr>"

theorem hysteresis_exact_delay_witness:
  "map state (hysteresis_run DEFAULT_POLICY new_tracker (state_snapshot HEALTHY RC_NONE)
     (replicate 4 (state_snapshot STALE RC_HEARTBEAT_STALE))) = [HEALTHY, HEALTHY, STALE, STALE]"
  using hysteresis_exact_delay [of "replicate 4 (state_snapshot STALE RC_HEARTBEAT_STALE)" "''fs_sensor''"
      STALE new_tracker DEFAULT_POLICY "state_snapshot HEALTHY RC_NONE"]
  by (simp add: state_snapshot_def new_snapshot_def IMMEDIATE_REASON_CODES_def new_tracker_def
      needed_for_def DEFAULT_POLICY_def upt_rec)

text \<open>
  Evidence that alternates between unhealthy states never reaches the required count: with two
  or more required failures, a sensor that was \<open>HEALTHY\<close> is reported \<open>HEALTHY\<close> in every cycle of a
  run in which each cycle asks for an unhealthy state other than the one of the cycle before.
\<close>

theorem flapping_failures_stay_healthy:
  assumes "\<forall>s \<in> set ss. sensor_id s = sid \<and> state s \<notin> {HEALTHY, HEALTHY_IDLE} \<and>
      reason_code s \<notin> set IMMEDIATE_REASON_CODES"
    and "distinct_adj (map state ss)" "2 \<le> consecutive_failures_required p"
    and "state prev = HEALTHY" "ss = [] \<or> map_of (candidate t) sid \<noteq> Some (state (hd ss))"
  shows "\<forall>r \<in> set (hysteresis_run p t prev ss). state r = HEALTHY"
  using assms(1,2,4,5)
proof (induction ss arbitrary: t prev)
  case (Cons s ss)
  obtain r t' where a: "hysteresis_apply s (Some prev) p t = (r, t')" by (meson surj_pair)
  have s: "sensor_id s = sid" "state s \<notin> {HEALTHY, HEALTHY_IDLE}"
    "reason_code s \<notin> set IMMEDIATE_REASON_CODES" using Cons.prems(1) by simp_all
  have prev: "state prev \<notin> {RECOVERING, STABILIZING}" using Cons.prems(3) by simp
  have k: "streak t sid (state s) = 0" using Cons.prems(4) by (simp add: streak_def)
  have r: "state r = HEALTHY"
  proof -
    from s(2) have "state s \<noteq> state prev" "needed_for p (state s) = consecutive_failures_required p"
      by (simp_all add: Cons.prems(3) needed_for_def)
    then show ?thesis
      using hysteresis_step(1) [OF s(3) a prev] assms(3) by (simp add: s(1) k Cons.prems(3))
  qed
  have "map_of (candidate t') sid = Some (state s)"
    using hysteresis_candidate [of s "Some prev" p t] a s(1) by (simp add: update_conv')
  then have "ss = [] \<or> map_of (candidate t') sid \<noteq> Some (state (hd ss))"
    using Cons.prems(2) by (cases ss) simp_all
  moreover have "distinct_adj (map state ss)"
    using Cons.prems(2) by (cases ss) simp_all
  moreover have "\<forall>s \<in> set ss. sensor_id s = sid \<and> state s \<notin> {HEALTHY, HEALTHY_IDLE} \<and>
      reason_code s \<notin> set IMMEDIATE_REASON_CODES"
    using Cons.prems(1) by (meson list.set_intros(2))
  ultimately have "\<forall>r \<in> set (hysteresis_run p t' r ss). state r = HEALTHY"
    using r by (intro Cons.IH)
  then show ?case by (simp add: a r)
qed simp

theorem flapping_failures_stay_healthy_witness:
  "list_all (\<lambda>r. state r = HEALTHY)
     (hysteresis_run DEFAULT_POLICY new_tracker (state_snapshot HEALTHY RC_NONE)
       [state_snapshot STALE RC_HEARTBEAT_STALE, state_snapshot IMPAIRED RC_PROCESSING_STALL,
        state_snapshot STALE RC_HEARTBEAT_STALE, state_snapshot IMPAIRED RC_PROCESSING_STALL])"
  unfolding list_all_iff
  by (rule flapping_failures_stay_healthy [where sid = "''fs_sensor''"])
    (simp_all add: state_snapshot_def new_snapshot_def IMMEDIATE_REASON_CODES_def new_tracker_def
      DEFAULT_POLICY_def)

subsection \<open>Coverage and the platform report\<close>

lemma capability_coverage_capped:
  assumes "c \<in> set (capability_coverage d s)"
  shows "coverage_rank (coverage c) \<le> coverage_rank (maximum_coverage (state s))"
  using assms by (auto simp: capability_coverage_def Let_def)

definition worst_of :: "(string, CapabilityHealth) odict \<Rightarrow> CapabilityHealth list \<Rightarrow> bool" where
  "worst_of m cs \<longleftrightarrow> distinct (map fst m) \<and>
     (\<forall>c \<in> set cs. \<exists>v. map_of m (capability_id c) = Some v \<and> coverage_rank (coverage v) \<le> coverage_rank (coverage c)) \<and>
     (\<forall>k v. map_of m k = Some v \<longrightarrow> v \<in> set cs \<and> capability_id v = k)"

lemma worst_of_step:
  assumes "worst_of m cs"
  shows "worst_of (keep_worst c m) (cs @ [c])"
proof (cases "map_of m (capability_id c)")
  case None
  with assms show ?thesis
    by (fastforce simp: worst_of_def keep_worst_def update_conv' distinct_update split: if_splits)
next
  case (Some prior)
  show ?thesis
  proof (cases "coverage_rank (coverage c) < coverage_rank (coverage prior)")
    case True
    have "\<exists>v. map_of (keep_worst c m) (capability_id x) = Some v \<and>
        coverage_rank (coverage v) \<le> coverage_rank (coverage x)" if "x \<in> set (cs @ [c])" for x
      using assms that True Some
      by (cases "capability_id x = capability_id c") (force simp: worst_of_def keep_worst_def update_conv')+
    with assms True Some show ?thesis
      by (auto simp: worst_of_def keep_worst_def update_conv' distinct_update split: if_splits)
  next
    case False
    with assms Some show ?thesis by (auto simp: worst_of_def keep_worst_def)
  qed
qed

lemma worst_of_fold: "worst_of m cs \<Longrightarrow> worst_of (fold keep_worst ds m) (cs @ ds)"
proof (induction ds arbitrary: m cs)
  case (Cons d ds)
  from Cons.IH [OF worst_of_step [OF Cons.prems, of d]] show ?case by simp
qed simp

lemma coverage_by_id_worst:
  "worst_of (coverage_by_id pairs) (concat (map (\<lambda>(d, s). capability_coverage d s) pairs))"
proof -
  have "worst_of [] []" by (simp add: worst_of_def)
  from worst_of_fold [OF this] show ?thesis unfolding coverage_by_id_def append_Nil .
qed

lemma distinct_sort_key: "distinct (map f xs) \<Longrightarrow> distinct (map f (sort_key f xs))"
  by (simp add: distinct_map)

lemma worst_of_values:
  assumes "worst_of m cs"
  shows "distinct (map capability_id (od_values m))"
    "e \<in> set (od_values m) \<longleftrightarrow> map_of m (capability_id e) = Some e"
proof -
  have key: "capability_id v = k \<and> map_of m k = Some v" if "(k, v) \<in> set m" for k v
    using assms map_of_is_SomeI [OF _ that] unfolding worst_of_def by blast
  have "map capability_id (od_values m) = od_keys m"
    unfolding map_map using key by (intro map_cong [OF refl]) auto
  then show "distinct (map capability_id (od_values m))"
    using assms unfolding worst_of_def by metis
  show "e \<in> set (od_values m) \<longleftrightarrow> map_of m (capability_id e) = Some e"
  proof
    assume "e \<in> set (od_values m)"
    then obtain k where "(k, e) \<in> set m" by auto
    from key [OF this] show "map_of m (capability_id e) = Some e" by simp
  next
    assume "map_of m (capability_id e) = Some e"
    from map_of_SomeD [OF this] show "e \<in> set (od_values m)" by force
  qed
qed

text \<open>
  Coverage is reported at its worst: the platform report lists every capability of every sensor
  once, in the order of the identifiers, with a coverage some sensor really has, and no better than
  the one any sensor declares or the one its state allows.
\<close>

theorem coverage_reported_at_worst:
  assumes "(d, s) \<in> set pairs" "c \<in> set (capability_coverage d s)"
  shows "(let r = report_coverage (build_platform_report pairs mh now) in
    sorted (map capability_id r) \<and> distinct (map capability_id r) \<and>
    (\<exists>e \<in> set r. capability_id e = capability_id c \<and>
       coverage_rank (coverage e) \<le> coverage_rank (coverage c) \<and>
       coverage_rank (coverage e) \<le> coverage_rank (maximum_coverage (state s)) \<and>
       (\<exists>(d', s') \<in> set pairs. e \<in> set (capability_coverage d' s'))))"
proof -
  let ?cs = "concat (map (\<lambda>(d, s). capability_coverage d s) pairs)"
  let ?m = "coverage_by_id pairs"
  note w = coverage_by_id_worst [of pairs]
  have "c \<in> set ?cs" using assms by auto
  then obtain e where e: "map_of ?m (capability_id c) = Some e"
      "coverage_rank (coverage e) \<le> coverage_rank (coverage c)" "e \<in> set ?cs" "capability_id e = capability_id c"
    using w unfolding worst_of_def by blast
  then have "e \<in> set (od_values ?m)" by (simp only: worst_of_values(2) [OF w])
  moreover have "\<exists>(d', s') \<in> set pairs. e \<in> set (capability_coverage d' s')" using e(3) by auto
  moreover have "coverage_rank (coverage e) \<le> coverage_rank (maximum_coverage (state s))"
    using e(2) capability_coverage_capped [OF assms(2)] by (rule le_trans)
  moreover have "distinct (map capability_id (sort_key capability_id (od_values ?m)))"
    by (rule distinct_sort_key [OF worst_of_values(1) [OF w]])
  ultimately show ?thesis
    using e(2,4) by (auto simp: build_platform_report_def Let_def)
qed

definition example_descriptor :: SensorDescriptor where
  "example_descriptor = \<lparr> ds_sensor_id = ''fs_sensor'', ds_display_name = ''File sensor'',
     ds_criticality = CR_CRITICAL, ds_expected = True, ds_enabled = True, ds_singleton = True,
     ds_capabilities = [''file_events''], ds_dependencies = [], ds_failure_domain = ''sensor'' \<rparr>"

theorem coverage_reported_at_worst_witness:
  "\<exists>e \<in> set (report_coverage (build_platform_report
      [(example_descriptor, state_snapshot FAILED RC_PROCESS_NOT_RUNNING)] [] (Aware 0))).
    coverage e = CV_NONE"
proof -
  let ?s = "state_snapshot FAILED RC_PROCESS_NOT_RUNNING"
  let ?c = "hd (capability_coverage example_descriptor ?s)"
  have "?c \<in> set (capability_coverage example_descriptor ?s)"
    by (simp add: capability_coverage_def example_descriptor_def state_snapshot_def new_snapshot_def Let_def)
  from coverage_reported_at_worst [of example_descriptor ?s "[(example_descriptor, ?s)]", OF _ this]
  obtain e where "e \<in> set (report_coverage (build_platform_report [(example_descriptor, ?s)] [] (Aware 0)))"
    "coverage_rank (coverage e) \<le> coverage_rank (maximum_coverage (state ?s))"
    by (auto simp: Let_def)
  moreover have "maximum_coverage (state ?s) = CV_NONE"
    by (simp add: maximum_coverage_def FAILURE_STATES_def state_snapshot_def)
  ultimately show ?thesis by (intro bexI [of _ e]) (cases "coverage e"; simp)+
qed

text \<open>
  The platform is \<open>HEALTHY\<close> exactly when no required sensor is failed, degraded, unknown,
  initialising or warned and the required sensors are not all in maintenance. Sensors that
  are recovering, stabilising, under high load, disabled or unsupported do not count against it.
\<close>

theorem platform_healthy_iff:
  "overall_health (build_platform_report pairs mh now) = PF_HEALTHY \<longleftrightarrow>
     (\<forall>(d, s) \<in> set (required_pairs pairs). state s \<in> {HEALTHY, HEALTHY_IDLE, HIGH_LOAD, RECOVERING,
        STABILIZING, DISABLED, UNSUPPORTED, MAINTENANCE}) \<and>
     (required_pairs pairs \<noteq> [] \<longrightarrow> (\<exists>(d, s) \<in> set (required_pairs pairs). state s \<noteq> MAINTENANCE))"
proof -
  have st: "st \<in> {HEALTHY, HEALTHY_IDLE, HIGH_LOAD, RECOVERING, STABILIZING, DISABLED, UNSUPPORTED, MAINTENANCE}
      \<longleftrightarrow> st \<notin> set FAILURE_STATES \<and> st \<notin> set DEGRADED_STATES \<and> st \<notin> {UNKNOWN, INITIALIZING} \<and>
        st \<noteq> HEALTHY_WITH_WARNINGS" for st
    by (cases st) (simp_all add: FAILURE_STATES_def DEGRADED_STATES_def)
  show ?thesis
    unfolding st build_platform_report_def Let_def overall_state_def
    by (simp add: list_ex_iff list_all_iff case_prod_beta) blast
qed

theorem platform_healthy_iff_witness:
  "overall_health (build_platform_report [(example_descriptor, state_snapshot RECOVERING RC_RECOVERY_IN_PROGRESS)]
     [] (Aware 0)) = PF_HEALTHY"
  using platform_healthy_iff [of "[(example_descriptor, state_snapshot RECOVERING RC_RECOVERY_IN_PROGRESS)]"
      "[]" "Aware 0"]
  by (simp add: required_pairs_def example_descriptor_def state_snapshot_def)

definition idle_snapshot :: "int \<Rightarrow> int \<Rightarrow> SensorHealthSnapshot" where
  "idle_snapshot now completed = live_snapshot\<lparr>last_process_heartbeat := Some (Aware now),
     last_collection_activity := None, last_self_test := Some \<lparr> st_passed = True,
       st_test_id = ''probe'', st_reason = ''ok'', st_latency_ms = None, st_canary_id = '''',
       st_stages = [], st_completed_at = Aware completed \<rparr>\<rparr>"

lemma idle_snapshot_issues:
  "map (\<lambda>i. (i_priority i, i_state i)) (all_issues DEFAULT_POLICY now False (idle_snapshot now completed)) =
     [(10, HEALTHY_IDLE)]"
  by (simp add: all_issues_def idle_snapshot_def live_snapshot_def new_snapshot_def issue_defs Let_def
      issue_if_def older_than_def age_def total_seconds_def DEFAULT_POLICY_def failed_dependencies_def
      degraded_dependencies_def rules_incomplete_def empty_rules_def empty_resources_def
      queue_utilization_def calculated_drop_rate_def)

text \<open>
  An idle sensor is accepted on a probe of any age: without collection activity, a passed self
  test makes the sensor \<open>HEALTHY_IDLE\<close> whatever the instant at which the test completed.
\<close>

theorem idle_probe_of_any_age_accepted:
  "\<exists>s. evaluate (idle_snapshot now completed) DEFAULT_POLICY now = Inr s \<and> state s = HEALTHY_IDLE"
proof -
  have "evaluate (idle_snapshot now completed) DEFAULT_POLICY now =
      Inr (conclude DEFAULT_POLICY now False (idle_snapshot now completed))"
    by (simp add: evaluate_def snapshot_validated_def idle_snapshot_def live_snapshot_def new_snapshot_def
        od_get_def)
  moreover obtain i where "all_issues DEFAULT_POLICY now False (idle_snapshot now completed) = [i]"
      "i_state i = HEALTHY_IDLE"
    using idle_snapshot_issues [of now completed] by auto
  ultimately show ?thesis by (simp add: top_issue_def reasons_of_def)
qed

end
