(* ===== verification/Health_Recovery.thy ===== *)
theory Health_Recovery
  imports Health_Evaluator
begin

text \<open>
  The recovery engine of \<open>health/recovery.py\<close>: the reason-specific ladder, the circuit breaker of
  each sensor and the rolling restart budget. The provider is an argument: a function from the
  recovery reason to a result or to the text \<open>Type: message\<close> of the exception it raises. The
  monotonic clock and the random jitter are arguments. Each call of \<open>recover\<close> also returns the
  request that was sent to the provider, if one was.
\<close>

definition NON_AUTOMATIC :: "ReasonCode list" where
  "NON_AUTOMATIC = [RC_PERMISSION_REVOKED, RC_PERMISSION_REQUIRED, RC_ENTITLEMENT_MISSING,
     RC_SIGNATURE_INVALID, RC_CONFIG_UNEXPECTED_CHANGE, RC_DISK_PRESSURE, RC_DUPLICATE_INSTANCE]"

definition EXTERNAL_REMEDIATION_REQUIRED :: "ReasonCode list" where
  "EXTERNAL_REMEDIATION_REQUIRED = [RC_PERMISSION_REVOKED, RC_PERMISSION_REQUIRED,
     RC_ENTITLEMENT_MISSING, RC_SIGNATURE_INVALID, RC_DUPLICATE_INSTANCE]"

definition RECOVERY_LADDER :: "(ReasonCode \<times> RecoveryLevel) list" where
  "RECOVERY_LADDER =
     [(RC_IPC_DISCONNECTED, RL_RECONNECT), (RC_HELPER_UNAVAILABLE, RL_RECONNECT),
      (RC_DATABASE_LATENCY, RL_RECONNECT), (RC_DATABASE_UNAVAILABLE, RL_RECONNECT),
      (RC_RULE_LOAD_FAILURE, RL_REINITIALIZE), (RC_PROCESSING_STALL, RL_RESTART_WORKER),
      (RC_DELIVERY_STALL, RL_RESTART_WORKER), (RC_PERSISTENCE_STALL, RL_RECONNECT),
      (RC_EVENT_STREAM_STALE, RL_REINITIALIZE), (RC_HEARTBEAT_STALE, RL_REQUEST_WATCHDOG),
      (RC_PROCESS_NOT_RUNNING, RL_REQUEST_WATCHDOG)]"

section \<open>The circuit breaker\<close>

record CircuitBreaker =
  cb_state :: CircuitState
  cb_failures :: int
  cb_opened_at :: pyfloat
  cb_cool_down_seconds :: pyfloat

definition new_circuit :: CircuitBreaker where
  "new_circuit = \<lparr> cb_state = CB_CLOSED, cb_failures = 0, cb_opened_at = 0, cb_cool_down_seconds = 30 \<rparr>"

definition circuit_allow :: "pyfloat \<Rightarrow> CircuitBreaker \<Rightarrow> bool \<times> CircuitBreaker" where
  "circuit_allow now c =
     (if cb_state c = CB_CLOSED then (True, c)
      else if cb_state c = CB_OPEN \<and> cb_cool_down_seconds c \<le> now - cb_opened_at c
        then (True, c\<lparr>cb_state := CB_HALF_OPEN\<rparr>)
      else (cb_state c = CB_HALF_OPEN, c))"

definition circuit_success :: "CircuitBreaker \<Rightarrow> CircuitBreaker" where
  "circuit_success c = c\<lparr>cb_state := CB_CLOSED, cb_failures := 0\<rparr>"

definition circuit_failure :: "pyfloat \<Rightarrow> CircuitBreaker \<Rightarrow> CircuitBreaker" where
  "circuit_failure now c = (let c' = c\<lparr>cb_failures := cb_failures c + 1\<rparr> in
     if 3 \<le> cb_failures c' then c'\<lparr>cb_state := CB_OPEN, cb_opened_at := now\<rparr> else c')"

section \<open>The engine\<close>

record RecoveryEngine =
  attempts :: "(string, pyfloat list) odict"
  circuits :: "(string, CircuitBreaker) odict"

definition new_engine :: RecoveryEngine where
  "new_engine = \<lparr> attempts = [], circuits = [] \<rparr>"

type_synonym provider_recover = "RecoveryReason \<Rightarrow> string + RecoveryResult"

definition recovery_result ::
  "bool \<Rightarrow> bool \<Rightarrow> RecoveryLevel \<Rightarrow> string \<Rightarrow> bool \<Rightarrow> RecoveryResult" where
  "recovery_result att succ level detail operator = \<lparr> rs_attempted = att, rs_succeeded = succ,
     rs_action = level, rs_detail = detail, rs_requires_operator = operator,
     rs_verification_required = True \<rparr>"

fun expire_attempts :: "pyfloat \<Rightarrow> pyfloat \<Rightarrow> pyfloat list \<Rightarrow> pyfloat list" where
  "expire_attempts now window [] = []"
| "expire_attempts now window (a # as) = (if window < now - a then expire_attempts now window as else a # as)"

text \<open>The call of the provider and what its outcome does to the circuit.\<close>

definition call_provider ::
  "provider_recover \<Rightarrow> RecoveryReason \<Rightarrow> pyfloat \<Rightarrow> CircuitBreaker \<Rightarrow> RecoveryResult \<times> CircuitBreaker" where
  "call_provider provider req now c =
     (case provider req of
        Inl e \<Rightarrow> (recovery_result True False (rr_requested_level req)
                   (''Recovery provider failed safely: '' @ e) False, circuit_failure now c)
      | Inr r \<Rightarrow> (r, if rs_succeeded r then circuit_success c
                     else if rs_attempted r then circuit_failure now c else c))"

text \<open>The guards that answer before the budget is looked at.\<close>

definition refusal :: "SensorHealthSnapshot \<Rightarrow> bool \<Rightarrow> RecoveryResult option" where
  "refusal s manual =
     (let code = reason_code s;
          explanation = (if remediation s = '''' then reason s else remediation s);
          level = od_get RECOVERY_LADDER code RL_OBSERVE in
      if code \<in> set EXTERNAL_REMEDIATION_REQUIRED then
        Some (recovery_result False False RL_OPERATOR_REQUIRED explanation True)
      else if code \<in> set NON_AUTOMATIC \<and> \<not> manual then
        Some (recovery_result False False RL_OPERATOR_REQUIRED explanation True)
      else if level = RL_OBSERVE \<and> \<not> manual then
        Some (recovery_result False False level
          ''No safe automatic recovery is defined for this condition.'' False)
      else None)"

text \<open>The call and the bookkeeping of one admitted attempt.\<close>

definition make_attempt :: "provider_recover \<Rightarrow> SensorHealthSnapshot \<Rightarrow> pyfloat \<Rightarrow> pyfloat list \<Rightarrow>
  CircuitBreaker \<Rightarrow> RecoveryEngine \<Rightarrow> RecoveryResult \<times> RecoveryReason option \<times> RecoveryEngine" where
  "make_attempt provider s now kept c e =
     (let req = \<lparr> rr_reason_code = reason_code s, rr_detail = reason s,
            rr_requested_level = od_get RECOVERY_LADDER (reason_code s) RL_OBSERVE \<rparr>;
          (r, c') = call_provider provider req now c
      in (r, Some req, e\<lparr>attempts := AList.update (sensor_id s) (kept @ [now]) (attempts e),
            circuits := AList.update (sensor_id s) c' (circuits e)\<rparr>))"

definition recover :: "provider_recover \<Rightarrow> SensorHealthSnapshot \<Rightarrow> SensorHealthPolicy \<Rightarrow> bool \<Rightarrow> pyfloat \<Rightarrow>
  RecoveryEngine \<Rightarrow> RecoveryResult \<times> RecoveryReason option \<times> RecoveryEngine" where
  "recover provider s p manual now e =
     (case refusal s manual of Some r \<Rightarrow> (r, None, e)
      | None \<Rightarrow>
        (let kept = expire_attempts now (of_int (restart_budget_window_seconds p))
               (od_get (attempts e) (sensor_id s) []);
             e1 = e\<lparr>attempts := AList.update (sensor_id s) kept (attempts e)\<rparr> in
         if restart_budget_count p \<le> int (length kept) then
           (recovery_result False False RL_OPERATOR_REQUIRED
              ''Restart budget exhausted; automatic retries are stopped.'' True, None, e1)
         else
           (let (ok, c) = circuit_allow now (od_get (circuits e1) (sensor_id s) new_circuit);
                e2 = e1\<lparr>circuits := AList.update (sensor_id s) c (circuits e1)\<rparr> in
            if \<not> ok then
              (recovery_result False False RL_OBSERVE
                 ''Recovery circuit is open; waiting before a controlled half-open probe.'' False, None, e2)
            else make_attempt provider s now kept c e2)))"

text \<open>\<open>random.uniform(0, 0.5)\<close> is the argument \<open>jitter\<close>.\<close>

definition backoff_seconds :: "pyfloat \<Rightarrow> string \<Rightarrow> RecoveryEngine \<Rightarrow> pyfloat" where
  "backoff_seconds jitter sid e =
     (let n = length (od_get (attempts e) sid []) - 1 in min 60 (2 ^ n + jitter))"

section \<open>Properties\<close>

interpretation ra: time_window id "\<lambda>c. expire_attempts (c + window) window" for window
proof
  show "expire_attempts (c + window) window q = dropWhile (\<lambda>e. id e < c) q" for c q
    by (induction q) auto
qed

lemma expire_attempts_filter:
  assumes "sorted q" shows "expire_attempts now w q = filter (\<lambda>a. now - w \<le> a) q"
  using ra.expire_filter [of q "now - w" w] assms by simp

declare od_get_update [simp]

lemma refusal_None_iff: "refusal s manual = None \<longleftrightarrow> reason_code s \<notin> set EXTERNAL_REMEDIATION_REQUIRED \<and>
    (manual \<or> reason_code s \<notin> set NON_AUTOMATIC \<and> od_get RECOVERY_LADDER (reason_code s) RL_OBSERVE \<noteq> RL_OBSERVE)"
  by (auto simp: refusal_def Let_def)

lemma refusal_result: "refusal s manual = Some r \<Longrightarrow> \<not> rs_attempted r \<and> \<not> rs_succeeded r"
  by (auto simp: refusal_def Let_def recovery_result_def split: if_splits)

abbreviation kept_attempts :: "SensorHealthSnapshot \<Rightarrow> SensorHealthPolicy \<Rightarrow> pyfloat \<Rightarrow> RecoveryEngine \<Rightarrow> pyfloat list" where
  "kept_attempts s p now e \<equiv> expire_attempts now (of_int (restart_budget_window_seconds p))
     (od_get (attempts e) (sensor_id s) [])"

lemma recover_cases:
  assumes "recover prov s p manual now e = (r, call, e')"
  obtains (refused) "call = None" "e' = e" "refusal s manual = Some r"
    | (waiting) "call = None" "refusal s manual = None" "\<not> rs_attempted r" "\<not> rs_succeeded r"
      "attempts e' = AList.update (sensor_id s) (kept_attempts s p now e) (attempts e)"
    | (called) "refusal s manual = None" "int (length (kept_attempts s p now e)) < restart_budget_count p"
      "attempts e' = AList.update (sensor_id s) (kept_attempts s p now e @ [now])
         (AList.update (sensor_id s) (kept_attempts s p now e) (attempts e))"
      "fst (circuit_allow now (od_get (circuits e) (sensor_id s) new_circuit))"
      "call = Some \<lparr> rr_reason_code = reason_code s, rr_detail = reason s,
         rr_requested_level = od_get RECOVERY_LADDER (reason_code s) RL_OBSERVE \<rparr>"
proof (cases "refusal s manual")
  case (Some r')
  with assms refused show thesis by (simp add: recover_def)
next
  case None
  obtain ok c where oc: "circuit_allow now (od_get (circuits e) (sensor_id s) new_circuit) = (ok, c)"
    by (meson surj_pair)
  show thesis
  proof (cases "restart_budget_count p \<le> int (length (kept_attempts s p now e)) \<or> \<not> ok")
    case True
    then show thesis
      using assms None oc waiting
      by (auto simp: recover_def Let_def recovery_result_def split: if_splits)
  next
    case False
    then show thesis
      using assms None oc called
      by (auto simp: recover_def Let_def make_attempt_def split: if_splits prod.splits)
  qed
qed

text \<open>
  The engine reaches the provider only when it may: the reason is no external blocker; an
  automatic attempt needs a reason that is on the ladder and not reserved for an operator; the
  attempts left in the rolling window are below the budget; the circuit is closed, half open, or
  open for at least its cool-down. The request then names the level of the ladder. In every other
  case nothing is attempted and nothing succeeds.
\<close>

theorem provider_called_only_when_permitted:
  assumes "recover prov s p manual now e = (r, call, e')"
  shows "case call of None \<Rightarrow> \<not> rs_attempted r \<and> \<not> rs_succeeded r
    | Some req \<Rightarrow> reason_code s \<notin> set EXTERNAL_REMEDIATION_REQUIRED \<and>
        (manual \<or> reason_code s \<notin> set NON_AUTOMATIC \<and> rr_requested_level req \<noteq> RL_OBSERVE) \<and>
        rr_reason_code req = reason_code s \<and>
        rr_requested_level req = od_get RECOVERY_LADDER (reason_code s) RL_OBSERVE \<and>
        int (length (expire_attempts now (of_int (restart_budget_window_seconds p))
           (od_get (attempts e) (sensor_id s) []))) < restart_budget_count p \<and>
        (let c = od_get (circuits e) (sensor_id s) new_circuit in
         cb_state c = CB_OPEN \<longrightarrow> cb_opened_at c + cb_cool_down_seconds c \<le> now)"
  using assms
proof (cases rule: recover_cases)
  case refused
  then show ?thesis by (simp add: refusal_result)
next
  case called
  from called(4) have "cb_state c = CB_OPEN \<longrightarrow> cb_opened_at c + cb_cool_down_seconds c \<le> now"
    if "c = od_get (circuits e) (sensor_id s) new_circuit" for c
    using that by (auto simp: circuit_allow_def split: if_splits)
  then show ?thesis
    using called(2,5) called(1) [unfolded refusal_None_iff] by simp
qed simp

theorem provider_called_only_when_permitted_witness:
  "fst (snd (recover (\<lambda>q. Inl ''OSError: down'') (state_snapshot PERMISSION_BLOCKED RC_PERMISSION_REVOKED)
     DEFAULT_POLICY True 10 new_engine)) = None"
  using provider_called_only_when_permitted [of "\<lambda>q. Inl ''OSError: down''"
      "state_snapshot PERMISSION_BLOCKED RC_PERMISSION_REVOKED" DEFAULT_POLICY True 10 new_engine]
  by (cases "recover (\<lambda>q. Inl ''OSError: down'') (state_snapshot PERMISSION_BLOCKED RC_PERMISSION_REVOKED)
        DEFAULT_POLICY True 10 new_engine")
     (auto simp: state_snapshot_def EXTERNAL_REMEDIATION_REQUIRED_def split: option.splits)

subsection \<open>The rolling budget\<close>

text \<open>Any sequence of recovery requests, for any sensors: the calls that reach a provider.\<close>

type_synonym recovery_request = "provider_recover \<times> SensorHealthSnapshot \<times> bool \<times> pyfloat"

fun request_time :: "recovery_request \<Rightarrow> pyfloat" where
  "request_time (prov, s, manual, now) = now"

fun recover_run :: "(string \<Rightarrow> SensorHealthPolicy) \<Rightarrow> RecoveryEngine \<Rightarrow> recovery_request list \<Rightarrow>
  (string \<times> pyfloat) list" where
  "recover_run pol e [] = []"
| "recover_run pol e ((prov, s, manual, now) # rs) =
     (case recover prov s (pol (sensor_id s)) manual now e of
        (r, call, e') \<Rightarrow> (if call = None then [] else [(sensor_id s, now)]) @ recover_run pol e' rs)"

definition calls_of :: "string \<Rightarrow> (string \<times> pyfloat) list \<Rightarrow> pyfloat list" where
  "calls_of sid cs = map snd (filter (\<lambda>c. fst c = sid) cs)"

lemma calls_of_append [simp]: "calls_of sid (xs @ ys) = calls_of sid xs @ calls_of sid ys"
  by (simp add: calls_of_def)

definition in_window :: "pyfloat \<Rightarrow> pyfloat \<Rightarrow> pyfloat list \<Rightarrow> nat" where
  "in_window w t h = length (filter (\<lambda>x. t - w \<le> x \<and> x \<le> t) h)"

text \<open>What the engine remembers of the calls \<open>h\<close> made so far for one sensor.\<close>

definition remembers :: "SensorHealthPolicy \<Rightarrow> pyfloat \<Rightarrow> pyfloat list \<Rightarrow> pyfloat list \<Rightarrow> bool" where
  "remembers p now q h \<longleftrightarrow> sorted h \<and> (\<forall>x \<in> set h. x \<le> now) \<and>
     (\<exists>c \<le> now - of_int (restart_budget_window_seconds p). q = filter (\<lambda>x. c \<le> x) h) \<and>
     (\<forall>t. int (in_window (of_int (restart_budget_window_seconds p)) t h) \<le> max 0 (restart_budget_count p))"

lemma remembers_later: "remembers p now q h \<Longrightarrow> now \<le> now' \<Longrightarrow> remembers p now' q h"
proof -
  assume r: "remembers p now q h" and le: "now \<le> now'"
  from r obtain c where "c \<le> now - of_int (restart_budget_window_seconds p)" "q = filter (\<lambda>x. c \<le> x) h"
    unfolding remembers_def by blast
  moreover from this(1) le have "c \<le> now' - of_int (restart_budget_window_seconds p)" by simp
  ultimately have "\<exists>c \<le> now' - of_int (restart_budget_window_seconds p). q = filter (\<lambda>x. c \<le> x) h" by blast
  with r le show ?thesis unfolding remembers_def by (simp only:) force
qed

lemma remembers_expire:
  assumes "remembers p now q h"
  shows "expire_attempts now (of_int (restart_budget_window_seconds p)) q =
      filter (\<lambda>x. now - of_int (restart_budget_window_seconds p) \<le> x) h"
proof -
  from assms obtain c where c: "c \<le> now - of_int (restart_budget_window_seconds p)"
      "q = filter (\<lambda>x. c \<le> x) h" "sorted h"
    by (auto simp: remembers_def)
  then have "sorted q" by (simp add: sorted_filter [of id, simplified])
  then show ?thesis
    using c by (auto simp: expire_attempts_filter intro!: filter_cong)
qed

lemma remembers_forget:
  "remembers p now q h \<Longrightarrow> remembers p now (expire_attempts now (of_int (restart_budget_window_seconds p)) q) h"
  using remembers_expire [of p now q h] unfolding remembers_def by blast

lemma remembers_call:
  fixes p now defines "w \<equiv> of_int (restart_budget_window_seconds p)"
  assumes r: "remembers p now q h" and n: "int (length (expire_attempts now w q)) < restart_budget_count p"
    and w: "0 \<le> w"
  shows "remembers p now (expire_attempts now w q @ [now]) (h @ [now])"
proof -
  have e: "expire_attempts now w q = filter (\<lambda>x. now - w \<le> x) h"
    using remembers_expire [OF r] by (simp add: w_def)
  have "int (in_window w t (h @ [now])) \<le> max 0 (restart_budget_count p)" for t
  proof (cases "now \<le> t")
    case True
    have "length (filter (\<lambda>x. t - w \<le> x \<and> x \<le> t) h) \<le> length (filter (\<lambda>x. now - w \<le> x) h)"
      using True by (induction h) auto
    then have "in_window w t (h @ [now]) \<le> length (expire_attempts now w q) + 1"
      by (simp add: in_window_def e)
    with n show ?thesis by simp
  next
    case False
    then have "in_window w t (h @ [now]) = in_window w t h" by (simp add: in_window_def)
    with r show ?thesis by (simp add: remembers_def w_def)
  qed
  moreover have "expire_attempts now w q @ [now] = filter (\<lambda>x. now - w \<le> x) (h @ [now])"
    using w by (simp add: e)
  ultimately show ?thesis
    using r by (fastforce simp: remembers_def w_def sorted_append)
qed

lemma recover_remembers:
  assumes "remembers (pol sid) now (od_get (attempts e) sid []) h"
    and "recover prov s (pol (sensor_id s)) manual now e = (r, call, e')"
    and "0 \<le> restart_budget_window_seconds (pol sid)"
  shows "remembers (pol sid) now (od_get (attempts e') sid [])
    (h @ calls_of sid (if call = None then [] else [(sensor_id s, now)]))"
proof (cases "sensor_id s = sid")
  case True
  from assms(2) show ?thesis
  proof (cases rule: recover_cases)
    case refused
    with assms(1) show ?thesis by (simp add: calls_of_def)
  next
    case waiting
    with remembers_forget [OF assms(1)] True show ?thesis by (simp add: calls_of_def)
  next
    case called
    with remembers_call [OF assms(1)] assms(3) True show ?thesis by (simp add: calls_of_def)
  qed
next
  case False
  from assms(2) have "od_get (attempts e') sid [] = od_get (attempts e) sid []"
    by (cases rule: recover_cases) (use False in simp_all)
  with assms(1) False show ?thesis by (simp add: calls_of_def)
qed

lemma run_remembers:
  assumes "remembers (pol sid) t0 (od_get (attempts e) sid []) h"
    and "sorted (t0 # map request_time rs)"
    and "0 \<le> restart_budget_window_seconds (pol sid)"
  shows "\<exists>now q. remembers (pol sid) now q (h @ calls_of sid (recover_run pol e rs))"
  using assms(1,2)
proof (induction rs arbitrary: e h t0)
  case Nil
  then show ?case by (auto simp: calls_of_def)
next
  case (Cons req rs)
  obtain prov s manual now where req: "req = (prov, s, manual, now)" by (cases req)
  obtain r call e' where step: "recover prov s (pol (sensor_id s)) manual now e = (r, call, e')"
    by (metis prod_cases3)
  from Cons.prems(2) req have "t0 \<le> now" by simp
  from recover_remembers [OF remembers_later [OF Cons.prems(1) this] step assms(3)]
  have "\<exists>now' q. remembers (pol sid) now' q ((h @ calls_of sid (if call = None then [] else
      [(sensor_id s, now)])) @ calls_of sid (recover_run pol e' rs))"
    using Cons.prems(2) req by (intro Cons.IH) auto
  then show ?case by (simp add: req step)
qed

text \<open>
  C14. The restart budget bounds the calls in every window: whatever requests arrive in order of
  time, for whatever sensors, automatic or manual, and whatever the providers answer, no closed
  interval of the budget's length holds more calls for one sensor than its budget allows.
\<close>

theorem restart_budget_bounds_calls:
  assumes "sorted (map request_time rs)" "0 \<le> restart_budget_window_seconds (pol sid)"
  shows "int (in_window (of_int (restart_budget_window_seconds (pol sid))) t
      (calls_of sid (recover_run pol new_engine rs))) \<le> max 0 (restart_budget_count (pol sid))"
proof (cases rs)
  case Nil
  then show ?thesis by (simp add: calls_of_def in_window_def)
next
  case (Cons req rs')
  define t0 where "t0 = request_time req"
  have "remembers (pol sid) t0 (od_get (attempts new_engine) sid []) []"
    by (auto simp: remembers_def in_window_def new_engine_def od_get_def)
  moreover have "sorted (t0 # map request_time rs)"
    using assms(1) by (auto simp: Cons t0_def)
  ultimately obtain now q where "remembers (pol sid) now q ([] @ calls_of sid (recover_run pol new_engine rs))"
    using run_remembers assms(2) by blast
  then show ?thesis by (simp add: remembers_def)
qed

theorem restart_budget_bounds_calls_witness:
  "int (in_window 300 90 (calls_of ''fs_sensor'' (recover_run policy_for new_engine
     (map (\<lambda>k. (\<lambda>q. Inl ''OSError: down'', state_snapshot FAILED RC_PROCESS_NOT_RUNNING, False, of_nat k))
       [10, 20, 30, 40, 50])))) \<le> 3"
  using restart_budget_bounds_calls [of "map (\<lambda>k. (\<lambda>q. Inl ''OSError: down'',
      state_snapshot FAILED RC_PROCESS_NOT_RUNNING, False, of_nat k)) [10, 20, 30, 40, 50]"
      policy_for "''fs_sensor''" 90]
  by (simp add: policy_for_def SENSOR_POLICY_OVERRIDES_def DEFAULT_POLICY_def od_get_def
      del: recover_run.simps)

end
