(* ===== verification/Health_Store.thy ===== *)
theory Health_Store
  imports Health_Recovery
begin

text \<open>
  The JSON form of snapshots and reports (\<open>to_dict\<close> of \<open>health/models.py\<close>) and the store of
  \<open>health/persistence.py\<close>: current snapshots, hash-chained transitions, incidents, recovery actions,
  dependencies and manager state. A table is a list of rows in order of insertion; a JSON column
  holds the document itself. The text of a document, the ISO form of an instant, SHA-256 and the
  clock are fields of \<open>store_env\<close>.
\<close>

section \<open>JSON forms\<close>

fun platform_state_value :: "PlatformState \<Rightarrow> string" where
  "platform_state_value PF_HEALTHY = ''HEALTHY''"
| "platform_state_value PF_HEALTHY_WITH_WARNINGS = ''HEALTHY_WITH_WARNINGS''"
| "platform_state_value PF_DEGRADED = ''DEGRADED''"
| "platform_state_value PF_SEVERELY_DEGRADED = ''SEVERELY_DEGRADED''"
| "platform_state_value PF_FAILED = ''FAILED''"
| "platform_state_value PF_MAINTENANCE = ''MAINTENANCE''"
| "platform_state_value PF_UNKNOWN = ''UNKNOWN''"

fun coverage_value :: "CoverageLevel \<Rightarrow> string" where
  "coverage_value CV_FULL = ''FULL''"
| "coverage_value CV_PARTIAL = ''PARTIAL''"
| "coverage_value CV_LIMITED = ''LIMITED''"
| "coverage_value CV_NONE = ''NONE''"
| "coverage_value CV_UNKNOWN = ''UNKNOWN''"

fun dependency_state_value :: "DependencyState \<Rightarrow> string" where
  "dependency_state_value DP_HEALTHY = ''HEALTHY''"
| "dependency_state_value DP_DEGRADED = ''DEGRADED''"
| "dependency_state_value DP_FAILED = ''FAILED''"
| "dependency_state_value DP_UNAVAILABLE = ''UNAVAILABLE''"
| "dependency_state_value DP_UNKNOWN = ''UNKNOWN''"
| "dependency_state_value DP_NOT_APPLICABLE = ''NOT_APPLICABLE''"

fun permission_value :: "PermissionState \<Rightarrow> string" where
  "permission_value PM_GRANTED = ''GRANTED''"
| "permission_value PM_DENIED = ''DENIED''"
| "permission_value PM_REVOKED = ''REVOKED''"
| "permission_value PM_UNKNOWN = ''UNKNOWN''"
| "permission_value PM_UNSUPPORTED = ''UNSUPPORTED''"
| "permission_value PM_PENDING = ''PENDING''"
| "permission_value PM_USER_ACTION_REQUIRED = ''USER_ACTION_REQUIRED''"

fun recovery_level_value :: "RecoveryLevel \<Rightarrow> string" where
  "recovery_level_value RL_OBSERVE = ''OBSERVE''"
| "recovery_level_value RL_RETRY = ''RETRY''"
| "recovery_level_value RL_RECONNECT = ''RECONNECT''"
| "recovery_level_value RL_REINITIALIZE = ''REINITIALIZE''"
| "recovery_level_value RL_RESTART_WORKER = ''RESTART_WORKER''"
| "recovery_level_value RL_RESTART_SENSOR = ''RESTART_SENSOR''"
| "recovery_level_value RL_REQUEST_WATCHDOG = ''REQUEST_WATCHDOG''"
| "recovery_level_value RL_OPERATOR_REQUIRED = ''OPERATOR_REQUIRED''"

definition jopt :: "('a \<Rightarrow> json) \<Rightarrow> 'a option \<Rightarrow> json" where
  "jopt f v = (case v of None \<Rightarrow> JNull | Some x \<Rightarrow> f x)"

definition dependency_dict :: "(datetime \<Rightarrow> string) \<Rightarrow> SensorDependency \<Rightarrow> json" where
  "dependency_dict isof v = JObj [
     (''dependency_id'', JStr (dependency_id v)),
     (''required'', JBool (required v)),
     (''state'', JStr (dependency_state_value (sd_state v))),
     (''reason'', JStr (sd_reason v)),
     (''latency_ms'', jopt JFloat (sd_latency_ms v)),
     (''last_checked'', jopt (JStr \<circ> isof) (sd_last_checked v)),
     (''affected_capabilities'', JList (map JStr (affected_capabilities v)))]"

definition capability_dict :: "CapabilityHealth \<Rightarrow> json" where
  "capability_dict v = JObj [
     (''capability_id'', JStr (capability_id v)),
     (''coverage'', JStr (coverage_value (coverage v))),
     (''reason'', JStr (ch_reason v)),
     (''fallback'', JStr (fallback v)),
     (''confidence'', JStr (ch_confidence v))]"

definition rules_dict :: "(datetime \<Rightarrow> string) \<Rightarrow> RuleHealth \<Rightarrow> json" where
  "rules_dict isof v = JObj [
     (''expected'', JInt (ru_expected v)),
     (''loaded'', JInt (ru_loaded v)),
     (''failed'', JInt (ru_failed v)),
     (''disabled'', JInt (ru_disabled v)),
     (''expired'', JInt (ru_expired v)),
     (''invalid'', JInt (ru_invalid v)),
     (''version'', JStr (ru_version v)),
     (''ruleset_hash'', JStr (ru_ruleset_hash v)),
     (''last_reload'', jopt (JStr \<circ> isof) (ru_last_reload v))]"

definition resources_dict :: "ResourceMetrics \<Rightarrow> json" where
  "resources_dict v = JObj [
     (''cpu_percent'', jopt JFloat (cpu_percent v)),
     (''rss_bytes'', jopt JInt (rss_bytes v)),
     (''rss_growth_bytes'', jopt JInt (rss_growth_bytes v)),
     (''thread_count'', jopt JInt (thread_count v)),
     (''open_descriptors'', jopt JInt (open_descriptors v)),
     (''descriptor_limit'', jopt JInt (descriptor_limit v)),
     (''free_disk_bytes'', jopt JInt (free_disk_bytes v)),
     (''free_disk_percent'', jopt JFloat (free_disk_percent v)),
     (''database_latency_ms'', jopt JFloat (database_latency_ms v)),
     (''ipc_latency_ms'', jopt JFloat (ipc_latency_ms v))]"

definition self_test_dict :: "(datetime \<Rightarrow> string) \<Rightarrow> SelfTestResult \<Rightarrow> json" where
  "self_test_dict isof v = JObj [
     (''passed'', JBool (st_passed v)),
     (''test_id'', JStr (st_test_id v)),
     (''reason'', JStr (st_reason v)),
     (''latency_ms'', jopt JFloat (st_latency_ms v)),
     (''canary_id'', JStr (st_canary_id v)),
     (''stages'', JList (map JStr (st_stages v))),
     (''completed_at'', JStr (isof (st_completed_at v)))]"

definition snapshot_to_dict :: "(datetime \<Rightarrow> string) \<Rightarrow> SensorHealthSnapshot \<Rightarrow> json_object" where
  "snapshot_to_dict isof v = [
     (''sensor_id'', JStr (sensor_id v)),
     (''sensor_version'', JStr (sensor_version v)),
     (''instance_uuid'', JStr (instance_uuid v)),
     (''pid'', jopt JInt (pid v)),
     (''process_alive'', JBool (process_alive v)),
     (''initialized'', JBool (initialized v)),
     (''state'', JStr (sensor_state_value (state v))),
     (''health_score'', JInt (health_score v)),
     (''reason_code'', JStr (reason_code_value (reason_code v))),
     (''reason'', JStr (reason v)),
     (''process_health'', JStr (sensor_state_value (process_health v))),
     (''collection_health'', JStr (sensor_state_value (collection_health v))),
     (''processing_health'', JStr (sensor_state_value (processing_health v))),
     (''delivery_health'', JStr (sensor_state_value (delivery_health v))),
     (''storage_health'', JStr (sensor_state_value (storage_health v))),
     (''dependency_health'', JStr (sensor_state_value (dependency_health v))),
     (''permission_health'', JStr (sensor_state_value (permission_health v))),
     (''configuration_health'', JStr (sensor_state_value (configuration_health v))),
     (''rule_health'', JStr (sensor_state_value (rule_health v))),
     (''last_process_heartbeat'', jopt (JStr \<circ> isof) (last_process_heartbeat v)),
     (''last_collection_activity'', jopt (JStr \<circ> isof) (last_collection_activity v)),
     (''last_processing_activity'', jopt (JStr \<circ> isof) (last_processing_activity v)),
     (''last_delivery_activity'', jopt (JStr \<circ> isof) (last_delivery_activity v)),
     (''last_persistence_activity'', jopt (JStr \<circ> isof) (last_persistence_activity v)),
     (''events_received_total'', JInt (events_received_total v)),
     (''events_processed_total'', JInt (events_processed_total v)),
     (''events_delivered_total'', JInt (events_delivered_total v)),
     (''events_persisted_total'', JInt (events_persisted_total v)),
     (''events_ignored_total'', JInt (events_ignored_total v)),
     (''events_filtered_total'', JInt (events_filtered_total v)),
     (''events_dropped_total'', JInt (events_dropped_total v)),
     (''events_failed_total'', JInt (events_failed_total v)),
     (''events_duplicate_total'', JInt (events_duplicate_total v)),
     (''events_rejected_total'', JInt (events_rejected_total v)),
     (''processing_latency_ms'', jopt JFloat (processing_latency_ms v)),
     (''queue_depth'', JInt (queue_depth v)),
     (''queue_capacity'', JInt (queue_capacity v)),
     (''oldest_event_age_seconds'', jopt JFloat (oldest_event_age_seconds v)),
     (''ingestion_rate'', jopt JFloat (ingestion_rate v)),
     (''processing_rate'', jopt JFloat (processing_rate v)),
     (''drop_rate'', jopt JFloat (drop_rate v)),
     (''peak_queue_depth'', JInt (peak_queue_depth v)),
     (''average_queue_depth'', JFloat (average_queue_depth v)),
     (''backpressure_duration_seconds'', JFloat (backpressure_duration_seconds v)),
     (''error_count'', JInt (error_count v)),
     (''consecutive_error_count'', JInt (consecutive_error_count v)),
     (''restart_count'', JInt (restart_count v)),
     (''worker_sequence'', JInt (worker_sequence v)),
     (''permission_state'', JStr (permission_value (permission_state v))),
     (''configuration_hash'', JStr (configuration_hash v)),
     (''expected_configuration_hash'', JStr (expected_configuration_hash v)),
     (''dependencies'', JList (map (dependency_dict isof) (dependencies v))),
     (''capabilities'', JList (map capability_dict (capabilities v))),
     (''rules'', rules_dict isof (rules v)),
     (''resources'', resources_dict (resources v)),
     (''last_self_test'', jopt (self_test_dict isof) (last_self_test v)),
     (''fallback_mode'', JStr (fallback_mode v)),
     (''lost_capabilities'', JList (map JStr (lost_capabilities v))),
     (''retained_capabilities'', JList (map JStr (retained_capabilities v))),
     (''operator_action_required'', JBool (operator_action_required v)),
     (''remediation'', JStr (remediation v)),
     (''sampled_at'', JStr (isof (sampled_at v))),
     (''monotonic_sample'', JFloat (monotonic_sample v)),
     (''metadata'', JObj (metadata v))]"

text \<open>\<open>asdict(item) | {"coverage": item.coverage.value}\<close> is the dictionary of the capability.\<close>

definition root_cause_dict :: "root_cause \<Rightarrow> json" where
  "root_cause_dict v = JObj [(''dependency'', JStr (rc_dependency v)),
     (''affected_sensors'', JList (map JStr (rc_affected_sensors v))),
     (''affected_count'', JInt (int (rc_affected_count v)))]"

definition report_to_dict :: "(datetime \<Rightarrow> string) \<Rightarrow> PlatformHealthReport \<Rightarrow> json_object" where
  "report_to_dict isof v = [
     (''schema_version'', JStr ''1.0''),
     (''overall_health'', JStr (platform_state_value (overall_health v))),
     (''generated_at'', JStr (isof (generated_at v))),
     (''required_sensors_healthy'', JInt (int (required_healthy v))),
     (''required_sensors_total'', JInt (int (required_total v))),
     (''degraded_sensors'', JInt (int (degraded_count v))),
     (''failed_sensors'', JInt (int (failed_count v))),
     (''active_recovery_actions'', JInt (int (active_recoveries v))),
     (''coverage'', JList (map capability_dict (report_coverage v))),
     (''root_causes'', JList (map root_cause_dict (root_causes v))),
     (''manager_health'', JObj (manager_health v)),
     (''sensors'', JList (map (JObj \<circ> snapshot_to_dict isof) (report_sensors v)))]"

section \<open>Tables\<close>

record store_env =
  env_sha :: "string \<Rightarrow> string"
  env_dumps :: "json_object \<Rightarrow> string"
  env_iso :: "datetime \<Rightarrow> string"
  env_stamp :: string

record current_row =
  cu_state :: string
  cu_health_score :: int
  cu_reason_code :: string
  cu_last_heartbeat :: json
  cu_last_event :: json
  cu_last_successful_check :: string
  cu_updated_at :: string
  cu_snapshot :: json_object

record history_row =
  hi_sensor_id :: string
  hi_previous_state :: string
  hi_new_state :: string
  hi_reason_code :: string
  hi_severity :: string
  hi_details :: json_object
  hi_occurred_at :: string
  hi_previous_hash :: string
  hi_record_hash :: string

record incident_row =
  in_incident_id :: string
  in_sensor_id :: string
  in_reason_code :: string
  in_state :: string
  in_severity :: string
  in_root_cause :: string
  in_first_seen :: string
  in_last_seen :: string
  in_occurrence_count :: int
  in_affected :: "string list"
  in_metrics :: json_object
  in_active :: bool
  in_resolved_at :: string

record recovery_row =
  re_sensor_id :: string
  re_recovery_type :: string
  re_reason_code :: string
  re_result :: string
  re_details :: json_object
  re_started_at :: string
  re_completed_at :: string

record dependency_row =
  dr_state :: string
  dr_required :: bool
  dr_reason :: string
  dr_latency_ms :: "pyfloat option"
  dr_last_checked :: "string option"
  dr_updated_at :: string

record SensorHealthStore =
  st_current :: "(string, current_row) odict"
  st_history :: "history_row list"
  st_incidents :: "incident_row list"
  st_recoveries :: "recovery_row list"
  st_dependencies :: "(string \<times> string, dependency_row) odict"
  st_manager :: "(string, json_object) odict"

definition empty_store :: SensorHealthStore where
  "empty_store = \<lparr> st_current = [], st_history = [], st_incidents = [], st_recoveries = [],
     st_dependencies = [], st_manager = [] \<rparr>"

section \<open>Operations\<close>

definition current_snapshot :: "string \<Rightarrow> SensorHealthStore \<Rightarrow> json_object option" where
  "current_snapshot sid t = map_option cu_snapshot (map_of (st_current t) sid)"

definition current_snapshots :: "SensorHealthStore \<Rightarrow> json_object list" where
  "current_snapshots t = map (cu_snapshot \<circ> snd) (sort_key fst (st_current t))"

definition severity_of :: "SensorHealthSnapshot \<Rightarrow> string" where
  "severity_of s =
     (if state s \<in> {FAILED, UNAVAILABLE, PERMISSION_BLOCKED} then ''CRITICAL''
      else if state s \<in> {IMPAIRED, DEPENDENCY_FAILED, CONFIGURATION_ERROR} then ''HIGH''
      else if state s \<in> {DEGRADED, BACKPRESSURED, STALE} then ''MEDIUM''
      else ''INFO'')"

definition root_dependency :: "SensorHealthSnapshot \<Rightarrow> string" where
  "root_dependency s =
     (case find (\<lambda>d. required d \<and> dependency_state_value (sd_state d) \<in> {''FAILED'', ''UNAVAILABLE''})
        (dependencies s) of None \<Rightarrow> '''' | Some d \<Rightarrow> dependency_id d)"

definition transition_of :: "SensorState \<Rightarrow> SensorHealthSnapshot \<Rightarrow> HealthTransition" where
  "transition_of prior s = \<lparr> ht_event_type = ''sensor_health_transition'', ht_sensor_id = sensor_id s,
     ht_timestamp = sampled_at s, ht_previous_state = prior, ht_current_state = state s,
     ht_reason_code = reason_code s, ht_reason = reason s, ht_severity = severity_of s,
     ht_affected_capabilities = map capability_id (filter (\<lambda>c. coverage_value (coverage c) \<noteq> ''FULL'') (capabilities s)),
     ht_metrics = [(''queue_depth'', JInt (queue_depth s)), (''queue_capacity'', JInt (queue_capacity s)),
       (''processing_latency_ms'', jopt JFloat (processing_latency_ms s)),
       (''events_dropped'', JInt (events_dropped_total s))],
     ht_automatic_recovery_attempted = False, ht_root_cause_dependency = root_dependency s \<rparr>"

definition transition_details :: "store_env \<Rightarrow> HealthTransition \<Rightarrow> json_object" where
  "transition_details env h = [
     (''event_type'', JStr (ht_event_type h)), (''sensor_id'', JStr (ht_sensor_id h)),
     (''timestamp'', JStr (env_iso env (ht_timestamp h))),
     (''previous_state'', JStr (sensor_state_value (ht_previous_state h))),
     (''current_state'', JStr (sensor_state_value (ht_current_state h))),
     (''reason_code'', JStr (reason_code_value (ht_reason_code h))), (''reason'', JStr (ht_reason h)),
     (''severity'', JStr (ht_severity h)),
     (''affected_capabilities'', JList (map JStr (ht_affected_capabilities h))),
     (''metrics'', JObj (ht_metrics h)),
     (''automatic_recovery_attempted'', JBool (ht_automatic_recovery_attempted h)),
     (''root_cause_dependency'', JStr (ht_root_cause_dependency h))]"

definition last_record_hash :: "SensorHealthStore \<Rightarrow> string" where
  "last_record_hash t = (if st_history t = [] then replicate 64 (CHR ''0'') else hi_record_hash (last (st_history t)))"

text \<open>The column \<open>record_hash\<close> is unique.\<close>

definition record_transition ::
  "store_env \<Rightarrow> HealthTransition \<Rightarrow> SensorHealthStore \<Rightarrow> py_error option \<times> SensorHealthStore" where
  "record_transition env h t =
     (let prev = last_record_hash t;
          details = transition_details env h;
          digest = env_sha env (prev @ env_dumps env (canonical details));
          row = \<lparr> hi_sensor_id = ht_sensor_id h, hi_previous_state = sensor_state_value (ht_previous_state h),
            hi_new_state = sensor_state_value (ht_current_state h),
            hi_reason_code = reason_code_value (ht_reason_code h), hi_severity = ht_severity h,
            hi_details = canonical details, hi_occurred_at = env_iso env (ht_timestamp h),
            hi_previous_hash = prev, hi_record_hash = digest \<rparr>
      in if digest \<in> set (map hi_record_hash (st_history t)) then
           (Some (IntegrityError ''UNIQUE constraint failed: sensor_health_history.record_hash''), t)
         else (None, t\<lparr>st_history := st_history t @ [row]\<rparr>))"

text \<open>The incidents an \<open>UPDATE ... WHERE sensor_id=? AND active=1\<close> closes.\<close>

definition resolve_incidents :: "string \<Rightarrow> string \<Rightarrow> incident_row list \<Rightarrow> incident_row list" where
  "resolve_incidents sid stamp is = map (\<lambda>i. if in_sensor_id i = sid \<and> in_active i
     then i\<lparr>in_active := False, in_resolved_at := stamp, in_last_seen := stamp\<rparr> else i) is"

definition incident_key :: "incident_row \<Rightarrow> string \<times> string \<times> string" where
  "incident_key i = (in_sensor_id i, in_reason_code i, in_root_cause i)"

definition transition_key :: "HealthTransition \<Rightarrow> string \<times> string \<times> string" where
  "transition_key h = (ht_sensor_id h, reason_code_value (ht_reason_code h), ht_root_cause_dependency h)"

definition update_incident ::
  "store_env \<Rightarrow> HealthTransition \<Rightarrow> SensorHealthStore \<Rightarrow> py_error option \<times> SensorHealthStore" where
  "update_incident env h t =
     (let stamp = env_iso env (ht_timestamp h) in
      if ht_current_state h \<in> {HEALTHY, HEALTHY_IDLE, HEALTHY_WITH_WARNINGS} then
        (None, t\<lparr>st_incidents := resolve_incidents (ht_sensor_id h) stamp (st_incidents t)\<rparr>)
      else
        (case find (\<lambda>i. incident_key i = transition_key h \<and> in_active i) (st_incidents t) of
           Some row \<Rightarrow>
             (None, t\<lparr>st_incidents := map (\<lambda>i. if in_incident_id i = in_incident_id row
                then i\<lparr>in_last_seen := stamp, in_occurrence_count := in_occurrence_count row + 1,
                       in_state := sensor_state_value (ht_current_state h), in_severity := ht_severity h,
                       in_metrics := canonical (ht_metrics h)\<rparr> else i) (st_incidents t)\<rparr>)
         | None \<Rightarrow>
             (let (sid, code, dep) = transition_key h;
                  iid = take 24 (env_sha env (str_join ''|'' [sid, code, dep] @ stamp));
                  row = \<lparr> in_incident_id = iid, in_sensor_id = sid, in_reason_code = code,
                    in_state = sensor_state_value (ht_current_state h), in_severity = ht_severity h,
                    in_root_cause = dep, in_first_seen = stamp, in_last_seen = stamp, in_occurrence_count = 1,
                    in_affected = ht_affected_capabilities h, in_metrics = canonical (ht_metrics h),
                    in_active = True, in_resolved_at = '''' \<rparr>
              in if iid \<in> set (map in_incident_id (st_incidents t)) then
                   (Some (IntegrityError ''UNIQUE constraint failed: sensor_health_incidents.incident_id''), t)
                 else (None, t\<lparr>st_incidents := st_incidents t @ [row]\<rparr>))))"

definition store_current_row ::
  "store_env \<Rightarrow> SensorHealthSnapshot \<Rightarrow> SensorHealthStore \<Rightarrow> SensorHealthStore" where
  "store_current_row env s t =
     (let payload = snapshot_to_dict (env_iso env) s in
      t\<lparr>st_current := AList.update (sensor_id s) \<lparr> cu_state = sensor_state_value (state s),
          cu_health_score = health_score s, cu_reason_code = reason_code_value (reason_code s),
          cu_last_heartbeat = od_get payload ''last_process_heartbeat'' JNull,
          cu_last_event = od_get payload ''last_collection_activity'' JNull,
          cu_last_successful_check = env_iso env (sampled_at s), cu_updated_at = env_stamp env,
          cu_snapshot = canonical payload \<rparr> (st_current t)\<rparr>)"

definition store_dependency ::
  "store_env \<Rightarrow> string \<Rightarrow> SensorDependency \<Rightarrow> SensorHealthStore \<Rightarrow> SensorHealthStore" where
  "store_dependency env sid d t =
     t\<lparr>st_dependencies := AList.update (sid, dependency_id d)
        \<lparr> dr_state = dependency_state_value (sd_state d), dr_required = required d,
          dr_reason = sd_reason d, dr_latency_ms = sd_latency_ms d,
          dr_last_checked = map_option (env_iso env) (sd_last_checked d),
          dr_updated_at = env_stamp env \<rparr> (st_dependencies t)\<rparr>"

text \<open>One iteration of \<open>persist_report\<close>; an error leaves the statements executed so far in the
  open transaction.\<close>

definition persist_snapshot :: "store_env \<Rightarrow> (string, SensorState) odict \<Rightarrow> SensorHealthSnapshot \<Rightarrow>
  SensorHealthStore \<Rightarrow> HealthTransition list py \<times> SensorHealthStore" where
  "persist_snapshot env previous s t =
     (let prior = od_get previous (sensor_id s) UNKNOWN;
          t1 = fold (store_dependency env (sensor_id s)) (dependencies s) (store_current_row env s t) in
      if prior = state s then (Inr [], t1)
      else
        (let h = transition_of prior s in
         case record_transition env h t1 of
           (Some e, t2) \<Rightarrow> (Inl e, t2)
         | (None, t2) \<Rightarrow>
             (case update_incident env h t2 of
                (Some e, t3) \<Rightarrow> (Inl e, t3)
              | (None, t3) \<Rightarrow> (Inr [h], t3))))"

fun persist_snapshots :: "store_env \<Rightarrow> (string, SensorState) odict \<Rightarrow> SensorHealthSnapshot list \<Rightarrow>
  SensorHealthStore \<Rightarrow> HealthTransition list py \<times> SensorHealthStore" where
  "persist_snapshots env previous [] t = (Inr [], t)"
| "persist_snapshots env previous (s # ss) t =
     (case persist_snapshot env previous s t of
        (Inl e, t') \<Rightarrow> (Inl e, t')
      | (Inr hs, t') \<Rightarrow>
          (case persist_snapshots env previous ss t' of
             (Inl e, t'') \<Rightarrow> (Inl e, t'')
           | (Inr hs', t'') \<Rightarrow> (Inr (hs @ hs'), t'')))"

definition set_manager_state :: "string \<Rightarrow> json_object \<Rightarrow> SensorHealthStore \<Rightarrow> SensorHealthStore" where
  "set_manager_state k v t = t\<lparr>st_manager := AList.update k (canonical v) (st_manager t)\<rparr>"

text \<open>A document with the single key \<open>value\<close> stands for its value.\<close>

definition get_manager_state :: "string \<Rightarrow> json \<Rightarrow> SensorHealthStore \<Rightarrow> json" where
  "get_manager_state k d t =
     (case map_of (st_manager t) k of None \<Rightarrow> d
      | Some payload \<Rightarrow> if set (od_keys payload) = {''value''} then od_get payload ''value'' JNull else JObj payload)"

definition persist_report :: "store_env \<Rightarrow> PlatformHealthReport \<Rightarrow> (string, SensorState) odict \<Rightarrow>
  SensorHealthStore \<Rightarrow> HealthTransition list py \<times> SensorHealthStore" where
  "persist_report env r previous t =
     (case persist_snapshots env previous (report_sensors r) t of
        (Inl e, t') \<Rightarrow> (Inl e, t')
      | (Inr hs, t') \<Rightarrow> (Inr hs, set_manager_state ''latest_platform_report'' (report_to_dict (env_iso env) r) t'))"

definition record_recovery :: "store_env \<Rightarrow> string \<Rightarrow> string \<Rightarrow> RecoveryResult \<Rightarrow> datetime \<Rightarrow>
  SensorHealthStore \<Rightarrow> SensorHealthStore" where
  "record_recovery env sid code r started t =
     t\<lparr>st_recoveries := st_recoveries t @ [\<lparr> re_sensor_id = sid,
        re_recovery_type = recovery_level_value (rs_action r), re_reason_code = code,
        re_result = (if rs_succeeded r then ''succeeded'' else if rs_attempted r then ''failed'' else ''not_attempted''),
        re_details = canonical [(''detail'', JStr (rs_detail r)), (''requires_operator'', JBool (rs_requires_operator r)),
          (''verification_required'', JBool (rs_verification_required r))],
        re_started_at = env_iso env started, re_completed_at = env_stamp env \<rparr>]\<rparr>"

text \<open>\<open>history\<close> and \<open>recoveries\<close>: the newest rows first, at most 1000.\<close>

definition clamp_limit :: "int \<Rightarrow> nat" where
  "clamp_limit n = nat (max 1 (min 1000 n))"

definition history :: "string \<Rightarrow> int \<Rightarrow> SensorHealthStore \<Rightarrow> history_row list" where
  "history sid n t = take (clamp_limit n)
     (rev (filter (\<lambda>r. sid = '''' \<or> hi_sensor_id r = sid) (st_history t)))"

definition recoveries :: "string \<Rightarrow> int \<Rightarrow> SensorHealthStore \<Rightarrow> recovery_row list" where
  "recoveries sid n t = take (clamp_limit n)
     (rev (filter (\<lambda>r. sid = '''' \<or> re_sensor_id r = sid) (st_recoveries t)))"

section \<open>Incidents\<close>

definition incidents_ok :: "incident_row list \<Rightarrow> bool" where
  "incidents_ok is \<longleftrightarrow> distinct (map in_incident_id is) \<and> distinct (map incident_key (filter in_active is))"

lemma map_update_row:
  assumes "\<And>i. P i \<Longrightarrow> f (g i) = f i"
  shows "map f (map (\<lambda>i. if P i then g i else i) is) = map f is"
  using assms by simp

lemma resolve_active:
  "filter in_active (resolve_incidents sid stamp is) = filter (\<lambda>i. in_active i \<and> in_sensor_id i \<noteq> sid) is"
  by (induction "is") (auto simp: resolve_incidents_def)

lemma resolve_ok: "incidents_ok is \<Longrightarrow> incidents_ok (resolve_incidents sid stamp is)"
proof -
  assume ok: "incidents_ok is"
  have "map in_incident_id (resolve_incidents sid stamp is) = map in_incident_id is"
    by (simp add: resolve_incidents_def)
  moreover have "distinct (map incident_key (filter (\<lambda>i. in_active i \<and> in_sensor_id i \<noteq> sid) is))"
    using ok distinct_map_filter [of incident_key "filter in_active is" "\<lambda>i. in_sensor_id i \<noteq> sid"]
    by (simp add: incidents_ok_def conj_commute)
  ultimately show ?thesis using ok by (simp add: incidents_ok_def resolve_active)
qed

lemma refresh_ok:
  assumes "incidents_ok is"
    and "\<And>i. in_incident_id (g i) = in_incident_id i \<and> incident_key (g i) = incident_key i \<and> in_active (g i) = in_active i"
  shows "incidents_ok (map (\<lambda>i. if P i then g i else i) is)"
proof -
  have "map incident_key (filter in_active (map (\<lambda>i. if P i then g i else i) is)) = map incident_key (filter in_active is)"
    using assms(2) by (induction "is") auto
  moreover have "map in_incident_id (map (\<lambda>i. if P i then g i else i) is) = map in_incident_id is"
    using assms(2) by (simp add: map_update_row)
  ultimately show ?thesis using assms(1) by (simp only: incidents_ok_def)
qed

lemma update_incident_ok:
  assumes "incidents_ok (st_incidents t)" and "update_incident env h t = (e, t')"
  shows "incidents_ok (st_incidents t')"
proof -
  consider (healthy) "ht_current_state h \<in> {HEALTHY, HEALTHY_IDLE, HEALTHY_WITH_WARNINGS}"
    | (known) row where "ht_current_state h \<notin> {HEALTHY, HEALTHY_IDLE, HEALTHY_WITH_WARNINGS}"
        "find (\<lambda>i. incident_key i = transition_key h \<and> in_active i) (st_incidents t) = Some row"
    | (fresh) "ht_current_state h \<notin> {HEALTHY, HEALTHY_IDLE, HEALTHY_WITH_WARNINGS}"
        "find (\<lambda>i. incident_key i = transition_key h \<and> in_active i) (st_incidents t) = None"
    by (cases "find (\<lambda>i. incident_key i = transition_key h \<and> in_active i) (st_incidents t)") auto
  then show ?thesis
  proof cases
    case healthy
    with assms show ?thesis by (auto simp: update_incident_def Let_def resolve_ok)
  next
    case known
    with assms show ?thesis
      by (auto simp: update_incident_def Let_def incident_key_def intro!: refresh_ok)
  next
    case fresh
    then have "transition_key h \<notin> set (map incident_key (filter in_active (st_incidents t)))"
      by (auto simp: find_None_iff)
    with assms fresh show ?thesis
      by (auto simp: update_incident_def Let_def incidents_ok_def incident_key_def transition_key_def
          split: if_splits)
  qed
qed

lemma healthy_resolves:
  assumes "ht_current_state h \<in> {HEALTHY, HEALTHY_IDLE, HEALTHY_WITH_WARNINGS}" "update_incident env h t = (e, t')"
  shows "e = None" "\<forall>i \<in> set (st_incidents t'). in_sensor_id i = ht_sensor_id h \<longrightarrow> \<not> in_active i"
  using assms by (auto simp: update_incident_def Let_def resolve_incidents_def)

section \<open>What persisting a report does\<close>

lemma store_dependency_fields [simp]:
  "st_current (store_dependency env sid d t) = st_current t"
  "st_history (store_dependency env sid d t) = st_history t"
  "st_incidents (store_dependency env sid d t) = st_incidents t"
  "st_recoveries (store_dependency env sid d t) = st_recoveries t"
  "st_manager (store_dependency env sid d t) = st_manager t"
  by (simp_all add: store_dependency_def)

lemma store_dependencies_fields [simp]:
  "st_current (fold (store_dependency env sid) ds t) = st_current t"
  "st_history (fold (store_dependency env sid) ds t) = st_history t"
  "st_incidents (fold (store_dependency env sid) ds t) = st_incidents t"
  "st_recoveries (fold (store_dependency env sid) ds t) = st_recoveries t"
  "st_manager (fold (store_dependency env sid) ds t) = st_manager t"
  by (induction ds arbitrary: t) simp_all

lemma store_current_row_fields [simp]:
  "st_history (store_current_row env s t) = st_history t"
  "st_incidents (store_current_row env s t) = st_incidents t"
  "st_recoveries (store_current_row env s t) = st_recoveries t"
  "st_manager (store_current_row env s t) = st_manager t"
  "st_dependencies (store_current_row env s t) = st_dependencies t"
  by (simp_all add: store_current_row_def Let_def)

lemma update_incident_fields:
  "update_incident env h t = (e, t') \<Longrightarrow> st_history t' = st_history t \<and> st_current t' = st_current t \<and>
     st_manager t' = st_manager t"
  by (auto simp: update_incident_def Let_def split: if_splits option.splits prod.splits)

lemma record_transition_fields:
  "record_transition env h t = (e, t') \<Longrightarrow> st_incidents t' = st_incidents t \<and> st_current t' = st_current t \<and>
     st_manager t' = st_manager t"
  by (auto simp: record_transition_def Let_def split: if_splits)

subsection \<open>The chain of transitions\<close>

text \<open>A row continues the chain from hash \<open>p\<close> when it names \<open>p\<close> and its own hash covers it.\<close>

definition history_row_ok :: "store_env \<Rightarrow> nat \<Rightarrow> string \<Rightarrow> history_row \<Rightarrow> bool" where
  "history_row_ok env n p r \<longleftrightarrow> hi_previous_hash r = p \<and> hi_record_hash r = env_sha env (p @ env_dumps env (hi_details r))"

fun history_chained :: "store_env \<Rightarrow> nat \<Rightarrow> string \<Rightarrow> history_row list \<Rightarrow> bool" where
  "history_chained env n p [] = True"
| "history_chained env n p (r # rs) = (history_row_ok env n p r \<and> history_chained env (Suc n) (hi_record_hash r) rs)"

interpretation hc: hash_chain "history_row_ok env" hi_record_hash "history_chained env"
  by unfold_locales simp_all

abbreviation genesis :: string where
  "genesis \<equiv> replicate 64 (CHR ''0'')"

lemma record_transition_chained:
  assumes "history_chained env 0 genesis (st_history t)" and "record_transition env h t = (e, t')"
  shows "history_chained env 0 genesis (st_history t')"
    "e = None \<Longrightarrow> \<exists>r. st_history t' = st_history t @ [r] \<and> hi_details r = canonical (transition_details env h)"
    "e \<noteq> None \<Longrightarrow> st_history t' = st_history t"
  using assms
  by (auto simp: record_transition_def Let_def hc.verify_snoc history_row_ok_def last_record_hash_def
      split: if_splits)

definition changed :: "(string, SensorState) odict \<Rightarrow> SensorHealthSnapshot \<Rightarrow> bool" where
  "changed previous s \<longleftrightarrow> od_get previous (sensor_id s) UNKNOWN \<noteq> state s"

definition transitions_of :: "(string, SensorState) odict \<Rightarrow> SensorHealthSnapshot list \<Rightarrow> HealthTransition list" where
  "transitions_of previous ss =
     map (\<lambda>s. transition_of (od_get previous (sensor_id s) UNKNOWN) s) (filter (changed previous) ss)"

text \<open>What every persisting operation keeps of a store: the chain and the incidents.\<close>

definition store_ok :: "store_env \<Rightarrow> SensorHealthStore \<Rightarrow> bool" where
  "store_ok env t \<longleftrightarrow> history_chained env 0 genesis (st_history t) \<and> incidents_ok (st_incidents t)"

lemma persist_snapshot_steps:
  assumes ok: "store_ok env t" and p: "persist_snapshot env previous s t = (res, t')"
  shows "store_ok env t'"
    and "res = Inr hs \<Longrightarrow> hs = transitions_of previous [s] \<and>
      (\<exists>rows. st_history t' = st_history t @ rows \<and>
         map hi_details rows = map (canonical \<circ> transition_details env) hs)"
    and "st_current t' = st_current (store_current_row env s t)"
proof -
  let ?t1 = "fold (store_dependency env (sensor_id s)) (dependencies s) (store_current_row env s t)"
  let ?h = "transition_of (od_get previous (sensor_id s) UNKNOWN) s"
  have ok1: "store_ok env ?t1" using ok by (simp add: store_ok_def)
  have "store_ok env t' \<and> (res = Inr hs \<longrightarrow> hs = transitions_of previous [s] \<and>
      (\<exists>rows. st_history t' = st_history t @ rows \<and>
         map hi_details rows = map (canonical \<circ> transition_details env) hs)) \<and>
      st_current t' = st_current (store_current_row env s t)"
  proof (cases "changed previous s")
    case False
    with p ok1 show ?thesis
      by (auto simp: persist_snapshot_def Let_def changed_def transitions_of_def)
  next
    case True
    obtain e2 t2 where r: "record_transition env ?h ?t1 = (e2, t2)" by (meson surj_pair)
    obtain e3 t3 where u: "update_incident env ?h t2 = (e3, t3)" by (meson surj_pair)
    note rc = record_transition_chained [OF _ r] and rf = record_transition_fields [OF r]
    note uf = update_incident_fields [OF u]
    have ok2: "store_ok env t2" using ok1 rc(1) rf by (simp add: store_ok_def)
    have ok3: "store_ok env t3" using ok2 uf update_incident_ok [OF _ u] by (simp add: store_ok_def)
    have res: "res = (case e2 of Some e \<Rightarrow> Inl e | None \<Rightarrow> (case e3 of Some e \<Rightarrow> Inl e | None \<Rightarrow> Inr [?h]))"
      "t' = (if e2 = None then t3 else t2)"
      using p True r u by (auto simp: persist_snapshot_def Let_def changed_def split: option.splits)
    show ?thesis
      using ok2 ok3 rf uf rc(2) ok1 True unfolding res
      by (auto simp: transitions_of_def store_ok_def split: option.splits)
  qed
  then show "store_ok env t'" "res = Inr hs \<Longrightarrow> hs = transitions_of previous [s] \<and>
      (\<exists>rows. st_history t' = st_history t @ rows \<and>
         map hi_details rows = map (canonical \<circ> transition_details env) hs)"
    "st_current t' = st_current (store_current_row env s t)" by blast+
qed

lemma persist_snapshots_steps:
  assumes "store_ok env t" and "persist_snapshots env previous ss t = (res, t')"
  shows "store_ok env t' \<and> (res = Inr hs \<longrightarrow> hs = transitions_of previous ss \<and>
      (\<exists>rows. st_history t' = st_history t @ rows \<and>
         map hi_details rows = map (canonical \<circ> transition_details env) hs) \<and>
      st_current t' = fold (\<lambda>s c. st_current (store_current_row env s (t\<lparr>st_current := c\<rparr>))) ss (st_current t))"
  using assms
proof (induction ss arbitrary: t t' res hs)
  case Nil
  then show ?case by (auto simp: transitions_of_def)
next
  case (Cons s ss)
  obtain r1 t1 where p1: "persist_snapshot env previous s t = (r1, t1)" by (meson surj_pair)
  note s1 = persist_snapshot_steps [OF Cons.prems(1) p1]
  show ?case
  proof (cases r1)
    case (Inl e)
    with Cons.prems(2) p1 s1(1) show ?thesis by auto
  next
    case (Inr h1)
    obtain r2 t2 where p2: "persist_snapshots env previous ss t1 = (r2, t2)" by (meson surj_pair)
    have t': "t' = t2" "res = (case r2 of Inl e \<Rightarrow> Inl e | Inr h2 \<Rightarrow> Inr (h1 @ h2))"
      using Cons.prems(2) p1 p2 Inr by (auto split: sum.splits)
    note s2 = Cons.IH [OF s1(1) p2]
    show ?thesis
    proof (cases r2)
      case (Inl e)
      with t' s2 show ?thesis by simp
    next
      case r2: (Inr h2)
      from s1(2) [OF Inr] obtain rows1 where 1: "h1 = transitions_of previous [s]" "st_history t1 = st_history t @ rows1"
        "map hi_details rows1 = map (canonical \<circ> transition_details env) h1" by blast
      from s2 [of h2] r2 obtain rows2 where 2: "h2 = transitions_of previous ss" "st_history t2 = st_history t1 @ rows2"
        "map hi_details rows2 = map (canonical \<circ> transition_details env) h2" "store_ok env t2"
        "st_current t2 = fold (\<lambda>s c. st_current (store_current_row env s (t1\<lparr>st_current := c\<rparr>))) ss (st_current t1)"
        by blast
      have "transitions_of previous (s # ss) = h1 @ h2" by (simp add: 1(1) 2(1) transitions_of_def)
      moreover have "st_history t' = st_history t @ (rows1 @ rows2)" by (simp add: t' 1(2) 2(2))
      moreover have "st_current t2 = fold (\<lambda>s c. st_current (store_current_row env s (t\<lparr>st_current := c\<rparr>))) (s # ss) (st_current t)"
        using 2(5) s1(3) by (simp add: store_current_row_def Let_def)
      ultimately show ?thesis
        using t' r2 1(3) 2(3,4) by (metis Inr_inject map_append sum.case(2))
    qed
  qed
qed


definition example_env :: store_env where
  "example_env = \<lparr> env_sha = id, env_dumps = (\<lambda>d. ''doc''), env_iso = (\<lambda>t. ''1970-01-01T00:00:00Z''),
     env_stamp = ''now'' \<rparr>"

lemma empty_store_ok: "store_ok env empty_store"
  by (simp add: store_ok_def empty_store_def incidents_ok_def)


text \<open>
  A cause that changes under an unchanged state leaves no trace: when a sensor is persisted in the
  state it had before, no transition is recorded and no incident is opened, updated or closed,
  whatever its reason, severity, dependencies or capabilities have become.
\<close>

theorem changed_cause_not_recorded:
  assumes "od_get previous (sensor_id s) UNKNOWN = state s"
  shows "\<exists>t'. persist_snapshot env previous s t = (Inr [], t') \<and> st_history t' = st_history t \<and>
    st_incidents t' = st_incidents t \<and> od_get (st_current t') (sensor_id s) row =
      od_get (st_current (store_current_row env s t)) (sensor_id s) row"
  using assms by (auto simp: persist_snapshot_def Let_def)

theorem changed_cause_not_recorded_witness:
  "\<exists>t'. persist_snapshot example_env [(''fs_sensor'', FAILED)] (state_snapshot FAILED RC_DATABASE_UNAVAILABLE)
     empty_store = (Inr [], t') \<and> st_incidents t' = []"
  using changed_cause_not_recorded [of "[(''fs_sensor'', FAILED)]" "state_snapshot FAILED RC_DATABASE_UNAVAILABLE"
      example_env empty_store]
  by (auto simp: od_get_def state_snapshot_def new_snapshot_def empty_store_def)

text \<open>
  Incidents open and close with transitions: a transition to a healthy state closes every
  active incident of the sensor, and a transition to any other state leaves exactly one active
  incident with its sensor, reason and root cause, which counts one more occurrence when it was
  active before.
\<close>

theorem incidents_follow_transitions:
  assumes "incidents_ok (st_incidents t)" and "update_incident env h t = (None, t')"
  shows "if ht_current_state h \<in> {HEALTHY, HEALTHY_IDLE, HEALTHY_WITH_WARNINGS}
    then \<forall>i \<in> set (st_incidents t'). in_sensor_id i = ht_sensor_id h \<longrightarrow> \<not> in_active i
    else \<exists>!i. i \<in> set (st_incidents t') \<and> in_active i \<and> incident_key i = transition_key h"
proof (cases "ht_current_state h \<in> {HEALTHY, HEALTHY_IDLE, HEALTHY_WITH_WARNINGS}")
  case True
  with healthy_resolves(2) [OF True assms(2)] show ?thesis by simp
next
  case False
  have "\<exists>i. i \<in> set (st_incidents t') \<and> in_active i \<and> incident_key i = transition_key h"
  proof (cases "find (\<lambda>i. incident_key i = transition_key h \<and> in_active i) (st_incidents t)")
    case None
    with False assms(2) show ?thesis
      by (force simp: update_incident_def Let_def incident_key_def transition_key_def split: if_splits)
  next
    case (Some row)
    then have "row \<in> set (st_incidents t)" "incident_key row = transition_key h" "in_active row"
      by (auto simp: find_Some_iff)
    moreover have "st_incidents t' = map (\<lambda>i. if in_incident_id i = in_incident_id row
        then i\<lparr>in_last_seen := env_iso env (ht_timestamp h), in_occurrence_count := in_occurrence_count row + 1,
               in_state := sensor_state_value (ht_current_state h), in_severity := ht_severity h,
               in_metrics := canonical (ht_metrics h)\<rparr> else i) (st_incidents t)"
      using False Some assms(2) by (auto simp: update_incident_def Let_def)
    ultimately show ?thesis
      by (intro exI [of _ "row\<lparr>in_last_seen := env_iso env (ht_timestamp h),
          in_occurrence_count := in_occurrence_count row + 1,
          in_state := sensor_state_value (ht_current_state h), in_severity := ht_severity h,
          in_metrics := canonical (ht_metrics h)\<rparr>"]) (force simp: incident_key_def)
  qed
  moreover have "i = j" if "i \<in> set (filter in_active (st_incidents t'))" "j \<in> set (filter in_active (st_incidents t'))"
      "incident_key i = incident_key j" for i j
    using update_incident_ok [OF assms] that unfolding incidents_ok_def distinct_map inj_on_def by blast
  ultimately show ?thesis using False by auto
qed

theorem incidents_follow_transitions_witness:
  "\<exists>!i. i \<in> set (st_incidents (snd (update_incident example_env
       (transition_of UNKNOWN (state_snapshot FAILED RC_PROCESS_NOT_RUNNING)) empty_store))) \<and> in_active i \<and>
     incident_key i = (''fs_sensor'', ''PROCESS_NOT_RUNNING'', '''')"
proof -
  let ?h = "transition_of UNKNOWN (state_snapshot FAILED RC_PROCESS_NOT_RUNNING)"
  have "\<exists>t'. update_incident example_env ?h empty_store = (None, t')"
    by (simp add: update_incident_def transition_of_def state_snapshot_def empty_store_def Let_def
        split: prod.split)
  then obtain t' where u: "update_incident example_env ?h empty_store = (None, t')" by blast
  have "incidents_ok (st_incidents empty_store)" by (simp add: empty_store_def incidents_ok_def)
  moreover have "ht_current_state ?h = FAILED" "transition_key ?h = (''fs_sensor'', ''PROCESS_NOT_RUNNING'', '''')"
    by (simp_all add: transition_of_def transition_key_def state_snapshot_def new_snapshot_def root_dependency_def)
  ultimately show ?thesis
    using incidents_follow_transitions [OF _ u] unfolding u snd_conv by simp
qed

end
