(* ===== verification/Health_Faults.thy ===== *)
theory Health_Faults
  imports Health_Evaluator
begin

text \<open>
  Fault injection for development (\<open>health/fault_injection.py\<close>). A set of faults is a list; the
  injected faults are applied to the snapshot in the order of the code.
\<close>

datatype fault = StaleHeartbeat | QueueSaturation | IpcFailure | PermissionLoss | DatabaseTimeout
  | RuleLoadFailure | DroppedEvents | ProcessingStall | MemoryPressure | DuplicateInstance

fun fault_name :: "fault \<Rightarrow> string" where
  "fault_name StaleHeartbeat = ''stale_heartbeat''"
| "fault_name QueueSaturation = ''queue_saturation''"
| "fault_name IpcFailure = ''ipc_failure''"
| "fault_name PermissionLoss = ''permission_loss''"
| "fault_name DatabaseTimeout = ''database_timeout''"
| "fault_name RuleLoadFailure = ''rule_load_failure''"
| "fault_name DroppedEvents = ''dropped_events''"
| "fault_name ProcessingStall = ''processing_stall''"
| "fault_name MemoryPressure = ''memory_pressure''"
| "fault_name DuplicateInstance = ''duplicate_instance''"

definition ALL_FAULTS :: "fault list" where
  "ALL_FAULTS = [StaleHeartbeat, QueueSaturation, IpcFailure, PermissionLoss, DatabaseTimeout,
     RuleLoadFailure, DroppedEvents, ProcessingStall, MemoryPressure, DuplicateInstance]"

definition SUPPORTED_FAULTS :: "string list" where
  "SUPPORTED_FAULTS = map fault_name ALL_FAULTS"

record FaultInjector =
  fi_enabled :: bool
  fi_environment :: string
  fi_faults :: "(string, string list) odict"

text \<open>The message of the second error lists the unsupported names.\<close>

definition new_fault_injector ::
  "(string, string list) odict \<Rightarrow> bool \<Rightarrow> string \<Rightarrow> FaultInjector py" where
  "new_fault_injector faults en environment =
     (if en \<and> environment \<noteq> ''development'' then
        Inl (PermissionError ''fault injection is available only in an explicit development environment'')
      else
        (let unknown = remdups (filter (\<lambda>f. f \<notin> set SUPPORTED_FAULTS) (concat (map snd faults))) in
         if unknown \<noteq> [] then
           Inl (ValueError (''unsupported fault injection: ['' @ str_join '', '' (map repr_str (sort unknown)) @ '']''))
         else Inr \<lparr> fi_enabled = en, fi_environment = environment, fi_faults = faults \<rparr>))"

definition failed_dependency :: "string \<Rightarrow> string \<Rightarrow> SensorDependency" where
  "failed_dependency i why = \<lparr> dependency_id = i, required = True, sd_state = DP_FAILED, sd_reason = why,
     sd_latency_ms = None, sd_last_checked = None, affected_capabilities = [] \<rparr>"

fun inject :: "fault \<Rightarrow> SensorHealthSnapshot \<Rightarrow> SensorHealthSnapshot" where
  "inject StaleHeartbeat s = s\<lparr>last_process_heartbeat := None\<rparr>"
| "inject QueueSaturation s =
     (let cap = (if queue_capacity s = 0 then 100 else queue_capacity s)
      in s\<lparr>queue_capacity := cap, queue_depth := cap, backpressure_duration_seconds := 60\<rparr>)"
| "inject IpcFailure s = s\<lparr>dependencies := dependencies s @
     [failed_dependency ''privileged_helper'' ''development fault injection'']\<rparr>"
| "inject PermissionLoss s = s\<lparr>permission_state := PM_REVOKED\<rparr>"
| "inject DatabaseTimeout s = s\<lparr>dependencies := dependencies s @
     [failed_dependency ''sqlite'' ''development fault injection timeout'']\<rparr>"
| "inject RuleLoadFailure s = s\<lparr>rules := empty_rules\<lparr>ru_expected := max 1 (ru_expected (rules s)),
     ru_loaded := 0, ru_failed := max 1 (ru_expected (rules s))\<rparr>\<rparr>"
| "inject DroppedEvents s = s\<lparr>events_received_total := max 100 (events_received_total s),
     events_dropped_total := max 5 (events_dropped_total s)\<rparr>"
| "inject ProcessingStall s = s\<lparr>queue_capacity := max 100 (queue_capacity s),
     queue_depth := max 1 (queue_depth s), last_processing_activity := None\<rparr>"
| "inject MemoryPressure s =
     s\<lparr>resources := (resources s)\<lparr>rss_growth_bytes := Some (512 * 1024 * 1024)\<rparr>\<rparr>"
| "inject DuplicateInstance s =
     s\<lparr>metadata := AList.update ''duplicate_instances'' (JInt 2) (metadata s)\<rparr>"

definition injector_apply :: "FaultInjector \<Rightarrow> SensorHealthSnapshot \<Rightarrow> SensorHealthSnapshot" where
  "injector_apply fi s =
     (if \<not> fi_enabled fi then s
      else
        (let faults = od_get (fi_faults fi) (sensor_id s) [];
             r = fold inject (filter (\<lambda>f. fault_name f \<in> set faults) ALL_FAULTS) s
         in r\<lparr>metadata := AList.update ''development_faults'' (JList (map JStr (sort (remdups faults)))) (metadata r)\<rparr>))"

section \<open>Properties\<close>

text \<open>What makes an injected fault visible, whatever the other faults do to the snapshot.\<close>

fun shows_fault :: "fault \<Rightarrow> SensorHealthSnapshot \<Rightarrow> bool" where
  "shows_fault StaleHeartbeat s = (last_process_heartbeat s = None)"
| "shows_fault QueueSaturation s = (queue_capacity s = queue_depth s \<and> queue_depth s \<noteq> 0)"
| "shows_fault IpcFailure s = list_ex (\<lambda>d. required d \<and> sd_state d = DP_FAILED) (dependencies s)"
| "shows_fault PermissionLoss s = (permission_state s = PM_REVOKED)"
| "shows_fault DatabaseTimeout s = list_ex (\<lambda>d. required d \<and> sd_state d = DP_FAILED) (dependencies s)"
| "shows_fault RuleLoadFailure s = (0 < ru_failed (rules s))"
| "shows_fault DroppedEvents s = False"
| "shows_fault ProcessingStall s = (0 < queue_depth s \<and> last_processing_activity s = None)"
| "shows_fault MemoryPressure s = (rss_growth_bytes (resources s) = Some (512 * 1024 * 1024))"
| "shows_fault DuplicateInstance s = (od_get (metadata s) ''duplicate_instances'' (JInt 0) = JInt 2)"

definition visible :: "SensorHealthSnapshot \<Rightarrow> bool" where
  "visible s \<longleftrightarrow> (\<exists>f. shows_fault f s)"

lemma inject_shows: "f \<noteq> DroppedEvents \<Longrightarrow> shows_fault f (inject f s)"
  by (cases f) (simp_all add: failed_dependency_def empty_rules_def od_get_def update_conv' Let_def)

lemma inject_dropped_keeps: "shows_fault g s \<Longrightarrow> shows_fault g (inject DroppedEvents s)"
  by (cases g) simp_all

lemma inject_visible: "visible s \<or> f \<noteq> DroppedEvents \<Longrightarrow> visible (inject f s)"
  using inject_shows [of f s] inject_dropped_keeps [of _ s] unfolding visible_def by blast

lemma fold_inject_visible:
  "visible s \<or> (\<exists>f \<in> set fs. f \<noteq> DroppedEvents) \<Longrightarrow> visible (fold inject fs s)"
proof (induction fs arbitrary: s)
  case (Cons f fs)
  then have "visible (inject f s) \<or> (\<exists>f \<in> set fs. f \<noteq> DroppedEvents)"
    using inject_visible [of s f] by auto
  with Cons.IH show ?case by simp
qed simp

lemma shown_fault_not_healthy:
  assumes "shows_fault f s" "0 \<le> queue_capacity s" "critical_queue_utilization p \<le> 1"
  shows "\<not> functionally_healthy p now
    (greater_one (od_get (metadata s) ''duplicate_instances'' (JInt 0)) = Inr True) s"
proof (cases f)
  case QueueSaturation
  with assms have "queue_utilization s = 1" by (simp add: queue_utilization_def)
  with assms(3) show ?thesis by (simp add: functionally_healthy_def)
next
  case MemoryPressure
  with assms have "resource_issues p s \<noteq> []" by (simp add: resource_issues_def Let_def)
  then show ?thesis by (simp add: functionally_healthy_def)
qed (use assms in \<open>auto simp: functionally_healthy_def fresh_def rules_incomplete_def list_ex_iff\<close>)

text \<open>
  Fault injection proves the monitor: whatever faults are injected into a sensor together, as
  soon as one of them is not the loss of events, no evaluation of the snapshot concludes
  \<open>HEALTHY\<close>, for every policy with a critical queue mark of at most 1. Outside an explicit
  development environment no enabled injector exists and a disabled one changes nothing.
\<close>

theorem injected_fault_is_never_healthy:
  assumes "new_fault_injector faults en environment = Inr fi"
    and "critical_queue_utilization p \<le> 1"
    and "evaluate (injector_apply fi s) p now = Inr r"
  shows "if en then environment = ''development'' \<and>
      ((\<exists>f \<in> set (od_get faults (sensor_id s) []). f \<noteq> ''dropped_events'') \<longrightarrow> state r \<noteq> HEALTHY)
    else injector_apply fi s = s"
proof (cases en)
  case False
  with assms(1) show ?thesis by (auto simp: new_fault_injector_def injector_apply_def Let_def split: if_splits)
next
  case True
  from assms(1) True have fi: "fi_enabled fi" "fi_faults fi = faults" "environment = ''development''"
    and sup: "\<forall>fs \<in> set (map snd faults). \<forall>f \<in> set fs. f \<in> set SUPPORTED_FAULTS"
    by (auto simp: new_fault_injector_def Let_def filter_empty_conv split: if_splits)
  have "state r \<noteq> HEALTHY" if ex: "f \<in> set (od_get faults (sensor_id s) [])" "f \<noteq> ''dropped_events''" for f
  proof -
    let ?s = "injector_apply fi s"
    from ex(1) obtain fs where "map_of faults (sensor_id s) = Some fs" "f \<in> set fs"
      by (cases "map_of faults (sensor_id s)") (simp_all add: od_get_def)
    with sup have "f \<in> set SUPPORTED_FAULTS" by (force dest: map_of_SomeD)
    then obtain g where "g \<in> set ALL_FAULTS" "f = fault_name g" by (auto simp: SUPPORTED_FAULTS_def)
    with ex have "\<exists>g \<in> set (filter (\<lambda>g. fault_name g \<in> set (od_get faults (sensor_id s) [])) ALL_FAULTS).
        g \<noteq> DroppedEvents" by auto
    then have "visible (fold inject (filter (\<lambda>g. fault_name g \<in> set (od_get faults (sensor_id s) []))
        ALL_FAULTS) s)" by (intro fold_inject_visible disjI2)
    then obtain g where "shows_fault g (fold inject (filter (\<lambda>g. fault_name g \<in> set (od_get faults (sensor_id s) []))
        ALL_FAULTS) s)" unfolding visible_def by blast
    then have "shows_fault g ?s"
      by (cases g) (simp_all add: injector_apply_def fi Let_def od_get_def update_conv')
    moreover have "0 \<le> queue_capacity ?s"
      using assms(3) by (rule evaluate_cases) (auto simp: snapshot_validated_def split: if_splits)
    ultimately show ?thesis
      using evaluated_healthy_iff [OF assms(3)] shown_fault_not_healthy [OF _ _ assms(2)] by blast
  qed
  with True fi show ?thesis by auto
qed

theorem injected_fault_is_never_healthy_witness:
  "\<exists>fi r. new_fault_injector [(''fs_sensor'', [''permission_loss''])] True ''development'' = Inr fi \<and>
     evaluate (injector_apply fi live_snapshot) DEFAULT_POLICY 1000000 = Inr r \<and> state r \<noteq> HEALTHY"
proof -
  let ?f = "[(''fs_sensor'', [''permission_loss''])]"
  obtain fi where fi: "new_fault_injector ?f True ''development'' = Inr fi"
      "fi = \<lparr> fi_enabled = True, fi_environment = ''development'', fi_faults = ?f \<rparr>"
    by (simp add: new_fault_injector_def SUPPORTED_FAULTS_def ALL_FAULTS_def)
  obtain r where r: "evaluate (injector_apply fi live_snapshot) DEFAULT_POLICY 1000000 = Inr r"
    by (simp add: evaluate_def snapshot_validated_def fi(2) injector_apply_def live_snapshot_def
        new_snapshot_def od_get_def ALL_FAULTS_def)
  have "critical_queue_utilization DEFAULT_POLICY \<le> 1" by (simp add: DEFAULT_POLICY_def)
  from injected_fault_is_never_healthy [OF fi(1) this r] have "state r \<noteq> HEALTHY"
    by (simp add: od_get_def live_snapshot_def new_snapshot_def)
  with fi r show ?thesis by blast
qed

end
