(* ===== verification/Health_Order.thy ===== *)
theory Health_Order
  imports Health_Models
begin

text \<open>
  The order in which sensors are repaired (\<open>_dependency_order\<close> of \<open>health/manager.py\<close>): a depth
  first walk over the dependencies among the selected sensors, which appends a sensor after the
  dependencies it has visited. \<open>visiting\<close> is the list of the sensors on the current path.
\<close>

function visit_all :: "(string \<Rightarrow> string list) \<Rightarrow> string list \<Rightarrow> string list \<Rightarrow> string list \<Rightarrow> string list \<Rightarrow> string list" where
  "visit_all deps sel [] visiting out = out"
| "visit_all deps sel (x # xs) visiting out =
     (if x \<in> set out \<or> x \<in> set visiting then visit_all deps sel xs visiting out
      else visit_all deps sel xs visiting
        (visit_all deps sel (filter (\<lambda>d. d \<in> set sel) (deps x)) (x # visiting) out @ [x]))"
  by pat_completeness auto

termination visit_all
proof (relation "inv_image (less_than <*lex*> less_than)
    (\<lambda>(deps, sel, ids, visiting, out). (card ((set sel \<union> set ids) - set visiting), length ids))", goal_cases)
  case (2 deps sel x xs visiting out)
  have "card ((set sel \<union> set xs) - set visiting) \<le> card ((set sel \<union> set (x # xs)) - set visiting)"
    by (intro card_mono) auto
  then show ?case by auto
next
  case (3 deps sel x xs visiting out)
  have "(set sel \<union> set (filter (\<lambda>d. d \<in> set sel) (deps x))) - set (x # visiting)
      \<subset> (set sel \<union> set (x # xs)) - set visiting" using 3 by auto
  then have "card ((set sel \<union> set (filter (\<lambda>d. d \<in> set sel) (deps x))) - set (x # visiting))
      < card ((set sel \<union> set (x # xs)) - set visiting)" by (intro psubset_card_mono) auto
  then show ?case by simp
next
  case (4 deps sel x xs visiting out)
  have "card ((set sel \<union> set xs) - set visiting) \<le> card ((set sel \<union> set (x # xs)) - set visiting)"
    by (intro card_mono) auto
  then show ?case by auto
qed (simp add: wf_inv_image wf_lex_prod)

definition declared_dependencies :: "'p SensorRegistry \<Rightarrow> string \<Rightarrow> string list" where
  "declared_dependencies r x = (case map_of (registry_descriptors r) x of None \<Rightarrow> [] | Some d \<Rightarrow> ds_dependencies d)"

definition dependency_order :: "'p SensorRegistry \<Rightarrow> string list \<Rightarrow> string list" where
  "dependency_order r ids = visit_all (declared_dependencies r) ids ids [] []"

section \<open>Every selected sensor once\<close>

lemma visit_all_distinct:
  assumes "distinct out" "set out \<inter> set visiting = {}"
  shows "distinct (visit_all deps sel ids visiting out) \<and>
    set (visit_all deps sel ids visiting out) \<inter> set visiting = {}"
  using assms
proof (induction deps sel ids visiting out rule: visit_all.induct)
  case (2 deps sel x xs visiting out)
  show ?case
  proof (cases "x \<in> set out \<or> x \<in> set visiting")
    case True
    with 2 show ?thesis by simp
  next
    case False
    let ?n = "visit_all deps sel (filter (\<lambda>d. d \<in> set sel) (deps x)) (x # visiting) out"
    have "distinct ?n \<and> set ?n \<inter> set (x # visiting) = {}"
      using "2.IH"(2) [OF False] "2.prems" False by simp
    then have "distinct (?n @ [x])" "set (?n @ [x]) \<inter> set visiting = {}" using False by auto
    with "2.IH"(3) [OF False] False show ?thesis by simp
  qed
qed simp

lemma visit_all_grows: "set out \<subseteq> set (visit_all deps sel ids visiting out)"
proof (induction deps sel ids visiting out rule: visit_all.induct)
  case (2 deps sel x xs visiting out)
  then show ?case by (cases "x \<in> set out \<or> x \<in> set visiting") auto
qed simp

lemma visit_all_covers: "set ids \<subseteq> set (visit_all deps sel ids visiting out) \<union> set visiting"
proof (induction deps sel ids visiting out rule: visit_all.induct)
  case (2 deps sel x xs visiting out)
  let ?n = "visit_all deps sel (filter (\<lambda>d. d \<in> set sel) (deps x)) (x # visiting) out @ [x]"
  from 2 show ?case
    using visit_all_grows [of out deps sel xs visiting] visit_all_grows [of ?n deps sel xs visiting]
    by (cases "x \<in> set out \<or> x \<in> set visiting") auto
qed simp

lemma visit_all_within: "set (visit_all deps sel ids visiting out) \<subseteq> set out \<union> set ids \<union> set sel"
proof (induction deps sel ids visiting out rule: visit_all.induct)
  case (2 deps sel x xs visiting out)
  show ?case
  proof (cases "x \<in> set out \<or> x \<in> set visiting")
    case True
    with "2.IH"(1) show ?thesis by auto
  next
    case False
    from "2.IH"(2) [OF False] "2.IH"(3) [OF False] False show ?thesis by auto
  qed
qed simp

section \<open>Dependencies first\<close>

definition depends :: "(string \<Rightarrow> string list) \<Rightarrow> string list \<Rightarrow> (string \<times> string) set" where
  "depends deps sel = {(y, x). y \<in> set (deps x) \<and> y \<in> set sel}"

definition deps_first :: "(string \<Rightarrow> string list) \<Rightarrow> string list \<Rightarrow> string list \<Rightarrow> bool" where
  "deps_first deps sel l \<longleftrightarrow> (\<forall>i < length l. \<forall>y. (y, l ! i) \<in> depends deps sel \<longrightarrow> y \<in> set (take i l))"

lemma deps_first_Nil [simp]: "deps_first deps sel []"
  by (simp add: deps_first_def)

lemma deps_first_snoc:
  "deps_first deps sel (l @ [x]) \<longleftrightarrow> deps_first deps sel l \<and> (\<forall>y. (y, x) \<in> depends deps sel \<longrightarrow> y \<in> set l)"
  by (auto simp: deps_first_def nth_append less_Suc_eq)

lemma visit_all_dfirst:
  assumes "acyclic (depends deps sel)" "deps_first deps sel out"
    and "\<forall>x \<in> set ids. \<forall>u \<in> set visiting. (x, u) \<in> (depends deps sel)\<^sup>+"
  shows "deps_first deps sel (visit_all deps sel ids visiting out)"
  using assms
proof (induction deps sel ids visiting out rule: visit_all.induct)
  case (2 deps sel x xs visiting out)
  let ?R = "depends deps sel" and ?ids = "filter (\<lambda>d. d \<in> set sel) (deps x)"
  show ?case
  proof (cases "x \<in> set out \<or> x \<in> set visiting")
    case True
    with 2 show ?thesis by simp
  next
    case False
    let ?n = "visit_all deps sel ?ids (x # visiting) out"
    have path: "\<forall>y \<in> set ?ids. \<forall>u \<in> set (x # visiting). (y, u) \<in> ?R\<^sup>+"
      using "2.prems"(3) by (auto simp: depends_def intro: trancl_into_trancl2)
    then have "deps_first deps sel ?n" using "2.IH"(2) [OF False] "2.prems" by blast
    moreover have "y \<in> set ?n" if "(y, x) \<in> ?R" for y
    proof -
      from that have y: "y \<in> set ?ids" by (simp add: depends_def)
      with path "2.prems"(1) have "y \<notin> set (x # visiting)" by (auto simp: acyclic_def)
      with y visit_all_covers [of ?ids deps sel "x # visiting" out] show ?thesis by blast
    qed
    ultimately have "deps_first deps sel (?n @ [x])" by (simp add: deps_first_snoc)
    with "2.IH"(3) [OF False] "2.prems" False show ?thesis by simp
  qed
qed simp

text \<open>
  C33. Repairs follow dependencies: the order lists every selected sensor exactly once, and when the
  dependencies among the selected sensors have no cycle, each sensor comes after every selected
  sensor it depends on. Cyclic declarations still give every selected sensor exactly once.
\<close>

theorem repair_order_follows_dependencies:
  fixes r :: "'p SensorRegistry" and ids :: "string list"
  defines "order \<equiv> dependency_order r ids"
  shows "distinct order \<and> set order = set ids \<and>
    (acyclic (depends (declared_dependencies r) ids) \<longrightarrow>
      (\<forall>i < length order. \<forall>y \<in> set (declared_dependencies r (order ! i)).
         y \<in> set ids \<longrightarrow> y \<in> set (take i order)))"
proof -
  have "deps_first (declared_dependencies r) ids order" if "acyclic (depends (declared_dependencies r) ids)"
    using visit_all_dfirst [OF that] by (simp add: order_def dependency_order_def)
  then show ?thesis
    using visit_all_distinct [of "[]" "[]" "declared_dependencies r" ids ids]
      visit_all_covers [of ids "declared_dependencies r" ids "[]" "[]"]
      visit_all_within [of "declared_dependencies r" ids ids "[]" "[]"]
    by (auto simp: order_def dependency_order_def deps_first_def depends_def)
qed

definition chain_registry :: "unit SensorRegistry" where
  "chain_registry = new_registry (map (\<lambda>(i, ds). \<lparr> ds_sensor_id = i, ds_display_name = i,
     ds_criticality = CR_HIGH, ds_expected = True, ds_enabled = True, ds_singleton = True,
     ds_capabilities = [], ds_dependencies = ds, ds_failure_domain = ''general'' \<rparr>)
     [(''ransomware'', [''endpoint'', ''ruleset'']), (''endpoint'', [])])"

theorem repair_order_follows_dependencies_witness:
  "dependency_order chain_registry [''ransomware'', ''endpoint''] = [''endpoint'', ''ransomware''] \<and>
   distinct (dependency_order chain_registry [''ransomware'', ''endpoint''])"
proof
  show "dependency_order chain_registry [''ransomware'', ''endpoint''] = [''endpoint'', ''ransomware'']"
    by code_simp
  show "distinct (dependency_order chain_registry [''ransomware'', ''endpoint''])"
    using repair_order_follows_dependencies [of chain_registry "[''ransomware'', ''endpoint'']"] by blast
qed

end
