(* ===== verification/Health_Coordinator.thy ===== *)
theory Health_Coordinator
  imports Health_Store Health_Faults Health_Order
begin

text \<open>
  The sensor reliability coordinator of \<open>health/manager.py\<close>: the health cycle, maintenance, and the
  repair of one and of all sensors. A provider is a parameter: the outcome of each of its calls,
  which completes, raises (with the text \<open>Type: message\<close>) or exceeds its bounded wait. The
  instants a cycle reads from the clocks are fields of \<open>cycle_env\<close>. Reports of the thread pool
  arrive in any order; the snapshots are kept per sensor, so the model collects them in the
  order of registration. A repair calls \<open>health_snapshot\<close> directly (\<open>pv_probe\<close>), where an exception
  propagates. The plan and the transcript of a repair are text for the operator and left out.
\<close>

section \<open>Providers and the coordinator\<close>

datatype 'a call = Completed 'a | Raised string | TimedOut

record provider =
  pv_snapshot :: "SensorHealthSnapshot call"
  pv_probe :: "nat \<Rightarrow> SensorHealthSnapshot py"
  pv_self_test :: "nat \<Rightarrow> SelfTestResult call"
  pv_recover :: provider_recover

record cycle_env = store_env +
  cy_started :: datetime
  cy_started_text :: string
  cy_finished :: datetime
  cy_now :: "string \<Rightarrow> int"
  cy_monotonic :: "string \<Rightarrow> pyfloat"
  cy_duration_ms :: pyfloat
  cy_wall :: pyfloat
  cy_text :: "json \<Rightarrow> string"
  cy_int :: "json \<Rightarrow> int option"
  cy_float :: "json \<Rightarrow> pyfloat py"

record SensorReliabilityCoordinator =
  sr_store :: SensorHealthStore
  sr_registry :: "provider SensorRegistry"
  sr_recovery :: RecoveryEngine
  sr_policies :: "(string, SensorHealthPolicy) odict"
  sr_injector :: "FaultInjector option"
  sr_hysteresis :: HysteresisTracker
  sr_manager_state :: json_object
  sr_last_report :: "PlatformHealthReport option"

definition coordinator_policy :: "SensorReliabilityCoordinator \<Rightarrow> string \<Rightarrow> SensorHealthPolicy" where
  "coordinator_policy c sid = od_get (sr_policies c) sid (policy_for sid)"

text \<open>The registry's \<open>register\<close> for each provider in turn; an error leaves the earlier ones registered.\<close>

fun register_providers :: "(string \<times> provider) list \<Rightarrow> SensorReliabilityCoordinator \<Rightarrow>
  py_error option \<times> SensorReliabilityCoordinator" where
  "register_providers [] c = (None, c)"
| "register_providers ((sid, p) # ps) c =
     (case registry_register sid p (sr_registry c) of
        Inl e \<Rightarrow> (Some e, c)
      | Inr r \<Rightarrow> register_providers ps (c\<lparr>sr_registry := r\<rparr>))"

section \<open>Collecting snapshots\<close>

definition provider_failure :: "datetime \<Rightarrow> string \<Rightarrow> ReasonCode \<Rightarrow> string \<Rightarrow> SensorHealthSnapshot" where
  "provider_failure now sid code why = (new_snapshot sid now)\<lparr>process_alive := False, initialized := False,
     state := FAILED, reason_code := code, reason := why, operator_action_required := True,
     remediation := ''Inspect provider registration, timeout, and the external service watchdog without discarding evidence.''\<rparr>"

text \<open>The snapshot kept for one provider and whether its check failed.\<close>

definition collect_one :: "datetime \<Rightarrow> FaultInjector option \<Rightarrow> string \<Rightarrow> provider \<Rightarrow> SensorHealthSnapshot \<times> bool" where
  "collect_one now fi sid p =
     (let invalid = (\<lambda>why. (provider_failure now sid RC_HEALTH_PROVIDER_INVALID
            (''Health provider failed in isolation: '' @ why), True)) in
      case pv_snapshot p of
        Completed s \<Rightarrow>
          if sensor_id s \<noteq> sid then invalid ''ValueError: provider sensor_id does not match snapshot''
          else ((case fi of None \<Rightarrow> s | Some f \<Rightarrow> injector_apply f s), False)
      | Raised e \<Rightarrow> invalid e
      | TimedOut \<Rightarrow> (provider_failure now sid RC_HEALTH_PROVIDER_TIMEOUT
          ''Health provider exceeded its bounded timeout; other sensors were still checked.'', True))"

definition collect_raw :: "datetime \<Rightarrow> SensorReliabilityCoordinator \<Rightarrow> (string, SensorHealthSnapshot) odict" where
  "collect_raw now c =
     fold (\<lambda>d m. AList.update (ds_sensor_id d) (provider_failure now (ds_sensor_id d) RC_HEALTH_PROVIDER_INVALID
          ''Expected sensor did not register during startup.'') m)
       (missing_expected (sr_registry c))
       (map (\<lambda>(sid, p). (sid, fst (collect_one now (sr_injector c) sid p))) (registry_providers (sr_registry c)))"

definition collect_failures :: "datetime \<Rightarrow> SensorReliabilityCoordinator \<Rightarrow> nat" where
  "collect_failures now c = count_if (\<lambda>(sid, p). snd (collect_one now (sr_injector c) sid p))
     (registry_providers (sr_registry c))"

definition upstream_unhealthy :: "SensorHealthSnapshot \<Rightarrow> bool" where
  "upstream_unhealthy u \<longleftrightarrow> \<not> process_alive u \<or> \<not> initialized u \<or> state u \<in> {FAILED, UNAVAILABLE, IMPAIRED}"

definition shared_dependency :: "SensorDescriptor \<Rightarrow> string \<Rightarrow> SensorHealthSnapshot \<Rightarrow> SensorDependency" where
  "shared_dependency d i u = \<lparr> dependency_id = i, required = True,
     sd_state = (if upstream_unhealthy u then DP_FAILED else DP_HEALTHY),
     sd_reason = ''shared sensor dependency state: '' @ sensor_state_value (state u),
     sd_latency_ms = None, sd_last_checked = None, affected_capabilities = ds_capabilities d \<rparr>"

definition shared_dependencies :: "(string, SensorHealthSnapshot) odict \<Rightarrow> SensorDescriptor \<Rightarrow>
  SensorHealthSnapshot \<Rightarrow> SensorDependency list" where
  "shared_dependencies raw d s =
     concat (map (\<lambda>i. case map_of raw i of None \<Rightarrow> []
        | Some u \<Rightarrow> if i \<in> set (map dependency_id (dependencies s)) then [] else [shared_dependency d i u])
       (ds_dependencies d))"

definition propagate_one :: "SensorDescriptor \<Rightarrow> (string, SensorHealthSnapshot) odict \<Rightarrow>
  (string, SensorHealthSnapshot) odict" where
  "propagate_one d raw = (case map_of raw (ds_sensor_id d) of None \<Rightarrow> raw
     | Some s \<Rightarrow> AList.update (ds_sensor_id d) (s\<lparr>dependencies := dependencies s @ shared_dependencies raw d s\<rparr>) raw)"

definition propagate_sensor_dependencies :: "SensorDescriptor list \<Rightarrow> (string, SensorHealthSnapshot) odict \<Rightarrow>
  (string, SensorHealthSnapshot) odict" where
  "propagate_sensor_dependencies ds raw = fold propagate_one ds raw"

section \<open>Stored state\<close>

text \<open>\<open>SensorState(text)\<close>.\<close>

definition all_states :: "SensorState list" where
  "all_states = [UNKNOWN, INITIALIZING, HEALTHY, HEALTHY_IDLE, HEALTHY_WITH_WARNINGS, DEGRADED, IMPAIRED,
     RECOVERING, STABILIZING, STALE, FAILED, DISABLED, UNAVAILABLE, UNSUPPORTED, PERMISSION_BLOCKED,
     CONFIGURATION_ERROR, DEPENDENCY_FAILED, RATE_LIMITED, BACKPRESSURED, HIGH_LOAD, MAINTENANCE]"

definition state_of_value :: "string \<Rightarrow> SensorState option" where
  "state_of_value v = find (\<lambda>st. sensor_state_value st = v) all_states"

text \<open>\<open>cy_text\<close> is \<open>str\<close> and \<open>cy_int\<close> is \<open>int\<close> on JSON values, \<open>None\<close> where it raises.\<close>

definition prior_snapshot :: "cycle_env \<Rightarrow> json_object option \<Rightarrow> SensorHealthSnapshot option" where
  "prior_snapshot env payload =
     (case payload of None \<Rightarrow> None
      | Some d \<Rightarrow>
          if d = [] then None
          else case (map_of d ''sensor_id'', map_of d ''state'') of
            (Some i, Some st) \<Rightarrow>
              (case (state_of_value (cy_text env st), cy_int env (od_get d ''health_score'' (JInt 0))) of
                 (Some v, Some n) \<Rightarrow> Some ((new_snapshot (cy_text env i) (cy_started env))\<lparr>state := v,
                    health_score := n, reason := cy_text env (od_get d ''reason'' (JStr ''''))\<rparr>)
               | _ \<Rightarrow> None)
          | _ \<Rightarrow> None)"

section \<open>Maintenance\<close>

definition enter_maintenance :: "cycle_env \<Rightarrow> string \<Rightarrow> string \<Rightarrow> int \<Rightarrow> SensorReliabilityCoordinator \<Rightarrow>
  json_object py \<times> SensorReliabilityCoordinator" where
  "enter_maintenance env why who timeout c =
     (let why' = take 256 (str_strip why); who' = take 128 (str_strip who) in
      if why' = '''' \<or> who' = '''' \<or> \<not> (30 \<le> timeout \<and> timeout \<le> 86400) then
        (Inl (ValueError ''maintenance requires a reason, initiator, and timeout between 30 and 86400 seconds''), c)
      else
        (let payload = [(''reason'', JStr why'), (''initiated_by'', JStr who'),
               (''started_at'', JFloat (cy_wall env)), (''expires_at'', JFloat (cy_wall env + of_int timeout))]
         in (Inr payload, c\<lparr>sr_store := set_manager_state ''maintenance'' payload (sr_store c)\<rparr>)))"

definition exit_maintenance :: "SensorReliabilityCoordinator \<Rightarrow> SensorReliabilityCoordinator" where
  "exit_maintenance c = c\<lparr>sr_store := set_manager_state ''maintenance'' [] (sr_store c)\<rparr>"

definition active_maintenance :: "cycle_env \<Rightarrow> SensorReliabilityCoordinator \<Rightarrow>
  json_object py \<times> SensorReliabilityCoordinator" where
  "active_maintenance env c =
     (case get_manager_state ''maintenance'' (JObj []) (sr_store c) of
        JObj payload \<Rightarrow>
          if \<not> truthy (od_get payload ''reason'' JNull) then (Inr [], c)
          else (case cy_float env (od_get payload ''expires_at'' (JInt 0)) of
              Inl e \<Rightarrow> (Inl e, c)
            | Inr t \<Rightarrow> if t \<le> cy_wall env then (Inr [], exit_maintenance c) else (Inr payload, c))
      | _ \<Rightarrow> (Inr [], c))"

section \<open>The health cycle\<close>

text \<open>\<open>_bounded_self_test\<close>; the result of a failed test carries the instant of its creation.\<close>

definition failed_self_test :: "datetime \<Rightarrow> string \<Rightarrow> SelfTestResult" where
  "failed_self_test now why = \<lparr> st_passed = False, st_test_id = ''provider_self_test'', st_reason = why,
     st_latency_ms = None, st_canary_id = '''', st_stages = [], st_completed_at = now \<rparr>"

definition bounded_self_test :: "datetime \<Rightarrow> provider \<Rightarrow> nat \<Rightarrow> SelfTestResult" where
  "bounded_self_test now p k = (case pv_self_test p k of
     Completed t \<Rightarrow> t
   | Raised e \<Rightarrow> failed_self_test now (''Self-test failed in isolation: '' @ e)
   | TimedOut \<Rightarrow> failed_self_test now ''Self-test exceeded its bounded timeout.'')"

definition apply_maintenance :: "cycle_env \<Rightarrow> json_object \<Rightarrow> SensorHealthSnapshot \<Rightarrow> SensorHealthSnapshot" where
  "apply_maintenance env m s = (if m = [] then s else s\<lparr>state := MAINTENANCE, reason_code := RC_MAINTENANCE_ACTIVE,
     reason := ''Controlled maintenance: '' @ cy_text env (od_get m ''reason'' JNull),
     operator_action_required := False\<rparr>)"

definition recoverable_states :: "SensorState list" where
  "recoverable_states = [FAILED, IMPAIRED, STALE, DEPENDENCY_FAILED, BACKPRESSURED]"

definition verify_recovery :: "SelfTestResult \<Rightarrow> SensorHealthSnapshot \<Rightarrow> SensorHealthSnapshot" where
  "verify_recovery v s = s\<lparr>state := (if st_passed v then RECOVERING else IMPAIRED),
     reason_code := (if st_passed v then RC_RECOVERY_IN_PROGRESS else RC_RECOVERY_VALIDATION_FAILED),
     reason := (if st_passed v then ''Targeted recovery completed; stabilization evidence is still being collected.''
                else ''Recovery did not restore functional evidence: '' @ st_reason v),
     last_self_test := Some v\<rparr>"

definition auto_recovery :: "cycle_env \<Rightarrow> string \<Rightarrow> provider \<Rightarrow> SensorHealthSnapshot \<Rightarrow>
  SensorReliabilityCoordinator \<Rightarrow> SensorHealthSnapshot \<times> SensorReliabilityCoordinator" where
  "auto_recovery env sid p s c =
     (case recover (pv_recover p) s (coordinator_policy c sid) False (cy_monotonic env sid) (sr_recovery c) of
        (r, call, e) \<Rightarrow>
          (let c' = c\<lparr>sr_recovery := e, sr_store := record_recovery (store_env.truncate env) sid
                 (reason_code_value (reason_code s)) r (Aware (cy_now env sid)) (sr_store c)\<rparr>
           in (if rs_succeeded r then verify_recovery (bounded_self_test (Aware (cy_now env sid)) p 1) s else s, c')))"

definition annotate :: "SensorDescriptor \<Rightarrow> SensorHealthSnapshot \<Rightarrow> SensorHealthSnapshot" where
  "annotate d s = s\<lparr>metadata := AList.update ''failure_domain'' (JStr (ds_failure_domain d))
     (AList.update ''criticality'' (JStr (criticality_value (ds_criticality d))) (metadata s))\<rparr>"

text \<open>The body of the loop for a descriptor whose sensor has a raw snapshot.\<close>

definition check_sensor :: "cycle_env \<Rightarrow> bool \<Rightarrow> bool \<Rightarrow> json_object \<Rightarrow> SensorDescriptor \<Rightarrow> SensorHealthSnapshot \<Rightarrow>
  SensorReliabilityCoordinator \<Rightarrow> (SensorState \<times> SensorHealthSnapshot) py \<times> SensorReliabilityCoordinator" where
  "check_sensor env tests auto m d raw c =
     (let sid = ds_sensor_id d;
          prior = prior_snapshot env (current_snapshot sid (sr_store c));
          prov = registry_provider sid (sr_registry c);
          s = (case prov of Some p \<Rightarrow> if tests
                 then raw\<lparr>last_self_test := Some (bounded_self_test (Aware (cy_now env sid)) p 0)\<rparr> else raw
               | None \<Rightarrow> raw)
      in case evaluate s (coordinator_policy c sid) (cy_now env sid) of
           Inl e \<Rightarrow> (Inl e, c)
         | Inr r \<Rightarrow>
             (let (r1, h) = hysteresis_apply (apply_maintenance env m r) prior (coordinator_policy c sid) (sr_hysteresis c);
                  c1 = c\<lparr>sr_hysteresis := h\<rparr>;
                  (r2, c2) = (case prov of Some p \<Rightarrow> if auto \<and> state r1 \<in> set recoverable_states
                      then auto_recovery env sid p r1 c1 else (r1, c1) | None \<Rightarrow> (r1, c1))
              in (Inr (case prior of None \<Rightarrow> UNKNOWN | Some v \<Rightarrow> state v, annotate d r2), c2)))"

type_synonym checked = "(SensorDescriptor \<times> SensorState \<times> SensorHealthSnapshot) list"

fun check_sensors :: "cycle_env \<Rightarrow> bool \<Rightarrow> bool \<Rightarrow> json_object \<Rightarrow> (string, SensorHealthSnapshot) odict \<Rightarrow>
  SensorDescriptor list \<Rightarrow> SensorReliabilityCoordinator \<Rightarrow> checked py \<times> SensorReliabilityCoordinator" where
  "check_sensors env tests auto m raw [] c = (Inr [], c)"
| "check_sensors env tests auto m raw (d # ds) c =
     (case map_of raw (ds_sensor_id d) of
        None \<Rightarrow> check_sensors env tests auto m raw ds c
      | Some s \<Rightarrow>
          (case check_sensor env tests auto m d s c of
             (Inl e, c') \<Rightarrow> (Inl e, c')
           | (Inr (prev, r), c') \<Rightarrow>
               (case check_sensors env tests auto m raw ds c' of
                  (Inl e, c'') \<Rightarrow> (Inl e, c'')
                | (Inr rs, c'') \<Rightarrow> (Inr ((d, prev, r) # rs), c''))))"

definition cycle_manager_state :: "cycle_env \<Rightarrow> nat \<Rightarrow> nat \<Rightarrow> json_object \<Rightarrow> json_object" where
  "cycle_manager_state env checked_count failed st =
     (let finished = (if 0 < checked_count then JStr (env_iso env (cy_finished env))
            else JStr (cy_text env (od_get st ''last_successful_health_cycle'' (JStr ''''))))
      in fold (\<lambda>(k, v) d. AList.update k v d)
           [(''last_health_cycle'', JStr (env_iso env (cy_started env))),
            (''last_successful_health_cycle'', finished),
            (''sensors_checked'', JInt (int checked_count)), (''health_checks_failed'', JInt (int failed)),
            (''health_cycle_duration_ms'', JFloat (round_to 3 (cy_duration_ms env)))] st)"

text \<open>Everything after the loop: the manager state, the report and its persistence.\<close>

definition finish_cycle :: "cycle_env \<Rightarrow> nat \<Rightarrow> checked \<Rightarrow> SensorReliabilityCoordinator \<Rightarrow>
  PlatformHealthReport py \<times> SensorReliabilityCoordinator" where
  "finish_cycle env failed rows c =
     (let ms = cycle_manager_state env (length rows) failed (sr_manager_state c);
          report = build_platform_report (map (\<lambda>(d, prev, r). (d, r)) rows) ms (cy_finished env);
          previous = map (\<lambda>(d, prev, r). (ds_sensor_id d, prev)) rows;
          c1 = c\<lparr>sr_manager_state := ms\<rparr>
      in case persist_report (store_env.truncate env) report previous (sr_store c) of
           (Inl e, t) \<Rightarrow> (Inl e, c1\<lparr>sr_store := t\<rparr>)
         | (Inr hs, t) \<Rightarrow> (Inr report, c1\<lparr>sr_store := set_manager_state ''coordinator_health'' ms t,
               sr_last_report := Some report\<rparr>))"

definition run_cycle :: "cycle_env \<Rightarrow> bool \<Rightarrow> bool \<Rightarrow> SensorReliabilityCoordinator \<Rightarrow>
  PlatformHealthReport py \<times> SensorReliabilityCoordinator" where
  "run_cycle env tests auto c =
     (let c0 = c\<lparr>sr_manager_state := AList.update ''cycle_started_at'' (JStr (cy_started_text env))
            (sr_manager_state c)\<rparr>;
          ds = od_values (registry_descriptors (sr_registry c));
          raw = propagate_sensor_dependencies ds (collect_raw (cy_started env) c)
      in case active_maintenance env c0 of
           (Inl e, c1) \<Rightarrow> (Inl e, c1)
         | (Inr m, c1) \<Rightarrow>
             (case check_sensors env tests auto m raw ds c1 of
                (Inl e, c2) \<Rightarrow> (Inl e, c2)
              | (Inr rows, c2) \<Rightarrow> finish_cycle env (collect_failures (cy_started env) c) rows c2))"

section \<open>Repairing one sensor\<close>

record repair_outcome =
  ro_sensor_id :: string
  ro_reason_code :: ReasonCode
  ro_recovery :: RecoveryResult
  ro_self_test :: "SelfTestResult option"
  ro_post_state :: SensorState
  ro_lost :: "string list"
  ro_fully_operational :: bool
  ro_pre :: SensorHealthSnapshot
  ro_post :: SensorHealthSnapshot
  ro_trace :: "(string \<times> string \<times> string) list"
  ro_errors :: "string list"

definition trace :: "string \<Rightarrow> string \<Rightarrow> string \<Rightarrow> (string \<times> string \<times> string) list" where
  "trace stage status detail = [(stage, status, take 4000 detail)]"

definition str_bool :: "bool \<Rightarrow> string" where
  "str_bool b = (if b then ''True'' else ''False'')"

definition or_else :: "string \<Rightarrow> string \<Rightarrow> string" where
  "or_else a b = (if a = '''' then b else a)"

definition names_or_none :: "string list \<Rightarrow> string" where
  "names_or_none xs = or_else (str_join '','' xs) ''none''"

definition healthy_repair_states :: "SensorState list" where
  "healthy_repair_states = [HEALTHY, HEALTHY_IDLE]"

definition diagnosis_trace :: "SensorHealthSnapshot \<Rightarrow> (string \<times> string \<times> string) list" where
  "diagnosis_trace s = trace ''diagnosis'' ''complete''
     (''state='' @ sensor_state_value (state s) @ ''; reason_code='' @ reason_code_value (reason_code s) @
      ''; lost_capabilities='' @ names_or_none (lost_capabilities s))"

definition no_repair :: "string \<Rightarrow> SensorHealthSnapshot \<Rightarrow> repair_outcome" where
  "no_repair sid s = \<lparr> ro_sensor_id = sid, ro_reason_code = reason_code s,
     ro_recovery = recovery_result False True RL_OBSERVE
       ''No repair was required; current functional evidence is healthy.'' False,
     ro_self_test = None, ro_post_state = state s, ro_lost = [], ro_fully_operational = True,
     ro_pre = s, ro_post = s,
     ro_trace = diagnosis_trace s @ trace ''repair decision'' ''skipped''
       ''Functional evidence is healthy; no mutation was justified.'',
     ro_errors = [] \<rparr>"

text \<open>The UTF-8 bytes of the dash in the last error.\<close>

definition em_dash :: string where
  "em_dash = [CHR 0xE2, CHR 0x80, CHR 0x94]"

definition repair_errors :: "SensorHealthSnapshot \<Rightarrow> RecoveryResult \<Rightarrow> SelfTestResult option \<Rightarrow>
  SensorHealthSnapshot \<Rightarrow> bool \<Rightarrow> string list" where
  "repair_errors s r v post fully =
     (if rs_requires_operator r then
        [''OPERATOR_ACTION_REQUIRED: '' @ or_else (or_else (rs_detail r) (remediation s)) (reason s)]
      else if \<not> rs_succeeded r then
        [''RECOVERY_NOT_SUCCESSFUL: '' @ or_else (rs_detail r) ''The recovery provider did not report success.'']
      else []) @
     (case v of None \<Rightarrow> [] | Some t \<Rightarrow> if st_passed t then []
        else [''POST_REPAIR_SELF_TEST_FAILED ['' @ st_test_id t @ '']: '' @ st_reason t]) @
     (if \<not> fully \<and> lost_capabilities post \<noteq> [] then
        [''REMAINING_COVERAGE_LOSS: '' @ str_join '', '' (lost_capabilities post)] else []) @
     (if \<not> fully \<and> state post \<notin> set healthy_repair_states then
        [''POST_REPAIR_STATE_NOT_HEALTHY: '' @ sensor_state_value (state post) @ '' '' @ em_dash @ '' '' @ reason post]
      else [])"

definition repair_trace :: "SensorHealthSnapshot \<Rightarrow> RecoveryResult \<Rightarrow> SelfTestResult option \<Rightarrow>
  SensorHealthSnapshot \<Rightarrow> bool \<Rightarrow> (string \<times> string \<times> string) list" where
  "repair_trace s r v post fully =
     diagnosis_trace s @
     trace ''repair decision'' ''approved'' (''Requesting bounded recovery for '' @ reason_code_value (reason_code s) @
       ''; external blockers remain non-bypassable.'') @
     trace ''bounded recovery'' (if rs_succeeded r then ''succeeded'' else ''not repaired'')
       (''action='' @ recovery_level_value (rs_action r) @ ''; attempted='' @ str_bool (rs_attempted r) @
        ''; requires_operator='' @ str_bool (rs_requires_operator r) @ ''; detail='' @ rs_detail r) @
     (case v of None \<Rightarrow> trace ''functional self-test'' ''not run''
          ''Recovery did not succeed, so post-repair functional validation was not run.''
      | Some t \<Rightarrow> trace ''functional self-test'' (if st_passed t then ''passed'' else ''failed'')
          (''test_id='' @ st_test_id t @ ''; '' @ st_reason t)) @
     trace ''independent post-repair snapshot'' (if fully then ''verified'' else ''verification failed'')
       (''state='' @ sensor_state_value (state post) @ ''; remaining_lost_capabilities='' @
        names_or_none (lost_capabilities post))"

definition verified_operational :: "RecoveryResult \<Rightarrow> SelfTestResult option \<Rightarrow> SensorHealthSnapshot \<Rightarrow> bool" where
  "verified_operational r v post \<longleftrightarrow> rs_succeeded r \<and> (case v of None \<Rightarrow> False | Some t \<Rightarrow> st_passed t) \<and>
     state post \<in> set healthy_repair_states \<and> lost_capabilities post = []"

definition repaired :: "string \<Rightarrow> SensorHealthSnapshot \<Rightarrow> RecoveryResult \<Rightarrow> SelfTestResult option \<Rightarrow>
  SensorHealthSnapshot \<Rightarrow> repair_outcome" where
  "repaired sid s r v post = (let fully = verified_operational r v post in
     \<lparr> ro_sensor_id = sid, ro_reason_code = reason_code s, ro_recovery = r, ro_self_test = v,
       ro_post_state = state post, ro_lost = lost_capabilities post, ro_fully_operational = fully,
       ro_pre = s, ro_post = post, ro_trace = repair_trace s r v post fully,
       ro_errors = repair_errors s r v post fully \<rparr>)"

definition recover_sensor :: "cycle_env \<Rightarrow> string \<Rightarrow> SensorReliabilityCoordinator \<Rightarrow>
  repair_outcome py \<times> SensorReliabilityCoordinator" where
  "recover_sensor env sid c =
     (case registry_provider sid (sr_registry c) of
        None \<Rightarrow> (Inl (ValueError (''unknown or unregistered sensor: '' @ sid)), c)
      | Some p \<Rightarrow>
          (case py_bind (pv_probe p 0) (\<lambda>raw. evaluate raw (coordinator_policy c sid) (cy_now env sid)) of
             Inl e \<Rightarrow> (Inl e, c)
           | Inr s \<Rightarrow>
               if state s \<in> set healthy_repair_states \<and> lost_capabilities s = [] then (Inr (no_repair sid s), c)
               else
                 (case recover (pv_recover p) s (coordinator_policy c sid) True (cy_monotonic env sid) (sr_recovery c) of
                    (r, call, e) \<Rightarrow>
                      (let c' = c\<lparr>sr_recovery := e, sr_store := record_recovery (store_env.truncate env) sid
                             (reason_code_value (reason_code s)) r (Aware (cy_now env sid)) (sr_store c)\<rparr> in
                       if rs_succeeded r then
                         (case py_bind (pv_probe p 1) (\<lambda>raw. evaluate raw (coordinator_policy c sid) (cy_now env sid)) of
                            Inl e \<Rightarrow> (Inl e, c')
                          | Inr post \<Rightarrow> (Inr (repaired sid s r
                              (Some (bounded_self_test (Aware (cy_now env sid)) p 0)) post), c'))
                       else (Inr (repaired sid s r None s), c')))))"

section \<open>Repairing all sensors\<close>

record platform_repair =
  pr_attempted :: nat
  pr_verified :: nat
  pr_operator :: nat
  pr_fully_operational :: bool
  pr_results :: "(string \<times> repair_outcome py) list"
  pr_final_report :: PlatformHealthReport

text \<open>A failure of one repair is a result of its own that requires the operator.\<close>

fun recover_each :: "(string \<Rightarrow> cycle_env) \<Rightarrow> string list \<Rightarrow> SensorReliabilityCoordinator \<Rightarrow>
  (string \<times> repair_outcome py) list \<times> SensorReliabilityCoordinator" where
  "recover_each envs [] c = ([], c)"
| "recover_each envs (sid # sids) c =
     (case recover_sensor (envs sid) sid c of
        (r, c') \<Rightarrow> (case recover_each envs sids c' of (rs, c'') \<Rightarrow> ((sid, r) # rs, c'')))"

definition repair_candidates :: "PlatformHealthReport \<Rightarrow> string list" where
  "repair_candidates r = map sensor_id (filter (\<lambda>s. state s \<notin> {HEALTHY, HEALTHY_IDLE, DISABLED, UNSUPPORTED} \<or>
     lost_capabilities s \<noteq> []) (report_sensors r))"

definition outcome_verified :: "repair_outcome py \<Rightarrow> bool" where
  "outcome_verified r = (case r of Inl e \<Rightarrow> False | Inr ro \<Rightarrow> ro_fully_operational ro)"

definition outcome_needs_operator :: "repair_outcome py \<Rightarrow> bool" where
  "outcome_needs_operator r = (case r of Inl e \<Rightarrow> True | Inr ro \<Rightarrow> rs_requires_operator (ro_recovery ro))"

definition recover_all_sensors :: "cycle_env \<Rightarrow> (string \<Rightarrow> cycle_env) \<Rightarrow> cycle_env \<Rightarrow> SensorReliabilityCoordinator \<Rightarrow>
  platform_repair py \<times> SensorReliabilityCoordinator" where
  "recover_all_sensors env1 envs env2 c =
     (case run_cycle env1 False False c of
        (Inl e, c1) \<Rightarrow> (Inl e, c1)
      | (Inr initial, c1) \<Rightarrow>
          (let order = dependency_order (sr_registry c1) (repair_candidates initial);
               (results, c2) = recover_each envs order c1
           in case run_cycle env2 True False c2 of
                (Inl e, c3) \<Rightarrow> (Inl e, c3)
              | (Inr final, c3) \<Rightarrow>
                  (Inr \<lparr> pr_attempted = length order,
                     pr_verified = count_if (outcome_verified \<circ> snd) results,
                     pr_operator = count_if (outcome_needs_operator \<circ> snd) results,
                     pr_fully_operational = (0 < required_total final \<and>
                       required_healthy final = required_total final \<and> overall_health final = PF_HEALTHY),
                     pr_results = results, pr_final_report = final \<rparr>, c3)))"

end
