(* ===== verification/Health_Assurance.thy ===== *)
theory Health_Assurance
  imports Health_Coordinator
begin

text \<open>
  What the health cycle and the repair of sensors guarantee: sensors that are required are never
  missing from a report, stored states are found again, maintenance ends, a repair counts only when
  it is verified; and where a provider's answer is lost or stops the cycle.
\<close>

section \<open>Stored states\<close>

lemma state_of_value_roundtrip: "state_of_value (sensor_state_value st) = Some st"
  by (cases st) (simp_all add: state_of_value_def all_states_def)

lemma persisted_fields:
  "map_of (snapshot_to_dict f s) ''sensor_id'' = Some (JStr (sensor_id s))"
  "map_of (snapshot_to_dict f s) ''state'' = Some (JStr (sensor_state_value (state s)))"
  "map_of (snapshot_to_dict f s) ''health_score'' = Some (JInt (health_score s))"
  "map_of (snapshot_to_dict f s) ''reason'' = Some (JStr (reason s))"
  by (simp_all add: snapshot_to_dict_def)

lemma fold_current_other:
  assumes "sid \<notin> sensor_id ` set ss"
  shows "map_of (fold (\<lambda>s c. st_current (store_current_row env s (t\<lparr>st_current := c\<rparr>))) ss c0) sid = map_of c0 sid"
  using assms
  by (induction ss arbitrary: c0) (simp_all add: store_current_row_def Let_def update_conv')

lemma fold_current_last:
  assumes "distinct (map sensor_id ss)" "s \<in> set ss"
  shows "map_option cu_snapshot (map_of (fold (\<lambda>s c. st_current (store_current_row env s (t\<lparr>st_current := c\<rparr>))) ss c0)
    (sensor_id s)) = Some (canonical (snapshot_to_dict (env_iso env) s))"
  using assms
proof (induction ss arbitrary: c0)
  case (Cons a ss)
  show ?case
  proof (cases "s = a")
    case True
    with Cons.prems show ?thesis
      by (simp add: fold_current_other) (simp add: store_current_row_def Let_def update_conv')
  next
    case False
    with Cons show ?thesis by simp
  qed
qed simp

text \<open>
  The next cycle finds what this one stored: after a report with distinct sensors is persisted,
  the prior snapshot of each of its sensors carries the state, the score and the reason of the
  report.
\<close>

theorem persisted_state_is_found_again:
  assumes "store_ok env t" "persist_report env r previous t = (Inr hs, t')"
    and "distinct (map sensor_id (report_sensors r))" "s \<in> set (report_sensors r)"
    and txt_str: "\<And>x. cy_text cenv (JStr x) = x" and num: "\<And>n. cy_int cenv (JInt n) = Some n"
  shows "\<exists>v. prior_snapshot cenv (current_snapshot (sensor_id s) t') = Some v \<and> sensor_id v = sensor_id s \<and>
    state v = state s \<and> health_score v = health_score s \<and> reason v = reason s"
proof -
  let ?d = "snapshot_to_dict (env_iso env) s"
  obtain t1 where p: "persist_snapshots env previous (report_sensors r) t = (Inr hs, t1)"
      and t': "st_current t' = st_current t1"
    using assms(2) by (auto simp: persist_report_def set_manager_state_def split: prod.splits sum.splits)
  have "current_snapshot (sensor_id s) t' = Some (canonical ?d)"
    using persist_snapshots_steps [OF assms(1) p, of hs] fold_current_last [OF assms(3,4), of env t "st_current t"] t'
    by (simp add: current_snapshot_def)
  moreover have "canonical ?d \<noteq> []" using persisted_fields(1) [of "env_iso env" s]
    by (metis map_of_canonical map_of.simps(1) option.distinct(1))
  ultimately show ?thesis
    by (simp add: prior_snapshot_def persisted_fields od_get_def txt_str num state_of_value_roundtrip new_snapshot_def)
qed

section \<open>Provider failures\<close>

lemma provider_failure_fields [simp]:
  "sensor_id (provider_failure now sid code why) = sid"
  "process_alive (provider_failure now sid code why) = False"
  by (simp_all add: provider_failure_def new_snapshot_def)

text \<open>
  The cause of a provider failure is lost: whichever code and reason the coordinator gives a
  provider that timed out, answered badly or never registered, the evaluation replaces them by
  \<open>PROCESS_NOT_RUNNING\<close>, for which the ladder requests a restart by the watchdog.
\<close>

theorem provider_failure_cause_lost:
  assumes "evaluate (provider_failure now sid code why) p t = Inr s"
  shows "state s = FAILED \<and> reason_code s = RC_PROCESS_NOT_RUNNING \<and>
    od_get RECOVERY_LADDER (reason_code s) RL_OBSERVE = RL_REQUEST_WATCHDOG"
proof -
  obtain dup where "s = conclude p t dup (provider_failure now sid code why)"
    by (rule evaluate_cases [OF assms])
  then show ?thesis
    using dead_process_top [of "provider_failure now sid code why" p t dup]
    by (simp add: RECOVERY_LADDER_def od_get_def)
qed

theorem provider_failure_cause_lost_witness:
  "\<exists>s. evaluate (provider_failure (Aware 0) ''fs_sensor'' RC_HEALTH_PROVIDER_TIMEOUT ''late'') DEFAULT_POLICY 0 = Inr s \<and>
     reason_code s = RC_PROCESS_NOT_RUNNING"
proof -
  obtain s where s: "evaluate (provider_failure (Aware 0) ''fs_sensor'' RC_HEALTH_PROVIDER_TIMEOUT ''late'') DEFAULT_POLICY 0 = Inr s"
    by (simp add: evaluate_def snapshot_validated_def provider_failure_def new_snapshot_def od_get_def)
  from provider_failure_cause_lost [OF s] s show ?thesis by blast
qed

section \<open>Snapshots of a cycle\<close>

lemma inject_keeps: "sensor_id (inject f s) = sensor_id s"
  by (cases f) (simp_all add: Let_def)

lemma fold_inject_keeps: "sensor_id (fold inject fs s) = sensor_id s"
  by (induction fs arbitrary: s) (simp_all add: inject_keeps)

lemma injector_keeps [simp]: "sensor_id (injector_apply fi s) = sensor_id s"
  by (simp add: injector_apply_def Let_def fold_inject_keeps)

lemma collect_one_id [simp]: "sensor_id (fst (collect_one now fi sid p)) = sid"
  by (simp add: collect_one_def Let_def split: call.split option.split)

definition ids_match :: "(string, SensorHealthSnapshot) odict \<Rightarrow> bool" where
  "ids_match raw \<longleftrightarrow> (\<forall>k s. map_of raw k = Some s \<longrightarrow> sensor_id s = k)"

lemma ids_match_update: "ids_match raw \<Longrightarrow> sensor_id s = k \<Longrightarrow> ids_match (AList.update k s raw)"
  by (simp add: ids_match_def update_conv')

lemma collected_missing:
  assumes "ids_match raw"
  shows "ids_match (fold (\<lambda>d m. AList.update (ds_sensor_id d) (provider_failure now (ds_sensor_id d) code why) m) ds raw) \<and>
    dom (map_of (fold (\<lambda>d m. AList.update (ds_sensor_id d) (provider_failure now (ds_sensor_id d) code why) m) ds raw)) =
      dom (map_of raw) \<union> ds_sensor_id ` set ds"
  using assms
proof (induction ds arbitrary: raw)
  case (Cons d ds)
  from Cons.IH [OF ids_match_update [OF Cons.prems provider_failure_fields(1)]]
  show ?case by (auto simp: update_conv')
qed simp

lemma collect_raw_ids: "ids_match (collect_raw now c)"
  unfolding collect_raw_def
proof (intro collected_missing [THEN conjunct1])
  show "ids_match (map (\<lambda>(sid, p). (sid, fst (collect_one now (sr_injector c) sid p))) (registry_providers (sr_registry c)))"
    unfolding ids_match_def by (auto dest!: map_of_SomeD)
qed

lemma collect_raw_dom: "dom (map_of (collect_raw now c)) =
    set (od_keys (registry_providers (sr_registry c))) \<union> ds_sensor_id ` set (missing_expected (sr_registry c))"
proof -
  let ?m = "map (\<lambda>(sid, p). (sid, fst (collect_one now (sr_injector c) sid p))) (registry_providers (sr_registry c))"
  have "ids_match ?m" unfolding ids_match_def by (auto dest!: map_of_SomeD)
  moreover have "dom (map_of ?m) = set (od_keys (registry_providers (sr_registry c)))"
    by (force simp: dom_map_of_conv_image_fst)
  ultimately show ?thesis unfolding collect_raw_def by (simp add: collected_missing)
qed

lemma propagate_one_steps:
  "dom (map_of (propagate_one d raw)) = dom (map_of raw)"
  "ids_match raw \<Longrightarrow> ids_match (propagate_one d raw)"
  "map_of (propagate_one d raw) k = Some s' \<Longrightarrow> \<exists>s ds. map_of raw k = Some s \<and> s' = s\<lparr>dependencies := ds\<rparr>"
proof -
  show "dom (map_of (propagate_one d raw)) = dom (map_of raw)"
    by (auto simp: propagate_one_def update_conv' split: option.split)
  show "ids_match raw \<Longrightarrow> ids_match (propagate_one d raw)"
    by (auto simp: propagate_one_def ids_match_def update_conv' split: option.split)
  assume "map_of (propagate_one d raw) k = Some s'"
  then show "\<exists>s ds. map_of raw k = Some s \<and> s' = s\<lparr>dependencies := ds\<rparr>"
    by (cases "k = ds_sensor_id d")
      (auto simp: propagate_one_def update_conv' split: option.splits
        intro!: exI [of _ "dependencies s'"])
qed

lemma propagate_steps:
  "dom (map_of (propagate_sensor_dependencies ds raw)) = dom (map_of raw)"
  "ids_match raw \<Longrightarrow> ids_match (propagate_sensor_dependencies ds raw)"
  "map_of (propagate_sensor_dependencies ds raw) k = Some s' \<Longrightarrow>
     \<exists>s dl. map_of raw k = Some s \<and> s' = s\<lparr>dependencies := dl\<rparr>"
proof -
  show "dom (map_of (propagate_sensor_dependencies ds raw)) = dom (map_of raw)"
    unfolding propagate_sensor_dependencies_def by (induction ds arbitrary: raw) (simp_all add: propagate_one_steps)
  show "ids_match raw \<Longrightarrow> ids_match (propagate_sensor_dependencies ds raw)"
    unfolding propagate_sensor_dependencies_def by (induction ds arbitrary: raw) (simp_all add: propagate_one_steps)
  assume "map_of (propagate_sensor_dependencies ds raw) k = Some s'"
  then show "\<exists>s dl. map_of raw k = Some s \<and> s' = s\<lparr>dependencies := dl\<rparr>"
    unfolding propagate_sensor_dependencies_def
  proof (induction ds arbitrary: raw)
    case Nil
    then show ?case by (auto intro!: exI [of _ "dependencies s'"])
  next
    case (Cons d ds)
    from Cons.prems have "map_of (fold propagate_one ds (propagate_one d raw)) k = Some s'" by simp
    from Cons.IH [OF this] obtain s1 dl1
      where 1: "map_of (propagate_one d raw) k = Some s1" "s' = s1\<lparr>dependencies := dl1\<rparr>" by blast
    from propagate_one_steps(3) [OF 1(1)] 1(2) show ?case by auto
  qed
qed

section \<open>Nothing required is missing\<close>

lemma hysteresis_keeps: "sensor_id (fst (hysteresis_apply s v p t)) = sensor_id s"
  by (simp add: hysteresis_apply_def Let_def split: option.split)

lemma auto_recovery_keeps: "auto_recovery env sid p s c = (r, c') \<Longrightarrow> sensor_id r = sensor_id s"
  by (auto simp: auto_recovery_def verify_recovery_def Let_def split: prod.splits if_splits)

lemma evaluate_keeps: "evaluate raw p now = Inr s \<Longrightarrow> sensor_id s = sensor_id raw"
  by (erule evaluate_cases) simp

lemma check_sensor_id:
  assumes "check_sensor env tests auto m d raw c = (Inr (prev, r), c')"
  shows "sensor_id r = sensor_id raw"
proof -
  let ?sid = "ds_sensor_id d"
  define s where "s = (case registry_provider ?sid (sr_registry c) of Some p \<Rightarrow> if tests
     then raw\<lparr>last_self_test := Some (bounded_self_test (Aware (cy_now env ?sid)) p 0)\<rparr> else raw | None \<Rightarrow> raw)"
  have s: "sensor_id s = sensor_id raw" by (simp add: s_def split: option.split)
  obtain e where e: "evaluate s (coordinator_policy c ?sid) (cy_now env ?sid) = Inr e"
    using assms by (simp add: check_sensor_def s_def [symmetric] Let_def split: sum.splits)
  define h where "h = hysteresis_apply (apply_maintenance env m e)
    (prior_snapshot env (current_snapshot ?sid (sr_store c))) (coordinator_policy c ?sid) (sr_hysteresis c)"
  have h: "sensor_id (fst h) = sensor_id raw"
    using evaluate_keeps [OF e] s by (simp add: h_def hysteresis_keeps apply_maintenance_def)
  show ?thesis
    using assms e h
    by (auto simp: check_sensor_def s_def [symmetric] h_def [symmetric] Let_def annotate_def
        dest!: auto_recovery_keeps split: prod.splits option.splits if_splits)
qed

lemma check_sensors_ids:
  assumes "check_sensors env tests auto m raw ds c = (Inr rows, c')" "ids_match raw"
  shows "map (\<lambda>(d, prev, r). d) rows = filter (\<lambda>d. map_of raw (ds_sensor_id d) \<noteq> None) ds \<and>
    (\<forall>(d, prev, r) \<in> set rows. sensor_id r = ds_sensor_id d)"
  using assms(1)
proof (induction ds arbitrary: c rows)
  case (Cons d ds)
  show ?case
  proof (cases "map_of raw (ds_sensor_id d)")
    case None
    with Cons show ?thesis by simp
  next
    case (Some s)
    then have s: "sensor_id s = ds_sensor_id d" using assms(2) by (simp add: ids_match_def)
    from Cons.prems Some obtain prev r c1 rows1 where 1: "check_sensor env tests auto m d s c = (Inr (prev, r), c1)"
        "check_sensors env tests auto m raw ds c1 = (Inr rows1, c')" "rows = (d, prev, r) # rows1"
      by (auto split: prod.splits sum.splits)
    from Cons.IH [OF 1(2)] check_sensor_id [OF 1(1)] s Some 1(3) show ?thesis by simp
  qed
qed simp

lemma run_cycle_rows:
  assumes "run_cycle env tests auto c = (Inr rep, c')"
  obtains rows :: checked where
    "map (\<lambda>(d, prev, r). d) rows = filter (\<lambda>d. ds_sensor_id d \<in> dom (map_of (collect_raw (cy_started env) c)))
       (od_values (registry_descriptors (sr_registry c)))"
    "\<forall>(d, prev, r) \<in> set rows. sensor_id r = ds_sensor_id d"
    "report_sensors rep = map (\<lambda>(d, prev, r). r) rows"
    "rep = build_platform_report (map (\<lambda>(d, prev, r). (d, r)) rows) (manager_health rep) (generated_at rep)"
proof -
  let ?ds = "od_values (registry_descriptors (sr_registry c))"
  let ?raw = "propagate_sensor_dependencies ?ds (collect_raw (cy_started env) c)"
  from assms obtain m c1 rows c2 where
      k: "check_sensors env tests auto m ?raw ?ds c1 = (Inr rows, c2)"
      and f: "finish_cycle env (collect_failures (cy_started env) c) rows c2 = (Inr rep, c')"
    by (auto simp: run_cycle_def Let_def split: prod.splits sum.splits)
  note ids = check_sensors_ids [OF k propagate_steps(2) [OF collect_raw_ids]]
  have "map_of ?raw i \<noteq> None \<longleftrightarrow> i \<in> dom (map_of (collect_raw (cy_started env) c))" for i
    using propagate_steps(1) [of ?ds "collect_raw (cy_started env) c"] by (metis domIff)
  with ids have A: "map (\<lambda>(d, prev, r). d) rows =
      filter (\<lambda>d. ds_sensor_id d \<in> dom (map_of (collect_raw (cy_started env) c))) ?ds" by simp
  have "rep = build_platform_report (map (\<lambda>(d, prev, r). (d, r)) rows)
      (cycle_manager_state env (length rows) (collect_failures (cy_started env) c) (sr_manager_state c2)) (cy_finished env)"
    using f by (auto simp: finish_cycle_def Let_def split: prod.splits sum.splits)
  then have B: "report_sensors rep = map (\<lambda>(d, prev, r). r) rows"
      "rep = build_platform_report (map (\<lambda>(d, prev, r). (d, r)) rows) (manager_health rep) (generated_at rep)"
    by (auto simp: build_platform_report_def Let_def case_prod_beta comp_def)
  show thesis by (rule that [OF A conjunct2 [OF ids] B])
qed


definition example_cycle :: cycle_env where
  "example_cycle = store_env.extend example_env \<lparr> cy_started = Aware 0, cy_started_text = ''start'',
     cy_finished = Aware 0, cy_now = (\<lambda>_. 0), cy_monotonic = (\<lambda>_. 0), cy_duration_ms = 0, cy_wall = 100,
     cy_text = (\<lambda>j. case j of JStr x \<Rightarrow> x | _ \<Rightarrow> ''''), cy_int = (\<lambda>j. case j of JInt n \<Rightarrow> Some n | _ \<Rightarrow> None),
     cy_float = (\<lambda>j. case j of JFloat x \<Rightarrow> Inr x | JInt n \<Rightarrow> Inr (of_int n) | _ \<Rightarrow> Inl (TypeError '''')) \<rparr>"

definition new_coordinator :: "provider SensorRegistry \<Rightarrow> SensorReliabilityCoordinator" where
  "new_coordinator r = \<lparr> sr_store = empty_store, sr_registry = r, sr_recovery = new_engine, sr_policies = [],
     sr_injector = None, sr_hysteresis = new_tracker,
     sr_manager_state = [(''last_health_cycle'', JStr ''''), (''last_successful_health_cycle'', JStr ''''),
       (''sensors_checked'', JInt 0), (''health_checks_failed'', JInt 0), (''health_cycle_duration_ms'', JFloat 0)],
     sr_last_report = None \<rparr>"

lemma example_cycle_fields [simp]:
  "cy_started example_cycle = Aware 0" "cy_now example_cycle sid = 0" "cy_wall example_cycle = 100"
  "cy_text example_cycle (JStr x) = x" "cy_int example_cycle (JInt n) = Some n"
  "cy_float example_cycle (JFloat y) = Inr y"
  by (simp_all add: example_cycle_def store_env.defs)

definition lonely_coordinator :: SensorReliabilityCoordinator where
  "lonely_coordinator = new_coordinator (new_registry [example_descriptor])"

definition example_report :: PlatformHealthReport where
  "example_report = build_platform_report [(example_descriptor, state_snapshot FAILED RC_PROCESS_NOT_RUNNING)] [] (Aware 0)"

lemma persist_first:
  assumes "st_history t = []" "st_incidents t = []"
  shows "\<exists>hs t'. persist_snapshots env previous [s] t = (Inr hs, t')"
  using assms
  by (simp add: persist_snapshot_def record_transition_def update_incident_def Let_def resolve_incidents_def
      split: prod.split)

theorem persisted_state_is_found_again_witness:
  "\<exists>hs t' v. persist_report example_env example_report [] empty_store = (Inr hs, t') \<and>
     prior_snapshot example_cycle (current_snapshot ''fs_sensor'' t') = Some v \<and> state v = FAILED"
proof -
  let ?s = "state_snapshot FAILED RC_PROCESS_NOT_RUNNING"
  have r: "report_sensors example_report = [?s]"
    by (simp add: example_report_def build_platform_report_def Let_def)
  have "\<exists>hs t'. persist_report example_env example_report [] empty_store = (Inr hs, t')"
    using persist_first [of empty_store example_env "[]" ?s]
    by (auto simp: persist_report_def r empty_store_def simp del: persist_snapshots.simps)
  then obtain hs t' where p: "persist_report example_env example_report [] empty_store = (Inr hs, t')" by blast
  have "\<exists>v. prior_snapshot example_cycle (current_snapshot (sensor_id ?s) t') = Some v \<and> sensor_id v = sensor_id ?s \<and>
      state v = state ?s \<and> health_score v = health_score ?s \<and> reason v = reason ?s"
    by (rule persisted_state_is_found_again [OF empty_store_ok p]) (simp_all add: r)
  with p show ?thesis by (auto simp: state_snapshot_def new_snapshot_def)
qed

lemma lonely_cycle_completes: "\<exists>rep c'. run_cycle example_cycle False False lonely_coordinator = (Inr rep, c')"
proof -
  let ?f = "provider_failure (Aware 0) ''fs_sensor'' RC_HEALTH_PROVIDER_INVALID ''Expected sensor did not register during startup.''"
  let ?c = "lonely_coordinator\<lparr>sr_manager_state := AList.update ''cycle_started_at''
      (JStr (cy_started_text example_cycle)) (sr_manager_state lonely_coordinator)\<rparr>"
  have reg: "sr_registry lonely_coordinator = new_registry [example_descriptor]"
      "od_values (registry_descriptors (new_registry [example_descriptor])) = [example_descriptor]"
      "sr_injector lonely_coordinator = None" "sr_store lonely_coordinator = empty_store"
      "registry_providers (new_registry [example_descriptor]) = []" "ds_sensor_id example_descriptor = ''fs_sensor''"
      "ds_dependencies example_descriptor = []" "ds_expected example_descriptor" "ds_enabled example_descriptor"
    by (simp_all add: lonely_coordinator_def new_coordinator_def new_registry_def example_descriptor_def)
  have raw: "propagate_sensor_dependencies [example_descriptor] (collect_raw (Aware 0) lonely_coordinator) = [(''fs_sensor'', ?f)]"
    by (simp add: propagate_sensor_dependencies_def propagate_one_def shared_dependencies_def collect_raw_def
        missing_expected_def reg)
  have m: "active_maintenance example_cycle ?c = (Inr [], ?c)"
    by (simp add: active_maintenance_def get_manager_state_def reg empty_store_def od_get_def)
  obtain e where "evaluate ?f (coordinator_policy ?c ''fs_sensor'') 0 = Inr e"
    by (simp add: evaluate_def snapshot_validated_def provider_failure_def new_snapshot_def od_get_def)
  then obtain prev r c2 where k: "check_sensor example_cycle False False [] example_descriptor ?f ?c = (Inr (prev, r), c2)"
      "sr_store c2 = empty_store"
    by (cases "hysteresis_apply (apply_maintenance example_cycle [] e)
          (prior_snapshot example_cycle (current_snapshot ''fs_sensor'' (sr_store ?c))) (coordinator_policy ?c ''fs_sensor'') (sr_hysteresis ?c)")
      (auto simp: check_sensor_def registry_provider_def reg Let_def)
  have "\<exists>rep c'. finish_cycle example_cycle n [(example_descriptor, prev, r)] c2 = (Inr rep, c')" for n
    using persist_first [of empty_store "store_env.truncate example_cycle" "[(''fs_sensor'', prev)]" r]
    by (auto simp: finish_cycle_def persist_report_def build_platform_report_def Let_def k reg empty_store_def
        simp del: persist_snapshots.simps)
  then show ?thesis
    by (simp add: run_cycle_def Let_def reg m raw k)
qed


section \<open>A snapshot that stops the cycle\<close>

lemma map_of_keyed: "map_of (map (\<lambda>(k, v). (k, f k v)) xs) k = map_option (f k) (map_of xs k)"
  by (induction xs) auto

lemma fold_update_other:
  "k \<notin> ds_sensor_id ` set ds \<Longrightarrow>
   map_of (fold (\<lambda>d m. AList.update (ds_sensor_id d) (f d) m) ds raw) k = map_of raw k"
  by (induction ds arbitrary: raw) (simp_all add: update_conv')

lemma negative_counter_rejected:
  "events_received_total s < 0 \<Longrightarrow> \<exists>e. evaluate s p now = Inl e"
  by (simp add: evaluate_def snapshot_validated_def)

lemma check_sensor_rejects:
  assumes "events_received_total raw < 0"
  shows "\<exists>e c'. check_sensor env tests auto m d raw c = (Inl e, c') \<and> sr_last_report c' = sr_last_report c"
proof -
  let ?sid = "ds_sensor_id d"
  define s where "s = (case registry_provider ?sid (sr_registry c) of Some p \<Rightarrow> if tests
     then raw\<lparr>last_self_test := Some (bounded_self_test (Aware (cy_now env ?sid)) p 0)\<rparr> else raw | None \<Rightarrow> raw)"
  have "events_received_total s < 0" using assms by (simp add: s_def split: option.split)
  from negative_counter_rejected [OF this] obtain e
    where "evaluate s (coordinator_policy c ?sid) (cy_now env ?sid) = Inl e" by blast
  then show ?thesis by (simp add: check_sensor_def s_def [symmetric] Let_def)
qed

lemma check_sensor_report: "check_sensor env tests auto m d raw c = (res, c') \<Longrightarrow> sr_last_report c' = sr_last_report c"
  by (auto simp: check_sensor_def auto_recovery_def Let_def split: sum.splits prod.splits option.splits if_splits)

lemma check_sensors_rejects:
  assumes "d \<in> set ds" "map_of raw (ds_sensor_id d) = Some s" "events_received_total s < 0"
  shows "\<exists>e c'. check_sensors env tests auto m raw ds c = (Inl e, c') \<and> sr_last_report c' = sr_last_report c"
  using assms(1)
proof (induction ds arbitrary: c)
  case (Cons d' ds)
  show ?case
  proof (cases "d' = d")
    case True
    with check_sensor_rejects [OF assms(3), of env tests auto m d c] assms(2) show ?thesis by auto
  next
    case False
    with Cons.prems have mem: "d \<in> set ds" by simp
    show ?thesis
    proof (cases "map_of raw (ds_sensor_id d')")
      case None
      with Cons.IH [OF mem] show ?thesis by simp
    next
      case (Some s')
      obtain res c1 where k: "check_sensor env tests auto m d' s' c = (res, c1)" by (meson surj_pair)
      from Cons.IH [OF mem, of c1] check_sensor_report [OF k] Some k show ?thesis
        by (cases res) auto
    qed
  qed
qed simp

text \<open>
  One provider can stop the whole cycle: when a registered provider answers with its own
  identifier and a negative event counter, the cycle raises and produces no report, whatever the
  other sensors answered; only an exception of the provider itself is isolated.
\<close>

theorem malformed_snapshot_stops_cycle:
  assumes "d \<in> set (od_values (registry_descriptors (sr_registry c)))"
    and "map_of (registry_providers (sr_registry c)) (ds_sensor_id d) = Some p"
    and "pv_snapshot p = Completed s" "sensor_id s = ds_sensor_id d" "events_received_total s < 0"
    and "sr_injector c = None"
  shows "\<exists>e c'. run_cycle env tests auto c = (Inl e, c') \<and> sr_last_report c' = sr_last_report c"
proof -
  let ?ds = "od_values (registry_descriptors (sr_registry c))" and ?i = "ds_sensor_id d"
  let ?m = "map (\<lambda>(sid, p). (sid, fst (collect_one (cy_started env) (sr_injector c) sid p)))
    (registry_providers (sr_registry c))"
  have one: "fst (collect_one (cy_started env) (sr_injector c) ?i p) = s"
    using assms(3,4,6) by (simp add: collect_one_def Let_def)
  have "map_of ?m ?i = Some s" using assms(2) one by (simp add: map_of_keyed)
  moreover have "?i \<notin> ds_sensor_id ` set (missing_expected (sr_registry c))"
    using map_of_SomeD [OF assms(2)] by (force simp: missing_expected_def)
  ultimately have "map_of (collect_raw (cy_started env) c) ?i = Some s"
    unfolding collect_raw_def by (simp add: fold_update_other)
  moreover obtain s' where s': "map_of (propagate_sensor_dependencies ?ds (collect_raw (cy_started env) c)) ?i = Some s'"
    using propagate_steps(1) [of ?ds "collect_raw (cy_started env) c"] calculation by (metis domD domI)
  ultimately have neg: "events_received_total s' < 0"
    using propagate_steps(3) [OF s'] assms(5) by auto
  obtain res c1 where m: "active_maintenance env (c\<lparr>sr_manager_state :=
      AList.update ''cycle_started_at'' (JStr (cy_started_text env)) (sr_manager_state c)\<rparr>) = (res, c1)"
    by (meson surj_pair)
  then have c1: "sr_last_report c1 = sr_last_report c"
    by (auto simp: active_maintenance_def exit_maintenance_def split: json.splits if_splits sum.splits)
  show ?thesis
  proof (cases res)
    case (Inl e)
    with m c1 show ?thesis by (simp add: run_cycle_def Let_def)
  next
    case (Inr mt)
    from check_sensors_rejects [OF assms(1) s' neg, of env tests auto mt c1] m c1 Inr show ?thesis
      by (auto simp: run_cycle_def Let_def)
  qed
qed

definition broken_provider :: provider where
  "broken_provider = \<lparr> pv_snapshot = Completed ((new_snapshot ''fs_sensor'' (Aware 0))\<lparr>events_received_total := -1\<rparr>),
     pv_probe = (\<lambda>_. Inl (RuntimeError ''down'')), pv_self_test = (\<lambda>_. TimedOut), pv_recover = (\<lambda>_. Inl ''OSError: down'') \<rparr>"

theorem malformed_snapshot_stops_cycle_witness:
  "\<exists>e c'. run_cycle example_cycle True True (new_coordinator ((new_registry [example_descriptor])
     \<lparr>registry_providers := [(''fs_sensor'', broken_provider)]\<rparr>)) = (Inl e, c') \<and> sr_last_report c' = None"
proof -
  let ?c = "new_coordinator ((new_registry [example_descriptor])\<lparr>registry_providers := [(''fs_sensor'', broken_provider)]\<rparr>)"
  have "\<exists>e c'. run_cycle example_cycle True True ?c = (Inl e, c') \<and> sr_last_report c' = sr_last_report ?c"
    by (rule malformed_snapshot_stops_cycle [where d = example_descriptor and p = broken_provider
          and s = "(new_snapshot ''fs_sensor'' (Aware 0))\<lparr>events_received_total := -1\<rparr>"])
      (simp_all add: new_coordinator_def new_registry_def example_descriptor_def broken_provider_def new_snapshot_def)
  then show ?thesis by (simp add: new_coordinator_def)
qed

section \<open>Maintenance\<close>

lemma get_after_set:
  assumes "set (od_keys v) \<noteq> {''value''}"
  shows "get_manager_state k d (set_manager_state k v t) = JObj (canonical v)"
proof -
  have "set (od_keys (canonical v)) = set (od_keys v)" by simp
  with assms show ?thesis by (simp add: get_manager_state_def set_manager_state_def update_conv')
qed

text \<open>
  Maintenance is bounded: it starts only with a reason, an initiator and a timeout between 30
  seconds and a day; from then on it is active exactly until the timeout has passed, and the first
  look at it afterwards ends it for good.
\<close>

theorem maintenance_expires:
  assumes "enter_maintenance env why who timeout c = (Inr payload, c1)"
    and float: "\<And>x. cy_float env' (JFloat x) = Inr x"
  shows "30 \<le> timeout \<and> timeout \<le> 86400 \<and> take 256 (str_strip why) \<noteq> '''' \<and> take 128 (str_strip who) \<noteq> '''' \<and>
    (if cy_wall env' < cy_wall env + of_int timeout
     then \<exists>m. active_maintenance env' c1 = (Inr m, c1) \<and> m \<noteq> []
     else \<exists>c2. active_maintenance env' c1 = (Inr [], c2) \<and> (\<forall>env''. active_maintenance env'' c2 = (Inr [], c2)))"
proof -
  from assms(1) have ok: "30 \<le> timeout" "timeout \<le> 86400" "take 256 (str_strip why) \<noteq> ''''" "take 128 (str_strip who) \<noteq> ''''"
    and p: "payload = [(''reason'', JStr (take 256 (str_strip why))), (''initiated_by'', JStr (take 128 (str_strip who))),
        (''started_at'', JFloat (cy_wall env)), (''expires_at'', JFloat (cy_wall env + of_int timeout))]"
    and c1: "c1 = c\<lparr>sr_store := set_manager_state ''maintenance'' payload (sr_store c)\<rparr>"
    by (auto simp: enter_maintenance_def Let_def split: if_splits)
  have get: "get_manager_state ''maintenance'' (JObj []) (sr_store c1) = JObj (canonical payload)"
    unfolding c1 by (simp add: get_after_set p)
  have "od_get (canonical payload) ''reason'' JNull = JStr (take 256 (str_strip why))"
    "od_get (canonical payload) ''expires_at'' (JInt 0) = JFloat (cy_wall env + of_int timeout)"
    by (simp_all add: od_get_def p)
  moreover have "active_maintenance env'' (exit_maintenance c1) = (Inr [], exit_maintenance c1)" for env''
    by (simp add: active_maintenance_def exit_maintenance_def get_after_set od_get_def canonical_def)
  moreover have "canonical payload \<noteq> []" by (simp add: p canonical_def)
  ultimately show ?thesis
    using ok get by (simp add: active_maintenance_def float not_less)
qed

theorem maintenance_expires_witness:
  "\<exists>p c1 m. enter_maintenance example_cycle ''upgrade'' ''admin'' 60 lonely_coordinator = (Inr p, c1) \<and>
     active_maintenance example_cycle c1 = (Inr m, c1) \<and> m \<noteq> []"
proof -
  have "\<exists>p c1. enter_maintenance example_cycle ''upgrade'' ''admin'' 60 lonely_coordinator = (Inr p, c1)"
    by (simp add: enter_maintenance_def Let_def str_strip_def is_space_def)
  then obtain p c1 where e: "enter_maintenance example_cycle ''upgrade'' ''admin'' 60 lonely_coordinator = (Inr p, c1)"
    by blast
  from maintenance_expires [OF e, of example_cycle] e show ?thesis by auto
qed

section \<open>Repair\<close>

text \<open>
  C31. A repair counts only when it is verified: an outcome that claims a fully operational sensor
  ends in an evaluated \<open>HEALTHY\<close> or \<open>HEALTHY_IDLE\<close> snapshot without lost capability, and unless
  nothing needed repair the recovery succeeded and a functional self test passed after it. An
  outcome that does not claim it names at least one error.
\<close>

theorem repair_claims_are_verified:
  assumes "recover_sensor env sid c = (Inr ro, c')"
  shows "if ro_fully_operational ro then
      state (ro_post ro) \<in> {HEALTHY, HEALTHY_IDLE} \<and> lost_capabilities (ro_post ro) = [] \<and>
      rs_succeeded (ro_recovery ro) \<and>
      (rs_attempted (ro_recovery ro) \<longrightarrow> (\<exists>t. ro_self_test ro = Some t \<and> st_passed t)) \<and>
      (\<exists>p raw k. registry_provider sid (sr_registry c) = Some p \<and> pv_probe p k = Inr raw \<and>
         evaluate raw (coordinator_policy c sid) (cy_now env sid) = Inr (ro_post ro))
    else ro_errors ro \<noteq> []"
proof -
  from assms obtain p raw s where p: "registry_provider sid (sr_registry c) = Some p"
      and s: "pv_probe p 0 = Inr raw" "evaluate raw (coordinator_policy c sid) (cy_now env sid) = Inr s"
    by (auto simp: recover_sensor_def py_bind_def split: option.splits sum.splits)
  show ?thesis
  proof (cases "state s \<in> set healthy_repair_states \<and> lost_capabilities s = []")
    case True
    with assms p s have ro: "ro = no_repair sid s" by (simp add: recover_sensor_def)
    have "state s \<in> {HEALTHY, HEALTHY_IDLE}" using True by (simp add: healthy_repair_states_def)
    with True p s show ?thesis unfolding ro by (auto simp: no_repair_def recovery_result_def)
  next
    case False
    obtain r call e where r: "recover (pv_recover p) s (coordinator_policy c sid) True (cy_monotonic env sid) (sr_recovery c) = (r, call, e)"
      by (metis prod_cases3)
    show ?thesis
    proof (cases "rs_succeeded r")
      case True
      with assms p s r False obtain raw1 post where post: "pv_probe p 1 = Inr raw1"
          "evaluate raw1 (coordinator_policy c sid) (cy_now env sid) = Inr post"
          "ro = repaired sid s r (Some (bounded_self_test (Aware (cy_now env sid)) p 0)) post"
        by (auto simp: recover_sensor_def py_bind_def Let_def split: sum.splits)
      then show ?thesis
        using True p
        by (auto simp: repaired_def verified_operational_def repair_errors_def healthy_repair_states_def Let_def)
    next
      case no: False
      with assms p s r False have "ro = repaired sid s r None s"
        by (auto simp: recover_sensor_def py_bind_def Let_def)
      with no show ?thesis by (simp add: repaired_def verified_operational_def repair_errors_def Let_def)
    qed
  qed
qed

theorem repair_claims_are_verified_witness:
  "\<exists>ro c'. recover_sensor example_cycle ''fs_sensor'' (new_coordinator ((new_registry [example_descriptor])
     \<lparr>registry_providers := [(''fs_sensor'', broken_provider\<lparr>pv_probe := \<lambda>_. Inr live_snapshot\<rparr>)]\<rparr>)) = (Inr ro, c') \<and>
     (if ro_fully_operational ro then state (ro_post ro) \<in> {HEALTHY, HEALTHY_IDLE} else ro_errors ro \<noteq> [])"
proof -
  let ?c = "new_coordinator ((new_registry [example_descriptor])
     \<lparr>registry_providers := [(''fs_sensor'', broken_provider\<lparr>pv_probe := \<lambda>_. Inr live_snapshot\<rparr>)]\<rparr>)"
  obtain s where "evaluate live_snapshot (coordinator_policy ?c ''fs_sensor'') 0 = Inr s"
    by (simp add: evaluate_def snapshot_validated_def live_snapshot_def new_snapshot_def od_get_def)
  then have "\<exists>ro c'. recover_sensor example_cycle ''fs_sensor'' ?c = (Inr ro, c')"
    by (simp add: recover_sensor_def registry_provider_def new_coordinator_def new_registry_def Let_def
        split: prod.split)
  then obtain ro c' where "recover_sensor example_cycle ''fs_sensor'' ?c = (Inr ro, c')" by blast
  from repair_claims_are_verified [OF this] this show ?thesis by (cases "ro_fully_operational ro") auto
qed

end
