(* ===== verification/License_Verifier.thy ===== *)
theory License_Verifier
  imports Json_Values
begin

text \<open>
  Product licenses: the states and decisions of \<open>licensing/models.py\<close> and \<open>licensing/policy.py\<close>, the
  verification of a signed document (\<open>licensing/verifier.py\<close>) and the server's issuer
  (\<open>licensing/issuer.py\<close>). Parameters of the model are the library code these call: Ed25519, base64,
  the canonical JSON encoder, \<open>datetime.fromisoformat\<close> and \<open>isoformat\<close>. Instants are microseconds.
\<close>

section \<open>Models and policy\<close>

datatype LicenseState = VALID | EXPIRING | EXPIRED | NOT_YET_VALID | UNLICENSED | INVALID
  | DEVICE_MISMATCH | CLOCK_ROLLBACK_SUSPECTED | VERIFIER_UNAVAILABLE

fun state_value :: "LicenseState \<Rightarrow> string" where
  "state_value VALID = ''VALID''"
| "state_value EXPIRING = ''EXPIRING''"
| "state_value EXPIRED = ''EXPIRED''"
| "state_value NOT_YET_VALID = ''NOT_YET_VALID''"
| "state_value UNLICENSED = ''UNLICENSED''"
| "state_value INVALID = ''INVALID''"
| "state_value DEVICE_MISMATCH = ''DEVICE_MISMATCH''"
| "state_value CLOCK_ROLLBACK_SUSPECTED = ''CLOCK_ROLLBACK_SUSPECTED''"
| "state_value VERIFIER_UNAVAILABLE = ''VERIFIER_UNAVAILABLE''"

definition CORE_SAFETY_FEATURES :: "string list" where
  "CORE_SAFETY_FEATURES = [''core_protection'', ''alerting'', ''evidence_preservation'',
     ''incident_response'', ''integrity_verification'']"

record LicenseStatus =
  state :: LicenseState
  message :: string
  license_id :: string
  edition :: string
  licensed_to :: string
  issued_at :: string
  expires_at :: "string option"
  maintenance_until :: "string option"
  features :: "string list"
  activation_mode :: string
  device_bound :: bool
  key_id :: string
  last_verified_at :: string
  days_remaining :: "int option"
  warnings :: "string list"
  error_code :: string
  core_protection_active :: bool
  metadata :: "(string \<times> string) list"

text \<open>The dataclass with its default values.\<close>

definition default_status :: "LicenseState \<Rightarrow> string \<Rightarrow> LicenseStatus" where
  "default_status st msg = \<lparr> state = st, message = msg, license_id = '''', edition = ''UNLICENSED'',
     licensed_to = '''', issued_at = '''', expires_at = None, maintenance_until = None, features = [],
     activation_mode = ''none'', device_bound = False, key_id = '''', last_verified_at = '''',
     days_remaining = None, warnings = [], error_code = '''', core_protection_active = True,
     metadata = [] \<rparr>"

definition valid :: "LicenseStatus \<Rightarrow> bool" where
  "valid s \<longleftrightarrow> state s = VALID \<or> state s = EXPIRING"

definition PRODUCT_ID :: string where "PRODUCT_ID = ''com.liquidskysecurity.msaa''"

definition LICENSE_SCHEMA_VERSION :: int where "LICENSE_SCHEMA_VERSION = 1"

record LicensingPolicy =
  product_id :: string
  maximum_document_bytes :: nat
  clock_rollback_tolerance_seconds :: int
  expiring_warning_days :: int
  operator_unlock_activation_modes :: "string list"
  core_safety_features :: "string list"

definition DEFAULT_POLICY :: LicensingPolicy where
  "DEFAULT_POLICY = \<lparr> product_id = PRODUCT_ID, maximum_document_bytes = 262144,
     clock_rollback_tolerance_seconds = 300, expiring_warning_days = 30,
     operator_unlock_activation_modes = [''offline'', ''stripe''],
     core_safety_features = CORE_SAFETY_FEATURES \<rparr>"

section \<open>Errors and the library code\<close>

datatype lic_error = LicenseVerificationError string string | OSError string | OtherError string

type_synonym 'a lic = "lic_error + 'a"

record lic_env =
  b64decode :: "string \<Rightarrow> char list option"
  crypto_installed :: bool
  ed25519_verify :: "char list \<Rightarrow> char list \<Rightarrow> char list \<Rightarrow> bool"
  canonical_json :: "json \<Rightarrow> char list option"
  fromiso :: "string \<Rightarrow> datetime option"
  isofmt :: "int \<Rightarrow> string"
  repr_of :: "json \<Rightarrow> string"

section \<open>Verification\<close>

definition signed_payload :: "lic_env \<Rightarrow> json_object \<Rightarrow> char list option" where
  "signed_payload env doc = canonical_json env (JObj (AList.delete ''signature'' doc))"

definition ends_with_Z :: "string \<Rightarrow> bool" where
  "ends_with_Z s \<longleftrightarrow> s \<noteq> [] \<and> last s = CHR ''Z''"

definition parse_time :: "lic_env \<Rightarrow> json \<Rightarrow> string \<Rightarrow> bool \<Rightarrow> int option lic" where
  "parse_time env v field required =
     (let invalid = Inl (LicenseVerificationError ''LIC_TIME_INVALID'' (field @ '' must be an RFC3339 timestamp'')) in
      if v = JNull \<or> v = JStr '''' then
        (if required then Inl (LicenseVerificationError ''LIC_FIELD_REQUIRED'' (field @ '' is required''))
         else Inr None)
      else case v of
        JStr s \<Rightarrow> if 64 < length s then invalid
          else (case fromiso env (if ends_with_Z s then butlast s @ ''+00:00'' else s) of
              None \<Rightarrow> invalid
            | Some (Naive t) \<Rightarrow>
                Inl (LicenseVerificationError ''LIC_TIME_INVALID'' (field @ '' must include a timezone''))
            | Some (Aware t) \<Rightarrow> Inr (Some t))
      | _ \<Rightarrow> invalid)"

definition control_char :: "char \<Rightarrow> bool" where
  "control_char c \<longleftrightarrow> (of_char c :: nat) < 32"

definition clean_text :: "json \<Rightarrow> string \<Rightarrow> bool \<Rightarrow> nat \<Rightarrow> string lic" where
  "clean_text v field required limit =
     (case (case v of JNull \<Rightarrow> Some '''' | JStr s \<Rightarrow> Some s | _ \<Rightarrow> None) of
        None \<Rightarrow> Inl (LicenseVerificationError ''LIC_FIELD_INVALID'' (field @ '' must be text''))
      | Some s \<Rightarrow>
          if required \<and> str_strip s = '''' then
            Inl (LicenseVerificationError ''LIC_FIELD_REQUIRED'' (field @ '' is required''))
          else if limit < length (str_strip s) \<or> list_ex control_char (str_strip s) then
            Inl (LicenseVerificationError ''LIC_FIELD_INVALID'' (field @ '' is invalid''))
          else Inr (str_strip s))"

definition item_get :: "json_object \<Rightarrow> string \<Rightarrow> json" where
  "item_get d k = od_get d k JNull"

fun load_keys :: "lic_env \<Rightarrow> json list \<Rightarrow> (string, char list) odict \<Rightarrow> (string, char list) odict lic" where
  "load_keys env [] keys = Inr keys"
| "load_keys env (JObj it # rest) keys =
     (if item_get it ''algorithm'' \<noteq> JStr ''Ed25519'' \<or> \<not> truthy (od_get it ''enabled'' (JBool True)) then
        load_keys env rest keys
      else py_bind (clean_text (item_get it ''key_id'') ''key_id'' True 128) (\<lambda>kid.
        case b64decode env (json_str (repr_of env) (od_get it ''public_key'' (JStr ''''))) of
          None \<Rightarrow> Inl (LicenseVerificationError ''LIC_TRUST_STORE_INVALID'' (''Invalid public key for '' @ kid))
        | Some raw \<Rightarrow>
            if length raw \<noteq> 32 then
              Inl (LicenseVerificationError ''LIC_TRUST_STORE_INVALID''
                (''Ed25519 public key '' @ kid @ '' is not 32 bytes''))
            else load_keys env rest (AList.update kid raw keys)))"
| "load_keys env (_ # rest) keys = load_keys env rest keys"

text \<open>\<open>document.get("keys", [])\<close> is iterated: the characters of a string and the keys of an object
  are no mappings and are skipped, any other value raises.\<close>

definition load_trusted_keys :: "lic_env \<Rightarrow> json_object \<Rightarrow> (string, char list) odict lic" where
  "load_trusted_keys env doc = (case od_get doc ''keys'' (JList []) of
     JList xs \<Rightarrow> load_keys env xs []
   | JStr _ \<Rightarrow> Inr []
   | JObj _ \<Rightarrow> Inr []
   | _ \<Rightarrow> Inl (OtherError ''TypeError''))"

text \<open>The part of \<open>verify\<close> up to the signature: schema, product and a trusted key.\<close>

definition check_signature ::
  "lic_env \<Rightarrow> (string, char list) odict \<Rightarrow> LicensingPolicy \<Rightarrow> json_object \<Rightarrow> string lic" where
  "check_signature env keys pol doc =
     (if item_get doc ''schema_version'' \<noteq> JInt LICENSE_SCHEMA_VERSION then
        Inl (LicenseVerificationError ''LIC_SCHEMA_UNSUPPORTED'' ''Unsupported license schema version'')
      else py_bind (clean_text (item_get doc ''product_id'') ''product_id'' True 256) (\<lambda>pid.
        if pid \<noteq> product_id pol then
          Inl (LicenseVerificationError ''LIC_PRODUCT_MISMATCH'' ''License is for a different product'')
        else (case item_get doc ''signature'' of
          JObj sig \<Rightarrow>
            if item_get sig ''algorithm'' \<noteq> JStr ''Ed25519'' then
              Inl (LicenseVerificationError ''LIC_SIGNATURE_INVALID'' ''An Ed25519 signature is required'')
            else py_bind (clean_text (item_get sig ''key_id'') ''signature.key_id'' True 128) (\<lambda>kid.
              case map_of keys kid of
                None \<Rightarrow> Inl (LicenseVerificationError ''LIC_KEY_UNKNOWN'' ''License signing key is not trusted'')
              | Some pub \<Rightarrow>
                (case b64decode env (json_str (repr_of env) (od_get sig ''value'' (JStr ''''))) of
                  None \<Rightarrow> Inl (LicenseVerificationError ''LIC_SIGNATURE_INVALID'' ''License signature is malformed'')
                | Some raw \<Rightarrow>
                  if \<not> crypto_installed env then
                    Inl (LicenseVerificationError ''LIC_VERIFIER_UNAVAILABLE''
                      ''Install MSAA's crypto dependency to verify licenses'')
                  else (case signed_payload env doc of
                    None \<Rightarrow> Inl (LicenseVerificationError ''LIC_SIGNATURE_INVALID'' ''License signature verification failed'')
                  | Some body \<Rightarrow>
                      if ed25519_verify env pub raw body then Inr kid
                      else Inl (LicenseVerificationError ''LIC_SIGNATURE_INVALID'' ''License signature verification failed''))))
        | _ \<Rightarrow> Inl (LicenseVerificationError ''LIC_SIGNATURE_INVALID'' ''An Ed25519 signature is required''))))"

record LicenseClaims =
  c_license_id :: string
  c_edition :: string
  c_licensed_to :: string
  c_issued :: int
  c_not_before :: int
  c_expires :: "int option"
  c_maintenance :: "int option"
  c_activation_mode :: string
  c_features :: "string list"
  c_fingerprint :: string

fun clean_features :: "json list \<Rightarrow> string list lic" where
  "clean_features [] = Inr []"
| "clean_features (x # xs) = py_bind (clean_text x ''feature'' True 128) (\<lambda>s.
     py_bind (clean_features xs) (\<lambda>rest. Inr (s # rest)))"

definition hex64 :: "string \<Rightarrow> bool" where
  "hex64 s \<longleftrightarrow> length s = 64 \<and> list_all (\<lambda>c. c \<in> set ''0123456789abcdef'') s"

definition read_binding :: "json_object \<Rightarrow> string lic" where
  "read_binding doc =
     (case (if truthy (item_get doc ''device_binding'') then item_get doc ''device_binding'' else JObj []) of
        JObj b \<Rightarrow> py_bind (clean_text (od_get b ''fingerprint'' (JStr '''')) ''device_binding.fingerprint'' False 128) (\<lambda>fp.
          if fp \<noteq> '''' \<and> \<not> hex64 fp then
            Inl (LicenseVerificationError ''LIC_BINDING_INVALID''
              ''Device fingerprint must be 64 lowercase hexadecimal characters'')
          else Inr fp)
      | _ \<Rightarrow> Inl (LicenseVerificationError ''LIC_BINDING_INVALID'' ''device_binding must be an object''))"

definition read_features :: "json_object \<Rightarrow> string list lic" where
  "read_features doc = (case od_get doc ''features'' (JList []) of
     JList xs \<Rightarrow>
       if 256 < length xs then Inl (LicenseVerificationError ''LIC_FEATURES_INVALID'' ''features must be a bounded list'')
       else py_bind (clean_features xs) (\<lambda>fs. Inr (sort (remdups fs)))
   | _ \<Rightarrow> Inl (LicenseVerificationError ''LIC_FEATURES_INVALID'' ''features must be a bounded list''))"

definition read_claims :: "lic_env \<Rightarrow> json_object \<Rightarrow> LicenseClaims lic" where
  "read_claims env doc =
     py_bind (clean_text (item_get doc ''license_id'') ''license_id'' True 128) (\<lambda>lid.
     py_bind (clean_text (item_get doc ''edition'') ''edition'' True 64) (\<lambda>ed.
     py_bind (clean_text (item_get doc ''licensed_to'') ''licensed_to'' False 256) (\<lambda>to.
     py_bind (parse_time env (item_get doc ''issued_at'') ''issued_at'' True) (\<lambda>issued.
     py_bind (parse_time env (item_get doc ''not_before'') ''not_before'' False) (\<lambda>nb.
     py_bind (parse_time env (item_get doc ''expires_at'') ''expires_at'' False) (\<lambda>ex.
     py_bind (parse_time env (item_get doc ''maintenance_until'') ''maintenance_until'' False) (\<lambda>mu.
     py_bind (clean_text (od_get doc ''activation_mode'' (JStr ''offline'')) ''activation_mode'' False 32) (\<lambda>mode.
     py_bind (read_features doc) (\<lambda>fs.
     py_bind (read_binding doc) (\<lambda>fp.
       let iss = (case issued of Some t \<Rightarrow> t | None \<Rightarrow> 0) in
       Inr \<lparr> c_license_id = lid, c_edition = str_upper ed, c_licensed_to = to, c_issued = iss,
         c_not_before = (case nb of Some t \<Rightarrow> t | None \<Rightarrow> iss), c_expires = ex, c_maintenance = mu,
         c_activation_mode = mode, c_features = fs, c_fingerprint = fp \<rparr>))))))))))"

text \<open>The fields the later outcomes share (\<open>common\<close> in the code).\<close>

definition common_status :: "lic_env \<Rightarrow> int \<Rightarrow> string \<Rightarrow> LicenseClaims \<Rightarrow> LicenseState \<Rightarrow> string \<Rightarrow> LicenseStatus" where
  "common_status env now kid c st msg = (default_status st msg)\<lparr>
     license_id := c_license_id c, edition := c_edition c, licensed_to := c_licensed_to c,
     issued_at := isofmt env (c_issued c), expires_at := map_option (isofmt env) (c_expires c),
     maintenance_until := map_option (isofmt env) (c_maintenance c), features := c_features c,
     activation_mode := c_activation_mode c, device_bound := (c_fingerprint c \<noteq> ''''),
     key_id := kid, last_verified_at := isofmt env now \<rparr>"

definition mismatch_status :: "lic_env \<Rightarrow> string \<Rightarrow> LicenseClaims \<Rightarrow> LicenseStatus" where
  "mismatch_status env kid c = (default_status DEVICE_MISMATCH
       ''This license is bound to a different MSAA installation.'')\<lparr>
     license_id := c_license_id c, edition := c_edition c, licensed_to := c_licensed_to c,
     issued_at := isofmt env (c_issued c), expires_at := map_option (isofmt env) (c_expires c),
     features := c_features c, activation_mode := c_activation_mode c, device_bound := True,
     key_id := kid, error_code := ''LIC_DEVICE_MISMATCH'' \<rparr>"

definition days_until :: "int \<Rightarrow> int \<Rightarrow> int" where
  "days_until now ex = \<lceil>total_seconds (ex - now) / 86400\<rceil>"

definition decide_status :: "lic_env \<Rightarrow> LicensingPolicy \<Rightarrow> string \<Rightarrow> int \<Rightarrow> int option \<Rightarrow> string \<Rightarrow>
    LicenseClaims \<Rightarrow> LicenseStatus" where
  "decide_status env pol fp now last_trusted kid c =
     (if c_fingerprint c \<noteq> '''' \<and> c_fingerprint c \<noteq> fp then mismatch_status env kid c
      else if (case last_trusted of None \<Rightarrow> False
          | Some l \<Rightarrow> now + clock_rollback_tolerance_seconds pol * 1000000 < l) then
        (common_status env now kid c CLOCK_ROLLBACK_SUSPECTED
          ''The system clock moved behind the last trusted license check. Verify date and time.'')\<lparr>
            error_code := ''LIC_CLOCK_ROLLBACK'',
            warnings := [''Core security protection remains operational while licensing requires review.''] \<rparr>
      else if now < c_not_before c then
        (common_status env now kid c NOT_YET_VALID ''The license validity period has not started.'')\<lparr>
            error_code := ''LIC_NOT_YET_VALID'' \<rparr>
      else (case c_expires c of
          None \<Rightarrow> common_status env now kid c VALID ''License signature and validity checks passed.''
        | Some ex \<Rightarrow>
            if ex \<le> now then
              (common_status env now kid c EXPIRED
                ''The product license has expired. Core protection and evidence preservation remain active.'')\<lparr>
                  days_remaining := Some 0, error_code := ''LIC_EXPIRED'',
                  warnings := [''Commercial premium features are unavailable until a valid license is installed.''] \<rparr>
            else (let days = days_until now ex in
              if days \<le> expiring_warning_days pol then
                (common_status env now kid c EXPIRING
                  (''License is valid and expires in '' @ str_int days @ '' day'' @ (if days \<noteq> 1 then ''s'' else '''') @ ''.''))\<lparr>
                    days_remaining := Some days,
                    warnings := [''Renew before expiration to preserve commercial premium feature access.''] \<rparr>
              else (common_status env now kid c VALID ''License signature and validity checks passed.'')\<lparr>
                    days_remaining := Some days \<rparr>)))"

definition verify :: "lic_env \<Rightarrow> (string, char list) odict \<Rightarrow> LicensingPolicy \<Rightarrow> json_object \<Rightarrow> string \<Rightarrow>
    int \<Rightarrow> int option \<Rightarrow> LicenseStatus lic" where
  "verify env keys pol doc fp now last_trusted =
     py_bind (check_signature env keys pol doc) (\<lambda>kid.
     py_bind (read_claims env doc) (\<lambda>c. Inr (decide_status env pol fp now last_trusted kid c)))"

section \<open>The issuer\<close>

record issuer =
  sign_payload :: "char list \<Rightarrow> char list"
  b64encode :: "char list \<Rightarrow> string"
  issuer_key_id :: string
  issuer_name :: string

datatype issue_error = LicenseIssuanceError string | EncodingError

definition bounded_text :: "string \<Rightarrow> string \<Rightarrow> nat \<Rightarrow> issue_error + string" where
  "bounded_text v field limit = (let cleaned = str_strip v in
     if cleaned = '''' \<or> limit < length cleaned \<or> list_ex control_char cleaned then
       Inl (LicenseIssuanceError (field @ '' is invalid''))
     else Inr cleaned)"

fun bounded_features :: "string list \<Rightarrow> issue_error + string list" where
  "bounded_features [] = Inr []"
| "bounded_features (x # xs) = py_bind (bounded_text x ''feature'' 128) (\<lambda>s.
     py_bind (bounded_features xs) (\<lambda>rest. Inr (str_lower s # rest)))"

record license_grant =
  g_license_id :: string
  g_licensed_to :: string
  g_fingerprint :: string
  g_expires :: int
  g_features :: "string list"
  g_edition :: string
  g_mode :: string

definition issue :: "lic_env \<Rightarrow> issuer \<Rightarrow> license_grant \<Rightarrow> int \<Rightarrow> issue_error + json_object" where
  "issue env isr g issued =
     (if g_expires g \<le> issued then Inl (LicenseIssuanceError ''Cannot issue an already-expired license'')
      else if \<not> hex64 (str_strip (g_fingerprint g)) then
        Inl (LicenseIssuanceError ''device_fingerprint must be 64 lowercase hexadecimal characters'')
      else py_bind (bounded_features (g_features g)) (\<lambda>fs.
        py_bind (bounded_text (g_license_id g) ''license_id'' 128) (\<lambda>lid.
        py_bind (bounded_text (g_edition g) ''edition'' 64) (\<lambda>ed.
        py_bind (bounded_text (g_licensed_to g) ''licensed_to'' 256) (\<lambda>to.
        py_bind (bounded_text (issuer_name isr) ''issuer'' 256) (\<lambda>nm.
        py_bind (bounded_text (g_mode g) ''activation_mode'' 32) (\<lambda>mode.
          let doc = [(''schema_version'', JInt LICENSE_SCHEMA_VERSION), (''product_id'', JStr PRODUCT_ID),
               (''license_id'', JStr lid), (''edition'', JStr (str_upper ed)), (''licensed_to'', JStr to),
               (''issuer'', JStr nm), (''issued_at'', JStr (isofmt env issued)),
               (''not_before'', JStr (isofmt env (issued - 5 * 60 * 1000000))),
               (''expires_at'', JStr (isofmt env (g_expires g))),
               (''maintenance_until'', JStr (isofmt env (g_expires g))),
               (''activation_mode'', JStr (str_lower mode)),
               (''features'', JList (map JStr (sort (remdups fs)))),
               (''device_binding'', JObj [(''fingerprint'', JStr (str_strip (g_fingerprint g)))])] in
          (case signed_payload env doc of
             None \<Rightarrow> Inl EncodingError
           | Some body \<Rightarrow> Inr (AList.update ''signature'' (JObj [(''algorithm'', JStr ''Ed25519''),
               (''key_id'', JStr (issuer_key_id isr)),
               (''value'', JStr (b64encode isr (sign_payload isr body)))]) doc)))))))))"

section \<open>What a valid license is\<close>

definition genuine :: "lic_env \<Rightarrow> (string, char list) odict \<Rightarrow> LicensingPolicy \<Rightarrow> json_object \<Rightarrow> string \<Rightarrow> bool" where
  "genuine env keys pol doc kid \<longleftrightarrow>
     item_get doc ''schema_version'' = JInt 1 \<and>
     clean_text (item_get doc ''product_id'') ''product_id'' True 256 = Inr (product_id pol) \<and>
     crypto_installed env \<and>
     (\<exists>sig pub raw body. item_get doc ''signature'' = JObj sig \<and> item_get sig ''algorithm'' = JStr ''Ed25519'' \<and>
        clean_text (item_get sig ''key_id'') ''signature.key_id'' True 128 = Inr kid \<and>
        map_of keys kid = Some pub \<and>
        b64decode env (json_str (repr_of env) (od_get sig ''value'' (JStr ''''))) = Some raw \<and>
        signed_payload env doc = Some body \<and> ed25519_verify env pub raw body)"

lemma check_signature_iff: "check_signature env keys pol doc = Inr kid \<longleftrightarrow> genuine env keys pol doc kid"
proof (cases "item_get doc ''signature''")
  case (JObj sig)
  let ?raw = "b64decode env (json_str (repr_of env) (od_get sig ''value'' (JStr '''')))"
  have "(case map_of keys k of None \<Rightarrow> Inl e1 | Some pub \<Rightarrow> (case ?raw of None \<Rightarrow> Inl e2
         | Some raw \<Rightarrow> if \<not> crypto_installed env then Inl e3 else (case signed_payload env doc of
             None \<Rightarrow> Inl e4 | Some body \<Rightarrow> if ed25519_verify env pub raw body then Inr k else Inl e5))) = Inr kid \<longleftrightarrow>
      k = kid \<and> crypto_installed env \<and> (\<exists>pub raw body. map_of keys k = Some pub \<and> ?raw = Some raw \<and>
         signed_payload env doc = Some body \<and> ed25519_verify env pub raw body)"
    for k and e1 e2 e3 e4 e5 :: lic_error
    by (cases "map_of keys k"; cases ?raw; cases "signed_payload env doc") auto
  then show ?thesis using JObj
    by (auto simp: check_signature_def genuine_def LICENSE_SCHEMA_VERSION_def py_bind_Inr_iff)
qed (auto simp: check_signature_def genuine_def py_bind_Inr_iff split: if_splits)

definition claims_hold :: "LicensingPolicy \<Rightarrow> string \<Rightarrow> int \<Rightarrow> int option \<Rightarrow> LicenseClaims \<Rightarrow> bool" where
  "claims_hold pol fp now last_trusted c \<longleftrightarrow>
     (c_fingerprint c = '''' \<or> c_fingerprint c = fp) \<and>
     pred_option (\<lambda>l. l \<le> now + clock_rollback_tolerance_seconds pol * 1000000) last_trusted \<and>
     c_not_before c \<le> now \<and> pred_option (\<lambda>ex. now < ex) (c_expires c)"

lemma common_status_state [simp]:
  "state (common_status env now kid c st msg) = st"
  "license_id (common_status env now kid c st msg) = c_license_id c"
  "features (common_status env now kid c st msg) = c_features c"
  "activation_mode (common_status env now kid c st msg) = c_activation_mode c"
  "last_verified_at (common_status env now kid c st msg) = isofmt env now"
  by (simp_all add: common_status_def default_status_def)

lemma decide_valid_iff:
  "valid (decide_status env pol fp now last_trusted kid c) \<longleftrightarrow> claims_hold pol fp now last_trusted c"
  by (auto simp: decide_status_def valid_def claims_hold_def mismatch_status_def default_status_def Let_def
      split: option.splits)

text \<open>
  C8. A license is reported valid exactly when it is genuine and its claims hold: schema and product
  match, the signature over the whole document but the signature verifies under a trusted key, the
  device binding is empty or this installation's, the clock has not moved behind the last trusted
  check by more than the tolerance, and the present lies in the validity period.
\<close>

theorem license_valid_exactly_when:
  "(\<exists>st. verify env keys pol doc fp now last_trusted = Inr st \<and> valid st) \<longleftrightarrow>
   (\<exists>kid c. genuine env keys pol doc kid \<and> read_claims env doc = Inr c \<and>
      claims_hold pol fp now last_trusted c)"
  by (fastforce simp: verify_def py_bind_Inr_iff check_signature_iff decide_valid_iff)

lemma days_until_bounds:
  assumes "now < ex"
  shows "1 \<le> days_until now ex" and "(days_until now ex - 1) * 86400000000 < ex - now"
    and "ex - now \<le> days_until now ex * 86400000000"
proof -
  let ?x = "total_seconds (ex - now) / 86400"
  have x: "?x = of_int (ex - now) / 86400000000" by (simp add: total_seconds_def)
  have pos: "0 < ?x" using assms by (simp add: x)
  then show "1 \<le> days_until now ex" unfolding days_until_def by (simp add: one_le_ceiling)
  have "?x \<le> of_int (days_until now ex)" unfolding days_until_def by (rule le_of_int_ceiling)
  then have "(of_int (ex - now) :: rat) \<le> of_int (days_until now ex * 86400000000)"
    by (simp add: x pos_divide_le_eq)
  then show "ex - now \<le> days_until now ex * 86400000000" by (simp only: of_int_le_iff)
  have "of_int (days_until now ex - 1) < ?x" unfolding days_until_def by linarith
  then have "(of_int ((days_until now ex - 1) * 86400000000) :: rat) < of_int (ex - now)"
    by (simp add: x pos_less_divide_eq)
  then show "(days_until now ex - 1) * 86400000000 < ex - now" by (simp only: of_int_less_iff)
qed

text \<open>
  The days a valid license reports are the remaining time rounded up: at least one, and never off
  by a day in either direction; the license is \<open>EXPIRING\<close> exactly when they are within the warning
  period.
\<close>

theorem days_remaining_exact:
  assumes "claims_hold pol fp now last_trusted c" and "c_expires c = Some ex"
  shows "\<exists>d. days_remaining (decide_status env pol fp now last_trusted kid c) = Some d \<and> 1 \<le> d \<and>
    (d - 1) * 86400000000 < ex - now \<and> ex - now \<le> d * 86400000000 \<and>
    state (decide_status env pol fp now last_trusted kid c) =
      (if d \<le> expiring_warning_days pol then EXPIRING else VALID)"
proof -
  have now: "now < ex" using assms by (simp add: claims_hold_def)
  have "decide_status env pol fp now last_trusted kid c =
      (let d = days_until now ex in
        if d \<le> expiring_warning_days pol then
          (common_status env now kid c EXPIRING
            (''License is valid and expires in '' @ str_int d @ '' day'' @ (if d \<noteq> 1 then ''s'' else '''') @ ''.''))\<lparr>
              days_remaining := Some d,
              warnings := [''Renew before expiration to preserve commercial premium feature access.''] \<rparr>
        else (common_status env now kid c VALID ''License signature and validity checks passed.'')\<lparr>
              days_remaining := Some d \<rparr>)"
    using assms now by (auto simp: claims_hold_def decide_status_def Let_def split: option.splits)
  then show ?thesis using days_until_bounds [OF now] by (auto simp: Let_def)
qed

definition example_claims :: LicenseClaims where
  "example_claims = \<lparr> c_license_id = ''L1'', c_edition = ''COMMERCIAL'', c_licensed_to = ''Org'',
     c_issued = 0, c_not_before = 0, c_expires = Some 86400000001, c_maintenance = None,
     c_activation_mode = ''offline'', c_features = [''reports''], c_fingerprint = '''' \<rparr>"

definition example_lic_env :: lic_env where
  "example_lic_env = \<lparr> b64decode = Some, crypto_installed = True,
     ed25519_verify = (\<lambda>pub sig body. sig = pub @ body), canonical_json = (\<lambda>_. Some ''{}''),
     fromiso = (\<lambda>s. Some (Aware (if s = ''a'' then 300000000 else if s = ''b'' then 600000000 else 900000000))),
     isofmt = (\<lambda>t. if t = 300000000 then ''a'' else if t = 600000000 then ''b'' else ''c''), repr_of = (\<lambda>_. '''') \<rparr>"

theorem days_remaining_exact_witness:
  "\<exists>d. days_remaining (decide_status example_lic_env DEFAULT_POLICY ''fp'' 0 None ''k'' example_claims) = Some d \<and> d = 2 \<and>
    state (decide_status example_lic_env DEFAULT_POLICY ''fp'' 0 None ''k'' example_claims) = EXPIRING"
proof -
  obtain d where "days_remaining (decide_status example_lic_env DEFAULT_POLICY ''fp'' 0 None ''k'' example_claims) = Some d"
    "(d - 1) * 86400000000 < (86400000001 :: int)" "(86400000001 :: int) \<le> d * 86400000000"
    "state (decide_status example_lic_env DEFAULT_POLICY ''fp'' 0 None ''k'' example_claims) =
      (if d \<le> expiring_warning_days DEFAULT_POLICY then EXPIRING else VALID)"
    using days_remaining_exact [of DEFAULT_POLICY "''fp''" 0 None example_claims 86400000001 example_lic_env "''k''"]
    by (auto simp: claims_hold_def example_claims_def)
  moreover have "d = 2"
  proof (rule antisym)
    show "d \<le> 2" using calculation(2) by (rule_tac ccontr) simp
    show "2 \<le> d" using calculation(3) by (rule_tac ccontr) simp
  qed
  ultimately show ?thesis by (simp add: DEFAULT_POLICY_def)
qed

section \<open>Issued licenses verify\<close>

lemma dropWhile_rev_dropWhile:
  "dropWhile P (rev (dropWhile P (rev (dropWhile P s)))) = rev (dropWhile P (rev (dropWhile P s)))"
proof (cases "dropWhile P s")
  case (Cons c t)
  then have c: "\<not> P c" by (metis dropWhile_eq_Cons_conv)
  then have "rev (dropWhile P (rev (c # t))) = c # rev (dropWhile P (rev t))"
    by (auto simp: dropWhile_append dropWhile_eq_Nil_conv)
  with Cons c show ?thesis by simp
next
  case Nil
  then show ?thesis by (simp only: Nil dropWhile.simps rev.simps)
qed

lemma str_strip_idem [simp]: "str_strip (str_strip s) = str_strip s"
  unfolding str_strip_def dropWhile_rev_dropWhile by simp

lemma str_strip_map:
  assumes "\<And>c. is_space (f c) = is_space c"
  shows "str_strip (map f s) = map f (str_strip s)"
proof -
  have "is_space \<circ> f = is_space" using assms by auto
  then show ?thesis by (simp add: str_strip_def dropWhile_map rev_map)
qed

lemma case_conversion_keeps:
  "is_space (lower_char c) = is_space c" "is_space (upper_char c) = is_space c"
  "control_char (lower_char c) = control_char c" "control_char (upper_char c) = control_char c"
  by (auto simp: lower_char_def upper_char_def is_space_def control_char_def Let_def take_bit_eq_mod)

lemma upper_char_idem: "upper_char (upper_char c) = upper_char c"
  by (auto simp: upper_char_def Let_def take_bit_eq_mod)

lemma str_upper_idem [simp]: "str_upper (str_upper s) = str_upper s"
  by (simp add: str_upper_def upper_char_idem)

text \<open>A text the issuer bounds is read back unchanged by the verifier.\<close>

definition clean :: "nat \<Rightarrow> string \<Rightarrow> bool" where
  "clean n s \<longleftrightarrow> str_strip s = s \<and> s \<noteq> '''' \<and> length s \<le> n \<and> \<not> list_ex control_char s"

lemma bounded_text_clean: "bounded_text v f n = Inr s \<Longrightarrow> clean n s \<and> s = str_strip v"
  by (auto simp: bounded_text_def clean_def Let_def split: if_splits)

lemma clean_map:
  assumes "clean n s"
  shows "clean n (str_lower s)" and "clean n (str_upper s)"
  using assms
  by (auto simp: clean_def str_lower_def str_upper_def str_strip_map case_conversion_keeps list_ex_iff)

lemma clean_text_clean: "clean n s \<Longrightarrow> clean_text (JStr s) f r n = Inr s"
  by (auto simp: clean_text_def clean_def)

lemma hex64_clean: "hex64 (str_strip s) \<Longrightarrow> clean 128 (str_strip s)"
proof -
  assume h: "hex64 (str_strip s)"
  have "list_all (\<lambda>c. \<not> control_char c) ''0123456789abcdef''" by (simp add: control_char_def)
  then have "c \<in> set ''0123456789abcdef'' \<Longrightarrow> \<not> control_char c" for c unfolding list_all_iff by blast
  with h have "\<not> list_ex control_char (str_strip s)" unfolding hex64_def list_all_iff list_ex_iff by blast
  moreover from h have "length (str_strip s) = 64" by (simp add: hex64_def)
  then have "str_strip s \<noteq> ''''" by fastforce
  ultimately show ?thesis using \<open>length (str_strip s) = 64\<close> by (simp add: clean_def)
qed

lemma bounded_features_clean: "bounded_features xs = Inr fs \<Longrightarrow> f \<in> set fs \<Longrightarrow> clean 128 f"
  by (induction xs arbitrary: fs)
    (auto simp: py_bind_Inr_iff dest!: bounded_text_clean intro: clean_map)

lemma length_bounded_features: "bounded_features xs = Inr fs \<Longrightarrow> length fs = length xs"
  by (induction xs arbitrary: fs) (auto simp: py_bind_Inr_iff)

lemma clean_features_map:
  "(\<And>f. f \<in> set fs \<Longrightarrow> clean 128 f) \<Longrightarrow> clean_features (map JStr fs) = Inr fs"
  by (induction fs) (simp_all add: clean_text_clean)

lemma length_sort_remdups: "length (sort (remdups fs)) \<le> length fs"
  by (simp add: length_remdups_leq)

text \<open>What the round trip needs of \<open>isoformat\<close> and \<open>fromisoformat\<close> at one instant.\<close>

definition iso_text :: "lic_env \<Rightarrow> int \<Rightarrow> bool" where
  "iso_text env t \<longleftrightarrow> isofmt env t \<noteq> '''' \<and> length (isofmt env t) \<le> 64 \<and> \<not> ends_with_Z (isofmt env t) \<and>
     fromiso env (isofmt env t) = Some (Aware t)"

lemma parse_iso_text: "iso_text env t \<Longrightarrow> parse_time env (JStr (isofmt env t)) f r = Inr (Some t)"
  by (auto simp: iso_text_def parse_time_def Let_def)

text \<open>The document the issuer signs.\<close>

lemma issue_document:
  assumes "issue env isr g issued = Inr doc"
  obtains fs lid ed to nm mode body where
    "issued < g_expires g" "hex64 (str_strip (g_fingerprint g))"
    "bounded_features (g_features g) = Inr fs" "bounded_text (g_license_id g) ''license_id'' 128 = Inr lid"
    "bounded_text (g_edition g) ''edition'' 64 = Inr ed" "bounded_text (g_licensed_to g) ''licensed_to'' 256 = Inr to"
    "bounded_text (g_mode g) ''activation_mode'' 32 = Inr mode"
    "doc = [(''schema_version'', JInt 1), (''product_id'', JStr PRODUCT_ID),
       (''license_id'', JStr lid), (''edition'', JStr (str_upper ed)), (''licensed_to'', JStr to),
       (''issuer'', JStr nm), (''issued_at'', JStr (isofmt env issued)),
       (''not_before'', JStr (isofmt env (issued - 300000000))),
       (''expires_at'', JStr (isofmt env (g_expires g))),
       (''maintenance_until'', JStr (isofmt env (g_expires g))),
       (''activation_mode'', JStr (str_lower mode)),
       (''features'', JList (map JStr (sort (remdups fs)))),
       (''device_binding'', JObj [(''fingerprint'', JStr (str_strip (g_fingerprint g)))]),
       (''signature'', JObj [(''algorithm'', JStr ''Ed25519''), (''key_id'', JStr (issuer_key_id isr)),
          (''value'', JStr (b64encode isr (sign_payload isr body)))])]"
    "signed_payload env doc = Some body"
  using assms unfolding issue_def
  by (auto simp: py_bind_Inr_iff Let_def LICENSE_SCHEMA_VERSION_def signed_payload_def not_le
      split: if_splits option.splits)

lemma issued_signature:
  assumes "issue env isr g issued = Inr doc"
    and "crypto_installed env" and "map_of keys (issuer_key_id isr) = Some pub"
    and "clean 128 (issuer_key_id isr)"
    and b64: "\<And>x. b64decode env (b64encode isr x) = Some x"
    and sig: "\<And>m. ed25519_verify env pub (sign_payload isr m) m"
  shows "check_signature env keys DEFAULT_POLICY doc = Inr (issuer_key_id isr)"
proof -
  from assms(1) obtain fs lid ed to nm mode body where
    doc: "doc = [(''schema_version'', JInt 1), (''product_id'', JStr PRODUCT_ID),
       (''license_id'', JStr lid), (''edition'', JStr (str_upper ed)), (''licensed_to'', JStr to),
       (''issuer'', JStr nm), (''issued_at'', JStr (isofmt env issued)),
       (''not_before'', JStr (isofmt env (issued - 300000000))),
       (''expires_at'', JStr (isofmt env (g_expires g))),
       (''maintenance_until'', JStr (isofmt env (g_expires g))),
       (''activation_mode'', JStr (str_lower mode)),
       (''features'', JList (map JStr (sort (remdups fs)))),
       (''device_binding'', JObj [(''fingerprint'', JStr (str_strip (g_fingerprint g)))]),
       (''signature'', JObj [(''algorithm'', JStr ''Ed25519''), (''key_id'', JStr (issuer_key_id isr)),
          (''value'', JStr (b64encode isr (sign_payload isr body)))])]"
    and body: "signed_payload env doc = Some body"
    by (rule issue_document)
  have get: "item_get doc ''schema_version'' = JInt 1" "item_get doc ''product_id'' = JStr PRODUCT_ID"
    "item_get doc ''signature'' = JObj [(''algorithm'', JStr ''Ed25519''), (''key_id'', JStr (issuer_key_id isr)),
          (''value'', JStr (b64encode isr (sign_payload isr body)))]"
    unfolding doc by (simp_all add: item_get_def od_get_def)
  have pid: "clean_text (JStr PRODUCT_ID) ''product_id'' True 256 = Inr PRODUCT_ID"
    by (rule clean_text_clean) (simp add: clean_def PRODUCT_ID_def str_strip_def is_space_def control_char_def)
  have pol: "product_id DEFAULT_POLICY = PRODUCT_ID" by (simp add: DEFAULT_POLICY_def)
  have "genuine env keys DEFAULT_POLICY doc (issuer_key_id isr)"
    unfolding genuine_def get pid pol body
    using assms(2,3) clean_text_clean [OF assms(4)] b64 sig by (simp add: item_get_def od_get_def)
  then show ?thesis by (simp only: check_signature_iff)
qed

lemma issued_claims:
  assumes "issue env isr g issued = Inr doc"
    and "length (g_features g) \<le> 256"
    and iso: "iso_text env issued" "iso_text env (issued - 300000000)" "iso_text env (g_expires g)"
  obtains c fs where "read_claims env doc = Inr c" "bounded_features (g_features g) = Inr fs"
    "c_license_id c = str_strip (g_license_id g)" "c_activation_mode c = str_lower (str_strip (g_mode g))"
    "c_features c = sort (remdups fs)" "c_fingerprint c = str_strip (g_fingerprint g)"
    "c_not_before c = issued - 300000000" "c_expires c = Some (g_expires g)"
proof -
  from assms(1) obtain fs lid ed to nm mode body where
    hex: "hex64 (str_strip (g_fingerprint g))" and fs: "bounded_features (g_features g) = Inr fs" and
    texts: "bounded_text (g_license_id g) ''license_id'' 128 = Inr lid"
    "bounded_text (g_edition g) ''edition'' 64 = Inr ed" "bounded_text (g_licensed_to g) ''licensed_to'' 256 = Inr to"
    "bounded_text (g_mode g) ''activation_mode'' 32 = Inr mode" and
    doc: "doc = [(''schema_version'', JInt 1), (''product_id'', JStr PRODUCT_ID),
       (''license_id'', JStr lid), (''edition'', JStr (str_upper ed)), (''licensed_to'', JStr to),
       (''issuer'', JStr nm), (''issued_at'', JStr (isofmt env issued)),
       (''not_before'', JStr (isofmt env (issued - 300000000))),
       (''expires_at'', JStr (isofmt env (g_expires g))),
       (''maintenance_until'', JStr (isofmt env (g_expires g))),
       (''activation_mode'', JStr (str_lower mode)),
       (''features'', JList (map JStr (sort (remdups fs)))),
       (''device_binding'', JObj [(''fingerprint'', JStr (str_strip (g_fingerprint g)))]),
       (''signature'', JObj [(''algorithm'', JStr ''Ed25519''), (''key_id'', JStr (issuer_key_id isr)),
          (''value'', JStr (b64encode isr (sign_payload isr body)))])]"
    by (rule issue_document)
  note cl = texts [THEN bounded_text_clean, THEN conjunct1]
  note ct = clean_text_clean [OF cl(1)] clean_text_clean [OF clean_map(2) [OF cl(2)]]
    clean_text_clean [OF cl(3)] clean_text_clean [OF clean_map(1) [OF cl(4)]]
  have len: "length (sort (remdups fs)) \<le> 256"
    using length_sort_remdups [of fs] length_bounded_features [OF fs] assms(2) by linarith
  have "read_features doc = Inr (sort (remdups fs))"
    using len clean_features_map [of "sort (remdups fs)"] bounded_features_clean [OF fs]
    unfolding read_features_def doc
    by (simp add: od_get_def distinct_remdups_id sort_key_id_if_sorted)
  moreover have "read_binding doc = Inr (str_strip (g_fingerprint g))"
    unfolding read_binding_def doc using hex clean_text_clean [OF hex64_clean [OF hex]]
    by (simp add: item_get_def od_get_def)
  ultimately have "read_claims env doc = Inr \<lparr> c_license_id = lid, c_edition = str_upper (str_upper ed),
      c_licensed_to = to, c_issued = issued, c_not_before = issued - 300000000,
      c_expires = Some (g_expires g), c_maintenance = Some (g_expires g),
      c_activation_mode = str_lower mode, c_features = sort (remdups fs),
      c_fingerprint = str_strip (g_fingerprint g) \<rparr>"
    unfolding read_claims_def
    by (simp add: doc item_get_def od_get_def ct parse_iso_text iso)
  then show thesis using fs texts [THEN bounded_text_clean, THEN conjunct2] that by simp
qed

text \<open>
  C24. The server and the client agree: whatever the issuer signs, a client that trusts its key, on the
  device the grant names, accepts from five minutes before the issue to the expiry, and reads back
  the grant's license id, activation mode and features. (Needed of the libraries: base64 and
  Ed25519 round trips, and \<open>fromisoformat\<close> inverting \<open>isoformat\<close> at the three instants; the issuer
  does not bound the number of features, the verifier does.)
\<close>

theorem issued_license_verifies:
  assumes "issue env isr g issued = Inr doc" and "length (g_features g) \<le> 256"
    and "crypto_installed env" and "map_of keys (issuer_key_id isr) = Some pub"
    and "clean 128 (issuer_key_id isr)"
    and "\<And>x. b64decode env (b64encode isr x) = Some x"
    and "\<And>m. ed25519_verify env pub (sign_payload isr m) m"
    and "iso_text env issued" "iso_text env (issued - 300000000)" "iso_text env (g_expires g)"
    and "issued - 300000000 \<le> now" and "now < g_expires g"
  shows "\<exists>st fs. verify env keys DEFAULT_POLICY doc (str_strip (g_fingerprint g)) now None = Inr st \<and>
    valid st \<and> license_id st = str_strip (g_license_id g) \<and>
    activation_mode st = str_lower (str_strip (g_mode g)) \<and>
    bounded_features (g_features g) = Inr fs \<and> features st = sort (remdups fs)"
proof -
  note sig = issued_signature [OF assms(1,3-7)]
  obtain c fs where c: "read_claims env doc = Inr c" "bounded_features (g_features g) = Inr fs"
    "c_license_id c = str_strip (g_license_id g)" "c_activation_mode c = str_lower (str_strip (g_mode g))"
    "c_features c = sort (remdups fs)" "c_fingerprint c = str_strip (g_fingerprint g)"
    "c_not_before c = issued - 300000000" "c_expires c = Some (g_expires g)"
    using assms(1,2,8-10) by (rule issued_claims)
  let ?st = "decide_status env DEFAULT_POLICY (str_strip (g_fingerprint g)) now None (issuer_key_id isr) c"
  have v: "verify env keys DEFAULT_POLICY doc (str_strip (g_fingerprint g)) now None = Inr ?st"
    by (simp add: verify_def sig c)
  have ok: "claims_hold DEFAULT_POLICY (str_strip (g_fingerprint g)) now None c"
    using c assms(11,12) by (simp add: claims_hold_def)
  then have "license_id ?st = c_license_id c" "activation_mode ?st = c_activation_mode c"
    "features ?st = c_features c"
    by (auto simp: claims_hold_def decide_status_def Let_def split: option.splits)
  with v ok c show ?thesis by (metis decide_valid_iff)
qed

definition example_issuer :: issuer where
  "example_issuer = \<lparr> sign_payload = (\<lambda>m. ''pub'' @ m), b64encode = (\<lambda>x. x), issuer_key_id = ''k1'',
     issuer_name = ''Liquidsky Network Security'' \<rparr>"

definition example_grant :: license_grant where
  "example_grant = \<lparr> g_license_id = ''L1'', g_licensed_to = ''Org'', g_fingerprint = replicate 64 CHR ''a'',
     g_expires = 900000000, g_features = [''Reports'', ''reports''], g_edition = ''commercial'', g_mode = ''Stripe'' \<rparr>"

lemma example_issue: "\<exists>doc. issue example_lic_env example_issuer example_grant 600000000 = Inr doc"
proof -
  have "bounded_text ''Reports'' ''feature'' 128 = Inr ''Reports''"
    "bounded_text ''reports'' ''feature'' 128 = Inr ''reports''"
    "bounded_text ''L1'' ''license_id'' 128 = Inr ''L1''" "bounded_text ''Org'' ''licensed_to'' 256 = Inr ''Org''"
    "bounded_text ''commercial'' ''edition'' 64 = Inr ''commercial''"
    "bounded_text ''Liquidsky Network Security'' ''issuer'' 256 = Inr ''Liquidsky Network Security''"
    "bounded_text ''Stripe'' ''activation_mode'' 32 = Inr ''Stripe''"
    by code_simp+
  moreover have "hex64 (str_strip (replicate 64 CHR ''a''))" by code_simp
  ultimately show ?thesis
    by (simp add: issue_def example_grant_def example_issuer_def example_lic_env_def signed_payload_def Let_def)
qed

lemma example_iso: "iso_text example_lic_env 600000000" "iso_text example_lic_env 300000000"
    "iso_text example_lic_env 900000000"
  by (simp_all add: iso_text_def example_lic_env_def ends_with_Z_def)

theorem issued_license_verifies_witness:
  "\<exists>doc st. issue example_lic_env example_issuer example_grant 600000000 = Inr doc \<and>
    verify example_lic_env [(''k1'', ''pub'')] DEFAULT_POLICY doc (str_strip (g_fingerprint example_grant))
      700000000 None = Inr st \<and> valid st \<and> activation_mode st = ''stripe''"
proof -
  obtain doc where doc: "issue example_lic_env example_issuer example_grant 600000000 = Inr doc"
    using example_issue by blast
  have k: "clean 128 (issuer_key_id example_issuer)" by code_simp
  have m: "str_lower (str_strip (g_mode example_grant)) = ''stripe''" by code_simp
  have "\<exists>st fs. verify example_lic_env [(''k1'', ''pub'')] DEFAULT_POLICY doc
      (str_strip (g_fingerprint example_grant)) 700000000 None = Inr st \<and> valid st \<and>
    license_id st = str_strip (g_license_id example_grant) \<and>
    activation_mode st = str_lower (str_strip (g_mode example_grant)) \<and>
    bounded_features (g_features example_grant) = Inr fs \<and> features st = sort (remdups fs)"
    by (rule issued_license_verifies [OF doc _ _ _ k, where pub = "''pub''"])
      (simp_all add: example_issuer_def example_grant_def example_lic_env_def iso_text_def ends_with_Z_def)
  then show ?thesis using doc m by metis
qed

end
