(* ===== verification/License_Manager.thy ===== *)
theory License_Manager
  imports License_Verifier
begin

text \<open>
  The client side of product licensing: the files of an installation (\<open>licensing/storage.py\<close>), the
  license manager with its revocation list, clock-rollback record and feature decisions
  (\<open>licensing/manager.py\<close>), and the gate of service registration (\<open>licensing/registration.py\<close>).
  A file is absent, a symbolic link to something that exists, or a regular file with its size and
  what reading and parsing it gives; a dangling link reads and is replaced as an absent file.
  The clock, random tokens, SHA-256, encoded sizes, the state of the disk and the answer of the
  activation service are parameters.
\<close>

section \<open>Storage\<close>

datatype 'a file_entry = Absent | Symlink | Regular nat 'a

record license_store =
  root_is_symlink :: bool
  license_file :: "json lic file_entry"
  install_file :: "string lic file_entry"
  state_file :: "json lic file_entry"
  audit_file :: "json option list file_entry"

record io_env =
  io_now :: int
  io_token :: string
  disk_ok :: bool
  encoded_size :: "json \<Rightarrow> nat"
  sha256_hex :: "string \<Rightarrow> string"

definition atomic_write_ok :: "io_env \<Rightarrow> license_store \<Rightarrow> 'a file_entry \<Rightarrow> unit lic" where
  "atomic_write_ok io s f =
     (if root_is_symlink s then Inl (OSError ''Licensing directory may not be a symbolic link'')
      else case f of
        Symlink \<Rightarrow> Inl (OSError ''Refusing symbolic-link licensing path'')
      | _ \<Rightarrow> if disk_ok io then Inr () else Inl (OSError ''write failed''))"

definition install_id :: "io_env \<Rightarrow> license_store \<Rightarrow> string lic \<times> license_store" where
  "install_id io s =
     (if root_is_symlink s then (Inl (OSError ''Licensing directory may not be a symbolic link''), s)
      else case install_file s of
        Symlink \<Rightarrow> (Inl (OSError ''Installation identifier may not be a symbolic link''), s)
      | Regular n content \<Rightarrow>
          (py_bind content (\<lambda>txt. if hex64 (str_strip txt) then Inr (str_strip txt)
             else Inl (OSError ''Installation identifier is corrupted'')), s)
      | Absent \<Rightarrow> (case atomic_write_ok io s (install_file s) of
            Inl e \<Rightarrow> (Inl e, s)
          | Inr _ \<Rightarrow> (Inr (io_token io),
              s\<lparr> install_file := Regular (length (io_token io) + 1) (Inr (io_token io @ [CHR 0x0A])) \<rparr>)))"

definition device_fingerprint :: "io_env \<Rightarrow> string \<Rightarrow> license_store \<Rightarrow> string lic \<times> license_store" where
  "device_fingerprint io pid s = (let (r, s') = install_id io s in
     (py_bind r (\<lambda>iid. Inr (sha256_hex io (pid @ [CHR 0x00] @ iid))), s'))"

definition read_license :: "nat \<Rightarrow> license_store \<Rightarrow> json_object option lic" where
  "read_license maximum_bytes s = (case license_file s of
     Absent \<Rightarrow> Inr None
   | Symlink \<Rightarrow> Inl (OSError ''License document may not be a symbolic link'')
   | Regular n content \<Rightarrow>
       if maximum_bytes < n then Inl (OSError ''License document exceeds the configured size limit'')
       else py_bind content (\<lambda>v. case v of JObj d \<Rightarrow> Inr (Some d) | _ \<Rightarrow> Inl (OtherError ''TypeError'')))"

definition store_verified_license :: "io_env \<Rightarrow> json_object \<Rightarrow> license_store \<Rightarrow> license_store lic" where
  "store_verified_license io doc s = py_bind (atomic_write_ok io s (license_file s)) (\<lambda>_.
     Inr (s\<lparr> license_file := Regular (encoded_size io (JObj doc) + 1) (Inr (JObj doc)) \<rparr>))"

definition read_state :: "license_store \<Rightarrow> json_object" where
  "read_state s = (case state_file s of Regular n (Inr (JObj d)) \<Rightarrow> d | _ \<Rightarrow> [])"

definition write_state :: "io_env \<Rightarrow> json_object \<Rightarrow> license_store \<Rightarrow> license_store lic" where
  "write_state io d s = py_bind (atomic_write_ok io s (state_file s)) (\<lambda>_.
     Inr (s\<lparr> state_file := Regular (encoded_size io (JObj d) + 1) (Inr (JObj d)) \<rparr>))"

subsection \<open>The audit chain\<close>

definition zero_hash :: string where "zero_hash = replicate 64 CHR ''0''"

text \<open>The hash of the last line; the last 65,536 bytes are taken to hold that line.\<close>

definition last_record_hash :: "lic_env \<Rightarrow> json option list \<Rightarrow> string lic" where
  "last_record_hash env rows = (if rows = [] then Inr zero_hash else case last rows of
     None \<Rightarrow> Inr zero_hash
   | Some (JObj d) \<Rightarrow> Inr (json_str (repr_of env) (od_get d ''record_hash'' (JStr zero_hash)))
   | Some _ \<Rightarrow> Inl (OtherError ''AttributeError''))"

definition audit_record :: "lic_env \<Rightarrow> io_env \<Rightarrow> string \<Rightarrow> string \<Rightarrow> json_object \<Rightarrow> string \<Rightarrow> json_object" where
  "audit_record env io action res details previous = [(''timestamp'', JStr (isofmt env (io_now io))),
     (''action'', JStr action), (''result'', JStr res),
     (''details'', JObj (filter (\<lambda>(k, v). k \<notin> set [''activation_code'', ''token'', ''password'', ''secret'']) details)),
     (''previous_hash'', JStr previous)]"

definition audit :: "lic_env \<Rightarrow> io_env \<Rightarrow> string \<Rightarrow> string \<Rightarrow> json_object \<Rightarrow> license_store \<Rightarrow> license_store lic" where
  "audit env io action res details s =
     (if root_is_symlink s then Inl (OSError ''Licensing directory may not be a symbolic link'')
      else (case audit_file s of Symlink \<Rightarrow> Inl (OSError ''Licensing audit log may not be a symbolic link'')
        | f \<Rightarrow>
          (let (n, rows) = (case f of Regular n rows \<Rightarrow> (n, rows) | _ \<Rightarrow> (0, [])) in
           py_bind (last_record_hash env rows) (\<lambda>previous.
             let rec = audit_record env io action res details previous in
             case canonical_json env (JObj rec) of
               None \<Rightarrow> Inl (OtherError ''ValueError'')
             | Some body \<Rightarrow>
                 let rec' = rec @ [(''record_hash'', JStr (sha256_hex io body))] in
                 if \<not> disk_ok io then Inl (OSError ''write failed'')
                 else Inr (s\<lparr> audit_file := Regular (n + encoded_size io (JObj rec') + 1)
                        (rows @ [Some (JObj rec')]) \<rparr>)))))"

datatype chain_result = ChainEmpty | ChainInvalid nat string | ChainValid nat string

fun chain_from :: "lic_env \<Rightarrow> io_env \<Rightarrow> nat \<Rightarrow> string \<Rightarrow> json option list \<Rightarrow> chain_result" where
  "chain_from env io n previous [] = ChainValid n previous"
| "chain_from env io n previous (Some (JObj rec) # rows) =
     (if item_get rec ''previous_hash'' \<noteq> JStr previous then ChainInvalid n ''chain_link_mismatch''
      else (let claimed = json_str (repr_of env) (od_get rec ''record_hash'' (JStr '''')) in
        case canonical_json env (JObj (AList.delete ''record_hash'' rec)) of
          None \<Rightarrow> ChainInvalid n ''audit_parse_failure''
        | Some body \<Rightarrow> if claimed \<noteq> sha256_hex io body then ChainInvalid n ''record_hash_mismatch''
            else chain_from env io (Suc n) claimed rows))"
| "chain_from env io n previous (Some _ # rows) = ChainInvalid n ''chain_link_mismatch''"
| "chain_from env io n previous (None # rows) = ChainInvalid n ''audit_parse_failure''"

definition verify_audit_chain :: "lic_env \<Rightarrow> io_env \<Rightarrow> nat \<Rightarrow> license_store \<Rightarrow> chain_result" where
  "verify_audit_chain env io maximum_bytes s = (case audit_file s of
     Absent \<Rightarrow> ChainEmpty
   | Symlink \<Rightarrow> ChainInvalid 0 ''unsafe_or_oversized_audit_log''
   | Regular n rows \<Rightarrow> if maximum_bytes < n then ChainInvalid 0 ''unsafe_or_oversized_audit_log''
       else chain_from env io 0 zero_hash rows)"

section \<open>The manager\<close>

record LicenseManager =
  lm_policy :: LicensingPolicy
  revoked_license_ids :: "string list"
  trusted_keys :: "(string, char list) odict"

text \<open>The trust store: its keys, and its revocation list (only non-empty strings count).\<close>

definition revoked_ids :: "json_object \<Rightarrow> string list" where
  "revoked_ids v = (case od_get v ''revoked_license_ids'' (JList []) of
     JList xs \<Rightarrow> remdups (concat (map (\<lambda>x. case x of
        JStr s \<Rightarrow> if str_strip s \<noteq> '''' then [str_strip s] else [] | _ \<Rightarrow> []) xs))
   | _ \<Rightarrow> [])"

definition new_manager :: "lic_env \<Rightarrow> LicensingPolicy \<Rightarrow> json lic option \<Rightarrow> LicenseManager lic" where
  "new_manager env pol trust_store = (case trust_store of
     None \<Rightarrow> Inr \<lparr> lm_policy = pol, revoked_license_ids = [], trusted_keys = [] \<rparr>
   | Some content \<Rightarrow> py_bind content (\<lambda>v. case v of
        JObj d \<Rightarrow> py_bind (load_trusted_keys env d) (\<lambda>keys.
          Inr \<lparr> lm_policy = pol, revoked_license_ids = revoked_ids d, trusted_keys = keys \<rparr>)
      | _ \<Rightarrow> Inl (OtherError ''TypeError'')))"

text \<open>\<open>_audit\<close> swallows an \<open>OSError\<close>; any other exception propagates.\<close>

definition try_audit :: "lic_env \<Rightarrow> io_env \<Rightarrow> string \<Rightarrow> string \<Rightarrow> json_object \<Rightarrow> license_store \<Rightarrow>
    unit lic \<times> license_store" where
  "try_audit env io action res details s = (case audit env io action res details s of
     Inr s' \<Rightarrow> (Inr (), s')
   | Inl (OSError e) \<Rightarrow> (Inr (), s)
   | Inl e \<Rightarrow> (Inl e, s))"

definition apply_revocation :: "LicenseManager \<Rightarrow> LicenseStatus \<Rightarrow> LicenseStatus" where
  "apply_revocation m st =
     (if license_id st \<noteq> '''' \<and> license_id st \<in> set (revoked_license_ids m) then
        (default_status INVALID
          ''The installed product license has been revoked by the trusted MSAA license authority.'')\<lparr>
            license_id := license_id st, edition := edition st, licensed_to := licensed_to st,
            issued_at := issued_at st, expires_at := expires_at st, maintenance_until := maintenance_until st,
            features := features st, activation_mode := activation_mode st, device_bound := device_bound st,
            key_id := key_id st, last_verified_at := last_verified_at st, error_code := ''LIC_REVOKED'',
            warnings := [''Core security protection and evidence preservation remain operational.''] \<rparr>
      else st)"

fun error_type :: "lic_error \<Rightarrow> string" where
  "error_type (OSError e) = ''OSError''"
| "error_type (OtherError n) = n"
| "error_type (LicenseVerificationError c e) = ''LicenseVerificationError''"

definition last_trusted_time :: "lic_env \<Rightarrow> json_object \<Rightarrow> int option" where
  "last_trusted_time env st = (let v = item_get st ''last_trusted_time'' in
     if truthy v then map_option utc_micros (fromiso env (json_str (repr_of env) v)) else None)"

definition unreadable_status :: "lic_error \<Rightarrow> LicenseStatus" where
  "unreadable_status e = (default_status INVALID ''Stored license could not be read safely.'')\<lparr>
     error_code := ''LIC_STORAGE_INVALID'', metadata := [(''error_type'', error_type e)] \<rparr>"

definition unlicensed_status :: LicenseStatus where
  "unlicensed_status = (default_status UNLICENSED
       ''No signed product license is installed. Core protection and evidence preservation remain active.'')\<lparr>
     warnings := [''Commercial premium features require activation.''], error_code := ''LIC_NOT_INSTALLED'' \<rparr>"

text \<open>The verification of a document on this installation (fingerprint first, then the verifier).\<close>

definition verify_here :: "lic_env \<Rightarrow> LicenseManager \<Rightarrow> io_env \<Rightarrow> json_object \<Rightarrow> int option \<Rightarrow>
    license_store \<Rightarrow> LicenseStatus lic \<times> license_store" where
  "verify_here env m io doc last_trusted s =
     (let (r, s') = device_fingerprint io (product_id (lm_policy m)) s in
      (py_bind r (\<lambda>fp. py_bind (verify env (trusted_keys m) (lm_policy m) doc fp (io_now io) last_trusted)
         (\<lambda>st. Inr (apply_revocation m st))), s'))"

definition record_check :: "lic_env \<Rightarrow> io_env \<Rightarrow> LicenseStatus \<Rightarrow> license_store \<Rightarrow> LicenseStatus lic \<times> license_store" where
  "record_check env io st s =
     (if state st \<in> {VALID, EXPIRING, EXPIRED, NOT_YET_VALID} then
        (let verified_at = (if last_verified_at st \<noteq> '''' then last_verified_at st else isofmt env (io_now io)) in
         case write_state io [(''last_trusted_time'', JStr verified_at), (''license_id'', JStr (license_id st)),
             (''state'', JStr (state_value (state st)))] s of
           Inr s' \<Rightarrow> (Inr st, s')
         | Inl (OSError e) \<Rightarrow>
             (let (r, s') = try_audit env io ''LICENSE_STATE_WRITE'' ''FAILED'' [(''license_id'', JStr (license_id st))] s in
              (py_bind r (\<lambda>_. Inr st), s'))
         | Inl e \<Rightarrow> (Inl e, s))
      else (Inr st, s))"

definition status :: "lic_env \<Rightarrow> LicenseManager \<Rightarrow> io_env \<Rightarrow> license_store \<Rightarrow> LicenseStatus lic \<times> license_store" where
  "status env m io s = (case read_license (maximum_document_bytes (lm_policy m)) s of
     Inl e \<Rightarrow> (Inr (unreadable_status e), s)
   | Inr None \<Rightarrow> (Inr unlicensed_status, s)
   | Inr (Some doc) \<Rightarrow>
       (let (r, s1) = verify_here env m io doc (last_trusted_time env (read_state s)) s in
        case r of
          Inr st \<Rightarrow> record_check env io st s1
        | Inl (LicenseVerificationError code msg) \<Rightarrow>
            (let (a, s2) = try_audit env io ''LICENSE_VERIFY'' ''REJECTED'' [(''error_code'', JStr code)] s1 in
             (py_bind a (\<lambda>_. Inr ((default_status
                (if code = ''LIC_VERIFIER_UNAVAILABLE'' then VERIFIER_UNAVAILABLE else INVALID) msg)\<lparr>
                  error_code := code \<rparr>)), s2))
        | Inl (OSError e) \<Rightarrow>
            (Inr ((default_status INVALID ''The installation identity could not be read safely.'')\<lparr>
               error_code := ''LIC_DEVICE_ID_UNAVAILABLE'', metadata := [(''error_type'', ''OSError'')] \<rparr>), s1)
        | Inl (OtherError n) \<Rightarrow> (Inl (OtherError n), s1)))"

text \<open>The common part of the offline import and the online activation.\<close>

definition install_document :: "lic_env \<Rightarrow> LicenseManager \<Rightarrow> io_env \<Rightarrow> string \<Rightarrow> json_object \<Rightarrow> license_store \<Rightarrow>
    LicenseStatus lic \<times> license_store" where
  "install_document env m io action doc s =
     (let (r, s1) = verify_here env m io doc None s in
      case r of
        Inl e \<Rightarrow> (Inl e, s1)
      | Inr st \<Rightarrow>
          if \<not> valid st then
            (let (a, s2) = try_audit env io action ''REJECTED''
                [(''state'', JStr (state_value (state st))), (''error_code'', JStr (error_code st))] s1 in
             (py_bind a (\<lambda>_. Inr st), s2))
          else (case store_verified_license io doc s1 of
              Inl e \<Rightarrow> (Inl e, s1)
            | Inr s2 \<Rightarrow>
                (let (a, s3) = try_audit env io action ''ACCEPTED''
                    [(''license_id'', JStr (license_id st)), (''edition'', JStr (edition st))] s2 in
                 case a of Inl e \<Rightarrow> (Inl e, s3) | Inr _ \<Rightarrow> status env m io s3)))"

definition import_offline :: "lic_env \<Rightarrow> LicenseManager \<Rightarrow> io_env \<Rightarrow> json lic file_entry \<Rightarrow> license_store \<Rightarrow>
    LicenseStatus lic \<times> license_store" where
  "import_offline env m io source s = (case source of
     Symlink \<Rightarrow> (Inl (LicenseVerificationError ''LIC_IMPORT_REJECTED'' ''Offline license may not be a symbolic link''), s)
   | Absent \<Rightarrow> (Inl (OSError ''FileNotFoundError''), s)
   | Regular n content \<Rightarrow>
       if maximum_document_bytes (lm_policy m) < n then
         (Inl (LicenseVerificationError ''LIC_IMPORT_REJECTED'' ''Offline license is not a safe bounded regular file''), s)
       else (case content of
           Inl e \<Rightarrow> (Inl (LicenseVerificationError ''LIC_IMPORT_INVALID'' ''Offline license is not valid UTF-8 JSON''), s)
         | Inr (JObj doc) \<Rightarrow> install_document env m io ''LICENSE_IMPORT'' doc s
         | Inr _ \<Rightarrow> (Inl (LicenseVerificationError ''LIC_IMPORT_INVALID'' ''Offline license must contain a JSON object''), s)))"

text \<open>\<open>activate_online\<close> once its endpoint is chosen: the fingerprint is read for the request, and
  \<open>answer\<close> is what the activation client returns or raises for it.\<close>

definition activate_online :: "lic_env \<Rightarrow> LicenseManager \<Rightarrow> io_env \<Rightarrow> (string \<Rightarrow> json_object lic) \<Rightarrow> license_store \<Rightarrow>
    LicenseStatus lic \<times> license_store" where
  "activate_online env m io answer s =
     (let (r, s1) = device_fingerprint io (product_id (lm_policy m)) s in
      case py_bind r answer of
        Inl e \<Rightarrow> (Inl e, s1)
      | Inr doc \<Rightarrow> install_document env m io ''LICENSE_ACTIVATE'' doc s1)"

definition operator_actions_enabled :: "LicenseManager \<Rightarrow> LicenseStatus \<Rightarrow> bool" where
  "operator_actions_enabled m st \<longleftrightarrow>
     valid st \<and> activation_mode st \<in> set (operator_unlock_activation_modes (lm_policy m))"

definition access_mode :: "LicenseManager \<Rightarrow> LicenseStatus \<Rightarrow> string" where
  "access_mode m st = (if operator_actions_enabled m st then ''LICENSED'' else ''DEMO_PREVIEW'')"

definition feature_granted :: "LicenseManager \<Rightarrow> LicenseStatus \<Rightarrow> string \<Rightarrow> bool" where
  "feature_granted m st feature \<longleftrightarrow>
     operator_actions_enabled m st \<and> (feature \<in> set (features st) \<or> ''*'' \<in> set (features st))"

definition is_feature_available :: "lic_env \<Rightarrow> LicenseManager \<Rightarrow> io_env \<Rightarrow> string \<Rightarrow> license_store \<Rightarrow>
    bool lic \<times> license_store" where
  "is_feature_available env m io feature s =
     (let normalized = str_lower (str_strip feature) in
      if normalized \<in> set (core_safety_features (lm_policy m)) then (Inr True, s)
      else (let (r, s') = status env m io s in
        (py_bind r (\<lambda>st. Inr (feature_granted m st normalized)), s')))"

record feature_result =
  fr_feature :: string
  fr_available :: bool
  fr_license_state :: string
  fr_mode :: string
  fr_core :: bool
  fr_reason :: string

definition feature_decision :: "lic_env \<Rightarrow> LicenseManager \<Rightarrow> io_env \<Rightarrow> string \<Rightarrow> license_store \<Rightarrow>
    feature_result lic \<times> license_store" where
  "feature_decision env m io feature s =
     (let normalized = str_lower (str_strip feature);
          core = normalized \<in> set (core_safety_features (lm_policy m));
          (r, s') = status env m io s in
      (py_bind r (\<lambda>st. let available = core \<or> feature_granted m st normalized in
         Inr \<lparr> fr_feature = normalized, fr_available = available, fr_license_state = state_value (state st),
           fr_mode = access_mode m st, fr_core = core,
           fr_reason = (if core then ''Core security capability remains available regardless of license state.''
             else if available then ''Granted by the active signed license.''
             else ''A valid license granting this commercial feature is required.'') \<rparr>), s'))"

section \<open>Service registration\<close>

record registration_decision =
  rd_allowed :: bool
  rd_code :: string
  rd_license_state :: string
  rd_activation_mode :: string

definition service_registration_license_decision :: "lic_env \<Rightarrow> LicenseManager lic \<Rightarrow> io_env \<Rightarrow> license_store \<Rightarrow>
    registration_decision \<times> license_store" where
  "service_registration_license_decision env mgr io s =
     (let failed = \<lparr> rd_allowed = False, rd_code = ''LIC_SERVICE_REGISTRATION_REQUIRED'',
            rd_license_state = ''VERIFICATION_FAILED'', rd_activation_mode = ''none'' \<rparr> in
      case mgr of
        Inl e \<Rightarrow> (failed, s)
      | Inr m \<Rightarrow> (let (r, s') = status env m io s in
          (case r of
             Inl e \<Rightarrow> failed
           | Inr st \<Rightarrow>
               if operator_actions_enabled m st then
                 \<lparr> rd_allowed = True, rd_code = ''LICENSE_VALID'', rd_license_state = state_value (state st),
                   rd_activation_mode = activation_mode st \<rparr>
               else \<lparr> rd_allowed = False,
                   rd_code = (if error_code st \<noteq> '''' then error_code st else ''LIC_SERVICE_REGISTRATION_REQUIRED''),
                   rd_license_state = state_value (state st), rd_activation_mode = activation_mode st \<rparr>, s')))"

datatype registration_error = ServiceRegistrationLicenseError string

definition require_service_registration_license :: "lic_env \<Rightarrow> LicenseManager lic \<Rightarrow> io_env \<Rightarrow> license_store \<Rightarrow>
    (registration_error + registration_decision) \<times> license_store" where
  "require_service_registration_license env mgr io s =
     (let (d, s') = service_registration_license_decision env mgr io s in
      (if rd_allowed d then Inr d else Inl (ServiceRegistrationLicenseError (rd_code d)), s'))"

section \<open>What grants access\<close>

lemma default_state [simp]: "state (default_status st msg) = st" "activation_mode (default_status st msg) = ''none''"
  by (simp_all add: default_status_def)

lemma apply_revocation_cases:
  "apply_revocation m st = st \<and> \<not> (license_id st \<noteq> '''' \<and> license_id st \<in> set (revoked_license_ids m)) \<or>
   \<not> valid (apply_revocation m st) \<and> state (apply_revocation m st) = INVALID \<and>
     license_id st \<in> set (revoked_license_ids m)"
  by (auto simp: apply_revocation_def valid_def)

lemma record_check_result: "record_check env io st s = (Inr st', s') \<Longrightarrow> st' = st"
  by (auto simp: record_check_def Let_def py_bind_Inr_iff split: if_splits sum.splits lic_error.splits prod.splits)

lemma clean_text_required: "clean_text v f True n = Inr s \<Longrightarrow> s \<noteq> ''''"
  by (auto simp: clean_text_def split: option.splits if_splits)

lemma claims_id_nonempty: "read_claims env doc = Inr c \<Longrightarrow> c_license_id c \<noteq> ''''"
  unfolding read_claims_def py_bind_Inr_iff Let_def by (auto dest!: clean_text_required)

text \<open>What a granted license rests on, at the store it is read from.\<close>

definition entitled :: "lic_env \<Rightarrow> LicenseManager \<Rightarrow> string \<Rightarrow> int \<Rightarrow> int option \<Rightarrow> json_object \<Rightarrow> LicenseClaims \<Rightarrow> bool" where
  "entitled env m fp now last_trusted doc c \<longleftrightarrow>
     (\<exists>kid. genuine env (trusted_keys m) (lm_policy m) doc kid) \<and> read_claims env doc = Inr c \<and>
     claims_hold (lm_policy m) fp now last_trusted c \<and> c_license_id c \<notin> set (revoked_license_ids m)"

lemma decide_fields:
  "license_id (decide_status env pol fp now l kid c) = c_license_id c"
  "features (decide_status env pol fp now l kid c) = c_features c"
  "activation_mode (decide_status env pol fp now l kid c) = c_activation_mode c"
  by (simp_all add: decide_status_def mismatch_status_def Let_def split: option.splits)

lemma verify_here_valid:
  assumes "verify_here env m io doc l s = (Inr st, s')" and "valid st"
  shows "\<exists>fp c. fst (device_fingerprint io (product_id (lm_policy m)) s) = Inr fp \<and>
    entitled env m fp (io_now io) l doc c \<and> activation_mode st = c_activation_mode c \<and>
    features st = c_features c \<and> license_id st = c_license_id c"
proof -
  from assms(1) obtain fp st0 where fp: "fst (device_fingerprint io (product_id (lm_policy m)) s) = Inr fp"
    and v: "verify env (trusted_keys m) (lm_policy m) doc fp (io_now io) l = Inr st0"
    and st: "st = apply_revocation m st0"
    by (auto simp: verify_here_def py_bind_Inr_iff split: prod.splits)
  have eq: "st = st0" and rev: "\<not> (license_id st0 \<noteq> '''' \<and> license_id st0 \<in> set (revoked_license_ids m))"
    using apply_revocation_cases [of m st0] st assms(2) by auto
  from v obtain kid c where c: "genuine env (trusted_keys m) (lm_policy m) doc kid" "read_claims env doc = Inr c"
    and st0: "st0 = decide_status env (lm_policy m) fp (io_now io) l kid c"
    by (auto simp: verify_def py_bind_Inr_iff check_signature_iff)
  have "claims_hold (lm_policy m) fp (io_now io) l c" using assms(2) eq st0 by (simp add: decide_valid_iff)
  with c rev fp eq st0 claims_id_nonempty [OF c(2)] show ?thesis
    by (auto simp: entitled_def decide_fields)
qed

lemma status_valid:
  assumes "status env m io s = (Inr st, s')" and "valid st"
  shows "\<exists>doc fp c. read_license (maximum_document_bytes (lm_policy m)) s = Inr (Some doc) \<and>
    fst (device_fingerprint io (product_id (lm_policy m)) s) = Inr fp \<and>
    entitled env m fp (io_now io) (last_trusted_time env (read_state s)) doc c \<and>
    activation_mode st = c_activation_mode c \<and> features st = c_features c"
proof (cases "read_license (maximum_document_bytes (lm_policy m)) s")
  case (Inr d)
  show ?thesis
  proof (cases d)
    case (Some doc)
    obtain r s1 where r: "verify_here env m io doc (last_trusted_time env (read_state s)) s = (r, s1)" by fastforce
    have "r = Inr st"
      using assms Inr Some r
      by (auto simp: status_def py_bind_Inr_iff valid_def dest: record_check_result
          split: sum.splits lic_error.splits prod.splits if_splits)
    from verify_here_valid [OF r [unfolded this] assms(2)] Inr Some show ?thesis by blast
  qed (use assms Inr in \<open>auto simp: status_def unlicensed_status_def valid_def\<close>)
qed (use assms in \<open>auto simp: status_def unreadable_status_def valid_def\<close>)

text \<open>
  C4. Service registration fails closed: it is allowed only when the manager could be built, a license
  is stored that a trusted key signed, for this product and device, within its validity period and
  consistent with the clock record, not revoked, and of an activation mode that unlocks the product.
\<close>

theorem registration_needs_entitlement:
  assumes "service_registration_license_decision env mgr io s = (d, s')" and "rd_allowed d"
  shows "\<exists>m doc fp c. mgr = Inr m \<and> read_license (maximum_document_bytes (lm_policy m)) s = Inr (Some doc) \<and>
    fst (device_fingerprint io (product_id (lm_policy m)) s) = Inr fp \<and>
    entitled env m fp (io_now io) (last_trusted_time env (read_state s)) doc c \<and>
    c_activation_mode c \<in> set (operator_unlock_activation_modes (lm_policy m))"
proof -
  from assms obtain m st where m: "mgr = Inr m" and st: "status env m io s = (Inr st, s')"
    and op: "operator_actions_enabled m st"
    by (auto simp: service_registration_license_decision_def Let_def split: sum.splits prod.splits if_splits)
  from op have "valid st" and mode: "activation_mode st \<in> set (operator_unlock_activation_modes (lm_policy m))"
    by (simp_all add: operator_actions_enabled_def)
  from status_valid [OF st this(1)] m mode show ?thesis by fastforce
qed

section \<open>The stored license\<close>

text \<open>Which files each step touches.\<close>

lemma audit_frame:
  "audit env io a r d s = Inr s' \<Longrightarrow> license_file s' = license_file s \<and> install_file s' = install_file s \<and>
     state_file s' = state_file s \<and> root_is_symlink s' = root_is_symlink s"
  by (auto simp: audit_def Let_def py_bind_Inr_iff split: if_splits file_entry.splits option.splits prod.splits)

lemma try_audit_frame:
  "try_audit env io a r d s = (x, s') \<Longrightarrow> license_file s' = license_file s \<and> install_file s' = install_file s \<and>
     state_file s' = state_file s \<and> root_is_symlink s' = root_is_symlink s"
  using audit_frame [of env io a r d s] by (auto simp: try_audit_def split: sum.splits lic_error.splits)

lemma verify_here_frame:
  "verify_here env m io doc l s = (r, s') \<Longrightarrow>
     license_file s' = license_file s \<and> state_file s' = state_file s \<and> root_is_symlink s' = root_is_symlink s"
  by (auto simp: verify_here_def device_fingerprint_def install_id_def Let_def
      split: prod.splits if_splits file_entry.splits sum.splits)

lemma write_state_frame:
  "write_state io d s = Inr s' \<Longrightarrow> license_file s' = license_file s \<and> install_file s' = install_file s \<and>
     root_is_symlink s' = root_is_symlink s \<and> state_file s' = Regular (encoded_size io (JObj d) + 1) (Inr (JObj d))"
  by (auto simp: write_state_def py_bind_Inr_iff)

lemma record_check_frame:
  "record_check env io st s = (r, s') \<Longrightarrow> license_file s' = license_file s \<and> install_file s' = install_file s \<and>
     root_is_symlink s' = root_is_symlink s"
  by (auto simp: record_check_def Let_def dest: write_state_frame try_audit_frame
      split: if_splits sum.splits lic_error.splits prod.splits)

lemma status_frame: "status env m io s = (r, s') \<Longrightarrow> license_file s' = license_file s"
  by (auto simp: status_def dest!: verify_here_frame record_check_frame try_audit_frame
      split: sum.splits option.splits lic_error.splits prod.splits)

lemma install_document_stores:
  assumes "install_document env m io a doc s = (r, s')" and "license_file s' \<noteq> license_file s"
  shows "\<exists>st s1 n. verify_here env m io doc None s = (Inr st, s1) \<and> valid st \<and>
    license_file s' = Regular n (Inr (JObj doc))"
proof -
  obtain q s1 where q: "verify_here env m io doc None s = (q, s1)" by fastforce
  note f1 = verify_here_frame [OF q]
  show ?thesis
  proof (cases q)
    case (Inl e)
    with assms q f1 show ?thesis by (auto simp: install_document_def)
  next
    case (Inr st)
    show ?thesis
    proof (cases "valid st")
      case True
      then obtain s2 where s2: "store_verified_license io doc s1 = Inr s2"
        using assms q Inr f1 by (auto simp: install_document_def split: sum.splits)
      then obtain n where n: "license_file s2 = Regular n (Inr (JObj doc))"
        by (auto simp: store_verified_license_def py_bind_Inr_iff)
      have "license_file s' = license_file s2"
        using assms(1) q Inr True s2
        by (auto simp: install_document_def dest!: try_audit_frame status_frame split: prod.splits sum.splits)
      with q Inr True n show ?thesis by auto
    next
      case False
      with assms q f1 Inr show ?thesis
        by (auto simp: install_document_def dest!: try_audit_frame split: prod.splits)
    qed
  qed
qed

text \<open>
  C17. An import never replaces the stored license by a document that does not entitle this
  installation: whatever file is offered, the stored license changes only to a document that is
  genuine, unrevoked and valid here and now.
\<close>

theorem import_stores_only_entitled:
  assumes "import_offline env m io source s = (r, s')" and "license_file s' \<noteq> license_file s"
  shows "\<exists>n k doc fp c. source = Regular n (Inr (JObj doc)) \<and> n \<le> maximum_document_bytes (lm_policy m) \<and>
    license_file s' = Regular k (Inr (JObj doc)) \<and>
    fst (device_fingerprint io (product_id (lm_policy m)) s) = Inr fp \<and>
    entitled env m fp (io_now io) None doc c"
proof -
  from assms obtain n doc where src: "source = Regular n (Inr (JObj doc))" "n \<le> maximum_document_bytes (lm_policy m)"
    and ins: "install_document env m io ''LICENSE_IMPORT'' doc s = (r, s')"
    by (auto simp: import_offline_def not_less split: file_entry.splits if_splits sum.splits json.splits)
  from install_document_stores [OF ins assms(2)] obtain st s1 k where
    v: "verify_here env m io doc None s = (Inr st, s1)" "valid st" "license_file s' = Regular k (Inr (JObj doc))" by blast
  from verify_here_valid [OF v(1,2)] src v(3) show ?thesis by blast
qed

section \<open>The clock record\<close>

lemma last_trusted_written:
  assumes "fromiso env (isofmt env t) = Some (Aware t)" and "isofmt env t \<noteq> ''''"
    and "state_file s = Regular n (Inr (JObj ((''last_trusted_time'', JStr (isofmt env t)) # d)))"
  shows "last_trusted_time env (read_state s) = Some t"
  using assms by (simp add: last_trusted_time_def read_state_def item_get_def od_get_def Let_def)

lemma record_check_writes:
  assumes "state st \<in> {VALID, EXPIRING, EXPIRED, NOT_YET_VALID}" and "last_verified_at st = isofmt env (io_now io)"
    and "isofmt env (io_now io) \<noteq> ''''" and "disk_ok io" and "\<not> root_is_symlink s" and "state_file s \<noteq> Symlink"
  shows "\<exists>s' n d. record_check env io st s = (Inr st, s') \<and>
    state_file s' = Regular n (Inr (JObj ((''last_trusted_time'', JStr (isofmt env (io_now io))) # d)))"
  using assms
  by (cases "state_file s") (auto simp: record_check_def Let_def write_state_def atomic_write_ok_def)

text \<open>An installation whose files can be read and written, with the stored document \<open>doc\<close>.\<close>

definition working_install :: "LicenseManager \<Rightarrow> license_store \<Rightarrow> json_object \<Rightarrow> string \<Rightarrow> bool" where
  "working_install m s doc iid \<longleftrightarrow> \<not> root_is_symlink s \<and> state_file s \<noteq> Symlink \<and> hex64 iid \<and> str_strip iid = iid \<and>
     (\<exists>n. install_file s = Regular n (Inr iid)) \<and>
     (\<exists>n \<le> maximum_document_bytes (lm_policy m). license_file s = Regular n (Inr (JObj doc)))"

lemma decide_last_verified:
  "state (decide_status env pol fp now l kid c) \<in> {VALID, EXPIRING, EXPIRED, NOT_YET_VALID} \<Longrightarrow>
   last_verified_at (decide_status env pol fp now l kid c) = isofmt env now"
  by (auto simp: decide_status_def mismatch_status_def Let_def split: option.splits if_splits)

text \<open>One check on a working installation whose clock record permits the present.\<close>

lemma status_step:
  assumes w: "working_install m s doc iid"
    and gen: "genuine env (trusted_keys m) (lm_policy m) doc kid" and c: "read_claims env doc = Inr c"
    and rev: "c_license_id c \<notin> set (revoked_license_ids m)"
    and fp: "c_fingerprint c = '''' \<or> c_fingerprint c = sha256_hex io (product_id (lm_policy m) @ [CHR 0x00] @ iid)"
    and l: "pred_option (\<lambda>l. l \<le> io_now io + clock_rollback_tolerance_seconds (lm_policy m) * 1000000)
        (last_trusted_time env (read_state s))"
    and io: "disk_ok io" "isofmt env (io_now io) \<noteq> ''''" "fromiso env (isofmt env (io_now io)) = Some (Aware (io_now io))"
  shows "\<exists>st s'. status env m io s = (Inr st, s') \<and> working_install m s' doc iid \<and>
    last_trusted_time env (read_state s') = Some (io_now io) \<and>
    (valid st \<longleftrightarrow> c_not_before c \<le> io_now io \<and> pred_option (\<lambda>ex. io_now io < ex) (c_expires c)) \<and>
    state st \<in> {VALID, EXPIRING, EXPIRED, NOT_YET_VALID} \<and> activation_mode st = c_activation_mode c \<and>
    features st = c_features c"
proof -
  let ?fp = "sha256_hex io (product_id (lm_policy m) @ [CHR 0x00] @ iid)"
  let ?st = "decide_status env (lm_policy m) ?fp (io_now io) (last_trusted_time env (read_state s)) kid c"
  from w obtain n k where f: "install_file s = Regular n (Inr iid)" "license_file s = Regular k (Inr (JObj doc))"
    "k \<le> maximum_document_bytes (lm_policy m)" and ws: "\<not> root_is_symlink s" "state_file s \<noteq> Symlink" "hex64 iid" "str_strip iid = iid"
    by (auto simp: working_install_def)
  have dev: "device_fingerprint io (product_id (lm_policy m)) s = (Inr ?fp, s)"
    using f ws by (simp add: device_fingerprint_def install_id_def)
  have "check_signature env (trusted_keys m) (lm_policy m) doc = Inr kid" using gen by (simp add: check_signature_iff)
  then have ver: "verify env (trusted_keys m) (lm_policy m) doc ?fp (io_now io) (last_trusted_time env (read_state s)) = Inr ?st"
    by (simp add: verify_def c)
  have "apply_revocation m ?st = ?st" using rev by (simp add: apply_revocation_def decide_fields)
  with dev ver have vh: "verify_here env m io doc (last_trusted_time env (read_state s)) s = (Inr ?st, s)"
    by (simp add: verify_here_def)
  have st: "status env m io s = record_check env io ?st s"
    using f by (simp add: status_def read_license_def vh)
  have ok: "\<not> (c_fingerprint c \<noteq> '''' \<and> c_fingerprint c \<noteq> ?fp)" using fp by auto
  have states: "state ?st \<in> {VALID, EXPIRING, EXPIRED, NOT_YET_VALID}"
    using ok l by (auto simp: decide_status_def Let_def split: option.splits)
  from record_check_writes [OF states decide_last_verified [OF states] io(2) io(1) ws(1,2)] obtain s' j d where
    s': "record_check env io ?st s = (Inr ?st, s')"
    "state_file s' = Regular j (Inr (JObj ((''last_trusted_time'', JStr (isofmt env (io_now io))) # d)))" by blast
  have "working_install m s' doc iid"
    using record_check_frame [OF s'(1)] s'(2) f ws by (auto simp: working_install_def)
  moreover have "valid ?st \<longleftrightarrow> c_not_before c \<le> io_now io \<and> pred_option (\<lambda>ex. io_now io < ex) (c_expires c)"
    using fp l by (simp add: decide_valid_iff claims_hold_def)
  ultimately show ?thesis
    using st s' last_trusted_written [OF io(3,2) s'(2)] states decide_fields(2,3) by metis
qed

lemma status_records:
  assumes "status env m io s = (Inr st, s1)" and "state st \<in> {VALID, EXPIRING, EXPIRED, NOT_YET_VALID}"
    and "disk_ok io" and "state_file s \<noteq> Symlink"
    and "isofmt env (io_now io) \<noteq> ''''" and "fromiso env (isofmt env (io_now io)) = Some (Aware (io_now io))"
  shows "last_trusted_time env (read_state s1) = Some (io_now io)"
proof -
  from assms(1,2) obtain doc r s0 where doc: "read_license (maximum_document_bytes (lm_policy m)) s = Inr (Some doc)"
    and r: "verify_here env m io doc (last_trusted_time env (read_state s)) s = (Inr r, s0)"
    and rc: "record_check env io r s0 = (Inr st, s1)"
    by (auto simp: status_def unreadable_status_def unlicensed_status_def py_bind_Inr_iff
        split: sum.splits option.splits lic_error.splits prod.splits if_splits)
  have st: "st = r" using record_check_result [OF rc] .
  from r obtain fp st0 where root: "\<not> root_is_symlink s"
    and v: "verify env (trusted_keys m) (lm_policy m) doc fp (io_now io) (last_trusted_time env (read_state s)) = Inr st0"
    and r0: "r = apply_revocation m st0"
    by (auto simp: verify_here_def device_fingerprint_def install_id_def py_bind_Inr_iff split: prod.splits if_splits)
  have "r = st0" using apply_revocation_cases [of m st0] assms(2) st r0 by auto
  with v assms(2) st have lv: "last_verified_at r = isofmt env (io_now io)"
    by (auto simp: verify_def py_bind_Inr_iff intro!: decide_last_verified)
  from record_check_writes [OF assms(2) [unfolded st] lv assms(5,3)] verify_here_frame [OF r] root assms(4) rc
  show ?thesis using last_trusted_written [OF assms(6,5)] by fastforce
qed

text \<open>
  Once a check has been recorded, a license is not valid on a clock that is more than the tolerance
  behind that check, so setting the clock back at once does not revive an expired license.
\<close>

theorem rollback_is_refused:
  assumes "status env m io s = (Inr st, s1)" and "state st \<in> {VALID, EXPIRING, EXPIRED, NOT_YET_VALID}"
    and "disk_ok io" and "state_file s \<noteq> Symlink"
    and "isofmt env (io_now io) \<noteq> ''''" and "fromiso env (isofmt env (io_now io)) = Some (Aware (io_now io))"
    and "io_now io' + clock_rollback_tolerance_seconds (lm_policy m) * 1000000 < io_now io"
    and "status env m io' s1 = (Inr st', s2)"
  shows "\<not> valid st'"
proof
  assume "valid st'"
  from status_valid [OF assms(8) this] status_records [OF assms(1-6)] assms(7)
  show False by (auto simp: entitled_def claims_hold_def)
qed

text \<open>A series of checks at the instants \<open>ts\<close>, each at most \<open>tol\<close> before the one before it.\<close>

fun run_status :: "lic_env \<Rightarrow> LicenseManager \<Rightarrow> io_env \<Rightarrow> int list \<Rightarrow> license_store \<Rightarrow> LicenseStatus lic list" where
  "run_status env m io [] s = []"
| "run_status env m io (t # ts) s =
     (let (r, s') = status env m (io\<lparr> io_now := t \<rparr>) s in r # run_status env m io ts s')"

fun small_steps_back :: "int \<Rightarrow> int option \<Rightarrow> int list \<Rightarrow> bool" where
  "small_steps_back tol l [] = True"
| "small_steps_back tol l (t # ts) = (pred_option (\<lambda>p. p \<le> t + tol) l \<and> small_steps_back tol (Some t) ts)"

text \<open>
  The clock record only holds against one big step: every check within the tolerance overwrites the
  record with the earlier time, so by steps of at most five minutes the clock can be walked back
  arbitrarily far without one \<open>CLOCK_ROLLBACK_SUSPECTED\<close>, and a license that has expired is
  reported valid again as soon as the clock is back in its validity period.
\<close>

theorem clock_walked_back_unnoticed:
  assumes "working_install m s doc iid"
    and "genuine env (trusted_keys m) (lm_policy m) doc kid" and "read_claims env doc = Inr c"
    and "c_license_id c \<notin> set (revoked_license_ids m)"
    and "c_fingerprint c = '''' \<or> c_fingerprint c = sha256_hex io (product_id (lm_policy m) @ [CHR 0x00] @ iid)"
    and "small_steps_back (clock_rollback_tolerance_seconds (lm_policy m) * 1000000)
           (last_trusted_time env (read_state s)) ts"
    and "disk_ok io"
    and "list_all (\<lambda>t. isofmt env t \<noteq> '''' \<and> fromiso env (isofmt env t) = Some (Aware t)) ts"
  shows "list_all2 (\<lambda>t r. \<exists>st. r = Inr st \<and> state st \<noteq> CLOCK_ROLLBACK_SUSPECTED \<and>
      (valid st \<longleftrightarrow> c_not_before c \<le> t \<and> pred_option (\<lambda>ex. t < ex) (c_expires c))) ts (run_status env m io ts s)"
  using assms
proof (induction ts arbitrary: s)
  case (Cons t ts)
  let ?io = "io\<lparr> io_now := t \<rparr>"
  have "\<exists>st s'. status env m ?io s = (Inr st, s') \<and> working_install m s' doc iid \<and>
      last_trusted_time env (read_state s') = Some (io_now ?io) \<and>
      (valid st \<longleftrightarrow> c_not_before c \<le> io_now ?io \<and> pred_option (\<lambda>ex. io_now ?io < ex) (c_expires c)) \<and>
      state st \<in> {VALID, EXPIRING, EXPIRED, NOT_YET_VALID} \<and> activation_mode st = c_activation_mode c \<and>
      features st = c_features c"
    by (rule status_step [OF Cons.prems(1-4)]) (use Cons.prems in simp_all)
  moreover have now: "io_now ?io = t" by simp
  ultimately obtain st s' where st: "status env m ?io s = (Inr st, s')" "working_install m s' doc iid"
    "last_trusted_time env (read_state s') = Some t"
    "valid st \<longleftrightarrow> c_not_before c \<le> t \<and> pred_option (\<lambda>ex. t < ex) (c_expires c)"
    "state st \<in> {VALID, EXPIRING, EXPIRED, NOT_YET_VALID}"
    unfolding now by blast
  have "state st \<noteq> CLOCK_ROLLBACK_SUSPECTED" using st(5) by auto
  from this Cons.IH [OF st(2) Cons.prems(2-5) _ Cons.prems(7)] Cons.prems st show ?case by simp
qed simp

section \<open>Feature decisions\<close>

text \<open>
  The two feature queries agree, a core safety feature is available in every license state, and any
  other feature only under a valid license that unlocks the product and names the feature (or all).
\<close>

theorem feature_decision_sound:
  assumes "feature_decision env m io feature s = (Inr d, s')"
  shows "fst (is_feature_available env m io feature s) = Inr (fr_available d) \<and>
    (if str_lower (str_strip feature) \<in> set (core_safety_features (lm_policy m)) then fr_available d
     else fr_available d \<longleftrightarrow> (\<exists>st. status env m io s = (Inr st, s') \<and> valid st \<and>
        activation_mode st \<in> set (operator_unlock_activation_modes (lm_policy m)) \<and>
        (str_lower (str_strip feature) \<in> set (features st) \<or> ''*'' \<in> set (features st))))"
  using assms
  by (auto simp: feature_decision_def is_feature_available_def feature_granted_def operator_actions_enabled_def
      Let_def py_bind_Inr_iff split: prod.splits)

text \<open>
  An installation identifier that is not ASCII text makes every status query raise: the
  \<open>UnicodeDecodeError\<close> of \<open>install_id\<close> is no \<open>OSError\<close>, so \<open>status\<close> does not turn it into a license
  state, and \<open>feature_decision\<close> raises even for a core safety feature.
\<close>

theorem undecodable_install_id_escapes:
  assumes "\<not> root_is_symlink s" and "install_file s = Regular n (Inl (OtherError ''UnicodeDecodeError''))"
    and "read_license (maximum_document_bytes (lm_policy m)) s = Inr (Some doc)"
  shows "fst (status env m io s) = Inl (OtherError ''UnicodeDecodeError'') \<and>
    fst (feature_decision env m io ''core_protection'' s) = Inl (OtherError ''UnicodeDecodeError'')"
proof -
  have "device_fingerprint io (product_id (lm_policy m)) s = (Inl (OtherError ''UnicodeDecodeError''), s)"
    using assms by (simp add: device_fingerprint_def install_id_def)
  then have "status env m io s = (Inl (OtherError ''UnicodeDecodeError''), s)"
    using assms by (simp add: status_def verify_here_def)
  then show ?thesis by (simp add: feature_decision_def Let_def)
qed

section \<open>The licensing audit log\<close>

text \<open>The verifier of the log is a walk along hashed records.\<close>

fun row_hash :: "lic_env \<Rightarrow> json option \<Rightarrow> string" where
  "row_hash env (Some (JObj rec)) = json_str (repr_of env) (od_get rec ''record_hash'' (JStr ''''))"
| "row_hash env _ = ''''"

fun row_ok :: "lic_env \<Rightarrow> io_env \<Rightarrow> string \<Rightarrow> json option \<Rightarrow> bool" where
  "row_ok env io p (Some (JObj rec)) \<longleftrightarrow> item_get rec ''previous_hash'' = JStr p \<and>
     canonical_json env (JObj (AList.delete ''record_hash'' rec)) \<noteq> None \<and>
     row_hash env (Some (JObj rec)) = sha256_hex io (the (canonical_json env (JObj (AList.delete ''record_hash'' rec))))"
| "row_ok env io p _ \<longleftrightarrow> False"

fun chain_valid :: "chain_result \<Rightarrow> bool" where
  "chain_valid (ChainValid n h) = True"
| "chain_valid _ = False"

lemma chain_from_Cons:
  "chain_valid (chain_from env io n p (r # rs)) \<longleftrightarrow>
     row_ok env io p r \<and> chain_valid (chain_from env io (Suc n) (row_hash env r) rs)"
proof (cases r)
  case (Some v)
  then show ?thesis by (cases v) (auto simp: Let_def split: option.splits)
qed simp

interpretation lc: hash_chain "\<lambda>n p r. row_ok env io p r" "row_hash env"
    "\<lambda>n p rs. chain_valid (chain_from env io n p rs)"
  by unfold_locales (simp_all only: chain_from_Cons, simp)

lemma chain_from_valid:
  "chain_valid (chain_from env io n p rs) \<Longrightarrow>
   chain_from env io n p rs = ChainValid (n + length rs) (if rs = [] then p else row_hash env (last rs))"
proof (induction rs arbitrary: n p)
  case (Cons r rs)
  from Cons.prems have ok: "row_ok env io p r" and rest: "chain_valid (chain_from env io (Suc n) (row_hash env r) rs)"
    unfolding chain_from_Cons by simp_all
  from ok obtain rec where r: "r = Some (JObj rec)"
    by (cases r) (auto elim: row_ok.elims)
  from ok r have "chain_from env io n p (r # rs) = chain_from env io (Suc n) (row_hash env r) rs"
    by auto
  then show ?case using Cons.IH [OF rest] by simp
qed simp

fun run_audits :: "lic_env \<Rightarrow> io_env \<Rightarrow> (int \<times> string \<times> string \<times> json_object) list \<Rightarrow> license_store \<Rightarrow> license_store lic" where
  "run_audits env io [] s = Inr s"
| "run_audits env io ((t, a, r, d) # es) s =
     py_bind (audit env (io\<lparr> io_now := t \<rparr>) a r d s) (run_audits env io es)"

fun row_secret_free :: "json option \<Rightarrow> bool" where
  "row_secret_free (Some (JObj rec)) = (case item_get rec ''details'' of
     JObj d \<Rightarrow> set (od_keys d) \<inter> {''activation_code'', ''token'', ''password'', ''secret''} = {} | _ \<Rightarrow> False)"
| "row_secret_free _ = False"

definition log_rows :: "license_store \<Rightarrow> json option list" where
  "log_rows s = (case audit_file s of Regular n rows \<Rightarrow> rows | _ \<Rightarrow> [])"

definition log_ok :: "lic_env \<Rightarrow> io_env \<Rightarrow> license_store \<Rightarrow> bool" where
  "log_ok env io s \<longleftrightarrow> chain_valid (chain_from env io 0 zero_hash (log_rows s)) \<and>
     list_all row_secret_free (log_rows s) \<and>
     last_record_hash env (log_rows s) = Inr (if log_rows s = [] then zero_hash else row_hash env (last (log_rows s)))"

lemma audit_appends:
  assumes "audit env io a r d s = Inr s'"
  shows "\<exists>rec body n. audit_file s' = Regular n (log_rows s @ [Some (JObj (rec @ [(''record_hash'', JStr (sha256_hex io body))]))]) \<and>
    canonical_json env (JObj rec) = Some body \<and>
    (\<exists>h. last_record_hash env (log_rows s) = Inr h \<and> rec = audit_record env io a r d h)"
  using assms
  by (auto simp: audit_def Let_def py_bind_Inr_iff log_rows_def split: if_splits file_entry.splits option.splits prod.splits)

lemma audit_log_ok:
  assumes "audit env io a r d s = Inr s'" and "log_ok env io s"
  shows "log_ok env io s' \<and> length (log_rows s') = Suc (length (log_rows s)) \<and> (\<exists>n rows. audit_file s' = Regular n rows)"
proof -
  from audit_appends [OF assms(1)] obtain rec body n h where
    f: "audit_file s' = Regular n (log_rows s @ [Some (JObj (rec @ [(''record_hash'', JStr (sha256_hex io body))]))])"
    and b: "canonical_json env (JObj rec) = Some body" and h: "last_record_hash env (log_rows s) = Inr h"
    and rec: "rec = audit_record env io a r d h" by blast
  let ?row = "Some (JObj (rec @ [(''record_hash'', JStr (sha256_hex io body))]))"
  have rows: "log_rows s' = log_rows s @ [?row]" using f by (simp add: log_rows_def)
  have del: "AList.delete ''record_hash'' (rec @ [(''record_hash'', JStr (sha256_hex io body))]) = rec"
    by (simp add: rec audit_record_def)
  have row: "row_ok env io h ?row" "row_secret_free ?row" "row_hash env ?row = sha256_hex io body"
    "last_record_hash env (log_rows s @ [?row]) = Inr (row_hash env ?row)"
    using b del by (auto simp: rec audit_record_def item_get_def od_get_def last_record_hash_def)
  have "(if log_rows s = [] then zero_hash else row_hash env (last (log_rows s))) = h"
    using assms(2) h by (simp add: log_ok_def)
  with assms(2) row have "chain_valid (chain_from env io 0 zero_hash (log_rows s @ [?row]))"
    by (simp only: lc.verify_snoc log_ok_def)
  with assms(2) row rows f show ?thesis by (simp add: log_ok_def)
qed

lemma log_ok_clock [simp]: "log_ok env (io\<lparr> io_now := t \<rparr>) s = log_ok env io s"
proof -
  have "chain_from env (io\<lparr> io_now := t \<rparr>) n p rows = chain_from env io n p rows" for n p rows
    by (induction env io n p rows rule: chain_from.induct) (auto simp: Let_def split: option.splits)
  then show ?thesis by (simp add: log_ok_def)
qed

text \<open>
  The licensing audit log is verifiable and keeps secrets out: after any series of audit calls on a
  new installation the chain verifies with one record per call, and no record's details hold an
  activation code, token, password or secret.
\<close>

theorem license_audit_log_verifies:
  assumes "run_audits env io es s = Inr s'" and "audit_file s = Absent" and "es \<noteq> []"
  shows "\<exists>n rows h. audit_file s' = Regular n rows \<and> chain_from env io 0 zero_hash rows = ChainValid (length es) h \<and>
    list_all row_secret_free rows"
proof -
  have gen: "log_ok env io s' \<and> length (log_rows s') = length (log_rows t) + length es \<and>
      (es \<noteq> [] \<longrightarrow> (\<exists>n rows. audit_file s' = Regular n rows))"
    if "run_audits env io es t = Inr s'" and "log_ok env io t" for t
    using that
  proof (induction es arbitrary: t)
    case (Cons e es)
    obtain now a r d where e: "e = (now, a, r, d)" by (cases e)
    with Cons.prems(1) obtain t1 where t1: "audit env (io\<lparr> io_now := now \<rparr>) a r d t = Inr t1"
      and run: "run_audits env io es t1 = Inr s'" by (auto simp: py_bind_Inr_iff)
    from audit_log_ok [OF t1] Cons.prems(2) have ok: "log_ok env io t1"
      and len: "length (log_rows t1) = Suc (length (log_rows t))" and reg: "\<exists>n rows. audit_file t1 = Regular n rows"
      by simp_all
    from Cons.IH [OF run ok] len reg run show ?case by (cases es) auto
  qed simp
  have "log_ok env io s" using assms(2) by (simp add: log_ok_def log_rows_def last_record_hash_def)
  from gen [OF assms(1) this] assms(2,3) obtain n rows where f: "audit_file s' = Regular n rows"
    and ok: "log_ok env io s'" and len: "length (log_rows s') = length es"
    by (auto simp: log_rows_def)
  then have rows: "log_rows s' = rows" by (simp add: log_rows_def)
  from ok rows have "chain_valid (chain_from env io 0 zero_hash rows)" "list_all row_secret_free rows"
    by (simp_all add: log_ok_def)
  with chain_from_valid [OF this(1)] f len rows show ?thesis by auto
qed

section \<open>An installation\<close>

definition example_io :: io_env where
  "example_io = \<lparr> io_now = 900000000, io_token = replicate 64 CHR ''a'', disk_ok = True,
     encoded_size = (\<lambda>_. 10), sha256_hex = (\<lambda>s. ''h'') \<rparr>"

definition example_doc :: json_object where
  "example_doc = [(''schema_version'', JInt 1), (''product_id'', JStr PRODUCT_ID), (''license_id'', JStr ''L1''),
     (''edition'', JStr ''COMMERCIAL''), (''issued_at'', JStr ''a''), (''expires_at'', JStr ''b''),
     (''activation_mode'', JStr ''offline''), (''features'', JList [JStr ''reports'']),
     (''signature'', JObj [(''algorithm'', JStr ''Ed25519''), (''key_id'', JStr ''k1''), (''value'', JStr ''pub{}'')])]"

definition example_manager :: LicenseManager where
  "example_manager = \<lparr> lm_policy = DEFAULT_POLICY, revoked_license_ids = [], trusted_keys = [(''k1'', ''pub'')] \<rparr>"

definition doc_claims :: LicenseClaims where
  "doc_claims = \<lparr> c_license_id = ''L1'', c_edition = ''COMMERCIAL'', c_licensed_to = '''', c_issued = 300000000,
     c_not_before = 300000000, c_expires = Some 600000000, c_maintenance = None, c_activation_mode = ''offline'',
     c_features = [''reports''], c_fingerprint = '''' \<rparr>"

definition example_install :: license_store where
  "example_install = \<lparr> root_is_symlink = False, license_file = Regular 10 (Inr (JObj example_doc)),
     install_file = Regular 64 (Inr (replicate 64 CHR ''a'')), state_file = Absent, audit_file = Absent \<rparr>"

lemma example_genuine: "genuine example_lic_env [(''k1'', ''pub'')] DEFAULT_POLICY example_doc ''k1''"
proof -
  have "clean_text (JStr PRODUCT_ID) ''product_id'' True 256 = Inr PRODUCT_ID"
    "clean_text (JStr ''k1'') ''signature.key_id'' True 128 = Inr ''k1''" by code_simp+
  then show ?thesis
    by (simp add: genuine_def example_doc_def example_lic_env_def item_get_def od_get_def DEFAULT_POLICY_def
        signed_payload_def)
qed

lemma example_doc_claims: "read_claims example_lic_env example_doc = Inr doc_claims"
  by code_simp

lemma example_working: "working_install example_manager example_install example_doc (replicate 64 CHR ''a'')"
proof -
  have "hex64 (replicate 64 CHR ''a'')" "str_strip (replicate 64 CHR ''a'') = replicate 64 CHR ''a''" by code_simp+
  then show ?thesis by (auto simp: working_install_def example_install_def example_manager_def DEFAULT_POLICY_def)
qed

lemma example_last_trusted: "last_trusted_time example_lic_env (read_state example_install) = None"
  by (simp add: last_trusted_time_def read_state_def example_install_def item_get_def od_get_def)

lemma example_iso_times [simp]:
  "isofmt example_lic_env t \<noteq> ''''"
  "fromiso example_lic_env (isofmt example_lic_env 300000000) = Some (Aware 300000000)"
  "fromiso example_lic_env (isofmt example_lic_env 600000000) = Some (Aware 600000000)"
  "fromiso example_lic_env (isofmt example_lic_env 900000000) = Some (Aware 900000000)"
  by (simp_all add: example_lic_env_def)

text \<open>The license expired at 600 s; the clock is walked from 900 s to 300 s in two steps.\<close>

theorem clock_walked_back_unnoticed_witness:
  "list_all2 (\<lambda>t r. \<exists>st. r = Inr st \<and> state st \<noteq> CLOCK_ROLLBACK_SUSPECTED \<and>
      (valid st \<longleftrightarrow> c_not_before doc_claims \<le> t \<and> pred_option (\<lambda>ex. t < ex) (c_expires doc_claims)))
    [900000000, 600000000, 300000000]
    (run_status example_lic_env example_manager example_io [900000000, 600000000, 300000000] example_install)"
  by (rule clock_walked_back_unnoticed [OF example_working, where kid = "''k1''"])
    (use example_genuine in \<open>simp_all add: example_doc_claims example_last_trusted example_manager_def
       example_io_def doc_claims_def DEFAULT_POLICY_def\<close>)

lemma example_status:
  assumes "t \<in> {300000000, 600000000, 900000000}"
  shows "\<exists>st s'. status example_lic_env example_manager (example_io\<lparr> io_now := t \<rparr>) example_install = (Inr st, s') \<and>
    (valid st \<longleftrightarrow> t = 300000000) \<and> state st \<in> {VALID, EXPIRING, EXPIRED, NOT_YET_VALID} \<and>
    activation_mode st = ''offline'' \<and> features st = [''reports'']"
proof -
  let ?io = "example_io\<lparr> io_now := t \<rparr>"
  have "genuine example_lic_env (trusted_keys example_manager) (lm_policy example_manager) example_doc ''k1''"
    using example_genuine by (simp add: example_manager_def)
  then obtain st s' where "status example_lic_env example_manager ?io example_install = (Inr st, s')"
    "valid st \<longleftrightarrow> c_not_before doc_claims \<le> io_now ?io \<and> pred_option (\<lambda>ex. io_now ?io < ex) (c_expires doc_claims)"
    "state st \<in> {VALID, EXPIRING, EXPIRED, NOT_YET_VALID}" "activation_mode st = c_activation_mode doc_claims"
    "features st = c_features doc_claims"
    using status_step [OF example_working _ example_doc_claims, of "''k1''" ?io] assms
    by (auto simp: example_last_trusted example_manager_def example_io_def doc_claims_def)
  then show ?thesis using assms by (auto simp: doc_claims_def)
qed

theorem registration_needs_entitlement_witness:
  "\<exists>d s' m doc fp c. service_registration_license_decision example_lic_env (Inr example_manager)
      (example_io\<lparr> io_now := 300000000 \<rparr>) example_install = (d, s') \<and> rd_allowed d \<and>
    read_license (maximum_document_bytes (lm_policy m)) example_install = Inr (Some doc) \<and>
    entitled example_lic_env m fp 300000000 None doc c"
proof -
  obtain st s' where st: "status example_lic_env example_manager (example_io\<lparr> io_now := 300000000 \<rparr>) example_install = (Inr st, s')"
    "valid st" "activation_mode st = ''offline''"
    using example_status [of 300000000] by auto
  then have d: "service_registration_license_decision example_lic_env (Inr example_manager)
      (example_io\<lparr> io_now := 300000000 \<rparr>) example_install =
      (\<lparr> rd_allowed = True, rd_code = ''LICENSE_VALID'', rd_license_state = state_value (state st),
         rd_activation_mode = activation_mode st \<rparr>, s')"
    by (simp add: service_registration_license_decision_def operator_actions_enabled_def example_manager_def
        DEFAULT_POLICY_def)
  from registration_needs_entitlement [OF d] d show ?thesis
    by (fastforce simp: example_last_trusted)
qed

theorem rollback_is_refused_witness:
  "\<exists>st s1. status example_lic_env example_manager example_io example_install = (Inr st, s1) \<and>
    (\<nexists>st' s2. status example_lic_env example_manager (example_io\<lparr> io_now := 300000000 \<rparr>) s1 = (Inr st', s2) \<and> valid st')"
proof -
  have io: "example_io\<lparr> io_now := 900000000 \<rparr> = example_io" by (simp add: example_io_def)
  from example_status [of 900000000] obtain st s1 where
    st: "status example_lic_env example_manager example_io example_install = (Inr st, s1)"
    "state st \<in> {VALID, EXPIRING, EXPIRED, NOT_YET_VALID}" by (auto simp: io)
  have "disk_ok example_io" "state_file example_install \<noteq> Symlink"
    "isofmt example_lic_env (io_now example_io) \<noteq> ''''"
    "fromiso example_lic_env (isofmt example_lic_env (io_now example_io)) = Some (Aware (io_now example_io))"
    "io_now (example_io\<lparr> io_now := 300000000 \<rparr>) +
       clock_rollback_tolerance_seconds (lm_policy example_manager) * 1000000 < io_now example_io"
    by (simp_all add: example_io_def example_install_def example_manager_def DEFAULT_POLICY_def)
  from rollback_is_refused [OF st this] st show ?thesis by blast
qed

theorem feature_decision_sound_witness:
  "\<exists>d s'. feature_decision example_lic_env example_manager (example_io\<lparr> io_now := 900000000 \<rparr>) ''alerting''
      example_install = (Inr d, s') \<and> fr_available d"
proof -
  obtain st s' where "status example_lic_env example_manager (example_io\<lparr> io_now := 900000000 \<rparr>) example_install = (Inr st, s')"
    using example_status [of 900000000] by auto
  then obtain d where d: "feature_decision example_lic_env example_manager (example_io\<lparr> io_now := 900000000 \<rparr>) ''alerting''
      example_install = (Inr d, s')" by (auto simp: feature_decision_def Let_def)
  have "str_lower (str_strip ''alerting'') = ''alerting''" by code_simp
  then have "str_lower (str_strip ''alerting'') \<in> set (core_safety_features (lm_policy example_manager))"
    by (simp add: example_manager_def DEFAULT_POLICY_def CORE_SAFETY_FEATURES_def)
  with feature_decision_sound [OF d] d show ?thesis by auto
qed

theorem undecodable_install_id_escapes_witness:
  "fst (feature_decision example_lic_env example_manager example_io ''core_protection''
     (example_install\<lparr> install_file := Regular 1 (Inl (OtherError ''UnicodeDecodeError'')) \<rparr>)) =
   Inl (OtherError ''UnicodeDecodeError'')"
  by (rule undecodable_install_id_escapes [of _ 1 _ example_doc, THEN conjunct2])
    (simp_all add: example_install_def read_license_def example_manager_def DEFAULT_POLICY_def)

theorem import_stores_only_entitled_witness:
  "\<exists>s' k doc fp c. snd (import_offline example_lic_env example_manager (example_io\<lparr> io_now := 300000000 \<rparr>)
       (Regular 20 (Inr (JObj example_doc))) (example_install\<lparr> license_file := Absent \<rparr>)) = s' \<and>
    license_file s' = Regular k (Inr (JObj doc)) \<and> entitled example_lic_env example_manager fp 300000000 None doc c"
proof -
  let ?s = "example_install\<lparr> license_file := Absent \<rparr>" and ?io = "example_io\<lparr> io_now := 300000000 \<rparr>"
  let ?fp = "sha256_hex ?io (product_id (lm_policy example_manager) @ [CHR 0x00] @ replicate 64 CHR ''a'')"
  have "hex64 (replicate 64 CHR ''a'')" "str_strip (replicate 64 CHR ''a'') = replicate 64 CHR ''a''" by code_simp+
  then have dev: "device_fingerprint ?io (product_id (lm_policy example_manager)) ?s = (Inr ?fp, ?s)"
    by (simp add: device_fingerprint_def install_id_def example_install_def)
  have sig: "check_signature example_lic_env (trusted_keys example_manager) (lm_policy example_manager) example_doc = Inr ''k1''"
    using example_genuine by (simp add: check_signature_iff example_manager_def)
  let ?st = "decide_status example_lic_env (lm_policy example_manager) ?fp 300000000 None ''k1'' doc_claims"
  have v: "verify_here example_lic_env example_manager ?io example_doc None ?s = (Inr ?st, ?s)"
    using dev sig by (simp add: verify_here_def verify_def example_doc_claims apply_revocation_def example_manager_def)
  have "valid ?st" by (simp add: decide_valid_iff claims_hold_def doc_claims_def)
  obtain r s' where r: "import_offline example_lic_env example_manager ?io (Regular 20 (Inr (JObj example_doc))) ?s = (r, s')"
    by fastforce
  then have ins: "install_document example_lic_env example_manager ?io ''LICENSE_IMPORT'' example_doc ?s = (r, s')"
    by (simp add: import_offline_def example_manager_def DEFAULT_POLICY_def)
  obtain s2 where s2: "store_verified_license ?io example_doc ?s = Inr s2" "license_file s2 \<noteq> Absent"
    by (simp add: store_verified_license_def atomic_write_ok_def example_install_def example_io_def)
  have "license_file s' = license_file s2"
    using ins v \<open>valid ?st\<close> s2
    by (auto simp: install_document_def dest!: try_audit_frame status_frame split: prod.splits sum.splits)
  then have "license_file s' \<noteq> license_file ?s" using s2 by simp
  from import_stores_only_entitled [OF r this] r show ?thesis by auto
qed

theorem license_audit_log_verifies_witness:
  "\<exists>s' n rows h. run_audits example_lic_env example_io [(1, ''A'', ''OK'', []), (2, ''B'', ''OK'', [(''token'', JStr ''x'')])]
      example_install = Inr s' \<and> audit_file s' = Regular n rows \<and>
    chain_from example_lic_env example_io 0 zero_hash rows = ChainValid 2 h"
proof -
  obtain s' where run: "run_audits example_lic_env example_io [(1, ''A'', ''OK'', []), (2, ''B'', ''OK'', [(''token'', JStr ''x'')])]
      example_install = Inr s'"
    by (simp add: audit_def example_install_def example_io_def example_lic_env_def last_record_hash_def
        audit_record_def Let_def)
  from license_audit_log_verifies [OF run] run show ?thesis by (auto simp: example_install_def eval_nat_numeral)
qed


end
