(* ===== verification/Alert_Models.thy ===== *)
theory Alert_Models
  imports Json_Values
begin

text \<open>
  The event model and the configuration of the resilient alert pipeline
  (\<open>alerts/resilient_models.py\<close>, \<open>alerts/configuration.py\<close>): validation, priorities, the
  protected event types and the redaction of attributes. Attribute values are JSON documents, which
  is what the producers hand over, so the branches of \<open>redact\<close> for bytes and foreign objects do not
  arise. The text of a document (\<open>json.dumps\<close>) and its size in UTF-8 are parameters.
\<close>

section \<open>Priorities and event types\<close>

datatype Priority = P0 | P1 | P2 | P3 | P4

fun priority_value :: "Priority \<Rightarrow> nat" where
  "priority_value P0 = 0"
| "priority_value P1 = 1"
| "priority_value P2 = 2"
| "priority_value P3 = 3"
| "priority_value P4 = 4"

definition SEVERITY_RANK :: "(string, nat) odict" where
  "SEVERITY_RANK = [(''info'', 0), (''informational'', 0), (''low'', 1), (''medium'', 2),
     (''high'', 3), (''critical'', 4)]"

definition PROTECTED_TYPES :: "string list" where
  "PROTECTED_TYPES = [
     ''agent_tampering'', ''logging_failure'', ''audit_log_integrity_failure'',
     ''event_store_corruption'', ''queue_overflow'', ''reserved_storage_exhaustion'',
     ''policy_modification'', ''suppression_rule_modification'', ''unauthorized_disable_attempt'',
     ''emergency_protection_disable_attempt'', ''security_control_failure'',
     ''privileged_helper_failure'', ''signature_verification_failure'',
     ''event_source_authentication_failure'', ''configuration_integrity_failure'',
     ''system_time_rollback'', ''critical_severity_escalation'', ''alert_flood_detected'',
     ''log_storage_pressure'', ''cardinality_pressure'']"

section \<open>Redaction\<close>

text \<open>The alternatives of the patterns, with the optional separator of \<open>api[_-]?key\<close> spelled
  out. Case is ignored, so the text is compared in lower case.\<close>

definition optional_sep :: "string \<Rightarrow> string \<Rightarrow> string list" where
  "optional_sep a b = [a @ ''_'' @ b, a @ ''-'' @ b, a @ b]"

definition sensitive_words :: "string list" where
  "sensitive_words = [''password'', ''passwd''] @ optional_sep ''api'' ''key'' @
     [''bearer'', ''cookie'', ''session'', ''authorization''] @ optional_sep ''private'' ''key'' @
     optional_sep ''access'' ''token'' @ optional_sep ''refresh'' ''token''"

definition sensitive_key :: "string \<Rightarrow> bool" where
  "sensitive_key name \<longleftrightarrow> list_ex (\<lambda>w. str_contains w (str_lower name)) sensitive_words"

definition is_word_char :: "char \<Rightarrow> bool" where
  "is_word_char c = (let n = (of_char c :: nat) in
     (48 \<le> n \<and> n \<le> 57) \<or> (65 \<le> n \<and> n \<le> 90) \<or> n = 95 \<or> (97 \<le> n \<and> n \<le> 122))"

text \<open>The characters of \<open>[^\s,;]\<close>.\<close>

definition is_secret_char :: "char \<Rightarrow> bool" where
  "is_secret_char c \<longleftrightarrow> \<not> is_space c \<and> c \<noteq> CHR '','' \<and> c \<noteq> CHR '';''"

definition ci_prefix :: "string \<Rightarrow> string \<Rightarrow> bool" where
  "ci_prefix p s \<longleftrightarrow> str_lower (take (length p) s) = p"

text \<open>\<open>bearer\s+\<close> and \<open>word\s*[=:]\s*\<close>, each followed by \<open>[^\s,;]+\<close>. The classes around every
  repetition are disjoint, so the greedy match is the only one; the result is the first group and
  what follows the second.\<close>

definition match_bearer :: "string \<Rightarrow> (string \<times> string) option" where
  "match_bearer s = (
     let w = take 6 s; r = drop 6 s; gap = takeWhile is_space r; t = dropWhile is_space r
     in if ci_prefix ''bearer'' s \<and> gap \<noteq> [] \<and> takeWhile is_secret_char t \<noteq> []
        then Some (w @ gap, dropWhile is_secret_char t) else None)"

definition match_assign :: "string \<Rightarrow> string \<Rightarrow> (string \<times> string) option" where
  "match_assign word s = (
     let n = length word; w = take n s; r = drop n s;
         gap = takeWhile is_space r; q = dropWhile is_space r
     in case q of
          [] \<Rightarrow> None
        | c # q' \<Rightarrow>
            (let gap' = takeWhile is_space q'; t = dropWhile is_space q'
             in if ci_prefix word s \<and> c \<in> set ''=:'' \<and> takeWhile is_secret_char t \<noteq> []
                then Some (w @ gap @ [c] @ gap', dropWhile is_secret_char t) else None))"

fun first_some :: "('a \<Rightarrow> 'b option) list \<Rightarrow> 'a \<Rightarrow> 'b option" where
  "first_some [] x = None"
| "first_some (f # fs) x = (case f x of Some y \<Rightarrow> Some y | None \<Rightarrow> first_some fs x)"

definition secret_match :: "string \<Rightarrow> (string \<times> string) option" where
  "secret_match = first_some (match_bearer #
     map match_assign (optional_sep ''api'' ''key'' @ [''password'']))"

text \<open>\<open>_SECRET_TEXT.sub(lambda match: match.group(1) + "[REDACTED]", s)\<close>: the flag tells whether
  the character before the current position is a word character (\<open>\b\<close>).\<close>

definition REDACTED :: string where
  "REDACTED = ''[REDACTED]''"

lemma dropWhile_shorter: "takeWhile P t \<noteq> [] \<Longrightarrow> length (dropWhile P t) < length t"
  by (cases t) (auto simp: length_dropWhile_le le_imp_less_Suc split: if_splits)

lemma match_bearer_shorter:
  "match_bearer s = Some (g, r) \<Longrightarrow> length r < length s"
proof -
  assume m: "match_bearer s = Some (g, r)"
  let ?t = "dropWhile is_space (drop 6 s)"
  have r: "r = dropWhile is_secret_char ?t" and "takeWhile is_secret_char ?t \<noteq> []"
    using m by (auto simp: match_bearer_def Let_def split: if_splits)
  then have "length r < length ?t" using dropWhile_shorter by blast
  also have "length ?t \<le> length s"
    using length_dropWhile_le [of is_space "drop 6 s"] by simp
  finally show ?thesis .
qed

lemma match_assign_shorter:
  "match_assign w s = Some (g, r) \<Longrightarrow> length r < length s"
proof -
  assume m: "match_assign w s = Some (g, r)"
  then obtain c q' where q: "dropWhile is_space (drop (length w) s) = c # q'"
    by (auto simp: match_assign_def Let_def split: list.splits)
  let ?t = "dropWhile is_space q'"
  have r: "r = dropWhile is_secret_char ?t" and "takeWhile is_secret_char ?t \<noteq> []"
    using m q by (auto simp: match_assign_def Let_def split: if_splits)
  then have "length r < length ?t" using dropWhile_shorter by blast
  also have "length ?t \<le> length q'" by (rule length_dropWhile_le)
  also have "length q' < length s"
    using q length_dropWhile_le [of is_space "drop (length w) s"] by simp
  finally show ?thesis .
qed

lemma first_some_mem: "first_some fs x = Some y \<Longrightarrow> \<exists>f \<in> set fs. f x = Some y"
  by (induction fs) (auto split: option.splits)

lemma secret_match_shorter: "secret_match s = Some (g, r) \<Longrightarrow> length r < length s"
proof -
  assume m: "secret_match s = Some (g, r)"
  obtain f where f: "f \<in> set (match_bearer # map match_assign
      (optional_sep ''api'' ''key'' @ [''password'']))" and s: "f s = Some (g, r)"
    using first_some_mem [OF m [unfolded secret_match_def]] by (rule bexE)
  from f consider "f = match_bearer" | w where "f = match_assign w"
    by (simp only: set_simps set_map) blast
  then show ?thesis
    using s match_bearer_shorter match_assign_shorter by cases blast+
qed

function secret_sub :: "bool \<Rightarrow> string \<Rightarrow> string" where
  "secret_sub w [] = []"
| "secret_sub w (c # s) =
     (case (if w then None else secret_match (c # s)) of
        Some (g, r) \<Rightarrow> g @ REDACTED @ secret_sub (is_word_char ((c # s) ! (length s - length r))) r
      | None \<Rightarrow> c # secret_sub (is_word_char c) s)"
  by pat_completeness auto
termination
  by (relation "measure (length \<circ> snd)")
     (auto dest: secret_match_shorter split: if_splits)

datatype alert_error =
    EventValidationError string
  | AlertValueError string
  | AlertPermissionError string
  | SqliteError string
  | AlertTypeError string

text \<open>\<open>redact\<close>; \<open>limits\<close> are its three keyword arguments. The loop over \<open>value.items()\<close> builds
  the output in order, a later name replacing an equal earlier one.\<close>

record redact_limits =
  max_depth :: int
  max_items :: int
  max_string :: int

text \<open>\<open>s[:n]\<close>; a negative bound counts from the end.\<close>

definition slice_to :: "int \<Rightarrow> 'a list \<Rightarrow> 'a list" where
  "slice_to n s = (if n < 0 then take (length s - nat (- n)) s else take (nat n) s)"

fun redact :: "redact_limits \<Rightarrow> nat \<Rightarrow> json \<Rightarrow> alert_error + json"
  and redact_items :: "redact_limits \<Rightarrow> nat \<Rightarrow> (string \<times> json) list \<Rightarrow> json_object \<Rightarrow>
    alert_error + json_object"
  and redact_list :: "redact_limits \<Rightarrow> nat \<Rightarrow> json list \<Rightarrow> alert_error + json list"
where
  "redact l depth (JObj d) =
     (if max_depth l < int depth then Inl (EventValidationError ''maximum nesting depth exceeded'')
      else if max_items l < int (length d) then Inl (EventValidationError ''maximum map size exceeded'')
      else py_bind (redact_items l depth d []) (\<lambda>out. Inr (JObj out)))"
| "redact l depth (JList xs) =
     (if max_depth l < int depth then Inl (EventValidationError ''maximum nesting depth exceeded'')
      else if max_items l < int (length xs) then Inl (EventValidationError ''maximum array size exceeded'')
      else py_bind (redact_list l depth xs) (\<lambda>out. Inr (JList out)))"
| "redact l depth (JStr s) =
     (if max_depth l < int depth then Inl (EventValidationError ''maximum nesting depth exceeded'')
      else Inr (JStr (secret_sub False (slice_to (max_string l) s))))"
| "redact l depth v =
     (if max_depth l < int depth then Inl (EventValidationError ''maximum nesting depth exceeded'')
      else Inr v)"
| "redact_items l depth [] out = Inr out"
| "redact_items l depth ((key, item) # rest) out =
     (let name = take 256 key
      in if sensitive_key name
         then redact_items l depth rest (AList.update name (JStr REDACTED) out)
         else py_bind (redact l (Suc depth) item)
                (\<lambda>v. redact_items l depth rest (AList.update name v out)))"
| "redact_list l depth [] = Inr []"
| "redact_list l depth (x # xs) =
     py_bind (redact l (Suc depth) x) (\<lambda>v. py_bind (redact_list l depth xs) (\<lambda>vs. Inr (v # vs)))"

section \<open>Security events\<close>

record SecurityEvent =
  event_id :: string
  event_type :: string
  rule_id :: string
  severity :: string
  confidence :: string
  timestamp_utc :: string
  monotonic_timestamp :: pyfloat
  ingestion_timestamp_utc :: string
  source_id :: string
  source_type :: string
  schema_version :: int
  rule_version :: string
  sequence_number :: int
  source_process :: string
  source_pid :: "int option"
  host_id :: string
  hostname :: string
  user_uid :: "int option"
  user_name :: string
  process_path :: string
  process_signing_identifier :: string
  process_team_identifier :: string
  process_hash :: string
  parent_process :: string
  remote_address :: string
  remote_port :: "int option"
  object_path :: string
  action :: string
  outcome :: string
  attributes :: json
  mitre_attack :: "string list"
  cve_ids :: "string list"
  threat_tags :: "string list"
  correlation_id :: string
  incident_id :: string
  fingerprint :: string
  material_digest :: string
  notification_disposition :: string
  suppression_rule_id :: string
  suppression_reason :: string
  previous_integrity_hash :: string
  event_integrity_hash :: string

text \<open>The constructor, with the defaults of the dataclass.\<close>

definition new_event :: "string \<Rightarrow> string \<Rightarrow> string \<Rightarrow> string \<Rightarrow> string \<Rightarrow> string \<Rightarrow> pyfloat \<Rightarrow>
    string \<Rightarrow> string \<Rightarrow> SecurityEvent" where
  "new_event eid ty rid sev conf ts mono_ts ing src = \<lparr>
     event_id = eid, event_type = ty, rule_id = rid, severity = sev, confidence = conf,
     timestamp_utc = ts, monotonic_timestamp = mono_ts, ingestion_timestamp_utc = ing,
     source_id = src, source_type = ''local_detector'', schema_version = 1,
     rule_version = ''1'', sequence_number = 0, source_process = '''', source_pid = None,
     host_id = '''', hostname = '''', user_uid = None, user_name = '''', process_path = '''',
     process_signing_identifier = '''', process_team_identifier = '''', process_hash = '''',
     parent_process = '''', remote_address = '''', remote_port = None, object_path = '''',
     action = '''', outcome = '''', attributes = JObj [], mitre_attack = [], cve_ids = [],
     threat_tags = [], correlation_id = '''', incident_id = '''', fingerprint = '''',
     material_digest = '''', notification_disposition = ''pending'',
     suppression_rule_id = '''', suppression_reason = '''', previous_integrity_hash = '''',
     event_integrity_hash = ''''\<rparr>"

definition jint_opt :: "int option \<Rightarrow> json" where
  "jint_opt v = (case v of None \<Rightarrow> JNull | Some i \<Rightarrow> JInt i)"

text \<open>\<open>asdict(self)\<close>.\<close>

definition event_dict :: "SecurityEvent \<Rightarrow> json_object" where
  "event_dict e = [
     (''event_id'', JStr (event_id e)),
     (''event_type'', JStr (event_type e)),
     (''rule_id'', JStr (rule_id e)),
     (''severity'', JStr (severity e)),
     (''confidence'', JStr (confidence e)),
     (''timestamp_utc'', JStr (timestamp_utc e)),
     (''monotonic_timestamp'', JFloat (monotonic_timestamp e)),
     (''ingestion_timestamp_utc'', JStr (ingestion_timestamp_utc e)),
     (''source_id'', JStr (source_id e)),
     (''source_type'', JStr (source_type e)),
     (''schema_version'', JInt (schema_version e)),
     (''rule_version'', JStr (rule_version e)),
     (''sequence_number'', JInt (sequence_number e)),
     (''source_process'', JStr (source_process e)),
     (''source_pid'', jint_opt (source_pid e)),
     (''host_id'', JStr (host_id e)),
     (''hostname'', JStr (hostname e)),
     (''user_uid'', jint_opt (user_uid e)),
     (''user_name'', JStr (user_name e)),
     (''process_path'', JStr (process_path e)),
     (''process_signing_identifier'', JStr (process_signing_identifier e)),
     (''process_team_identifier'', JStr (process_team_identifier e)),
     (''process_hash'', JStr (process_hash e)),
     (''parent_process'', JStr (parent_process e)),
     (''remote_address'', JStr (remote_address e)),
     (''remote_port'', jint_opt (remote_port e)),
     (''object_path'', JStr (object_path e)),
     (''action'', JStr (action e)),
     (''outcome'', JStr (outcome e)),
     (''attributes'', attributes e),
     (''mitre_attack'', JList (map JStr (mitre_attack e))),
     (''cve_ids'', JList (map JStr (cve_ids e))),
     (''threat_tags'', JList (map JStr (threat_tags e))),
     (''correlation_id'', JStr (correlation_id e)),
     (''incident_id'', JStr (incident_id e)),
     (''fingerprint'', JStr (fingerprint e)),
     (''material_digest'', JStr (material_digest e)),
     (''notification_disposition'', JStr (notification_disposition e)),
     (''suppression_rule_id'', JStr (suppression_rule_id e)),
     (''suppression_reason'', JStr (suppression_reason e)),
     (''previous_integrity_hash'', JStr (previous_integrity_hash e)),
     (''event_integrity_hash'', JStr (event_integrity_hash e))]"

definition protected_type :: "string \<Rightarrow> string" where
  "protected_type t = str_replace ''-'' ''_'' (str_lower t)"

definition protected :: "SecurityEvent \<Rightarrow> bool" where
  "protected e \<longleftrightarrow> protected_type (event_type e) \<in> set PROTECTED_TYPES \<or>
     str_lower (severity e) = ''critical'' \<and> str_contains ''escalat'' (protected_type (event_type e))"

definition priority :: "SecurityEvent \<Rightarrow> Priority" where
  "priority e = (if protected e then P0
     else od_get [(''critical'', P1), (''high'', P2), (''medium'', P3)] (str_lower (severity e)) P4)"

text \<open>The parameters: \<open>dumps\<close> is \<open>json.dumps(_, sort_keys=True, separators=(",", ":"))\<close>, \<open>dumps_spaced\<close> the
  same with the default separators, \<open>utf8_size\<close> the length of the encoded text, \<open>sha\<close> the hex digest of
  SHA-256, \<open>hmac\<close> the hex digest of HMAC-SHA-256 under the store's key, \<open>utc\<close> the text of the n-th
  reading of the clock, \<open>py_str\<close> the text \<open>str\<close> gives floats and containers.\<close>

record alert_env =
  dumps :: "json \<Rightarrow> string"
  dumps_spaced :: "json \<Rightarrow> string"
  utf8_size :: "string \<Rightarrow> nat"
  sha :: "string \<Rightarrow> string"
  hmac :: "string \<Rightarrow> string"
  utc :: "nat \<Rightarrow> string"
  py_str :: "json \<Rightarrow> string"

definition canonical_json :: "alert_env \<Rightarrow> SecurityEvent \<Rightarrow> string" where
  "canonical_json env e = dumps env (JObj (event_dict e))"

definition required_fields :: "SecurityEvent \<Rightarrow> (string \<times> string) list" where
  "required_fields e = [(''event_id'', event_id e), (''event_type'', event_type e),
     (''rule_id'', rule_id e), (''severity'', severity e), (''timestamp_utc'', timestamp_utc e),
     (''source_id'', source_id e)]"

definition bounded_fields :: "SecurityEvent \<Rightarrow> (string \<times> string \<times> nat) list" where
  "bounded_fields e = [
     (''event_id'', event_id e, 256),
     (''event_type'', event_type e, 256),
     (''rule_id'', rule_id e, 256),
     (''rule_version'', rule_version e, 64),
     (''severity'', severity e, 32),
     (''confidence'', confidence e, 64),
     (''timestamp_utc'', timestamp_utc e, 64),
     (''ingestion_timestamp_utc'', ingestion_timestamp_utc e, 64),
     (''source_id'', source_id e, 256),
     (''source_type'', source_type e, 128),
     (''source_process'', source_process e, 1024),
     (''host_id'', host_id e, 256),
     (''hostname'', hostname e, 256),
     (''user_name'', user_name e, 256),
     (''process_path'', process_path e, 4096),
     (''process_signing_identifier'', process_signing_identifier e, 512),
     (''process_team_identifier'', process_team_identifier e, 128),
     (''process_hash'', process_hash e, 256),
     (''parent_process'', parent_process e, 4096),
     (''remote_address'', remote_address e, 512),
     (''object_path'', object_path e, 4096),
     (''action'', action e, 512),
     (''outcome'', outcome e, 256),
     (''correlation_id'', correlation_id e, 256),
     (''incident_id'', incident_id e, 256)]"

fun check_required :: "(string \<times> string) list \<Rightarrow> alert_error + unit" where
  "check_required [] = Inr ()"
| "check_required ((name, v) # rest) =
     (if str_strip v = '''' then Inl (EventValidationError (''missing required field: '' @ name))
      else check_required rest)"

fun check_bounded :: "(string \<times> string \<times> nat) list \<Rightarrow> alert_error + unit" where
  "check_bounded [] = Inr ()"
| "check_bounded ((name, v, n) # rest) =
     (if n < length v then Inl (EventValidationError (''field exceeds maximum length: '' @ name))
      else check_bounded rest)"

fun check_lists :: "(string \<times> string list) list \<Rightarrow> alert_error + unit" where
  "check_lists [] = Inr ()"
| "check_lists ((name, vs) # rest) =
     (if 64 < length vs \<or> list_ex (\<lambda>x. 256 < length x) vs
      then Inl (EventValidationError (name @ '' must contain at most 64 bounded strings''))
      else check_lists rest)"

text \<open>\<open>validate\<close>: the result is the event with its attributes redacted, as the method leaves it.\<close>

definition validate :: "alert_env \<Rightarrow> int \<Rightarrow> redact_limits \<Rightarrow> SecurityEvent \<Rightarrow>
    alert_error + SecurityEvent" where
  "validate env maximum_event_size l e =
     py_bind (py_guard (schema_version e \<noteq> 1)
       (EventValidationError (''unsupported schema version: '' @ str_int (schema_version e)))) (\<lambda>_.
     py_bind (check_required (required_fields e)) (\<lambda>_.
     py_bind (py_guard (map_of SEVERITY_RANK (str_lower (severity e)) = None)
       (EventValidationError ''invalid severity'')) (\<lambda>_.
     py_bind (check_bounded (bounded_fields e)) (\<lambda>_.
     py_bind (py_guard (case source_pid e of None \<Rightarrow> False | Some i \<Rightarrow> i < 0)
       (EventValidationError ''source_pid must be a non-negative integer'')) (\<lambda>_.
     py_bind (py_guard (case remote_port e of None \<Rightarrow> False | Some i \<Rightarrow> \<not> (0 \<le> i \<and> i \<le> 65535))
       (EventValidationError ''remote_port is invalid'')) (\<lambda>_.
     py_bind (py_guard (case user_uid e of None \<Rightarrow> False | Some i \<Rightarrow> i < 0)
       (EventValidationError ''user_uid must be a non-negative integer'')) (\<lambda>_.
     py_bind (check_lists [(''mitre_attack'', mitre_attack e), (''cve_ids'', cve_ids e),
       (''threat_tags'', threat_tags e)]) (\<lambda>_.
     py_bind (redact l 0 (attributes e)) (\<lambda>v.
       let e' = e\<lparr>attributes := v\<rparr>
       in if maximum_event_size < int (utf8_size env (canonical_json env e'))
          then Inl (EventValidationError (''event exceeds '' @ str_int maximum_event_size @ '' bytes''))
          else Inr e')))))))))"

section \<open>Configuration\<close>

record AlertingConfig =
  cfg_schema_version :: int
  dedup_window_seconds :: int
  summary_interval_seconds :: int
  resolve_after_seconds :: int
  summary_thresholds :: "int list"
  ingestion_capacity :: int
  notification_capacity :: int
  protected_capacity :: int
  maximum_active_fingerprints :: int
  state_ttl_seconds :: int
  maximum_size_mb :: int
  emergency_reserved_size_mb :: int
  individual_duplicate_retention_limit :: int
  maximum_event_size_bytes :: int
  maximum_string_length :: int
  desktop_notifications_per_minute :: int
  flood_events_per_window :: int
  source_rate_per_second :: int
  maximum_source_windows :: int
  emergency_buffer_capacity :: int
  fallback_audit_maximum_bytes :: int
  maximum_suppression_duration_seconds :: int
  maximum_nesting_depth :: int
  maximum_collection_items :: int
  event_integrity_chain_enabled :: bool
  source_authentication_enabled :: bool

definition default_config :: AlertingConfig where
  "default_config = \<lparr>cfg_schema_version = 1, dedup_window_seconds = 60, summary_interval_seconds = 300,
     resolve_after_seconds = 900, summary_thresholds = [10, 100, 1000], ingestion_capacity = 10000,
     notification_capacity = 2000, protected_capacity = 500, maximum_active_fingerprints = 50000,
     state_ttl_seconds = 86400, maximum_size_mb = 2048, emergency_reserved_size_mb = 256,
     individual_duplicate_retention_limit = 1000, maximum_event_size_bytes = 262144,
     maximum_string_length = 16384, desktop_notifications_per_minute = 6,
     flood_events_per_window = 1000, source_rate_per_second = 2000, maximum_source_windows = 4096,
     emergency_buffer_capacity = 512, fallback_audit_maximum_bytes = 1048576,
     maximum_suppression_duration_seconds = 86400, maximum_nesting_depth = 8,
     maximum_collection_items = 128, event_integrity_chain_enabled = True,
     source_authentication_enabled = True\<rparr>"

definition validate_config :: "AlertingConfig \<Rightarrow> alert_error + unit" where
  "validate_config c =
     py_bind (py_guard (cfg_schema_version c \<noteq> 1)
       (AlertValueError ''unsupported alerting configuration schema'')) (\<lambda>_.
     py_bind (py_guard (list_ex (\<lambda>v. v \<le> 0) [dedup_window_seconds c, summary_interval_seconds c,
         resolve_after_seconds c, ingestion_capacity c, notification_capacity c,
         protected_capacity c, maximum_active_fingerprints c, maximum_event_size_bytes c,
         maximum_source_windows c, emergency_buffer_capacity c, fallback_audit_maximum_bytes c,
         maximum_suppression_duration_seconds c, maximum_nesting_depth c,
         maximum_collection_items c])
       (AlertValueError ''alerting limits must be positive'')) (\<lambda>_.
     py_bind (py_guard (ingestion_capacity c \<le> protected_capacity c)
       (AlertValueError ''protected capacity must be smaller than ingestion capacity'')) (\<lambda>_.
     py_bind (py_guard (sort (remdups (summary_thresholds c)) \<noteq> summary_thresholds c \<or>
         list_ex (\<lambda>v. v \<le> 1) (summary_thresholds c))
       (AlertValueError ''summary thresholds must be unique, increasing, and greater than one'')) (\<lambda>_.
     py_guard (maximum_size_mb c \<le> emergency_reserved_size_mb c)
       (AlertValueError ''emergency reserve must be smaller than the storage quota'')))))"

definition limits_of :: "AlertingConfig \<Rightarrow> redact_limits" where
  "limits_of c = \<lparr>max_depth = maximum_nesting_depth c,
     max_items = maximum_collection_items c, max_string = maximum_string_length c\<rparr>"

end
