(* ===== verification/Alert_Store.thy ===== *)
theory Alert_Store
  imports Alert_Models
begin

text \<open>
  The store of the resilient alert pipeline (\<open>alerts/resilient_store.py\<close>): one transaction per event
  that appends the receipt ledger, updates the aggregate of its fingerprint, decides and queues the
  notification, compacts an older duplicate, counts metrics and appends the audit chain. A table is
  the list of its rows in the order of its integer key (of insertion, where it has none); a JSON column
  of an aggregate holds the document itself. \<open>in_txn\<close> says that the connection has an open
  transaction: the \<open>sqlite3\<close> module opens one before every data-changing statement and keeps it
  until \<open>commit\<close>.
\<close>

section \<open>Tables\<close>

record ledger_row =
  le_seq :: nat
  le_event_id :: string
  le_schema :: int
  le_received_at :: string
  le_monotonic :: pyfloat
  le_priority :: nat
  le_protected :: bool
  le_event_type :: string
  le_rule_id :: string
  le_severity :: string
  le_confidence :: string
  le_source_id :: string
  le_fingerprint :: string
  le_material :: string
  le_disposition :: string
  le_raw :: bool
  le_canonical :: string
  le_digest :: string
  le_previous :: string
  le_hash :: string

record aggregate_row =
  ag_fingerprint :: string
  ag_alert_id :: string
  ag_rule_id :: string
  ag_lifecycle :: string
  ag_first_seen :: string
  ag_last_seen :: string
  ag_count :: nat
  ag_severity :: string
  ag_highest :: string
  ag_confidence :: string
  ag_material :: string
  ag_latest_event :: string
  ag_notified_count :: nat
  ag_notified_at :: string
  ag_users :: "json list"
  ag_processes :: "json list"
  ag_hashes :: "json list"
  ag_destinations :: "json list"
  ag_objects :: "json list"
  ag_sources :: "(string, int) odict"
  ag_rolling :: string
  ag_compacted :: nat
  ag_fidelity_reduced :: bool

record queue_row =
  nq_id :: nat
  nq_event_id :: string
  nq_fingerprint :: string
  nq_priority :: nat
  nq_reason :: string
  nq_state :: string
  nq_created_at :: string
  nq_attempts :: nat
  nq_next_attempt_at :: string

record audit_row =
  au_seq :: nat
  au_timestamp :: string
  au_action :: string
  au_actor :: string
  au_reason :: string
  au_object :: string
  au_details :: string
  au_previous :: string
  au_hash :: string

record suppression_row =
  sp_rule_id :: string
  sp_scope :: string
  sp_conditions :: "(string, string) odict"
  sp_owner :: string
  sp_created_at :: string
  sp_expires_at :: string
  sp_reason :: string
  sp_ticket_id :: string
  sp_authorizing_identity :: string
  sp_approval_identity :: string
  sp_policy_version :: string
  sp_revoked_at :: string

record compaction_row =
  cp_id :: nat
  cp_fingerprint :: string
  cp_started_at :: string
  cp_ended_at :: string
  cp_count :: nat
  cp_policy_version :: string
  cp_reason :: string
  cp_digest :: string
  cp_fidelity_reduced :: bool

text \<open>\<open>queue_seq\<close> is the counter of the queue's \<open>AUTOINCREMENT\<close> key, \<open>clock\<close> the number of
  readings of the clock so far.\<close>

record alert_db =
  ledger :: "ledger_row list"
  aggregates :: "aggregate_row list"
  queue :: "queue_row list"
  audit_log :: "audit_row list"
  suppressions :: "suppression_row list"
  compactions :: "compaction_row list"
  metrics :: "(string, int \<times> string) odict"
  queue_seq :: nat
  in_txn :: bool
  clock :: nat

definition empty_db :: alert_db where
  "empty_db = \<lparr>ledger = [], aggregates = [], queue = [], audit_log = [], suppressions = [],
     compactions = [], metrics = [], queue_seq = 0, in_txn = False, clock = 0\<rparr>"

record IngestDecision =
  de_accepted :: bool
  de_fingerprint :: string
  de_disposition :: string
  de_lifecycle :: string
  de_count :: nat
  de_notify :: bool
  de_summary :: bool
  de_material_change :: bool
  de_severity_escalation :: bool
  de_overflowed :: bool

section \<open>Metrics, chains and the audit trail\<close>

definition ALLOWED_METRICS :: "string list" where
  "ALLOWED_METRICS = [''events_received'', ''events_rejected'', ''events_persisted'',
     ''events_compacted'', ''duplicate_occurrences'', ''notifications_delivered'',
     ''notifications_consolidated'', ''notification_failures'', ''notification_queue_saturation'',
     ''cardinality_pressure'', ''suppression_matches'', ''protected_events'', ''storage_pressure'',
     ''store_failures'', ''time_integrity_events'', ''flood_detections'']"

definition bump_metric :: "alert_env \<Rightarrow> string \<Rightarrow> int \<Rightarrow> alert_db \<Rightarrow> alert_db" where
  "bump_metric env name amount db = db\<lparr>
     metrics := AList.update name (fst (od_get (metrics db) name (0, '''')) + amount,
       utc env (clock db)) (metrics db),
     clock := Suc (clock db), in_txn := True\<rparr>"

definition metric :: "alert_env \<Rightarrow> string \<Rightarrow> int \<Rightarrow> alert_db \<Rightarrow> alert_error + alert_db" where
  "metric env name amount db = (if name \<notin> set ALLOWED_METRICS
     then Inl (AlertValueError ''unregistered bounded metric name'')
     else Inr (bump_metric env name amount db))"

definition ledger_last_hash :: "alert_db \<Rightarrow> string" where
  "ledger_last_hash db = (if ledger db = [] then '''' else le_hash (last (ledger db)))"

definition audit_last_hash :: "alert_db \<Rightarrow> string" where
  "audit_last_hash db = (if audit_log db = [] then '''' else au_hash (last (audit_log db)))"

text \<open>\<open>COALESCE(MAX(k), 0) + 1\<close>.\<close>

definition next_key :: "nat list \<Rightarrow> nat" where
  "next_key ks = Suc (fold max ks 0)"

definition chain :: "alert_env \<Rightarrow> string \<Rightarrow> nat \<Rightarrow> string \<Rightarrow> string" where
  "chain env previous sequence text_v = hmac env (previous @ str_nat sequence @ text_v)"

definition audit_canonical :: "alert_env \<Rightarrow> nat \<Rightarrow> string \<Rightarrow> string \<Rightarrow> string \<Rightarrow> string \<Rightarrow> string \<Rightarrow>
    string \<Rightarrow> string" where
  "audit_canonical env sequence t act actor reason obj details = dumps_spaced env (JObj [
     (''sequence'', JInt (int sequence)), (''timestamp'', JStr t), (''action'', JStr act),
     (''actor'', JStr actor), (''reason'', JStr reason), (''object_id'', JStr obj),
     (''details'', JStr details)])"

definition audit :: "alert_env \<Rightarrow> string \<Rightarrow> string \<Rightarrow> string \<Rightarrow> string \<Rightarrow> json_object \<Rightarrow> alert_db \<Rightarrow>
    alert_db" where
  "audit env act actor reason obj details db = (
     let previous = audit_last_hash db;
         sequence = next_key (map au_seq (audit_log db));
         t = utc env (clock db);
         safe_details = dumps env (JObj details);
         dg = chain env previous sequence
           (audit_canonical env sequence t act actor reason obj safe_details)
     in db\<lparr>audit_log := audit_log db @ [\<lparr>au_seq = sequence, au_timestamp = t, au_action = act,
             au_actor = actor, au_reason = reason, au_object = obj, au_details = safe_details,
             au_previous = previous, au_hash = dg\<rparr>],
           clock := Suc (clock db), in_txn := True\<rparr>)"

definition commit :: "alert_db \<Rightarrow> alert_db" where
  "commit db = db\<lparr>in_txn := False\<rparr>"

section \<open>The decision about one event\<close>

definition severity_rank :: "string \<Rightarrow> nat" where
  "severity_rank s = od_get SEVERITY_RANK s 0"

definition power_of_ten_text :: "nat \<Rightarrow> bool" where
  "power_of_ten_text n = (let t = str_nat n in startswith t ''1'' \<and> set (tl t) = {CHR ''0''})"

definition is_threshold :: "AlertingConfig \<Rightarrow> nat \<Rightarrow> bool" where
  "is_threshold cfg n \<longleftrightarrow> int n \<in> set (summary_thresholds cfg) \<or> 1000 < n \<and> power_of_ten_text n"

record ingest_flags =
  fl_count :: nat
  fl_escalation :: bool
  fl_material :: bool
  fl_reopened :: bool
  fl_threshold :: bool
  fl_suppressed :: bool
  fl_notify :: bool
  fl_reason :: string

definition decide :: "AlertingConfig \<Rightarrow> aggregate_row option \<Rightarrow> SecurityEvent \<Rightarrow> ingest_flags" where
  "decide cfg agg e = (
     let n = (case agg of None \<Rightarrow> 0 | Some a \<Rightarrow> ag_count a) + 1;
         esc = (case agg of None \<Rightarrow> False
           | Some a \<Rightarrow> severity_rank (ag_severity a) < severity_rank (severity e));
         mat = (case agg of None \<Rightarrow> False | Some a \<Rightarrow> material_digest e \<noteq> ag_material a);
         reo = (case agg of None \<Rightarrow> False | Some a \<Rightarrow> ag_lifecycle a = ''RESOLVED'');
         thr = is_threshold cfg n;
         sup = (suppression_rule_id e \<noteq> '''' \<and> \<not> protected e)
     in \<lparr>fl_count = n, fl_escalation = esc, fl_material = mat, fl_reopened = reo,
          fl_threshold = thr, fl_suppressed = sup,
          fl_notify = ((agg = None \<or> esc \<or> mat \<or> reo \<or> thr) \<and> \<not> sup),
          fl_reason = (if sup then ''notification_suppressed_evidence_retained''
            else if agg = None then ''first_occurrence''
            else if esc then ''severity_escalation''
            else if mat then ''material_change''
            else if reo then ''reopened''
            else if thr then ''threshold_summary''
            else ''exact_duplicate_consolidated'')\<rparr>)"

text \<open>\<open>used\<close> is what \<open>_database_bytes\<close> finds on disk.\<close>

definition storage_pressure :: "AlertingConfig \<Rightarrow> int \<Rightarrow> SecurityEvent \<Rightarrow> bool \<times> bool" where
  "storage_pressure cfg used e = (
     let maximum = maximum_size_mb cfg * 1024 * 1024;
         reserve = emergency_reserved_size_mb cfg * 1024 * 1024
     in (maximum - reserve \<le> used, maximum \<le> used \<and> 1 < priority_value (priority e)))"

section \<open>Steps of the transaction\<close>

subsection \<open>Compaction of the previous duplicate\<close>

definition KEPT_DISPOSITIONS :: "string list" where
  "KEPT_DISPOSITIONS = [''first_occurrence'', ''threshold_summary'', ''severity_escalation'',
     ''material_change'', ''reopened'']"

definition rows_of :: "string \<Rightarrow> ledger_row list \<Rightarrow> ledger_row list" where
  "rows_of fp rows = filter (\<lambda>r. le_fingerprint r = fp) rows"

text \<open>The subquery with \<open>LIMIT 1 OFFSET k\<close>; without a row the comparison is \<open>NULL\<close> and selects
  nothing.\<close>

definition seq_at_offset :: "string \<Rightarrow> nat \<Rightarrow> ledger_row list \<Rightarrow> nat option" where
  "seq_at_offset fp k rows = (if k < length (rows_of fp rows)
     then Some (le_seq (rows_of fp rows ! k)) else None)"

definition compaction_candidate :: "string \<Rightarrow> nat \<Rightarrow> ledger_row list \<Rightarrow> ledger_row option" where
  "compaction_candidate fp k rows = (case seq_at_offset fp k rows of
       None \<Rightarrow> None
     | Some n \<Rightarrow> (case filter (\<lambda>r. le_raw r \<and> le_disposition r \<notin> set KEPT_DISPOSITIONS \<and>
           n < le_seq r) (rows_of fp rows) of
         [] \<Rightarrow> None | r # rs \<Rightarrow> Some (last (r # rs))))"

definition blank_row :: "nat \<Rightarrow> ledger_row list \<Rightarrow> ledger_row list" where
  "blank_row n = map (\<lambda>r. if le_seq r = n then r\<lparr>le_raw := False, le_canonical := ''''\<rparr> else r)"

definition retention_offset :: "AlertingConfig \<Rightarrow> nat" where
  "retention_offset cfg = nat (max 0 (individual_duplicate_retention_limit cfg - 1))"

definition compact_previous :: "AlertingConfig \<Rightarrow> aggregate_row option \<Rightarrow> SecurityEvent \<Rightarrow>
    ingest_flags \<Rightarrow> bool \<Rightarrow> bool" where
  "compact_previous cfg agg e fl pressure \<longleftrightarrow> agg \<noteq> None \<and> \<not> fl_notify fl \<and> \<not> protected e \<and>
     (individual_duplicate_retention_limit cfg < int (fl_count fl) \<or> pressure)"

text \<open>The result is the digest of the compacted row, empty when there is none.\<close>

definition compact_step :: "alert_env \<Rightarrow> AlertingConfig \<Rightarrow> aggregate_row option \<Rightarrow> SecurityEvent \<Rightarrow>
    ingest_flags \<Rightarrow> bool \<Rightarrow> string \<Rightarrow> alert_db \<Rightarrow> string \<times> alert_db" where
  "compact_step env cfg agg e fl pressure fp db = (
     if compact_previous cfg agg e fl pressure then
       let found = compaction_candidate fp (retention_offset cfg) (ledger db);
           dg = (case found of None \<Rightarrow> '''' | Some r \<Rightarrow> le_digest r);
           db1 = (case found of None \<Rightarrow> db
             | Some r \<Rightarrow> db\<lparr>ledger := blank_row (le_seq r) (ledger db)\<rparr>)
       in (dg, if pressure then bump_metric env ''storage_pressure'' 1 db1 else db1)
     else ('''', db))"

subsection \<open>Ledger and aggregate\<close>

definition ledger_entry :: "alert_env \<Rightarrow> SecurityEvent \<Rightarrow> string \<Rightarrow> string \<Rightarrow> string \<Rightarrow> string \<Rightarrow>
    string \<Rightarrow> nat \<Rightarrow> ledger_row" where
  "ledger_entry env e body event_digest fp reason previous sequence = \<lparr>le_seq = sequence,
     le_event_id = event_id e, le_schema = schema_version e,
     le_received_at = ingestion_timestamp_utc e, le_monotonic = monotonic_timestamp e,
     le_priority = priority_value (priority e), le_protected = protected e,
     le_event_type = event_type e, le_rule_id = rule_id e, le_severity = severity e,
     le_confidence = confidence e, le_source_id = source_id e, le_fingerprint = fp,
     le_material = material_digest e, le_disposition = reason, le_raw = True,
     le_canonical = body, le_digest = event_digest, le_previous = previous,
     le_hash = chain env previous sequence event_digest\<rparr>"

definition append_ledger :: "alert_env \<Rightarrow> SecurityEvent \<Rightarrow> string \<Rightarrow> string \<Rightarrow> string \<Rightarrow> string \<Rightarrow>
    alert_db \<Rightarrow> alert_db" where
  "append_ledger env e body event_digest fp reason db = db\<lparr>ledger := ledger db @
     [ledger_entry env e body event_digest fp reason (ledger_last_hash db)
        (next_key (map le_seq (ledger db)))]\<rparr>"

text \<open>\<open>_bounded_set\<close>; the values are integers or strings, sorted by their text.\<close>

definition bounded_set :: "nat \<Rightarrow> json list \<Rightarrow> json \<Rightarrow> json list" where
  "bounded_set limit raw v = (
     let vs = remdups raw;
         vs' = (if v \<noteq> JNull \<and> v \<noteq> JStr '''' \<and> length vs < limit then remdups (vs @ [v]) else vs)
     in sort_key (json_str (\<lambda>_. '''')) vs')"

definition count_source :: "string \<Rightarrow> (string, int) odict \<Rightarrow> (string, int) odict" where
  "count_source src sources = (if length sources < 128 \<or> src \<in> set (od_keys sources)
     then AList.update src (od_get sources src 0 + 1) sources else sources)"

definition destination :: "SecurityEvent \<Rightarrow> string" where
  "destination e = (if remote_address e = '''' then ''''
     else remote_address e @ '':'' @ (case remote_port e of None \<Rightarrow> ''None'' | Some p \<Rightarrow> str_int p))"

definition find_aggregate :: "string \<Rightarrow> alert_db \<Rightarrow> aggregate_row option" where
  "find_aggregate fp db = find (\<lambda>a. ag_fingerprint a = fp) (aggregates db)"

text \<open>The row that is inserted, or whose values the conflict clause takes over.\<close>

definition excluded_row :: "alert_env \<Rightarrow> SecurityEvent \<Rightarrow> string \<Rightarrow> string \<Rightarrow> aggregate_row option \<Rightarrow>
    ingest_flags \<Rightarrow> bool \<Rightarrow> bool \<Rightarrow> aggregate_row" where
  "excluded_row env e event_digest fp agg fl compacted over = (
     let old_json = (\<lambda>f. case agg of None \<Rightarrow> [] | Some a \<Rightarrow> f a)
     in \<lparr>ag_fingerprint = fp, ag_alert_id = ''alert-'' @ event_id e, ag_rule_id = rule_id e,
       ag_lifecycle = (if fl_reopened fl then ''REOPENED'' else if agg = None then ''NEW''
         else ''ACTIVE''),
       ag_first_seen = timestamp_utc e, ag_last_seen = timestamp_utc e, ag_count = fl_count fl,
       ag_severity = severity e,
       ag_highest = (case agg of None \<Rightarrow> severity e
         | Some a \<Rightarrow> if severity_rank (ag_highest a) \<le> severity_rank (severity e)
             then severity e else ag_highest a),
       ag_confidence = confidence e, ag_material = material_digest e,
       ag_latest_event = event_id e,
       ag_notified_count = (if fl_notify fl then fl_count fl else 0),
       ag_notified_at = (if fl_notify fl then timestamp_utc e else ''''),
       ag_users = bounded_set 128 (old_json ag_users)
         (case user_uid e of None \<Rightarrow> JNull | Some i \<Rightarrow> JInt i),
       ag_processes = bounded_set 128 (old_json ag_processes)
         (JStr (if process_path e \<noteq> '''' then process_path e else source_process e)),
       ag_hashes = bounded_set 128 (old_json ag_hashes) (JStr (process_hash e)),
       ag_destinations = bounded_set 128 (old_json ag_destinations) (JStr (destination e)),
       ag_objects = bounded_set 128 (old_json ag_objects) (JStr (object_path e)),
       ag_sources = count_source (source_id e) (case agg of None \<Rightarrow> [] | Some a \<Rightarrow> ag_sources a),
       ag_rolling = sha env ((case agg of None \<Rightarrow> '''' | Some a \<Rightarrow> ag_rolling a) @ event_digest),
       ag_compacted = (if compacted then 1 else 0), ag_fidelity_reduced = over\<rparr>)"

text \<open>The \<open>ON CONFLICT(fingerprint) DO UPDATE\<close> clause.\<close>

definition merge_row :: "bool \<Rightarrow> bool \<Rightarrow> aggregate_row \<Rightarrow> aggregate_row \<Rightarrow> aggregate_row" where
  "merge_row notified compacted new_row old_row = old_row\<lparr>
     ag_lifecycle := ag_lifecycle new_row, ag_last_seen := ag_last_seen new_row,
     ag_count := ag_count new_row, ag_severity := ag_severity new_row,
     ag_highest := ag_highest new_row, ag_confidence := ag_confidence new_row,
     ag_material := ag_material new_row, ag_latest_event := ag_latest_event new_row,
     ag_notified_count := (if notified then ag_count new_row else ag_notified_count old_row),
     ag_notified_at := (if notified then ag_last_seen new_row else ag_notified_at old_row),
     ag_users := ag_users new_row, ag_processes := ag_processes new_row,
     ag_hashes := ag_hashes new_row, ag_destinations := ag_destinations new_row,
     ag_objects := ag_objects new_row, ag_sources := ag_sources new_row,
     ag_rolling := ag_rolling new_row,
     ag_compacted := ag_compacted old_row + (if compacted then 1 else 0),
     ag_fidelity_reduced := (ag_fidelity_reduced old_row \<or> ag_fidelity_reduced new_row)\<rparr>"

definition upsert_aggregate :: "bool \<Rightarrow> bool \<Rightarrow> aggregate_row \<Rightarrow> alert_db \<Rightarrow> alert_db" where
  "upsert_aggregate notified compacted new_row db = db\<lparr>aggregates :=
     (if ag_fingerprint new_row \<in> set (map ag_fingerprint (aggregates db))
      then map (\<lambda>a. if ag_fingerprint a = ag_fingerprint new_row
        then merge_row notified compacted new_row a else a) (aggregates db)
      else aggregates db @ [new_row])\<rparr>"

subsection \<open>Notification queue and accounting\<close>

definition pending_count :: "alert_db \<Rightarrow> nat" where
  "pending_count db = count_if (\<lambda>q. nq_state q = ''pending'') (queue db)"

text \<open>\<open>INSERT OR IGNORE\<close>: an ignored row still uses up a key. The flag is \<open>changes()\<close>.\<close>

definition insert_or_ignore :: "string \<Rightarrow> string \<Rightarrow> nat \<Rightarrow> string \<Rightarrow> string \<Rightarrow> alert_db \<Rightarrow>
    bool \<times> alert_db" where
  "insert_or_ignore eid fp prio reason created db = (
     let k = Suc (queue_seq db)
     in if list_ex (\<lambda>q. nq_event_id q = eid \<and> nq_reason q = reason) (queue db)
        then (False, db\<lparr>queue_seq := k, in_txn := True\<rparr>)
        else (True, db\<lparr>queue := queue db @ [\<lparr>nq_id = k, nq_event_id = eid, nq_fingerprint = fp,
            nq_priority = prio, nq_reason = reason, nq_state = ''pending'',
            nq_created_at = created, nq_attempts = 0, nq_next_attempt_at = ''''\<rparr>],
          queue_seq := k, in_txn := True\<rparr>))"

definition queue_has_room :: "AlertingConfig \<Rightarrow> nat \<Rightarrow> nat \<Rightarrow> bool" where
  "queue_has_room cfg prio pending \<longleftrightarrow>
     (prio \<le> 1 \<or> int pending < notification_capacity cfg - protected_capacity cfg) \<and>
     int pending < notification_capacity cfg"

definition notify_step :: "alert_env \<Rightarrow> AlertingConfig \<Rightarrow> SecurityEvent \<Rightarrow> string \<Rightarrow> bool \<Rightarrow> string \<Rightarrow>
    alert_db \<Rightarrow> string \<times> alert_db" where
  "notify_step env cfg e fp notified reason db = (
     let prio = priority_value (priority e)
     in if \<not> notified then (reason, db)
        else if queue_has_room cfg prio (pending_count db)
        then (reason, snd (insert_or_ignore (event_id e) fp prio reason
               (ingestion_timestamp_utc e) db))
        else (''notification_queue_pressure_log_only'',
          audit env ''notification_queue_overflow'' ''pipeline'' ''bounded notification queue''
            (event_id e) [(''priority'', JInt (int prio)), (''reserved_capacity_preserved'', JBool True)]
            (bump_metric env ''notification_queue_saturation'' 1 db)))"

definition record_compaction :: "alert_env \<Rightarrow> SecurityEvent \<Rightarrow> string \<Rightarrow> string \<Rightarrow> alert_db \<Rightarrow>
    alert_db" where
  "record_compaction env e fp compacted db = (
     case filter (\<lambda>c. cp_fingerprint c = fp) (compactions db) of
       [] \<Rightarrow> db\<lparr>compactions := compactions db @ [\<lparr>cp_id = next_key (map cp_id (compactions db)),
           cp_fingerprint = fp, cp_started_at = ingestion_timestamp_utc e,
           cp_ended_at = ingestion_timestamp_utc e, cp_count = 1, cp_policy_version = ''1'',
           cp_reason = ''exact duplicate retention limit or storage pressure'',
           cp_digest = compacted, cp_fidelity_reduced = True\<rparr>]\<rparr>
     | c # cs \<Rightarrow> (let r = last (c # cs) in db\<lparr>compactions := map (\<lambda>x. if cp_id x = cp_id r
           then x\<lparr>cp_ended_at := ingestion_timestamp_utc e, cp_count := cp_count r + 1,
             cp_digest := sha env (cp_digest r @ compacted), cp_fidelity_reduced := True\<rparr>
           else x) (compactions db)\<rparr>))"

definition account_step :: "alert_env \<Rightarrow> SecurityEvent \<Rightarrow> string \<Rightarrow> ingest_flags \<Rightarrow> bool \<Rightarrow> string \<Rightarrow>
    alert_db \<Rightarrow> alert_db" where
  "account_step env e fp fl known compacted db = (
     let db1 = (if fl_suppressed fl then bump_metric env ''suppression_matches'' 1 db else db);
         db2 = bump_metric env ''events_received'' 1 db1;
         db3 = bump_metric env ''events_persisted'' 1 db2;
         db4 = bump_metric env ''protected_events'' (if protected e then 1 else 0) db3;
         db5 = (if known then bump_metric env ''duplicate_occurrences'' 1 db4 else db4);
         db6 = (if compacted \<noteq> '''' then record_compaction env e fp compacted
                  (bump_metric env ''events_compacted'' 1 db5) else db5)
     in if fl_notify fl then db6 else bump_metric env ''notifications_consolidated'' 1 db6)"

section \<open>Operations\<close>

subsection \<open>Ingestion\<close>

definition overflow_fingerprint :: "alert_env \<Rightarrow> SecurityEvent \<Rightarrow> string" where
  "overflow_fingerprint env e = sha env (''overflow:'' @ rule_id e @ '':'' @ source_id e @ '':'' @
     str_nat (priority_value (priority e)))"

definition ACTIVE_STATES :: "string list" where
  "ACTIVE_STATES = [''NEW'', ''ACTIVE'', ''QUIET'', ''REOPENED'']"

definition active_count :: "alert_db \<Rightarrow> nat" where
  "active_count db = count_if (\<lambda>a. ag_lifecycle a \<in> set ACTIVE_STATES) (aggregates db)"

definition is_overflow :: "AlertingConfig \<Rightarrow> SecurityEvent \<Rightarrow> alert_db \<Rightarrow> bool" where
  "is_overflow cfg e db \<longleftrightarrow> find_aggregate (fingerprint e) db = None \<and>
     maximum_active_fingerprints cfg \<le> int (active_count db) \<and> 3 \<le> priority_value (priority e)"

definition storage_fingerprint :: "alert_env \<Rightarrow> AlertingConfig \<Rightarrow> SecurityEvent \<Rightarrow> alert_db \<Rightarrow>
    string" where
  "storage_fingerprint env cfg e db = (if is_overflow cfg e db then overflow_fingerprint env e
     else fingerprint e)"

definition overflow_step :: "alert_env \<Rightarrow> AlertingConfig \<Rightarrow> SecurityEvent \<Rightarrow> alert_db \<Rightarrow> alert_db" where
  "overflow_step env cfg e db = (if is_overflow cfg e db then
     audit env ''cardinality_overflow'' ''pipeline'' ''bounded active fingerprint capacity''
       (event_id e) [(''original_fingerprint_digest'', JStr (fingerprint e)),
         (''overflow_bucket'', JStr (overflow_fingerprint env e)),
         (''fidelity_reduced'', JBool True)]
       (bump_metric env ''cardinality_pressure'' 1 db)
     else db)"

definition duplicate_decision :: "string \<Rightarrow> IngestDecision" where
  "duplicate_decision fp = \<lparr>de_accepted = False, de_fingerprint = fp,
     de_disposition = ''duplicate_event_id'', de_lifecycle = ''ACTIVE'', de_count = 0,
     de_notify = False, de_summary = False, de_material_change = False,
     de_severity_escalation = False, de_overflowed = False\<rparr>"

definition decision_audit :: "alert_env \<Rightarrow> SecurityEvent \<Rightarrow> string \<Rightarrow> ingest_flags \<Rightarrow> string \<Rightarrow> bool \<Rightarrow>
    string \<Rightarrow> bool \<Rightarrow> alert_db \<Rightarrow> alert_db" where
  "decision_audit env e fp fl reason over compacted pressure =
     audit env ''event_aggregation_decision'' ''pipeline'' reason (event_id e)
       [(''fingerprint'', JStr fp), (''occurrence_count'', JInt (int (fl_count fl))),
        (''raw_retained'', JBool True), (''previous_raw_compacted'', JBool (compacted \<noteq> '''')),
        (''material_change'', JBool (fl_material fl)),
        (''severity_escalation'', JBool (fl_escalation fl)), (''overflowed'', JBool over),
        (''suppression_rule_id'', JStr (suppression_rule_id e)),
        (''storage_pressure'', JBool pressure)]"

text \<open>The part of the transaction for an event whose identifier is new; \<open>e\<close> is validated.\<close>

definition ingest_new :: "alert_env \<Rightarrow> AlertingConfig \<Rightarrow> int \<Rightarrow> SecurityEvent \<Rightarrow> alert_db \<Rightarrow>
    IngestDecision \<times> alert_db" where
  "ingest_new env cfg used e db = (
     let body = canonical_json env e;
         event_digest = sha env body;
         over = is_overflow cfg e db;
         fp = storage_fingerprint env cfg e db;
         agg = find_aggregate fp db;
         db1 = overflow_step env cfg e db;
         fl = decide cfg agg e;
         pressure = fst (storage_pressure cfg used e);
         exhausted = snd (storage_pressure cfg used e);
         (compacted, db2) = compact_step env cfg agg e fl pressure fp db1;
         reason = (if exhausted \<and> agg \<noteq> None then ''storage_quota_degraded_latest_preserved''
           else fl_reason fl);
         db3 = append_ledger env e body event_digest fp reason db2;
         row = excluded_row env e event_digest fp agg fl (compacted \<noteq> '''') over;
         db4 = upsert_aggregate (fl_notify fl) (compacted \<noteq> '''') row db3;
         (reason', db5) = notify_step env cfg e fp (fl_notify fl) reason db4;
         db6 = account_step env e fp fl (agg \<noteq> None) compacted db5;
         db7 = decision_audit env e fp fl reason' over compacted pressure db6
     in (\<lparr>de_accepted = True, de_fingerprint = fp, de_disposition = reason',
          de_lifecycle = ag_lifecycle row, de_count = fl_count fl, de_notify = fl_notify fl,
          de_summary = fl_threshold fl, de_material_change = fl_material fl,
          de_severity_escalation = fl_escalation fl, de_overflowed = over\<rparr>, commit db7))"

definition ingest_transaction :: "alert_env \<Rightarrow> AlertingConfig \<Rightarrow> int \<Rightarrow> SecurityEvent \<Rightarrow> alert_db \<Rightarrow>
    IngestDecision \<times> alert_db" where
  "ingest_transaction env cfg used e db = (
     case find (\<lambda>r. le_event_id r = event_id e) (ledger db) of
       Some r \<Rightarrow> (duplicate_decision (le_fingerprint r),
         commit (audit env ''duplicate_event_id_rejected'' (source_id e) ''event IDs are idempotent''
           (event_id e) [(''fingerprint'', JStr (fingerprint e))] db))
     | None \<Rightarrow> ingest_new env cfg used e db)"

text \<open>\<open>ingest\<close>: a rejected event and a failing transaction leave the tables as they were. The
  transaction fails when \<open>BEGIN IMMEDIATE\<close> finds one open, or when SQLite or the file system
  reports an error (\<open>fault\<close>), after which it is rolled back.\<close>

datatype ingest_result =
    Ingested IngestDecision SecurityEvent
  | Rejected alert_error
  | StoreFailed SecurityEvent string

definition ingest :: "alert_env \<Rightarrow> AlertingConfig \<Rightarrow> int \<Rightarrow> string option \<Rightarrow> SecurityEvent \<Rightarrow> alert_db \<Rightarrow>
    ingest_result \<times> alert_db" where
  "ingest env cfg used fault e db = (
     case validate env (maximum_event_size_bytes cfg) (limits_of cfg) e of
       Inl err \<Rightarrow> (Rejected err, db)
     | Inr e' \<Rightarrow>
         (if in_txn db then (StoreFailed e' ''OperationalError'', db)
          else case fault of
            Some err \<Rightarrow> (StoreFailed e' err, db)
          | None \<Rightarrow> (let (d, db') = ingest_transaction env cfg used e' db in (Ingested d e', db'))))"

subsection \<open>Integrity\<close>

fun ledger_row_ok :: "alert_env \<Rightarrow> string \<Rightarrow> ledger_row \<Rightarrow> bool" where
  "ledger_row_ok env previous r =
     (if le_canonical r \<noteq> ''''
      then sha env (le_canonical r) = le_digest r \<and>
        chain env previous (le_seq r) (le_digest r) = le_hash r \<and> le_previous r = previous
      else chain env previous (le_seq r) (le_digest r) = le_hash r)"

fun ledger_failures :: "alert_env \<Rightarrow> string \<Rightarrow> ledger_row list \<Rightarrow> nat list" where
  "ledger_failures env previous [] = []"
| "ledger_failures env previous (r # rs) =
     (if ledger_row_ok env previous r then [] else [le_seq r]) @ ledger_failures env (le_hash r) rs"

definition audit_row_ok :: "alert_env \<Rightarrow> string \<Rightarrow> audit_row \<Rightarrow> bool" where
  "audit_row_ok env previous r \<longleftrightarrow> au_previous r = previous \<and>
     au_hash r = chain env previous (au_seq r) (audit_canonical env (au_seq r) (au_timestamp r)
       (au_action r) (au_actor r) (au_reason r) (au_object r) (au_details r))"

fun audit_failures :: "alert_env \<Rightarrow> string \<Rightarrow> audit_row list \<Rightarrow> nat list" where
  "audit_failures env previous [] = []"
| "audit_failures env previous (r # rs) =
     (if audit_row_ok env previous r then [] else [au_seq r]) @ audit_failures env (au_hash r) rs"

record integrity_report =
  ir_ok :: bool
  ir_checked :: nat
  ir_failed :: "nat list"
  ir_audit_failed :: "nat list"

definition verify_integrity :: "alert_env \<Rightarrow> alert_db \<Rightarrow> integrity_report" where
  "verify_integrity env db = (
     let failures = ledger_failures env '''' (ledger db);
         audit_fails = audit_failures env '''' (audit_log db)
     in \<lparr>ir_ok = (failures = [] \<and> audit_fails = []), ir_checked = length (ledger db),
          ir_failed = take 100 failures, ir_audit_failed = take 100 audit_fails\<rparr>)"

record alert_health =
  ah_status :: string
  ah_pending :: nat
  ah_notification_capacity :: int
  ah_active :: nat
  ah_maximum_active :: int
  ah_storage_bytes :: int
  ah_storage_limit :: int
  ah_storage_pressure :: bool
  ah_integrity_ok :: bool
  ah_metrics :: "(string, int) odict"

definition health :: "alert_env \<Rightarrow> AlertingConfig \<Rightarrow> int \<Rightarrow> alert_db \<Rightarrow> alert_health" where
  "health env cfg used db = (
     let ms = map (\<lambda>(k, v, _). (k, v)) (metrics db);
         storage_limit = maximum_size_mb cfg * 1024 * 1024;
         degraded = list_ex (\<lambda>name. od_get ms name 0 \<noteq> 0)
           [''notification_queue_saturation'', ''storage_pressure'', ''store_failures''];
         ok = ir_ok (verify_integrity env db)
     in \<lparr>ah_status = (if degraded \<or> \<not> ok then ''degraded'' else ''healthy''),
          ah_pending = pending_count db, ah_notification_capacity = notification_capacity cfg,
          ah_active = count_if (\<lambda>a. ag_lifecycle a \<noteq> ''RESOLVED'') (aggregates db),
          ah_maximum_active = maximum_active_fingerprints cfg, ah_storage_bytes = used,
          ah_storage_limit = storage_limit,
          ah_storage_pressure = (storage_limit - emergency_reserved_size_mb cfg * 1024 * 1024 \<le> used),
          ah_integrity_ok = ok, ah_metrics = ms\<rparr>)"

subsection \<open>Notifications and lifecycle\<close>

definition pending_notifications :: "AlertingConfig \<Rightarrow> int \<Rightarrow> alert_db \<Rightarrow> queue_row list" where
  "pending_notifications cfg limit db =
     take (nat (max 1 (min limit (notification_capacity cfg))))
       (sort_key (\<lambda>q. (nq_priority q, nq_id q)) (filter (\<lambda>q. nq_state q = ''pending'') (queue db)))"

definition queue_periodic_summary :: "alert_env \<Rightarrow> AlertingConfig \<Rightarrow> SecurityEvent \<Rightarrow> string \<Rightarrow>
    alert_db \<Rightarrow> bool \<times> alert_db" where
  "queue_periodic_summary env cfg e fp db = (
     let prio = priority_value (priority e)
     in if notification_capacity cfg \<le> int (pending_count db)
        then (False, commit (audit env ''notification_queue_overflow'' ''pipeline''
          ''periodic summary queue full'' (event_id e) [(''priority'', JInt (int prio))]
          (bump_metric env ''notification_queue_saturation'' 1 db)))
        else
          let (changed, db1) = insert_or_ignore (event_id e) fp prio ''periodic_summary''
                (ingestion_timestamp_utc e) db
          in (changed, commit (if changed then
               audit env ''periodic_summary_queued'' ''pipeline'' ''active storm summary interval''
                 (event_id e) [(''fingerprint'', JStr fp)]
                 (db1\<lparr>aggregates := map (\<lambda>a. if ag_fingerprint a = fp
                    then a\<lparr>ag_notified_count := ag_count a, ag_notified_at := ag_last_seen a\<rparr>
                    else a) (aggregates db1)\<rparr>)
             else db1)))"

definition mark_notification :: "alert_env \<Rightarrow> nat \<Rightarrow> bool \<Rightarrow> string \<Rightarrow> alert_db \<Rightarrow> alert_db" where
  "mark_notification env queue_id delivered err db = (
     let state = (if delivered then ''delivered'' else ''failed'');
         db1 = db\<lparr>queue := map (\<lambda>q. if nq_id q = queue_id
           then q\<lparr>nq_state := state, nq_attempts := nq_attempts q + 1\<rparr> else q) (queue db)\<rparr>;
         db2 = audit env ''notification_delivery'' ''user_notifier'' state (str_nat queue_id)
           [(''error_digest'', JStr (if err = '''' then '''' else sha env err))] db1
     in commit (bump_metric env
          (if delivered then ''notifications_delivered'' else ''notification_failures'') 1 db2))"

text \<open>\<open>advance_lifecycle\<close>: the age of each aggregate decides its target state; \<open>parse\<close> is
  \<open>datetime.fromisoformat\<close>. A \<open>last_seen\<close> that does not parse is skipped (\<open>ValueError\<close>), but
  one without a time zone, or with one where \<open>now\<close> has none, makes the subtraction raise a
  \<open>TypeError\<close>, which leaves the loop with its changes uncommitted.\<close>

definition lifecycle_target :: "AlertingConfig \<Rightarrow> pyfloat \<Rightarrow> string" where
  "lifecycle_target cfg age = (if of_int (resolve_after_seconds cfg) \<le> age then ''RESOLVED''
     else if of_int (dedup_window_seconds cfg) \<le> age then ''QUIET'' else '''')"

definition set_lifecycle :: "alert_env \<Rightarrow> aggregate_row \<Rightarrow> string \<Rightarrow> pyfloat \<Rightarrow> alert_db \<Rightarrow>
    alert_db" where
  "set_lifecycle env a target age db =
     audit env ''alert_lifecycle_changed'' ''pipeline''
       (''inactivity interval reached: '' @ str_lower target) (ag_fingerprint a)
       [(''previous'', JStr (ag_lifecycle a)), (''current'', JStr target),
        (''age_seconds'', JFloat age)]
       (db\<lparr>aggregates := map (\<lambda>x. if ag_fingerprint x = ag_fingerprint a
          then x\<lparr>ag_lifecycle := target\<rparr> else x) (aggregates db), in_txn := True\<rparr>)"

fun lifecycle_loop :: "alert_env \<Rightarrow> AlertingConfig \<Rightarrow> (string \<Rightarrow> datetime option) \<Rightarrow> datetime \<Rightarrow>
    aggregate_row list \<Rightarrow> nat \<times> nat \<Rightarrow> alert_db \<Rightarrow> (alert_error + nat \<times> nat) \<times> alert_db" where
  "lifecycle_loop env cfg parse now [] n db = (Inr n, commit db)"
| "lifecycle_loop env cfg parse now (a # rest) n db = (
     case parse (ag_last_seen a) of
       None \<Rightarrow> lifecycle_loop env cfg parse now rest n db
     | Some seen \<Rightarrow>
         (if tz_aware now \<noteq> tz_aware seen
          then (Inl (AlertTypeError ''can't subtract offset-naive and offset-aware datetimes''), db)
          else
            let age = total_seconds (utc_micros now - utc_micros seen);
                target = lifecycle_target cfg age
            in if target \<noteq> '''' \<and> target \<noteq> ag_lifecycle a
               then lifecycle_loop env cfg parse now rest
                 (fst n + (if target = ''QUIET'' then 1 else 0),
                  snd n + (if target = ''RESOLVED'' then 1 else 0))
                 (set_lifecycle env a target age db)
               else lifecycle_loop env cfg parse now rest n db))"

definition advance_lifecycle :: "alert_env \<Rightarrow> AlertingConfig \<Rightarrow> (string \<Rightarrow> datetime option) \<Rightarrow> string \<Rightarrow>
    alert_db \<Rightarrow> (alert_error + nat \<times> nat) \<times> alert_db" where
  "advance_lifecycle env cfg parse now_utc db = (
     case parse now_utc of
       None \<Rightarrow> (Inl (AlertValueError ''Invalid isoformat string''), db)
     | Some now \<Rightarrow> lifecycle_loop env cfg parse now
         (filter (\<lambda>a. ag_lifecycle a \<noteq> ''RESOLVED'') (aggregates db)) (0, 0) db)"

section \<open>Frames\<close>

text \<open>What each step leaves alone.\<close>

lemma bump_metric_frame [simp]:
  "ledger (bump_metric env name n db) = ledger db"
  "aggregates (bump_metric env name n db) = aggregates db"
  "queue (bump_metric env name n db) = queue db"
  "audit_log (bump_metric env name n db) = audit_log db"
  "suppressions (bump_metric env name n db) = suppressions db"
  "compactions (bump_metric env name n db) = compactions db"
  "queue_seq (bump_metric env name n db) = queue_seq db"
  by (simp_all add: bump_metric_def)

lemma store_audit_frame [simp]:
  "ledger (audit env act actor reason obj details db) = ledger db"
  "aggregates (audit env act actor reason obj details db) = aggregates db"
  "queue (audit env act actor reason obj details db) = queue db"
  "suppressions (audit env act actor reason obj details db) = suppressions db"
  "compactions (audit env act actor reason obj details db) = compactions db"
  "queue_seq (audit env act actor reason obj details db) = queue_seq db"
  by (simp_all add: audit_def Let_def)

lemma commit_frame [simp]:
  "ledger (commit db) = ledger db"
  "aggregates (commit db) = aggregates db"
  "queue (commit db) = queue db"
  "audit_log (commit db) = audit_log db"
  "suppressions (commit db) = suppressions db"
  "compactions (commit db) = compactions db"
  "queue_seq (commit db) = queue_seq db"
  "in_txn (commit db) = False"
  by (simp_all add: commit_def)

lemma overflow_step_frame [simp]:
  "ledger (overflow_step env cfg e db) = ledger db"
  "aggregates (overflow_step env cfg e db) = aggregates db"
  "queue (overflow_step env cfg e db) = queue db"
  "suppressions (overflow_step env cfg e db) = suppressions db"
  "compactions (overflow_step env cfg e db) = compactions db"
  "queue_seq (overflow_step env cfg e db) = queue_seq db"
  by (simp_all add: overflow_step_def)

lemma append_ledger_frame [simp]:
  "aggregates (append_ledger env e body dg fp reason db) = aggregates db"
  "queue (append_ledger env e body dg fp reason db) = queue db"
  "audit_log (append_ledger env e body dg fp reason db) = audit_log db"
  "suppressions (append_ledger env e body dg fp reason db) = suppressions db"
  "compactions (append_ledger env e body dg fp reason db) = compactions db"
  "queue_seq (append_ledger env e body dg fp reason db) = queue_seq db"
  by (simp_all add: append_ledger_def)

lemma upsert_aggregate_frame [simp]:
  "ledger (upsert_aggregate nt cp row db) = ledger db"
  "queue (upsert_aggregate nt cp row db) = queue db"
  "audit_log (upsert_aggregate nt cp row db) = audit_log db"
  "suppressions (upsert_aggregate nt cp row db) = suppressions db"
  "compactions (upsert_aggregate nt cp row db) = compactions db"
  "queue_seq (upsert_aggregate nt cp row db) = queue_seq db"
  by (simp_all add: upsert_aggregate_def)

lemma record_compaction_frame [simp]:
  "ledger (record_compaction env e fp dg db) = ledger db"
  "aggregates (record_compaction env e fp dg db) = aggregates db"
  "queue (record_compaction env e fp dg db) = queue db"
  "audit_log (record_compaction env e fp dg db) = audit_log db"
  "suppressions (record_compaction env e fp dg db) = suppressions db"
  "queue_seq (record_compaction env e fp dg db) = queue_seq db"
  by (simp_all add: record_compaction_def Let_def split: list.split)

lemma account_step_frame [simp]:
  "ledger (account_step env e fp fl known dg db) = ledger db"
  "aggregates (account_step env e fp fl known dg db) = aggregates db"
  "queue (account_step env e fp fl known dg db) = queue db"
  "audit_log (account_step env e fp fl known dg db) = audit_log db"
  "suppressions (account_step env e fp fl known dg db) = suppressions db"
  "queue_seq (account_step env e fp fl known dg db) = queue_seq db"
  by (simp_all add: account_step_def Let_def)

lemma insert_or_ignore_frame [simp]:
  "ledger (snd (insert_or_ignore eid fp prio reason created db)) = ledger db"
  "aggregates (snd (insert_or_ignore eid fp prio reason created db)) = aggregates db"
  "audit_log (snd (insert_or_ignore eid fp prio reason created db)) = audit_log db"
  "suppressions (snd (insert_or_ignore eid fp prio reason created db)) = suppressions db"
  by (simp_all add: insert_or_ignore_def Let_def)

lemma notify_step_frame [simp]:
  "ledger (snd (notify_step env cfg e fp nt reason db)) = ledger db"
  "aggregates (snd (notify_step env cfg e fp nt reason db)) = aggregates db"
  "suppressions (snd (notify_step env cfg e fp nt reason db)) = suppressions db"
  by (simp_all add: notify_step_def Let_def)

lemma compact_step_frame [simp]:
  "aggregates (snd (compact_step env cfg agg e fl pr fp db)) = aggregates db"
  "queue (snd (compact_step env cfg agg e fl pr fp db)) = queue db"
  "audit_log (snd (compact_step env cfg agg e fl pr fp db)) = audit_log db"
  "suppressions (snd (compact_step env cfg agg e fl pr fp db)) = suppressions db"
  "queue_seq (snd (compact_step env cfg agg e fl pr fp db)) = queue_seq db"
  by (simp_all add: compact_step_def Let_def split: option.split)

text \<open>The row a transaction compacts, and what that leaves of the ledger.\<close>

definition compacted_row :: "AlertingConfig \<Rightarrow> aggregate_row option \<Rightarrow> SecurityEvent \<Rightarrow> ingest_flags \<Rightarrow>
    bool \<Rightarrow> string \<Rightarrow> ledger_row list \<Rightarrow> ledger_row option" where
  "compacted_row cfg agg e fl pressure fp rows = (if compact_previous cfg agg e fl pressure
     then compaction_candidate fp (retention_offset cfg) rows else None)"

definition compact_ledger :: "ledger_row option \<Rightarrow> ledger_row list \<Rightarrow> ledger_row list" where
  "compact_ledger found rows = (case found of None \<Rightarrow> rows | Some r \<Rightarrow> blank_row (le_seq r) rows)"

lemma compact_step_ledger:
  "ledger (snd (compact_step env cfg agg e fl pr fp db)) =
     compact_ledger (compacted_row cfg agg e fl pr fp (ledger db)) (ledger db)"
  by (simp add: compact_step_def compacted_row_def compact_ledger_def Let_def split: option.split)

lemma compact_step_digest:
  "fst (compact_step env cfg agg e fl pr fp db) =
     (case compacted_row cfg agg e fl pr fp (ledger db) of None \<Rightarrow> '''' | Some r \<Rightarrow> le_digest r)"
  by (simp add: compact_step_def compacted_row_def Let_def split: option.split)

end
