(* ===== verification/Alert_Ledger.thy ===== *)
theory Alert_Ledger
  imports Alert_Store
begin

text \<open>
  What the alert store keeps true: the two hash chains verify, identifiers and keys are unique, every
  aggregate counts exactly the receipts of its fingerprint, and compaction removes only the bodies the
  retention rule allows.
\<close>

section \<open>The effect of one transaction\<close>

definition ing_agg :: "alert_env \<Rightarrow> AlertingConfig \<Rightarrow> SecurityEvent \<Rightarrow> alert_db \<Rightarrow>
    aggregate_row option" where
  "ing_agg env cfg e db = find_aggregate (storage_fingerprint env cfg e db) db"

definition ing_flags :: "alert_env \<Rightarrow> AlertingConfig \<Rightarrow> SecurityEvent \<Rightarrow> alert_db \<Rightarrow>
    ingest_flags" where
  "ing_flags env cfg e db = decide cfg (ing_agg env cfg e db) e"

definition ing_found :: "alert_env \<Rightarrow> AlertingConfig \<Rightarrow> int \<Rightarrow> SecurityEvent \<Rightarrow> alert_db \<Rightarrow>
    ledger_row option" where
  "ing_found env cfg used e db = compacted_row cfg (ing_agg env cfg e db) e
     (ing_flags env cfg e db) (fst (storage_pressure cfg used e)) (storage_fingerprint env cfg e db)
     (ledger db)"

definition ing_rows :: "alert_env \<Rightarrow> AlertingConfig \<Rightarrow> int \<Rightarrow> SecurityEvent \<Rightarrow> alert_db \<Rightarrow>
    ledger_row list" where
  "ing_rows env cfg used e db = compact_ledger (ing_found env cfg used e db) (ledger db)"

definition ing_digest :: "alert_env \<Rightarrow> AlertingConfig \<Rightarrow> int \<Rightarrow> SecurityEvent \<Rightarrow> alert_db \<Rightarrow> string" where
  "ing_digest env cfg used e db =
     (case ing_found env cfg used e db of None \<Rightarrow> '''' | Some r \<Rightarrow> le_digest r)"

definition ing_reason :: "alert_env \<Rightarrow> AlertingConfig \<Rightarrow> int \<Rightarrow> SecurityEvent \<Rightarrow> alert_db \<Rightarrow> string" where
  "ing_reason env cfg used e db = (if snd (storage_pressure cfg used e) \<and> ing_agg env cfg e db \<noteq> None
     then ''storage_quota_degraded_latest_preserved'' else fl_reason (ing_flags env cfg e db))"

definition ing_entry :: "alert_env \<Rightarrow> AlertingConfig \<Rightarrow> int \<Rightarrow> SecurityEvent \<Rightarrow> alert_db \<Rightarrow>
    ledger_row" where
  "ing_entry env cfg used e db = ledger_entry env e (canonical_json env e)
     (sha env (canonical_json env e)) (storage_fingerprint env cfg e db)
     (ing_reason env cfg used e db)
     (if ing_rows env cfg used e db = [] then '''' else le_hash (last (ing_rows env cfg used e db)))
     (next_key (map le_seq (ing_rows env cfg used e db)))"

definition ing_row :: "alert_env \<Rightarrow> AlertingConfig \<Rightarrow> int \<Rightarrow> SecurityEvent \<Rightarrow> alert_db \<Rightarrow>
    aggregate_row" where
  "ing_row env cfg used e db = excluded_row env e (sha env (canonical_json env e))
     (storage_fingerprint env cfg e db) (ing_agg env cfg e db) (ing_flags env cfg e db)
     (ing_digest env cfg used e db \<noteq> '''') (is_overflow cfg e db)"

lemmas ing_defs = ing_agg_def ing_flags_def ing_found_def ing_rows_def ing_digest_def ing_reason_def
  ing_entry_def ing_row_def

lemma ingest_new_ledger:
  "ledger (snd (ingest_new env cfg used e db)) =
     ing_rows env cfg used e db @ [ing_entry env cfg used e db]"
  by (simp add: ingest_new_def Let_def case_prod_beta' decision_audit_def append_ledger_def
      ledger_last_hash_def compact_step_ledger ing_defs del: not_None_eq)

lemma ingest_new_aggregates:
  "aggregates (snd (ingest_new env cfg used e db)) =
     aggregates (upsert_aggregate (fl_notify (ing_flags env cfg e db))
       (ing_digest env cfg used e db \<noteq> '''') (ing_row env cfg used e db) db)"
  by (simp add: ingest_new_def Let_def case_prod_beta' decision_audit_def upsert_aggregate_def
      compact_step_digest ing_defs)

lemma ingest_new_suppressions:
  "suppressions (snd (ingest_new env cfg used e db)) = suppressions db"
  by (simp add: ingest_new_def Let_def case_prod_beta' decision_audit_def)

lemma ingest_new_decision:
  "de_accepted (fst (ingest_new env cfg used e db))"
  "de_fingerprint (fst (ingest_new env cfg used e db)) = storage_fingerprint env cfg e db"
  "de_count (fst (ingest_new env cfg used e db)) = fl_count (ing_flags env cfg e db)"
  "de_notify (fst (ingest_new env cfg used e db)) = fl_notify (ing_flags env cfg e db)"
  "de_summary (fst (ingest_new env cfg used e db)) = fl_threshold (ing_flags env cfg e db)"
  "de_overflowed (fst (ingest_new env cfg used e db)) = is_overflow cfg e db"
  by (simp_all add: ingest_new_def Let_def case_prod_beta' ing_defs)

lemma ingest_new_committed: "\<not> in_txn (snd (ingest_new env cfg used e db))"
  by (simp add: ingest_new_def Let_def case_prod_beta')

section \<open>The chains\<close>

interpretation lc: hash_chain "\<lambda>_. ledger_row_ok env" le_hash "\<lambda>_ p rs. ledger_failures env p rs = []"
  by unfold_locales auto

interpretation ac: hash_chain "\<lambda>_. audit_row_ok env" au_hash "\<lambda>_ p rs. audit_failures env p rs = []"
  by unfold_locales auto

definition chains_ok :: "alert_env \<Rightarrow> alert_db \<Rightarrow> bool" where
  "chains_ok env db \<longleftrightarrow> ledger_failures env '''' (ledger db) = [] \<and>
     audit_failures env '''' (audit_log db) = []"

lemma verify_integrity_iff: "ir_ok (verify_integrity env db) \<longleftrightarrow> chains_ok env db"
  by (simp add: verify_integrity_def chains_ok_def Let_def)

lemma audit_ok:
  "audit_failures env '''' (audit_log db) = [] \<Longrightarrow>
   audit_failures env '''' (audit_log (audit env act actor reason obj details db)) = []"
  by (simp add: audit_def Let_def ac.verify_snoc audit_row_ok_def audit_last_hash_def)

lemma blank_row_hash [simp]: "map le_hash (blank_row n rows) = map le_hash rows"
  by (simp add: blank_row_def)

lemma ledger_failures_blank:
  "ledger_failures env p rows = [] \<Longrightarrow> ledger_failures env p (blank_row n rows) = []"
  by (induction rows arbitrary: p) (auto simp: blank_row_def split: if_splits)

lemma ledger_failures_compact:
  "ledger_failures env p rows = [] \<Longrightarrow> ledger_failures env p (compact_ledger found rows) = []"
  by (simp add: compact_ledger_def ledger_failures_blank split: option.split)

lemma ing_entry_ok:
  "ledger_row_ok env (if ing_rows env cfg used e db = [] then ''''
     else le_hash (last (ing_rows env cfg used e db))) (ing_entry env cfg used e db)"
  by (simp add: ing_entry_def ledger_entry_def)

lemma overflow_step_audit:
  "audit_failures env '''' (audit_log db) = [] \<Longrightarrow>
   audit_failures env '''' (audit_log (overflow_step env cfg e db)) = []"
  by (simp add: overflow_step_def audit_ok)

lemma insert_or_ignore_audit [simp]:
  "audit_log (snd (insert_or_ignore eid fp prio reason created db)) = audit_log db"
  by (simp add: insert_or_ignore_def Let_def)

lemma notify_step_audit:
  "audit_failures env '''' (audit_log db) = [] \<Longrightarrow>
   audit_failures env '''' (audit_log (snd (notify_step env cfg e fp nt reason db))) = []"
  by (simp add: notify_step_def Let_def audit_ok)

lemma ingest_new_chains:
  assumes "chains_ok env db"
  shows "chains_ok env (snd (ingest_new env cfg used e db))"
proof -
  have "ledger_failures env '''' (ing_rows env cfg used e db) = []"
    using assms by (simp add: chains_ok_def ing_rows_def ledger_failures_compact)
  then have "ledger_failures env '''' (ledger (snd (ingest_new env cfg used e db))) = []"
    unfolding ingest_new_ledger lc.verify_snoc using ing_entry_ok by blast
  moreover have "audit_failures env '''' (audit_log (snd (ingest_new env cfg used e db))) = []"
    using assms unfolding chains_ok_def ingest_new_def Let_def case_prod_beta'
    by (simp add: decision_audit_def audit_ok notify_step_audit overflow_step_audit)
  ultimately show ?thesis by (simp add: chains_ok_def)
qed

lemma ingest_chains:
  assumes "chains_ok env db"
  shows "chains_ok env (snd (ingest env cfg used fault e db))"
proof -
  have "chains_ok env (snd (ingest_transaction env cfg used e' db))" for e'
    using assms ingest_new_chains
    by (auto simp: ingest_transaction_def chains_ok_def audit_ok split: option.split)
  then show ?thesis
    using assms by (simp add: ingest_def case_prod_beta' Let_def split: sum.split option.split)
qed

lemma queue_periodic_summary_chains:
  "chains_ok env db \<Longrightarrow> chains_ok env (snd (queue_periodic_summary env cfg e fp db))"
  by (simp add: queue_periodic_summary_def chains_ok_def Let_def case_prod_beta' audit_ok)

lemma mark_notification_chains:
  "chains_ok env db \<Longrightarrow> chains_ok env (mark_notification env k b err db)"
  by (simp add: mark_notification_def chains_ok_def Let_def audit_ok)

lemma set_lifecycle_chains:
  "chains_ok env db \<Longrightarrow> chains_ok env (set_lifecycle env a target age db)"
  by (simp add: set_lifecycle_def chains_ok_def audit_ok)

lemma lifecycle_loop_chains:
  "chains_ok env db \<Longrightarrow> chains_ok env (snd (lifecycle_loop env cfg parse now rows n db))"
proof (induction rows arbitrary: n db)
  case Nil
  then show ?case by (simp add: chains_ok_def)
next
  case (Cons a rows)
  then show ?case by (auto simp: Let_def set_lifecycle_chains split: option.split)
qed

lemma advance_lifecycle_chains:
  "chains_ok env db \<Longrightarrow> chains_ok env (snd (advance_lifecycle env cfg parse now db))"
  by (simp add: advance_lifecycle_def lifecycle_loop_chains split: option.split)

section \<open>Keys\<close>

lemma fold_max_ge: "(m::nat) \<le> fold max ks m"
  by (induction ks arbitrary: m) (auto intro: max.coboundedI2 order_trans [OF max.cobounded2])

lemma next_key_upt: "next_key [1..<Suc n] = Suc n"
proof (induction n)
  case (Suc n)
  have "fold max [1..<Suc n] 0 = n" using Suc by (simp add: next_key_def)
  then show ?case by (simp add: next_key_def)
qed (simp add: next_key_def)

lemma blank_row_fields [simp]:
  "map le_seq (blank_row n rows) = map le_seq rows"
  "map le_event_id (blank_row n rows) = map le_event_id rows"
  "map le_fingerprint (blank_row n rows) = map le_fingerprint rows"
  "map le_digest (blank_row n rows) = map le_digest rows"
  "length (blank_row n rows) = length rows"
  by (auto simp: blank_row_def)

lemma compact_ledger_fields [simp]:
  "map le_seq (compact_ledger found rows) = map le_seq rows"
  "map le_event_id (compact_ledger found rows) = map le_event_id rows"
  "map le_fingerprint (compact_ledger found rows) = map le_fingerprint rows"
  "map le_digest (compact_ledger found rows) = map le_digest rows"
  "length (compact_ledger found rows) = length rows"
  by (simp_all add: compact_ledger_def split: option.split)

text \<open>Sequence numbers are the positions in the ledger, and no event is received twice.\<close>

definition keys_ok :: "alert_db \<Rightarrow> bool" where
  "keys_ok db \<longleftrightarrow> map le_seq (ledger db) = [1..<Suc (length (ledger db))] \<and>
     distinct (map le_event_id (ledger db))"

lemma ingest_new_keys:
  assumes "keys_ok db" and "event_id e \<notin> set (map le_event_id (ledger db))"
  shows "keys_ok (snd (ingest_new env cfg used e db))"
proof -
  have "le_seq (ing_entry env cfg used e db) = Suc (length (ledger db))"
    using assms(1) next_key_upt [of "length (ledger db)"]
    by (simp add: ing_entry_def ing_rows_def ledger_entry_def keys_ok_def del: upt_Suc)
  moreover have "le_event_id (ing_entry env cfg used e db) = event_id e"
    by (simp add: ing_entry_def ledger_entry_def)
  ultimately show ?thesis
    using assms by (simp add: keys_ok_def ingest_new_ledger ing_rows_def)
qed

section \<open>Counting\<close>

lemma length_rows_of: "length (rows_of fp rows) = count_list (map le_fingerprint rows) fp"
  by (induction rows) (auto simp: rows_of_def)

lemma rows_of_empty: "fp \<notin> set (map le_fingerprint rows) \<Longrightarrow> rows_of fp rows = []"
  by (induction rows) (auto simp: rows_of_def)

lemma rows_of_append [simp]: "rows_of fp (xs @ ys) = rows_of fp xs @ rows_of fp ys"
  by (simp add: rows_of_def)

lemma length_rows_of_compact [simp]:
  "length (rows_of fp (compact_ledger found rows)) = length (rows_of fp rows)"
  by (simp add: length_rows_of)

definition bodies_gone :: "string \<Rightarrow> ledger_row list \<Rightarrow> nat" where
  "bodies_gone fp rows = count_if (\<lambda>r. \<not> le_raw r) (rows_of fp rows)"

lemma bodies_gone_Nil [simp]: "bodies_gone fp [] = 0"
  by (simp add: bodies_gone_def rows_of_def count_if_def)

lemma bodies_gone_Cons [simp]: "bodies_gone fp (r # rows) =
    (if le_fingerprint r = fp \<and> \<not> le_raw r then 1 else 0) + bodies_gone fp rows"
  by (simp add: bodies_gone_def rows_of_def count_if_def)

lemma bodies_gone_snoc [simp]: "bodies_gone fp (rows @ [r]) =
    bodies_gone fp rows + (if le_fingerprint r = fp \<and> \<not> le_raw r then 1 else 0)"
  by (simp add: bodies_gone_def rows_of_def count_if_def)

lemma blank_row_absent: "n \<notin> set (map le_seq rows) \<Longrightarrow> blank_row n rows = rows"
  by (induction rows) (auto simp: blank_row_def)

lemma blank_row_Cons: "blank_row n (r # rows) =
    (if le_seq r = n then r\<lparr>le_raw := False, le_canonical := ''''\<rparr> else r) # blank_row n rows"
  by (simp add: blank_row_def)

lemma bodies_gone_blank:
  "distinct (map le_seq rows) \<Longrightarrow> r \<in> set rows \<Longrightarrow> le_raw r \<Longrightarrow>
   bodies_gone fp (blank_row (le_seq r) rows) =
     bodies_gone fp rows + (if le_fingerprint r = fp then 1 else 0)"
proof (induction rows)
  case (Cons x rows)
  show ?case
  proof (cases "le_seq x = le_seq r")
    case True
    with Cons.prems have "x = r" by (auto simp: image_iff)
    moreover have "le_seq r \<notin> set (map le_seq rows)" using Cons.prems(1) True by auto
    ultimately show ?thesis using Cons.prems(3) by (simp add: blank_row_Cons blank_row_absent)
  next
    case False
    then have "r \<in> set rows" using Cons.prems(2) by auto
    then show ?thesis using Cons False by (simp add: blank_row_Cons)
  qed
qed simp

lemma compaction_candidate_facts:
  assumes "compaction_candidate fp k rows = Some r"
  shows "r \<in> set rows" and "le_fingerprint r = fp" and "le_raw r"
    and "le_disposition r \<notin> set KEPT_DISPOSITIONS"
    and "k < length (rows_of fp rows)" and "le_seq (rows_of fp rows ! k) < le_seq r"
proof -
  obtain n where n: "seq_at_offset fp k rows = Some n"
    using assms by (auto simp: compaction_candidate_def split: option.splits)
  let ?f = "filter (\<lambda>r. le_raw r \<and> le_disposition r \<notin> set KEPT_DISPOSITIONS \<and> n < le_seq r)
    (rows_of fp rows)"
  have f: "?f \<noteq> []" and r: "r = last ?f"
    using assms n by (auto simp: compaction_candidate_def split: list.splits)
  then have "r \<in> set ?f" by (metis last_in_set)
  then show "r \<in> set rows" "le_fingerprint r = fp" "le_raw r"
    "le_disposition r \<notin> set KEPT_DISPOSITIONS"
    by (auto simp: rows_of_def)
  have "n < le_seq r" using \<open>r \<in> set ?f\<close> by simp
  then show "k < length (rows_of fp rows)" "le_seq (rows_of fp rows ! k) < le_seq r"
    using n by (auto simp: seq_at_offset_def split: if_splits)
qed

lemma ing_found_facts:
  assumes "ing_found env cfg used e db = Some r"
  shows "compaction_candidate (storage_fingerprint env cfg e db) (retention_offset cfg)
      (ledger db) = Some r"
    and "ing_agg env cfg e db \<noteq> None" and "\<not> protected e"
    and "\<not> fl_notify (ing_flags env cfg e db)"
  using assms by (auto simp: ing_found_def compacted_row_def compact_previous_def split: if_splits)

text \<open>Every aggregate counts the receipts of its fingerprint and the bodies compacted among them,
  and every receipt belongs to an aggregate.\<close>

definition aggregate_ok :: "ledger_row list \<Rightarrow> aggregate_row \<Rightarrow> bool" where
  "aggregate_ok rows a \<longleftrightarrow> ag_count a = length (rows_of (ag_fingerprint a) rows) \<and>
     ag_compacted a = bodies_gone (ag_fingerprint a) rows"

definition counts_ok :: "alert_db \<Rightarrow> bool" where
  "counts_ok db \<longleftrightarrow> distinct (map ag_fingerprint (aggregates db)) \<and>
     list_all (aggregate_ok (ledger db)) (aggregates db) \<and>
     set (map le_fingerprint (ledger db)) \<subseteq> set (map ag_fingerprint (aggregates db)) \<and>
     list_all (\<lambda>r. le_digest r \<noteq> '''') (ledger db)"

lemma find_aggregate_None:
  "find_aggregate fp db = None \<longleftrightarrow> fp \<notin> set (map ag_fingerprint (aggregates db))"
  by (auto simp: find_aggregate_def find_None_iff)

lemma find_aggregate_Some:
  "find_aggregate fp db = Some a \<Longrightarrow> a \<in> set (aggregates db) \<and> ag_fingerprint a = fp"
  unfolding find_aggregate_def by (auto simp: find_Some_iff)

lemma find_aggregate_unique:
  assumes "distinct (map ag_fingerprint (aggregates db))" and "a \<in> set (aggregates db)"
  shows "find_aggregate (ag_fingerprint a) db = Some a"
proof -
  obtain b where b: "find_aggregate (ag_fingerprint a) db = Some b"
    using assms(2) find_aggregate_None [of "ag_fingerprint a" db] by fastforce
  then have "b \<in> set (aggregates db)" "ag_fingerprint b = ag_fingerprint a"
    using find_aggregate_Some by blast+
  then show ?thesis using b assms by (metis distinct_map inj_onD)
qed

lemma ing_digest_iff:
  assumes "counts_ok db"
  shows "ing_digest env cfg used e db \<noteq> '''' \<longleftrightarrow> ing_found env cfg used e db \<noteq> None"
proof (cases "ing_found env cfg used e db")
  case (Some r)
  then have "r \<in> set (ledger db)"
    using ing_found_facts(1) compaction_candidate_facts(1) by blast
  then have "le_digest r \<noteq> ''''" using assms by (simp add: counts_ok_def list_all_iff)
  then show ?thesis using Some by (simp add: ing_digest_def)
qed (simp add: ing_digest_def)

lemma ing_bodies_gone:
  assumes "keys_ok db"
  shows "bodies_gone fp (ing_rows env cfg used e db) = bodies_gone fp (ledger db) +
     (if ing_found env cfg used e db \<noteq> None \<and> fp = storage_fingerprint env cfg e db then 1 else 0)"
proof (cases "ing_found env cfg used e db")
  case None
  then show ?thesis by (simp add: ing_rows_def compact_ledger_def)
next
  case (Some r)
  note c = ing_found_facts(1) [OF Some]
  have "distinct (map le_seq (ledger db))" using assms by (simp add: keys_ok_def)
  then have "bodies_gone fp (blank_row (le_seq r) (ledger db)) =
      bodies_gone fp (ledger db) + (if le_fingerprint r = fp then 1 else 0)"
    using compaction_candidate_facts [OF c] by (intro bodies_gone_blank)
  then show ?thesis
    using Some compaction_candidate_facts(2) [OF c] by (auto simp: ing_rows_def compact_ledger_def)
qed

lemma ing_entry_fields [simp]:
  "le_fingerprint (ing_entry env cfg used e db) = storage_fingerprint env cfg e db"
  "le_event_id (ing_entry env cfg used e db) = event_id e"
  "le_raw (ing_entry env cfg used e db)"
  "le_digest (ing_entry env cfg used e db) = sha env (canonical_json env e)"
  "le_canonical (ing_entry env cfg used e db) = canonical_json env e"
  "le_protected (ing_entry env cfg used e db) = protected e"
  "le_disposition (ing_entry env cfg used e db) = ing_reason env cfg used e db"
  by (simp_all add: ing_entry_def ledger_entry_def)

lemma ing_row_fields [simp]:
  "ag_fingerprint (ing_row env cfg used e db) = storage_fingerprint env cfg e db"
  "ag_count (ing_row env cfg used e db) = fl_count (ing_flags env cfg e db)"
  "ag_compacted (ing_row env cfg used e db) = (if ing_digest env cfg used e db \<noteq> '''' then 1 else 0)"
  by (simp_all add: ing_row_def excluded_row_def Let_def)

lemma merge_row_fields [simp]:
  "ag_fingerprint (merge_row nt cp new_row old_row) = ag_fingerprint old_row"
  "ag_count (merge_row nt cp new_row old_row) = ag_count new_row"
  "ag_compacted (merge_row nt cp new_row old_row) = ag_compacted old_row + (if cp then 1 else 0)"
  by (simp_all add: merge_row_def)

lemma fl_count_decide:
  "fl_count (decide cfg agg e) = Suc (case agg of None \<Rightarrow> 0 | Some a \<Rightarrow> ag_count a)"
  by (simp add: decide_def Let_def)

lemma upsert_fingerprints:
  "map ag_fingerprint (aggregates (upsert_aggregate nt cp row db)) =
     (if ag_fingerprint row \<in> set (map ag_fingerprint (aggregates db))
      then map ag_fingerprint (aggregates db)
      else map ag_fingerprint (aggregates db) @ [ag_fingerprint row])"
  by (auto simp: upsert_aggregate_def)

lemma ingest_new_aggregate_ok:
  assumes keys: "keys_ok db" and counts: "counts_ok db"
    and b: "b \<in> set (aggregates (snd (ingest_new env cfg used e db)))"
  shows "aggregate_ok (ledger (snd (ingest_new env cfg used e db))) b"
proof -
  let ?fp = "storage_fingerprint env cfg e db"
  let ?found = "ing_found env cfg used e db"
  have dig: "ing_digest env cfg used e db \<noteq> '''' \<longleftrightarrow> ?found \<noteq> None"
    using counts by (rule ing_digest_iff)
  have rows: "aggregate_ok (ledger (snd (ingest_new env cfg used e db))) x \<longleftrightarrow>
      ag_count x = length (rows_of (ag_fingerprint x) (ledger db)) +
        (if ag_fingerprint x = ?fp then 1 else 0) \<and>
      ag_compacted x = bodies_gone (ag_fingerprint x) (ledger db) +
        (if ?found \<noteq> None \<and> ag_fingerprint x = ?fp then 1 else 0)" for x
    using ing_bodies_gone [OF keys, of "ag_fingerprint x" env cfg used e]
    by (simp add: aggregate_ok_def ingest_new_ledger ing_rows_def rows_of_def [of _ "[_]"]
        del: not_None_eq)
  have old: "aggregate_ok (ledger db) a" if "a \<in> set (aggregates db)" for a
    using counts that by (simp add: counts_ok_def list_all_iff)
  show ?thesis
  proof (cases "?fp \<in> set (map ag_fingerprint (aggregates db))")
    case True
    then obtain a where a: "a \<in> set (aggregates db)"
      "b = (if ag_fingerprint a = ?fp then merge_row (fl_notify (ing_flags env cfg e db))
        (ing_digest env cfg used e db \<noteq> '''') (ing_row env cfg used e db) a else a)"
      using b by (auto simp: ingest_new_aggregates upsert_aggregate_def)
    have "ag_count (ing_row env cfg used e db) = Suc (ag_count a)" if "ag_fingerprint a = ?fp"
      using a(1) counts find_aggregate_unique [of db a] that
      by (simp add: ing_flags_def ing_agg_def fl_count_decide counts_ok_def)
    then show ?thesis
      unfolding rows using old [OF a(1)] a(2) dig
      by (cases "ag_fingerprint a = ?fp")
         (simp_all add: aggregate_ok_def del: not_None_eq ing_row_fields)
  next
    case False
    then have none: "ing_agg env cfg e db = None" and "?found = None"
      using find_aggregate_None [of ?fp db] ing_found_facts(2) [of env cfg used e db]
      by (auto simp: ing_agg_def)
    have "set (map le_fingerprint (ledger db)) \<subseteq> set (map ag_fingerprint (aggregates db))"
      using counts by (simp add: counts_ok_def)
    then have "?fp \<notin> set (map le_fingerprint (ledger db))" using False by (rule contra_subsetD)
    then have new_fp: "rows_of ?fp (ledger db) = []" by (rule rows_of_empty)
    have gone: "bodies_gone ?fp (ledger db) = 0"
      by (simp add: bodies_gone_def new_fp count_if_def)
    have "b = ing_row env cfg used e db \<or> b \<in> set (aggregates db) \<and> ag_fingerprint b \<noteq> ?fp"
      using b False by (auto simp: ingest_new_aggregates upsert_aggregate_def image_iff)
    then show ?thesis
      unfolding rows using old [of b] dig none new_fp gone \<open>?found = None\<close>
      by (auto simp: aggregate_ok_def ing_flags_def fl_count_decide)
  qed
qed

lemma ingest_new_counts:
  assumes "keys_ok db" and "counts_ok db" and "\<And>x. sha env x \<noteq> ''''"
  shows "counts_ok (snd (ingest_new env cfg used e db))"
proof -
  let ?db = "snd (ingest_new env cfg used e db)"
  have "list_all (aggregate_ok (ledger ?db)) (aggregates ?db)"
    using ingest_new_aggregate_ok [OF assms(1,2)] by (simp add: list_all_iff)
  moreover have "distinct (map ag_fingerprint (aggregates ?db))"
    using assms(2) by (simp add: ingest_new_aggregates upsert_fingerprints counts_ok_def del: set_map)
  moreover have "set (map le_fingerprint (ledger ?db)) \<subseteq> set (map ag_fingerprint (aggregates ?db))"
    using assms(2) unfolding counts_ok_def ingest_new_aggregates upsert_fingerprints ingest_new_ledger
      map_append ing_rows_def compact_ledger_fields by (simp add: subset_insertI2)
  moreover have "set (map le_digest (ledger ?db)) \<subseteq>
      insert (sha env (canonical_json env e)) (set (map le_digest (ledger db)))"
    unfolding ingest_new_ledger map_append ing_rows_def compact_ledger_fields by simp
  then have "list_all (\<lambda>r. le_digest r \<noteq> '''') (ledger ?db)"
    using assms(2,3) unfolding counts_ok_def list_all_iff set_map by fastforce
  ultimately show ?thesis by (simp add: counts_ok_def)
qed

section \<open>Retention of bodies\<close>

text \<open>The receipts of a fingerprint before a given sequence number.\<close>

definition earlier :: "ledger_row list \<Rightarrow> string \<Rightarrow> nat \<Rightarrow> nat" where
  "earlier rows fp n = count_if (\<lambda>x. le_seq x < n) (rows_of fp rows)"

lemma earlier_append [simp]: "earlier (xs @ ys) fp n = earlier xs fp n + earlier ys fp n"
  by (simp add: earlier_def)

lemma earlier_Nil [simp]: "earlier [] fp n = 0"
  by (simp add: earlier_def rows_of_def count_if_def)

lemma earlier_Cons [simp]: "earlier (r # rows) fp n =
    (if le_fingerprint r = fp \<and> le_seq r < n then 1 else 0) + earlier rows fp n"
  by (simp add: earlier_def rows_of_def count_if_def)

lemma earlier_blank [simp]: "earlier (blank_row k rows) fp n = earlier rows fp n"
proof (induction rows)
  case (Cons r rows)
  then show ?case by (cases "le_seq r = k") (simp_all add: blank_row_Cons)
qed (simp add: blank_row_def)

definition has_later :: "ledger_row list \<Rightarrow> string \<Rightarrow> nat \<Rightarrow> bool" where
  "has_later rows fp n \<longleftrightarrow> list_ex (\<lambda>x. le_fingerprint x = fp \<and> n < le_seq x) rows"

lemma has_later_append [simp]:
  "has_later (xs @ ys) fp n \<longleftrightarrow> has_later xs fp n \<or> has_later ys fp n"
  by (simp add: has_later_def)

lemma has_later_Cons [simp]:
  "has_later (r # rows) fp n \<longleftrightarrow> le_fingerprint r = fp \<and> n < le_seq r \<or> has_later rows fp n"
  by (simp add: has_later_def)

lemma has_later_blank [simp]: "has_later (blank_row k rows) fp n = has_later rows fp n"
proof (induction rows)
  case (Cons r rows)
  then show ?case by (cases "le_seq r = k") (simp_all add: blank_row_Cons)
qed (simp add: blank_row_def)

lemma has_later_compact [simp]: "has_later (compact_ledger found rows) fp n = has_later rows fp n"
  by (simp add: compact_ledger_def split: option.split)

lemma earlier_compact [simp]: "earlier (compact_ledger found rows) fp n = earlier rows fp n"
  by (simp add: compact_ledger_def split: option.split)

lemma earlier_nth:
  assumes "sorted (map le_seq rows)" and "k < length (rows_of fp rows)"
    and "le_seq (rows_of fp rows ! k) < n"
  shows "k < earlier rows fp n"
proof -
  let ?rs = "rows_of fp rows"
  have s: "sorted (map le_seq ?rs)" using assms(1) by (simp add: rows_of_def sorted_filter)
  have "le_seq x < n" if mem: "x \<in> set (take (Suc k) ?rs)" for x
  proof -
    obtain i where "i < length (take (Suc k) ?rs)" and "x = take (Suc k) ?rs ! i"
      using mem unfolding in_set_conv_nth by metis
    then have "i \<le> k" and "x = ?rs ! i" by simp_all
    then have "le_seq x \<le> le_seq (?rs ! k)"
      using s assms(2) sorted_nth_mono [of "map le_seq ?rs" i k] by simp
    with assms(3) show ?thesis by simp
  qed
  then have "filter (\<lambda>x. le_seq x < n) (take (Suc k) ?rs) = take (Suc k) ?rs"
    by (simp add: filter_id_conv)
  then have "Suc k \<le> count_if (\<lambda>x. le_seq x < n) (take (Suc k) ?rs @ drop (Suc k) ?rs)"
    using assms(2) by (simp only: count_if_append) (simp add: count_if_def)
  then show ?thesis by (simp add: earlier_def)
qed

text \<open>A body may go only when more receipts than the retention limit came before it, a newer receipt
  of the fingerprint exists and the disposition is not one of those to keep; the others still have
  the body whose digest the receipt carries.\<close>

definition body_rule :: "alert_env \<Rightarrow> AlertingConfig \<Rightarrow> ledger_row list \<Rightarrow> ledger_row \<Rightarrow> bool" where
  "body_rule env cfg rows r \<longleftrightarrow> (if le_raw r then sha env (le_canonical r) = le_digest r
     else retention_offset cfg < earlier rows (le_fingerprint r) (le_seq r) \<and>
       has_later rows (le_fingerprint r) (le_seq r) \<and>
       le_disposition r \<notin> set KEPT_DISPOSITIONS)"

definition retention_ok :: "alert_env \<Rightarrow> AlertingConfig \<Rightarrow> alert_db \<Rightarrow> bool" where
  "retention_ok env cfg db \<longleftrightarrow> list_all (body_rule env cfg (ledger db)) (ledger db)"

lemma keys_sorted: "keys_ok db \<Longrightarrow> sorted (map le_seq (ledger db))"
  by (simp only: keys_ok_def sorted_upt)

lemma keys_bound:
  assumes "keys_ok db" and "r \<in> set (ledger db)"
  shows "le_seq r \<le> length (ledger db)"
proof -
  have "le_seq r \<in> set (map le_seq (ledger db))" using assms(2) by simp
  then have "le_seq r \<in> set [1..<Suc (length (ledger db))]"
    using assms(1) by (simp only: keys_ok_def)
  then show ?thesis by (simp only: set_upt) simp
qed

lemma ing_entry_seq:
  "keys_ok db \<Longrightarrow> le_seq (ing_entry env cfg used e db) = Suc (length (ledger db))"
  using next_key_upt [of "length (ledger db)"]
  by (simp add: ing_entry_def ing_rows_def ledger_entry_def keys_ok_def del: upt_Suc)

lemma in_compact_ledger:
  assumes "r \<in> set (compact_ledger found rows)"
  obtains x where "x \<in> set rows" and "le_seq r = le_seq x" and "le_fingerprint r = le_fingerprint x"
    and "le_digest r = le_digest x" and "le_disposition r = le_disposition x"
    and "r = x \<or> found \<noteq> None \<and> le_seq x = le_seq (the found) \<and> \<not> le_raw r"
proof (cases found)
  case None
  then show ?thesis using assms that [of r] by (simp add: compact_ledger_def)
next
  case (Some y)
  let ?f = "\<lambda>x. if le_seq x = le_seq y then x\<lparr>le_raw := False, le_canonical := ''''\<rparr> else x"
  have "r \<in> ?f ` set rows" using assms Some by (simp only: compact_ledger_def blank_row_def
        option.case set_map)
  then obtain x where x: "x \<in> set rows" and r: "r = ?f x" by (rule imageE) (rule that)
  show ?thesis
    by (rule that [OF x]) (simp_all add: r Some)
qed

lemma ingest_new_body_rule:
  assumes keys: "keys_ok db" and ret: "retention_ok env cfg db"
    and r: "r \<in> set (ledger (snd (ingest_new env cfg used e db)))"
  shows "body_rule env cfg (ledger (snd (ingest_new env cfg used e db))) r"
proof -
  let ?rows = "ledger (snd (ingest_new env cfg used e db))"
  let ?new = "ing_entry env cfg used e db"
  have rows: "?rows = compact_ledger (ing_found env cfg used e db) (ledger db) @ [?new]"
    by (simp add: ingest_new_ledger ing_rows_def)
  consider "r = ?new" | "r \<in> set (compact_ledger (ing_found env cfg used e db) (ledger db))"
    using r by (auto simp: rows)
  then show ?thesis
  proof cases
    case 1
    then show ?thesis by (simp add: body_rule_def)
  next
    case 2
    then obtain x where x: "x \<in> set (ledger db)" "le_seq r = le_seq x"
      "le_fingerprint r = le_fingerprint x" "le_digest r = le_digest x"
      "le_disposition r = le_disposition x"
      "r = x \<or> ing_found env cfg used e db \<noteq> None \<and>
         le_seq x = le_seq (the (ing_found env cfg used e db)) \<and> \<not> le_raw r"
      by (rule in_compact_ledger)
    show ?thesis
    proof (cases "r = x")
      case True
      have "body_rule env cfg (ledger db) x"
        using ret x(1) by (simp add: retention_ok_def list_all_iff)
      then show ?thesis using True by (simp add: body_rule_def rows split: if_splits)
    next
      case False
      then obtain y where y: "ing_found env cfg used e db = Some y" "le_seq x = le_seq y"
        and raw: "\<not> le_raw r" using x(6) by auto
      note c = ing_found_facts(1) [OF y(1)]
      note f = compaction_candidate_facts [OF c]
      have "inj_on le_seq (set (ledger db))" using keys unfolding keys_ok_def
        by (metis distinct_map distinct_upt)
      then have "x = y" using x(1) f(1) y(2) by (auto dest: inj_onD)
      moreover have "retention_offset cfg < earlier (ledger db) (le_fingerprint y) (le_seq y)"
        using earlier_nth [OF keys_sorted [OF keys] f(5)] f(2,6) by simp
      moreover have "le_seq y < le_seq ?new"
        using keys_bound [OF keys f(1)] ing_entry_seq [OF keys] by simp
      moreover have "le_fingerprint ?new = le_fingerprint y" using f(2) by simp
      ultimately show ?thesis
        using x(2,3,5) raw f(4) by (simp add: body_rule_def rows)
    qed
  qed
qed

lemma ingest_new_retention:
  "keys_ok db \<Longrightarrow> retention_ok env cfg db \<Longrightarrow>
   retention_ok env cfg (snd (ingest_new env cfg used e db))"
  using ingest_new_body_rule unfolding retention_ok_def list_all_iff by blast

section \<open>The invariant of the store\<close>

definition store_ok :: "alert_env \<Rightarrow> AlertingConfig \<Rightarrow> alert_db \<Rightarrow> bool" where
  "store_ok env cfg db \<longleftrightarrow> chains_ok env db \<and> keys_ok db \<and> counts_ok db \<and> retention_ok env cfg db"

text \<open>Operations that leave ledger, counts and fingerprints alone.\<close>

lemma store_ok_cong:
  assumes "store_ok env cfg db" and "chains_ok env db'" and "ledger db' = ledger db"
    and "map (\<lambda>a. (ag_fingerprint a, ag_count a, ag_compacted a)) (aggregates db') =
      map (\<lambda>a. (ag_fingerprint a, ag_count a, ag_compacted a)) (aggregates db)"
  shows "store_ok env cfg db'"
proof -
  let ?g = "\<lambda>a. (ag_fingerprint a, ag_count a, ag_compacted a)"
  have fps: "map ag_fingerprint xs = map fst (map ?g xs)" for xs by simp
  have ok: "list_all (aggregate_ok rows) xs \<longleftrightarrow> list_all (\<lambda>(f, n, c). n = length (rows_of f rows) \<and>
      c = bodies_gone f rows) (map ?g xs)" for rows xs
    by (simp add: list_all_iff aggregate_ok_def)
  have "counts_ok db' = counts_ok db"
    unfolding counts_ok_def fps ok assms(3,4) by (rule refl)
  then show ?thesis using assms by (simp add: store_ok_def keys_ok_def retention_ok_def)
qed

lemma ingest_store_ok:
  assumes "store_ok env cfg db" and "\<And>x. sha env x \<noteq> ''''"
  shows "store_ok env cfg (snd (ingest env cfg used fault e db))"
proof -
  have "store_ok env cfg (snd (ingest_transaction env cfg used e' db))" for e'
  proof (cases "find (\<lambda>r. le_event_id r = event_id e') (ledger db)")
    case None
    then have "event_id e' \<notin> set (map le_event_id (ledger db))"
      by (auto simp: find_None_iff)
    then show ?thesis
      using None assms ingest_new_keys ingest_new_chains ingest_new_counts ingest_new_retention
      by (simp add: ingest_transaction_def store_ok_def)
  next
    case (Some r)
    have "chains_ok env (snd (ingest_transaction env cfg used e' db))"
      using assms(1) Some by (simp add: ingest_transaction_def store_ok_def chains_ok_def audit_ok)
    with assms(1) Some show ?thesis
      by (intro store_ok_cong [OF assms(1)]) (simp_all add: ingest_transaction_def)
  qed
  then show ?thesis
    using assms by (simp add: ingest_def case_prod_beta' Let_def split: sum.split option.split)
qed

lemma queue_periodic_summary_store_ok:
  assumes "store_ok env cfg db"
  shows "store_ok env cfg (snd (queue_periodic_summary env cfg e fp db))"
proof (rule store_ok_cong [OF assms])
  show "chains_ok env (snd (queue_periodic_summary env cfg e fp db))"
    using assms by (simp add: store_ok_def queue_periodic_summary_chains)
qed (simp_all add: queue_periodic_summary_def Let_def case_prod_beta')

lemma mark_notification_store_ok:
  assumes "store_ok env cfg db"
  shows "store_ok env cfg (mark_notification env k b err db)"
proof (rule store_ok_cong [OF assms])
  show "chains_ok env (mark_notification env k b err db)"
    using assms by (simp add: store_ok_def mark_notification_chains)
qed (simp_all add: mark_notification_def Let_def)

lemma lifecycle_loop_store_ok:
  "store_ok env cfg db \<Longrightarrow> store_ok env cfg (snd (lifecycle_loop env cfg' parse now rows n db))"
proof (induction rows arbitrary: n db)
  case Nil
  then show ?case
    by (simp add: store_ok_def chains_ok_def keys_ok_def counts_ok_def retention_ok_def)
next
  case (Cons a rows)
  have "store_ok env cfg (set_lifecycle env a target age db)" for target age
  proof (rule store_ok_cong [OF Cons.prems])
    show "chains_ok env (set_lifecycle env a target age db)"
      using Cons.prems by (simp add: store_ok_def set_lifecycle_chains)
  qed (simp_all add: set_lifecycle_def)
  then show ?case using Cons by (auto simp: Let_def split: option.split)
qed

lemma advance_lifecycle_store_ok:
  "store_ok env cfg db \<Longrightarrow> store_ok env cfg (snd (advance_lifecycle env cfg' parse now db))"
  by (simp add: advance_lifecycle_def lifecycle_loop_store_ok split: option.split)

lemma empty_alert_store_ok: "store_ok env cfg empty_db"
  by (simp add: store_ok_def chains_ok_def keys_ok_def counts_ok_def retention_ok_def empty_db_def)

end
