(* ===== verification/Alert_Suppression.thy ===== *)
theory Alert_Suppression
  imports Alert_Ledger
begin

text \<open>
  Suppression rules (\<open>alerts/suppression.py\<close>): creation with its checks, revocation, the rule an
  event matches, and the listing. \<open>parse\<close> is \<open>datetime.fromisoformat\<close> (\<open>None\<close> for a
  \<open>ValueError\<close>), \<open>uuid\<close> the text of \<open>uuid4()\<close>.
\<close>

record SuppressionRequest =
  rq_scope :: string
  rq_conditions :: "(string, string) odict"
  rq_owner :: string
  rq_created_at :: string
  rq_expires_at :: string
  rq_reason :: string
  rq_ticket_id :: string
  rq_authorizing_identity :: string
  rq_policy_version :: string
  rq_approval_identity :: string
  rq_rule_id :: string

definition SAFE_FIELDS :: "string list" where
  "SAFE_FIELDS = [''rule_id'', ''event_type'', ''source_id'', ''process_signing_identifier'',
     ''user_uid'', ''host_id'']"

definition WILDCARDS :: "string list" where
  "WILDCARDS = ['''', ''*'', ''.*'']"

text \<open>The checks of \<open>create\<close>, before anything is written; \<open>now\<close> is \<open>datetime.now(timezone.utc)\<close>
  in microseconds.\<close>

definition check_request :: "AlertingConfig \<Rightarrow> (string \<Rightarrow> datetime option) \<Rightarrow> int \<Rightarrow> bool \<Rightarrow>
    SuppressionRequest \<Rightarrow> alert_error + unit" where
  "check_request cfg parse now protected_scope rq =
     py_bind (py_guard (str_strip (rq_reason rq) = '''' \<or> str_strip (rq_ticket_id rq) = '''' \<or>
         str_strip (rq_authorizing_identity rq) = '''')
       (AlertValueError ''reason, ticket identifier, and authorizing identity are required'')) (\<lambda>_.
     py_bind (py_guard (rq_conditions rq = [] \<or>
         list_ex (\<lambda>k. k \<notin> set SAFE_FIELDS) (od_keys (rq_conditions rq)))
       (AlertValueError ''suppression conditions must use supported exact-match fields'')) (\<lambda>_.
     py_bind (py_guard (list_ex (\<lambda>v. v \<in> set WILDCARDS) (od_values (rq_conditions rq)))
       (AlertValueError ''global or wildcard suppression is prohibited'')) (\<lambda>_.
     case parse (rq_expires_at rq) of
       Some (Aware expires) \<Rightarrow>
         py_bind (py_guard (expires \<le> now)
           (AlertValueError ''suppression expiration must be in the future'')) (\<lambda>_.
         py_bind (py_guard (of_int (maximum_suppression_duration_seconds cfg)
             < total_seconds (expires - now))
           (AlertValueError ''suppression duration exceeds the configured maximum'')) (\<lambda>_.
         py_guard (protected_scope \<and> (rq_approval_identity rq = '''' \<or>
             rq_approval_identity rq = rq_authorizing_identity rq))
           (AlertPermissionError
             ''protected-event suppression requires a distinct approval identity'')))
     | _ \<Rightarrow> Inl (AlertValueError
         ''expiration must be an explicit timezone-aware ISO timestamp''))))"

definition suppression_of :: "string \<Rightarrow> SuppressionRequest \<Rightarrow> suppression_row" where
  "suppression_of rid rq = \<lparr>sp_rule_id = rid, sp_scope = rq_scope rq,
     sp_conditions = rq_conditions rq, sp_owner = rq_owner rq, sp_created_at = rq_created_at rq,
     sp_expires_at = rq_expires_at rq, sp_reason = rq_reason rq, sp_ticket_id = rq_ticket_id rq,
     sp_authorizing_identity = rq_authorizing_identity rq,
     sp_approval_identity = rq_approval_identity rq, sp_policy_version = rq_policy_version rq,
     sp_revoked_at = ''''\<rparr>"

text \<open>\<open>create\<close>; an existing rule identifier makes the \<open>INSERT\<close> fail after the connection has opened
  its transaction.\<close>

definition create :: "alert_env \<Rightarrow> AlertingConfig \<Rightarrow> (string \<Rightarrow> datetime option) \<Rightarrow> int \<Rightarrow> string \<Rightarrow>
    bool \<Rightarrow> SuppressionRequest \<Rightarrow> alert_db \<Rightarrow> (alert_error + string) \<times> alert_db" where
  "create env cfg parse now uuid protected_scope rq db = (
     case check_request cfg parse now protected_scope rq of
       Inl err \<Rightarrow> (Inl err, db)
     | Inr _ \<Rightarrow>
         let rid = (if rq_rule_id rq \<noteq> '''' then rq_rule_id rq else ''suppression-'' @ uuid)
         in if rid \<in> set (map sp_rule_id (suppressions db))
            then (Inl (SqliteError ''IntegrityError''), db\<lparr>in_txn := True\<rparr>)
            else (Inr rid, commit (audit env ''suppression_created'' (rq_authorizing_identity rq)
              (rq_reason rq) rid
              [(''scope'', JStr (rq_scope rq)),
               (''conditions'', JObj (map (\<lambda>(k, v). (k, JStr v)) (rq_conditions rq))),
               (''expires_at'', JStr (rq_expires_at rq)), (''ticket_id'', JStr (rq_ticket_id rq)),
               (''protected_scope'', JBool protected_scope)]
              (db\<lparr>suppressions := suppressions db @ [suppression_of rid rq]\<rparr>))))"

text \<open>\<open>revoke\<close>; the \<open>UPDATE\<close> opens a transaction even when no row matches, and only the other branch
  commits.\<close>

definition revoke :: "alert_env \<Rightarrow> string \<Rightarrow> string \<Rightarrow> string \<Rightarrow> alert_db \<Rightarrow>
    (alert_error + bool) \<times> alert_db" where
  "revoke env rid actor reason db = (
     if str_strip actor = '''' \<or> str_strip reason = ''''
     then (Inl (AlertValueError ''actor and reason are required''), db)
     else
       let t = utc env (clock db);
           hit = (\<lambda>r. sp_rule_id r = rid \<and> sp_revoked_at r = '''');
           db1 = db\<lparr>suppressions := map (\<lambda>r. if hit r then r\<lparr>sp_revoked_at := t\<rparr> else r)
             (suppressions db), clock := Suc (clock db), in_txn := True\<rparr>
       in if list_ex hit (suppressions db)
          then (Inr True, commit (audit env ''suppression_revoked'' actor reason rid [] db1))
          else (Inr False, db1))"

definition event_text :: "alert_env \<Rightarrow> SecurityEvent \<Rightarrow> string \<Rightarrow> string" where
  "event_text env e key = (case map_of (event_dict e) key of None \<Rightarrow> ''''
     | Some v \<Rightarrow> json_str (py_str env) v)"

definition conditions_hold :: "alert_env \<Rightarrow> SecurityEvent \<Rightarrow> suppression_row \<Rightarrow> bool" where
  "conditions_hold env e r \<longleftrightarrow> list_all (\<lambda>(k, v). event_text env e k = v) (sp_conditions r)"

text \<open>The rows \<open>WHERE revoked_at='' AND expires_at>?\<close>: both columns are text and compared as text.\<close>

definition live_rules :: "string \<Rightarrow> alert_db \<Rightarrow> suppression_row list" where
  "live_rules now db = filter (\<lambda>r. sp_revoked_at r = '''' \<and> now < sp_expires_at r) (suppressions db)"

definition matching_rule :: "alert_env \<Rightarrow> SecurityEvent \<Rightarrow> alert_db \<Rightarrow> string \<times> alert_db" where
  "matching_rule env e db = (
     let now = utc env (clock db)
     in (case find (\<lambda>r. \<not> protected e \<and> conditions_hold env e r)
           (sort_key sp_created_at (live_rules now db)) of
         None \<Rightarrow> '''' | Some r \<Rightarrow> sp_rule_id r, db\<lparr>clock := Suc (clock db)\<rparr>))"

definition list_rules :: "alert_env \<Rightarrow> bool \<Rightarrow> alert_db \<Rightarrow> suppression_row list" where
  "list_rules env include_expired db =
     rev (sort_key sp_created_at (rev (if include_expired then suppressions db
       else live_rules (utc env (clock db)) db)))"

section \<open>Rules are narrow and authorised\<close>

definition rule_ok :: "suppression_row \<Rightarrow> bool" where
  "rule_ok r \<longleftrightarrow> sp_rule_id r \<noteq> '''' \<and> sp_conditions r \<noteq> [] \<and>
     list_all (\<lambda>(k, v). k \<in> set SAFE_FIELDS \<and> v \<notin> set WILDCARDS) (sp_conditions r) \<and>
     str_strip (sp_reason r) \<noteq> '''' \<and> str_strip (sp_ticket_id r) \<noteq> '''' \<and>
     str_strip (sp_authorizing_identity r) \<noteq> ''''"

definition rules_ok :: "alert_db \<Rightarrow> bool" where
  "rules_ok db \<longleftrightarrow> distinct (map sp_rule_id (suppressions db)) \<and> list_all rule_ok (suppressions db)"

lemma check_request_rule_ok:
  assumes "check_request cfg parse now ps rq = Inr u" and "rid \<noteq> ''''"
  shows "rule_ok (suppression_of rid rq)"
proof -
  have "list_all (\<lambda>(k, v). k \<in> set SAFE_FIELDS \<and> v \<notin> set WILDCARDS) (rq_conditions rq)"
    using assms(1) by (auto simp: check_request_def py_bind_Inr_iff list_ex_iff list_all_iff)
  then show ?thesis
    using assms by (auto simp: check_request_def py_bind_Inr_iff rule_ok_def suppression_of_def)
qed

lemma create_rules_ok:
  assumes "rules_ok db"
  shows "rules_ok (snd (create env cfg parse now uuid ps rq db))"
proof -
  let ?rid = "if rq_rule_id rq \<noteq> '''' then rq_rule_id rq else ''suppression-'' @ uuid"
  have "?rid \<noteq> ''''" by simp
  then have "rule_ok (suppression_of ?rid rq)" if "check_request cfg parse now ps rq = Inr u" for u
    using that by (rule check_request_rule_ok [rotated])
  moreover have "sp_rule_id (suppression_of ?rid rq) = ?rid" by (simp add: suppression_of_def)
  ultimately show ?thesis
    using assms by (cases "check_request cfg parse now ps rq")
      (simp_all add: create_def rules_ok_def Let_def del: set_map)
qed

lemma revoke_rules_ok:
  assumes "rules_ok db"
  shows "rules_ok (snd (revoke env rid actor reason db))"
proof -
  let ?f = "\<lambda>r. if sp_rule_id r = rid \<and> sp_revoked_at r = ''''
    then r\<lparr>sp_revoked_at := utc env (clock db)\<rparr> else r"
  have ids: "map sp_rule_id (map ?f rows) = map sp_rule_id rows" for rows by simp
  have "suppressions (snd (revoke env rid actor reason db)) = suppressions db \<or>
      suppressions (snd (revoke env rid actor reason db)) = map ?f (suppressions db)"
    by (simp add: revoke_def Let_def)
  moreover have "rule_ok (?f r) = rule_ok r" for r by (simp add: rule_ok_def)
  then have oks: "list_all rule_ok (map ?f rows) = list_all rule_ok rows" for rows
    by (simp only: list.pred_map comp_def)
  ultimately show ?thesis using assms unfolding rules_ok_def
    by (elim disjE) (simp_all only: ids oks)
qed

lemma create_store_ok:
  assumes "store_ok env cfg db"
  shows "store_ok env cfg (snd (create env cfg' parse now uuid ps rq db))"
  by (rule store_ok_cong [OF assms])
     (use assms in \<open>simp_all add: create_def Let_def store_ok_def chains_ok_def audit_ok
        split: sum.split\<close>)

lemma revoke_store_ok:
  assumes "store_ok env cfg db"
  shows "store_ok env cfg (snd (revoke env rid actor reason db))"
  by (rule store_ok_cong [OF assms])
     (use assms in \<open>simp_all add: revoke_def Let_def store_ok_def chains_ok_def audit_ok\<close>)

lemma matching_rule_db [simp]: "snd (matching_rule env e db) = db\<lparr>clock := Suc (clock db)\<rparr>"
  by (simp add: matching_rule_def Let_def)

lemma find_SomeD: "find P xs = Some x \<Longrightarrow> x \<in> set xs \<and> P x"
  by (induction xs) (auto split: if_splits)

lemma matching_rule_exact:
  assumes "rules_ok db" and "fst (matching_rule env e db) = rid" and "rid \<noteq> ''''"
  shows "\<not> protected e \<and> list_ex (\<lambda>r. sp_rule_id r = rid \<and> rule_ok r \<and> sp_revoked_at r = '''' \<and>
     utc env (clock db) < sp_expires_at r \<and> conditions_hold env e r) (suppressions db)"
proof -
  let ?live = "sort_key sp_created_at (live_rules (utc env (clock db)) db)"
  obtain r where f: "find (\<lambda>r. \<not> protected e \<and> conditions_hold env e r) ?live = Some r"
    and rid: "sp_rule_id r = rid"
    using assms(2,3) by (auto simp: matching_rule_def Let_def split: option.splits)
  then have r: "r \<in> set ?live" "\<not> protected e" "conditions_hold env e r"
    using find_SomeD [OF f] by simp_all
  then have "r \<in> set (suppressions db)" "sp_revoked_at r = ''''"
    "utc env (clock db) < sp_expires_at r"
    by (simp_all add: live_rules_def)
  moreover have "rule_ok r" using assms(1) calculation(1) by (simp add: rules_ok_def list_all_iff)
  ultimately show ?thesis using r rid by (auto simp: list_ex_iff)
qed

end
