(* ===== verification/Alert_Redaction.thy ===== *)
theory Alert_Redaction
  imports Alert_Models
begin

text \<open>
  What redaction guarantees: nothing is left under a sensitive key, no recognisable credential is left
  in a string, and the redacted document is within the limits on nesting and size.
\<close>

section \<open>Matches of the credential pattern\<close>

definition cred_words :: "string list" where
  "cred_words = ''bearer'' # optional_sep ''api'' ''key'' @ [''password'']"

definition match_word :: "string \<Rightarrow> string \<Rightarrow> (string \<times> string) option" where
  "match_word word = (if word = ''bearer'' then match_bearer else match_assign word)"

lemma secret_match_words: "secret_match = first_some (map match_word cred_words)"
  by (simp add: secret_match_def cred_words_def match_word_def optional_sep_def)

text \<open>The text of the first group: the word in any case, blanks, and a sign with blanks for the
  words that need one.\<close>

definition cred_group :: "string \<Rightarrow> string \<Rightarrow> bool" where
  "cred_group word g \<longleftrightarrow> (\<exists>w gap. str_lower w = word \<and> list_all is_space gap \<and>
     (if word = ''bearer'' then gap \<noteq> [] \<and> g = w @ gap
      else \<exists>c gap'. c \<in> set ''=:'' \<and> list_all is_space gap' \<and> g = w @ gap @ [c] @ gap'))"

lemma length_str_lower [simp]: "length (str_lower s) = length s"
  by (simp add: str_lower_def)

lemma takeWhile_space_app:
  "list_all is_space gap \<Longrightarrow> \<not> is_space a \<Longrightarrow> takeWhile is_space (gap @ a # t) = gap \<and>
     dropWhile is_space (gap @ a # t) = a # t"
  by (induction gap) auto

lemma sign_not_space: "c \<in> set ''=:'' \<Longrightarrow> \<not> is_space c"
  by (auto simp: is_space_def)

lemma secret_not_space: "is_secret_char a \<Longrightarrow> \<not> is_space a"
  by (simp add: is_secret_char_def)

lemma match_word_complete:
  assumes "cred_group word g" and a: "is_secret_char a"
  shows "match_word word (g @ a # t) = Some (g, dropWhile is_secret_char t)"
proof (cases "word = ''bearer''")
  case True
  then obtain w gap where w: "str_lower w = ''bearer''" "list_all is_space gap" "gap \<noteq> []" "g = w @ gap"
    using assms(1) by (auto simp: cred_group_def)
  have "length w = 6" using arg_cong [OF w(1), of length] by simp
  then show ?thesis
    using takeWhile_space_app [OF w(2) secret_not_space [OF a], of t] w(1,3,4) True a
    by (simp add: match_word_def match_bearer_def ci_prefix_def Let_def)
next
  case False
  then obtain w gap c gap' where w: "str_lower w = word" "list_all is_space gap" "c \<in> set ''=:''"
    "list_all is_space gap'" "g = w @ gap @ [c] @ gap'"
    using assms(1) by (auto simp: cred_group_def)
  have "length w = length word" using arg_cong [OF w(1), of length] by simp
  then show ?thesis
    using takeWhile_space_app [OF w(2) sign_not_space [OF w(3)], of "gap' @ a # t"]
      takeWhile_space_app [OF w(4) secret_not_space [OF a], of t] w(1,3,5) False a
    by (simp add: match_word_def match_assign_def ci_prefix_def Let_def)
qed

lemma takeWhile_space: "list_all is_space (takeWhile is_space s)"
  by (induction s) auto

lemma secret_head:
  "takeWhile is_secret_char t \<noteq> [] \<Longrightarrow> \<exists>a t'. t = a # t' \<and> is_secret_char a \<and>
     dropWhile is_secret_char t = dropWhile is_secret_char t'"
  by (cases t) (auto split: if_splits)

lemma match_word_sound:
  assumes "match_word word s = Some (g, r)"
  shows "cred_group word g \<and> (\<exists>a t. s = g @ a # t \<and> is_secret_char a \<and> r = dropWhile is_secret_char t)"
proof (cases "word = ''bearer''")
  case True
  let ?gap = "takeWhile is_space (drop 6 s)" and ?t = "dropWhile is_space (drop 6 s)"
  have m: "ci_prefix ''bearer'' s" "?gap \<noteq> []" "takeWhile is_secret_char ?t \<noteq> []"
    "g = take 6 s @ ?gap" "r = dropWhile is_secret_char ?t"
    using assms True by (auto simp: match_word_def match_bearer_def Let_def split: if_splits)
  have "length ''bearer'' = 6" by simp
  then have "str_lower (take 6 s) = word" using m(1) True by (simp only: ci_prefix_def)
  then have "cred_group word g"
    unfolding cred_group_def using True m(2,4) takeWhile_space by metis
  moreover have "s = g @ ?t" by (simp add: m(4))
  ultimately show ?thesis using secret_head [OF m(3)] m(5) by metis
next
  case False
  let ?n = "length word"
  let ?gap = "takeWhile is_space (drop ?n s)" and ?q = "dropWhile is_space (drop ?n s)"
  obtain c q where q: "?q = c # q"
    using assms False by (auto simp: match_word_def match_assign_def Let_def split: list.splits)
  let ?gap' = "takeWhile is_space q" and ?t = "dropWhile is_space q"
  have m: "ci_prefix word s" "c \<in> set ''=:''" "takeWhile is_secret_char ?t \<noteq> []"
    "g = take ?n s @ ?gap @ [c] @ ?gap'" "r = dropWhile is_secret_char ?t"
    using assms False q by (auto simp: match_word_def match_assign_def Let_def split: if_splits)
  have "str_lower (take ?n s) = word" using m(1) by (simp only: ci_prefix_def)
  moreover have "\<exists>d gap'. d \<in> set ''=:'' \<and> list_all is_space gap' \<and>
      g = take ?n s @ ?gap @ [d] @ gap'"
    using m(2,4) takeWhile_space by blast
  ultimately have "cred_group word g"
    unfolding cred_group_def using False takeWhile_space by metis
  moreover have "s = take ?n s @ ?gap @ ?q" by simp
  then have "s = g @ ?t" unfolding q m(4) by simp
  ultimately show ?thesis using secret_head [OF m(3)] m(5) by metis
qed

section \<open>A match is determined by the text\<close>

lemma match_word_prefix: "match_word word s \<noteq> None \<Longrightarrow> ci_prefix word s"
  by (auto simp: match_word_def match_bearer_def match_assign_def Let_def
      split: if_splits list.splits)

lemma cred_words_prefix_free:
  "list_all (\<lambda>u. list_all (\<lambda>v. take (min (length u) (length v)) u = take (min (length u) (length v)) v
     \<longrightarrow> u = v) cred_words) cred_words"
  by code_simp

lemma ci_prefix_take:
  assumes "ci_prefix u s"
  shows "take n u = str_lower (take (min n (length u)) s)"
proof -
  have "take n (str_lower (take (length u) s)) = str_lower (take (min n (length u)) s)"
    by (simp add: str_lower_def take_map)
  then show ?thesis using assms by (simp add: ci_prefix_def)
qed

lemma cred_word_unique:
  assumes "u \<in> set cred_words" and "v \<in> set cred_words"
    and "match_word u s \<noteq> None" and "match_word v s \<noteq> None"
  shows "u = v"
proof -
  let ?n = "min (length u) (length v)"
  have "take ?n u = take ?n v"
    using ci_prefix_take [OF match_word_prefix [OF assms(3)], of ?n]
      ci_prefix_take [OF match_word_prefix [OF assms(4)], of ?n] by (simp add: min.commute min.left_commute)
  then show ?thesis using cred_words_prefix_free assms(1,2) by (auto simp: list_all_iff)
qed

lemma first_some_unique:
  "u \<in> set us \<Longrightarrow> f u s = Some y \<Longrightarrow> (\<And>v. v \<in> set us \<Longrightarrow> f v s \<noteq> None \<Longrightarrow> v = u) \<Longrightarrow>
   first_some (map f us) s = Some y"
proof (induction us)
  case (Cons v us)
  show ?case
  proof (cases "f v s")
    case None
    then have "u \<in> set us" using Cons.prems(1,2) by auto
    then have "first_some (map f us) s = Some y"
      by (rule Cons.IH [OF _ Cons.prems(2)]) (simp add: Cons.prems(3))
    then show ?thesis using None by simp
  next
    case (Some z)
    then have "v = u" using Cons.prems(3) [of v] by simp
    then show ?thesis using Cons.prems(2) by simp
  qed
qed simp

lemma secret_match_complete:
  assumes "word \<in> set cred_words" and "cred_group word g" and "is_secret_char a"
  shows "secret_match (g @ a # t) = Some (g, dropWhile is_secret_char t)"
proof -
  have m: "match_word word (g @ a # t) = Some (g, dropWhile is_secret_char t)"
    using assms(2,3) by (rule match_word_complete)
  show ?thesis unfolding secret_match_words
  proof (rule first_some_unique [where f = match_word and u = word])
    fix v assume "v \<in> set cred_words" and "match_word v (g @ a # t) \<noteq> None"
    then show "v = word" using cred_word_unique [OF _ assms(1)] m by blast
  qed (use assms(1) m in simp_all)
qed

lemma secret_match_sound:
  assumes "secret_match s = Some (g, r)"
  shows "\<exists>word a t. word \<in> set cred_words \<and> cred_group word g \<and> s = g @ a # t \<and> is_secret_char a \<and>
     r = dropWhile is_secret_char t"
proof -
  obtain f where f: "f \<in> set (map match_word cred_words)" and s: "f s = Some (g, r)"
    using first_some_mem [OF assms [unfolded secret_match_words]] by (rule bexE)
  from f obtain word where "word \<in> set cred_words" "f = match_word word"
    unfolding set_map by (rule imageE)
  with s match_word_sound show ?thesis by metis
qed

text \<open>The first group starts with a letter and contains no bracket.\<close>

lemma not_secret_lower: "\<not> is_secret_char c \<Longrightarrow> lower_char c = c \<and> \<not> is_word_char c"
  by (auto simp: is_secret_char_def is_space_def lower_char_def is_word_char_def Let_def)

lemma cred_words_chars:
  "list_all (\<lambda>u. u \<noteq> [] \<and> is_word_char (hd u) \<and> CHR ''['' \<notin> set u) cred_words"
  by code_simp

lemma cred_group_head:
  assumes "word \<in> set cred_words" and "cred_group word g"
  shows "\<exists>c g'. g = c # g' \<and> is_secret_char c"
proof -
  obtain w x where w: "str_lower w = word" and g: "g = w @ x"
    using assms(2) unfolding cred_group_def by (metis (no_types))
  have word: "word \<noteq> []" "is_word_char (hd word)"
    using assms(1) cred_words_chars by (auto simp: list_all_iff)
  then obtain c w' where c: "w = c # w'" using w by (cases w) (auto simp: str_lower_def)
  then have "is_word_char (lower_char c)" using w word(2) by (auto simp: str_lower_def)
  then have "is_secret_char c" using not_secret_lower [of c] by metis
  then show ?thesis using g c by simp
qed

lemma cred_group_no_bracket:
  assumes "word \<in> set cred_words" and "cred_group word g"
  shows "CHR ''['' \<notin> set g"
proof
  assume b: "CHR ''['' \<in> set g"
  have "lower_char (CHR ''['') = CHR ''[''" and sp: "\<not> is_space (CHR ''['')" by code_simp+
  moreover have "CHR ''['' \<notin> set word" using assms(1) cred_words_chars by (auto simp: list_all_iff)
  ultimately have no: "CHR ''['' \<notin> set w" if "str_lower w = word" for w
    using that by (metis image_eqI list.set_map str_lower_def)
  have gap: "CHR ''['' \<notin> set gap" if "list_all is_space gap" for gap
    using that sp by (auto simp: list_all_iff)
  obtain w gap where w: "str_lower w = word" "list_all is_space gap" and
    r: "if word = ''bearer'' then gap \<noteq> [] \<and> g = w @ gap
      else \<exists>c gap'. c \<in> set ''=:'' \<and> list_all is_space gap' \<and> g = w @ gap @ [c] @ gap'"
    using assms(2) unfolding cred_group_def by blast
  show False
    using r b no [OF w(1)] gap [OF w(2)] gap by (auto split: if_splits)
qed

section \<open>Substituting again changes nothing\<close>

text \<open>The text and its substitution agree up to a point where one has the first character of a
  credential and the other the opening bracket.\<close>

definition same_until_secret :: "string \<Rightarrow> string \<Rightarrow> bool" where
  "same_until_secret s t \<longleftrightarrow> s = t \<or> (\<exists>p a q r. s = p @ a # q \<and> is_secret_char a \<and> t = p @ CHR ''['' # r)"

lemma secret_sub_same: "same_until_secret s (secret_sub w s)"
proof (induction w s rule: secret_sub.induct)
  case (2 w c s)
  show ?case
  proof (cases "if w then None else secret_match (c # s)")
    case None
    then have "same_until_secret s (secret_sub (is_word_char c) s)" by (rule 2)
    then have "same_until_secret (c # s) (c # secret_sub (is_word_char c) s)"
      unfolding same_until_secret_def by (metis append_Cons)
    then show ?thesis using None by simp
  next
    case (Some m)
    obtain g r where m: "m = (g, r)" by (cases m)
    then have "secret_match (c # s) = Some (g, r)" using Some by (simp split: if_splits)
    then obtain a t where "c # s = g @ a # t" "is_secret_char a" using secret_match_sound by blast
    moreover have "\<exists>r'. secret_sub w (c # s) = g @ CHR ''['' # r'"
      using Some m by (simp add: REDACTED_def)
    ultimately show ?thesis unfolding same_until_secret_def by metis
  qed
qed (simp add: same_until_secret_def)

lemma same_until_secret_match:
  assumes "same_until_secret s t" and "secret_match s = None"
  shows "secret_match t = None"
proof (rule ccontr)
  assume "secret_match t \<noteq> None"
  then obtain g r where "secret_match t = Some (g, r)" by auto
  then obtain word b u where w: "word \<in> set cred_words" "cred_group word g" and t: "t = g @ b # u"
    and b: "is_secret_char b" using secret_match_sound by blast
  have none: "s \<noteq> g @ x # y" if "is_secret_char x" for x y
    using secret_match_complete [OF w that] assms(2) by auto
  obtain p a q r' where s: "s = p @ a # q" "is_secret_char a" and t': "t = p @ CHR ''['' # r'"
    using assms(1) none [OF b] t unfolding same_until_secret_def by auto
  have eq: "g @ b # u = p @ CHR ''['' # r'" using t t' by simp
  consider k where "p = g @ k" "k \<noteq> []" | "p = g" | k where "g = p @ k" "k \<noteq> []"
    using eq by (auto simp: append_eq_append_conv2)
  then show False
  proof cases
    case (1 k)
    then obtain k' where "k = b # k'" using eq by (cases k) auto
    then show False using none [OF b, of "k' @ a # q"] s(1) 1(1) by simp
  next
    case 2
    then show False using none [OF s(2), of q] s(1) by simp
  next
    case (3 k)
    then have "CHR ''['' \<in> set g" using eq by (cases k) auto
    then show False using cred_group_no_bracket [OF w] by simp
  qed
qed

lemma no_match_at_separator:
  assumes "r = [] \<or> \<not> is_secret_char (hd r)"
  shows "secret_match r = None"
proof (rule ccontr)
  assume "secret_match r \<noteq> None"
  then obtain g r' where "secret_match r = Some (g, r')" by auto
  then obtain word a t where "word \<in> set cred_words" "cred_group word g" "r = g @ a # t"
    using secret_match_sound by blast
  then show False using cred_group_head assms by fastforce
qed

text \<open>At a separator the flag for the word boundary does not matter.\<close>

lemma secret_sub_separator:
  assumes "\<not> is_secret_char x"
  shows "secret_sub w (x # r) = x # secret_sub (is_word_char x) r"
  using no_match_at_separator [of "x # r"] assms by simp

lemma hd_dropWhile_secret:
  "r = dropWhile is_secret_char t \<Longrightarrow> r = [] \<or> \<not> is_secret_char (hd r)"
  using hd_dropWhile by blast

lemma redacted_chars:
  "\<exists>rest. REDACTED = CHR ''['' # rest \<and> is_secret_char (CHR ''['') \<and> list_all is_secret_char rest"
proof -
  have "is_secret_char (CHR ''['')" "list_all is_secret_char ''REDACTED]''" by code_simp+
  then show ?thesis unfolding REDACTED_def by blast
qed

lemma secret_sub_idem: "secret_sub w (secret_sub w s) = secret_sub w s"
proof (induction w s rule: secret_sub.induct)
  case (2 w c s)
  show ?case
  proof (cases "if w then None else secret_match (c # s)")
    case None
    let ?o = "secret_sub (is_word_char c) s"
    have "same_until_secret (c # s) (c # ?o)"
      using secret_sub_same [of s "is_word_char c"] unfolding same_until_secret_def
      by (metis append_Cons)
    then have "(if w then None else secret_match (c # ?o)) = None"
      using None same_until_secret_match by (auto split: if_splits)
    moreover have "secret_sub (is_word_char c) ?o = ?o" using None by (rule 2)
    ultimately show ?thesis using None by simp
  next
    case (Some m)
    obtain g r where m: "m = (g, r)" by (cases m)
    let ?k = "is_word_char ((c # s) ! (length s - length r))"
    let ?o = "secret_sub ?k r"
    have w: "\<not> w" and sm: "secret_match (c # s) = Some (g, r)"
      using Some m by (auto split: if_splits)
    obtain word a t where word: "word \<in> set cred_words" "cred_group word g" and
      r: "r = dropWhile is_secret_char t" using secret_match_sound [OF sm] by blast
    have IH: "secret_sub ?k ?o = ?o" using 2 Some m by simp
    have sep: "r = [] \<or> (\<exists>x r'. r = x # r' \<and> \<not> is_secret_char x)"
      using hd_dropWhile_secret [OF r] by (cases r) auto
    have idem: "secret_sub k ?o = ?o" for k
      using sep IH by (auto simp: secret_sub_separator simp del: secret_sub.simps(2))
    have stop: "dropWhile is_secret_char ?o = ?o"
      using sep by (auto simp: secret_sub_separator simp del: secret_sub.simps(2))
    obtain rest where red: "REDACTED = CHR ''['' # rest" "is_secret_char (CHR ''['')"
      "list_all is_secret_char rest" using redacted_chars by blast
    have "secret_match (g @ REDACTED @ ?o) = Some (g, dropWhile is_secret_char (rest @ ?o))"
      using secret_match_complete [OF word red(2), of "rest @ ?o"] by (simp add: red(1))
    also have "dropWhile is_secret_char (rest @ ?o) = ?o"
      using red(3) stop by (simp add: dropWhile_append2 list_all_iff)
    finally have again: "secret_match (g @ REDACTED @ ?o) = Some (g, ?o)" .
    obtain d g' where "g = d # g'" using cred_group_head [OF word] by blast
    then have "secret_sub w (g @ REDACTED @ ?o) = g @ REDACTED @ ?o"
      using again w idem by simp
    moreover have "secret_sub w (c # s) = g @ REDACTED @ ?o" using Some m by simp
    ultimately show ?thesis by simp
  qed
qed simp

section \<open>Redacted documents\<close>

text \<open>A document within the limits that shows nothing under a sensitive key and no credential in
  its strings: another substitution would not change them.\<close>

fun hides_secrets :: "redact_limits \<Rightarrow> nat \<Rightarrow> json \<Rightarrow> bool" where
  "hides_secrets l depth (JObj d) \<longleftrightarrow> int depth \<le> max_depth l \<and> int (length d) \<le> max_items l \<and>
     list_all (\<lambda>(k, v). length k \<le> 256 \<and>
       (if sensitive_key k then v = JStr REDACTED else hides_secrets l (Suc depth) v)) d"
| "hides_secrets l depth (JList xs) \<longleftrightarrow> int depth \<le> max_depth l \<and> int (length xs) \<le> max_items l \<and>
     list_all (hides_secrets l (Suc depth)) xs"
| "hides_secrets l depth (JStr s) \<longleftrightarrow> int depth \<le> max_depth l \<and> secret_sub False s = s"
| "hides_secrets l depth v \<longleftrightarrow> int depth \<le> max_depth l"

definition entry_hides :: "redact_limits \<Rightarrow> nat \<Rightarrow> string \<times> json \<Rightarrow> bool" where
  "entry_hides l depth kv \<longleftrightarrow> length (fst kv) \<le> 256 \<and> (if sensitive_key (fst kv)
     then snd kv = JStr REDACTED else hides_secrets l (Suc depth) (snd kv))"

lemma hides_secrets_obj: "hides_secrets l depth (JObj d) \<longleftrightarrow> int depth \<le> max_depth l \<and>
    int (length d) \<le> max_items l \<and> list_all (entry_hides l depth) d"
  by (simp add: list_all_iff entry_hides_def case_prod_beta')

lemma list_all_update:
  "list_all P d \<Longrightarrow> P (k, v) \<Longrightarrow> list_all P (AList.update k v d)"
  by (induction d) auto

lemma redact_hides_secrets:
  "redact l depth v = Inr v' \<Longrightarrow> hides_secrets l depth v'"
  "redact_items l depth d out = Inr out' \<Longrightarrow> list_all (entry_hides l depth) out \<Longrightarrow>
     list_all (entry_hides l depth) out' \<and> length out' \<le> length out + length d"
  "redact_list l depth xs = Inr xs' \<Longrightarrow>
     list_all (hides_secrets l (Suc depth)) xs' \<and> length xs' = length xs"
proof (induction l depth v and l depth d out and l depth xs arbitrary: v' and out' and xs'
    rule: redact_redact_items_redact_list.induct)
  case (1 l depth d)
  then show ?case
    by (auto simp: hides_secrets_obj py_bind_Inr_iff simp del: hides_secrets.simps(1)
        split: if_splits)
next
  case (2 l depth xs)
  then show ?case by (auto simp: py_bind_Inr_iff split: if_splits)
next
  case (3 l depth s)
  then show ?case by (auto simp: secret_sub_idem split: if_splits)
next
  case (6 l depth key item rest out)
  let ?name = "take 256 key"
  show ?case
  proof (cases "sensitive_key ?name")
    case True
    then have r: "redact_items l depth rest (AList.update ?name (JStr REDACTED) out) = Inr out'"
      using "6.prems"(1) by simp
    have "list_all (entry_hides l depth) (AList.update ?name (JStr REDACTED) out)"
      by (rule list_all_update [OF "6.prems"(2)]) (use True in \<open>simp add: entry_hides_def\<close>)
    then show ?thesis using "6.IH"(1) [OF refl True r] length_update_le [of ?name "JStr REDACTED" out]
      by auto
  next
    case False
    then obtain v where v: "redact l (Suc depth) item = Inr v"
      and r: "redact_items l depth rest (AList.update ?name v out) = Inr out'"
      using "6.prems"(1) by (auto simp: py_bind_Inr_iff)
    have "hides_secrets l (Suc depth) v" by (rule "6.IH"(2) [OF refl False v])
    then have "list_all (entry_hides l depth) (AList.update ?name v out)"
      by (intro list_all_update [OF "6.prems"(2)]) (use False in \<open>simp add: entry_hides_def\<close>)
    then show ?thesis using "6.IH"(3) [OF refl False r] length_update_le [of ?name v out] by auto
  qed
next
  case (8 l depth x xs)
  then show ?case by (auto simp: py_bind_Inr_iff)
qed (auto split: if_splits)


section \<open>An example\<close>

text \<open>Simple instances of the parameters: texts that only depend on the length, and a digest that
  prefixes its argument.\<close>

definition demo_env :: alert_env where
  "demo_env = \<lparr>dumps = (\<lambda>_. ''{}''), dumps_spaced = (\<lambda>_. ''{}''), utf8_size = length,
     sha = (\<lambda>s. ''d'' @ s), hmac = (\<lambda>s. ''h'' @ s), utc = (\<lambda>_. ''t''), py_str = (\<lambda>_. ''x'')\<rparr>"

definition demo_event :: "string \<Rightarrow> SecurityEvent" where
  "demo_event eid = (new_event eid ''test'' ''R'' ''low'' ''low'' ''t'' 0 ''t'' ''src'')
     \<lparr>fingerprint := ''f'', material_digest := ''m'',
      attributes := JObj [(''password'', JStr ''hunter2''), (''note'', JStr ''password=hunter2'')]\<rparr>"

lemma demo_keys: "sensitive_key ''password''" "sensitive_key ''note'' = False"
  by code_simp+

lemma demo_text: "secret_sub False ''password=hunter2'' = ''password=[REDACTED]''"
  by code_simp

definition demo_attributes :: json where
  "demo_attributes = JObj [(''password'', JStr REDACTED), (''note'', JStr ''password=[REDACTED]'')]"

lemma demo_redact:
  "redact (limits_of default_config) 0
     (JObj [(''password'', JStr ''hunter2''), (''note'', JStr ''password=hunter2'')]) =
   Inr demo_attributes"
  by (simp add: demo_attributes_def limits_of_def default_config_def slice_to_def demo_keys demo_text
      del: secret_sub.simps)

lemma demo_fields:
  "str_strip ''test'' \<noteq> ''''" "str_strip ''R'' \<noteq> ''''" "str_strip ''low'' \<noteq> ''''"
  "str_strip ''t'' \<noteq> ''''" "str_strip ''e1'' \<noteq> ''''" "str_strip ''src'' \<noteq> ''''"
  "map_of SEVERITY_RANK (str_lower ''low'') = Some 1"
  by code_simp+

lemma demo_alert_valid:
  assumes "str_strip eid \<noteq> ''''" and "length eid \<le> 256"
  shows "validate demo_env (maximum_event_size_bytes default_config) (limits_of default_config)
     (demo_event eid) = Inr ((demo_event eid)\<lparr>attributes := demo_attributes\<rparr>)"
  using assms demo_fields demo_redact
  by (simp add: validate_def demo_event_def new_event_def required_fields_def bounded_fields_def
      canonical_json_def demo_env_def default_config_def [THEN arg_cong [of _ _ maximum_event_size_bytes]])


end
