(* ===== verification/Alert_Fingerprint.thy ===== *)
theory Alert_Fingerprint
  imports Alert_Redaction
begin

text \<open>
  Detector contracts and fingerprints (\<open>alerts/fingerprint.py\<close>): which fields identify an alert,
  which fields make a repeated alert materially different, and the two digests computed from them.
\<close>

record DetectorContract =
  dc_rule_id :: string
  dc_rule_version :: string
  identity_fields :: "string list"
  material_fields :: "string list"
  dc_protected :: bool

definition new_contract :: "string \<Rightarrow> string \<Rightarrow> DetectorContract" where
  "new_contract rid rv = \<lparr>dc_rule_id = rid, dc_rule_version = rv,
     identity_fields = [''process_signing_identifier'', ''process_hash'', ''process_path'',
       ''user_uid'', ''remote_address'', ''remote_port'', ''object_path'', ''action''],
     material_fields = [''severity'', ''confidence'', ''outcome'', ''process_hash'', ''user_uid'',
       ''remote_address'', ''object_path''],
     dc_protected = False\<rparr>"

type_synonym registry = "(string, DetectorContract) odict"

definition register :: "DetectorContract \<Rightarrow> registry \<Rightarrow> alert_error + registry" where
  "register c reg = (if str_strip (dc_rule_id c) = ''''
     then Inl (AlertValueError ''detector rule_id is required'')
     else Inr (AList.update (dc_rule_id c) c reg))"

definition contract_for :: "registry \<Rightarrow> SecurityEvent \<Rightarrow> DetectorContract" where
  "contract_for reg e = od_get reg (rule_id e) (new_contract (rule_id e) (rule_version e))"

text \<open>\<open>_get\<close>: a name under \<open>attributes.\<close> is looked up, in full, among the attributes; any other
  name is a field of the event, absent ones give \<open>None\<close>.\<close>

fun json_get :: "json \<Rightarrow> string \<Rightarrow> json" where
  "json_get (JObj d) k = od_get d k JNull"
| "json_get _ k = JNull"

definition get_field :: "SecurityEvent \<Rightarrow> string \<Rightarrow> json" where
  "get_field e name = (if startswith name ''attributes.'' then json_get (attributes e) name
     else od_get (event_dict e) name JNull)"

definition blank :: "json \<Rightarrow> bool" where
  "blank v \<longleftrightarrow> v \<in> {JNull, JStr '''', JList [], JObj []}"

definition present_fields :: "SecurityEvent \<Rightarrow> string list \<Rightarrow> json_object" where
  "present_fields e names = fold (\<lambda>name d. if blank (get_field e name) then d
     else AList.update name (get_field e name) d) names []"

definition digest :: "alert_env \<Rightarrow> json_object \<Rightarrow> string" where
  "digest env payload = sha env (dumps env (JObj payload))"

definition identity_payload :: "SecurityEvent \<Rightarrow> DetectorContract \<Rightarrow> json_object" where
  "identity_payload e c = [(''rule_id'', JStr (rule_id e)),
     (''rule_version'', JStr (dc_rule_version c)), (''host_id'', JStr (host_id e)),
     (''identity'', JObj (present_fields e (identity_fields c)))]"

definition calculate_fingerprints :: "alert_env \<Rightarrow> SecurityEvent \<Rightarrow> DetectorContract \<Rightarrow>
    string \<times> string" where
  "calculate_fingerprints env e c = (
     let fp = digest env (identity_payload e c)
     in (fp, digest env [(''fingerprint'', JStr fp),
           (''material'', JObj (present_fields e (material_fields c)))]))"

section \<open>What a fingerprint tells apart\<close>

lemma present_fields_aux:
  "map_of (fold (\<lambda>name d. if blank (get_field e name) then d
       else AList.update name (get_field e name) d) names d0) k =
     (if k \<in> set names \<and> \<not> blank (get_field e k) then Some (get_field e k) else map_of d0 k)"
  by (induction names arbitrary: d0) auto

lemma present_fields_get:
  "map_of (present_fields e names) k =
     (if k \<in> set names \<and> \<not> blank (get_field e k) then Some (get_field e k) else None)"
  by (simp add: present_fields_def present_fields_aux)

text \<open>Two values a contract does not distinguish: equal, or both blank.\<close>

definition same_value :: "json \<Rightarrow> json \<Rightarrow> bool" where
  "same_value v w \<longleftrightarrow> v = w \<or> blank v \<and> blank w"

lemma present_fields_eq_imp_same:
  assumes "present_fields e names = present_fields e' names" and "k \<in> set names"
  shows "same_value (get_field e k) (get_field e' k)"
proof -
  have "map_of (present_fields e names) k = map_of (present_fields e' names) k"
    using assms(1) by simp
  then show ?thesis
    using assms(2) by (auto simp: present_fields_get same_value_def split: if_splits)
qed

lemma present_fields_cong:
  assumes "\<And>k. k \<in> set names \<Longrightarrow> same_value (get_field e k) (get_field e' k)"
  shows "present_fields e names = present_fields e' names"
  unfolding present_fields_def
proof (rule fold_cong [OF refl refl])
  fix k assume "k \<in> set names"
  with assms [of k] show "(\<lambda>d. if blank (get_field e k) then d
      else AList.update k (get_field e k) d) = (\<lambda>d. if blank (get_field e' k) then d
      else AList.update k (get_field e' k) d)"
    by (auto simp: same_value_def)
qed

lemma identity_payload_eq_iff:
  assumes "identity_fields c = identity_fields c'"
  shows "identity_payload e c = identity_payload e' c' \<longleftrightarrow>
     rule_id e = rule_id e' \<and> dc_rule_version c = dc_rule_version c' \<and> host_id e = host_id e' \<and>
     list_all (\<lambda>k. same_value (get_field e k) (get_field e' k)) (identity_fields c)"
proof -
  have "present_fields e (identity_fields c) = present_fields e' (identity_fields c') \<longleftrightarrow>
      list_all (\<lambda>k. same_value (get_field e k) (get_field e' k)) (identity_fields c)"
    unfolding assms [symmetric] list_all_iff
    using present_fields_eq_imp_same [of e "identity_fields c" e']
      present_fields_cong [of "identity_fields c" e e'] by blast
  then show ?thesis by (simp add: identity_payload_def)
qed

text \<open>
  C39. Where SHA-256 does not confuse the identities of two events, they get one fingerprint exactly
  when rule, contract version, host and every identity field of the contract agree, a field that is
  missing and one that is blank counting as the same. The event type is no part of it.
\<close>

theorem same_fingerprint_iff_same_identity:
  assumes "identity_fields c = identity_fields c'"
    and "inj_on (digest env) {identity_payload e c, identity_payload e' c'}"
  shows "fst (calculate_fingerprints env e c) = fst (calculate_fingerprints env e' c') \<longleftrightarrow>
     rule_id e = rule_id e' \<and> dc_rule_version c = dc_rule_version c' \<and> host_id e = host_id e' \<and>
     list_all (\<lambda>k. same_value (get_field e k) (get_field e' k)) (identity_fields c)"
proof -
  have "fst (calculate_fingerprints env e c) = fst (calculate_fingerprints env e' c') \<longleftrightarrow>
      identity_payload e c = identity_payload e' c'"
    unfolding calculate_fingerprints_def Let_def fst_conv
    by (rule inj_on_eq_iff [OF assms(2)]) simp_all
  then show ?thesis using identity_payload_eq_iff [OF assms(1)] by simp
qed

text \<open>Two hosts under a digest that shows rule, version and host.\<close>

definition host_env :: alert_env where
  "host_env = demo_env\<lparr>dumps := (\<lambda>v. case v of
     JObj [(_, JStr a), (_, JStr b), (_, JStr h), _] \<Rightarrow> a @ b @ h | _ \<Rightarrow> '''')\<rparr>"

theorem same_fingerprint_iff_same_identity_witness:
  "fst (calculate_fingerprints host_env ((demo_event ''e1'')\<lparr>host_id := ''h1''\<rparr>) (new_contract ''R'' ''1'')) \<noteq>
   fst (calculate_fingerprints host_env ((demo_event ''e1'')\<lparr>host_id := ''h2''\<rparr>) (new_contract ''R'' ''1''))"
proof -
  let ?c = "new_contract ''R'' ''1''"
  let ?e = "\<lambda>h. (demo_event ''e1'')\<lparr>host_id := h\<rparr>"
  have "digest host_env (identity_payload (?e ''h1'') ?c) \<noteq> digest host_env (identity_payload (?e ''h2'') ?c)"
    by (simp add: digest_def identity_payload_def host_env_def demo_env_def new_contract_def
        demo_event_def new_event_def)
  then have "inj_on (digest host_env) {identity_payload (?e ''h1'') ?c, identity_payload (?e ''h2'') ?c}"
    by (auto simp: inj_on_def)
  then show ?thesis
    using same_fingerprint_iff_same_identity [of ?c ?c host_env "?e ''h1''" "?e ''h2''"]
    by (simp add: demo_event_def new_event_def)
qed

end
