(* ===== verification/Alert_Pipeline.thy ===== *)
theory Alert_Pipeline
  imports Alert_Suppression Alert_Fingerprint
begin

text \<open>
  The pipeline in front of the store (\<open>alerts/resilient_pipeline.py\<close>): conversion of monitor events,
  clock-rollback and flood detection with their own protected events, suppression, ingestion,
  periodic summaries, and the bounded fallback when the store fails.
\<close>

section \<open>Conversion of monitor events\<close>

text \<open>The fields of \<open>BackgroundMonitorEvent\<close> the pipeline reads.\<close>

record BackgroundMonitorEvent =
  bg_event_id :: string
  bg_timestamp :: string
  bg_event_type :: string
  bg_severity :: string
  bg_source :: string
  bg_process_name :: string
  bg_pid :: "int option"
  bg_evidence :: string
  bg_confidence :: string
  bg_recommendation :: string
  bg_metadata_json :: string
  bg_rule_id :: string
  bg_trigger_source :: string
  bg_trigger_rule_id :: string
  bg_related_path :: string
  bg_related_user :: string
  bg_related_network_endpoint :: string
  bg_related_file_hash :: string
  bg_current_state :: string
  bg_correlation_id :: string

text \<open>What one call reads from outside: the two clocks, the host name, the size of the database
  files, and the errors of SQLite (for the event and for a pipeline event before it) and of the
  fallback journal.\<close>

record pipeline_io =
  io_wall :: pyfloat
  io_mono :: pyfloat
  io_event_mono :: pyfloat
  io_meta_mono :: pyfloat
  io_hostname :: string
  io_used :: int
  io_fault :: "string option"
  io_meta_fault :: "string option"
  io_journal_fault :: bool

definition str_or :: "string \<Rightarrow> string \<Rightarrow> string" where
  "str_or a b = (if a \<noteq> '''' then a else b)"

text \<open>\<open>_metadata\<close>; \<open>loads\<close> is \<open>json.loads\<close> (\<open>None\<close> for a \<open>JSONDecodeError\<close>).\<close>

definition metadata_of :: "(string \<Rightarrow> json option) \<Rightarrow> BackgroundMonitorEvent \<Rightarrow> json_object" where
  "metadata_of loads ev = (case loads (str_or (bg_metadata_json ev) ''{}'') of
       None \<Rightarrow> [(''metadata_parse_error'', JBool True)]
     | Some (JObj d) \<Rightarrow> d
     | Some _ \<Rightarrow> [])"

text \<open>\<open>str(metadata.get(key) or "")\<close>.\<close>

definition meta_text :: "alert_env \<Rightarrow> json_object \<Rightarrow> string \<Rightarrow> string" where
  "meta_text env d key = (case map_of d key of
     None \<Rightarrow> '''' | Some v \<Rightarrow> if truthy v then json_str (py_str env) v else '''')"

text \<open>\<open>metadata.get(key) if isinstance(metadata.get(key), int) else None\<close>; a Boolean is read as the
  integer it equals.\<close>

definition meta_int :: "json_object \<Rightarrow> string \<Rightarrow> int option" where
  "meta_int d key = (case map_of d key of
     Some (JInt i) \<Rightarrow> Some i | Some (JBool b) \<Rightarrow> Some (if b then 1 else 0) | _ \<Rightarrow> None)"

definition meta_list :: "alert_env \<Rightarrow> json_object \<Rightarrow> string \<Rightarrow> string list" where
  "meta_list env d key = (case map_of d key of
     Some (JList xs) \<Rightarrow> map (json_str (py_str env)) (take 64 xs) | _ \<Rightarrow> [])"

definition with_fingerprints :: "alert_env \<Rightarrow> registry \<Rightarrow> SecurityEvent \<Rightarrow> SecurityEvent" where
  "with_fingerprints env reg e = (
     let (fp, mat) = calculate_fingerprints env e (contract_for reg e)
     in e\<lparr>fingerprint := fp, material_digest := mat\<rparr>)"

definition convert_event :: "alert_env \<Rightarrow> (string \<Rightarrow> json option) \<Rightarrow> pipeline_io \<Rightarrow> string \<Rightarrow>
    BackgroundMonitorEvent \<Rightarrow> SecurityEvent" where
  "convert_event env loads io now ev = (
     let md = metadata_of loads ev;
         rid = str_or (str_or (bg_rule_id ev) (bg_trigger_rule_id ev)) (bg_event_type ev);
         src = str_or (str_or (bg_trigger_source ev) (bg_source ev)) ''unknown-local-detector''
     in (new_event (bg_event_id ev) (bg_event_type ev) rid (str_lower (bg_severity ev))
          (bg_confidence ev) (bg_timestamp ev) (io_event_mono io) now src)
        \<lparr>rule_version := (case map_of md ''rule_version'' of None \<Rightarrow> ''1''
            | Some v \<Rightarrow> json_str (py_str env) v),
         source_process := bg_process_name ev, source_pid := bg_pid ev,
         host_id := str_or (meta_text env md ''host_id'') (io_hostname io),
         hostname := io_hostname io, user_uid := meta_int md ''user_uid'',
         user_name := bg_related_user ev,
         process_path := str_or (bg_related_path ev) (meta_text env md ''process_path''),
         process_signing_identifier := meta_text env md ''signing_identifier'',
         process_team_identifier := meta_text env md ''team_identifier'',
         process_hash := str_or (bg_related_file_hash ev) (meta_text env md ''process_hash''),
         parent_process := meta_text env md ''parent_process'',
         remote_address := str_or (bg_related_network_endpoint ev) (meta_text env md ''remote_address''),
         remote_port := meta_int md ''remote_port'',
         object_path := str_or (bg_related_path ev) (meta_text env md ''object_path''),
         action := str_or (meta_text env md ''action'') (bg_current_state ev),
         outcome := meta_text env md ''outcome'',
         attributes := JObj [(''evidence'', JStr (bg_evidence ev)),
           (''recommendation'', JStr (bg_recommendation ev)), (''metadata'', JObj md)],
         mitre_attack := meta_list env md ''mitre_attack'',
         cve_ids := meta_list env md ''cve_ids'', threat_tags := meta_list env md ''threat_tags'',
         correlation_id := bg_correlation_id ev, incident_id := meta_text env md ''incident_id''\<rparr>)"

definition from_background_event :: "alert_env \<Rightarrow> (string \<Rightarrow> json option) \<Rightarrow> registry \<Rightarrow> pipeline_io \<Rightarrow>
    string \<Rightarrow> BackgroundMonitorEvent \<Rightarrow> SecurityEvent" where
  "from_background_event env loads reg io now ev =
     with_fingerprints env reg (convert_event env loads io now ev)"

section \<open>State\<close>

text \<open>The fallback journal: absent, a regular file with its text, or anything else at its path.\<close>

datatype journal = NoJournal | Journal string | UnsafePath

record pipeline =
  pl_db :: alert_db
  pl_registry :: registry
  pl_last_wall :: pyfloat
  pl_last_mono :: pyfloat
  pl_windows :: "(string, pyfloat \<times> nat \<times> bool) odict"
  pl_summaries :: "(string, pyfloat) odict"
  pl_buffer :: "json list"
  pl_failed :: bool
  pl_journal :: journal

definition new_pipeline :: "alert_db \<Rightarrow> pyfloat \<Rightarrow> pyfloat \<Rightarrow> journal \<Rightarrow> pipeline" where
  "new_pipeline db wall mono_v j = \<lparr>pl_db = db, pl_registry = [], pl_last_wall = wall,
     pl_last_mono = mono_v, pl_windows = [], pl_summaries = [], pl_buffer = [], pl_failed = False,
     pl_journal = j\<rparr>"

definition read_utc :: "alert_env \<Rightarrow> pipeline \<Rightarrow> string \<times> pipeline" where
  "read_utc env p = (utc env (clock (pl_db p)),
     p\<lparr>pl_db := (pl_db p)\<lparr>clock := Suc (clock (pl_db p))\<rparr>\<rparr>)"

section \<open>Fallback\<close>

definition receipt_of :: "alert_env \<Rightarrow> SecurityEvent \<Rightarrow> string \<Rightarrow> string \<Rightarrow> json" where
  "receipt_of env e err t = JObj [(''event_id_digest'', JStr (sha env (event_id e))),
     (''event_type'', JStr (take 128 (event_type e))),
     (''priority'', JInt (int (priority_value (priority e)))),
     (''event_digest'', JStr (sha env (canonical_json env e))), (''error_type'', JStr err),
     (''recorded_at'', JStr t)]"

text \<open>The journal is appended to, or started over when the line would take it past its limit; an
  unsafe path or an \<open>OSError\<close> leaves it alone.\<close>

definition write_journal :: "AlertingConfig \<Rightarrow> bool \<Rightarrow> string \<Rightarrow> journal \<Rightarrow> journal" where
  "write_journal cfg fault line j = (
     if fault then j
     else case j of
       UnsafePath \<Rightarrow> UnsafePath
     | NoJournal \<Rightarrow> Journal line
     | Journal s \<Rightarrow> (if fallback_audit_maximum_bytes cfg < int (length s + length line)
         then Journal line else Journal (s @ line)))"

definition fallback_failure :: "alert_env \<Rightarrow> AlertingConfig \<Rightarrow> bool \<Rightarrow> SecurityEvent \<Rightarrow> string \<Rightarrow>
    pipeline \<Rightarrow> IngestDecision \<times> pipeline" where
  "fallback_failure env cfg fault e err p = (
     let (t, p1) = read_utc env p;
         receipt = receipt_of env e err t;
         line = dumps env receipt @ [CHR 0x0A]
     in (\<lparr>de_accepted = False, de_fingerprint = fingerprint e,
          de_disposition = ''logging_failure_emergency_buffer'', de_lifecycle = ''ACTIVE'',
          de_count = 1, de_notify = protected e, de_summary = False, de_material_change = False,
          de_severity_escalation = False, de_overflowed = False\<rparr>,
         p1\<lparr>pl_failed := True,
            pl_buffer := pop_excess (nat (emergency_buffer_capacity cfg)) (pl_buffer p1 @ [receipt]),
            pl_journal := write_journal cfg fault line (pl_journal p1)\<rparr>))"

section \<open>Ingestion\<close>

text \<open>\<open>_persist_meta_event\<close>: a validation error is not caught.\<close>

definition meta_event :: "pipeline_io \<Rightarrow> string \<Rightarrow> string \<Rightarrow> string \<Rightarrow> json_object \<Rightarrow> string \<Rightarrow> string \<Rightarrow>
    SecurityEvent" where
  "meta_event io ty trigger sev attrs t1 t2 =
     (new_event (''meta-'' @ ty @ ''-'' @ trigger) ty (''MSAA-'' @ str_upper ty) sev ''high'' t1
        (io_meta_mono io) t2 ''msaa-alert-pipeline'')
     \<lparr>source_type := ''internal_health'', host_id := io_hostname io, hostname := io_hostname io,
      attributes := JObj attrs\<rparr>"

definition persist_meta_event :: "alert_env \<Rightarrow> AlertingConfig \<Rightarrow> pipeline_io \<Rightarrow> string \<Rightarrow> string \<Rightarrow>
    string \<Rightarrow> json_object \<Rightarrow> pipeline \<Rightarrow> (alert_error + unit) \<times> pipeline" where
  "persist_meta_event env cfg io ty trigger sev attrs p = (
     let (t1, p1) = read_utc env p;
         (t2, p2) = read_utc env p1;
         meta = with_fingerprints env (pl_registry p2) (meta_event io ty trigger sev attrs t1 t2)
     in case ingest env cfg (io_used io) (io_meta_fault io) meta (pl_db p2) of
          (Ingested d e, db) \<Rightarrow> (Inr (), p2\<lparr>pl_db := db\<rparr>)
        | (Rejected err, db) \<Rightarrow> (Inl err, p2\<lparr>pl_db := db\<rparr>)
        | (StoreFailed e err, db) \<Rightarrow>
            (Inr (), snd (fallback_failure env cfg (io_journal_fault io) e err (p2\<lparr>pl_db := db\<rparr>))))"

definition remember_summary :: "AlertingConfig \<Rightarrow> string \<Rightarrow> pyfloat \<Rightarrow> pipeline \<Rightarrow> pipeline" where
  "remember_summary cfg fp now p = p\<lparr>pl_summaries :=
     touch_key (nat (maximum_active_fingerprints cfg)) fp now (pl_summaries p)\<rparr>"

text \<open>The window of a source after one more event: start, count, and whether the flood was reported.\<close>

definition next_window :: "pyfloat \<Rightarrow> (pyfloat \<times> nat \<times> bool) option \<Rightarrow> pyfloat \<times> nat \<times> bool" where
  "next_window now w = (
     let (started, n, reported) = (case w of None \<Rightarrow> (now, 0, False) | Some x \<Rightarrow> x);
         (started, n, reported) =
           (if 1 \<le> now - started then (now, 0, False) else (started, n, reported))
     in (started, Suc n, reported))"

definition track_source_pressure :: "alert_env \<Rightarrow> AlertingConfig \<Rightarrow> pipeline_io \<Rightarrow> SecurityEvent \<Rightarrow>
    pipeline \<Rightarrow> (alert_error + unit) \<times> pipeline" where
  "track_source_pressure env cfg io e p = (
     let (started, n, reported) = next_window (io_mono io) (map_of (pl_windows p) (source_id e));
         ws = pop_excess (nat (maximum_source_windows cfg))
           (AList.delete (source_id e) (pl_windows p) @ [(source_id e, (started, n, reported))])
     in if source_rate_per_second cfg < int n \<and> \<not> reported \<and> event_type e \<noteq> ''alert_flood_detected''
        then
          let p1 = p\<lparr>pl_windows := AList.update (source_id e) (started, n, True) ws\<rparr>;
              (r, p2) = persist_meta_event env cfg io ''alert_flood_detected'' (event_id e) ''critical''
                [(''source_digest'', JStr (sha env (source_id e))), (''window_count'', JInt (int n)),
                 (''window_seconds'', JInt 1)] p1
          in (case r of Inl err \<Rightarrow> (Inl err, p2)
              | Inr _ \<Rightarrow> (Inr (), p2\<lparr>pl_db := commit (bump_metric env ''flood_detections'' 1 (pl_db p2))\<rparr>))
        else (Inr (), p\<lparr>pl_windows := ws\<rparr>))"

text \<open>The call of \<open>_persist_meta_event\<close> when the wall clock fell behind by more than five minutes.\<close>

definition check_rollback :: "alert_env \<Rightarrow> AlertingConfig \<Rightarrow> pipeline_io \<Rightarrow> string \<Rightarrow> pyfloat \<Rightarrow>
    pyfloat \<Rightarrow> pipeline \<Rightarrow> (alert_error + unit) \<times> pipeline" where
  "check_rollback env cfg io eid wall_delta mono_delta p = (
     if wall_delta - mono_delta < - 300
     then persist_meta_event env cfg io ''system_time_rollback'' eid ''critical''
       [(''wall_delta_seconds'', JFloat wall_delta), (''monotonic_delta_seconds'', JFloat mono_delta)] p
     else (Inr (), p))"

definition apply_suppression :: "alert_env \<Rightarrow> SecurityEvent \<Rightarrow> pipeline \<Rightarrow> SecurityEvent \<times> pipeline" where
  "apply_suppression env e p = (
     let (rid, db) = matching_rule env e (pl_db p);
         e1 = e\<lparr>suppression_rule_id := rid\<rparr>
     in (if rid = '''' then e1
         else e1\<lparr>suppression_reason := ''authorized exact-match suppression; evidence retained'',
                 notification_disposition := ''suppressed''\<rparr>,
         p\<lparr>pl_db := db\<rparr>))"

definition note_recovery :: "alert_env \<Rightarrow> string \<Rightarrow> pipeline \<Rightarrow> pipeline" where
  "note_recovery env eid p = (if pl_failed p
     then p\<lparr>pl_db := commit (audit env ''event_store_recovered'' ''pipeline''
              ''durable writes resumed'' eid
              [(''buffered_receipts'', JInt (int (length (pl_buffer p))))] (pl_db p)),
            pl_failed := False\<rparr>
     else p)"

text \<open>After the store has taken the event: a summary is queued when the last one for the
  fingerprint is old enough, and the time of the last notification is remembered.\<close>

definition summarise :: "alert_env \<Rightarrow> AlertingConfig \<Rightarrow> pipeline_io \<Rightarrow> SecurityEvent \<Rightarrow>
    IngestDecision \<Rightarrow> pipeline \<Rightarrow> IngestDecision \<times> pipeline" where
  "summarise env cfg io e d p = (
     let last_summary = od_get (pl_summaries p) (de_fingerprint d) (io_mono io)
     in if de_accepted d \<and> \<not> de_notify d \<and>
           of_int (summary_interval_seconds cfg) \<le> io_mono io - last_summary
        then
          let (queued, db) = queue_periodic_summary env cfg e (de_fingerprint d) (pl_db p);
              d' = (if queued then d\<lparr>de_notify := True, de_summary := True,
                      de_disposition := ''periodic_summary''\<rparr> else d)
          in (d', remember_summary cfg (de_fingerprint d') (io_mono io) (p\<lparr>pl_db := db\<rparr>))
        else if de_notify d then (d, remember_summary cfg (de_fingerprint d) (io_mono io) p)
        else (d, p))"

definition note_rejection :: "alert_env \<Rightarrow> BackgroundMonitorEvent \<Rightarrow> SecurityEvent \<Rightarrow> pipeline \<Rightarrow>
    pipeline" where
  "note_rejection env ev e p = p\<lparr>pl_db := commit (audit env ''event_rejected'' ''pipeline''
     ''schema or size validation failed'' (sha env (bg_event_id ev))
     [(''source_digest'', JStr (sha env (source_id e)))]
     (bump_metric env ''events_rejected'' 1 (pl_db p)))\<rparr>"

definition store_event :: "alert_env \<Rightarrow> AlertingConfig \<Rightarrow> pipeline_io \<Rightarrow> BackgroundMonitorEvent \<Rightarrow>
    SecurityEvent \<Rightarrow> pipeline \<Rightarrow> (alert_error + IngestDecision) \<times> pipeline" where
  "store_event env cfg io ev e p = (
     case ingest env cfg (io_used io) (io_fault io) e (pl_db p) of
       (Ingested d e', db) \<Rightarrow>
         (let (d', p') = summarise env cfg io e' d (note_recovery env (bg_event_id ev) (p\<lparr>pl_db := db\<rparr>))
          in (Inr d', p'))
     | (Rejected err, db) \<Rightarrow> (Inl err, note_rejection env ev e (p\<lparr>pl_db := db\<rparr>))
     | (StoreFailed e' err, db) \<Rightarrow>
         (let (d, p') = fallback_failure env cfg (io_journal_fault io) e' err (p\<lparr>pl_db := db\<rparr>)
          in (Inr d, p')))"

definition ingest_background_event :: "alert_env \<Rightarrow> AlertingConfig \<Rightarrow> (string \<Rightarrow> json option) \<Rightarrow>
    pipeline_io \<Rightarrow> BackgroundMonitorEvent \<Rightarrow> pipeline \<Rightarrow> (alert_error + IngestDecision) \<times> pipeline" where
  "ingest_background_event env cfg loads io ev p = (
     let wall_delta = io_wall io - pl_last_wall p;
         mono_delta = io_mono io - pl_last_mono p;
         (t, p1) = read_utc env (p\<lparr>pl_last_wall := io_wall io, pl_last_mono := io_mono io\<rparr>);
         e = from_background_event env loads (pl_registry p1) io t ev
     in case check_rollback env cfg io (bg_event_id ev) wall_delta mono_delta p1 of
          (Inl err, p2) \<Rightarrow> (Inl err, p2)
        | (Inr _, p2) \<Rightarrow> (case track_source_pressure env cfg io e p2 of
            (Inl err, p3) \<Rightarrow> (Inl err, p3)
          | (Inr _, p3) \<Rightarrow>
              (let (e', p4) = apply_suppression env e p3 in store_event env cfg io ev e' p4)))"

end
