(* ===== verification/Alert_Notify.thy ===== *)
theory Alert_Notify
  imports Alert_Ledger Alert_Redaction
begin

text \<open>
  Which events notify, and what the notification queue holds: the decimal test for later summary
  thresholds, a storm of exact duplicates, and the slots reserved for urgent notifications.
\<close>

section \<open>Summary thresholds\<close>

lemma digit_chars:
  "(char_of (48::nat) :: char) = CHR ''0''" "(char_of (49::nat) :: char) = CHR ''1''"
  by code_simp+

lemma str_nat_power: "str_nat (10 ^ k) = CHR ''1'' # replicate k CHR ''0''"
proof (induction k)
  case 0
  show ?case by (subst str_nat.simps) (simp add: digit_chars)
next
  case (Suc k)
  have "str_nat (10 ^ Suc k) = str_nat (10 ^ k) @ ''0''"
    by (subst str_nat.simps) (simp add: not_less digit_chars)
  then show ?case using Suc by (simp add: replicate_append_same)
qed

lemma digit_eq: "m < 10 \<Longrightarrow> (char_of (48 + m) :: char) = char_of (48 + n) \<Longrightarrow> n < 10 \<Longrightarrow> m = (n::nat)"
  by (auto dest: arg_cong [where f = "of_char :: char \<Rightarrow> nat"])

lemma str_nat_nonempty: "str_nat n \<noteq> []"
  by (subst str_nat.simps) simp

lemma leading_one_then_zeros:
  "hd (str_nat n) = CHR ''1'' \<Longrightarrow> set (tl (str_nat n)) \<subseteq> {CHR ''0''} \<Longrightarrow> \<exists>k. n = 10 ^ k"
proof (induction n rule: less_induct)
  case (less n)
  show ?case
  proof (cases "n < 10")
    case True
    then have "str_nat n = [char_of (48 + n)]" by (subst str_nat.simps) simp
    then have "(char_of (48 + n) :: char) = char_of (48 + 1 :: nat)" using less.prems(1) digit_chars by simp
    then have "n = 1" by (rule digit_eq [OF True]) simp
    then show ?thesis by (intro exI [of _ 0]) simp
  next
    case False
    let ?m = "n div 10"
    have s: "str_nat n = str_nat ?m @ [char_of (48 + n mod 10)]"
      using False by (subst str_nat.simps) simp
    have "(char_of (48 + n mod 10) :: char) = char_of (48 + 0 :: nat)"
      using less.prems(2) digit_chars str_nat_nonempty [of ?m] unfolding s by simp
    then have m0: "n mod 10 = 0" by (rule digit_eq [rotated]) simp_all
    have "hd (str_nat ?m) = CHR ''1''" and "set (tl (str_nat ?m)) \<subseteq> {CHR ''0''}"
      using less.prems str_nat_nonempty [of ?m] unfolding s by simp_all
    then obtain k where "?m = 10 ^ k" using less.IH [of ?m] False by auto
    then have "n = 10 ^ Suc k" using m0 by (simp add: mult.commute) presburger
    then show ?thesis by blast
  qed
qed

lemma power_of_ten_text_iff: "power_of_ten_text n \<longleftrightarrow> (\<exists>k. 0 < k \<and> n = 10 ^ k)"
proof
  assume p: "power_of_ten_text n"
  then have "hd (str_nat n) = CHR ''1''" and z: "set (tl (str_nat n)) = {CHR ''0''}"
    using str_nat_nonempty [of n]
    by (auto simp: power_of_ten_text_def startswith_def Let_def take_Suc)
  then obtain k where k: "n = 10 ^ k" using leading_one_then_zeros [of n] by auto
  have "k \<noteq> 0"
  proof
    assume "k = 0"
    then have "tl (str_nat n) = []" using k str_nat_power [of 0] by simp
    with z show False by simp
  qed
  with k show "\<exists>k. 0 < k \<and> n = 10 ^ k" by blast
next
  assume "\<exists>k. 0 < k \<and> n = 10 ^ k"
  then show "power_of_ten_text n"
    by (auto simp: power_of_ten_text_def startswith_def str_nat_power)
qed

text \<open>With the default thresholds the summaries come at ten and at every later power of ten.\<close>

lemma default_threshold_iff:
  assumes "summary_thresholds cfg = [10, 100, 1000]"
  shows "is_threshold cfg n \<longleftrightarrow> (\<exists>k. 0 < k \<and> n = 10 ^ k)"
proof -
  have small: "(\<exists>k. 0 < k \<and> n = 10 ^ k) \<longleftrightarrow> n = 10 \<or> n = 100 \<or> n = 1000" if "n \<le> 1000"
  proof
    assume "\<exists>k. 0 < k \<and> n = 10 ^ k"
    then obtain k where k: "0 < k" "n = 10 ^ k" by blast
    have "(10::nat) ^ k \<le> 10 ^ 3" using that k(2) by simp
    then have "k \<le> 3" by (simp only: power_increasing_iff)
    then have "k = 1 \<or> k = 2 \<or> k = 3" using k(1) by arith
    then show "n = 10 \<or> n = 100 \<or> n = 1000" using k(2) by auto
  next
    assume "n = 10 \<or> n = 100 \<or> n = 1000"
    then have "n = 10 ^ 1 \<or> n = 10 ^ 2 \<or> n = 10 ^ 3" by simp
    then show "\<exists>k. 0 < k \<and> n = 10 ^ k" by (metis zero_less_numeral zero_less_one)
  qed
  show ?thesis
  proof (cases "n \<le> 1000")
    case True
    then show ?thesis using small by (auto simp: is_threshold_def assms)
  next
    case False
    then show ?thesis by (simp add: is_threshold_def assms power_of_ten_text_iff)
  qed
qed

section \<open>A storm of exact duplicates\<close>

lemma validate_Inr:
  "validate env n l e = Inr e' \<Longrightarrow> \<exists>v. e' = e\<lparr>attributes := v\<rparr>"
  by (auto simp: validate_def py_bind_Inr_iff Let_def split: if_splits)

lemma find_map_update:
  "(\<And>a. f (g a) = f a) \<Longrightarrow>
   find (\<lambda>a. f a = k) (map (\<lambda>a. if f a = k then g a else a) xs) = map_option g (find (\<lambda>a. f a = k) xs)"
  by (induction xs) auto

lemma find_append: "find P (xs @ ys) = (case find P xs of None \<Rightarrow> find P ys | Some x \<Rightarrow> Some x)"
  by (induction xs) auto

lemma find_aggregate_upsert:
  "find_aggregate (ag_fingerprint row) (upsert_aggregate nt cp row db) =
     Some (case find_aggregate (ag_fingerprint row) db of None \<Rightarrow> row | Some a \<Rightarrow> merge_row nt cp row a)"
proof (cases "find_aggregate (ag_fingerprint row) db")
  case None
  then have "ag_fingerprint row \<notin> set (map ag_fingerprint (aggregates db))"
    by (rule find_aggregate_None [THEN iffD1])
  then have "aggregates (upsert_aggregate nt cp row db) = aggregates db @ [row]"
    by (simp add: upsert_aggregate_def)
  then show ?thesis using None by (simp add: find_aggregate_def find_append)
next
  case (Some a)
  then have "ag_fingerprint row \<in> set (map ag_fingerprint (aggregates db))"
    using find_aggregate_None [of "ag_fingerprint row" db] by (metis option.distinct(1))
  then have "aggregates (upsert_aggregate nt cp row db) =
      map (\<lambda>a. if ag_fingerprint a = ag_fingerprint row then merge_row nt cp row a else a)
        (aggregates db)"
    by (simp add: upsert_aggregate_def)
  then show ?thesis using Some by (simp add: find_aggregate_def find_map_update)
qed

text \<open>An aggregate as a storm of \<open>e0\<close> leaves it after \<open>n\<close> receipts.\<close>

definition storm_row :: "SecurityEvent \<Rightarrow> nat \<Rightarrow> aggregate_row \<Rightarrow> bool" where
  "storm_row e0 n a \<longleftrightarrow> ag_count a = n \<and> ag_severity a = severity e0 \<and>
     ag_material a = material_digest e0 \<and> ag_lifecycle a \<noteq> ''RESOLVED''"

definition storm_state :: "SecurityEvent \<Rightarrow> nat \<Rightarrow> alert_db \<Rightarrow> bool" where
  "storm_state e0 n db \<longleftrightarrow> \<not> in_txn db \<and> (case find_aggregate (fingerprint e0) db of
     None \<Rightarrow> n = 0 | Some a \<Rightarrow> 0 < n \<and> storm_row e0 n a)"

text \<open>A valid event that repeats \<open>e0\<close>: same fingerprint, severity and material digest, no
  suppression.\<close>

definition repeats :: "alert_env \<Rightarrow> AlertingConfig \<Rightarrow> SecurityEvent \<Rightarrow> SecurityEvent \<Rightarrow> bool" where
  "repeats env cfg e0 e \<longleftrightarrow>
     (case validate env (maximum_event_size_bytes cfg) (limits_of cfg) e of
        Inl _ \<Rightarrow> False | Inr _ \<Rightarrow> True) \<and>
     fingerprint e = fingerprint e0 \<and> material_digest e = material_digest e0 \<and>
     severity e = severity e0 \<and> suppression_rule_id e = ''''"

fun ingest_all :: "alert_env \<Rightarrow> AlertingConfig \<Rightarrow> int \<Rightarrow> SecurityEvent list \<Rightarrow> alert_db \<Rightarrow>
    ingest_result list \<times> alert_db" where
  "ingest_all env cfg used [] db = ([], db)"
| "ingest_all env cfg used (e # es) db = (
     let (r, db1) = ingest env cfg used None e db;
         (rs, db2) = ingest_all env cfg used es db1
     in (r # rs, db2))"

fun notified :: "ingest_result \<Rightarrow> bool" where
  "notified (Ingested d e) = de_notify d"
| "notified _ = False"

lemma storm_new:
  assumes st: "storm_state e0 n db" and "maximum_active_fingerprints cfg > int (active_count db) \<or> 0 < n"
    and e: "fingerprint e = fingerprint e0" "material_digest e = material_digest e0"
      "severity e = severity e0" "suppression_rule_id e = ''''"
  shows "storm_state e0 (Suc n) (snd (ingest_new env cfg used e db))"
    and "de_notify (fst (ingest_new env cfg used e db)) \<longleftrightarrow> n = 0 \<or> is_threshold cfg (Suc n)"
proof -
  let ?agg = "find_aggregate (fingerprint e0) db"
  have over: "\<not> is_overflow cfg e db"
    using assms(1,2) e by (auto simp: is_overflow_def storm_state_def split: option.splits)
  then have fp: "storage_fingerprint env cfg e db = fingerprint e0"
    using e by (simp add: storage_fingerprint_def)
  then have agg: "ing_agg env cfg e db = ?agg" by (simp add: ing_agg_def)
  have n: "fl_count (ing_flags env cfg e db) = Suc n"
    using st by (auto simp: ing_flags_def agg fl_count_decide storm_state_def storm_row_def
        split: option.splits)
  show "de_notify (fst (ingest_new env cfg used e db)) \<longleftrightarrow> n = 0 \<or> is_threshold cfg (Suc n)"
    using st e unfolding ingest_new_decision ing_flags_def agg
    by (auto simp: decide_def Let_def storm_state_def storm_row_def split: option.splits)
  have new: "ag_severity (ing_row env cfg used e db) = severity e0"
    "ag_material (ing_row env cfg used e db) = material_digest e0"
    "ag_lifecycle (ing_row env cfg used e db) \<noteq> ''RESOLVED''"
    "ag_count (ing_row env cfg used e db) = Suc n"
    using e n by (simp_all add: ing_row_def excluded_row_def Let_def)
  have "find_aggregate (fingerprint e0) (snd (ingest_new env cfg used e db)) =
      find_aggregate (ag_fingerprint (ing_row env cfg used e db))
        (upsert_aggregate (fl_notify (ing_flags env cfg e db)) (ing_digest env cfg used e db \<noteq> '''')
          (ing_row env cfg used e db) db)"
    by (simp add: find_aggregate_def ingest_new_aggregates fp)
  then obtain a where "find_aggregate (fingerprint e0) (snd (ingest_new env cfg used e db)) = Some a"
    and "storm_row e0 (Suc n) a"
    unfolding find_aggregate_upsert using new
    by (auto simp: storm_row_def merge_row_def split: option.splits)
  then show "storm_state e0 (Suc n) (snd (ingest_new env cfg used e db))"
    by (simp add: storm_state_def ingest_new_committed)
qed

lemma storm_step:
  assumes st: "storm_state e0 n db"
    and room: "maximum_active_fingerprints cfg > int (active_count db) \<or> 0 < n"
    and rep: "repeats env cfg e0 e" and fresh: "event_id e \<notin> set (map le_event_id (ledger db))"
  shows "\<exists>r db'. ingest env cfg used None e db = (r, db') \<and>
     (notified r \<longleftrightarrow> n = 0 \<or> is_threshold cfg (Suc n)) \<and> storm_state e0 (Suc n) db' \<and>
     map le_event_id (ledger db') = map le_event_id (ledger db) @ [event_id e]"
proof -
  obtain e' where v: "validate env (maximum_event_size_bytes cfg) (limits_of cfg) e = Inr e'"
    using rep by (auto simp: repeats_def split: sum.splits)
  obtain w where w: "e' = e\<lparr>attributes := w\<rparr>" using validate_Inr [OF v] by blast
  have e': "fingerprint e' = fingerprint e0" "material_digest e' = material_digest e0"
    "severity e' = severity e0" "suppression_rule_id e' = ''''" "event_id e' = event_id e"
    using rep by (simp_all add: repeats_def w)
  have "find (\<lambda>r. le_event_id r = event_id e') (ledger db) = None"
    using fresh by (auto simp: find_None_iff e' image_iff)
  then have "ingest env cfg used None e db = (Ingested (fst (ingest_new env cfg used e' db)) e',
      snd (ingest_new env cfg used e' db))"
    using st by (simp add: ingest_def v ingest_transaction_def storm_state_def case_prod_beta' Let_def)
  moreover have "map le_event_id (ledger (snd (ingest_new env cfg used e' db))) =
      map le_event_id (ledger db) @ [event_id e]"
    by (simp add: ingest_new_ledger ing_rows_def e')
  ultimately show ?thesis using storm_new [OF st room e'(1-4), of env used] by simp
qed

lemma storm_run:
  assumes "storm_state e0 n db" and "maximum_active_fingerprints cfg > int (active_count db) \<or> 0 < n"
    and "list_all (repeats env cfg e0) es"
    and "distinct (map le_event_id (ledger db) @ map event_id es)"
  shows "map notified (fst (ingest_all env cfg used es db)) =
     map (\<lambda>i. i = 1 \<or> is_threshold cfg i) [Suc n..<Suc (n + length es)]"
  using assms
proof (induction es arbitrary: n db)
  case (Cons e es)
  obtain r db' where r: "ingest env cfg used None e db = (r, db')"
    "notified r \<longleftrightarrow> n = 0 \<or> is_threshold cfg (Suc n)" "storm_state e0 (Suc n) db'"
    "map le_event_id (ledger db') = map le_event_id (ledger db) @ [event_id e]"
    using storm_step [OF Cons.prems(1,2), of env e used] Cons.prems(3,4) by auto
  have d: "distinct (map le_event_id (ledger db') @ map event_id es)"
    using Cons.prems(4) unfolding r(4) by simp
  have "map notified (fst (ingest_all env cfg used es db')) =
      map (\<lambda>i. i = 1 \<or> is_threshold cfg i) [Suc (Suc n)..<Suc (Suc n + length es)]"
    using Cons.IH [OF r(3) _ _ d] Cons.prems(3) by simp
  then show ?case using r(1,2) by (simp add: case_prod_beta' Let_def upt_conv_Cons del: upt_Suc)
qed simp

lemma length_ingest_all [simp]: "length (fst (ingest_all env cfg used es db)) = length es"
  by (induction es arbitrary: db) (simp_all add: case_prod_beta' Let_def)

lemma count_powers:
  "count_if (\<lambda>i. i = 1 \<or> (\<exists>j. 0 < j \<and> i = 10 ^ j)) [1..<Suc (10 ^ k)] = Suc k"
proof -
  let ?P = "\<lambda>i. i = 1 \<or> (\<exists>j. 0 < j \<and> i = 10 ^ j)"
  have "(\<lambda>i. (10::nat) ^ i) ` {..k} = {i \<in> {1..<Suc (10 ^ k)}. ?P i}"
  proof (intro equalityI subsetI)
    fix i assume "i \<in> (\<lambda>i. (10::nat) ^ i) ` {..k}"
    then obtain j where "j \<le> k" "i = 10 ^ j" by blast
    then show "i \<in> {i \<in> {1..<Suc (10 ^ k)}. ?P i}"
      by (cases "j = 0") (auto simp: le_imp_less_Suc power_increasing)
  next
    fix i assume "i \<in> {i \<in> {1..<Suc (10 ^ k)}. ?P i}"
    then have i: "i \<le> 10 ^ k" "?P i" by auto
    then obtain j where j: "i = 10 ^ j" by (metis power_0)
    then have "j \<le> k" using i(1) by (simp only: power_increasing_iff)
    then show "i \<in> (\<lambda>i. (10::nat) ^ i) ` {..k}" using j by blast
  qed
  moreover have "card ((\<lambda>i. (10::nat) ^ i) ` {..k}) = Suc k"
    by (subst card_image) (auto simp: inj_on_def)
  moreover have "count_if ?P [1..<Suc (10 ^ k)] = card {i \<in> {1..<Suc (10 ^ k)}. ?P i}"
    unfolding count_if_def using distinct_card [of "filter ?P [1..<Suc (10 ^ k)]"]
    by (simp only: set_filter set_upt distinct_filter distinct_upt simp_thms)
  ultimately show ?thesis by simp
qed

text \<open>
  C10. A storm of exact duplicates notifies logarithmically often: of \<open>10 ^ k\<close> valid, unsuppressed events
  with one fingerprint, severity and material digest and distinct identifiers, ingested into an empty
  store with the default configuration, exactly \<open>k + 1\<close> notify - the first, and those that
  complete a power of ten.
\<close>

theorem storm_notifies_logarithmically:
  assumes "list_all (repeats env default_config e0) es" and "distinct (map event_id es)"
    and "length es = 10 ^ k"
  shows "count_if notified (fst (ingest_all env default_config used es empty_db)) = k + 1"
proof -
  have st: "storm_state e0 0 empty_db" and "active_count empty_db = 0"
    by (simp_all add: storm_state_def empty_db_def find_aggregate_def active_count_def count_if_def)
  then have "map notified (fst (ingest_all env default_config used es empty_db)) =
      map (\<lambda>i. i = 1 \<or> is_threshold default_config i) [Suc 0..<Suc (0 + length es)]"
    by (intro storm_run [OF st _ assms(1)]) (use assms(2) in \<open>simp_all add: default_config_def empty_db_def\<close>)
  moreover have "is_threshold default_config i \<longleftrightarrow> (\<exists>j. 0 < j \<and> i = 10 ^ j)" for i
    by (rule default_threshold_iff) (simp add: default_config_def)
  ultimately have "map notified (fst (ingest_all env default_config used es empty_db)) =
      map (\<lambda>i. i = 1 \<or> (\<exists>j. 0 < j \<and> i = 10 ^ j)) [1..<Suc (10 ^ k)]"
    using assms(3) by simp
  moreover have count_map: "count_if p xs = count_if id (map p xs)" for p :: "'x \<Rightarrow> bool" and xs
    by (simp add: count_if_def filter_map comp_def)
  ultimately show ?thesis
    using count_powers [of k] by (simp only: count_map [of notified] count_map [of "\<lambda>i. i = 1 \<or> _ i"])
qed

definition demo_ids :: "string list" where
  "demo_ids = [''a'', ''b'', ''c'', ''d'', ''e'', ''f'', ''g'', ''h'', ''i'', ''j'']"

lemma demo_ids_ok: "list_all (\<lambda>x. str_strip x \<noteq> '''' \<and> length x \<le> 256) demo_ids" "distinct demo_ids"
  by code_simp+

theorem storm_notifies_logarithmically_witness:
  "count_if notified (fst (ingest_all demo_env default_config 0 (map demo_event demo_ids) empty_db)) = 2"
proof -
  have ids: "event_id (demo_event x) = x" for x by (simp add: demo_event_def new_event_def)
  have "repeats demo_env default_config (demo_event ''a'') (demo_event x)" if "x \<in> set demo_ids" for x
    using demo_alert_valid [of x] demo_ids_ok(1) that
    by (simp add: repeats_def list_all_iff demo_event_def new_event_def)
  then have "list_all (repeats demo_env default_config (demo_event ''a'')) (map demo_event demo_ids)"
    by (simp add: list_all_iff)
  moreover have "distinct (map event_id (map demo_event demo_ids))"
    using demo_ids_ok(2) by (simp add: comp_def ids)
  moreover have "length (map demo_event demo_ids) = 10 ^ 1" by (simp add: demo_ids_def)
  ultimately show ?thesis
    using storm_notifies_logarithmically
      [of demo_env "demo_event ''a''" "map demo_event demo_ids" 1 0] by simp
qed

section \<open>The notification queue\<close>

definition is_pending :: "queue_row \<Rightarrow> bool" where
  "is_pending q \<longleftrightarrow> nq_state q = ''pending''"

definition urgent_pending :: "alert_db \<Rightarrow> nat" where
  "urgent_pending db = count_if (\<lambda>q. is_pending q \<and> nq_priority q \<le> 1) (queue db)"

definition ordinary_pending :: "alert_db \<Rightarrow> nat" where
  "ordinary_pending db = count_if (\<lambda>q. is_pending q \<and> 1 < nq_priority q) (queue db)"

lemma count_if_split:
  "count_if P xs = count_if (\<lambda>x. P x \<and> Q x) xs + count_if (\<lambda>x. P x \<and> \<not> Q x) xs"
  by (induction xs) (auto simp: count_if_def)

lemma pending_split: "pending_count db = urgent_pending db + ordinary_pending db"
  using count_if_split [of "\<lambda>q. nq_state q = ''pending''" "queue db" "\<lambda>q. nq_priority q \<le> 1"]
  by (simp add: pending_count_def urgent_pending_def ordinary_pending_def is_pending_def not_le)

text \<open>The queue is within its capacity, and the ordinary notifications leave the reserve free.\<close>

definition reserve_ok :: "AlertingConfig \<Rightarrow> alert_db \<Rightarrow> bool" where
  "reserve_ok cfg db \<longleftrightarrow> int (pending_count db) \<le> max 0 (notification_capacity cfg) \<and>
     int (ordinary_pending db) \<le> max 0 (notification_capacity cfg - protected_capacity cfg)"

lemma insert_or_ignore_queue:
  "queue (snd (insert_or_ignore eid fp prio reason created db)) = queue db \<or>
   (\<exists>q. queue (snd (insert_or_ignore eid fp prio reason created db)) = queue db @ [q] \<and>
      nq_priority q = prio)"
  by (simp add: insert_or_ignore_def Let_def)

lemma ingest_new_queue:
  "queue (snd (ingest_new env cfg used e db)) = queue db \<or>
   queue_has_room cfg (priority_value (priority e)) (pending_count db) \<and>
   (\<exists>q. queue (snd (ingest_new env cfg used e db)) = queue db @ [q] \<and>
      nq_priority q = priority_value (priority e))"
proof -
  have "queue (snd (notify_step env cfg e fp nt reason db')) = queue db \<or>
      queue_has_room cfg (priority_value (priority e)) (pending_count db) \<and>
      (\<exists>q. queue (snd (notify_step env cfg e fp nt reason db')) = queue db @ [q] \<and>
        nq_priority q = priority_value (priority e))"
    if "queue db' = queue db" for fp nt reason db'
    using that insert_or_ignore_queue [of "event_id e" fp "priority_value (priority e)" reason
        "ingestion_timestamp_utc e" db']
    by (auto simp: notify_step_def Let_def pending_count_def)
  then show ?thesis
    by (simp add: ingest_new_def Let_def case_prod_beta' decision_audit_def)
qed

lemma reserve_ok_snoc:
  assumes "reserve_ok cfg db" and "queue_has_room cfg prio (pending_count db)"
    and "queue db' = queue db @ [q]" and "nq_priority q = prio"
  shows "reserve_ok cfg db'"
proof -
  have "pending_count db' \<le> Suc (pending_count db)"
    using assms(3) by (simp add: pending_count_def count_if_def)
  moreover have "ordinary_pending db' \<le> ordinary_pending db + (if 1 < prio then 1 else 0)"
    using assms(3,4) by (simp add: ordinary_pending_def count_if_def)
  moreover have "ordinary_pending db \<le> pending_count db" by (simp add: pending_split)
  ultimately show ?thesis using assms(1,2)
    by (auto simp: reserve_ok_def queue_has_room_def split: if_splits)
qed

lemma reserve_ok_ingest:
  assumes "reserve_ok cfg db"
  shows "reserve_ok cfg (snd (ingest env cfg used fault e db))"
proof -
  have same: "reserve_ok cfg db'" if "queue db' = queue db" for db'
    using assms that by (simp add: reserve_ok_def pending_count_def ordinary_pending_def)
  have "reserve_ok cfg (snd (ingest_new env cfg used e' db))" for e'
    using ingest_new_queue [of env cfg used e' db] same reserve_ok_snoc [OF assms] by metis
  then show ?thesis using assms same
    by (auto simp: ingest_def ingest_transaction_def case_prod_beta' Let_def
        split: sum.split option.split)
qed

lemma count_if_map_le:
  "(\<And>x. P (f x) \<Longrightarrow> P x) \<Longrightarrow> count_if P (map f xs) \<le> count_if P xs"
  by (induction xs) (auto simp: count_if_def)

lemma reserve_ok_mark:
  assumes "reserve_ok cfg db"
  shows "reserve_ok cfg (mark_notification env k b err db)"
proof -
  let ?f = "\<lambda>q. if nq_id q = k then q\<lparr>nq_state := if b then ''delivered'' else ''failed'',
    nq_attempts := nq_attempts q + 1\<rparr> else q"
  have q: "queue (mark_notification env k b err db) = map ?f (queue db)"
    by (simp add: mark_notification_def Let_def)
  have p: "nq_state (?f x) = ''pending'' \<Longrightarrow> nq_state x = ''pending''" for x
    by (simp split: if_splits)
  have "pending_count (mark_notification env k b err db) \<le> pending_count db"
    unfolding pending_count_def q by (rule count_if_map_le) (rule p)
  moreover have "ordinary_pending (mark_notification env k b err db) \<le> ordinary_pending db"
    unfolding ordinary_pending_def q is_pending_def
  proof (rule count_if_map_le)
    fix x assume "nq_state (?f x) = ''pending'' \<and> 1 < nq_priority (?f x)"
    then show "nq_state x = ''pending'' \<and> 1 < nq_priority x" using p [of x] by (auto split: if_splits)
  qed
  ultimately show ?thesis using assms by (auto simp: reserve_ok_def)
qed

lemma lifecycle_loop_queue: "queue (snd (lifecycle_loop env cfg parse now rows n db)) = queue db"
  by (induction rows arbitrary: n db) (auto simp: Let_def set_lifecycle_def split: option.split)

lemma reserve_ok_advance:
  "reserve_ok cfg db \<Longrightarrow> reserve_ok cfg (snd (advance_lifecycle env cfg' parse now db))"
  by (simp add: advance_lifecycle_def lifecycle_loop_queue reserve_ok_def pending_count_def
      ordinary_pending_def split: option.split)

datatype store_op =
    StoreIngest int "string option" SecurityEvent
  | StoreMark nat bool string
  | StoreAdvance string

fun exec_store :: "alert_env \<Rightarrow> AlertingConfig \<Rightarrow> (string \<Rightarrow> datetime option) \<Rightarrow> store_op \<Rightarrow> alert_db \<Rightarrow>
    alert_db" where
  "exec_store env cfg parse (StoreIngest used fault e) db = snd (ingest env cfg used fault e db)"
| "exec_store env cfg parse (StoreMark k b err) db = mark_notification env k b err db"
| "exec_store env cfg parse (StoreAdvance now) db = snd (advance_lifecycle env cfg parse now db)"

interpretation reserve: invariant_machine "exec_store env cfg parse" "reserve_ok cfg"
proof
  fix db and op :: store_op
  assume "reserve_ok cfg db"
  then show "reserve_ok cfg (exec_store env cfg parse op db)"
    by (cases op) (simp_all add: reserve_ok_ingest reserve_ok_mark reserve_ok_advance)
qed


text \<open>
  Periodic summaries do not respect the reserve: an ordinary event's summary takes any free slot.
\<close>

lemma summary_uses_reserve:
  assumes "1 < priority_value (priority e)" and "int (pending_count db) < notification_capacity cfg"
    and "\<not> list_ex (\<lambda>q. nq_event_id q = event_id e \<and> nq_reason q = ''periodic_summary'') (queue db)"
  shows "ordinary_pending (snd (queue_periodic_summary env cfg e fp db)) = Suc (ordinary_pending db)"
  using assms by (simp add: queue_periodic_summary_def insert_or_ignore_def Let_def ordinary_pending_def
      is_pending_def count_if_def)

end
