(* ===== verification/Alert_Assurance.thy ===== *)
theory Alert_Assurance
  imports Alert_Pipeline Alert_Notify
begin

text \<open>
  The alert pipeline as a machine: any interleaving of submitted events (with failing and recovering
  storage), deliveries, lifecycle passes, changes of the suppression rules and commits by other users
  of the connection. Its invariant gives the accounting and integrity guarantees of the pipeline;
  the last section shows where the code falls short of its documentation.
\<close>

section \<open>The machine\<close>

datatype alert_step =
    Submit pipeline_io BackgroundMonitorEvent
  | Deliver nat bool string
  | Advance string
  | AddRule int string bool SuppressionRequest
  | RevokeRule string string string
  | OtherCommit

text \<open>What the pipeline is given from outside.\<close>

record alert_world =
  aw_env :: alert_env
  aw_cfg :: AlertingConfig
  aw_loads :: "string \<Rightarrow> json option"
  aw_parse :: "string \<Rightarrow> datetime option"

definition on_db :: "(alert_db \<Rightarrow> alert_db) \<Rightarrow> pipeline \<Rightarrow> pipeline" where
  "on_db f p = p\<lparr>pl_db := f (pl_db p)\<rparr>"

fun alert_exec :: "alert_world \<Rightarrow> alert_step \<Rightarrow> pipeline \<Rightarrow> pipeline" where
  "alert_exec w (Submit io ev) p =
     snd (ingest_background_event (aw_env w) (aw_cfg w) (aw_loads w) io ev p)"
| "alert_exec w (Deliver k b err) p = on_db (mark_notification (aw_env w) k b err) p"
| "alert_exec w (Advance now) p =
     on_db (\<lambda>db. snd (advance_lifecycle (aw_env w) (aw_cfg w) (aw_parse w) now db)) p"
| "alert_exec w (AddRule now uuid ps rq) p =
     on_db (\<lambda>db. snd (create (aw_env w) (aw_cfg w) (aw_parse w) now uuid ps rq db)) p"
| "alert_exec w (RevokeRule rid actor reason) p =
     on_db (\<lambda>db. snd (revoke (aw_env w) rid actor reason db)) p"
| "alert_exec w OtherCommit p = on_db commit p"

definition alert_run :: "alert_world \<Rightarrow> alert_step list \<Rightarrow> pipeline \<Rightarrow> pipeline" where
  "alert_run w = fold (alert_exec w)"

section \<open>Lifting database invariants to the pipeline\<close>

text \<open>A property of the database that every operation of the store keeps, and that neither the clock
  nor the transaction flag affects, is kept by every step of the machine.\<close>

locale store_invariant =
  fixes w :: alert_world
    and good :: "alert_db \<Rightarrow> bool"
  assumes ingest_good: "good db \<Longrightarrow> good (snd (ingest (aw_env w) (aw_cfg w) used fault e db))"
    and summary_good: "good db \<Longrightarrow> good (snd (queue_periodic_summary (aw_env w) (aw_cfg w) e fp db))"
    and mark_good: "good db \<Longrightarrow> good (mark_notification (aw_env w) k b err db)"
    and advance_good: "good db \<Longrightarrow> good (snd (advance_lifecycle (aw_env w) (aw_cfg w) (aw_parse w) now db))"
    and create_good: "good db \<Longrightarrow> good (snd (create (aw_env w) (aw_cfg w) (aw_parse w) t uuid ps rq db))"
    and revoke_good: "good db \<Longrightarrow> good (snd (revoke (aw_env w) rid actor reason db))"
    and audit_good: "good db \<Longrightarrow> good (audit (aw_env w) act actor reason obj details db)"
    and metric_good: "good db \<Longrightarrow> good (bump_metric (aw_env w) name n db)"
    and commit_good: "good db \<Longrightarrow> good (commit db)"
    and clock_good: "good db \<Longrightarrow> good (db\<lparr>clock := c\<rparr>)"
begin

lemma fallback_good:
  "good (pl_db p) \<Longrightarrow> good (pl_db (snd (fallback_failure (aw_env w) (aw_cfg w) fault e err p)))"
  by (simp add: fallback_failure_def read_utc_def Let_def clock_good)

lemma meta_good:
  assumes "good (pl_db p)"
  shows "good (pl_db (snd (persist_meta_event (aw_env w) (aw_cfg w) io ty trigger sev attrs p)))"
proof -
  let ?db = "(pl_db p)\<lparr>clock := Suc (clock (pl_db p))\<rparr>"
  have "good (?db\<lparr>clock := Suc (clock ?db)\<rparr>)" using assms by (intro clock_good)
  then have g: "good (snd (ingest (aw_env w) (aw_cfg w) used fault e (?db\<lparr>clock := Suc (clock ?db)\<rparr>)))"
    for used fault e by (rule ingest_good)
  show ?thesis
    using g by (auto simp: persist_meta_event_def read_utc_def Let_def case_prod_beta' fallback_good
        split: ingest_result.split prod.split)
qed

lemma rollback_good:
  "good (pl_db p) \<Longrightarrow> good (pl_db (snd (check_rollback (aw_env w) (aw_cfg w) io eid wd md p)))"
  by (simp add: check_rollback_def meta_good)

lemma track_good:
  assumes "good (pl_db p)"
  shows "good (pl_db (snd (track_source_pressure (aw_env w) (aw_cfg w) io e p)))"
proof -
  have "good (pl_db (snd (persist_meta_event (aw_env w) (aw_cfg w) io ty trigger sev attrs
      (p\<lparr>pl_windows := ws\<rparr>))))" for ty trigger sev attrs ws
    using assms by (intro meta_good) simp
  then show ?thesis
    using assms by (auto simp: track_source_pressure_def Let_def case_prod_beta' commit_good metric_good
        split: sum.split)
qed

lemma suppression_good:
  "good (pl_db p) \<Longrightarrow> good (pl_db (snd (apply_suppression (aw_env w) e p)))"
  by (simp add: apply_suppression_def Let_def case_prod_beta' clock_good)

lemma recovery_good: "good (pl_db p) \<Longrightarrow> good (pl_db (note_recovery (aw_env w) eid p))"
  by (simp add: note_recovery_def commit_good audit_good)

lemma summarise_good:
  "good (pl_db p) \<Longrightarrow> good (pl_db (snd (summarise (aw_env w) (aw_cfg w) io e d p)))"
  by (simp add: summarise_def remember_summary_def Let_def case_prod_beta' summary_good)

lemma rejection_good: "good (pl_db p) \<Longrightarrow> good (pl_db (note_rejection (aw_env w) ev e p))"
  by (simp add: note_rejection_def commit_good audit_good metric_good)

lemma store_event_good:
  assumes "good (pl_db p)"
  shows "good (pl_db (snd (store_event (aw_env w) (aw_cfg w) io ev e p)))"
proof -
  have "good (snd (ingest (aw_env w) (aw_cfg w) (io_used io) (io_fault io) e (pl_db p)))"
    using assms by (rule ingest_good)
  then show ?thesis
    by (auto simp: store_event_def Let_def case_prod_beta' summarise_good recovery_good rejection_good
        fallback_good split: ingest_result.split prod.split)
qed

lemma submit_good:
  assumes "good (pl_db p)"
  shows "good (pl_db (snd (ingest_background_event (aw_env w) (aw_cfg w) loads io ev p)))"
proof -
  let ?p = "p\<lparr>pl_last_wall := io_wall io, pl_last_mono := io_mono io\<rparr>"
  have "good (pl_db (snd (read_utc (aw_env w) ?p)))"
    using assms by (simp add: read_utc_def clock_good)
  note r = rollback_good [OF this]
  show ?thesis
    unfolding ingest_background_event_def Let_def case_prod_beta'
    using r by (auto simp: track_good suppression_good store_event_good split: sum.split)
qed

lemma exec_good: "good (pl_db p) \<Longrightarrow> good (pl_db (alert_exec w st p))"
  by (cases st) (simp_all add: submit_good on_db_def mark_good advance_good create_good revoke_good
      commit_good)

lemma alert_run_good: "good (pl_db p) \<Longrightarrow> good (pl_db (alert_run w steps p))"
  unfolding alert_run_def by (induction steps arbitrary: p) (simp_all add: exec_good)

end

section \<open>Integrity and accounting\<close>

interpretation chain_inv: store_invariant w "chains_ok (aw_env w)"
proof
  fix db
  assume c: "chains_ok (aw_env w) db"
  then show "chains_ok (aw_env w) (snd (ingest (aw_env w) (aw_cfg w) used fault e db))"
    "chains_ok (aw_env w) (snd (queue_periodic_summary (aw_env w) (aw_cfg w) e fp db))"
    "chains_ok (aw_env w) (mark_notification (aw_env w) k b err db)"
    "chains_ok (aw_env w) (snd (advance_lifecycle (aw_env w) (aw_cfg w) (aw_parse w) now db))"
    for used fault e fp k b err now
    by (rule ingest_chains queue_periodic_summary_chains mark_notification_chains
        advance_lifecycle_chains)+
  from c show "chains_ok (aw_env w) (snd (create (aw_env w) (aw_cfg w) (aw_parse w) t uuid ps rq db))"
    for t uuid ps rq
    by (simp add: create_def Let_def chains_ok_def audit_ok split: sum.split)
  from c show "chains_ok (aw_env w) (snd (revoke (aw_env w) rid actor reason db))" for rid actor reason
    by (simp add: revoke_def Let_def chains_ok_def audit_ok)
  from c show "chains_ok (aw_env w) (audit (aw_env w) act actor reason obj details db)"
    "chains_ok (aw_env w) (bump_metric (aw_env w) name n db)" "chains_ok (aw_env w) (commit db)"
    "chains_ok (aw_env w) (db\<lparr>clock := c'\<rparr>)"
    for act actor reason obj details name n c'
    by (simp_all add: chains_ok_def audit_ok)
qed

definition digests_nonempty :: "alert_env \<Rightarrow> bool" where
  "digests_nonempty env \<longleftrightarrow> (\<forall>x. sha env x \<noteq> '''')"

interpretation store_inv: store_invariant w
  "\<lambda>db. digests_nonempty (aw_env w) \<longrightarrow> store_ok (aw_env w) (aw_cfg w) db"
proof (unfold_locales, goal_cases)
  case (1 db used fault e)
  then show ?case by (auto simp: digests_nonempty_def intro: ingest_store_ok)
next
  case 2
  then show ?case by (simp add: queue_periodic_summary_store_ok)
next
  case 3
  then show ?case by (simp add: mark_notification_store_ok)
next
  case 4
  then show ?case by (simp add: advance_lifecycle_store_ok)
next
  case 5
  then show ?case by (simp add: create_store_ok)
next
  case 6
  then show ?case by (simp add: revoke_store_ok)
next
  case (7 db act actor reason obj details)
  show ?case
  proof
    assume "digests_nonempty (aw_env w)"
    with 7 have s: "store_ok (aw_env w) (aw_cfg w) db" by simp
    then show "store_ok (aw_env w) (aw_cfg w) (audit (aw_env w) act actor reason obj details db)"
      by (intro store_ok_cong [OF s]) (simp_all add: store_ok_def chains_ok_def audit_ok)
  qed
qed (simp_all add: store_ok_def chains_ok_def keys_ok_def counts_ok_def retention_ok_def)

interpretation rule_inv: store_invariant w rules_ok
proof (unfold_locales, goal_cases)
  case (1 db used fault e)
  then show ?case by (simp add: rules_ok_def ingest_def ingest_transaction_def ingest_new_suppressions
        case_prod_beta' Let_def split: sum.split option.split)
next
  case (4 db now)
  have "suppressions (snd (lifecycle_loop env cfg parse t rows n db')) = suppressions db'"
    for env cfg parse t rows n db'
    by (induction rows arbitrary: n db') (auto simp: Let_def set_lifecycle_def split: option.split)
  then show ?case using 4 by (simp add: rules_ok_def advance_lifecycle_def split: option.split)
qed (simp_all add: create_rules_ok revoke_rules_ok,
     simp_all add: rules_ok_def queue_periodic_summary_def mark_notification_def Let_def case_prod_beta')

text \<open>
  C19. The ledger of receipts and the audit trail verify after any run of the pipeline, whatever events,
  store failures, deliveries, rule changes and compactions it contains.
\<close>

theorem alert_chains_always_verify:
  "ir_ok (verify_integrity (aw_env w)
     (pl_db (alert_run w steps (new_pipeline empty_db wall mono_v j))))"
proof -
  have "chains_ok (aw_env w) (pl_db (new_pipeline empty_db wall mono_v j))"
    by (simp add: chains_ok_def new_pipeline_def empty_db_def)
  then show ?thesis unfolding verify_integrity_iff by (rule chain_inv.alert_run_good)
qed

text \<open>A concrete world and a run of it, for the examples.\<close>

definition demo_world :: alert_world where
  "demo_world = \<lparr>aw_env = demo_env, aw_cfg = default_config, aw_loads = (\<lambda>_. None),
     aw_parse = (\<lambda>_. Some (Aware 1000000))\<rparr>"

definition demo_io :: pipeline_io where
  "demo_io = \<lparr>io_wall = 10, io_mono = 10, io_event_mono = 10, io_meta_mono = 10,
     io_hostname = ''host'', io_used = 0, io_fault = None, io_meta_fault = None,
     io_journal_fault = False\<rparr>"

definition demo_bg :: "string \<Rightarrow> BackgroundMonitorEvent" where
  "demo_bg eid = \<lparr>bg_event_id = eid, bg_timestamp = ''t'', bg_event_type = ''test'',
     bg_severity = ''low'', bg_source = ''src'', bg_process_name = '''', bg_pid = None,
     bg_evidence = '''', bg_confidence = ''low'', bg_recommendation = '''', bg_metadata_json = '''',
     bg_rule_id = ''R'', bg_trigger_source = '''', bg_trigger_rule_id = '''', bg_related_path = '''',
     bg_related_user = '''', bg_related_network_endpoint = '''', bg_related_file_hash = '''',
     bg_current_state = '''', bg_correlation_id = ''''\<rparr>"

definition demo_request :: SuppressionRequest where
  "demo_request = \<lparr>rq_scope = ''s'', rq_conditions = [(''rule_id'', ''R'')], rq_owner = ''o'',
     rq_created_at = ''t'', rq_expires_at = ''z'', rq_reason = ''r'', rq_ticket_id = ''T'',
     rq_authorizing_identity = ''a'', rq_policy_version = ''1'', rq_approval_identity = '''',
     rq_rule_id = ''''\<rparr>"

definition demo_steps :: "alert_step list" where
  "demo_steps = [Submit demo_io (demo_bg ''e1''), Submit demo_io (demo_bg ''e2''),
     Submit demo_io (demo_bg ''e1''), AddRule 0 ''u'' False demo_request, Advance ''t'']"

abbreviation demo_start :: pipeline where
  "demo_start \<equiv> new_pipeline empty_db 0 0 NoJournal"

lemma demo_world_parts: "aw_env demo_world = demo_env" "aw_cfg demo_world = default_config"
  by (simp_all add: demo_world_def)

lemma demo_digests: "digests_nonempty (aw_env demo_world)"
  by (simp add: digests_nonempty_def demo_world_def demo_env_def)

lemma run_store_ok:
  assumes "digests_nonempty (aw_env w)"
  shows "store_ok (aw_env w) (aw_cfg w) (pl_db (alert_run w steps (new_pipeline empty_db wall mono_v j)))"
proof -
  have "store_ok (aw_env w) (aw_cfg w) (pl_db (new_pipeline empty_db wall mono_v j))"
    by (simp add: new_pipeline_def empty_alert_store_ok)
  then show ?thesis using store_inv.alert_run_good assms by blast
qed

text \<open>
  C3. Exact accounting: after any run no event identifier is recorded twice, the sequence numbers have no
  gap, every receipt belongs to an aggregate, and every aggregate's occurrence count and compaction
  count are the numbers of receipts and of removed bodies of its fingerprint.
\<close>

theorem every_receipt_is_counted:
  assumes "digests_nonempty (aw_env w)"
    and "db = pl_db (alert_run w steps (new_pipeline empty_db wall mono_v j))"
  shows "distinct (map le_event_id (ledger db)) \<and>
     map le_seq (ledger db) = [1..<Suc (length (ledger db))] \<and>
     list_all (\<lambda>r. le_fingerprint r \<in> set (map ag_fingerprint (aggregates db))) (ledger db) \<and>
     list_all (\<lambda>a. ag_count a = length (rows_of (ag_fingerprint a) (ledger db)) \<and>
       ag_compacted a = count_if (\<lambda>r. \<not> le_raw r) (rows_of (ag_fingerprint a) (ledger db)))
       (aggregates db)"
proof -
  have "keys_ok db" and c: "counts_ok db"
    using run_store_ok [OF assms(1)] assms(2) by (simp_all add: store_ok_def)
  moreover have "list_all (\<lambda>r. le_fingerprint r \<in> set (map ag_fingerprint (aggregates db))) (ledger db)"
    using c unfolding counts_ok_def list_all_iff set_map by blast
  ultimately show ?thesis
    by (simp add: keys_ok_def counts_ok_def aggregate_ok_def [abs_def] bodies_gone_def del: upt_Suc)
qed

theorem every_receipt_is_counted_witness:
  "let db = pl_db (alert_run demo_world demo_steps demo_start)
   in distinct (map le_event_id (ledger db)) \<and>
      list_all (\<lambda>a. ag_count a = length (rows_of (ag_fingerprint a) (ledger db))) (aggregates db)"
  using every_receipt_is_counted [OF demo_digests refl, of demo_steps 0 0 NoJournal]
  by (simp add: Let_def list_all_iff)

text \<open>
  C20. Retention: after any run, a receipt whose body was removed has more earlier receipts of its
  fingerprint than the retention limit keeps, a newer receipt of it, and none of the dispositions
  that are always kept; every other receipt still has the body its digest was computed from.
\<close>

theorem only_redundant_bodies_removed:
  assumes "digests_nonempty (aw_env w)"
    and "db = pl_db (alert_run w steps (new_pipeline empty_db wall mono_v j))"
  shows "list_all (\<lambda>r. if le_raw r then sha (aw_env w) (le_canonical r) = le_digest r
     else retention_offset (aw_cfg w) < earlier (ledger db) (le_fingerprint r) (le_seq r) \<and>
       has_later (ledger db) (le_fingerprint r) (le_seq r) \<and>
       le_disposition r \<notin> set KEPT_DISPOSITIONS) (ledger db)"
proof -
  have "list_all (body_rule (aw_env w) (aw_cfg w) (ledger db)) (ledger db)"
    using run_store_ok [OF assms(1), of steps wall mono_v j] assms(2)
    by (simp add: store_ok_def retention_ok_def)
  then show ?thesis unfolding body_rule_def [abs_def] .
qed

theorem only_redundant_bodies_removed_witness:
  "let db = pl_db (alert_run demo_world demo_steps demo_start)
   in list_all (\<lambda>r. if le_raw r then sha demo_env (le_canonical r) = le_digest r
     else retention_offset default_config < earlier (ledger db) (le_fingerprint r) (le_seq r) \<and>
       has_later (ledger db) (le_fingerprint r) (le_seq r) \<and>
       le_disposition r \<notin> set KEPT_DISPOSITIONS) (ledger db)"
  using only_redundant_bodies_removed [OF demo_digests refl, of demo_steps 0 0 NoJournal]
  unfolding Let_def demo_world_parts .

text \<open>
  C11. Suppression is exact and never hides a protected event: when the pipeline, after any run, marks an
  event as suppressed, the event is not protected and an unrevoked rule with a reason, a ticket and an
  authoriser names the rule identifier; its conditions are not empty, use only the supported
  fields, contain no wildcard, and hold of the event's own values.
\<close>

theorem suppression_is_exact:
  assumes "p = alert_run w steps (new_pipeline empty_db wall mono_v j)"
    and "suppression_rule_id (fst (apply_suppression (aw_env w) e p)) = rid" and "rid \<noteq> ''''"
  shows "\<not> protected e \<and>
     list_ex (\<lambda>r. sp_rule_id r = rid \<and> sp_revoked_at r = '''' \<and> rule_ok r \<and>
       conditions_hold (aw_env w) e r) (suppressions (pl_db p))"
proof -
  have "rules_ok (pl_db (new_pipeline empty_db wall mono_v j))"
    by (simp add: rules_ok_def new_pipeline_def empty_db_def)
  then have "rules_ok (pl_db p)" using assms(1) rule_inv.alert_run_good by blast
  moreover have "fst (matching_rule (aw_env w) e (pl_db p)) = rid"
    using assms(2) by (auto simp: apply_suppression_def Let_def case_prod_beta' split: if_splits)
  ultimately show ?thesis
    using matching_rule_exact [of "pl_db p" "aw_env w" e rid] assms(3) by (auto simp: list_ex_iff)
qed

lemma demo_rule:
  "suppressions (pl_db (alert_run demo_world [AddRule 0 ''u'' False demo_request] demo_start)) =
     [suppression_of ''suppression-u'' demo_request]"
proof -
  have "str_strip ''r'' \<noteq> ''''" "str_strip ''T'' \<noteq> ''''" "str_strip ''a'' \<noteq> ''''" by code_simp+
  then have "check_request default_config (\<lambda>_. Some (Aware 1000000)) 0 False demo_request = Inr ()"
    by (simp add: check_request_def demo_request_def SAFE_FIELDS_def WILDCARDS_def default_config_def
        total_seconds_def)
  then show ?thesis
    by (simp add: alert_run_def demo_world_def on_db_def create_def new_pipeline_def empty_db_def
        Let_def) (simp add: demo_request_def)
qed

lemma demo_not_protected: "\<not> protected (demo_event ''e1'')"
proof -
  have "event_type (demo_event ''e1'') = ''test''" "severity (demo_event ''e1'') = ''low''"
    by (simp_all add: demo_event_def new_event_def)
  moreover have "protected_type ''test'' = ''test''" "str_lower ''low'' = ''low''" by code_simp+
  ultimately show ?thesis by (simp add: protected_def PROTECTED_TYPES_def)
qed

theorem suppression_is_exact_witness:
  "list_ex (\<lambda>r. sp_rule_id r = ''suppression-u'' \<and> sp_revoked_at r = '''' \<and> rule_ok r \<and>
     conditions_hold demo_env (demo_event ''e1'') r)
   (suppressions (pl_db (alert_run demo_world [AddRule 0 ''u'' False demo_request] demo_start)))"
proof -
  let ?p = "alert_run demo_world [AddRule 0 ''u'' False demo_request] demo_start"
  have "conditions_hold demo_env (demo_event ''e1'') (suppression_of ''suppression-u'' demo_request)"
    by (simp add: conditions_hold_def suppression_of_def demo_request_def event_text_def event_dict_def
        demo_event_def new_event_def)
  moreover have "utc demo_env n < sp_expires_at (suppression_of ''suppression-u'' demo_request)" for n
    by (simp add: demo_env_def suppression_of_def demo_request_def)
  ultimately have "fst (matching_rule demo_env (demo_event ''e1'') (pl_db ?p)) = ''suppression-u''"
    by (simp add: matching_rule_def live_rules_def Let_def demo_rule demo_not_protected
        suppression_of_def)
  then have "suppression_rule_id (fst (apply_suppression (aw_env demo_world) (demo_event ''e1'') ?p)) =
      ''suppression-u''"
    by (simp add: apply_suppression_def Let_def case_prod_beta' demo_world_def)
  then show ?thesis
    using suppression_is_exact [OF refl, of demo_world "demo_event ''e1''"
        "[AddRule 0 ''u'' False demo_request]" 0 0 NoJournal "''suppression-u''"]
    by (simp add: demo_world_def)
qed

section \<open>Bounded memory\<close>

definition memory_ok :: "AlertingConfig \<Rightarrow> pipeline \<Rightarrow> bool" where
  "memory_ok cfg p \<longleftrightarrow> int (length (pl_windows p)) \<le> maximum_source_windows cfg \<and>
     int (length (pl_summaries p)) \<le> maximum_active_fingerprints cfg \<and>
     int (length (pl_buffer p)) \<le> emergency_buffer_capacity cfg"

definition memory_limits :: "AlertingConfig \<Rightarrow> bool" where
  "memory_limits cfg \<longleftrightarrow> 0 < maximum_source_windows cfg \<and> 0 < maximum_active_fingerprints cfg \<and>
     0 < emergency_buffer_capacity cfg"

lemma validate_config_limits: "validate_config cfg = Inr u \<Longrightarrow> memory_limits cfg"
  by (auto simp: validate_config_def memory_limits_def py_bind_Inr_iff)

lemma memory_db [simp]: "memory_ok cfg (p\<lparr>pl_db := db\<rparr>) = memory_ok cfg p"
  by (simp add: memory_ok_def)

lemma read_utc_memory: "memory_ok cfg (snd (read_utc env p)) = memory_ok cfg p"
  by (simp add: read_utc_def)

lemma fallback_memory:
  "memory_limits cfg \<Longrightarrow> memory_ok cfg p \<Longrightarrow>
   memory_ok cfg (snd (fallback_failure env cfg fault e err p))"
  by (auto simp: fallback_failure_def read_utc_def Let_def memory_ok_def memory_limits_def)

lemma meta_memory:
  assumes "memory_limits cfg" and "memory_ok cfg p"
  shows "memory_ok cfg (snd (persist_meta_event env cfg io ty trigger sev attrs p))"
  using assms by (auto simp: persist_meta_event_def read_utc_def Let_def case_prod_beta' fallback_memory
      split: ingest_result.split prod.split)

lemma update_last_key: "length (AList.update k v (pop_excess (Suc n) (d @ [(k, x)]))) \<le> Suc n"
proof -
  have "k \<in> set (od_keys (pop_excess (Suc n) (d @ [(k, x)])))" by (simp add: pop_excess_snoc)
  then show ?thesis by (simp add: length_update_present)
qed

lemma track_memory:
  assumes "memory_limits cfg" and "memory_ok cfg p"
  shows "memory_ok cfg (snd (track_source_pressure env cfg io e p))"
proof -
  obtain n where n: "nat (maximum_source_windows cfg) = Suc n" "maximum_source_windows cfg = int (Suc n)"
    using assms(1) by (metis memory_limits_def gr0_implies_Suc zero_less_nat_eq nat_0_le order_less_imp_le)
  have "memory_ok cfg (p\<lparr>pl_windows := AList.update k v (pop_excess (Suc n) (d @ [(k, x)]))\<rparr>)"
    for k v d x
    using assms(2) update_last_key [of k v n d x] n by (auto simp: memory_ok_def)
  note m = meta_memory [OF assms(1) this]
  have "memory_ok cfg (p\<lparr>pl_windows := pop_excess (Suc n) d\<rparr>)" for d
    using assms(2) n by (simp add: memory_ok_def)
  then show ?thesis
    using m by (auto simp: track_source_pressure_def Let_def case_prod_beta' n(1) split: sum.split)
qed

lemma remember_memory:
  assumes "memory_limits cfg" and "memory_ok cfg p"
  shows "memory_ok cfg (remember_summary cfg fp now p)"
proof -
  have "length (touch_key (nat (maximum_active_fingerprints cfg)) fp now (pl_summaries p)) \<le>
      nat (maximum_active_fingerprints cfg)"
    by (simp add: touch_key_eq)
  then show ?thesis using assms by (auto simp: remember_summary_def memory_ok_def memory_limits_def)
qed

lemma store_event_memory:
  assumes "memory_limits cfg" and "memory_ok cfg p"
  shows "memory_ok cfg (snd (store_event env cfg io ev e p))"
proof -
  have rec: "memory_ok cfg (note_recovery env eid q) = memory_ok cfg q" for eid q
    by (simp add: note_recovery_def memory_ok_def)
  have "memory_ok cfg q \<Longrightarrow> memory_ok cfg (snd (summarise env cfg io e' d q))" for e' d q
    using assms(1) by (simp add: summarise_def Let_def case_prod_beta' remember_memory)
  then show ?thesis
    using assms by (auto simp: store_event_def Let_def case_prod_beta' rec fallback_memory
        note_rejection_def split: ingest_result.split prod.split)
qed

lemma submit_memory:
  assumes "memory_limits cfg" and "memory_ok cfg p"
  shows "memory_ok cfg (snd (ingest_background_event env cfg loads io ev p))"
proof -
  let ?p = "p\<lparr>pl_last_wall := io_wall io, pl_last_mono := io_mono io\<rparr>"
  have "memory_ok cfg (snd (read_utc env ?p))"
    using assms(2) unfolding read_utc_memory by (simp add: memory_ok_def)
  then have r: "memory_ok cfg (snd (check_rollback env cfg io eid wd md (snd (read_utc env ?p))))"
    for eid wd md
    using assms(1) by (simp add: check_rollback_def meta_memory)
  have a: "memory_ok cfg (snd (apply_suppression env e q)) = memory_ok cfg q" for e q
    by (simp add: apply_suppression_def Let_def case_prod_beta')
  show ?thesis
    unfolding ingest_background_event_def Let_def case_prod_beta'
    using r assms(1) by (auto simp: track_memory store_event_memory a split: sum.split)
qed

text \<open>
  C38. With a configuration that validates, the pipeline's memory stays within its limits after any run:
  source windows, remembered summary times and emergency receipts never exceed their capacities.
\<close>

theorem alert_memory_bounded:
  assumes "validate_config (aw_cfg w) = Inr ()"
    and "p = alert_run w steps (new_pipeline db wall mono_v j)"
  shows "int (length (pl_windows p)) \<le> maximum_source_windows (aw_cfg w) \<and>
     int (length (pl_summaries p)) \<le> maximum_active_fingerprints (aw_cfg w) \<and>
     int (length (pl_buffer p)) \<le> emergency_buffer_capacity (aw_cfg w)"
proof -
  have l: "memory_limits (aw_cfg w)" using assms(1) by (rule validate_config_limits)
  have step: "memory_ok (aw_cfg w) q \<Longrightarrow> memory_ok (aw_cfg w) (alert_exec w st q)" for st q
    using l by (cases st) (simp_all add: submit_memory on_db_def)
  have "memory_ok (aw_cfg w) q \<Longrightarrow> memory_ok (aw_cfg w) (alert_run w steps q)" for q
    unfolding alert_run_def by (induction steps arbitrary: q) (simp_all add: step)
  moreover have "memory_ok (aw_cfg w) (new_pipeline db wall mono_v j)"
    using l by (simp add: memory_ok_def memory_limits_def new_pipeline_def)
  ultimately have "memory_ok (aw_cfg w) p" using assms(2) by simp
  then show ?thesis by (simp add: memory_ok_def)
qed

theorem alert_memory_bounded_witness:
  "int (length (pl_buffer (alert_run demo_world demo_steps demo_start))) \<le> 512"
proof -
  have "validate_config (aw_cfg demo_world) = Inr ()"
    by (simp add: demo_world_def default_config_def validate_config_def)
  from alert_memory_bounded [OF this refl, of demo_steps empty_db 0 0 NoJournal] show ?thesis
    by (simp add: demo_world_def default_config_def)
qed

section \<open>No event disappears\<close>

lemma ingest_records:
  assumes "ingest env cfg used fault e db = (Ingested d e', db')"
  shows "event_id e \<in> set (map le_event_id (ledger db'))"
proof -
  obtain x where x: "validate env (maximum_event_size_bytes cfg) (limits_of cfg) e = Inr x"
    using assms by (auto simp: ingest_def split: sum.splits)
  have id: "event_id x = event_id e" using validate_Inr [OF x] by auto
  have t: "ingest_transaction env cfg used x db = (d, db')"
    using assms x by (auto simp: ingest_def case_prod_beta' Let_def split: if_splits option.splits)
  show ?thesis
  proof (cases "find (\<lambda>r. le_event_id r = event_id x) (ledger db)")
    case None
    then have "db' = snd (ingest_new env cfg used x db)"
      using t by (simp add: ingest_transaction_def)
    then show ?thesis by (simp add: ingest_new_ledger id)
  next
    case (Some r)
    then have "r \<in> set (ledger db)" and "le_event_id r = event_id x" using find_SomeD by fast+
    moreover have "ledger db' = ledger db" using t Some by (auto simp: ingest_transaction_def)
    ultimately show ?thesis using id by force
  qed
qed

lemma summarise_ledger:
  "ledger (pl_db (snd (summarise env cfg io e d p))) = ledger (pl_db p)"
  by (simp add: summarise_def remember_summary_def queue_periodic_summary_def Let_def case_prod_beta')

lemma store_event_accounts:
  assumes "store_event env cfg io ev e p = (Inr d, p')" and "0 < emergency_buffer_capacity cfg"
  shows "event_id e \<in> set (map le_event_id (ledger (pl_db p'))) \<or>
     (\<exists>e' err t. event_id e' = event_id e \<and> pl_buffer p' \<noteq> [] \<and>
        last (pl_buffer p') = receipt_of env e' err t \<and> pl_failed p' \<and> de_notify d = protected e')"
proof (cases "ingest env cfg (io_used io) (io_fault io) e (pl_db p)")
  case (Pair r db)
  show ?thesis
  proof (cases r)
    case (Ingested d0 e')
    have "ledger (pl_db (note_recovery env eid q)) = ledger (pl_db q)" for eid q
      by (simp add: note_recovery_def)
    then have "ledger (pl_db p') = ledger db"
      using assms(1) Pair Ingested
      by (auto simp: store_event_def case_prod_beta' Let_def summarise_ledger)
    then show ?thesis using ingest_records Pair Ingested by (metis (no_types))
  next
    case (Rejected err)
    then show ?thesis using assms(1) Pair by (simp add: store_event_def)
  next
    case (StoreFailed e' err)
    have "event_id e' = event_id e"
      using Pair StoreFailed validate_Inr
      by (fastforce simp: ingest_def case_prod_beta' Let_def split: sum.splits if_splits option.splits)
    moreover obtain n where "nat (emergency_buffer_capacity cfg) = Suc n"
      using assms(2) by (metis gr0_implies_Suc zero_less_nat_eq)
    ultimately have "event_id e' = event_id e \<and> pl_buffer p' \<noteq> [] \<and>
        last (pl_buffer p') = receipt_of env e' err (utc env (clock db)) \<and> pl_failed p' \<and>
        de_notify d = protected e'"
      using assms(1) Pair StoreFailed
      by (auto simp: store_event_def fallback_failure_def read_utc_def case_prod_beta' Let_def
          pop_excess_snoc)
    then show ?thesis by blast
  qed
qed

text \<open>The pipeline's own event about the clock or about a flood fails validation.\<close>

definition own_event_rejected :: "alert_env \<Rightarrow> AlertingConfig \<Rightarrow> (string \<Rightarrow> json option) \<Rightarrow> pipeline_io \<Rightarrow>
    BackgroundMonitorEvent \<Rightarrow> pipeline \<Rightarrow> bool" where
  "own_event_rejected env cfg loads io ev p \<longleftrightarrow> (
     let (t, p1) = read_utc env (p\<lparr>pl_last_wall := io_wall io, pl_last_mono := io_mono io\<rparr>);
         e = from_background_event env loads (pl_registry p1) io t ev;
         (r, p2) = check_rollback env cfg io (bg_event_id ev) (io_wall io - pl_last_wall p)
           (io_mono io - pl_last_mono p) p1
     in isl r \<or> isl (fst (track_source_pressure env cfg io e p2)))"

lemma ingest_background_event_cases:
  "own_event_rejected env cfg loads io ev p \<and> isl (fst (ingest_background_event env cfg loads io ev p)) \<or>
   (\<exists>e q. event_id e = bg_event_id ev \<and>
      ingest_background_event env cfg loads io ev p = store_event env cfg io ev e q)"
proof -
  let ?p1 = "snd (read_utc env (p\<lparr>pl_last_wall := io_wall io, pl_last_mono := io_mono io\<rparr>))"
  let ?t = "fst (read_utc env (p\<lparr>pl_last_wall := io_wall io, pl_last_mono := io_mono io\<rparr>))"
  let ?e = "from_background_event env loads (pl_registry ?p1) io ?t ev"
  let ?r = "check_rollback env cfg io (bg_event_id ev) (io_wall io - pl_last_wall p)
    (io_mono io - pl_last_mono p) ?p1"
  have id: "event_id (fst (apply_suppression env ?e q)) = bg_event_id ev" for q
    by (simp add: apply_suppression_def from_background_event_def with_fingerprints_def
        convert_event_def new_event_def Let_def case_prod_beta')
  show ?thesis
  proof (cases "isl (fst ?r) \<or> isl (fst (track_source_pressure env cfg io ?e (snd ?r)))")
    case True
    then show ?thesis
      unfolding ingest_background_event_def own_event_rejected_def Let_def case_prod_beta'
      by (auto simp: isl_def split: sum.splits)
  next
    case False
    let ?s = "apply_suppression env ?e (snd (track_source_pressure env cfg io ?e (snd ?r)))"
    have "ingest_background_event env cfg loads io ev p = store_event env cfg io ev (fst ?s) (snd ?s)"
      using False unfolding ingest_background_event_def Let_def case_prod_beta'
      by (auto split: sum.splits)
    then show ?thesis using id by blast
  qed
qed

lemma store_event_rejects:
  assumes "store_event env cfg io ev e p = (Inl err, p')"
  shows "audit_log (pl_db p') \<noteq> [] \<and> au_action (last (audit_log (pl_db p'))) = ''event_rejected''"
  using assms by (auto simp: store_event_def note_rejection_def audit_def case_prod_beta' Let_def
      split: ingest_result.splits prod.splits)



section \<open>Where the code falls short\<close>

text \<open>
  Revoking a rule that does not exist leaves a transaction open, and the next valid event, instead of
  being recorded, fails as if the store were unavailable.
\<close>

theorem futile_revocation_blocks_ingestion:
  assumes "\<not> list_ex (\<lambda>r. sp_rule_id r = rid \<and> sp_revoked_at r = '''') (suppressions db)"
    and "str_strip actor \<noteq> ''''" and "str_strip reason \<noteq> ''''"
    and "validate env (maximum_event_size_bytes cfg) (limits_of cfg) e = Inr e'"
  shows "revoke env rid actor reason db = (Inr False, snd (revoke env rid actor reason db)) \<and>
     ingest env cfg used None e (snd (revoke env rid actor reason db)) =
       (StoreFailed e' ''OperationalError'', snd (revoke env rid actor reason db)) \<and>
     ledger (snd (revoke env rid actor reason db)) = ledger db"
  using assms by (simp add: revoke_def ingest_def Let_def)

theorem futile_revocation_blocks_ingestion_witness:
  "fst (ingest demo_env default_config 0 None (demo_event ''e1'')
     (snd (revoke demo_env ''unknown'' ''t'' ''R'' empty_db))) =
   StoreFailed ((demo_event ''e1'')\<lparr>attributes := demo_attributes\<rparr>) ''OperationalError''"
proof -
  have "validate demo_env (maximum_event_size_bytes default_config) (limits_of default_config)
      (demo_event ''e1'') = Inr ((demo_event ''e1'')\<lparr>attributes := demo_attributes\<rparr>)"
    using demo_fields by (intro demo_alert_valid) simp_all
  then have "ingest demo_env default_config 0 None (demo_event ''e1'')
      (snd (revoke demo_env ''unknown'' ''t'' ''R'' empty_db)) =
      (StoreFailed ((demo_event ''e1'')\<lparr>attributes := demo_attributes\<rparr>) ''OperationalError'',
       snd (revoke demo_env ''unknown'' ''t'' ''R'' empty_db))"
    using futile_revocation_blocks_ingestion [of "''unknown''" empty_db "''t''" "''R''" demo_env
        default_config "demo_event ''e1''" _ 0] demo_fields by (simp add: empty_db_def)
  then show ?thesis by simp
qed

lemma check_bounded_fails:
  "(name, v, n) \<in> set fs \<Longrightarrow> n < length v \<Longrightarrow> check_bounded fs \<noteq> Inr u"
  by (induction fs rule: check_bounded.induct) auto

lemma long_identifier_rejected:
  assumes "256 < length (event_id e)"
  shows "\<exists>err. validate env n l e = Inl err"
proof -
  have "check_bounded (bounded_fields e) \<noteq> Inr u" for u
    by (rule check_bounded_fails [of "''event_id''" "event_id e" 256])
       (use assms in \<open>simp_all add: bounded_fields_def\<close>)
  then have "validate env n l e \<noteq> Inr x" for x
    by (simp add: validate_def py_bind_Inr_iff)
  then show ?thesis by (cases "validate env n l e") auto
qed

lemma long_meta_event_rejected:
  assumes "230 < length trigger"
  shows "\<exists>err. persist_meta_event env cfg io ''system_time_rollback'' trigger sev attrs p =
     (Inl err, p\<lparr>pl_db := (pl_db p)\<lparr>clock := Suc (Suc (clock (pl_db p)))\<rparr>\<rparr>)"
proof -
  let ?e = "with_fingerprints env (pl_registry p) (meta_event io ''system_time_rollback'' trigger sev
    attrs (utc env (clock (pl_db p))) (utc env (Suc (clock (pl_db p)))))"
  have "256 < length (event_id ?e)"
    using assms
    by (simp add: with_fingerprints_def meta_event_def new_event_def case_prod_beta' Let_def)
  then obtain err where "validate env (maximum_event_size_bytes cfg) (limits_of cfg) ?e = Inl err"
    using long_identifier_rejected by blast
  then show ?thesis by (simp add: persist_meta_event_def read_utc_def ingest_def)
qed

text \<open>
  A clock that falls back loses the event that reveals it when the event's identifier is long: the
  identifier of the pipeline's own rollback event is then longer than validation allows, and its error
  ends the submission before anything is recorded or audited.
\<close>

theorem long_identifier_lost_on_rollback:
  assumes "(io_wall io - pl_last_wall p) - (io_mono io - pl_last_mono p) < - 300"
    and "230 < length (bg_event_id ev)"
  shows "\<exists>err p'. ingest_background_event env cfg loads io ev p = (Inl err, p') \<and>
     ledger (pl_db p') = ledger (pl_db p) \<and> audit_log (pl_db p') = audit_log (pl_db p) \<and>
     pl_buffer p' = pl_buffer p"
proof -
  let ?q = "snd (read_utc env (p\<lparr>pl_last_wall := io_wall io, pl_last_mono := io_mono io\<rparr>))"
  obtain err where "check_rollback env cfg io (bg_event_id ev) (io_wall io - pl_last_wall p)
      (io_mono io - pl_last_mono p) ?q =
      (Inl err, ?q\<lparr>pl_db := (pl_db ?q)\<lparr>clock := Suc (Suc (clock (pl_db ?q)))\<rparr>\<rparr>)"
    using assms(1) long_meta_event_rejected [OF assms(2)] unfolding check_rollback_def by presburger
  then show ?thesis
    unfolding ingest_background_event_def Let_def case_prod_beta' by (simp add: read_utc_def)
qed

theorem long_identifier_lost_on_rollback_witness:
  "\<exists>err p'. ingest_background_event demo_env default_config (\<lambda>_. None) (demo_io\<lparr>io_wall := - 1000\<rparr>)
     (demo_bg (replicate 231 CHR ''x'')) demo_start = (Inl err, p') \<and> ledger (pl_db p') = []"
  using long_identifier_lost_on_rollback [of "demo_io\<lparr>io_wall := - 1000\<rparr>" demo_start
      "demo_bg (replicate 231 CHR ''x'')" demo_env default_config "\<lambda>_. None"]
  by (auto simp: demo_io_def demo_bg_def new_pipeline_def empty_db_def)

text \<open>
  Expiry is compared as text: a rule that expired at 10:00 in a zone five hours ahead, which is 05:00
  UTC, still matches at 06:00 UTC.
\<close>

lemma expired_rule_still_matches:
  assumes "suppressions db = [r]" and "sp_revoked_at r = ''''"
    and "sp_expires_at r = ''2026-01-01T10:00:00+05:00''"
    and "utc env (clock db) = ''2026-01-01T06:00:00+00:00''"
    and "\<not> protected e" and "conditions_hold env e r"
  shows "fst (matching_rule env e db) = sp_rule_id r"
proof -
  have "''2026-01-01T06:00:00+00:00'' < ''2026-01-01T10:00:00+05:00''" by code_simp
  then show ?thesis using assms by (simp add: matching_rule_def live_rules_def Let_def)
qed

text \<open>
  Storage pressure alone compacts nothing: up to the retention limit there is no row to compact.
\<close>

lemma pressure_without_effect:
  assumes "int (length (rows_of fp rows)) < individual_duplicate_retention_limit cfg"
  shows "compaction_candidate fp (retention_offset cfg) rows = None"
proof -
  have "\<not> retention_offset cfg < length (rows_of fp rows)"
    using assms unfolding retention_offset_def by linarith
  then show ?thesis by (simp add: compaction_candidate_def seq_at_offset_def)
qed

text \<open>
  The body of a protected receipt is not exempt: compaction looks at the protection of the new event
  only, and a fingerprint does not contain the event type that makes an event protected.
\<close>

lemma protected_body_can_be_compacted:
  assumes "rows_of fp rows = [r1, r2]" and "le_seq r1 < le_seq r2" and "le_raw r2"
    and "le_protected r2" and "le_disposition r2 = ''exact_duplicate_consolidated''"
    and "individual_duplicate_retention_limit cfg = 1"
  shows "compaction_candidate fp (retention_offset cfg) rows = Some r2"
  using assms by (simp add: compaction_candidate_def seq_at_offset_def retention_offset_def
      KEPT_DISPOSITIONS_def)

lemma get_field_event_type:
  "k \<noteq> ''event_type'' \<Longrightarrow> get_field (e\<lparr>event_type := t\<rparr>) k = get_field e k"
  by (simp add: get_field_def od_get_def event_dict_def)

lemma protection_not_in_fingerprint:
  assumes "''event_type'' \<notin> set (identity_fields c)" and "''event_type'' \<notin> set (material_fields c)"
  shows "calculate_fingerprints env (e\<lparr>event_type := t\<rparr>) c = calculate_fingerprints env e c"
proof -
  have "present_fields (e\<lparr>event_type := t\<rparr>) fs = present_fields e fs" if "''event_type'' \<notin> set fs" for fs
  proof (rule present_fields_cong)
    fix k assume "k \<in> set fs"
    with that have "k \<noteq> ''event_type''" by blast
    then show "same_value (get_field (e\<lparr>event_type := t\<rparr>) k) (get_field e k)"
      by (simp add: get_field_event_type same_value_def)
  qed
  then show ?thesis using assms by (simp add: calculate_fingerprints_def identity_payload_def)
qed

text \<open>
  A notification the queue has no room for is still reported as one: the decision says \<open>notify\<close>.
\<close>

lemma dropped_notification_reported:
  assumes "fl_notify (ing_flags env cfg e db)"
    and "\<not> queue_has_room cfg (priority_value (priority e)) (pending_count db)"
  shows "de_notify (fst (ingest_new env cfg used e db)) \<and>
     queue (snd (ingest_new env cfg used e db)) = queue db"
  using assms ingest_new_queue [of env cfg used e db] by (simp add: ingest_new_decision)

text \<open>
  A lifecycle pass that meets a time stamp without a zone raises a \<open>TypeError\<close>; once it has moved an
  earlier aggregate, the transaction stays open.
\<close>

lemma lifecycle_pass_aborts:
  assumes "parse (ag_last_seen a) = Some (Aware s)" and "parse (ag_last_seen b) = Some (Naive n)"
    and "lifecycle_target cfg (total_seconds (t - s)) \<notin> {'''', ag_lifecycle a}"
  shows "\<exists>err db'. lifecycle_loop env cfg parse (Aware t) [a, b] k db = (Inl err, db') \<and> in_txn db'"
  using assms by (simp add: Let_def set_lifecycle_def audit_def)

end
