(* ===== verification/Alert_Actions.thy ===== *)
theory Alert_Actions
  imports Alert_Redaction
begin

text \<open>
  Actions on alerts: the idempotent reservation of automated responses (\<open>alerts/response.py\<close>), the
  action requests and results (\<open>alerts/action_model.py\<close>), their queue (\<open>alerts/action_queue.py\<close>)
  and the handler that enqueues and dispatches (\<open>alerts/action_handler.py\<close>). JSON columns hold the
  document; \<open>now\<close> arguments are readings of \<open>utc_now_iso()\<close>.
\<close>

section \<open>Reservation of automated actions\<close>

record idempotency_row =
  id_key :: string
  id_action_type :: string
  id_target :: string
  id_status :: string
  id_attempts :: nat
  id_previous_state :: json
  id_result :: json
  id_created_at :: string
  id_updated_at :: string

definition action_idempotency_key :: "alert_env \<Rightarrow> string \<Rightarrow> string \<Rightarrow> string \<Rightarrow> string \<Rightarrow> string \<Rightarrow> string" where
  "action_idempotency_key env policy_id fp action_type target incident =
     sha env (dumps env (JList (map JStr [policy_id, fp, action_type, target, incident])))"

definition reserve_action :: "alert_env \<Rightarrow> string \<Rightarrow> string \<Rightarrow> string \<Rightarrow> string \<Rightarrow> string \<Rightarrow> string \<Rightarrow>
    json_object \<Rightarrow> idempotency_row list \<Rightarrow> (string \<times> bool) \<times> idempotency_row list" where
  "reserve_action env now policy_id fp action_type target incident previous_state rows = (
     let key = action_idempotency_key env policy_id fp action_type target incident
     in if key \<in> set (map id_key rows) then ((key, False), rows)
        else ((key, True), rows @ [\<lparr>id_key = key, id_action_type = action_type, id_target = target,
          id_status = ''reserved'', id_attempts = 0, id_previous_state = JObj previous_state,
          id_result = JObj [], id_created_at = now, id_updated_at = now\<rparr>]))"

definition complete_action :: "string \<Rightarrow> string \<Rightarrow> bool \<Rightarrow> json_object \<Rightarrow> idempotency_row list \<Rightarrow>
    idempotency_row list" where
  "complete_action now key success result = map (\<lambda>r. if id_key r = key
     then r\<lparr>id_status := (if success then ''succeeded'' else ''failed''),
            id_attempts := id_attempts r + 1, id_result := JObj result, id_updated_at := now\<rparr>
     else r)"

section \<open>Requests and results\<close>

datatype AlertActionType = PRESERVE_EVIDENCE_SNAPSHOT | OPEN_TIMELINE | OPEN_EVENT_DETAILS | OPEN_FINDING
  | OPEN_INTEGRITY_DETAILS | OPEN_NETWORK_INTELLIGENCE | OPEN_PERSISTENCE_INTELLIGENCE
  | OPEN_ROOTKIT_REVIEW | EXPORT_APPLE_EVIDENCE | ACKNOWLEDGE | DISMISS

fun action_value :: "AlertActionType \<Rightarrow> string" where
  "action_value PRESERVE_EVIDENCE_SNAPSHOT = ''preserve_evidence_snapshot''"
| "action_value OPEN_TIMELINE = ''open_timeline''"
| "action_value OPEN_EVENT_DETAILS = ''open_event_details''"
| "action_value OPEN_FINDING = ''open_finding''"
| "action_value OPEN_INTEGRITY_DETAILS = ''open_integrity_details''"
| "action_value OPEN_NETWORK_INTELLIGENCE = ''open_network_intelligence''"
| "action_value OPEN_PERSISTENCE_INTELLIGENCE = ''open_persistence_intelligence''"
| "action_value OPEN_ROOTKIT_REVIEW = ''open_rootkit_review''"
| "action_value EXPORT_APPLE_EVIDENCE = ''export_apple_evidence''"
| "action_value ACKNOWLEDGE = ''acknowledge''"
| "action_value DISMISS = ''dismiss''"

definition HEADLESS_ACTIONS :: "string list" where
  "HEADLESS_ACTIONS = map action_value [PRESERVE_EVIDENCE_SNAPSHOT, ACKNOWLEDGE, DISMISS]"

definition GUI_ACTIONS :: "string list" where
  "GUI_ACTIONS = map action_value [OPEN_TIMELINE, OPEN_EVENT_DETAILS, OPEN_FINDING,
     OPEN_INTEGRITY_DETAILS, OPEN_NETWORK_INTELLIGENCE, OPEN_PERSISTENCE_INTELLIGENCE,
     OPEN_ROOTKIT_REVIEW]"

record AlertActionRequest =
  ar_action_type :: string
  ar_source_component :: string
  ar_event_id :: string
  ar_trace_id :: string
  ar_action_id :: string
  ar_created_at :: string
  ar_finding_id :: string
  ar_scan_id :: string
  ar_assessment_id :: string
  ar_severity :: string
  ar_category :: string
  ar_title :: string
  ar_summary :: string
  ar_source_db_path :: string
  ar_timeline_focus_time :: string
  ar_requested_by_user :: bool
  ar_requires_main_gui :: bool
  ar_can_run_headless :: bool
  ar_payload :: json_object
  ar_status :: string
  ar_error :: string
  ar_result :: json_object

text \<open>\<open>__post_init__\<close>.\<close>

definition request_init :: "AlertActionRequest \<Rightarrow> AlertActionRequest" where
  "request_init r = r\<lparr>
     ar_requires_main_gui := (ar_requires_main_gui r \<or> ar_action_type r \<in> set GUI_ACTIONS),
     ar_can_run_headless := (ar_can_run_headless r \<or> ar_action_type r \<in> set HEADLESS_ACTIONS)\<rparr>"

record AlertActionResult =
  rs_action_id :: string
  rs_action_type :: string
  rs_event_id :: string
  rs_trace_id :: string
  rs_status :: string
  rs_started_at :: string
  rs_completed_at :: string
  rs_artifact_paths :: "string list"
  rs_opened_route :: "json_object option"
  rs_failure_stage :: string
  rs_user_message :: string
  rs_diagnostic_details :: json_object

definition new_result :: "string \<Rightarrow> AlertActionRequest \<Rightarrow> string \<Rightarrow> AlertActionResult" where
  "new_result now r status = \<lparr>rs_action_id = ar_action_id r, rs_action_type = ar_action_type r,
     rs_event_id = ar_event_id r, rs_trace_id = ar_trace_id r, rs_status = status,
     rs_started_at = '''', rs_completed_at = now, rs_artifact_paths = [], rs_opened_route = None,
     rs_failure_stage = '''', rs_user_message = '''', rs_diagnostic_details = []\<rparr>"

definition result_dict :: "AlertActionResult \<Rightarrow> json_object" where
  "result_dict r = [(''action_id'', JStr (rs_action_id r)), (''action_type'', JStr (rs_action_type r)),
     (''event_id'', JStr (rs_event_id r)), (''trace_id'', JStr (rs_trace_id r)),
     (''status'', JStr (rs_status r)), (''started_at'', JStr (rs_started_at r)),
     (''completed_at'', JStr (rs_completed_at r)),
     (''artifact_paths'', JList (map JStr (rs_artifact_paths r))),
     (''opened_route'', case rs_opened_route r of None \<Rightarrow> JNull | Some d \<Rightarrow> JObj d),
     (''failure_stage'', JStr (rs_failure_stage r)), (''user_message'', JStr (rs_user_message r)),
     (''diagnostic_details'', JObj (rs_diagnostic_details r))]"

text \<open>\<open>request_from_alert_payload\<close>: the first truthy of several keys, as text.\<close>

fun first_text :: "alert_env \<Rightarrow> json_object \<Rightarrow> string list \<Rightarrow> string" where
  "first_text env d [] = ''''"
| "first_text env d (k # ks) = (case map_of d k of
     Some v \<Rightarrow> if truthy v then json_str (py_str env) v else first_text env d ks
   | None \<Rightarrow> first_text env d ks)"

definition request_from_alert_payload :: "alert_env \<Rightarrow> string \<Rightarrow> string \<Rightarrow> json_object \<Rightarrow> string \<Rightarrow> string \<Rightarrow>
    string \<Rightarrow> AlertActionRequest" where
  "request_from_alert_payload env uuid now d action_type source_component source_db_path =
     request_init \<lparr>ar_action_type = action_type, ar_source_component = source_component,
       ar_event_id = first_text env d [''event_id'', ''background_event_id'', ''monitor_event_id''],
       ar_trace_id = first_text env d [''trace_id'', ''alert_trace_id'', ''visible_alert_id''],
       ar_action_id = ''alert-action-'' @ uuid, ar_created_at = now,
       ar_finding_id = first_text env d [''finding_id''], ar_scan_id = first_text env d [''scan_id''],
       ar_assessment_id = first_text env d [''assessment_id''],
       ar_severity = first_text env d [''severity''],
       ar_category = first_text env d [''category'', ''event_type''],
       ar_title = first_text env d [''title''],
       ar_summary = first_text env d [''summary'', ''details'', ''evidence''],
       ar_source_db_path = (if source_db_path \<noteq> '''' then source_db_path
         else first_text env d [''source_db_path'', ''db_path'']),
       ar_timeline_focus_time = first_text env d [''timestamp'', ''focus_time''],
       ar_requested_by_user = True, ar_requires_main_gui = False, ar_can_run_headless = False,
       ar_payload = filter (\<lambda>(k, v). k \<notin> set [''secret'', ''password'', ''token'']) d,
       ar_status = ''pending'', ar_error = '''', ar_result = []\<rparr>"

section \<open>The queue\<close>

record trace_row =
  tr_action_id :: string
  tr_action_type :: string
  tr_event_id :: string
  tr_trace_id :: string
  tr_clicked_at :: string
  tr_enqueued_at :: string
  tr_started_at :: string
  tr_completed_at :: string
  tr_status :: string
  tr_source_component :: string
  tr_handled_by :: string
  tr_requires_main_gui :: bool
  tr_can_run_headless :: bool
  tr_artifact_paths :: "string list"
  tr_opened_route :: json_object
  tr_failure_stage :: string
  tr_error :: string
  tr_user_message :: string

text \<open>Rows of \<open>alert_action_requests\<close> pair the request with \<open>updated_at\<close>; \<open>INSERT OR REPLACE\<close>
  deletes the row with the same identifier and appends. \<open>act_acknowledged\<close> lists the groups
  acknowledged in the monitor database.\<close>

record action_db =
  act_requests :: "(AlertActionRequest \<times> string) list"
  act_results :: "AlertActionResult list"
  act_traces :: "trace_row list"
  act_acknowledged :: "string list"

definition enqueue_alert_action :: "string \<Rightarrow> AlertActionRequest \<Rightarrow> action_db \<Rightarrow> action_db" where
  "enqueue_alert_action now r db = db\<lparr>act_requests :=
     filter (\<lambda>(x, _). ar_action_id x \<noteq> ar_action_id r) (act_requests db) @ [(r, now)]\<rparr>"

text \<open>\<open>_request_from_row\<close>: an empty status reads as \<open>pending\<close>; the constructor runs
  \<open>__post_init__\<close>.\<close>

definition request_from_row :: "AlertActionRequest \<Rightarrow> AlertActionRequest" where
  "request_from_row r = request_init (r\<lparr>ar_status := (if ar_status r = '''' then ''pending'' else ar_status r)\<rparr>)"

definition get_pending_actions :: "action_db \<Rightarrow> AlertActionRequest list" where
  "get_pending_actions db = map request_from_row (sort_key ar_created_at
     (filter (\<lambda>r. ar_status r \<in> set [''pending'', ''queued_for_main_gui'']) (map fst (act_requests db))))"

definition get_action :: "string \<Rightarrow> action_db \<Rightarrow> AlertActionRequest option" where
  "get_action aid db = map_option request_from_row
     (find (\<lambda>r. ar_action_id r = aid) (map fst (act_requests db)))"

definition mark :: "string \<Rightarrow> string \<Rightarrow> string \<Rightarrow> string \<Rightarrow> json_object \<Rightarrow> action_db \<Rightarrow> action_db" where
  "mark now aid status err result db = db\<lparr>act_requests := map (\<lambda>(r, t). if ar_action_id r = aid
     then (r\<lparr>ar_status := status, ar_error := err, ar_result := result\<rparr>, now) else (r, t))
     (act_requests db)\<rparr>"

definition mark_action_running :: "string \<Rightarrow> string \<Rightarrow> action_db \<Rightarrow> action_db" where
  "mark_action_running now aid = mark now aid ''running'' '''' []"

definition mark_action_succeeded :: "string \<Rightarrow> AlertActionResult \<Rightarrow> action_db \<Rightarrow> action_db" where
  "mark_action_succeeded now res db = (
     let db1 = mark now (rs_action_id res) (rs_status res) '''' (result_dict res) db
     in db1\<lparr>act_results := filter (\<lambda>x. rs_action_id x \<noteq> rs_action_id res) (act_results db1) @ [res]\<rparr>)"

definition mark_action_failed :: "string \<Rightarrow> string \<Rightarrow> string \<Rightarrow> string \<Rightarrow> action_db \<Rightarrow> action_db" where
  "mark_action_failed now aid err stage db = (
     let request = get_action aid db;
         field = (\<lambda>f. case request of None \<Rightarrow> '''' | Some r \<Rightarrow> f r)
     in mark_action_succeeded now \<lparr>rs_action_id = aid, rs_action_type = field ar_action_type,
          rs_event_id = field ar_event_id, rs_trace_id = field ar_trace_id, rs_status = ''failed'',
          rs_started_at = '''', rs_completed_at = now, rs_artifact_paths = [], rs_opened_route = None,
          rs_failure_stage = stage, rs_user_message = ''Action failed: '' @ stage @ ''.'',
          rs_diagnostic_details = [(''error'', JStr err)]\<rparr> db)"

definition get_latest_action_for_event :: "string \<Rightarrow> string \<Rightarrow> action_db \<Rightarrow> AlertActionRequest option" where
  "get_latest_action_for_event eid action_type db = map_option request_from_row
     (case rev (sort_key ar_created_at (rev (filter (\<lambda>r. ar_event_id r = eid \<and> ar_action_type r = action_type)
        (map fst (act_requests db))))) of [] \<Rightarrow> None | r # _ \<Rightarrow> Some r)"

text \<open>\<open>cutoff\<close> is the ISO text of the instant \<open>retention_days\<close> ago.\<close>

definition cleanup_completed_actions :: "string \<Rightarrow> action_db \<Rightarrow> action_db" where
  "cleanup_completed_actions cutoff db = db\<lparr>
     act_requests := filter (\<lambda>(r, t). \<not> (ar_status r \<in> set [''succeeded'', ''failed'', ''unsupported''] \<and>
       t < cutoff)) (act_requests db),
     act_results := filter (\<lambda>x. \<not> rs_completed_at x < cutoff) (act_results db)\<rparr>"

section \<open>Traces and the handler\<close>

definition record_action_clicked :: "string \<Rightarrow> AlertActionRequest \<Rightarrow> action_db \<Rightarrow> action_db" where
  "record_action_clicked now r db = db\<lparr>act_traces :=
     filter (\<lambda>t. tr_action_id t \<noteq> ar_action_id r) (act_traces db) @
     [\<lparr>tr_action_id = ar_action_id r, tr_action_type = ar_action_type r, tr_event_id = ar_event_id r,
       tr_trace_id = ar_trace_id r, tr_clicked_at = now, tr_enqueued_at = now, tr_started_at = '''',
       tr_completed_at = '''', tr_status = ar_status r, tr_source_component = ar_source_component r,
       tr_handled_by = '''', tr_requires_main_gui = ar_requires_main_gui r,
       tr_can_run_headless = ar_can_run_headless r, tr_artifact_paths = [], tr_opened_route = [],
       tr_failure_stage = '''', tr_error = '''', tr_user_message = ''''\<rparr>]\<rparr>"

definition record_action_started :: "string \<Rightarrow> AlertActionRequest \<Rightarrow> string \<Rightarrow> action_db \<Rightarrow> action_db" where
  "record_action_started now r handled_by db = db\<lparr>act_traces := map (\<lambda>t. if tr_action_id t = ar_action_id r
     then t\<lparr>tr_started_at := now, tr_status := ''running'', tr_handled_by := handled_by\<rparr> else t)
     (act_traces db)\<rparr>"

definition record_action_result :: "alert_env \<Rightarrow> AlertActionResult \<Rightarrow> string \<Rightarrow> action_db \<Rightarrow> action_db" where
  "record_action_result env res err db = db\<lparr>act_traces := map (\<lambda>t. if tr_action_id t = rs_action_id res
     then t\<lparr>tr_completed_at := rs_completed_at res, tr_status := rs_status res,
       tr_artifact_paths := rs_artifact_paths res,
       tr_opened_route := (case rs_opened_route res of None \<Rightarrow> [] | Some d \<Rightarrow> d),
       tr_failure_stage := rs_failure_stage res,
       tr_error := (if err \<noteq> '''' then err
         else json_str (py_str env) (od_get (rs_diagnostic_details res) ''error'' (JStr ''''))),
       tr_user_message := rs_user_message res\<rparr> else t) (act_traces db)\<rparr>"

text \<open>\<open>enqueue_and_handle_alert_action\<close>. Outside of this code are the evidence snapshot, the timeline
  route and the check of the GUI context: \<open>snapshot\<close>, \<open>route\<close> and \<open>gui_safe\<close> stand for
  them; \<open>fault\<close> is the message of an exception while enqueueing (the request is then not recorded).\<close>

record handler_env =
  he_env :: alert_env
  snapshot :: "AlertActionRequest \<Rightarrow> action_db \<Rightarrow> AlertActionResult \<times> action_db"
  route :: "AlertActionRequest \<Rightarrow> action_db \<Rightarrow> AlertActionResult \<times> action_db"
  gui_safe :: "string \<Rightarrow> bool \<times> string"

definition handle_simple :: "alert_env \<Rightarrow> string \<Rightarrow> AlertActionRequest \<Rightarrow> action_db \<Rightarrow>
    AlertActionResult \<times> action_db" where
  "handle_simple env now r db = (
     let ack = (ar_action_type r = action_value ACKNOWLEDGE);
         db1 = (if ack \<and> ar_event_id r \<noteq> ''''
           then db\<lparr>act_acknowledged := act_acknowledged db @ [ar_event_id r]\<rparr> else db);
         res = (new_result now r ''succeeded'')\<lparr>rs_user_message :=
           (if ack then ''Alert acknowledged.'' else ''Alert dismissed.'')\<rparr>
     in (res, record_action_result env res '''' (mark_action_succeeded now res db1)))"

definition handle_alert_action :: "handler_env \<Rightarrow> string \<Rightarrow> AlertActionRequest \<Rightarrow> action_db \<Rightarrow>
    AlertActionResult \<times> action_db" where
  "handle_alert_action he now r db = (
     if ar_action_type r = action_value PRESERVE_EVIDENCE_SNAPSHOT then snapshot he r db
     else if ar_action_type r = action_value OPEN_TIMELINE then
       (let (safe, reason) = gui_safe he (ar_action_type r);
            r' = (if safe then r else r\<lparr>ar_payload :=
              AList.update ''gui_safety_warning'' (JStr reason) (ar_payload r)\<rparr>)
        in route he r' db)
     else if ar_action_type r \<in> set (map action_value [ACKNOWLEDGE, DISMISS])
     then handle_simple (he_env he) now r db
     else ((new_result now r ''unsupported'')\<lparr>rs_failure_stage := ''unknown'',
             rs_user_message := ''Unsupported alert action: '' @ ar_action_type r @ ''.''\<rparr>,
           mark_action_failed now (ar_action_id r) (''Unsupported action: '' @ ar_action_type r)
             ''unknown'' db))"

definition enqueue_and_handle_alert_action :: "handler_env \<Rightarrow> string \<Rightarrow> string option \<Rightarrow>
    AlertActionRequest \<Rightarrow> action_db \<Rightarrow> AlertActionResult \<times> action_db" where
  "enqueue_and_handle_alert_action he now fault r db = (
     case fault of
       Some err \<Rightarrow> ((new_result now r ''failed'')\<lparr>rs_failure_stage := ''db_write_failed'',
         rs_user_message := ''Action failed: db_write_failed.'',
         rs_diagnostic_details := [(''error'', JStr err)]\<rparr>, db)
     | None \<Rightarrow> handle_alert_action he now r
         (record_action_clicked now r (enqueue_alert_action now r db)))"

section \<open>Reservations are idempotent\<close>

datatype reservation_op =
    Reserve string string string string string string json_object
  | Complete string string bool json_object

fun reservation_exec :: "alert_env \<Rightarrow> reservation_op \<Rightarrow> idempotency_row list \<Rightarrow> idempotency_row list" where
  "reservation_exec env (Reserve now pol fp ty target inc prev) rows =
     snd (reserve_action env now pol fp ty target inc prev rows)"
| "reservation_exec env (Complete now key ok res) rows = complete_action now key ok res rows"

lemma complete_action_keys: "map id_key (complete_action now key ok res rows) = map id_key rows"
  by (simp add: complete_action_def)

lemma reservation_keeps_key:
  "key \<in> set (map id_key rows) \<Longrightarrow> key \<in> set (map id_key (reservation_exec env op rows))"
  by (cases op) (auto simp: reserve_action_def Let_def complete_action_keys simp del: set_map)

lemma reservations_keep_key:
  "key \<in> set (map id_key rows) \<Longrightarrow> key \<in> set (map id_key (fold (reservation_exec env) ops rows))"
  by (induction ops arbitrary: rows) (simp_all add: reservation_keeps_key del: set_map)

lemma reserve_action_key:
  "fst (fst (reserve_action env now pol fp ty target inc prev rows)) \<in>
     set (map id_key (snd (reserve_action env now pol fp ty target inc prev rows)))"
  by (auto simp: reserve_action_def Let_def)

lemma reserve_action_known:
  "action_idempotency_key env pol fp ty target inc \<in> set (map id_key rows) \<Longrightarrow>
   reserve_action env now pol fp ty target inc prev rows =
     ((action_idempotency_key env pol fp ty target inc, False), rows)"
  by (simp only: reserve_action_def Let_def if_True)

text \<open>
  C37. An automated action runs at most once: after one reservation for a policy, fingerprint, action, target
  and incident, whatever is reserved and completed in between - also when the action failed - a
  second reservation of the same is refused and changes nothing.
\<close>

theorem action_reserved_at_most_once:
  "let rows1 = snd (reserve_action env now pol fp ty target inc prev rows);
       rows2 = fold (reservation_exec env) ops rows1
   in reserve_action env now' pol fp ty target inc prev' rows2 =
        ((action_idempotency_key env pol fp ty target inc, False), rows2)"
proof -
  let ?key = "action_idempotency_key env pol fp ty target inc"
  have "fst (fst (reserve_action env now pol fp ty target inc prev rows)) = ?key"
    by (simp add: reserve_action_def Let_def)
  then have "?key \<in> set (map id_key (snd (reserve_action env now pol fp ty target inc prev rows)))"
    using reserve_action_key [of env now pol fp ty target inc prev rows] by (simp only:)
  then have "?key \<in> set (map id_key (fold (reservation_exec env) ops
      (snd (reserve_action env now pol fp ty target inc prev rows))))"
    by (rule reservations_keep_key)
  then show ?thesis unfolding Let_def by (rule reserve_action_known)
qed

section \<open>Round trip and outcomes\<close>

lemma request_init_idem: "request_init (request_init r) = request_init r"
  by (simp add: request_init_def)

lemma find_filter_append: "find P (filter (\<lambda>x. \<not> P x) xs @ ys) = find P ys"
  by (induction xs) auto

text \<open>
  What is enqueued is read back: a constructed request with a status is returned unchanged by
  \<open>get_action\<close>, also when it replaces an earlier one with its identifier, and other requests are
  not affected.
\<close>

theorem enqueued_action_roundtrip:
  assumes "ar_status r \<noteq> ''''" and "db' = enqueue_alert_action now (request_init r) db"
  shows "get_action (ar_action_id r) db' = Some (request_init r) \<and>
     list_all (\<lambda>aid. aid = ar_action_id r \<or> get_action aid db' = get_action aid db) ids"
proof -
  let ?rs = "map fst (act_requests db)"
  have id: "ar_action_id (request_init r) = ar_action_id r" by (simp add: request_init_def)
  have rs: "map fst (act_requests db') = filter (\<lambda>x. ar_action_id x \<noteq> ar_action_id r) ?rs @ [request_init r]"
    by (simp add: assms(2) enqueue_alert_action_def id filter_map comp_def case_prod_beta')
  have "request_from_row (request_init r) = request_init r"
    using assms(1) by (simp add: request_from_row_def request_init_def)
  then have "get_action (ar_action_id r) db' = Some (request_init r)"
    by (simp add: get_action_def rs find_filter_append id)
  moreover have "get_action aid db' = get_action aid db" if "aid \<noteq> ar_action_id r" for aid
  proof -
    have "find (\<lambda>x. ar_action_id x = aid) (filter (\<lambda>x. ar_action_id x \<noteq> ar_action_id r) xs @ [request_init r]) =
        find (\<lambda>x. ar_action_id x = aid) xs" for xs
      using that by (induction xs) (auto simp: id)
    then show ?thesis by (simp add: get_action_def rs)
  qed
  ultimately show ?thesis by (auto simp: list_all_iff)
qed

definition demo_request_action :: AlertActionRequest where
  "demo_request_action = request_from_alert_payload demo_env ''u'' ''t''
     [(''event_id'', JStr ''e1''), (''token'', JStr ''x'')] ''open_timeline'' ''ui'' ''''"

theorem enqueued_action_roundtrip_witness:
  "get_action ''alert-action-u'' (enqueue_alert_action ''t'' (request_init demo_request_action)
     \<lparr>act_requests = [], act_results = [], act_traces = [], act_acknowledged = []\<rparr>) =
   Some (request_init demo_request_action)"
proof -
  have "ar_status demo_request_action \<noteq> ''''" "ar_action_id demo_request_action = ''alert-action-u''"
    by (simp_all add: demo_request_action_def request_from_alert_payload_def request_init_def)
  then show ?thesis
    using enqueued_action_roundtrip [OF _ refl, of demo_request_action "''t''"
        "\<lparr>act_requests = [], act_results = [], act_traces = [], act_acknowledged = []\<rparr>" "[]"] by simp
qed

text \<open>
  An action the handler does not support is reported in three ways: the caller gets \<open>unsupported\<close>,
  the request is stored as \<open>failed\<close>, and the trace stays \<open>pending\<close>, without completion time.
\<close>

lemma unsupported_action_reported_inconsistently:
  assumes "ar_action_type r \<notin> set (map action_value [PRESERVE_EVIDENCE_SNAPSHOT, OPEN_TIMELINE, ACKNOWLEDGE, DISMISS])"
    and "ar_status r = ''pending''"
    and "enqueue_and_handle_alert_action he now None r db = (res, db')"
  shows "rs_status res = ''unsupported'' \<and>
     map_option ar_status (get_action (ar_action_id r) db') = Some ''failed'' \<and>
     tr_status (last (act_traces db')) = ''pending'' \<and> tr_completed_at (last (act_traces db')) = ''''"
proof -
  let ?db1 = "record_action_clicked now r (enqueue_alert_action now r db)"
  have h: "(res, db') = ((new_result now r ''unsupported'')\<lparr>rs_failure_stage := ''unknown'',
             rs_user_message := ''Unsupported alert action: '' @ ar_action_type r @ ''.''\<rparr>,
      mark_action_failed now (ar_action_id r) (''Unsupported action: '' @ ar_action_type r) ''unknown'' ?db1)"
    using assms by (simp add: enqueue_and_handle_alert_action_def handle_alert_action_def)
  have found: "find (\<lambda>x. ar_action_id x = ar_action_id r) (map fst (map (\<lambda>(x, t).
        if ar_action_id x = ar_action_id r
        then (x\<lparr>ar_status := st, ar_error := err, ar_result := result\<rparr>, now) else (x, t))
      (filter (\<lambda>(x, _). ar_action_id x \<noteq> ar_action_id r) xs @ [(r, now)]))) =
      Some (r\<lparr>ar_status := st, ar_error := err, ar_result := result\<rparr>)" for st err result xs
    by (induction xs) auto
  have "find (\<lambda>x. ar_action_id x = ar_action_id r)
      (map fst (act_requests (mark now (ar_action_id r) st err result ?db1))) =
      Some (r\<lparr>ar_status := st, ar_error := err, ar_result := result\<rparr>)" for st err result
    using found [where st = st and err = err and result = result and xs = "act_requests db"]
    by (simp add: record_action_clicked_def enqueue_alert_action_def mark_def)
  then show ?thesis
    using h by (simp add: mark_action_failed_def mark_action_succeeded_def Let_def get_action_def
        request_from_row_def request_init_def new_result_def)
       (simp add: mark_def record_action_clicked_def assms(2))
qed

end
