(* ===== verification/Lockdown_Core.thy ===== *)
theory Lockdown_Core
  imports Json_Values
begin

text \<open>
  The building blocks of the emergency protection mode (\<open>security/lockdown/\<close>): profiles
  (\<open>lockdown_policy.py\<close>), the authorization of an operator (\<open>lockdown_permissions.py\<close>), evidence
  files and the audit chain (\<open>lockdown_audit.py\<close>), the enforcement of a control
  (\<open>lockdown_enforcement.py\<close>) and its rollback (\<open>lockdown_rollback.py\<close>).

  An operation maps the state to a result or an error together with the new state, so what was done
  before an exception stays done. The state holds the machine (\<open>world\<close>, which only commands change),
  the files below the state directory with their mode and what parsing them gives, and a counter of
  clock readings and disk writes: the clock and the disk are functions of it. The runner of
  commands, SHA-256, the text of JSON documents and the facts of the host are parameters. Reads
  succeed; a write that fails leaves no trace (the temporary file is not represented).
\<close>

section \<open>The state and its operations\<close>

datatype ld_error = PermissionErr string | ValueErr string | RuntimeErr string | OSErr string
  | JSONDecodeErr string | AttributeErr string | TypeErr string | KeyErr string | RunnerErr string

datatype ld_content = Parsed json | NotJson string | NotText string

record ld_file =
  fmode :: nat
  fcontent :: ld_content

record 'w ld_state =
  world :: 'w
  ticks :: nat
  files :: "(string list, ld_file) odict"
  activation_dirs :: "string list"
  audit_lines :: "(string \<times> json option) list"

type_synonym ('w, 'a) ld = "'w ld_state \<Rightarrow> (ld_error + 'a) \<times> 'w ld_state"

datatype run_outcome = Completed int string string | Raised string

record ld_host =
  sha256_of :: "string \<Rightarrow> string"
  compact_text :: "json \<Rightarrow> string"
  line_text :: "json \<Rightarrow> string"
  repr_text :: "json \<Rightarrow> string"
  clock :: "nat \<Rightarrow> int"
  iso_text :: "int \<Rightarrow> string"
  id_text :: "int \<Rightarrow> string"
  disk_writable :: "nat \<Rightarrow> bool"
  profile_file :: "string \<Rightarrow> (string \<times> ld_content) option"
  euid :: int
  real_uid :: int
  gui_uid_env :: string
  sudo_uid_env :: string
  console_owner :: "int option"
  home_owner :: "int option"
  mac_ver :: string
  machine :: string
  hostname :: string

record 'w LockdownManager =
  state_dir :: string
  runner :: "'w \<Rightarrow> string list \<Rightarrow> int \<Rightarrow> run_outcome \<times> 'w"
  require_root :: bool
  host :: ld_host

definition ld_return :: "'a \<Rightarrow> ('w, 'a) ld" where
  "ld_return x s = (Inr x, s)"

definition ld_raise :: "ld_error \<Rightarrow> ('w, 'a) ld" where
  "ld_raise e s = (Inl e, s)"

definition ld_lift :: "ld_error + 'a \<Rightarrow> ('w, 'a) ld" where
  "ld_lift r s = (r, s)"

definition ld_bind :: "('w, 'a) ld \<Rightarrow> ('a \<Rightarrow> ('w, 'b) ld) \<Rightarrow> ('w, 'b) ld" where
  "ld_bind m f s = (case m s of (Inl e, s') \<Rightarrow> (Inl e, s') | (Inr x, s') \<Rightarrow> f x s')"

definition read_clock :: "'w LockdownManager \<Rightarrow> ('w, int) ld" where
  "read_clock m s = (Inr (clock (host m) (ticks s)), s\<lparr> ticks := Suc (ticks s) \<rparr>)"

definition disk_write :: "'w LockdownManager \<Rightarrow> ('w ld_state \<Rightarrow> 'w ld_state) \<Rightarrow> ('w, unit) ld" where
  "disk_write m f s = (let s' = s\<lparr> ticks := Suc (ticks s) \<rparr> in
     if disk_writable (host m) (ticks s) then (Inr (), f s') else (Inl (OSErr ''write failed''), s'))"

section \<open>JSON values as Python uses them\<close>

text \<open>\<open>json.dumps(v, sort_keys=True)\<close> prints the keys of every object in order, and
  \<open>json.loads\<close> reads them back in that order.\<close>

primrec sort_keys :: "json \<Rightarrow> json" where
  "sort_keys JNull = JNull"
| "sort_keys (JBool b) = JBool b"
| "sort_keys (JInt i) = JInt i"
| "sort_keys (JFloat x) = JFloat x"
| "sort_keys (JNonFinite x) = JNonFinite x"
| "sort_keys (JStr t) = JStr t"
| "sort_keys (JList xs) = JList (map sort_keys xs)"
| "sort_keys (JObj d) = JObj (sort_key fst (map (map_prod id sort_keys) d))"

text \<open>What a \<open>for\<close> loop over a value visits.\<close>

fun json_iter :: "json \<Rightarrow> ld_error + json list" where
  "json_iter (JList xs) = Inr xs"
| "json_iter (JStr t) = Inr (map (\<lambda>c. JStr [c]) t)"
| "json_iter (JObj d) = Inr (map (\<lambda>(k, v). JStr k) d)"
| "json_iter _ = Inl (TypeErr ''object is not iterable'')"

text \<open>\<open>dict(v)\<close>; a list of pairs, which Python accepts too, is an error here.\<close>

fun py_dict :: "json \<Rightarrow> ld_error + json_object" where
  "py_dict (JObj d) = Inr d"
| "py_dict (JList []) = Inr []"
| "py_dict (JStr []) = Inr []"
| "py_dict _ = Inl (TypeErr ''cannot convert to a dictionary'')"

fun json_items :: "json \<Rightarrow> ld_error + json_object" where
  "json_items (JObj d) = Inr d"
| "json_items _ = Inl (AttributeErr ''object has no attribute items'')"

fun each :: "('a \<Rightarrow> 'e + 'b) \<Rightarrow> 'a list \<Rightarrow> 'e + 'b list" where
  "each f [] = Inr []"
| "each f (x # xs) = py_bind (f x) (\<lambda>y. py_bind (each f xs) (\<lambda>ys. Inr (y # ys)))"

definition str_items :: "ld_host \<Rightarrow> json \<Rightarrow> ld_error + string list" where
  "str_items h v = py_bind (json_iter v) (\<lambda>xs. Inr (map (json_str (repr_text h)) xs))"

definition all_digits :: "string \<Rightarrow> bool" where
  "all_digits t \<longleftrightarrow> t \<noteq> '''' \<and> list_all (\<lambda>c. 48 \<le> (of_char c :: nat) \<and> (of_char c :: nat) \<le> 57) t"

definition digits_value :: "string \<Rightarrow> int" where
  "digits_value t = fold (\<lambda>c n. 10 * n + (of_char c - 48)) t 0"

text \<open>\<open>int(v)\<close>; digit separators are not represented.\<close>

fun int_of_str :: "string \<Rightarrow> int option" where
  "int_of_str t = (case str_strip t of
     [] \<Rightarrow> None
   | c # r \<Rightarrow> if c = CHR ''-'' then (if all_digits r then Some (- digits_value r) else None)
       else if c = CHR ''+'' then (if all_digits r then Some (digits_value r) else None)
       else if all_digits (c # r) then Some (digits_value (c # r)) else None)"

fun py_int :: "json \<Rightarrow> ld_error + int" where
  "py_int (JInt i) = Inr i"
| "py_int (JBool b) = Inr (if b then 1 else 0)"
| "py_int (JFloat x) = Inr (if 0 \<le> x then \<lfloor>x\<rfloor> else \<lceil>x\<rceil>)"
| "py_int (JStr t) = (case int_of_str t of Some i \<Rightarrow> Inr i | None \<Rightarrow> Inl (ValueErr ''invalid literal for int()''))"
| "py_int (JNonFinite x) = Inl (ValueErr ''cannot convert float to integer'')"
| "py_int _ = Inl (TypeErr ''int() argument'')"

text \<open>The user whose session \<open>launchctl\<close> is asked about (\<open>launch_agent.py\<close>).\<close>

definition positive_digits :: "string \<Rightarrow> int option" where
  "positive_digits t = (let u = str_strip t in
     if all_digits u \<and> 0 < digits_value u then Some (digits_value u) else None)"

definition user_launchctl_uid :: "ld_host \<Rightarrow> int" where
  "user_launchctl_uid h =
     (if real_uid h \<noteq> 0 then real_uid h
      else case positive_digits (gui_uid_env h) of Some n \<Rightarrow> n
      | None \<Rightarrow> (case positive_digits (sudo_uid_env h) of Some n \<Rightarrow> n
      | None \<Rightarrow> (case console_owner h of Some n \<Rightarrow> if 0 < n then n else (case home_owner h of Some k \<Rightarrow> if 0 < k then k else real_uid h | None \<Rightarrow> real_uid h)
      | None \<Rightarrow> (case home_owner h of Some k \<Rightarrow> if 0 < k then k else real_uid h | None \<Rightarrow> real_uid h))))"

section \<open>Profiles\<close>

definition FEATURE_ID :: string where "FEATURE_ID = ''MSAA_LOCKDOWN_PROFILE_V1''"

definition PRODUCT_NAME :: string where "PRODUCT_NAME = ''MSAA Emergency Protection Mode''"

definition APPLE_DISCLAIMER :: string where
  "APPLE_DISCLAIMER = ''This is an MSAA-created security profile. It does not enable or claim to enforce Apple'' @
     [CHR 0x27] @ ''s Lockdown Mode.''"

definition PROFILE_NAMES :: "string list" where
  "PROFILE_NAMES = [''emergency'', ''critical_zero_day'', ''ransomware_response'', ''investigation_mode'']"

record LockdownProfile =
  profile_id :: string
  profile_name :: string
  profile_purpose :: string
  controls :: "json_object list"
  monitoring :: "string list"
  compliance :: "(string, string list) odict"
  network_mode :: string
  score_adjustments :: "(string, int) odict"
  profile_sha256 :: string

definition profile_dict :: "LockdownProfile \<Rightarrow> json_object" where
  "profile_dict p = [(''feature_id'', JStr FEATURE_ID), (''product_name'', JStr PRODUCT_NAME),
     (''profile_id'', JStr (profile_id p)), (''name'', JStr (profile_name p)),
     (''purpose'', JStr (profile_purpose p)), (''controls'', JList (map JObj (controls p))),
     (''monitoring'', JList (map JStr (monitoring p))),
     (''compliance'', JObj (map (\<lambda>(k, v). (k, JList (map JStr v))) (compliance p))),
     (''network_mode'', JStr (network_mode p)),
     (''score_adjustments'', JObj (map (\<lambda>(k, v). (k, JInt v)) (score_adjustments p))),
     (''sha256'', JStr (profile_sha256 p)), (''apple_lockdown_mode'', JBool False),
     (''disclaimer'', JStr APPLE_DISCLAIMER)]"

definition removesuffix :: "string \<Rightarrow> string \<Rightarrow> string" where
  "removesuffix suf t = (if suf \<noteq> '''' \<and> startswith (rev t) (rev suf) then take (length t - length suf) t else t)"

definition str_at :: "ld_host \<Rightarrow> json_object \<Rightarrow> string \<Rightarrow> ld_error + string" where
  "str_at h d k = (case map_of d k of None \<Rightarrow> Inl (KeyErr k) | Some v \<Rightarrow> Inr (json_str (repr_text h) v))"

definition parse_profile :: "ld_host \<Rightarrow> string \<Rightarrow> string \<Rightarrow> json_object \<Rightarrow> ld_error + LockdownProfile" where
  "parse_profile h normalized raw payload =
     (if od_get payload ''feature_id'' JNull \<noteq> JStr FEATURE_ID \<or>
         od_get payload ''product_name'' JNull \<noteq> JStr PRODUCT_NAME
      then Inl (ValueErr ''Profile identity mismatch; refusing to load.'')
      else case od_get payload ''controls'' (JList []) of
        JList (c # cs) \<Rightarrow>
          py_bind (str_at h payload ''name'') (\<lambda>nm.
          py_bind (str_at h payload ''purpose'') (\<lambda>pu.
          py_bind (each py_dict (c # cs)) (\<lambda>ctl.
          py_bind (str_items h (od_get payload ''monitoring'' (JList []))) (\<lambda>mon.
          py_bind (json_items (od_get payload ''compliance'' (JObj []))) (\<lambda>comp.
          py_bind (each (\<lambda>(k, v). py_bind (str_items h v) (\<lambda>ts. Inr (k, ts))) comp) (\<lambda>comp'.
          py_bind (json_items (od_get payload ''score_adjustments'' (JObj []))) (\<lambda>adj.
          py_bind (each (\<lambda>(k, v). py_bind (py_int v) (\<lambda>i. Inr (k, i))) adj) (\<lambda>adj'.
            Inr \<lparr> profile_id = normalized, profile_name = nm, profile_purpose = pu, controls = ctl,
              monitoring = mon, compliance = comp',
              network_mode = json_str (repr_text h) (od_get payload ''network_mode'' (JStr ''normal'')),
              score_adjustments = adj', profile_sha256 = sha256_of h raw \<rparr>))))))))
      | _ \<Rightarrow> Inl (ValueErr ''Emergency profile contains no controls.''))"

definition load_profile :: "ld_host \<Rightarrow> string \<Rightarrow> ld_error + LockdownProfile" where
  "load_profile h nm =
     (let normalized = removesuffix ''.json'' (str_lower (str_strip nm)) in
      if normalized \<notin> set PROFILE_NAMES
      then Inl (ValueErr (''Unknown MSAA Emergency Protection profile: '' @ nm))
      else case profile_file h normalized of
        None \<Rightarrow> Inl (OSErr ''No such file'')
      | Some (raw, Parsed (JObj payload)) \<Rightarrow> parse_profile h normalized raw payload
      | Some (raw, Parsed _) \<Rightarrow> Inl (AttributeErr ''object has no attribute get'')
      | Some (raw, NotJson e) \<Rightarrow> Inl (JSONDecodeErr e)
      | Some (raw, NotText e) \<Rightarrow> Inl (ValueErr e))"

subsection \<open>The shipped profiles\<close>

definition remote_login_control :: json_object where
  "remote_login_control = [(''id'', JStr ''remote_login''), (''description'', JStr ''Disable SSH Remote Login.''),
     (''warning'', JStr ''Remote Login will be disabled and existing remote administration may be interrupted.''),
     (''apply'', JList (map JStr [''/usr/sbin/systemsetup'', ''-setremotelogin'', ''off''])),
     (''rollback'', JList (map JStr [''/usr/sbin/systemsetup'', ''-setremotelogin'', ''on''])),
     (''state_probe'', JStr ''remote_login'')]"

definition firewall_control :: json_object where
  "firewall_control = [(''id'', JStr ''application_firewall''),
     (''description'', JStr ''Ensure the macOS Application Firewall is enabled.''),
     (''warning'', JStr ''The macOS Application Firewall will be enabled.''),
     (''apply'', JList (map JStr [''/usr/libexec/ApplicationFirewall/socketfilterfw'', ''--setglobalstate'', ''on''])),
     (''rollback'', JList (map JStr [''/usr/libexec/ApplicationFirewall/socketfilterfw'', ''--setglobalstate'', ''off''])),
     (''state_probe'', JStr ''application_firewall'')]"

definition shipped_monitoring :: "string list" where
  "shipped_monitoring = [''unsigned_application_execution'', ''suspicious_parent_child'', ''privilege_escalation'',
     ''shell_execution'', ''unexpected_root_process'', ''launch_agents'', ''launch_daemons'', ''login_items'',
     ''system_extensions'', ''usb'', ''bluetooth'', ''browser_extensions'', ''suspicious_downloads'',
     ''file_modification'', ''network_connections'']"

definition shipped_compliance :: "(string, string list) odict" where
  "shipped_compliance =
     [(''NIST CSF 2.0'', [''GV.PO-01'', ''PR.PS-01'', ''DE.CM-01'', ''RS.MA-01'']),
      (''NIST SP 800-53 Rev. 5'', [''AC-3'', ''AC-6'', ''AU-2'', ''CM-6'', ''IR-4'', ''SI-4'']),
      (''NIST SP 800-61'', [''Preparation'', ''Detection and Analysis'', ''Containment'', ''Eradication and Recovery'']),
      (''CIS Apple macOS Benchmark'', [''Application Firewall'', ''Remote Login'', ''Gatekeeper'']),
      (''MITRE ATT&CK for macOS'', [''T1204'', ''T1543.001'', ''T1059'', ''T1068'', ''T1098'']),
      (''CISA CPG'', [''1.A'', ''2.T'', ''2.U'']),
      (''Zero Trust'', [''least privilege'', ''continuous verification'', ''deny by default''])]"

definition profile_controls :: "string \<Rightarrow> json_object list" where
  "profile_controls nm = (if nm = ''investigation_mode'' then [firewall_control] else [remote_login_control, firewall_control])"

text \<open>Name, purpose and network mode of a profile.\<close>

definition profile_heading :: "string \<Rightarrow> string \<times> string \<times> string" where
  "profile_heading nm =
     (if nm = ''critical_zero_day'' then (''Critical Zero-Day Response'', ''Maximum documented restrictions during active exploitation.'', ''critical_isolation'')
      else if nm = ''ransomware_response'' then (''Ransomware Response'', ''File, process, backup, persistence, and network containment monitoring.'', ''restricted'')
      else if nm = ''investigation_mode'' then (''Investigation Mode'', ''Evidence-first visibility with reduced user disruption.'', ''normal'')
      else (''Emergency Response'', ''Rapid attack-surface reduction with increased monitoring.'', ''restricted''))"

definition shipped_profile :: "string \<Rightarrow> json_object" where
  "shipped_profile nm = (let (title, purp, mode) = profile_heading nm in
     [(''feature_id'', JStr FEATURE_ID), (''product_name'', JStr PRODUCT_NAME), (''name'', JStr title),
      (''purpose'', JStr purp), (''network_mode'', JStr mode), (''controls'', JList (map JObj (profile_controls nm))),
      (''monitoring'', JList (map JStr shipped_monitoring)),
      (''score_adjustments'', JObj [(''attack_surface_reduction'', JInt 15), (''additional_monitoring'', JInt 8)]),
      (''compliance'', JObj (map (\<lambda>(k, v). (k, JList (map JStr v))) shipped_compliance))])"

subsection \<open>The summary shown to the operator\<close>

record impact_summary =
  im_profile_id :: string
  im_name :: string
  im_purpose :: string
  system_changes :: "string list"
  negative_impacts :: "string list"
  network_effect :: string
  monitoring_effect :: string
  not_performed :: "string list"
  im_rollback :: string
  im_authorization :: string

definition profile_impact_summary :: "ld_host \<Rightarrow> LockdownProfile \<Rightarrow> impact_summary" where
  "profile_impact_summary h p =
     (let ids = map (\<lambda>c. json_str (repr_text h) (od_get c ''id'' (JStr ''''))) (controls p);
          ssh = ''remote_login'' \<in> set ids; fw = ''application_firewall'' \<in> set ids in
      \<lparr> im_profile_id = profile_id p, im_name = profile_name p, im_purpose = profile_purpose p,
        system_changes =
          (if ssh then [''Disables macOS Remote Login (SSH).''] else []) @
          (if fw then [''Enables the macOS Application Firewall if it is currently off.''] else []),
        negative_impacts =
          (if ssh then [''Existing SSH sessions and SSH-based administration may be interrupted; new SSH connections will fail until rollback.''] else []) @
          (if fw then [''Applications that accept inbound connections may prompt for permission or become unreachable until firewall rules are approved or the prior state is restored.''] else []),
        network_effect =
          (if network_mode p = ''normal''
           then ''No PF network isolation is requested or applied. Existing network connectivity remains in place.''
           else ''The profile requests '' @ [CHR 0x27] @ network_mode p @ [CHR 0x27] @
             '' networking, but MSAA does not apply PF isolation without a separately reviewed incident allowlist. '' @
             ''Activation therefore does not disconnect Wi-Fi/Ethernet, block outbound traffic, or guarantee host isolation.''),
        monitoring_effect = ''Records '' @ str_nat (length (monitoring p)) @
          '' requested monitoring categories. Availability depends on installed, authorized, and healthy MSAA sensors; '' @
          ''selecting the profile does not grant Full Disk Access, Accessibility, or Endpoint Security entitlements.'',
        not_performed =
          [''Does not enable Apple'' @ [CHR 0x27] @ ''s Lockdown Mode.'',
           ''Does not automatically terminate or quarantine processes or delete files.'',
           ''Does not disable Wi-Fi, Ethernet, Bluetooth, USB, sharing services, or user accounts.'',
           ''Does not guarantee containment of malware or ransomware.''],
        im_rollback = ''Before changing settings, MSAA records the observed Remote Login and firewall state. The prepared rollback command attempts to restore those values. '' @
          ''Rollback can fail or require manual recovery if the machine loses power, state evidence is damaged, another administrator changes settings, or macOS rejects a command.'',
        im_authorization = ''Activation changes system settings, requires administrator authorization, and writes local authorization, inventory, result, and audit evidence.'' \<rparr>)"

section \<open>Authorization\<close>

definition CONFIRMATION_PHRASE :: string where
  "CONFIRMATION_PHRASE = ''ENABLE MSAA EMERGENCY PROTECTION''"

record ActivationAuthorization =
  operator :: string
  incident_reason :: string
  ticket_number :: string
  confirmed :: bool
  confirmation_phrase :: string
  effective_uid :: int

definition validate :: "ActivationAuthorization \<Rightarrow> bool \<Rightarrow> ld_error + unit" where
  "validate a need_root =
     (if \<not> confirmed a \<or> confirmation_phrase a \<noteq> CONFIRMATION_PHRASE
      then Inl (PermissionErr ''LOCKDOWN_AUTH_CONFIRMATION_REQUIRED: explicit warning acknowledgement and exact confirmation phrase are required.'')
      else if str_strip (operator a) = '''' \<or> str_strip (incident_reason a) = '''' \<or> str_strip (ticket_number a) = ''''
      then Inl (PermissionErr ''LOCKDOWN_AUTH_FIELDS_REQUIRED: operator, incident reason, and ticket number are required.'')
      else if need_root \<and> effective_uid a \<noteq> 0
      then Inl (PermissionErr ''LOCKDOWN_ADMIN_REQUIRED: activation changes protected macOS configuration and must run through an administrator-approved root workflow.'')
      else Inr ())"

definition authorization_dict :: "ActivationAuthorization \<Rightarrow> json_object" where
  "authorization_dict a = [(''operator'', JStr (operator a)), (''incident_reason'', JStr (incident_reason a)),
     (''ticket_number'', JStr (ticket_number a)), (''confirmed'', JBool (confirmed a)),
     (''effective_uid'', JInt (effective_uid a))]"

definition authorization :: "ld_host \<Rightarrow> string \<Rightarrow> string \<Rightarrow> string \<Rightarrow> bool \<Rightarrow> string \<Rightarrow> ActivationAuthorization" where
  "authorization h op reason ticket conf phrase = \<lparr> operator = op, incident_reason = reason,
     ticket_number = ticket, confirmed = conf, confirmation_phrase = phrase, effective_uid = euid h \<rparr>"

section \<open>Evidence files and the audit chain\<close>

definition canonical_json :: "ld_host \<Rightarrow> json \<Rightarrow> string" where
  "canonical_json h v = compact_text h (sort_keys v)"

definition payload_hash :: "ld_host \<Rightarrow> json_object \<Rightarrow> string" where
  "payload_hash h body = sha256_of h (canonical_json h (JObj body))"

definition stamped_body :: "ld_host \<Rightarrow> int \<Rightarrow> json_object \<Rightarrow> json_object" where
  "stamped_body h now payload = (let body = AList.delete ''integrity'' payload in
     if map_of body ''timestamp'' = None then AList.update ''timestamp'' (JStr (iso_text h now)) body else body)"

definition evidence_body :: "ld_host \<Rightarrow> int \<Rightarrow> json_object \<Rightarrow> json_object" where
  "evidence_body h now payload = (let body = stamped_body h now payload in
     AList.update ''integrity'' (JObj [(''algorithm'', JStr ''sha256''), (''payload_sha256'', JStr (payload_hash h body))]) body)"

definition write_evidence :: "'w LockdownManager \<Rightarrow> string list \<Rightarrow> json_object \<Rightarrow> ('w, unit) ld" where
  "write_evidence m path payload = ld_bind (read_clock m) (\<lambda>now. disk_write m (\<lambda>s.
     s\<lparr> files := AList.update path \<lparr> fmode = 384,
          fcontent = Parsed (sort_keys (JObj (evidence_body (host m) now payload))) \<rparr> (files s) \<rparr>))"

definition verify_evidence :: "ld_host \<Rightarrow> json_object \<Rightarrow> bool" where
  "verify_evidence h payload = (case od_get payload ''integrity'' JNull of
     JObj i \<Rightarrow> od_get i ''algorithm'' JNull = JStr ''sha256'' \<and>
       od_get i ''payload_sha256'' JNull = JStr (payload_hash h (AList.delete ''integrity'' payload))
   | _ \<Rightarrow> False)"

definition zero_digest :: string where "zero_digest = replicate 64 CHR ''0''"

definition previous_hash :: "ld_host \<Rightarrow> (string \<times> json option) list \<Rightarrow> ld_error + string" where
  "previous_hash h ls = (if ls = [] then Inr zero_digest else case snd (last ls) of
     None \<Rightarrow> Inl (JSONDecodeErr ''audit line'')
   | Some (JObj d) \<Rightarrow> Inr (json_str (repr_text h) (od_get d ''record_hash'' (JStr zero_digest)))
   | Some _ \<Rightarrow> Inl (AttributeErr ''object has no attribute get''))"

definition chain_record :: "ld_host \<Rightarrow> int \<Rightarrow> string \<Rightarrow> json_object \<Rightarrow> string \<Rightarrow> json_object" where
  "chain_record h now action payload previous =
     (let rec = [(''timestamp'', JStr (iso_text h now)), (''action'', JStr action), (''payload'', JObj payload),
            (''previous_hash'', JStr previous)]
      in rec @ [(''record_hash'', JStr (payload_hash h rec))])"

definition append_audit :: "'w LockdownManager \<Rightarrow> string \<Rightarrow> json_object \<Rightarrow> ('w, unit) ld" where
  "append_audit m action payload s =
     ld_bind (ld_lift (previous_hash (host m) (audit_lines s))) (\<lambda>previous.
     ld_bind (read_clock m) (\<lambda>now.
       let v = sort_keys (JObj (chain_record (host m) now action payload previous)) in
       disk_write m (\<lambda>s. s\<lparr> audit_lines := audit_lines s @ [(line_text (host m) v, Some v)] \<rparr>))) s"

section \<open>Enforcement and rollback\<close>

definition ALLOWED :: "string list" where
  "ALLOWED = [''/usr/sbin/systemsetup'', ''/usr/bin/defaults'', ''/bin/launchctl'', ''/sbin/pfctl'',
     ''/usr/libexec/ApplicationFirewall/socketfilterfw'']"

record EnforcementResult =
  control_id :: string
  command :: "string list"
  success :: bool
  returncode :: int
  stdout :: string
  stderr :: string
  changed :: bool

definition result_dict :: "EnforcementResult \<Rightarrow> json" where
  "result_dict r = JObj [(''control_id'', JStr (control_id r)), (''command'', JList (map JStr (command r))),
     (''success'', JBool (success r)), (''returncode'', JInt (returncode r)), (''stdout'', JStr (stdout r)),
     (''stderr'', JStr (stderr r)), (''changed'', JBool (changed r))]"

text \<open>\<open>(text or "")[-n:]\<close>.\<close>

definition text_tail :: "nat \<Rightarrow> string \<Rightarrow> string" where
  "text_tail n t = drop (length t - n) t"

definition apply_control :: "'w LockdownManager \<Rightarrow> bool \<Rightarrow> json_object \<Rightarrow> ('w, EnforcementResult) ld" where
  "apply_control m dry control = ld_bind (ld_lift (str_items (host m) (od_get control ''apply'' (JList [])))) (\<lambda>cmd.
     let cid = json_str (repr_text (host m)) (od_get control ''id'' (JStr '''')) in
     if cmd = [] \<or> hd cmd \<notin> set ALLOWED then ld_raise (ValueErr (''LOCKDOWN_UNSAFE_CONTROL: '' @ cid))
     else if dry then ld_return \<lparr> control_id = cid, command = cmd, success = True, returncode = 0,
       stdout = ''preview only'', stderr = '''', changed = False \<rparr>
     else (\<lambda>s. case runner m (world s) cmd 20 of
         (Raised e, w) \<Rightarrow> (Inl (RunnerErr e), s\<lparr> world := w \<rparr>)
       | (Completed rc out err, w) \<Rightarrow> (Inr \<lparr> control_id = cid, command = cmd, success = (rc = 0), returncode = rc,
           stdout = text_tail 8192 out, stderr = text_tail 8192 err, changed = (rc = 0) \<rparr>, s\<lparr> world := w \<rparr>)))"

definition rollback_control :: "'w LockdownManager \<Rightarrow> bool \<Rightarrow> json \<Rightarrow> ('w, EnforcementResult) ld" where
  "rollback_control m dry v = (case v of
     JObj control \<Rightarrow> ld_bind (ld_lift (json_iter (od_get control ''rollback'' (JList [])))) (\<lambda>back.
       apply_control m dry (AList.update ''id'' (JStr (''rollback:'' @ json_str (repr_text (host m)) (od_get control ''id'' (JStr ''''))))
         (AList.update ''apply'' (JList back) control)))
   | _ \<Rightarrow> ld_raise (TypeErr ''cannot convert to a dictionary''))"

fun rollback_loop :: "'w LockdownManager \<Rightarrow> bool \<Rightarrow> json list \<Rightarrow> json list \<Rightarrow> ('w, json list) ld" where
  "rollback_loop m dry [] results = ld_return results"
| "rollback_loop m dry (c # cs) results = ld_bind (rollback_control m dry c) (\<lambda>r.
     let results' = results @ [result_dict r] in
     if \<not> success r then ld_return results' else rollback_loop m dry cs results')"

definition rollback_controls :: "'w LockdownManager \<Rightarrow> bool \<Rightarrow> json list \<Rightarrow> ('w, json list) ld" where
  "rollback_controls m dry cs = rollback_loop m dry (rev cs) []"

text \<open>The body of the \<open>try\<close> of \<open>enable\<close>: the exception, if one ends the loop, with the results and
  the changed controls so far.\<close>

fun apply_loop :: "'w LockdownManager \<Rightarrow> bool \<Rightarrow> json_object list \<Rightarrow> json list \<Rightarrow> json_object list \<Rightarrow>
    'w ld_state \<Rightarrow> (ld_error option \<times> json list \<times> json_object list) \<times> 'w ld_state" where
  "apply_loop m dry [] results applied s = ((None, results, applied), s)"
| "apply_loop m dry (c # cs) results applied s = (case apply_control m dry c s of
     (Inl e, s') \<Rightarrow> ((Some e, results, applied), s')
   | (Inr r, s') \<Rightarrow>
       (let results' = results @ [result_dict r] in
        if \<not> success r
        then ((Some (RuntimeErr (''LOCKDOWN_CONTROL_FAILED: '' @ control_id r @ '': '' @ stderr r)), results', applied), s')
        else apply_loop m dry cs results' (if changed r then applied @ [c] else applied) s'))"

end
