(* ===== verification/Lockdown_Manager.thy ===== *)
theory Lockdown_Manager
  imports Lockdown_Core
begin

text \<open>
  The manager of the emergency protection mode (\<open>lockdown_manager.py\<close>): the read-only preflight,
  the activation of a profile with its evidence and the rollback of a partial activation, the
  deactivation, the status read back from disk, emergency exceptions and the report; and the
  command line (\<open>lockdown_cli.py\<close>). The files are named by their path below the state directory.
\<close>

section \<open>Preflight\<close>

definition run_probe :: "'w LockdownManager \<Rightarrow> string list \<Rightarrow> 'w ld_state \<Rightarrow> json_object \<times> 'w ld_state" where
  "run_probe m cmd s = (case runner m (world s) cmd 12 of
     (Completed rc out err, w) \<Rightarrow>
       ([(''command'', JList (map JStr cmd)), (''returncode'', JInt rc), (''stdout'', JStr (text_tail 32768 out)),
         (''stderr'', JStr (text_tail 32768 err))], s\<lparr> world := w \<rparr>)
   | (Raised e, w) \<Rightarrow>
       ([(''command'', JList (map JStr cmd)), (''returncode'', JInt (-1)), (''stdout'', JStr ''''),
         (''stderr'', JStr e)], s\<lparr> world := w \<rparr>))"

definition probe_commands :: "ld_host \<Rightarrow> (string, string list) odict" where
  "probe_commands h =
     [(''hardware'', [''/usr/sbin/system_profiler'', ''SPHardwareDataType'', ''-json'']),
      (''filevault'', [''/usr/bin/fdesetup'', ''status'']),
      (''sip'', [''/usr/bin/csrutil'', ''status'']),
      (''application_firewall'', [''/usr/libexec/ApplicationFirewall/socketfilterfw'', ''--getglobalstate'']),
      (''pf'', [''/sbin/pfctl'', ''-s'', ''info'']),
      (''users'', [''/usr/bin/who'']),
      (''processes'', [''/bin/ps'', ''-axo'', ''pid,ppid,user,command'']),
      (''network'', [''/usr/sbin/netstat'', ''-anv'']),
      (''launch_agents'', [''/bin/launchctl'', ''print'', ''gui/'' @ str_int (user_launchctl_uid h)]),
      (''launch_daemons'', [''/bin/launchctl'', ''print'', ''system'']),
      (''system_extensions'', [''/usr/bin/systemextensionsctl'', ''list'']),
      (''kernel_extensions'', [''/usr/bin/kmutil'', ''showloaded'']),
      (''mdm'', [''/usr/bin/profiles'', ''status'', ''-type'', ''enrollment'']),
      (''gatekeeper'', [''/usr/sbin/spctl'', ''--status'']),
      (''remote_login'', [''/usr/sbin/systemsetup'', ''-getremotelogin''])]"

fun run_probes :: "'w LockdownManager \<Rightarrow> (string, string list) odict \<Rightarrow> 'w ld_state \<Rightarrow>
    (string, json_object) odict \<times> 'w ld_state" where
  "run_probes m [] s = ([], s)"
| "run_probes m ((k, cmd) # ps) s =
     (let (r, s1) = run_probe m cmd s; (rs, s2) = run_probes m ps s1 in ((k, r) # rs, s2))"

definition probe_failed :: "json_object \<Rightarrow> bool" where
  "probe_failed r \<longleftrightarrow> \<not> (json_eq_int (od_get r ''returncode'' JNull) 0 \<or> json_eq_int (od_get r ''returncode'' JNull) 1)"

definition preflight_report :: "ld_host \<Rightarrow> LockdownProfile \<Rightarrow> (string, json_object) odict \<Rightarrow> json_object" where
  "preflight_report h profile probes =
     (let failures = map fst (filter (\<lambda>(k, r). probe_failed r) probes) in
      [(''feature_id'', JStr FEATURE_ID), (''product_name'', JStr PRODUCT_NAME),
       (''apple_lockdown_mode'', JBool False), (''disclaimer'', JStr APPLE_DISCLAIMER),
       (''ready'', JBool (failures = [])), (''risk_level'', JStr ''critical''),
       (''profile'', JObj (profile_dict profile)), (''macos_version'', JStr (mac_ver h)),
       (''hardware_model'', JStr (machine h)), (''cpu_architecture'', JStr (machine h)),
       (''hostname'', JStr (hostname h)),
       (''warnings'', JList (map (\<lambda>c. JStr (json_str (repr_text h) (od_get c ''warning'' JNull)))
          (filter (\<lambda>c. truthy (od_get c ''warning'' JNull)) (controls profile)))),
       (''probe_failures'', JList (map JStr failures)),
       (''inventory'', JObj (map (\<lambda>(k, r). (k, JObj r)) probes))])"

definition preflight :: "'w LockdownManager \<Rightarrow> string \<Rightarrow> ('w, json_object) ld" where
  "preflight m nm = ld_bind (ld_lift (load_profile (host m) nm)) (\<lambda>profile s.
     let (probes, s1) = run_probes m (probe_commands (host m)) s;
         report = preflight_report (host m) profile probes in
     ld_bind (write_evidence m [''lockdown_preflight_report.json''] report) (\<lambda>_.
     ld_bind (append_audit m ''preflight'' [(''profile'', JStr (profile_id profile)),
         (''ready'', od_get report ''ready'' JNull), (''failures'', od_get report ''probe_failures'' JNull)]) (\<lambda>_.
       ld_return report)) s1)"

section \<open>Status\<close>

definition ACTIVE_STATE :: "string list" where "ACTIVE_STATE = [''active_state.json'']"

definition inactive_status :: json_object where
  "inactive_status = [(''feature_id'', JStr FEATURE_ID), (''product_name'', JStr PRODUCT_NAME),
     (''active'', JBool False), (''rollback_available'', JBool False), (''disclaimer'', JStr APPLE_DISCLAIMER)]"

definition tamper_status :: "string \<Rightarrow> json_object" where
  "tamper_status e = [(''feature_id'', JStr FEATURE_ID), (''product_name'', JStr PRODUCT_NAME),
     (''active'', JBool False), (''tamper_detected'', JBool True), (''error'', JStr e),
     (''disclaimer'', JStr APPLE_DISCLAIMER)]"

text \<open>The handler \<open>except (OSError, json.JSONDecodeError)\<close> also covers the audit record.\<close>

definition report_tamper :: "'w LockdownManager \<Rightarrow> string \<Rightarrow> string \<Rightarrow> ('w, json_object) ld" where
  "report_tamper m reason code s =
     (case append_audit m ''tamper_detected'' [(''target'', JStr (state_dir m @ ''/active_state.json'')), (''reason'', JStr reason)] s of
       (Inr _, s') \<Rightarrow> (Inr (tamper_status code), s')
     | (Inl (OSErr e), s') \<Rightarrow> (Inr (tamper_status e), s')
     | (Inl (JSONDecodeErr e), s') \<Rightarrow> (Inr (tamper_status e), s')
     | (Inl e, s') \<Rightarrow> (Inl e, s'))"

text \<open>\<open>mode & 0o077\<close> keeps the low six bits.\<close>

definition status :: "'w LockdownManager \<Rightarrow> ('w, json_object) ld" where
  "status m s = (case map_of (files s) ACTIVE_STATE of
     None \<Rightarrow> (Inr inactive_status, s)
   | Some f \<Rightarrow>
       if fmode f mod 64 \<noteq> 0
       then report_tamper m ''unsafe file permissions'' ''LOCKDOWN_STATE_PERMISSIONS_UNSAFE'' s
       else (case fcontent f of
           NotText e \<Rightarrow> (Inl (ValueErr e), s)
         | NotJson e \<Rightarrow> (Inr (tamper_status e), s)
         | Parsed v \<Rightarrow> (case py_dict v of
               Inl e \<Rightarrow> (Inl e, s)
             | Inr payload \<Rightarrow>
                 if \<not> verify_evidence (host m) payload
                 then report_tamper m ''integrity hash mismatch'' ''LOCKDOWN_STATE_INTEGRITY_MISMATCH'' s
                 else (Inr payload, s))))"

section \<open>Activation\<close>

definition obj_at :: "json_object \<Rightarrow> string \<Rightarrow> json_object" where
  "obj_at d k = (case od_get d k (JObj []) of JObj e \<Rightarrow> e | _ \<Rightarrow> [])"

definition observed_rollback :: "ld_host \<Rightarrow> json_object \<Rightarrow> json_object \<Rightarrow> json_object" where
  "observed_rollback h inventory control =
     (let probe = json_str (repr_text h) (od_get control ''state_probe'' (JStr ''''));
          output = str_lower (json_str (repr_text h) (od_get (obj_at inventory probe) ''stdout'' (JStr ''''))) in
      if probe = ''remote_login'' then AList.update ''rollback'' (JList (map JStr [''/usr/sbin/systemsetup'', ''-setremotelogin'',
          (if str_contains ''on'' output then ''on'' else ''off'')])) control
      else if probe = ''application_firewall'' then AList.update ''rollback'' (JList (map JStr
          [''/usr/libexec/ApplicationFirewall/socketfilterfw'', ''--setglobalstate'',
           (if str_contains ''enabled'' output \<or> str_contains ''state = 1'' output then ''on'' else ''off'')])) control
      else control)"

definition controls_with_observed_rollback :: "ld_host \<Rightarrow> LockdownProfile \<Rightarrow> json_object \<Rightarrow> json_object list" where
  "controls_with_observed_rollback h profile pre = map (observed_rollback h (obj_at pre ''inventory'')) (controls profile)"

fun write_all :: "'w LockdownManager \<Rightarrow> (string list \<times> json_object) list \<Rightarrow> ('w, unit) ld" where
  "write_all m [] = ld_return ()"
| "write_all m ((path, payload) # ps) = ld_bind (write_evidence m path payload) (\<lambda>_. write_all m ps)"

definition activation_path :: "string \<Rightarrow> string \<Rightarrow> string list" where
  "activation_path aid file = [''activations'', aid, file]"

definition make_activation_dir :: "'w LockdownManager \<Rightarrow> string \<Rightarrow> ('w, unit) ld" where
  "make_activation_dir m aid s = (if aid \<in> set (activation_dirs s) then (Inl (OSErr ''File exists''), s)
     else disk_write m (\<lambda>s. s\<lparr> activation_dirs := aid # activation_dirs s \<rparr>) s)"

definition snapshot_evidence :: "string \<Rightarrow> LockdownProfile \<Rightarrow> ActivationAuthorization \<Rightarrow> json_object \<Rightarrow>
    json_object list \<Rightarrow> (string list \<times> json_object) list" where
  "snapshot_evidence aid profile auth pre ctl =
     (let inv = obj_at pre ''inventory'';
          pick = (\<lambda>ks. map (\<lambda>k. (k, od_get inv k (JObj []))) ks) in
      [(activation_path aid ''activation_authorization.json'', authorization_dict auth),
       (activation_path aid ''system_inventory.json'', pre),
       (activation_path aid ''network_state.json'', obj_at inv ''network''),
       (activation_path aid ''process_snapshot.json'', obj_at inv ''processes''),
       (activation_path aid ''persistence_snapshot.json'',
          pick [''launch_agents'', ''launch_daemons'', ''system_extensions'', ''kernel_extensions'']),
       (activation_path aid ''security_configuration.json'',
          pick [''filevault'', ''sip'', ''application_firewall'', ''pf'', ''gatekeeper'', ''remote_login'', ''mdm'']),
       (activation_path aid ''rollback_state.json'',
          [(''profile'', JObj (profile_dict profile)), (''controls'', JList (map JObj ctl)), (''status'', JStr ''prepared'')])])"

definition activation_manifest :: "'w LockdownManager \<Rightarrow> string \<Rightarrow> LockdownProfile \<Rightarrow> ActivationAuthorization \<Rightarrow> bool \<Rightarrow>
    json_object list \<Rightarrow> json_object list \<Rightarrow> json list \<Rightarrow> int \<Rightarrow> json_object" where
  "activation_manifest m aid profile auth dry ctl applied results now =
     [(''feature_id'', JStr FEATURE_ID), (''product_name'', JStr PRODUCT_NAME), (''active'', JBool (\<not> dry)),
      (''dry_run'', JBool dry), (''activation_id'', JStr aid),
      (''activation_dir'', JStr (state_dir m @ ''/activations/'' @ aid)),
      (''profile'', JObj (AList.update ''controls'' (JList (map JObj ctl)) (profile_dict profile))),
      (''authorization'', JObj (authorization_dict auth)), (''started_at'', JStr (iso_text (host m) now)),
      (''controls_applied'', JInt (int (length applied))),
      (''protections_enabled'', JInt (int (length (controls profile) + length (monitoring profile)))),
      (''restrictions_applied'', JInt (int (length (controls profile)))), (''exceptions'', JList []),
      (''rollback_available'', JBool True), (''results'', JList results), (''persistent_banner'', JBool True),
      (''score_adjustments'', JObj (map (\<lambda>(k, v). (k, JInt v)) (score_adjustments profile))),
      (''network_enforcement'', JObj [(''requested_mode'', JStr (network_mode profile)),
         (''applied'', JBool (network_mode profile = ''normal'')),
         (''reason'', JStr (if network_mode profile \<noteq> ''normal''
            then ''Critical or restricted PF isolation requires a separately reviewed and validated incident allowlist.''
            else ''No PF restriction requested.''))]),
      (''disclaimer'', JStr APPLE_DISCLAIMER)]"

text \<open>The \<open>except\<close> branch: a failing rollback or write replaces the exception.\<close>

definition abort_activation :: "'w LockdownManager \<Rightarrow> bool \<Rightarrow> string \<Rightarrow> ld_error \<Rightarrow> json list \<Rightarrow> json_object list \<Rightarrow>
    ('w, json_object) ld" where
  "abort_activation m dry aid e results applied =
     ld_bind (rollback_controls m dry (map JObj applied)) (\<lambda>back.
     ld_bind (write_evidence m (activation_path aid ''partial_activation.json'')
       [(''results'', JList results), (''rollback'', JList back)]) (\<lambda>_.
     ld_bind (append_audit m ''activation_failed'' [(''activation_id'', JStr aid), (''results'', JList results),
       (''rollback'', JList back)]) (\<lambda>_. ld_raise e)))"

definition finish_activation :: "'w LockdownManager \<Rightarrow> bool \<Rightarrow> string \<Rightarrow> LockdownProfile \<Rightarrow> ActivationAuthorization \<Rightarrow>
    json_object list \<Rightarrow> json list \<Rightarrow> json_object list \<Rightarrow> ('w, json_object) ld" where
  "finish_activation m dry aid profile auth ctl results applied =
     ld_bind (read_clock m) (\<lambda>now.
       let manifest = activation_manifest m aid profile auth dry ctl applied results now in
       ld_bind (write_all m [(activation_path aid ''lockdown_activation.json'', manifest), (ACTIVE_STATE, manifest)]) (\<lambda>_.
       ld_bind (append_audit m (if \<not> dry then ''enabled'' else ''enable_preview'')
         [(''activation_id'', JStr aid), (''profile'', JStr (profile_id profile)), (''operator'', JStr (operator auth)),
          (''results'', JList results)]) (\<lambda>_. ld_return manifest)))"

definition enforce :: "'w LockdownManager \<Rightarrow> bool \<Rightarrow> string \<Rightarrow> LockdownProfile \<Rightarrow> ActivationAuthorization \<Rightarrow>
    json_object list \<Rightarrow> ('w, json_object) ld" where
  "enforce m dry aid profile auth ctl s = (case apply_loop m dry ctl [] [] s of
     ((Some e, results, applied), s') \<Rightarrow> abort_activation m dry aid e results applied s'
   | ((None, results, applied), s') \<Rightarrow> finish_activation m dry aid profile auth ctl results applied s')"

definition activate :: "'w LockdownManager \<Rightarrow> bool \<Rightarrow> LockdownProfile \<Rightarrow> ActivationAuthorization \<Rightarrow> json_object \<Rightarrow>
    ('w, json_object) ld" where
  "activate m dry profile auth pre =
     (let ctl = controls_with_observed_rollback (host m) profile pre in
      ld_bind (read_clock m) (\<lambda>now.
        let aid = id_text (host m) now in
        ld_bind (make_activation_dir m aid) (\<lambda>_.
        ld_bind (write_all m (snapshot_evidence aid profile auth pre ctl)) (\<lambda>_.
          enforce m dry aid profile auth ctl))))"

definition text_items :: "json \<Rightarrow> string list" where
  "text_items v = (case v of JList xs \<Rightarrow> map (\<lambda>x. case x of JStr t \<Rightarrow> t | _ \<Rightarrow> '''') xs | _ \<Rightarrow> [])"

definition enable :: "'w LockdownManager \<Rightarrow> string \<Rightarrow> ActivationAuthorization \<Rightarrow> bool \<Rightarrow> ('w, json_object) ld" where
  "enable m nm auth dry =
     ld_bind (ld_lift (validate auth (require_root m \<and> \<not> dry))) (\<lambda>_.
     ld_bind (ld_lift (load_profile (host m) nm)) (\<lambda>profile.
     ld_bind (status m) (\<lambda>st.
       if truthy (od_get st ''active'' JNull)
       then ld_raise (RuntimeErr ''LOCKDOWN_ALREADY_ACTIVE: disable and verify rollback before enabling another profile.'')
       else ld_bind (preflight m nm) (\<lambda>pre.
         if \<not> truthy (od_get pre ''ready'' JNull) \<and> \<not> dry
         then ld_raise (RuntimeErr (''LOCKDOWN_PREFLIGHT_FAILED: '' @
                str_join '', '' (text_items (od_get pre ''probe_failures'' (JList [])))))
         else activate m dry profile auth pre))))"

section \<open>Deactivation, exceptions and reports\<close>

definition recorded_controls :: "json_object \<Rightarrow> ld_error + json list" where
  "recorded_controls st = py_bind (case od_get st ''profile'' (JObj []) of JObj d \<Rightarrow> Inr d
      | _ \<Rightarrow> Inl (AttributeErr ''object has no attribute get'')) (\<lambda>d. json_iter (od_get d ''controls'' (JList [])))"

definition result_succeeded :: "json \<Rightarrow> bool" where
  "result_succeeded v = (case v of JObj d \<Rightarrow> truthy (od_get d ''success'' JNull) | _ \<Rightarrow> False)"

definition rollback_report :: "ld_host \<Rightarrow> int \<Rightarrow> json list \<Rightarrow> ActivationAuthorization \<Rightarrow> json_object" where
  "rollback_report h now results auth = [(''feature_id'', JStr FEATURE_ID), (''product_name'', JStr PRODUCT_NAME),
     (''disabled_at'', JStr (iso_text h now)), (''restore_requested'', JBool True),
     (''restored'', JBool (list_all result_succeeded results)), (''results'', JList results),
     (''authorization'', JObj (authorization_dict auth))]"

definition record_rollback :: "'w LockdownManager \<Rightarrow> ActivationAuthorization \<Rightarrow> bool \<Rightarrow> json list \<Rightarrow> ('w, json_object) ld" where
  "record_rollback m auth dry results =
     ld_bind (read_clock m) (\<lambda>now.
       let report = rollback_report (host m) now results auth in
       ld_bind (write_evidence m [''lockdown_rollback_report.json''] report) (\<lambda>_.
       ld_bind (if list_all result_succeeded results \<and> \<not> dry
           then disk_write m (\<lambda>s. s\<lparr> files := AList.delete ACTIVE_STATE (files s) \<rparr>) else ld_return ()) (\<lambda>_.
       ld_bind (append_audit m ''disabled'' report) (\<lambda>_. ld_return report))))"

definition disable :: "'w LockdownManager \<Rightarrow> ActivationAuthorization \<Rightarrow> bool \<Rightarrow> bool \<Rightarrow> ('w, json_object) ld" where
  "disable m auth restore dry =
     ld_bind (ld_lift (validate auth (require_root m \<and> \<not> dry))) (\<lambda>_.
     if \<not> restore
     then ld_raise (ValueErr ''LOCKDOWN_RESTORE_REQUIRED: disabling without restoring the recorded security posture is prohibited.'')
     else ld_bind (status m) (\<lambda>st.
       if \<not> truthy (od_get st ''active'' JNull) \<and> \<not> dry then ld_raise (RuntimeErr ''LOCKDOWN_NOT_ACTIVE'')
       else ld_bind (ld_lift (recorded_controls st)) (\<lambda>ctl.
         ld_bind (rollback_controls m dry ctl) (record_rollback m auth dry))))"

definition record_exception :: "'w LockdownManager \<Rightarrow> json_object \<Rightarrow> json_object \<Rightarrow> ('w, json_object) ld" where
  "record_exception m st ex = (case od_get st ''exceptions'' (JList []) of
     JList xs \<Rightarrow>
       ld_bind (write_evidence m ACTIVE_STATE (AList.update ''exceptions'' (JList (xs @ [JObj ex])) st)) (\<lambda>_.
       ld_bind (append_audit m ''exception_added'' ex) (\<lambda>_. ld_return ex))
   | _ \<Rightarrow> ld_raise (AttributeErr ''object has no attribute append''))"

definition add_exception :: "'w LockdownManager \<Rightarrow> string \<Rightarrow> int \<Rightarrow> string \<Rightarrow> ActivationAuthorization \<Rightarrow> ('w, json_object) ld" where
  "add_exception m application duration_minutes reason auth =
     ld_bind (ld_lift (validate auth (require_root m))) (\<lambda>_.
     if duration_minutes < 1 \<or> 1440 < duration_minutes \<or> str_strip application = '''' \<or> str_strip reason = ''''
     then ld_raise (ValueErr ''Invalid emergency exception request.'')
     else ld_bind (status m) (\<lambda>st.
       if \<not> truthy (od_get st ''active'' JNull) then ld_raise (RuntimeErr ''LOCKDOWN_NOT_ACTIVE'')
       else ld_bind (read_clock m) (\<lambda>created. ld_bind (read_clock m) (\<lambda>now.
         let ex = [(''application'', JStr application), (''reason'', JStr reason), (''approved_by'', JStr (operator auth)),
               (''created_at'', JStr (iso_text (host m) created)),
               (''expires_at'', JStr (iso_text (host m) (now + duration_minutes * 60000000))),
               (''ticket_number'', JStr (ticket_number auth))] in
         record_exception m st ex))))"

definition report_payload :: "'w LockdownManager \<Rightarrow> ('w, json_object) ld" where
  "report_payload m = ld_bind (status m) (\<lambda>st s.
     let tail = drop (length (audit_lines s) - 1000) (audit_lines s) in
     ld_bind (read_clock m) (\<lambda>now. ld_return [(''status'', JObj st), (''audit_log'', JList (map (JStr \<circ> fst) tail)),
       (''generated_at'', JStr (iso_text (host m) now))]) s)"

definition export_report :: "'w LockdownManager \<Rightarrow> string list \<Rightarrow> ('w, unit) ld" where
  "export_report m destination = ld_bind (report_payload m) (\<lambda>d. write_evidence m destination d)"

section \<open>The command line\<close>

datatype ld_command = Status | Preflight | Enable | Disable | ExportReport

record ld_args =
  arg_command :: ld_command
  arg_profile :: string
  arg_operator :: string
  arg_reason :: string
  arg_ticket :: string
  arg_confirm :: string
  arg_dry_run :: bool
  arg_output :: "string list"

definition lockdown_main :: "'w LockdownManager \<Rightarrow> ld_args \<Rightarrow> ('w, json_object) ld" where
  "lockdown_main m a =
     (let auth = authorization (host m) (arg_operator a) (arg_reason a) (arg_ticket a) (arg_confirm a \<noteq> '''') (arg_confirm a) in
      case arg_command a of
        Status \<Rightarrow> status m
      | Preflight \<Rightarrow> preflight m (arg_profile a)
      | ExportReport \<Rightarrow> ld_bind (export_report m (arg_output a)) (\<lambda>_.
          ld_return [(''report'', JStr (str_join ''/'' (arg_output a)))])
      | Enable \<Rightarrow> enable m (arg_profile a) auth (arg_dry_run a)
      | Disable \<Rightarrow> disable m auth True (arg_dry_run a))"

end
