(* ===== verification/Lockdown_Laws.thy ===== *)
theory Lockdown_Laws
  imports Lockdown_Manager
begin

text \<open>
  Laws of the emergency protection mode: sequencing, sorted documents and the round trip of evidence
  files, what every operation keeps (the locale \<open>lockdown_kept\<close>, proved for the manager's operations
  once), and the hash chain of its audit log.
\<close>

section \<open>Sequencing\<close>

lemma ld_bind_Inr:
  "ld_bind c f s = (Inr y, t) \<longleftrightarrow> (\<exists>x s'. c s = (Inr x, s') \<and> f x s' = (Inr y, t))"
  by (auto simp: ld_bind_def split: prod.splits sum.splits)

lemma ld_bind_simps [simp]:
  "ld_bind (ld_lift (Inr x)) f = f x"
  "ld_bind (ld_lift (Inl e)) f = ld_raise e"
  "ld_bind (ld_return x) f = f x"
  "ld_bind (ld_raise e) f = ld_raise e"
  by (auto simp: ld_bind_def ld_lift_def ld_return_def ld_raise_def fun_eq_iff)

lemma ld_bind_step:
  "c s = (Inr x, s') \<Longrightarrow> ld_bind c f s = f x s'"
  "c s = (Inl e, s') \<Longrightarrow> ld_bind c f s = (Inl e, s')"
  by (simp_all add: ld_bind_def)

definition keeps :: "('w ld_state \<Rightarrow> bool) \<Rightarrow> ('w, 'a) ld \<Rightarrow> bool" where
  "keeps P c \<longleftrightarrow> (\<forall>s. P s \<longrightarrow> P (snd (c s)))"

lemma keepsD: "keeps P c \<Longrightarrow> P s \<Longrightarrow> P (snd (c s))"
  by (simp add: keeps_def)

lemma keepsI: "(\<And>s. P s \<Longrightarrow> P (snd (c s))) \<Longrightarrow> keeps P c"
  by (simp add: keeps_def)

named_theorems keeps_intros \<open>what operations keep\<close>

lemma keeps_bind [keeps_intros]:
  assumes "keeps P c" and "\<And>x. keeps P (f x)"
  shows "keeps P (ld_bind c f)"
proof (rule keepsI)
  fix s assume "P s"
  with assms(1) have "P (snd (c s))" by (rule keepsD)
  then show "P (snd (ld_bind c f s))"
    using assms(2) by (auto simp: ld_bind_def keeps_def split: prod.splits sum.splits)
qed

lemma keeps_pure [keeps_intros]:
  "keeps P (ld_return x)" "keeps P (ld_raise e)" "keeps P (ld_lift r)"
  by (simp_all add: keeps_def ld_return_def ld_raise_def ld_lift_def)

lemma keeps_if [keeps_intros]:
  "(b \<Longrightarrow> keeps P c) \<Longrightarrow> (\<not> b \<Longrightarrow> keeps P d) \<Longrightarrow> keeps P (if b then c else d)"
  by simp

section \<open>Sorted documents\<close>

lemma sort_key_map:
  assumes "\<And>p. fst (g p) = fst p"
  shows "sort_key fst (map g d) = map g (sort_key fst d)"
proof -
  have ins: "insort_key fst (g p) (map g e) = map g (insort_key fst p e)" for p and e
    by (induction e) (auto simp: assms)
  show ?thesis by (induction d) (simp_all add: ins)
qed

lemmas sort_key_map_prod = sort_key_map [of "map_prod id f" for f, simplified]

lemma map_of_sort_key: "map_of (sort_key fst d) = map_of d" for d :: "(string \<times> json) list"
  using map_of_canonical [of d] by (simp add: canonical_def)

lemma map_of_map_prod: "map_of (map (map_prod id f) d) k = map_option f (map_of d k)"
  by (induction d) auto

lemma sort_keys_idem [simp]: "sort_keys (sort_keys v) = sort_keys v"
proof (induction v)
  case (JObj d)
  let ?g = "map_prod id sort_keys"
  have g: "fst (?g p) = fst p" for p by simp
  have "sort_key fst (map ?g (sort_key fst (map ?g d))) = sort_key fst (sort_key fst (map ?g (map ?g d)))"
    by (simp only: sort_key_map [of ?g, OF g])
  also have "map ?g (map ?g d) = map ?g d" using JObj by (auto simp: snds.simps)
  also have "sort_key fst (sort_key fst (map ?g d)) = sort_key fst (map ?g d)"
    by (rule sort_key_id_if_sorted [OF sorted_sort_key])
  finally show ?case by (simp only: sort_keys.simps)
qed simp_all

lemma truthy_sort_keys [simp]: "truthy (sort_keys v) = truthy v"
proof (cases v)
  case (JObj d)
  have "length (sort_key fst (map (map_prod id sort_keys) d)) = length d" by simp
  then show ?thesis using JObj by (simp only: sort_keys.simps truthy.simps) (metis length_0_conv)
qed simp_all

lemma od_get_sorted:
  "sort_keys (JObj d) = JObj e \<Longrightarrow> sort_keys x = x \<Longrightarrow> od_get e k x = sort_keys (od_get d k x)"
  by (auto simp: od_get_def map_of_sort_key map_of_map_prod split: option.splits)

lemma delete_sorted:
  assumes "sort_keys (JObj d) = JObj e"
  shows "sort_keys (JObj (AList.delete k e)) = sort_keys (JObj (AList.delete k d))"
proof -
  have e: "e = sort_key fst (map (map_prod id sort_keys) d)" using assms by simp
  have "AList.delete k e = sort_key fst (AList.delete k (map (map_prod id sort_keys) d))"
    unfolding e AList.delete_eq by (rule filter_sort)
  also have "AList.delete k (map (map_prod id sort_keys) d) = map (map_prod id sort_keys) (AList.delete k d)"
    by (induction d) (auto simp: AList.delete_eq)
  finally have "JObj (AList.delete k e) = sort_keys (JObj (AList.delete k d))" by simp
  then show ?thesis by (simp only: sort_keys_idem)
qed

section \<open>Evidence files\<close>

lemma delete_update_self: "AList.delete k (AList.update k v d) = AList.delete k d"
  by (induction d) (auto simp: AList.delete_eq)

lemma stamped_no_integrity: "AList.delete ''integrity'' (stamped_body h now payload) = stamped_body h now payload"
proof (rule delete_absent)
  have "''integrity'' \<notin> set (od_keys (AList.delete ''integrity'' payload))"
    by (simp only: set_keys_delete) simp
  then show "''integrity'' \<notin> set (od_keys (stamped_body h now payload))"
    by (simp only: stamped_body_def Let_def set_keys_update split: if_split) simp
qed

lemma verify_written:
  assumes "sort_keys (JObj (evidence_body h now payload)) = JObj d"
  shows "verify_evidence h d"
proof -
  let ?b = "stamped_body h now payload"
  have "sort_keys (JObj (AList.delete ''integrity'' d)) = sort_keys (JObj ?b)"
    using delete_sorted [OF assms, of "''integrity''"]
    by (simp only: evidence_body_def Let_def delete_update_self stamped_no_integrity)
  then have hash: "payload_hash h (AList.delete ''integrity'' d) = payload_hash h ?b"
    by (simp only: payload_hash_def canonical_json_def)
  have "od_get d ''integrity'' JNull = sort_keys (od_get (evidence_body h now payload) ''integrity'' JNull)"
    using assms by (rule od_get_sorted) simp
  then have "od_get d ''integrity'' JNull = JObj [(''algorithm'', JStr ''sha256''), (''payload_sha256'', JStr (payload_hash h ?b))]"
    by (simp add: evidence_body_def od_get_update Let_def)
  then show ?thesis using hash by (simp add: verify_evidence_def od_get_def)
qed

text \<open>What is read back of a written payload, key by key.\<close>

lemma od_get_written:
  assumes "sort_keys (JObj (evidence_body h now payload)) = JObj d"
    and "k \<noteq> ''integrity''" and "k \<noteq> ''timestamp''" and "sort_keys x = x"
  shows "od_get d k x = sort_keys (od_get payload k x)"
proof -
  have "od_get (AList.delete ''integrity'' payload) k x = od_get payload k x"
    using assms(2) by (simp add: od_get_def)
  then have "od_get (evidence_body h now payload) k x = od_get payload k x"
    using assms(2,3) by (auto simp: evidence_body_def stamped_body_def od_get_update Let_def)
  then show ?thesis using od_get_sorted [OF assms(1,4)] by simp
qed

section \<open>What every operation keeps\<close>

text \<open>
  A property of the state that survives clock readings, evidence files and linked audit records
  survives the operations that only write files; one that survives the probes survives the
  preflight; one that also survives activation folders and (outside a dry run) commands of
  allow-listed programs survives every operation of the manager, whether it returns or raises.
\<close>

locale lockdown_files =
  fixes m :: "'w LockdownManager" and P :: "'w ld_state \<Rightarrow> bool"
  assumes tick: "P s \<Longrightarrow> P (s\<lparr> ticks := n \<rparr>)"
    and store: "P s \<Longrightarrow> P (s\<lparr> files := f \<rparr>)"
    and log: "P s \<Longrightarrow> previous_hash (host m) (audit_lines s) = Inr p \<Longrightarrow>
      v = sort_keys (JObj (chain_record (host m) now action payload p)) \<Longrightarrow>
      P (s\<lparr> audit_lines := audit_lines s @ [(line_text (host m) v, Some v)] \<rparr>)"
begin

lemma keeps_clock: "keeps P (read_clock m)"
  by (simp add: keeps_def read_clock_def tick)

lemma keeps_disk: "(\<And>s. P s \<Longrightarrow> P (f s)) \<Longrightarrow> keeps P (disk_write m f)"
  by (simp add: keeps_def disk_write_def Let_def tick)

lemma keeps_evidence: "keeps P (write_evidence m path payload)"
  unfolding write_evidence_def by (intro keeps_bind keeps_clock keeps_disk store)

lemma keeps_audit: "keeps P (append_audit m action payload)"
proof (rule keepsI)
  fix s assume s: "P s"
  show "P (snd (append_audit m action payload s))"
  proof (cases "previous_hash (host m) (audit_lines s)")
    case (Inr p)
    have "P (s\<lparr> ticks := n, audit_lines := audit_lines s @ [(line_text (host m) v, Some v)] \<rparr>)"
      if "v = sort_keys (JObj (chain_record (host m) now action payload p))" for v now n
      using log [of "s\<lparr> ticks := n \<rparr>", OF tick [OF s] _ that] Inr by simp
    then show ?thesis using Inr s
      by (simp add: append_audit_def ld_bind_def read_clock_def disk_write_def Let_def tick)
  qed (simp add: append_audit_def s ld_raise_def)
qed

lemma keeps_tamper: "keeps P (report_tamper m reason code)"
proof (rule keepsI)
  fix s assume "P s"
  with keeps_audit have "P (snd (append_audit m ''tamper_detected''
      [(''target'', JStr (state_dir m @ ''/active_state.json'')), (''reason'', JStr reason)] s))" by (rule keepsD)
  then show "P (snd (report_tamper m reason code s))"
    by (auto simp: report_tamper_def split: prod.splits sum.splits ld_error.splits)
qed

lemma keeps_status: "keeps P (status m)"
  by (rule keepsI)
    (auto simp: status_def keepsD [OF keeps_tamper] split: option.splits ld_content.splits sum.splits)

lemma keeps_write_all: "keeps P (write_all m ps)"
  by (induction ps) (auto simp: split_paired_all intro!: keeps_intros keeps_evidence)

end

locale lockdown_probed = lockdown_files m P
  for m :: "'w LockdownManager" and P :: "'w ld_state \<Rightarrow> bool" +
  assumes probe: "P s \<Longrightarrow> cmd \<in> snd ` set (probe_commands (host m)) \<Longrightarrow>
      P (s\<lparr> world := snd (runner m (world s) cmd 12) \<rparr>)"
begin

lemma run_probes_keeps:
  "P s \<Longrightarrow> snd ` set ps \<subseteq> snd ` set (probe_commands (host m)) \<Longrightarrow> P (snd (run_probes m ps s))"
proof (induction ps arbitrary: s rule: list.induct)
  case (Cons p ps)
  obtain k cmd where p: "p = (k, cmd)" by fastforce
  then have "P (s\<lparr> world := snd (runner m (world s) cmd 12) \<rparr>)"
    using Cons.prems by (intro probe) auto
  then have "P (snd (run_probe m cmd s))"
    by (auto simp: run_probe_def split: prod.splits run_outcome.splits)
  then show ?case using Cons.IH [of "snd (run_probe m cmd s)"] Cons.prems p
    by (simp add: Let_def case_prod_beta)
qed simp

lemma run_probes_lookup:
  assumes "P s" and "snd ` set ps \<subseteq> snd ` set (probe_commands (host m))" and "map_of ps k = Some cmd"
  shows "\<exists>s1. P s1 \<and> map_of (fst (run_probes m ps s)) k = Some (fst (run_probe m cmd s1))"
  using assms
proof (induction ps arbitrary: s rule: list.induct)
  case (Cons p ps)
  obtain k' cmd' where p: "p = (k', cmd')" by fastforce
  have "P (snd (run_probes m [(k', cmd')] s))" using Cons.prems p by (intro run_probes_keeps) auto
  then have "P (snd (run_probe m cmd' s))" by (simp add: Let_def case_prod_beta)
  then show ?case using Cons.IH [of "snd (run_probe m cmd' s)"] Cons.prems p
    by (auto simp: Let_def case_prod_beta)
qed simp

lemma keeps_preflight: "keeps P (preflight m nm)"
proof -
  have "keeps P (\<lambda>s. let (probes, s1) = run_probes m (probe_commands (host m)) s in f probes s1)"
    if "\<And>probes. keeps P (f probes)" for f :: "(string, json_object) odict \<Rightarrow> ('w, json_object) ld"
  proof (rule keepsI)
    fix s assume "P s"
    then have "P (snd (run_probes m (probe_commands (host m)) s))" by (rule run_probes_keeps) simp
    with that show "P (snd (let (probes, s1) = run_probes m (probe_commands (host m)) s in f probes s1))"
      by (auto simp: keeps_def split: prod.splits)
  qed
  from this [of "\<lambda>probes. let report = preflight_report (host m) profile probes in
     ld_bind (write_evidence m [''lockdown_preflight_report.json''] report) (\<lambda>_.
     ld_bind (append_audit m ''preflight'' [(''profile'', JStr (profile_id profile)),
         (''ready'', od_get report ''ready'' JNull), (''failures'', od_get report ''probe_failures'' JNull)]) (\<lambda>_.
       ld_return report))" for profile]
  show ?thesis unfolding preflight_def
    by (intro keeps_intros) (simp add: Let_def keeps_intros keeps_evidence keeps_audit)
qed

end

locale lockdown_kept = lockdown_probed m P
  for m :: "'w LockdownManager" and P :: "'w ld_state \<Rightarrow> bool" +
  fixes dry :: bool
  assumes folder: "P s \<Longrightarrow> P (s\<lparr> activation_dirs := ds \<rparr>)"
    and enforced: "P s \<Longrightarrow> \<not> dry \<Longrightarrow> cmd \<noteq> [] \<Longrightarrow> hd cmd \<in> set ALLOWED \<Longrightarrow>
      P (s\<lparr> world := snd (runner m (world s) cmd 20) \<rparr>)"
begin

lemma keeps_make_dir: "keeps P (make_activation_dir m aid)"
proof -
  have "keeps P (disk_write m (\<lambda>s. s\<lparr> activation_dirs := aid # activation_dirs s \<rparr>))"
    by (intro keeps_disk folder)
  then show ?thesis by (simp add: keeps_def make_activation_dir_def)
qed

lemma keeps_apply: "keeps P (apply_control m dry control)"
proof -
  have "keeps P (\<lambda>s. case runner m (world s) cmd 20 of
         (Raised e, w) \<Rightarrow> (Inl (RunnerErr e), s\<lparr> world := w \<rparr>)
       | (Completed rc out err, w) \<Rightarrow> (Inr (r rc out err), s\<lparr> world := w \<rparr>))"
    if "\<not> dry" "cmd \<noteq> []" "hd cmd \<in> set ALLOWED" for cmd and r :: "int \<Rightarrow> string \<Rightarrow> string \<Rightarrow> EnforcementResult"
  proof (rule keepsI)
    fix s assume "P s"
    then have "P (s\<lparr> world := snd (runner m (world s) cmd 20) \<rparr>)" using that by (rule enforced)
    then show "P (snd (case runner m (world s) cmd 20 of
         (Raised e, w) \<Rightarrow> (Inl (RunnerErr e), s\<lparr> world := w \<rparr>)
       | (Completed rc out err, w) \<Rightarrow> (Inr (r rc out err), s\<lparr> world := w \<rparr>)))"
      by (auto split: prod.splits run_outcome.splits)
  qed
  then show ?thesis unfolding apply_control_def Let_def by (intro keeps_intros) auto
qed

lemma keeps_rollback_control: "keeps P (rollback_control m dry v)"
  unfolding rollback_control_def by (cases v) (auto intro!: keeps_intros keeps_apply)

lemma keeps_rollback_loop: "keeps P (rollback_loop m dry cs results)"
  by (induction cs arbitrary: results)
    (auto simp: Let_def intro!: keeps_intros keeps_rollback_control)

lemma keeps_rollback: "keeps P (rollback_controls m dry cs)"
  unfolding rollback_controls_def by (rule keeps_rollback_loop)

lemma apply_loop_keeps: "P s \<Longrightarrow> P (snd (apply_loop m dry cs results applied s))"
proof (induction cs arbitrary: results applied s)
  case (Cons c cs)
  have "P (snd (apply_control m dry c s))" using keeps_apply Cons.prems by (rule keepsD)
  then show ?case using Cons.IH by (auto simp: Let_def split: prod.splits sum.splits)
qed simp

lemmas keeps_basic = keeps_intros keeps_clock keeps_evidence keeps_audit keeps_write_all keeps_make_dir
  keeps_rollback keeps_status keeps_preflight

lemma keeps_enforce: "keeps P (enforce m dry aid profile auth ctl)"
proof (rule keepsI)
  fix s assume "P s"
  then have s': "P (snd (apply_loop m dry ctl [] [] s))" by (rule apply_loop_keeps)
  have "keeps P (abort_activation m dry aid e results applied)" for e results applied
    unfolding abort_activation_def by (intro keeps_basic)
  moreover have "keeps P (finish_activation m dry aid profile auth ctl results applied)" for results applied
    unfolding finish_activation_def Let_def by (intro keeps_basic)
  ultimately show "P (snd (enforce m dry aid profile auth ctl s))"
    using s' by (auto simp: enforce_def keeps_def split: prod.splits option.splits)
qed

lemma keeps_enable: "keeps P (enable m nm auth dry)"
  unfolding enable_def activate_def Let_def by (intro keeps_basic keeps_enforce)

lemma keeps_disable: "keeps P (disable m auth restore dry)"
  unfolding disable_def record_rollback_def Let_def by (intro keeps_basic keeps_disk store)

lemma keeps_exception: "keeps P (add_exception m application minutes reason auth)"
proof -
  have list: "keeps P (case v of JList xs \<Rightarrow> f xs | _ \<Rightarrow> ld_raise e)"
    if "\<And>xs. keeps P (f xs)" for v and f :: "json list \<Rightarrow> ('w, json_object) ld" and e
    using that by (cases v) (auto intro: keeps_intros)
  show ?thesis unfolding add_exception_def record_exception_def Let_def by (intro keeps_basic list)
qed

lemma keeps_export: "keeps P (export_report m destination)"
proof -
  have "keeps P (\<lambda>s. ld_bind (read_clock m) (\<lambda>now. ld_return (f now s)) s)" for f :: "int \<Rightarrow> 'w ld_state \<Rightarrow> json_object"
    by (simp add: keeps_def ld_bind_def read_clock_def ld_return_def tick)
  then show ?thesis unfolding export_report_def report_payload_def Let_def by (intro keeps_basic)
qed

end

text \<open>The operations a client can call, as one type.\<close>

datatype ld_op =
    OpStatus
  | OpPreflight string
  | OpEnable string ActivationAuthorization bool
  | OpDisable ActivationAuthorization bool bool
  | OpException string int string ActivationAuthorization
  | OpExport "string list"

fun run_op :: "'w LockdownManager \<Rightarrow> ld_op \<Rightarrow> 'w ld_state \<Rightarrow> 'w ld_state" where
  "run_op m OpStatus s = snd (status m s)"
| "run_op m (OpPreflight nm) s = snd (preflight m nm s)"
| "run_op m (OpEnable nm auth dry) s = snd (enable m nm auth dry s)"
| "run_op m (OpDisable auth restore dry) s = snd (disable m auth restore dry s)"
| "run_op m (OpException app minutes reason auth) s = snd (add_exception m app minutes reason auth s)"
| "run_op m (OpExport dest) s = snd (export_report m dest s)"

fun op_dry :: "ld_op \<Rightarrow> bool" where
  "op_dry (OpEnable nm auth dry) = dry"
| "op_dry (OpDisable auth restore dry) = dry"
| "op_dry _ = True"

lemma run_op_keeps:
  assumes "lockdown_kept m P (op_dry op)" and "P s"
  shows "P (run_op m op s)"
  using assms by (cases op) (auto intro: lockdown_files.keeps_status [OF lockdown_probed.axioms(1) [OF lockdown_kept.axioms(1)]]
      lockdown_probed.keeps_preflight [OF lockdown_kept.axioms(1)]
      lockdown_kept.keeps_enable lockdown_kept.keeps_disable lockdown_kept.keeps_exception
      lockdown_kept.keeps_export keepsD)

text \<open>Files, folders and the audit log leave the machine alone.\<close>

interpretation same_world: lockdown_files m "\<lambda>s. world s = w" for m w
  by unfold_locales simp_all

lemma make_dir_world [simp]: "world (snd (make_activation_dir m aid s)) = world s"
  by (simp add: make_activation_dir_def disk_write_def Let_def)

section \<open>The audit chain\<close>

definition chain_line_ok :: "ld_host \<Rightarrow> nat \<Rightarrow> string \<Rightarrow> string \<times> json option \<Rightarrow> bool" where
  "chain_line_ok h n previous l = (case snd l of
     Some (JObj d) \<Rightarrow> od_get d ''previous_hash'' JNull = JStr previous \<and>
       od_get d ''record_hash'' JNull = JStr (payload_hash h (AList.delete ''record_hash'' d))
   | _ \<Rightarrow> False)"

definition line_hash :: "ld_host \<Rightarrow> string \<times> json option \<Rightarrow> string" where
  "line_hash h l = (case snd l of Some (JObj d) \<Rightarrow> json_str (repr_text h) (od_get d ''record_hash'' (JStr zero_digest)) | _ \<Rightarrow> '''')"

fun chain_linked :: "ld_host \<Rightarrow> nat \<Rightarrow> string \<Rightarrow> (string \<times> json option) list \<Rightarrow> bool" where
  "chain_linked h n p [] = True"
| "chain_linked h n p (l # ls) = (chain_line_ok h n p l \<and> chain_linked h (Suc n) (line_hash h l) ls)"

interpretation ldc: hash_chain "chain_line_ok h" "line_hash h" "chain_linked h" for h
  by unfold_locales simp_all

lemma previous_is_last_hash:
  assumes "chain_linked h n zero_digest ls" and "previous_hash h ls = Inr p"
  shows "p = (if ls = [] then zero_digest else line_hash h (last ls))"
  using assms(2) by (auto simp: previous_hash_def line_hash_def split: option.splits json.splits if_splits)

lemma chain_record_ok:
  assumes "sort_keys (JObj (chain_record h now action payload p)) = JObj d"
  shows "od_get d ''previous_hash'' JNull = JStr p"
    and "od_get d ''record_hash'' JNull = JStr (payload_hash h (AList.delete ''record_hash'' d))"
proof -
  let ?r = "chain_record h now action payload p"
  let ?b = "[(''timestamp'', JStr (iso_text h now)), (''action'', JStr action), (''payload'', JObj payload),
            (''previous_hash'', JStr p)]"
  have "sort_keys (JObj (AList.delete ''record_hash'' d)) = sort_keys (JObj (AList.delete ''record_hash'' ?r))"
    using assms by (rule delete_sorted)
  also have "AList.delete ''record_hash'' ?r = ?b" by (simp add: chain_record_def)
  finally have "payload_hash h (AList.delete ''record_hash'' d) = payload_hash h ?b"
    by (simp only: payload_hash_def canonical_json_def)
  moreover have g: "od_get d k JNull = sort_keys (od_get ?r k JNull)" for k
    by (rule od_get_sorted [OF assms]) simp
  ultimately show "od_get d ''record_hash'' JNull = JStr (payload_hash h (AList.delete ''record_hash'' d))"
    by (simp add: chain_record_def od_get_def Let_def)
  show "od_get d ''previous_hash'' JNull = JStr p"
    using g [of "''previous_hash''"] by (simp add: chain_record_def od_get_def Let_def)
qed

interpretation chain_kept: lockdown_kept m "\<lambda>s. chain_linked (host m) 0 zero_digest (audit_lines s)" dry for m dry
proof unfold_locales
  fix s :: "'a ld_state" and p v now action payload
  assume s: "chain_linked (host m) 0 zero_digest (audit_lines s)"
    and p: "previous_hash (host m) (audit_lines s) = Inr p"
    and v: "v = sort_keys (JObj (chain_record (host m) now action payload p))"
  obtain d where d: "sort_keys (JObj (chain_record (host m) now action payload p)) = JObj d" by simp
  have "chain_line_ok (host m) n p (line_text (host m) v, Some v)" for n
    using chain_record_ok [OF d] unfolding v d by (simp add: chain_line_ok_def)
  then show "chain_linked (host m) 0 zero_digest
      (audit_lines (s\<lparr> audit_lines := audit_lines s @ [(line_text (host m) v, Some v)] \<rparr>))"
    using s previous_is_last_hash [OF s p] by (simp add: ldc.verify_snoc)
qed simp_all

section \<open>Effects on files\<close>

lemma write_evidence_eq:
  "write_evidence m path payload s =
     (if disk_writable (host m) (Suc (ticks s)) then (Inr (), s\<lparr> ticks := Suc (Suc (ticks s)),
        files := AList.update path \<lparr> fmode = 384, fcontent = Parsed (sort_keys (JObj
          (evidence_body (host m) (clock (host m) (ticks s)) payload))) \<rparr> (files s) \<rparr>)
      else (Inl (OSErr ''write failed''), s\<lparr> ticks := Suc (Suc (ticks s)) \<rparr>))"
  by (simp add: write_evidence_def ld_bind_def read_clock_def disk_write_def Let_def)

lemma append_audit_files [simp]: "files (snd (append_audit m action payload s)) = files s"
  by (simp add: append_audit_def ld_bind_def ld_lift_def read_clock_def disk_write_def Let_def split: sum.splits)

lemma status_files [simp]: "files (snd (status m s)) = files s"
proof -
  have "files (snd (report_tamper m reason code s)) = files s" for reason code
    using append_audit_files [of m "''tamper_detected''" "[(''target'', JStr (state_dir m @ ''/active_state.json'')), (''reason'', JStr reason)]" s]
    by (auto simp: report_tamper_def simp del: append_audit_files split: prod.splits sum.splits ld_error.splits)
  then show ?thesis by (auto simp: status_def split: option.splits ld_content.splits sum.splits)
qed

lemma status_world [simp]: "world (snd (status m s)) = world s"
  by (rule keepsD [OF same_world.keeps_status]) simp

text \<open>A written active state is read back: it verifies, and its fields are those of the manifest.\<close>

lemma status_of_written:
  assumes "map_of (files s) ACTIVE_STATE =
      Some \<lparr> fmode = 384, fcontent = Parsed (sort_keys (JObj (evidence_body (host m) now payload))) \<rparr>"
  obtains d where "status m s = (Inr d, s)" and "verify_evidence (host m) d"
    and "\<forall>k x. k \<noteq> ''integrity'' \<longrightarrow> k \<noteq> ''timestamp'' \<longrightarrow> sort_keys x = x \<longrightarrow> od_get d k x = sort_keys (od_get payload k x)"
proof -
  obtain d where d: "sort_keys (JObj (evidence_body (host m) now payload)) = JObj d" by simp
  have v: "verify_evidence (host m) d" using d by (rule verify_written)
  then have "status m s = (Inr d, s)" using assms d by (simp add: status_def)
  then show ?thesis using v od_get_written [OF d] that by blast
qed

definition active_controls :: "'w LockdownManager \<Rightarrow> 'w ld_state \<Rightarrow> json list option" where
  "active_controls m s = (case status m s of
     (Inr st, s') \<Rightarrow> if truthy (od_get st ''active'' JNull) then (case recorded_controls st of Inr cs \<Rightarrow> Some cs | Inl e \<Rightarrow> None) else None
   | _ \<Rightarrow> None)"

text \<open>What is recorded as active does not depend on the machine.\<close>

lemma active_controls_world [simp]: "active_controls m (s\<lparr> world := w \<rparr>) = active_controls m s"
proof -
  have a: "fst (append_audit m action payload (s\<lparr> world := w \<rparr>)) = fst (append_audit m action payload s)" for action payload
    by (simp add: append_audit_def ld_bind_def ld_lift_def read_clock_def disk_write_def Let_def split: sum.splits)
  have "fst (report_tamper m reason code (s\<lparr> world := w \<rparr>)) = fst (report_tamper m reason code s)" for reason code
    using a [of "''tamper_detected''" "[(''target'', JStr (state_dir m @ ''/active_state.json'')), (''reason'', JStr reason)]"]
    by (auto simp: report_tamper_def split: prod.splits sum.splits ld_error.splits)
  then have "fst (status m (s\<lparr> world := w \<rparr>)) = fst (status m s)"
    by (simp add: status_def split: option.splits ld_content.splits sum.splits)
  then show ?thesis by (simp add: active_controls_def case_prod_beta)
qed

lemma active_controls_written:
  assumes stored: "map_of (files s) ACTIVE_STATE =
      Some \<lparr> fmode = 384, fcontent = Parsed (sort_keys (JObj (evidence_body (host m) now man))) \<rparr>"
    and active: "od_get man ''active'' JNull = JBool True"
    and profile: "od_get man ''profile'' (JObj []) = JObj pd" and ctl: "od_get pd ''controls'' (JList []) = JList cs"
  shows "active_controls m s = Some (map sort_keys cs)"
proof -
  from stored obtain d where st: "status m s = (Inr d, s)"
    and get: "\<forall>k x. k \<noteq> ''integrity'' \<longrightarrow> k \<noteq> ''timestamp'' \<longrightarrow> sort_keys x = x \<longrightarrow> od_get d k x = sort_keys (od_get man k x)"
    by (metis status_of_written)
  have "od_get d ''active'' JNull = JBool True" using get active by simp
  moreover obtain pe where pe: "sort_keys (JObj pd) = JObj pe" by simp
  then have "od_get d ''profile'' (JObj []) = JObj pe" using get profile by simp
  moreover have "od_get pe ''controls'' (JList []) = JList (map sort_keys cs)"
    using od_get_sorted [OF pe, of "JList []" "''controls''"] ctl by simp
  ultimately show ?thesis by (simp add: active_controls_def st recorded_controls_def)
qed

section \<open>Successful activations and deactivations\<close>

lemma enable_success:
  assumes "enable m nm auth dry s = (Inr man, s')"
  obtains p st s1 pre s2 where "validate auth (require_root m \<and> \<not> dry) = Inr ()" and "load_profile (host m) nm = Inr p"
    and "status m s = (Inr st, s1)" and "\<not> truthy (od_get st ''active'' JNull)" and "preflight m nm s1 = (Inr pre, s2)"
    and "dry \<or> truthy (od_get pre ''ready'' JNull)" and "activate m dry p auth pre s2 = (Inr man, s')"
  using assms unfolding enable_def
  by (auto simp: ld_bind_Inr ld_lift_def ld_raise_def split: if_splits)

lemma preflight_success:
  assumes "preflight m nm s = (Inr pre, s')" and "load_profile (host m) nm = Inr p"
  obtains probes s1 where "run_probes m (probe_commands (host m)) s = (probes, s1)"
    and "pre = preflight_report (host m) p probes" and "world s' = world s1"
proof -
  obtain probes s1 where run: "run_probes m (probe_commands (host m)) s = (probes, s1)" by fastforce
  obtain s2 where w: "write_evidence m [''lockdown_preflight_report.json''] (preflight_report (host m) p probes) s1 = (Inr (), s2)"
    and a: "snd (append_audit m ''preflight'' [(''profile'', JStr (profile_id p)),
         (''ready'', od_get (preflight_report (host m) p probes) ''ready'' JNull),
         (''failures'', od_get (preflight_report (host m) p probes) ''probe_failures'' JNull)] s2) = s'"
    and pre: "pre = preflight_report (host m) p probes"
    using assms run by (auto simp: preflight_def ld_bind_Inr ld_return_def Let_def)
  have "world s2 = world s1"
    using keepsD [OF same_world.keeps_evidence, of s1 "world s1"] w by (metis snd_conv)
  moreover have "world s' = world s2" using keepsD [OF same_world.keeps_audit, of s2 "world s2"] a by metis
  ultimately show ?thesis using that run pre by simp
qed

lemma finish_success:
  assumes "finish_activation m dry aid p auth ctl results applied s = (Inr man, s')"
  obtains now t where "man = activation_manifest m aid p auth dry ctl applied results now"
    and "map_of (files s') ACTIVE_STATE = Some \<lparr> fmode = 384, fcontent = Parsed (sort_keys (JObj (evidence_body (host m) t man))) \<rparr>"
    and "world s' = world s"
proof -
  let ?ev = "(if \<not> dry then ''enabled'' else ''enable_preview'')"
  let ?pl = "[(''activation_id'', JStr aid), (''profile'', JStr (profile_id p)), (''operator'', JStr (operator auth)),
          (''results'', JList results)]"
  obtain now s1 s2 s3 where c: "read_clock m s = (Inr now, s1)"
    and man: "man = activation_manifest m aid p auth dry ctl applied results now"
    and w1: "write_evidence m (activation_path aid ''lockdown_activation.json'') man s1 = (Inr (), s2)"
    and w2: "write_evidence m ACTIVE_STATE man s2 = (Inr (), s3)"
    and a: "snd (append_audit m ?ev ?pl s3) = s'"
    using assms by (auto simp: finish_activation_def ld_bind_Inr ld_return_def Let_def)
  have s3: "map_of (files s3) ACTIVE_STATE = Some \<lparr> fmode = 384, fcontent = Parsed (sort_keys (JObj
      (evidence_body (host m) (clock (host m) (ticks s2)) man))) \<rparr>"
    using w2 by (auto simp: write_evidence_eq split: if_splits)
  moreover have "files s' = files s3" using a append_audit_files by metis
  moreover have "world s3 = world s"
    using c w1 w2 by (auto simp: write_evidence_eq read_clock_def split: if_splits)
  moreover have "world s' = world s3" using keepsD [OF same_world.keeps_audit, of s3 "world s3"] a by metis
  ultimately show ?thesis using that man by metis
qed

lemma activate_success:
  assumes "activate m dry p auth pre s = (Inr man, s')"
  obtains aid s1 results applied s2 now t where
    "world s1 = world s" and
    "apply_loop m dry (controls_with_observed_rollback (host m) p pre) [] [] s1 = ((None, results, applied), s2)" and
    "man = activation_manifest m aid p auth dry (controls_with_observed_rollback (host m) p pre) applied results now" and
    "map_of (files s') ACTIVE_STATE = Some \<lparr> fmode = 384, fcontent = Parsed (sort_keys (JObj (evidence_body (host m) t man))) \<rparr>" and
    "world s' = world s2"
proof -
  let ?ctl = "controls_with_observed_rollback (host m) p pre"
  obtain n aid s0 sd s1 where c: "read_clock m s = (Inr n, s0)" and d: "make_activation_dir m aid s0 = (Inr (), sd)"
    and w: "write_all m (snapshot_evidence aid p auth pre ?ctl) sd = (Inr (), s1)"
    and e: "enforce m dry aid p auth ?ctl s1 = (Inr man, s')"
    using assms by (auto simp: activate_def ld_bind_Inr Let_def)
  have "world s0 = world s" using keepsD [OF same_world.keeps_clock, of s "world s"] c by (metis snd_conv)
  moreover have "world sd = world s0" using make_dir_world [of m aid s0] d by simp
  moreover have "world s1 = world sd" using keepsD [OF same_world.keeps_write_all, of sd "world sd"] w by (metis snd_conv)
  ultimately have w1: "world s1 = world s" by simp
  obtain oe results applied s2 where l: "apply_loop m dry ?ctl [] [] s1 = ((oe, results, applied), s2)"
    by (metis prod_cases3 prod.exhaust)
  have "oe = None"
    using e l by (auto simp: enforce_def abort_activation_def ld_bind_Inr ld_raise_def split: option.splits)
  then have "finish_activation m dry aid p auth ?ctl results applied s2 = (Inr man, s')"
    using e l by (simp add: enforce_def)
  then show ?thesis using that w1 l \<open>oe = None\<close> by (metis finish_success)
qed

lemma record_rollback_success:
  assumes "record_rollback m auth dry results s = (Inr rep, s')"
  shows "od_get rep ''restored'' JNull = JBool (list_all result_succeeded results)" and "world s' = world s"
    and "map_of (files s') ACTIVE_STATE = (if list_all result_succeeded results \<and> \<not> dry then None else map_of (files s) ACTIVE_STATE)"
proof -
  obtain n s3 s4 s5 where c: "read_clock m s = (Inr n, s3)" and rep: "rep = rollback_report (host m) n results auth"
    and w: "write_evidence m [''lockdown_rollback_report.json''] rep s3 = (Inr (), s4)"
    and u: "(if list_all result_succeeded results \<and> \<not> dry
             then disk_write m (\<lambda>s. s\<lparr> files := AList.delete ACTIVE_STATE (files s) \<rparr>) else ld_return ()) s4 = (Inr (), s5)"
    and l: "snd (append_audit m ''disabled'' rep s5) = s'"
    using assms unfolding record_rollback_def Let_def
    by (auto simp: ld_bind_Inr ld_return_def [of "rollback_report h n r a" for h n r a])
  have s4: "world s4 = world s" "map_of (files s4) ACTIVE_STATE = map_of (files s) ACTIVE_STATE"
    using c w by (auto simp: write_evidence_eq read_clock_def ACTIVE_STATE_def split: if_splits)
  have s5: "world s5 = world s4" "map_of (files s5) ACTIVE_STATE =
      (if list_all result_succeeded results \<and> \<not> dry then None else map_of (files s4) ACTIVE_STATE)"
    using u by (auto simp: disk_write_def ld_return_def Let_def split: if_splits)
  have "world s' = world s5" using keepsD [OF same_world.keeps_audit, of s5 "world s5"] l by metis
  with s4 s5 show "world s' = world s" by simp
  have "files s' = files s5" using l append_audit_files by metis
  with s4 s5 show "map_of (files s') ACTIVE_STATE =
      (if list_all result_succeeded results \<and> \<not> dry then None else map_of (files s) ACTIVE_STATE)" by simp
  show "od_get rep ''restored'' JNull = JBool (list_all result_succeeded results)"
    by (simp add: rep rollback_report_def od_get_def)
qed

lemma disable_success:
  assumes "disable m auth restore dry s = (Inr rep, s')"
  obtains st s1 cs results s2 where "validate auth (require_root m \<and> \<not> dry) = Inr ()" and restore
    and "status m s = (Inr st, s1)" and "dry \<or> truthy (od_get st ''active'' JNull)"
    and "recorded_controls st = Inr cs" and "rollback_controls m dry cs s1 = (Inr results, s2)"
    and "record_rollback m auth dry results s2 = (Inr rep, s')"
  using assms unfolding disable_def
  by (auto simp: ld_bind_Inr ld_lift_def ld_raise_def split: if_splits)

section \<open>One control\<close>

definition exits_zero :: "run_outcome \<Rightarrow> bool" where
  "exits_zero r = (case r of Completed rc out err \<Rightarrow> rc = 0 | Raised e \<Rightarrow> False)"

text \<open>A control that names an allow-listed command runs it, and its result says whether it exited with 0.\<close>

lemma apply_control_runs:
  assumes "od_get c ''apply'' (JList []) = JList (map JStr cmd)" and "cmd \<noteq> []" and "hd cmd \<in> set ALLOWED"
  shows "snd (apply_control m False c s) = s\<lparr> world := snd (runner m (world s) cmd 20) \<rparr>"
    and "fst (apply_control m False c s) = Inr r \<Longrightarrow>
      success r = exits_zero (fst (runner m (world s) cmd 20)) \<and> changed r = success r"
    and "fst (apply_control m False c s) = Inl e \<Longrightarrow> \<not> exits_zero (fst (runner m (world s) cmd 20))"
  using assms by (auto simp: apply_control_def str_items_def comp_def exits_zero_def Let_def
      split: prod.splits run_outcome.splits)

lemma rollback_control_runs:
  assumes undo: "od_get e ''rollback'' (JList []) = JList (map JStr cmd)" and cmd: "cmd \<noteq> []" "hd cmd \<in> set ALLOWED"
  shows "snd (rollback_control m False (JObj e) s) = s\<lparr> world := snd (runner m (world s) cmd 20) \<rparr>"
    and "fst (rollback_control m False (JObj e) s) = Inr r \<Longrightarrow>
      success r = exits_zero (fst (runner m (world s) cmd 20))"
    and "fst (rollback_control m False (JObj e) s) = Inl err \<Longrightarrow> \<not> exits_zero (fst (runner m (world s) cmd 20))"
proof -
  obtain d where d: "rollback_control m False (JObj e) = apply_control m False d"
    "od_get d ''apply'' (JList []) = JList (map JStr cmd)"
    using undo by (simp add: rollback_control_def od_get_update)
  note run = apply_control_runs [OF d(2) cmd]
  show "snd (rollback_control m False (JObj e) s) = s\<lparr> world := snd (runner m (world s) cmd 20) \<rparr>"
    unfolding d(1) by (rule run(1))
  show "fst (rollback_control m False (JObj e) s) = Inr r \<Longrightarrow> success r = exits_zero (fst (runner m (world s) cmd 20))"
    unfolding d(1) using run(2) by blast
  show "fst (rollback_control m False (JObj e) s) = Inl err \<Longrightarrow> \<not> exits_zero (fst (runner m (world s) cmd 20))"
    unfolding d(1) by (rule run(3))
qed

lemma sorted_rollback:
  assumes "sort_keys (JObj c) = JObj e" and "od_get c ''rollback'' (JList []) = JList (map JStr cmd)"
  shows "od_get e ''rollback'' (JList []) = JList (map JStr cmd)"
  using od_get_sorted [OF assms(1), of "JList []" "''rollback''"] assms(2) by (simp add: comp_def)

lemma apply_loop_done:
  assumes "apply_loop m dry (c # cs) results applied s = ((None, rs, as), s')"
  obtains r s1 where "apply_control m dry c s = (Inr r, s1)" and "success r"
    and "apply_loop m dry cs (results @ [result_dict r]) (if changed r then applied @ [c] else applied) s1 = ((None, rs, as), s')"
  using assms by (auto simp: Let_def split: prod.splits sum.splits if_splits)

lemma result_dict_succeeded [simp]: "result_succeeded (result_dict r) = success r"
  by (simp add: result_succeeded_def result_dict_def od_get_def)

lemma rollback_loop_done:
  assumes "rollback_loop m dry (c # cs) results s = (Inr rs, s')" and "list_all result_succeeded rs"
  obtains r s1 where "rollback_control m dry c s = (Inr r, s1)" and "success r"
    and "rollback_loop m dry cs (results @ [result_dict r]) s1 = (Inr rs, s')"
proof -
  obtain r s1 where r: "rollback_control m dry c s = (Inr r, s1)"
    and rest: "(let results' = results @ [result_dict r] in
       if \<not> success r then ld_return results' else rollback_loop m dry cs results') s1 = (Inr rs, s')"
    using assms(1) by (auto simp: ld_bind_Inr)
  have "success r" using rest assms(2) by (auto simp: ld_return_def Let_def split: if_splits)
  then show ?thesis using that r rest by simp
qed

end
