(* ===== verification/Lockdown_Progress.thy ===== *)
theory Lockdown_Progress
  imports Lockdown_Laws
begin

text \<open>
  Triples over operations that return or raise, and what a working disk makes total: evidence and
  audit records are written, a preflight whose probes exit with 0 is ready, and controls whose
  commands exit with 0 are applied and rolled back.
\<close>

section \<open>Triples\<close>

text \<open>From \<open>P\<close> the operation returns \<open>x\<close> in a state of \<open>R x\<close> or raises in a state of \<open>E\<close>.\<close>

definition outcome :: "('w ld_state \<Rightarrow> bool) \<Rightarrow> ('w, 'a) ld \<Rightarrow> ('a \<Rightarrow> 'w ld_state \<Rightarrow> bool) \<Rightarrow> ('w ld_state \<Rightarrow> bool) \<Rightarrow> bool" where
  "outcome P c R E \<longleftrightarrow> (\<forall>s. P s \<longrightarrow> (case c s of (Inr x, s') \<Rightarrow> R x s' | (Inl e, s') \<Rightarrow> E s'))"

lemma outcome_bind:
  assumes "outcome P c R E" and "\<And>x. outcome (R x) (f x) Q E"
  shows "outcome P (ld_bind c f) Q E"
  using assms by (fastforce simp: outcome_def ld_bind_def split: prod.splits sum.splits)

lemmas outcome_seq = outcome_bind [of P c "\<lambda>_. P" E f "\<lambda>_. P" for P c E f]

lemma outcome_weaken:
  assumes "outcome P' c R' E'" and "\<And>s. P s \<Longrightarrow> P' s" and "\<And>x s. R' x s \<Longrightarrow> R x s" and "\<And>s. E' s \<Longrightarrow> E s"
  shows "outcome P c R E"
  using assms by (fastforce simp: outcome_def split: prod.splits sum.splits)

lemma outcome_total:
  assumes "outcome P c R (\<lambda>_. False)" and "P s"
  obtains x s' where "c s = (Inr x, s')" and "R x s'"
proof -
  obtain r s' where r: "c s = (r, s')" by fastforce
  with assms show ?thesis using that by (cases r) (fastforce simp: outcome_def)+
qed

lemma outcome_raised:
  assumes "outcome P c R E" and "P s" and "c s = (Inl e, s')"
  shows "E s'"
  using assms by (fastforce simp: outcome_def)

lemma outcome_pure:
  "(\<And>s. P s \<Longrightarrow> R x s) \<Longrightarrow> outcome P (ld_return x) R E"
  "(\<And>s. P s \<Longrightarrow> E s) \<Longrightarrow> outcome P (ld_raise e) R E"
  by (simp_all add: outcome_def ld_return_def ld_raise_def)

lemma keeps_outcome: "keeps P c \<Longrightarrow> outcome P c (\<lambda>_. P) P"
  by (auto simp: keeps_def outcome_def split: prod.splits sum.splits)

section \<open>A working disk\<close>

definition disk_works :: "'w LockdownManager \<Rightarrow> bool" where
  "disk_works m \<longleftrightarrow> (\<forall>n. disk_writable (host m) n)"

text \<open>The last line of the audit log can be read.\<close>

definition loggable :: "'w LockdownManager \<Rightarrow> 'w ld_state \<Rightarrow> bool" where
  "loggable m s \<longleftrightarrow> (case previous_hash (host m) (audit_lines s) of Inr p \<Rightarrow> True | Inl e \<Rightarrow> False)"

lemma loggable_appended [simp]:
  "loggable m (s\<lparr> audit_lines := ls @ [(t, Some (sort_keys (JObj d)))] \<rparr>)"
  by (simp add: loggable_def previous_hash_def)

interpretation loggable_kept: lockdown_kept m "loggable m" dry for m dry
  by unfold_locales (simp_all add: loggable_def previous_hash_def)

interpretation same_dirs: lockdown_probed m "\<lambda>s. activation_dirs s = D" for m D
  by unfold_locales simp_all

text \<open>A property that survives files, on a state whose log and folders are known.\<close>

definition steady :: "'w LockdownManager \<Rightarrow> ('w ld_state \<Rightarrow> bool) \<Rightarrow> string list \<Rightarrow> 'w ld_state \<Rightarrow> bool" where
  "steady m P D s \<longleftrightarrow> P s \<and> loggable m s \<and> activation_dirs s = D"

lemma steady_files: "lockdown_files m P \<Longrightarrow> lockdown_files m (steady m P D)"
  by (auto simp: lockdown_files_def steady_def loggable_kept.tick loggable_kept.store loggable_kept.log)

lemma steady_probed: "lockdown_probed m P \<Longrightarrow> lockdown_probed m (steady m P D)"
  by (auto simp: lockdown_probed_def lockdown_probed_axioms_def steady_files steady_def loggable_kept.probe)

lemma clock_works: "lockdown_files m P \<Longrightarrow> outcome (steady m P D) (read_clock m) (\<lambda>_. steady m P D) E"
  using lockdown_files.keeps_clock [OF steady_files]
  by (fastforce simp: outcome_def keeps_def read_clock_def)

lemma evidence_works:
  assumes "disk_works m" and "lockdown_files m P"
  shows "outcome (steady m P D) (write_evidence m path payload) (\<lambda>_. steady m P D) E"
proof -
  have "keeps (steady m P D) (write_evidence m path payload)"
    using assms(2) by (intro lockdown_files.keeps_evidence steady_files)
  then show ?thesis using assms(1) by (simp add: outcome_def keeps_def write_evidence_eq disk_works_def)
qed

lemma audit_works:
  assumes "disk_works m" and "lockdown_files m P"
  shows "outcome (steady m P D) (append_audit m action payload) (\<lambda>_. steady m P D) E"
proof -
  have k: "keeps (steady m P D) (append_audit m action payload)"
    using assms(2) by (intro lockdown_files.keeps_audit steady_files)
  have "\<exists>s'. append_audit m action payload s = (Inr (), s')" if "steady m P D s" for s
    using that assms(1) by (auto simp: steady_def loggable_def append_audit_def ld_bind_def ld_lift_def read_clock_def
        disk_write_def disk_works_def Let_def split: sum.splits)
  then show ?thesis using k by (fastforce simp: outcome_def keeps_def)
qed

lemma write_all_works:
  assumes "disk_works m" and "lockdown_files m P"
  shows "outcome (steady m P D) (write_all m ps) (\<lambda>_. steady m P D) E"
  by (induction ps) (auto intro!: outcome_pure outcome_seq evidence_works [OF assms])

lemma make_dir_works:
  assumes "disk_works m" and "lockdown_files m P" and "\<And>s ds. P s \<Longrightarrow> P (s\<lparr> activation_dirs := ds \<rparr>)" and "aid \<notin> set D"
  shows "outcome (steady m P D) (make_activation_dir m aid) (\<lambda>_. steady m P (aid # D)) E"
  using assms lockdown_files.tick [OF assms(2)]
  by (auto simp: outcome_def make_activation_dir_def disk_write_def disk_works_def steady_def loggable_def Let_def)

lemma status_outcome:
  "lockdown_files m P \<Longrightarrow> outcome (steady m P D) (status m) (\<lambda>_. steady m P D) (steady m P D)"
  by (intro keeps_outcome lockdown_files.keeps_status steady_files)

lemma steady_any:
  assumes "\<And>D. outcome (steady m P D) c (\<lambda>_. steady m P D) E"
  shows "outcome (\<lambda>s. P s \<and> loggable m s) c (\<lambda>_ s. P s \<and> loggable m s) E"
  using assms by (fastforce simp: outcome_def steady_def split: prod.splits sum.splits)

lemma audit_success_loggable:
  assumes "append_audit m action payload s = (Inr u, s')"
  shows "loggable m s'"
proof -
  have "loggable m s" using assms
    by (auto simp: append_audit_def loggable_def ld_raise_def split: sum.splits)
  then have "loggable m (snd (append_audit m action payload s))"
    by (rule keepsD [OF loggable_kept.keeps_audit])
  then show ?thesis using assms by simp
qed

lemma preflight_success_loggable: "preflight m nm s = (Inr pre, s') \<Longrightarrow> loggable m s'"
  by (auto simp: preflight_def ld_bind_Inr ld_lift_def ld_return_def Let_def case_prod_beta dest: audit_success_loggable)

lemma preflight_works:
  assumes "disk_works m" and P: "lockdown_probed m P" and p: "load_profile (host m) nm = Inr p"
  shows "outcome (steady m P D) (preflight m nm) (\<lambda>_. steady m P D) E"
proof -
  have files: "lockdown_files m P" using P by (rule lockdown_probed.axioms)
  have after: "outcome (steady m P D) (ld_bind (write_evidence m path report) (\<lambda>_.
      ld_bind (append_audit m action payload) (\<lambda>_. ld_return report))) (\<lambda>_. steady m P D) E" for path report action payload
    by (intro outcome_seq outcome_pure evidence_works audit_works files assms(1))
  show ?thesis unfolding outcome_def
  proof (intro allI impI)
    fix s assume s: "steady m P D s"
    obtain probes s1 where run: "run_probes m (probe_commands (host m)) s = (probes, s1)" by fastforce
    have "steady m P D (snd (run_probes m (probe_commands (host m)) s))"
      by (rule lockdown_probed.run_probes_keeps [OF steady_probed [OF P] s subset_refl])
    then have "steady m P D s1" by (simp add: run)
    let ?r = "preflight_report (host m) p probes"
    let ?c = "ld_bind (write_evidence m [''lockdown_preflight_report.json''] ?r) (\<lambda>_.
        ld_bind (append_audit m ''preflight'' [(''profile'', JStr (profile_id p)), (''ready'', od_get ?r ''ready'' JNull),
          (''failures'', od_get ?r ''probe_failures'' JNull)]) (\<lambda>_. ld_return ?r))"
    have "preflight m nm s = ?c s1"
      unfolding preflight_def p ld_bind_simps run Let_def by simp
    moreover have "case ?c s1 of (Inl e, s') \<Rightarrow> E s' | (Inr x, s') \<Rightarrow> steady m P D s'"
      by (rule after [unfolded outcome_def, rule_format, OF \<open>steady m P D s1\<close>])
    ultimately show "case preflight m nm s of (Inl e, s') \<Rightarrow> E s' | (Inr x, s') \<Rightarrow> steady m P D s'"
      by (simp only:)
  qed
qed

section \<open>Commands that succeed\<close>

definition commands_succeed :: "'w LockdownManager \<Rightarrow> bool" where
  "commands_succeed m \<longleftrightarrow> (\<forall>w cmd t. exits_zero (fst (runner m w cmd t)))"

definition runs_allowed :: "json \<Rightarrow> bool" where
  "runs_allowed v \<longleftrightarrow> (\<exists>cmd. v = JList (map JStr cmd) \<and> cmd \<noteq> [] \<and> hd cmd \<in> set ALLOWED)"

lemma apply_loop_works:
  assumes "commands_succeed m" and "\<forall>c \<in> set cs. runs_allowed (od_get c ''apply'' (JList []))"
  shows "\<exists>rs as w. apply_loop m False cs results applied s = ((None, rs, as), s\<lparr> world := w \<rparr>)"
  using assms(2)
proof (induction cs arbitrary: results applied s)
  case Nil
  then show ?case by (simp, metis ld_state.surjective ld_state.update_convs(1))
next
  case (Cons c cs)
  then obtain cmd where cmd: "od_get c ''apply'' (JList []) = JList (map JStr cmd)" "cmd \<noteq> []" "hd cmd \<in> set ALLOWED"
    by (auto simp: runs_allowed_def)
  have z: "exits_zero (fst (runner m (world s) cmd 20))" using assms(1) by (simp add: commands_succeed_def)
  obtain x s1 where x: "apply_control m False c s = (x, s1)" by fastforce
  then obtain r where r: "x = Inr r" "success r" "s1 = s\<lparr> world := snd (runner m (world s) cmd 20) \<rparr>"
    using apply_control_runs [OF cmd, of m s] z by (cases x) auto
  obtain rs as w where "apply_loop m False cs (results @ [result_dict r]) (if changed r then applied @ [c] else applied) s1 =
      ((None, rs, as), s1\<lparr> world := w \<rparr>)" using Cons by fastforce
  then show ?case using x r by (auto simp: Let_def)
qed

lemma rollback_loop_works:
  assumes "commands_succeed m" and "\<forall>c \<in> set cs. \<exists>e. c = JObj e \<and> runs_allowed (od_get e ''rollback'' (JList []))"
    and "list_all result_succeeded results"
  shows "\<exists>rs w. rollback_loop m False cs results s = (Inr rs, s\<lparr> world := w \<rparr>) \<and> list_all result_succeeded rs"
  using assms(2,3)
proof (induction cs arbitrary: results s)
  case Nil
  then show ?case by (simp add: ld_return_def, metis ld_state.surjective ld_state.update_convs(1))
next
  case (Cons c cs)
  then obtain e cmd where cmd: "c = JObj e" "od_get e ''rollback'' (JList []) = JList (map JStr cmd)" "cmd \<noteq> []" "hd cmd \<in> set ALLOWED"
    by (auto simp: runs_allowed_def)
  have z: "exits_zero (fst (runner m (world s) cmd 20))" using assms(1) by (simp add: commands_succeed_def)
  obtain x s1 where x: "rollback_control m False c s = (x, s1)" by fastforce
  then obtain r where r: "x = Inr r" "success r" "s1 = s\<lparr> world := snd (runner m (world s) cmd 20) \<rparr>"
    using rollback_control_runs [OF cmd(2-4), of m s] z cmd(1) by (cases x) auto
  obtain rs w where "rollback_loop m False cs (results @ [result_dict r]) s1 = (Inr rs, s1\<lparr> world := w \<rparr>)"
    "list_all result_succeeded rs"
    using Cons.IH [of "results @ [result_dict r]" s1] Cons.prems r(2) by auto
  then show ?case using x r by (auto simp: Let_def ld_bind_def)
qed

lemma finish_works:
  assumes "disk_works m" and "lockdown_files m P"
  shows "outcome (steady m P D) (finish_activation m dry aid p auth ctl results applied) (\<lambda>_. steady m P D) E"
  unfolding finish_activation_def Let_def
  by (intro outcome_seq outcome_pure clock_works write_all_works audit_works assms)

lemma record_rollback_works:
  assumes "disk_works m" and "lockdown_files m P"
  shows "outcome (steady m P D) (record_rollback m auth dry results) (\<lambda>_. steady m P D) E"
proof -
  have "outcome (steady m P D) (disk_write m (\<lambda>s. s\<lparr> files := AList.delete ACTIVE_STATE (files s) \<rparr>)) (\<lambda>_. steady m P D) E"
    using assms(1) lockdown_files.tick [OF steady_files [OF assms(2)]] lockdown_files.store [OF steady_files [OF assms(2)]]
    by (simp add: outcome_def disk_write_def disk_works_def Let_def)
  then show ?thesis unfolding record_rollback_def Let_def
    by (intro outcome_seq outcome_pure clock_works evidence_works audit_works assms) (auto intro: outcome_pure)
qed

section \<open>A whole activation\<close>

text \<open>Any state whose log is readable.\<close>

abbreviation ready_for :: "'w LockdownManager \<Rightarrow> string list \<Rightarrow> 'w ld_state \<Rightarrow> bool" where
  "ready_for m D \<equiv> steady m (\<lambda>_. True) D"

lemma any_probed: "lockdown_probed m (\<lambda>_. True)"
  by unfold_locales simp_all

lemmas any_files = any_probed [THEN lockdown_probed.axioms(1)]

lemma enforce_works:
  assumes "disk_works m" and "commands_succeed m" and "\<forall>c \<in> set ctl. runs_allowed (od_get c ''apply'' (JList []))"
  shows "outcome (ready_for m D) (enforce m False aid p auth ctl) (\<lambda>_. ready_for m D) E"
  unfolding outcome_def
proof (intro allI impI)
  fix s assume s: "ready_for m D s"
  obtain rs as w where loop: "apply_loop m False ctl [] [] s = ((None, rs, as), s\<lparr> world := w \<rparr>)"
    using apply_loop_works [OF assms(2,3)] by blast
  have "ready_for m D (s\<lparr> world := w \<rparr>)" using s by (simp add: steady_def loggable_def)
  then show "case enforce m False aid p auth ctl s of (Inl e, s') \<Rightarrow> E s' | (Inr x, s') \<Rightarrow> ready_for m D s'"
    using finish_works [OF assms(1) any_files, unfolded outcome_def, rule_format] by (simp add: enforce_def loop)
qed

lemma activate_works:
  assumes disk: "disk_works m" and cmds: "commands_succeed m"
    and ctl: "\<forall>c \<in> set (controls p). runs_allowed (od_get c ''apply'' (JList []))"
    and fresh: "\<forall>n. id_text (host m) (clock (host m) n) \<notin> set D"
  shows "outcome (ready_for m D) (activate m False p auth pre) (\<lambda>_ s. loggable m s) E"
proof -
  let ?ctl = "controls_with_observed_rollback (host m) p pre"
  have "od_get (observed_rollback h inv c) ''apply'' x = od_get c ''apply'' x" for h inv c x
    by (simp add: observed_rollback_def Let_def od_get_update)
  then have ctl': "\<forall>c \<in> set ?ctl. runs_allowed (od_get c ''apply'' (JList []))"
    using ctl by (simp add: controls_with_observed_rollback_def)
  have clk: "outcome (ready_for m D) (read_clock m) (\<lambda>t s. ready_for m D s \<and> id_text (host m) t \<notin> set D) E"
    using fresh clock_works [OF any_files, of m D] by (simp add: outcome_def read_clock_def)
  have body: "outcome (ready_for m D) (ld_bind (make_activation_dir m aid) (\<lambda>_. ld_bind (write_all m ps) (\<lambda>_.
      enforce m False aid p auth ?ctl))) (\<lambda>_. ready_for m (aid # D)) E" if "aid \<notin> set D" for aid ps
    by (rule outcome_bind [OF make_dir_works [OF disk any_files _ that]])
      (auto intro: outcome_seq write_all_works [OF disk any_files] enforce_works [OF disk cmds ctl'])
  have "outcome (\<lambda>s. ready_for m D s \<and> id_text (host m) t \<notin> set D)
      (ld_bind (make_activation_dir m (id_text (host m) t)) (\<lambda>_. ld_bind (write_all m ps) (\<lambda>_.
        enforce m False (id_text (host m) t) p auth ?ctl))) (\<lambda>_ s. loggable m s) E" for t ps
  proof (cases "id_text (host m) t \<in> set D")
    case False
    show ?thesis using body [OF False] by (rule outcome_weaken) (auto simp: steady_def)
  qed (simp add: outcome_def)
  with clk show ?thesis unfolding activate_def Let_def by (rule outcome_bind)
qed

end
