(* ===== verification/Lockdown_Assurance.thy ===== *)
theory Lockdown_Assurance
  imports Lockdown_Progress
begin

text \<open>
  What the emergency protection mode guarantees of the settings it changes: an activation puts its
  profile in force and records how to undo it, a deactivation brings back the settings observed before
  the activation, a failed activation is undone, nothing happens without an authorization, only the
  probes and allow-listed programs are run, and the audit log stays one hash chain.
\<close>

section \<open>The tools of the host\<close>

text \<open>
  What the manager relies on of \<open>systemsetup\<close> and \<open>socketfilterfw\<close>, for two settings read off the
  machine: Remote Login and the Application Firewall. The probes change neither; the two state probes
  print the setting when they exit with 0, and do not exit with 1; a setter that exits with 0 has set
  its setting, any other outcome has not, and no setter touches the other setting.
\<close>

definition set_ssh :: "bool \<Rightarrow> string list" where
  "set_ssh b = [''/usr/sbin/systemsetup'', ''-setremotelogin'', if b then ''on'' else ''off'']"

definition set_firewall :: "bool \<Rightarrow> string list" where
  "set_firewall b = [''/usr/libexec/ApplicationFirewall/socketfilterfw'', ''--setglobalstate'', if b then ''on'' else ''off'']"

definition get_ssh :: "string list" where
  "get_ssh = [''/usr/sbin/systemsetup'', ''-getremotelogin'']"

definition get_firewall :: "string list" where
  "get_firewall = [''/usr/libexec/ApplicationFirewall/socketfilterfw'', ''--getglobalstate'']"

definition ssh_text :: "bool \<Rightarrow> string" where
  "ssh_text b = ''Remote Login: '' @ (if b then ''On'' else ''Off'') @ [CHR 0x0A]"

definition firewall_text :: "bool \<Rightarrow> string" where
  "firewall_text b = (if b then ''Firewall is enabled. (State = 1) '' else ''Firewall is disabled. (State = 0) '') @ [CHR 0x0A]"

definition prints :: "run_outcome \<Rightarrow> string \<Rightarrow> bool" where
  "prints r text = (case r of Completed rc out err \<Rightarrow> rc \<noteq> 1 \<and> (rc = 0 \<longrightarrow> out = text) | Raised e \<Rightarrow> True)"

definition mac_tools :: "'w LockdownManager \<Rightarrow> ('w \<Rightarrow> bool) \<Rightarrow> ('w \<Rightarrow> bool) \<Rightarrow> bool" where
  "mac_tools m ssh fw \<longleftrightarrow>
     (\<forall>w t. \<forall>cmd \<in> snd ` set (probe_commands (host m)).
        ssh (snd (runner m w cmd t)) = ssh w \<and> fw (snd (runner m w cmd t)) = fw w) \<and>
     (\<forall>w t. prints (fst (runner m w get_ssh t)) (ssh_text (ssh w))) \<and>
     (\<forall>w t. prints (fst (runner m w get_firewall t)) (firewall_text (fw w))) \<and>
     (\<forall>w t b. fw (snd (runner m w (set_ssh b) t)) = fw w \<and>
        ssh (snd (runner m w (set_ssh b) t)) = (if exits_zero (fst (runner m w (set_ssh b) t)) then b else ssh w)) \<and>
     (\<forall>w t b. ssh (snd (runner m w (set_firewall b) t)) = ssh w \<and>
        fw (snd (runner m w (set_firewall b) t)) = (if exits_zero (fst (runner m w (set_firewall b) t)) then b else fw w))"

lemma mac_toolsD:
  assumes "mac_tools m ssh fw"
  shows "cmd \<in> snd ` set (probe_commands (host m)) \<Longrightarrow>
      ssh (snd (runner m w cmd t)) = ssh w \<and> fw (snd (runner m w cmd t)) = fw w"
    and "prints (fst (runner m w get_ssh t)) (ssh_text (ssh w))"
    and "prints (fst (runner m w get_firewall t)) (firewall_text (fw w))"
    and "fw (snd (runner m w (set_ssh b) t)) = fw w"
    and "ssh (snd (runner m w (set_ssh b) t)) = (if exits_zero (fst (runner m w (set_ssh b) t)) then b else ssh w)"
    and "ssh (snd (runner m w (set_firewall b) t)) = ssh w"
    and "fw (snd (runner m w (set_firewall b) t)) = (if exits_zero (fst (runner m w (set_firewall b) t)) then b else fw w)"
  using assms unfolding mac_tools_def by blast+

definition ships_profiles :: "ld_host \<Rightarrow> bool" where
  "ships_profiles h \<longleftrightarrow> (\<forall>nm \<in> set PROFILE_NAMES. \<exists>raw. profile_file h nm = Some (raw, Parsed (JObj (shipped_profile nm))))"

section \<open>The shipped profiles\<close>

lemma each_dict [simp]: "each py_dict (map JObj cs) = Inr cs"
  by (induction cs) simp_all

lemma each_texts [simp]:
  "each (\<lambda>(k, v). py_bind (str_items h v) (\<lambda>ts. Inr (k, ts))) (map (\<lambda>(k, v). (k, JList (map JStr v))) cs) = Inr cs"
  by (induction cs) (auto simp: str_items_def comp_def)

lemma str_items_texts [simp]: "str_items h (JList (map JStr ts)) = Inr ts"
  by (simp add: str_items_def comp_def)

lemma parse_shipped:
  "\<exists>p. parse_profile h n raw (shipped_profile n) = Inr p \<and> profile_id p = n \<and> controls p = profile_controls n"
proof -
  obtain title purp mode where hd: "profile_heading n = (title, purp, mode)" by (metis prod_cases3)
  obtain c cs where cs: "map JObj (profile_controls n) = c # cs"
    by (cases "n = ''investigation_mode''") (auto simp: profile_controls_def)
  have d: "each py_dict (c # cs) = Inr (profile_controls n)" by (simp flip: cs)
  show ?thesis
    by (simp add: parse_profile_def shipped_profile_def hd od_get_def str_at_def cs d del: each.simps(2))
      simp
qed

lemma load_shipped:
  assumes "ships_profiles h" and "load_profile h nm = Inr p"
  shows "controls p = profile_controls (profile_id p)"
proof -
  obtain n raw where "parse_profile h n raw (shipped_profile n) = Inr p"
    using assms unfolding load_profile_def ships_profiles_def Let_def by (fastforce split: if_splits)
  then show ?thesis using parse_shipped [of h n raw] by auto
qed

section \<open>What the preflight observes\<close>

lemma settings_kept:
  assumes "mac_tools m ssh fw"
  shows "lockdown_probed m (\<lambda>s. ssh (world s) = a \<and> fw (world s) = b)"
  using assms by unfold_locales (auto simp: mac_tools_def)

lemma probe_text:
  assumes "\<not> probe_failed (fst (run_probe m cmd s))" and "prints (fst (runner m (world s) cmd 12)) text"
    and "length text \<le> 32768"
  shows "od_get (fst (run_probe m cmd s)) ''stdout'' x = JStr text"
  using assms by (auto simp: run_probe_def probe_failed_def prints_def od_get_def text_tail_def
      split: prod.splits run_outcome.splits)

definition inventory_of :: "(string, json_object) odict \<Rightarrow> json_object" where
  "inventory_of probes = map (\<lambda>(k, r). (k, JObj r)) probes"

lemma obj_at_inventory: "obj_at (inventory_of probes) k = od_get probes k []"
proof -
  have "map_of (inventory_of probes) k = map_option JObj (map_of probes k)"
    by (induction probes) (auto simp: inventory_of_def)
  then show ?thesis by (simp add: obj_at_def od_get_def split: option.splits)
qed

lemma report_fields:
  "obj_at (preflight_report h p probes) ''inventory'' = inventory_of probes"
  "od_get (preflight_report h p probes) ''ready'' JNull = JBool (\<forall>r \<in> set (od_values probes). \<not> probe_failed r)"
  by (auto simp: preflight_report_def obj_at_def od_get_def inventory_of_def Let_def filter_empty_conv)

lemma observed_probe:
  assumes tools: "mac_tools m ssh fw" and run: "run_probes m (probe_commands (host m)) s = (probes, s')"
    and ready: "\<forall>r \<in> set (od_values probes). \<not> probe_failed r"
    and cmd: "map_of (probe_commands (host m)) k = Some cmd"
    and printed: "\<And>w. ssh w = ssh (world s) \<Longrightarrow> fw w = fw (world s) \<Longrightarrow> prints (fst (runner m w cmd 12)) text"
    and len: "length text \<le> 32768"
  shows "od_get (obj_at (inventory_of probes) k) ''stdout'' x = JStr text"
proof -
  obtain s1 where s1: "ssh (world s1) = ssh (world s) \<and> fw (world s1) = fw (world s)"
    and look: "map_of probes k = Some (fst (run_probe m cmd s1))"
    using lockdown_probed.run_probes_lookup [OF settings_kept [OF tools], of s "ssh (world s)" "fw (world s)"
        "probe_commands (host m)" k cmd] cmd run by auto
  then have "fst (run_probe m cmd s1) \<in> set (od_values probes)" by (force dest: map_of_SomeD)
  with ready have "\<not> probe_failed (fst (run_probe m cmd s1))" by blast
  then have "od_get (fst (run_probe m cmd s1)) ''stdout'' x = JStr text"
    using s1 printed len by (intro probe_text) auto
  then show ?thesis using look by (simp add: obj_at_inventory od_get_def)
qed

lemma observed_texts:
  assumes "mac_tools m ssh fw" and "run_probes m (probe_commands (host m)) s = (probes, s')"
    and "\<forall>r \<in> set (od_values probes). \<not> probe_failed r"
  shows "od_get (obj_at (inventory_of probes) ''remote_login'') ''stdout'' x = JStr (ssh_text (ssh (world s)))"
    and "od_get (obj_at (inventory_of probes) ''application_firewall'') ''stdout'' x = JStr (firewall_text (fw (world s)))"
proof -
  show "od_get (obj_at (inventory_of probes) ''remote_login'') ''stdout'' x = JStr (ssh_text (ssh (world s)))"
    using assms
  proof (rule observed_probe [where cmd = get_ssh])
    show "map_of (probe_commands (host m)) ''remote_login'' = Some get_ssh"
      by (simp add: probe_commands_def get_ssh_def)
    show "prints (fst (runner m w get_ssh 12)) (ssh_text (ssh (world s)))" if "ssh w = ssh (world s)" for w
      using mac_toolsD(2,3) [OF assms(1), of w 12] that by simp
  qed (simp add: ssh_text_def)
  show "od_get (obj_at (inventory_of probes) ''application_firewall'') ''stdout'' x = JStr (firewall_text (fw (world s)))"
    using assms
  proof (rule observed_probe [where cmd = get_firewall])
    show "map_of (probe_commands (host m)) ''application_firewall'' = Some get_firewall"
      by (simp add: probe_commands_def get_firewall_def)
    show "prints (fst (runner m w get_firewall 12)) (firewall_text (fw (world s)))" if "fw w = fw (world s)" for w
      using mac_toolsD(2,3) [OF assms(1), of w 12] that by simp
  qed (simp add: firewall_text_def)
qed

text \<open>The controls of a shipped profile, with the rollback that brings back the observed settings.\<close>

definition ssh_restoring :: "bool \<Rightarrow> json_object" where
  "ssh_restoring a = AList.update ''rollback'' (JList (map JStr (set_ssh a))) remote_login_control"

definition firewall_restoring :: "bool \<Rightarrow> json_object" where
  "firewall_restoring b = AList.update ''rollback'' (JList (map JStr (set_firewall b))) firewall_control"

definition restoring_controls :: "string \<Rightarrow> bool \<Rightarrow> bool \<Rightarrow> json_object list" where
  "restoring_controls nm a b =
     (if nm = ''investigation_mode'' then [firewall_restoring b] else [ssh_restoring a, firewall_restoring b])"

lemma ssh_text_on: "str_contains ''on'' (str_lower (ssh_text a)) = a"
  by (cases a; simp only:; code_simp)

lemma firewall_text_on:
  "(str_contains ''enabled'' (str_lower (firewall_text b)) \<or> str_contains ''state = 1'' (str_lower (firewall_text b))) = b"
  by (cases b; simp only:; code_simp)

lemma observed_controls:
  assumes tools: "mac_tools m ssh fw" and run: "run_probes m (probe_commands (host m)) s = (probes, s')"
    and ready: "\<forall>r \<in> set (od_values probes). \<not> probe_failed r"
    and ctl: "controls p = profile_controls (profile_id p)"
  shows "controls_with_observed_rollback (host m) p (preflight_report (host m) p probes) =
    restoring_controls (profile_id p) (ssh (world s)) (fw (world s))"
proof -
  note texts = observed_texts [OF tools run ready]
  have "od_get remote_login_control ''state_probe'' x = JStr ''remote_login''" for x
    by (simp add: remote_login_control_def od_get_def)
  then have "observed_rollback (host m) (inventory_of probes) remote_login_control = ssh_restoring (ssh (world s))"
    by (simp add: observed_rollback_def texts ssh_text_on ssh_restoring_def set_ssh_def Let_def)
  moreover have "od_get firewall_control ''state_probe'' x = JStr ''application_firewall''" for x
    by (simp add: firewall_control_def od_get_def)
  then have "observed_rollback (host m) (inventory_of probes) firewall_control = firewall_restoring (fw (world s))"
    by (simp add: observed_rollback_def texts firewall_text_on firewall_restoring_def set_firewall_def Let_def)
  ultimately show ?thesis
    by (simp add: controls_with_observed_rollback_def report_fields ctl profile_controls_def restoring_controls_def)
qed

section \<open>The profile in force\<close>

definition manages_ssh :: "string \<Rightarrow> bool" where
  "manages_ssh nm \<longleftrightarrow> nm \<noteq> ''investigation_mode''"

lemma control_apply:
  "od_get (ssh_restoring a) ''apply'' (JList []) = JList (map JStr (set_ssh False))"
  "od_get (firewall_restoring b) ''apply'' (JList []) = JList (map JStr (set_firewall True))"
  by (simp_all add: ssh_restoring_def firewall_restoring_def od_get_update)
    (simp_all add: remote_login_control_def firewall_control_def od_get_def set_ssh_def set_firewall_def)

lemma control_rollback:
  "od_get (ssh_restoring a) ''rollback'' (JList []) = JList (map JStr (set_ssh a))"
  "od_get (firewall_restoring b) ''rollback'' (JList []) = JList (map JStr (set_firewall b))"
  by (simp_all add: ssh_restoring_def firewall_restoring_def od_get_update)

lemma setters_allowed:
  "set_ssh a \<noteq> []" "hd (set_ssh a) \<in> set ALLOWED" "set_firewall b \<noteq> []" "hd (set_firewall b) \<in> set ALLOWED"
  by (simp_all add: set_ssh_def set_firewall_def ALLOWED_def)

lemmas ssh_applied = apply_control_runs [OF control_apply(1) setters_allowed(1,2)]
lemmas firewall_applied = apply_control_runs [OF control_apply(2) setters_allowed(3,4)]

lemma ssh_step:
  assumes "mac_tools m ssh fw" and "apply_control m False (ssh_restoring a) s = (Inr r, s')" and "success r"
  shows "\<not> ssh (world s')" and "fw (world s') = fw (world s)"
  using ssh_applied(1,2) [of m a s] assms mac_toolsD(4,5) [OF assms(1), of "world s" False 20] by auto

lemma firewall_step:
  assumes "mac_tools m ssh fw" and "apply_control m False (firewall_restoring b) s = (Inr r, s')" and "success r"
  shows "fw (world s')" and "ssh (world s') = ssh (world s)"
  using firewall_applied(1,2) [of m b s] assms mac_toolsD(6,7) [OF assms(1), of "world s" True 20] by auto

lemma restoring_loop_done:
  assumes tools: "mac_tools m ssh fw"
    and loop: "apply_loop m False (restoring_controls nm a b) [] [] s = ((None, rs, as), s')"
  shows "fw (world s')" and "ssh (world s') = (if manages_ssh nm then False else ssh (world s))"
proof -
  have fwl: "fw (world s') \<and> ssh (world s') = ssh (world s1)"
    if "apply_loop m False [firewall_restoring b] rs0 as0 s1 = ((None, rs, as), s')" for rs0 as0 s1
    using that by (rule apply_loop_done) (use firewall_step [OF tools] in auto)
  show "fw (world s')" and "ssh (world s') = (if manages_ssh nm then False else ssh (world s))"
  proof (atomize (full), cases "manages_ssh nm")
    case True
    then have "apply_loop m False [ssh_restoring a, firewall_restoring b] [] [] s = ((None, rs, as), s')"
      using loop by (simp add: restoring_controls_def manages_ssh_def)
    then show "fw (world s') \<and> ssh (world s') = (if manages_ssh nm then False else ssh (world s))"
      by (rule apply_loop_done) (use fwl ssh_step [OF tools] True in auto)
  next
    case False
    then show "fw (world s') \<and> ssh (world s') = (if manages_ssh nm then False else ssh (world s))"
      using fwl loop by (simp add: restoring_controls_def manages_ssh_def)
  qed
qed

lemma settings_of_status:
  assumes "status m s = (r, s1)"
  shows "world s1 = world s"
  using status_world [of m s] assms by simp

lemma enable_observes:
  assumes tools: "mac_tools m ssh fw" and ships: "ships_profiles (host m)"
    and en: "enable m nm auth False s = (Inr man, s')"
  obtains p aid s1 results applied s2 now t where "load_profile (host m) nm = Inr p"
    and "ssh (world s1) = ssh (world s) \<and> fw (world s1) = fw (world s)"
    and "apply_loop m False (restoring_controls (profile_id p) (ssh (world s)) (fw (world s))) [] [] s1 = ((None, results, applied), s2)"
    and "man = activation_manifest m aid p auth False (restoring_controls (profile_id p) (ssh (world s)) (fw (world s))) applied results now"
    and "map_of (files s') ACTIVE_STATE = Some \<lparr> fmode = 384, fcontent = Parsed (sort_keys (JObj (evidence_body (host m) t man))) \<rparr>"
    and "world s' = world s2"
proof -
  from en obtain p st sa pre sb where p: "load_profile (host m) nm = Inr p" and st: "status m s = (Inr st, sa)"
    and pre: "preflight m nm sa = (Inr pre, sb)" and ready: "truthy (od_get pre ''ready'' JNull)"
    and act: "activate m False p auth pre sb = (Inr man, s')"
    by (rule enable_success) auto
  from pre p obtain probes sc where run: "run_probes m (probe_commands (host m)) sa = (probes, sc)"
    and rep: "pre = preflight_report (host m) p probes" and wb: "world sb = world sc"
    by (rule preflight_success)
  have wa: "world sa = world s" using st by (rule settings_of_status)
  have good: "\<forall>r \<in> set (od_values probes). \<not> probe_failed r" using ready by (simp add: rep report_fields)
  have ctl: "controls_with_observed_rollback (host m) p pre = restoring_controls (profile_id p) (ssh (world s)) (fw (world s))"
    using observed_controls [OF tools run good load_shipped [OF ships p]] by (simp add: rep wa)
  have "ssh (world sc) = ssh (world s) \<and> fw (world sc) = fw (world s)"
    using lockdown_probed.run_probes_keeps [OF settings_kept [OF tools], of sa "ssh (world s)" "fw (world s)"
        "probe_commands (host m)"] run wa by simp
  moreover from act obtain aid s1 results applied s2 now t where
    "world s1 = world sb"
    "apply_loop m False (controls_with_observed_rollback (host m) p pre) [] [] s1 = ((None, results, applied), s2)"
    "man = activation_manifest m aid p auth False (controls_with_observed_rollback (host m) p pre) applied results now"
    "map_of (files s') ACTIVE_STATE = Some \<lparr> fmode = 384, fcontent = Parsed (sort_keys (JObj (evidence_body (host m) t man))) \<rparr>"
    "world s' = world s2" by (rule activate_success)
  ultimately show ?thesis using that p wb unfolding ctl by metis
qed

lemma manifest_fields:
  "od_get (activation_manifest m aid p auth dry ctl applied results now) ''active'' JNull = JBool (\<not> dry)"
  "od_get (activation_manifest m aid p auth dry ctl applied results now) ''profile'' (JObj []) =
     JObj (AList.update ''controls'' (JList (map JObj ctl)) (profile_dict p))"
  by (simp_all add: activation_manifest_def od_get_def)

lemma enable_effect:
  assumes tools: "mac_tools m ssh fw" and ships: "ships_profiles (host m)"
    and en: "enable m nm auth False s = (Inr man, s')" and p: "load_profile (host m) nm = Inr p"
  shows "fw (world s')" and "ssh (world s') = (if manages_ssh (profile_id p) then False else ssh (world s))"
    and "active_controls m s' = Some (map (sort_keys \<circ> JObj) (restoring_controls (profile_id p) (ssh (world s)) (fw (world s))))"
proof -
  let ?ctl = "restoring_controls (profile_id p) (ssh (world s)) (fw (world s))"
  obtain p' aid s1 results applied s2 now t where p': "load_profile (host m) nm = Inr p'"
    and s1: "ssh (world s1) = ssh (world s) \<and> fw (world s1) = fw (world s)"
    and loop': "apply_loop m False (restoring_controls (profile_id p') (ssh (world s)) (fw (world s))) [] [] s1 = ((None, results, applied), s2)"
    and man': "man = activation_manifest m aid p' auth False (restoring_controls (profile_id p') (ssh (world s)) (fw (world s))) applied results now"
    and stored: "map_of (files s') ACTIVE_STATE = Some \<lparr> fmode = 384, fcontent = Parsed (sort_keys (JObj (evidence_body (host m) t man))) \<rparr>"
    and w: "world s' = world s2" by (rule enable_observes [OF tools ships en])
  have "p' = p" using p p' by simp
  with loop' man' have loop: "apply_loop m False ?ctl [] [] s1 = ((None, results, applied), s2)"
    and man: "man = activation_manifest m aid p auth False ?ctl applied results now" by simp_all
  show "fw (world s')" and "ssh (world s') = (if manages_ssh (profile_id p) then False else ssh (world s))"
    using restoring_loop_done [OF tools loop] s1 w by simp_all
  have "od_get man ''active'' JNull = JBool True"
    and "od_get man ''profile'' (JObj []) = JObj (AList.update ''controls'' (JList (map JObj ?ctl)) (profile_dict p))"
    by (simp_all add: man manifest_fields)
  with stored have "active_controls m s' = Some (map sort_keys (map JObj ?ctl))"
    by (rule active_controls_written) (simp add: od_get_update)
  then show "active_controls m s' = Some (map (sort_keys \<circ> JObj) ?ctl)" by simp
qed

section \<open>Undoing it\<close>

lemma ssh_undone:
  assumes "mac_tools m ssh fw" and "rollback_control m False (sort_keys (JObj (ssh_restoring a))) s = (Inr r, s')" and "success r"
  shows "ssh (world s') = a \<and> fw (world s') = fw (world s)"
proof -
  obtain e where e: "sort_keys (JObj (ssh_restoring a)) = JObj e" by simp
  show ?thesis
    using rollback_control_runs(1,2) [OF sorted_rollback [OF e control_rollback(1)] setters_allowed(1,2), of m s] assms
      mac_toolsD(4,5) [OF assms(1), of "world s" a 20] unfolding e by auto
qed

lemma firewall_undone:
  assumes "mac_tools m ssh fw" and "rollback_control m False (sort_keys (JObj (firewall_restoring b))) s = (Inr r, s')" and "success r"
  shows "fw (world s') = b \<and> ssh (world s') = ssh (world s)"
proof -
  obtain e where e: "sort_keys (JObj (firewall_restoring b)) = JObj e" by simp
  show ?thesis
    using rollback_control_runs(1,2) [OF sorted_rollback [OF e control_rollback(2)] setters_allowed(3,4), of m s] assms
      mac_toolsD(6,7) [OF assms(1), of "world s" b 20] unfolding e by auto
qed

lemma rollback_restores:
  assumes tools: "mac_tools m ssh fw"
    and undo: "rollback_controls m False (map (sort_keys \<circ> JObj) (restoring_controls nm a b)) s = (Inr results, s')"
    and good: "list_all result_succeeded results"
  shows "fw (world s') = b \<and> ssh (world s') = (if manages_ssh nm then a else ssh (world s))"
proof -
  let ?f = "sort_keys (JObj (firewall_restoring b))" and ?h = "sort_keys (JObj (ssh_restoring a))"
  have "rollback_loop m False (?f # (if manages_ssh nm then [?h] else [])) [] s = (Inr results, s')"
    using undo by (cases "manages_ssh nm")
      (simp_all add: rollback_controls_def restoring_controls_def manages_ssh_def del: sort_keys.simps rollback_loop.simps)
  then obtain r s1 where r: "rollback_control m False ?f s = (Inr r, s1)" "success r"
    and rest: "rollback_loop m False (if manages_ssh nm then [?h] else []) ([] @ [result_dict r]) s1 = (Inr results, s')"
    using good by (rule rollback_loop_done)
  have f: "fw (world s1) = b \<and> ssh (world s1) = ssh (world s)" using tools r by (rule firewall_undone)
  show ?thesis
  proof (cases "manages_ssh nm")
    case True
    then have "rollback_loop m False [?h] [result_dict r] s1 = (Inr results, s')" using rest by simp
    then obtain r2 where "rollback_control m False ?h s1 = (Inr r2, s')" "success r2"
      using good by (rule rollback_loop_done) (auto simp: ld_return_def)
    with tools have "ssh (world s') = a \<and> fw (world s') = fw (world s1)" by (rule ssh_undone)
    then show ?thesis using f True by simp
  next
    case False
    then show ?thesis using rest f by (simp add: ld_return_def)
  qed
qed

section \<open>Progress\<close>

lemma probe_succeeds: "commands_succeed m \<Longrightarrow> \<not> probe_failed (fst (run_probe m cmd s))"
  unfolding commands_succeed_def
  by (auto simp: run_probe_def probe_failed_def exits_zero_def od_get_def split: prod.splits run_outcome.splits) (metis fst_conv)+

lemma probes_succeed:
  "commands_succeed m \<Longrightarrow> run_probes m ps s = (probes, s') \<Longrightarrow> \<forall>r \<in> set (od_values probes). \<not> probe_failed r"
proof (induction ps arbitrary: s probes s' rule: list.induct)
  case (Cons p ps)
  obtain k cmd where p: "p = (k, cmd)" by fastforce
  obtain r s1 where r: "run_probe m cmd s = (r, s1)" by fastforce
  obtain rs s2 where rs: "run_probes m ps s1 = (rs, s2)" by fastforce
  have "\<not> probe_failed r" using probe_succeeds [OF Cons.prems(1), of cmd s] r by simp
  then show ?case using Cons.IH [OF Cons.prems(1) rs] Cons.prems(2) p r rs by (auto simp: Let_def)
qed simp

lemma shipped_allowed:
  "\<forall>c \<in> set (profile_controls nm). runs_allowed (od_get c ''apply'' (JList []))"
proof -
  have "od_get remote_login_control ''apply'' (JList []) = JList (map JStr (set_ssh False))"
    and "od_get firewall_control ''apply'' (JList []) = JList (map JStr (set_firewall True))"
    by (simp_all add: remote_login_control_def firewall_control_def od_get_def set_ssh_def set_firewall_def)
  then show ?thesis using setters_allowed by (auto simp: profile_controls_def runs_allowed_def)
qed

text \<open>What an activation needs of the host.\<close>

definition healthy_host :: "'w LockdownManager \<Rightarrow> 'w ld_state \<Rightarrow> bool" where
  "healthy_host m s \<longleftrightarrow> disk_works m \<and> commands_succeed m \<and> ships_profiles (host m) \<and> loggable m s \<and>
     (\<forall>n. id_text (host m) (clock (host m) n) \<notin> set (activation_dirs s))"

lemma enable_succeeds:
  assumes healthy: "healthy_host m s" and auth: "validate auth (require_root m) = Inr ()"
    and p: "load_profile (host m) nm = Inr p" and st: "status m s = (Inr st, s1)"
    and idle: "\<not> truthy (od_get st ''active'' JNull)"
  obtains man s' where "enable m nm auth False s = (Inr man, s')" and "loggable m s'"
proof -
  let ?D = "activation_dirs s"
  have disk: "disk_works m" and cmds: "commands_succeed m" and ships: "ships_profiles (host m)"
    and s: "ready_for m ?D s" and fresh: "\<forall>n. id_text (host m) (clock (host m) n) \<notin> set ?D"
    using healthy by (simp_all add: healthy_host_def steady_def)
  have s1: "ready_for m ?D s1"
    using status_outcome [OF any_files, of m ?D] s st by (fastforce simp: outcome_def)
  from preflight_works [OF disk any_probed p] s1 obtain pre s2 where pre: "preflight m nm s1 = (Inr pre, s2)"
    and s2: "ready_for m ?D s2" by (rule outcome_total)
  from pre p obtain probes s3 where "run_probes m (probe_commands (host m)) s1 = (probes, s3)"
    and rep: "pre = preflight_report (host m) p probes" by (rule preflight_success)
  then have ready: "truthy (od_get pre ''ready'' JNull)"
    using probes_succeed [OF cmds] by (simp add: rep report_fields)
  have "\<forall>c \<in> set (controls p). runs_allowed (od_get c ''apply'' (JList []))"
    using shipped_allowed load_shipped [OF ships p] by simp
  from activate_works [OF disk cmds this fresh] s2 obtain man s' where
    "activate m False p auth pre s2 = (Inr man, s')" and "loggable m s'" by (rule outcome_total)
  moreover have "enable m nm auth False s = activate m False p auth pre s2"
    using st idle pre ready by (simp add: enable_def auth p ld_bind_def [of "status m"] ld_bind_def [of "preflight m nm"])
  ultimately show ?thesis using that by simp
qed

lemma restoring_undoable:
  assumes "c \<in> set (map (sort_keys \<circ> JObj) (restoring_controls nm a b))"
  shows "\<exists>e. c = JObj e \<and> runs_allowed (od_get e ''rollback'' (JList []))"
proof -
  obtain d where d: "c = sort_keys (JObj d)" "d \<in> {ssh_restoring a, firewall_restoring b}"
    using assms by (auto simp: restoring_controls_def simp del: sort_keys.simps split: if_splits)
  obtain e where e: "sort_keys (JObj d) = JObj e" by simp
  have "\<exists>cmd. od_get d ''rollback'' (JList []) = JList (map JStr cmd) \<and> cmd \<noteq> [] \<and> hd cmd \<in> set ALLOWED"
    using d(2) control_rollback setters_allowed by blast
  then show ?thesis using sorted_rollback [OF e] d(1) e by (auto simp: runs_allowed_def)
qed

lemma disable_succeeds:
  assumes disk: "disk_works m" and cmds: "commands_succeed m" and log: "loggable m s"
    and auth: "validate auth (require_root m) = Inr ()"
    and active: "active_controls m s = Some (map (sort_keys \<circ> JObj) (restoring_controls nm a b))"
  obtains rep s' where "disable m auth True False s = (Inr rep, s')" and "od_get rep ''restored'' JNull = JBool True"
proof -
  let ?cs = "map (sort_keys \<circ> JObj) (restoring_controls nm a b)" and ?D = "activation_dirs s"
  obtain st s1 where st: "status m s = (Inr st, s1)" "truthy (od_get st ''active'' JNull)" "recorded_controls st = Inr ?cs"
    using active by (auto simp: active_controls_def split: prod.splits sum.splits if_splits)
  have s1: "ready_for m ?D s1"
    using status_outcome [OF any_files, of m ?D] log st(1) by (fastforce simp: outcome_def steady_def)
  obtain rs w where rs: "rollback_controls m False ?cs s1 = (Inr rs, s1\<lparr> world := w \<rparr>)" "list_all result_succeeded rs"
    using rollback_loop_works [OF cmds, of "rev ?cs" "[]" s1] restoring_undoable
    by (auto simp: rollback_controls_def simp del: sort_keys.simps)
  have "ready_for m ?D (s1\<lparr> world := w \<rparr>)" using s1 by (simp add: steady_def loggable_def)
  with record_rollback_works [OF disk any_files] obtain rep s' where
    rec: "record_rollback m auth False rs (s1\<lparr> world := w \<rparr>) = (Inr rep, s')" by (rule outcome_total)
  then have "disable m auth True False s = (Inr rep, s')"
    using st rs(1) by (simp add: disable_def auth ld_bind_def [of "status m"] ld_bind_def [of "rollback_controls m False x" for x]
        del: sort_keys.simps)
  moreover have "od_get rep ''restored'' JNull = JBool True"
    using record_rollback_success(1) [OF rec] rs(2) by simp
  ultimately show ?thesis using that by simp
qed

section \<open>A failed activation\<close>

lemma firewall_fails:
  assumes "mac_tools m ssh fw" and "apply_loop m False [firewall_restoring b] rs0 as0 s = ((Some e, rs, as), s')"
  shows "as = as0 \<and> fw (world s') = fw (world s) \<and> ssh (world s') = ssh (world s)"
proof -
  obtain x s1 where x: "apply_control m False (firewall_restoring b) s = (x, s1)" by fastforce
  then show ?thesis
    using assms(2) firewall_applied [of m b s] mac_toolsD(6,7) [OF assms(1), of "world s" True 20]
    by (cases x) (auto simp: Let_def split: if_splits)
qed

lemma restoring_loop_fails:
  assumes tools: "mac_tools m ssh fw" and ok: "\<forall>w b t. exits_zero (fst (runner m w (set_ssh b) t))"
    and loop: "apply_loop m False (restoring_controls nm a b) [] [] s = ((Some e, rs, as), s')"
  shows "fw (world s') = fw (world s) \<and> (as = [] \<and> ssh (world s') = ssh (world s) \<or> as = [ssh_restoring a])"
proof (cases "nm = ''investigation_mode''")
  case True
  then have "apply_loop m False [firewall_restoring b] [] [] s = ((Some e, rs, as), s')"
    using loop by (simp add: restoring_controls_def)
  then show ?thesis using firewall_fails [OF tools] by blast
next
  case False
  obtain x s1 where x: "apply_control m False (ssh_restoring a) s = (x, s1)" by fastforce
  have "exits_zero (fst (runner m (world s) (set_ssh False) 20))" using ok by blast
  then obtain r where r: "x = Inr r" "success r" "changed r" "fw (world s1) = fw (world s)"
    using ssh_applied [of m a s] mac_toolsD(4) [OF tools, of "world s" False 20] x by (cases x) auto
  have "apply_loop m False [firewall_restoring b] [result_dict r] [ssh_restoring a] s1 = ((Some e, rs, as), s')"
    using loop False x r by (simp add: restoring_controls_def Let_def del: apply_loop.simps(1))
  then show ?thesis using firewall_fails [OF tools] r(4) by metis
qed

lemma abort_restores:
  assumes tools: "mac_tools m ssh fw" and ok: "\<forall>w b t. exits_zero (fst (runner m w (set_ssh b) t))"
    and as: "as = [] \<and> ssh (world s) = a \<or> as = [ssh_restoring a]" and fw: "fw (world s) = b"
  shows "ssh (world (snd (abort_activation m False aid e rs as s))) = a \<and> fw (world (snd (abort_activation m False aid e rs as s))) = b"
proof -
  let ?Q = "\<lambda>s. ssh (world s) = a \<and> fw (world s) = b"
  have files: "lockdown_files m ?Q" using settings_kept [OF tools] by (rule lockdown_probed.axioms)
  obtain x s1 where x: "rollback_controls m False (map JObj as) s = (x, s1)" by fastforce
  have Q1: "?Q s1"
  proof (cases "as = []")
    case True
    then show ?thesis using x as fw by (simp add: rollback_controls_def ld_return_def)
  next
    case False
    let ?c = "rollback_control m False (JObj (ssh_restoring a)) s"
    have z: "exits_zero (fst (runner m (world s) (set_ssh a) 20))" using ok by blast
    note run = rollback_control_runs [OF control_rollback(1) setters_allowed(1,2), of m a s]
    obtain r where r: "fst ?c = Inr r" using run(3) z by (cases "fst ?c") auto
    then have "success r" using run(2) z by simp
    then have "snd ?c = s1" using x False as r
      by (auto simp: rollback_controls_def ld_bind_def ld_return_def Let_def split: prod.splits sum.splits)
    then show ?thesis using run(1) z mac_toolsD(4,5) [OF tools, of "world s" a 20] fw by auto
  qed
  have k: "keeps ?Q (ld_bind (write_evidence m path d) (\<lambda>_. ld_bind (append_audit m act d') (\<lambda>_. ld_raise e)))" for path d act d'
    using lockdown_files.keeps_evidence [OF files] lockdown_files.keeps_audit [OF files] by (intro keeps_intros)
  show ?thesis
  proof (cases x)
    case (Inl e')
    then show ?thesis using x Q1 by (simp add: abort_activation_def ld_bind_def)
  next
    case (Inr undone)
    have "abort_activation m False aid e rs as s = ld_bind (write_evidence m (activation_path aid ''partial_activation.json'')
        [(''results'', JList rs), (''rollback'', JList undone)]) (\<lambda>_. ld_bind (append_audit m ''activation_failed''
        [(''activation_id'', JStr aid), (''results'', JList rs), (''rollback'', JList undone)]) (\<lambda>_. ld_raise e)) s1"
      using x Inr by (simp add: abort_activation_def ld_bind_def [of "rollback_controls m False y" for y])
    then show ?thesis using keepsD [OF k Q1] by (simp only:)
  qed
qed

lemma enforce_fails:
  assumes tools: "mac_tools m ssh fw" and ok: "\<forall>w b t. exits_zero (fst (runner m w (set_ssh b) t))" and disk: "disk_works m"
  shows "outcome (\<lambda>s. (ssh (world s) = a \<and> fw (world s) = b) \<and> loggable m s)
    (enforce m False aid p auth (restoring_controls nm a b)) (\<lambda>_ _. True) (\<lambda>s. ssh (world s) = a \<and> fw (world s) = b)"
  unfolding outcome_def
proof (intro allI impI)
  fix s assume s: "(ssh (world s) = a \<and> fw (world s) = b) \<and> loggable m s"
  let ?Q = "\<lambda>s. ssh (world s) = a \<and> fw (world s) = b" and ?c = "enforce m False aid p auth (restoring_controls nm a b)"
  obtain oe rs as s1 where loop: "apply_loop m False (restoring_controls nm a b) [] [] s = ((oe, rs, as), s1)"
    by (metis prod_cases3 prod.exhaust)
  show "case ?c s of (Inl e, s') \<Rightarrow> ?Q s' | (Inr x, s') \<Rightarrow> True"
  proof (cases oe)
    case None
    have "loggable m s1" using loggable_kept.apply_loop_keeps [of m s False] s loop by (metis snd_conv)
    then have "ready_for m (activation_dirs s1) s1" by (simp add: steady_def)
    with finish_works [OF disk any_files] obtain x s' where
      "finish_activation m False aid p auth (restoring_controls nm a b) rs as s1 = (Inr x, s')" by (rule outcome_total)
    then show ?thesis using loop None by (simp add: enforce_def)
  next
    case (Some e)
    with loop have "fw (world s1) = b \<and> (as = [] \<and> ssh (world s1) = a \<or> as = [ssh_restoring a])"
      using restoring_loop_fails [OF tools ok, of nm a b s e rs as s1] s by simp
    then have "?Q (snd (abort_activation m False aid e rs as s1))" using abort_restores [OF tools ok] by blast
    moreover have "?c s = abort_activation m False aid e rs as s1" using loop Some by (simp add: enforce_def)
    ultimately show ?thesis by (auto split: prod.splits sum.splits)
  qed
qed

lemma activate_fails:
  assumes tools: "mac_tools m ssh fw" and ok: "\<forall>w b t. exits_zero (fst (runner m w (set_ssh b) t))" and disk: "disk_works m"
    and ctl: "controls_with_observed_rollback (host m) p pre = restoring_controls nm a b"
  shows "outcome (\<lambda>s. (ssh (world s) = a \<and> fw (world s) = b) \<and> loggable m s)
    (activate m False p auth pre) (\<lambda>_ _. True) (\<lambda>s. ssh (world s) = a \<and> fw (world s) = b)"
proof -
  let ?Q = "\<lambda>s. ssh (world s) = a \<and> fw (world s) = b" and ?T = "\<lambda>s. (ssh (world s) = a \<and> fw (world s) = b) \<and> loggable m s"
  have files: "lockdown_files m ?Q" using settings_kept [OF tools] by (rule lockdown_probed.axioms)
  have clk: "outcome ?T (read_clock m) (\<lambda>_. ?T) ?Q" by (intro steady_any clock_works files)
  have dir: "outcome ?T (make_activation_dir m aid) (\<lambda>_. ?T) ?Q" for aid
    by (auto simp: outcome_def make_activation_dir_def disk_write_def loggable_def Let_def split: sum.splits)
  have wr: "outcome ?T (write_all m ps) (\<lambda>_. ?T) ?Q" for ps by (intro steady_any write_all_works disk files)
  show ?thesis unfolding activate_def Let_def ctl
    by (rule outcome_bind [OF clk outcome_bind [OF dir outcome_bind [OF wr enforce_fails [OF tools ok disk]]]])
qed

lemma preflight_observes:
  assumes tools: "mac_tools m ssh fw" and ships: "ships_profiles (host m)" and p: "load_profile (host m) nm = Inr p"
  shows "outcome (\<lambda>s. ssh (world s) = a \<and> fw (world s) = b) (preflight m nm) (\<lambda>pre s.
      ((ssh (world s) = a \<and> fw (world s) = b) \<and> loggable m s) \<and> (truthy (od_get pre ''ready'' JNull) \<longrightarrow>
        controls_with_observed_rollback (host m) p pre = restoring_controls (profile_id p) a b))
    (\<lambda>s. ssh (world s) = a \<and> fw (world s) = b)"
  unfolding outcome_def
proof (intro allI impI)
  let ?Q = "\<lambda>s :: 'a ld_state. ssh (world s) = a \<and> fw (world s) = b"
  fix s :: "'a ld_state" assume s: "?Q s"
  obtain x s' where x: "preflight m nm s = (x, s')" by fastforce
  have "?Q (snd (preflight m nm s))"
    by (rule keepsD [OF lockdown_probed.keeps_preflight [OF settings_kept [OF tools]] s])
  then have Q: "?Q s'" by (simp add: x)
  have "controls_with_observed_rollback (host m) p pre = restoring_controls (profile_id p) a b"
    if pre: "x = Inr pre" and ready: "truthy (od_get pre ''ready'' JNull)" for pre
  proof -
    from x pre p obtain probes s1 where run: "run_probes m (probe_commands (host m)) s = (probes, s1)"
      and rep: "pre = preflight_report (host m) p probes" by (metis preflight_success)
    then have "\<forall>r \<in> set (od_values probes). \<not> probe_failed r" using ready by (simp add: report_fields)
    from observed_controls [OF tools run this load_shipped [OF ships p]] show ?thesis using rep s by simp
  qed
  then show "case preflight m nm s of (Inl e, s') \<Rightarrow> ?Q s' | (Inr pre, s) \<Rightarrow> (?Q s \<and> loggable m s) \<and>
      (truthy (od_get pre ''ready'' JNull) \<longrightarrow> controls_with_observed_rollback (host m) p pre = restoring_controls (profile_id p) a b)"
    using Q preflight_success_loggable [of m nm s] by (cases x) (auto simp: x)
qed

lemma enable_fails:
  assumes tools: "mac_tools m ssh fw" and ok: "\<forall>w b t. exits_zero (fst (runner m w (set_ssh b) t))" and disk: "disk_works m"
    and ships: "ships_profiles (host m)"
  shows "outcome (\<lambda>s. ssh (world s) = a \<and> fw (world s) = b) (enable m nm auth False) (\<lambda>_ _. True)
    (\<lambda>s. ssh (world s) = a \<and> fw (world s) = b)"
proof (cases "load_profile (host m) nm")
  case (Inl e)
  then show ?thesis by (cases "validate auth (require_root m)") (simp_all add: enable_def outcome_pure)
next
  case (Inr p)
  let ?Q = "\<lambda>s. ssh (world s) = a \<and> fw (world s) = b"
  have valid: "outcome ?Q (ld_lift (validate auth (require_root m \<and> \<not> False))) (\<lambda>_. ?Q) ?Q"
    by (intro keeps_outcome keeps_intros)
  have st: "outcome ?Q (status m) (\<lambda>_. ?Q) ?Q"
    by (intro keeps_outcome lockdown_files.keeps_status lockdown_probed.axioms(1) [OF settings_kept [OF tools]])
  have act: "outcome (\<lambda>s. (?Q s \<and> loggable m s) \<and> (truthy (od_get pre ''ready'' JNull) \<longrightarrow>
        controls_with_observed_rollback (host m) p pre = restoring_controls (profile_id p) a b))
      (if \<not> truthy (od_get pre ''ready'' JNull) \<and> \<not> False then ld_raise e1 else activate m False p auth pre)
      (\<lambda>_ _. True) ?Q" for pre e1
  proof (cases "truthy (od_get pre ''ready'' JNull) \<and>
      controls_with_observed_rollback (host m) p pre = restoring_controls (profile_id p) a b")
    case True
    then show ?thesis using activate_fails [OF tools ok disk, of p pre "profile_id p" a b auth] by simp
  next
    case False
    then show ?thesis by (auto simp: outcome_def ld_raise_def)
  qed
  have body: "outcome ?Q (ld_bind (preflight m nm) (\<lambda>pre.
      if \<not> truthy (od_get pre ''ready'' JNull) \<and> \<not> False then ld_raise (f pre) else activate m False p auth pre))
      (\<lambda>_ _. True) ?Q" for f
    by (rule outcome_bind [OF preflight_observes [OF tools ships Inr] act])
  have "outcome ?Q (if truthy (od_get st ''active'' JNull) then ld_raise e0 else ld_bind (preflight m nm) (\<lambda>pre.
      if \<not> truthy (od_get pre ''ready'' JNull) \<and> \<not> False then ld_raise (f pre) else activate m False p auth pre))
      (\<lambda>_ _. True) ?Q" for st e0 f
    using body [of f] by (cases "truthy (od_get st ''active'' JNull)") (simp_all add: outcome_pure)
  then show ?thesis unfolding enable_def Inr ld_bind_simps
    by (intro outcome_bind [OF valid] outcome_bind [OF st]) simp
qed

section \<open>A reference machine\<close>

text \<open>
  A machine with the two settings, the host it runs on and an authorized operator; with
  \<open>fw_ok = False\<close> the firewall refuses to be set.
\<close>

definition mac_runner :: "bool \<Rightarrow> bool \<times> bool \<Rightarrow> string list \<Rightarrow> int \<Rightarrow> run_outcome \<times> bool \<times> bool" where
  "mac_runner fw_ok w cmd t =
     (if cmd = get_ssh then (Completed 0 (ssh_text (fst w)) '''', w)
      else if cmd = get_firewall then (Completed 0 (firewall_text (snd w)) '''', w)
      else if cmd = set_ssh True then (Completed 0 '''' '''', (True, snd w))
      else if cmd = set_ssh False then (Completed 0 '''' '''', (False, snd w))
      else if cmd = set_firewall True then (if fw_ok then (Completed 0 '''' '''', (fst w, True)) else (Completed 1 '''' ''denied'', w))
      else if cmd = set_firewall False then (if fw_ok then (Completed 0 '''' '''', (fst w, False)) else (Completed 1 '''' ''denied'', w))
      else (Completed 0 '''' '''', w))"

definition mac_host :: ld_host where
  "mac_host = \<lparr> sha256_of = (\<lambda>t. t), compact_text = (\<lambda>v. ''{}''), line_text = (\<lambda>v. ''{}''), repr_text = (\<lambda>v. ''''),
     clock = int, iso_text = str_int, id_text = str_int, disk_writable = (\<lambda>n. True),
     profile_file = (\<lambda>nm. Some ('''', Parsed (JObj (shipped_profile nm)))), euid = 0, real_uid = 501, gui_uid_env = '''',
     sudo_uid_env = '''', console_owner = None, home_owner = None, mac_ver = ''15.5'', machine = ''arm64'', hostname = ''mac'' \<rparr>"

definition mac_manager :: "bool \<Rightarrow> (bool \<times> bool) LockdownManager" where
  "mac_manager fw_ok = \<lparr> state_dir = ''/Library/Application Support/MSAA/lockdown'', runner = mac_runner fw_ok,
     require_root = True, host = mac_host \<rparr>"

definition mac_state :: "bool \<Rightarrow> bool \<Rightarrow> (bool \<times> bool) ld_state" where
  "mac_state a b = \<lparr> world = (a, b), ticks = 0, files = [], activation_dirs = [], audit_lines = [] \<rparr>"

definition mac_operator :: ActivationAuthorization where
  "mac_operator = authorization mac_host ''Security Administrator'' ''Active ransomware containment'' ''INC-2026-0717'' True CONFIRMATION_PHRASE"

lemma command_distinct:
  "get_ssh \<noteq> get_firewall" "get_ssh \<noteq> set_ssh b" "get_ssh \<noteq> set_firewall b" "get_firewall \<noteq> set_ssh b"
  "get_firewall \<noteq> set_firewall b" "set_ssh b \<noteq> set_firewall c" "set_ssh True \<noteq> set_ssh False" "set_firewall True \<noteq> set_firewall False"
  by (simp_all add: get_ssh_def get_firewall_def set_ssh_def set_firewall_def)

lemma mac_manager_fields [simp]: "runner (mac_manager fw_ok) = mac_runner fw_ok" "host (mac_manager fw_ok) = mac_host" "require_root (mac_manager fw_ok)"
  by (simp_all add: mac_manager_def)

lemma mac_tools_reference: "mac_tools (mac_manager fw_ok) fst snd"
proof -
  have "\<forall>cmd \<in> snd ` set (probe_commands mac_host). \<forall>b. cmd \<noteq> set_ssh b \<and> cmd \<noteq> set_firewall b"
    by (simp add: probe_commands_def set_ssh_def set_firewall_def)
  then have "\<forall>cmd \<in> snd ` set (probe_commands mac_host). snd (mac_runner fw_ok w cmd t) = w" for w t
    by (auto simp: mac_runner_def)
  moreover have "snd (mac_runner fw_ok w (set_ssh b) t) = (b, snd w) \<and> exits_zero (fst (mac_runner fw_ok w (set_ssh b) t))" for w b t
    by (cases b) (auto simp: command_distinct command_distinct [symmetric] mac_runner_def exits_zero_def)
  moreover have "mac_runner fw_ok w (set_firewall b) t = (if fw_ok then (Completed 0 '''' '''', (fst w, b)) else (Completed 1 '''' ''denied'', w))" for w b t
    by (cases b) (auto simp: command_distinct command_distinct [symmetric] mac_runner_def)
  moreover have "mac_runner fw_ok w get_ssh t = (Completed 0 (ssh_text (fst w)) '''', w)"
    and "mac_runner fw_ok w get_firewall t = (Completed 0 (firewall_text (snd w)) '''', w)" for w t
    by (auto simp: command_distinct command_distinct [symmetric] mac_runner_def)
  ultimately show ?thesis by (auto simp: mac_tools_def prints_def exits_zero_def)
qed

lemma mac_reference:
  "ships_profiles mac_host" "disk_works (mac_manager fw_ok)" "validate mac_operator True = Inr ()"
  "status (mac_manager fw_ok) (mac_state a b) = (Inr inactive_status, mac_state a b)"
  "loggable (mac_manager fw_ok) (mac_state a b)"
  "exits_zero (fst (mac_runner fw_ok w (set_ssh b) t))"
  by (auto simp: command_distinct command_distinct [symmetric] ships_profiles_def mac_host_def disk_works_def mac_manager_def mac_operator_def authorization_def
      validate_def str_strip_def is_space_def status_def mac_state_def loggable_def previous_hash_def mac_runner_def exits_zero_def)

lemma mac_profile: "\<exists>p. load_profile mac_host ''emergency'' = Inr p \<and> profile_id p = ''emergency''"
proof -
  have "removesuffix ''.json'' (str_lower (str_strip ''emergency'')) = ''emergency''" by code_simp
  moreover have "''emergency'' \<in> set PROFILE_NAMES" by (simp add: PROFILE_NAMES_def)
  moreover have "profile_file mac_host ''emergency'' = Some ('''', Parsed (JObj (shipped_profile ''emergency'')))"
    by (simp add: mac_host_def)
  ultimately show ?thesis using parse_shipped [of mac_host "''emergency''" "''''"] by (auto simp: load_profile_def Let_def)
qed

lemma mac_healthy: "healthy_host (mac_manager True) (mac_state a b)"
  using mac_reference
  by (auto simp: healthy_host_def commands_succeed_def mac_runner_def exits_zero_def mac_state_def)

section \<open>What the mode guarantees\<close>

lemma disable_undoes:
  assumes tools: "mac_tools m ssh fw" and dis: "disable m auth True False s = (Inr rep, s')"
    and rep: "od_get rep ''restored'' JNull = JBool True"
    and active: "active_controls m s = Some (map (sort_keys \<circ> JObj) (restoring_controls nm a b))"
  shows "fw (world s') = b \<and> ssh (world s') = (if manages_ssh nm then a else ssh (world s))"
proof -
  from dis obtain st sa cs results sb where st: "status m s = (Inr st, sa)" "truthy (od_get st ''active'' JNull)"
    "recorded_controls st = Inr cs" "rollback_controls m False cs sa = (Inr results, sb)"
    and rec: "record_rollback m auth False results sb = (Inr rep, s')" by (rule disable_success) auto
  have cs: "cs = map (sort_keys \<circ> JObj) (restoring_controls nm a b)"
    using active st(1-3) by (simp add: active_controls_def)
  have good: "list_all result_succeeded results" using record_rollback_success(1) [OF rec] rep by simp
  show ?thesis
    using rollback_restores [OF tools st(4) [unfolded cs] good] settings_of_status [OF st(1)] record_rollback_success(2) [OF rec]
    by simp
qed

text \<open>
  C5. On a host whose disk works and whose commands succeed, an authorized operator can activate any
  shipped profile and deactivate it again: the profile is in force in between, and afterwards both
  settings are what they were before and nothing is recorded as active.\<close>

theorem protection_round_trip:
  assumes "healthy_host m s" and "mac_tools m ssh fw" and "validate auth (require_root m) = Inr ()"
    and "load_profile (host m) nm = Inr p" and "status m s = (Inr st, s0)" and "\<not> truthy (od_get st ''active'' JNull)"
  shows "\<exists>man s1 rep s2. enable m nm auth False s = (Inr man, s1) \<and> fw (world s1) \<and>
    (manages_ssh (profile_id p) \<longrightarrow> \<not> ssh (world s1)) \<and> disable m auth True False s1 = (Inr rep, s2) \<and>
    ssh (world s2) = ssh (world s) \<and> fw (world s2) = fw (world s) \<and> map_of (files s2) ACTIVE_STATE = None"
proof -
  have host: "disk_works m" "commands_succeed m" "ships_profiles (host m)" using assms(1) by (simp_all add: healthy_host_def)
  obtain man s1 where en: "enable m nm auth False s = (Inr man, s1)" and log: "loggable m s1"
    by (rule enable_succeeds [OF assms(1,3-6)])
  note eff = enable_effect [OF assms(2) host(3) en assms(4)]
  obtain rep s2 where dis: "disable m auth True False s1 = (Inr rep, s2)" and rep: "od_get rep ''restored'' JNull = JBool True"
    by (rule disable_succeeds [OF host(1,2) log assms(3) eff(3)])
  from dis obtain st' sa cs results sb where "rollback_controls m False cs sa = (Inr results, sb)"
    and rec: "record_rollback m auth False results sb = (Inr rep, s2)" by (rule disable_success)
  have "list_all result_succeeded results" using record_rollback_success(1) [OF rec] rep by simp
  then have "map_of (files s2) ACTIVE_STATE = None" using record_rollback_success(3) [OF rec] by simp
  then show ?thesis using en dis eff(1,2) disable_undoes [OF assms(2) dis rep eff(3)] by auto
qed

theorem protection_round_trip_witness:
  "\<exists>man s1 rep s2. enable (mac_manager True) ''emergency'' mac_operator False (mac_state True False) = (Inr man, s1) \<and>
     world s1 = (False, True) \<and> disable (mac_manager True) mac_operator True False s1 = (Inr rep, s2) \<and>
     world s2 = (True, False) \<and> map_of (files s2) ACTIVE_STATE = None"
proof -
  obtain p where p: "load_profile mac_host ''emergency'' = Inr p" "profile_id p = ''emergency''" using mac_profile by blast
  have idle: "\<not> truthy (od_get inactive_status ''active'' JNull)" by (simp add: inactive_status_def od_get_def)
  show ?thesis
    using protection_round_trip [OF mac_healthy [of True False] mac_tools_reference, where auth = mac_operator and
        nm = "''emergency''" and p = p and st = inactive_status and ?s0.0 = "mac_state True False"] p idle mac_reference(3,4)
    by (fastforce simp: manages_ssh_def mac_state_def prod_eq_iff)
qed




lemma stubborn_firewall:
  assumes "enable (mac_manager False) nm auth False (mac_state a False) = (r, s')"
  shows "\<not> snd (world s')"
proof -
  have "snd (snd (mac_runner False w cmd t)) = snd w" for w cmd t by (simp add: mac_runner_def)
  then have "lockdown_kept (mac_manager False) (\<lambda>s. \<not> snd (world s)) False" by unfold_locales simp_all
  then have "keeps (\<lambda>s. \<not> snd (world s)) (enable (mac_manager False) nm auth False)" by (rule lockdown_kept.keeps_enable)
  from keepsD [OF this, of "mac_state a False"] show ?thesis using assms by (simp add: mac_state_def)
qed


text \<open>
  C25. Nothing happens without an authorization: unless the warning is acknowledged with the exact phrase,
  operator, reason and ticket are given, and (when the manager requires it, outside a dry run) the
  operator is root, \<open>enable\<close> and \<open>disable\<close> raise a permission error and leave the machine, the files and
  the audit log untouched.\<close>

theorem no_effect_without_authorization:
  assumes "\<not> (confirmed auth \<and> confirmation_phrase auth = CONFIRMATION_PHRASE \<and> str_strip (operator auth) \<noteq> '''' \<and>
    str_strip (incident_reason auth) \<noteq> '''' \<and> str_strip (ticket_number auth) \<noteq> '''' \<and>
    (require_root m \<and> \<not> dry \<longrightarrow> effective_uid auth = 0))"
  shows "\<exists>msg. enable m nm auth dry s = (Inl (PermissionErr msg), s) \<and>
    disable m auth restore dry s = (Inl (PermissionErr msg), s)"
proof -
  obtain msg where "validate auth (require_root m \<and> \<not> dry) = Inl (PermissionErr msg)"
    using assms unfolding validate_def by (metis (full_types))
  then show ?thesis by (auto simp: enable_def disable_def ld_raise_def)
qed

theorem no_effect_without_authorization_witness:
  "\<exists>msg. enable (mac_manager True) ''emergency'' (mac_operator\<lparr> effective_uid := 501 \<rparr>) False (mac_state True False) =
     (Inl (PermissionErr msg), mac_state True False)"
  using no_effect_without_authorization [of "mac_operator\<lparr> effective_uid := 501 \<rparr>" "mac_manager True" False "''emergency''"
      "mac_state True False" True] by (auto simp: mac_operator_def authorization_def)

text \<open>
  C18. Only the fixed probes and programs of the allow list are ever run: a property of the machine that
  these commands keep survives any sequence of operations, and dry runs need the probes alone.\<close>

theorem only_allowed_programs_run:
  assumes "\<And>w cmd. Q w \<Longrightarrow> cmd \<in> snd ` set (probe_commands (host m)) \<Longrightarrow> Q (snd (runner m w cmd 12))"
    and "\<And>w cmd. Q w \<Longrightarrow> \<exists>op \<in> set ops. \<not> op_dry op \<Longrightarrow> cmd \<noteq> [] \<Longrightarrow> hd cmd \<in> set ALLOWED \<Longrightarrow> Q (snd (runner m w cmd 20))"
    and "Q (world s)"
  shows "Q (world (fold (run_op m) ops s))"
  using assms(2,3)
proof (induction ops arbitrary: s)
  case (Cons op ops)
  have "lockdown_kept m (\<lambda>s. Q (world s)) (op_dry op)"
    using assms(1) Cons.prems(1) by unfold_locales (auto split: prod.splits)
  then have "Q (world (run_op m op s))" using Cons.prems(2) by (rule run_op_keeps)
  moreover have "\<And>w cmd. Q w \<Longrightarrow> \<exists>op \<in> set ops. \<not> op_dry op \<Longrightarrow> cmd \<noteq> [] \<Longrightarrow> hd cmd \<in> set ALLOWED \<Longrightarrow> Q (snd (runner m w cmd 20))"
    using Cons.prems(1) by auto
  ultimately show ?case using Cons.IH by simp
qed simp

theorem only_allowed_programs_run_witness:
  "world (fold (run_op (mac_manager True)) [OpStatus, OpPreflight ''emergency'', OpEnable ''emergency'' mac_operator True,
     OpDisable mac_operator True True] (mac_state True False)) = (True, False)"
proof -
  have "snd (mac_runner True w cmd 12) = w" if "cmd \<in> snd ` set (probe_commands mac_host)" for w cmd
    using mac_toolsD(1) [OF mac_tools_reference [of True], of cmd w 12] that by (simp add: prod_eq_iff)
  then show ?thesis
    using only_allowed_programs_run [of "\<lambda>w. w = (True, False)" "mac_manager True" "[OpStatus, OpPreflight ''emergency'',
        OpEnable ''emergency'' mac_operator True, OpDisable mac_operator True True]" "mac_state True False"]
    by (simp add: mac_state_def del: fold_simps)
qed



lemma verified_same_hash:
  assumes "verify_evidence h d" and "verify_evidence h d'" and "od_get d ''integrity'' JNull = od_get d' ''integrity'' JNull"
  shows "payload_hash h (AList.delete ''integrity'' d) = payload_hash h (AList.delete ''integrity'' d')"
  using assms by (auto simp: verify_evidence_def split: json.splits)

lemma tamper_status_inactive: "\<not> truthy (od_get (tamper_status e) ''active'' JNull)"
  by (simp add: tamper_status_def od_get_def)

lemma report_tamper_works:
  assumes "disk_works m" and "loggable m s"
  obtains s' where "report_tamper m reason code s = (Inr (tamper_status code), s')"
proof -
  have "ready_for m (activation_dirs s) s" using assms(2) by (simp add: steady_def)
  with audit_works [OF assms(1) any_files] obtain u s' where
    "append_audit m ''tamper_detected'' [(''target'', JStr (state_dir m @ ''/active_state.json'')), (''reason'', JStr reason)] s = (Inr u, s')"
    by (rule outcome_total)
  then show ?thesis using that by (simp add: report_tamper_def)
qed

text \<open>
  A changed state file is never taken for an active protection: when the hashes of the two records do
  not collide, a private file that keeps the hash of a genuine record and differs from it in any other entry is reported
  as an integrity mismatch.\<close>

theorem changed_state_is_reported:
  assumes "disk_works m" and "loggable m s"
    and "payload_hash (host m) (AList.delete ''integrity'' d') = payload_hash (host m) (AList.delete ''integrity'' d) \<Longrightarrow>
      sort_keys (JObj (AList.delete ''integrity'' d')) = sort_keys (JObj (AList.delete ''integrity'' d))"
    and "verify_evidence (host m) d" and "od_get d' ''integrity'' JNull = od_get d ''integrity'' JNull"
    and "sort_keys (JObj (AList.delete ''integrity'' d')) \<noteq> sort_keys (JObj (AList.delete ''integrity'' d))"
    and "map_of (files s) ACTIVE_STATE = Some \<lparr> fmode = 384, fcontent = Parsed (JObj d') \<rparr>"
  shows "\<exists>s'. status m s = (Inr (tamper_status ''LOCKDOWN_STATE_INTEGRITY_MISMATCH''), s') \<and> active_controls m s = None"
proof -
  have bad: "\<not> verify_evidence (host m) d'"
    using verified_same_hash [OF _ assms(4,5)] assms(3,6) by blast
  obtain s' where "report_tamper m ''integrity hash mismatch'' ''LOCKDOWN_STATE_INTEGRITY_MISMATCH'' s =
      (Inr (tamper_status ''LOCKDOWN_STATE_INTEGRITY_MISMATCH''), s')"
    by (rule report_tamper_works [OF assms(1,2)])
  then have "status m s = (Inr (tamper_status ''LOCKDOWN_STATE_INTEGRITY_MISMATCH''), s')"
    using assms(7) bad by (simp add: status_def)
  then show ?thesis using tamper_status_inactive by (simp add: active_controls_def)
qed

definition state_record :: "bool \<Rightarrow> json_object" where
  "state_record b = [(''active'', JBool b), (''integrity'', JObj [(''algorithm'', JStr ''sha256''), (''payload_sha256'', JStr ''on'')])]"

theorem changed_state_is_reported_witness:
  "\<exists>(m :: (bool \<times> bool) LockdownManager) s s'. status m s = (Inr (tamper_status ''LOCKDOWN_STATE_INTEGRITY_MISMATCH''), s') \<and>
     map_of (files s) ACTIVE_STATE = Some \<lparr> fmode = 384, fcontent = Parsed (JObj (state_record False)) \<rparr> \<and>
     (\<exists>t. status m (s\<lparr> files := [(ACTIVE_STATE, \<lparr> fmode = 384, fcontent = Parsed (JObj (state_record True)) \<rparr>)] \<rparr>) = (Inr (state_record True), t))"
proof -
  define m where "m = (mac_manager True)\<lparr> host := mac_host\<lparr> compact_text := \<lambda>v. if v = JObj [(''active'', JBool True)] then ''on'' else ''off'' \<rparr> \<rparr>"
  define s where "s = (mac_state True False)\<lparr> files := [(ACTIVE_STATE, \<lparr> fmode = 384, fcontent = Parsed (JObj (state_record False)) \<rparr>)] \<rparr>"
  have hash: "payload_hash (host m) (AList.delete ''integrity'' (state_record b)) = (if b then ''on'' else ''off'')" for b
    by (simp add: payload_hash_def canonical_json_def state_record_def m_def mac_host_def)
  have good: "verify_evidence (host m) (state_record True)"
    using hash [of True] by (simp add: verify_evidence_def) (simp add: state_record_def od_get_def)
  have "\<exists>s'. status m s = (Inr (tamper_status ''LOCKDOWN_STATE_INTEGRITY_MISMATCH''), s') \<and> active_controls m s = None"
  proof (rule changed_state_is_reported [of m s "state_record False" "state_record True"])
    show "disk_works m" "loggable m s"
      by (simp_all add: disk_works_def loggable_def m_def s_def mac_host_def mac_state_def previous_hash_def)
    show "od_get (state_record False) ''integrity'' JNull = od_get (state_record True) ''integrity'' JNull"
      "sort_keys (JObj (AList.delete ''integrity'' (state_record False))) \<noteq> sort_keys (JObj (AList.delete ''integrity'' (state_record True)))"
      by (simp_all add: state_record_def od_get_def)
  qed (use hash good in \<open>simp_all add: s_def\<close>)
  moreover have "status m (s\<lparr> files := [(ACTIVE_STATE, \<lparr> fmode = 384, fcontent = Parsed (JObj (state_record True)) \<rparr>)] \<rparr>) =
      (Inr (state_record True), s\<lparr> files := [(ACTIVE_STATE, \<lparr> fmode = 384, fcontent = Parsed (JObj (state_record True)) \<rparr>)] \<rparr>)"
    using good by (simp add: status_def)
  moreover have "map_of (files s) ACTIVE_STATE = Some \<lparr> fmode = 384, fcontent = Parsed (JObj (state_record False)) \<rparr>"
    by (simp add: s_def)
  ultimately show ?thesis by blast
qed

lemma recorded_controls_rewritten:
  assumes get: "\<forall>k x. k \<noteq> ''integrity'' \<longrightarrow> k \<noteq> ''timestamp'' \<longrightarrow> sort_keys x = x \<longrightarrow> od_get d k x = sort_keys (od_get st k x)"
    and rec: "recorded_controls st = Inr (map (sort_keys \<circ> JObj) cs)"
  shows "recorded_controls d = Inr (map (sort_keys \<circ> JObj) cs)"
proof -
  obtain pd where pd: "od_get st ''profile'' (JObj []) = JObj pd"
    and it: "json_iter (od_get pd ''controls'' (JList [])) = Inr (map (sort_keys \<circ> JObj) cs)"
    using rec by (auto simp: recorded_controls_def split: json.splits)
  obtain pe where pe: "sort_keys (JObj pd) = JObj pe" by simp
  have "od_get d ''profile'' (JObj []) = JObj pe" using get pd pe by simp
  moreover have "od_get pe ''controls'' (JList []) = sort_keys (od_get pd ''controls'' (JList []))"
    using od_get_sorted [OF pe, of "JList []" "''controls''"] by simp
  moreover have "json_iter (sort_keys v) = Inr (map (sort_keys \<circ> JObj) cs)" if "json_iter v = Inr (map (sort_keys \<circ> JObj) cs)" for v
  proof (cases v)
    case (JList xs)
    then show ?thesis using that by (simp add: comp_def del: sort_keys.simps(8))
  next
    case (JObj e)
    then have "cs = []" using that by (cases cs) (auto split: list.splits)
    then show ?thesis using that JObj by simp
  qed (use that in auto)
  ultimately show ?thesis using it by (simp add: recorded_controls_def)
qed

text \<open>
  An emergency exception is granted for a minute to a day, and leaves both the machine and the recorded
  way back alone: what a later deactivation restores is unchanged.\<close>

theorem exception_keeps_way_back:
  assumes "active_controls m s = Some (map (sort_keys \<circ> JObj) cs)"
    and "add_exception m application minutes reason auth s = (Inr ex, s')"
  shows "active_controls m s' = active_controls m s \<and> world s' = world s \<and> 1 \<le> minutes \<and> minutes \<le> 1440"
proof -
  obtain st s1 where st: "status m s = (Inr st, s1)" "truthy (od_get st ''active'' JNull)"
    "recorded_controls st = Inr (map (sort_keys \<circ> JObj) cs)"
    using assms(1) by (auto simp: active_controls_def split: prod.splits sum.splits if_splits)
  define s2 where "s2 = s1\<lparr> ticks := Suc (Suc (ticks s1)) \<rparr>"
  have s2: "world s2 = world s1" by (simp add: s2_def)
  have range: "1 \<le> minutes \<and> minutes \<le> 1440"
    using assms(2) by (auto simp: add_exception_def ld_bind_Inr ld_lift_def ld_raise_def split: if_splits)
  have rec: "record_exception m st [(''application'', JStr application), (''reason'', JStr reason), (''approved_by'', JStr (operator auth)),
      (''created_at'', JStr (iso_text (host m) (clock (host m) (ticks s1)))),
      (''expires_at'', JStr (iso_text (host m) (clock (host m) (Suc (ticks s1)) + minutes * 60000000))),
      (''ticket_number'', JStr (ticket_number auth))] s2 = (Inr ex, s')"
    using assms(2) st(1,2)
    by (auto simp: add_exception_def s2_def ld_bind_Inr ld_lift_def ld_raise_def read_clock_def Let_def split: if_splits)
  obtain xs s3 where w: "write_evidence m ACTIVE_STATE (AList.update ''exceptions'' (JList (xs @ [JObj ex])) st) s2 = (Inr (), s3)"
    and a: "snd (append_audit m ''exception_added'' ex s3) = s'"
    using rec unfolding record_exception_def
    by (auto simp: ld_bind_Inr ld_return_def ld_raise_def split: json.splits)
  let ?st = "AList.update ''exceptions'' (JList (xs @ [JObj ex])) st"
  have "map_of (files s3) ACTIVE_STATE = Some \<lparr> fmode = 384, fcontent = Parsed (sort_keys (JObj (evidence_body (host m) (clock (host m) (ticks s2)) ?st))) \<rparr>"
    and w3: "world s3 = world s2" using w by (auto simp: write_evidence_eq split: if_splits)
  moreover have "files s' = files s3" using a append_audit_files by metis
  ultimately obtain d where d: "status m s' = (Inr d, s')"
    and get: "\<forall>k x. k \<noteq> ''integrity'' \<longrightarrow> k \<noteq> ''timestamp'' \<longrightarrow> sort_keys x = x \<longrightarrow> od_get d k x = sort_keys (od_get ?st k x)"
    by (metis status_of_written)
  have "od_get d ''active'' JNull = sort_keys (od_get st ''active'' JNull)" using get by (simp add: od_get_update)
  then have act: "truthy (od_get d ''active'' JNull)" using st(2) by simp
  have "recorded_controls ?st = Inr (map (sort_keys \<circ> JObj) cs)" using st(3) by (simp add: recorded_controls_def od_get_update)
  then have "recorded_controls d = Inr (map (sort_keys \<circ> JObj) cs)" by (rule recorded_controls_rewritten [OF get])
  then have "active_controls m s' = active_controls m s" using assms(1) d act by (simp add: active_controls_def)
  moreover have "world s' = world s3" using keepsD [OF same_world.keeps_audit, of s3 "world s3"] a by metis
  ultimately show ?thesis using range s2 w3 settings_of_status [OF st(1)] by simp
qed

section \<open>Limits of the code\<close>

text \<open>
  A state file with loose permissions reads as inactive, so a second activation is allowed; it observes
  the already hardened settings, and the deactivation then reports success without bringing back the
  settings from before the first activation.
\<close>

theorem unsafe_state_reads_inactive:
  assumes "map_of (files s) ACTIVE_STATE = Some f" and "fmode f mod 64 \<noteq> 0" and "disk_works m" and "loggable m s"
  shows "\<exists>s'. status m s = (Inr (tamper_status ''LOCKDOWN_STATE_PERMISSIONS_UNSAFE''), s')"
proof -
  obtain s' where "report_tamper m ''unsafe file permissions'' ''LOCKDOWN_STATE_PERMISSIONS_UNSAFE'' s =
      (Inr (tamper_status ''LOCKDOWN_STATE_PERMISSIONS_UNSAFE''), s')" by (rule report_tamper_works [OF assms(3,4)])
  then show ?thesis using assms(1,2) by (simp add: status_def)
qed

theorem second_activation_forgets_posture:
  assumes tools: "mac_tools m ssh fw" and ships: "ships_profiles (host m)" and p: "load_profile (host m) nm = Inr p"
    and ssh: "manages_ssh (profile_id p)" and en: "enable m nm auth False s = (Inr man, s1)" and same: "world s2 = world s1"
    and en2: "enable m nm auth False s2 = (Inr man2, s3)"
    and dis: "disable m auth True False s3 = (Inr rep, s4)" and rep: "od_get rep ''restored'' JNull = JBool True"
  shows "\<not> ssh (world s4) \<and> fw (world s4)"
proof -
  have "\<not> ssh (world s2) \<and> fw (world s2)" using enable_effect(1,2) [OF tools ships en p] ssh same by simp
  then show ?thesis
    using disable_undoes [OF tools dis rep enable_effect(3) [OF tools ships en2 p]] ssh by simp
qed

text \<open>
  The evidence of a successful activation is written after its controls, outside the handler that rolls
  back: when that write fails, the controls stay in force and no state records how to undo them.
\<close>

theorem enforcement_can_go_unrecorded:
  assumes "apply_loop m False ctl [] [] s = ((None, results, applied), s1)"
    and "\<not> disk_writable (host m) (Suc (Suc (ticks s1)))"
  shows "\<exists>n. enforce m False aid p auth ctl s = (Inl (OSErr ''write failed''), s1\<lparr> ticks := n \<rparr>)"
  using assms
  by (simp add: enforce_def finish_activation_def ld_bind_def read_clock_def write_evidence_eq Let_def) blast

text \<open>A firewall that blocks all incoming connections (state 2) is recorded, and later restored, as off.\<close>

theorem block_all_firewall_restored_off:
  assumes "od_get (obj_at inventory ''application_firewall'') ''stdout'' (JStr '''') =
    JStr ''Firewall is blocking all non-essential incoming connections. (State = 2)''"
  shows "observed_rollback h inventory firewall_control = firewall_restoring False"
proof -
  have "str_contains ''enabled'' (str_lower ''Firewall is blocking all non-essential incoming connections. (State = 2)'') = False"
    and "str_contains ''state = 1'' (str_lower ''Firewall is blocking all non-essential incoming connections. (State = 2)'') = False"
    by code_simp+
  moreover have "od_get firewall_control ''state_probe'' x = JStr ''application_firewall''" for x
    by (simp add: firewall_control_def od_get_def)
  ultimately show ?thesis
    by (simp add: observed_rollback_def assms firewall_restoring_def set_firewall_def Let_def)
qed

end
