(* ===== verification/Typosquat.thy ===== *)
theory Typosquat
  imports Prelude
begin

text \<open>
  Lookalike names (\<open>anti_typosquatting/scoring.py\<close>, and the human typing errors, phonetic variants and
  ranking of \<open>anti_typosquatting/engine.py\<close>). The edit distance that scores a name fills a table in
  place; it is shown to be the least cost of an alignment of the two names, and the typing errors the
  engine generates to be one edit away. Names are ASCII, so \<open>casefold\<close> is the lower case; the product
  of an integer and a float constant is a parameter of the scores.
\<close>

section \<open>The edit distance\<close>

definition cell :: "nat list list \<Rightarrow> nat \<Rightarrow> nat \<Rightarrow> nat" where
  "cell t i j = t ! i ! j"

definition set_cell :: "nat list list \<Rightarrow> nat \<Rightarrow> nat \<Rightarrow> nat \<Rightarrow> nat list list" where
  "set_cell t i j v = t[i := (t ! i)[j := v]]"

definition initial_table :: "nat \<Rightarrow> nat \<Rightarrow> nat list list" where
  "initial_table m n =
     fold (\<lambda>j t. set_cell t 0 j j) [0..<n + 1]
       (fold (\<lambda>i t. set_cell t i 0 i) [0..<m + 1] (replicate (m + 1) (replicate (n + 1) 0)))"

definition fill_cell :: "'a list \<Rightarrow> 'a list \<Rightarrow> nat \<Rightarrow> nat \<Rightarrow> nat list list \<Rightarrow> nat list list" where
  "fill_cell l r row column t =
     (let cost = (if l ! (row - 1) = r ! (column - 1) then 0 else 1);
          t = set_cell t row column (min (min (cell t (row - 1) column + 1) (cell t row (column - 1) + 1))
                (cell t (row - 1) (column - 1) + cost)) in
      if 1 < row \<and> 1 < column \<and> l ! (row - 1) = r ! (column - 2) \<and> l ! (row - 2) = r ! (column - 1)
      then set_cell t row column (min (cell t row column) (cell t (row - 2) (column - 2) + 1)) else t)"

definition distance_table :: "'a list \<Rightarrow> 'a list \<Rightarrow> nat list list" where
  "distance_table l r =
     fold (\<lambda>row t. fold (\<lambda>column t. fill_cell l r row column t) [1..<length r + 1] t) [1..<length l + 1]
       (initial_table (length l) (length r))"

definition damerau_levenshtein :: "string \<Rightarrow> string \<Rightarrow> nat" where
  "damerau_levenshtein left right = last (last (distance_table (str_lower left) (str_lower right)))"

subsection \<open>Recursive reading\<close>

fun osa :: "'a list \<Rightarrow> 'a list \<Rightarrow> nat \<Rightarrow> nat \<Rightarrow> nat" where
  "osa l r 0 j = j"
| "osa l r (Suc i) 0 = Suc i"
| "osa l r (Suc i) (Suc j) =
     (let c = min (min (osa l r i (Suc j) + 1) (osa l r (Suc i) j + 1)) (osa l r i j + (if l ! i = r ! j then 0 else 1)) in
      if 0 < i \<and> 0 < j \<and> l ! i = r ! (j - 1) \<and> l ! (i - 1) = r ! j then min c (osa l r (i - 1) (j - 1) + 1) else c)"

declare osa.simps(3) [simp del]

definition table_dims :: "nat \<Rightarrow> nat \<Rightarrow> nat list list \<Rightarrow> bool" where
  "table_dims m n t \<longleftrightarrow> length t = m + 1 \<and> (\<forall>i \<le> m. length (t ! i) = n + 1)"

text \<open>The cells of the first row and column, of the rows before \<open>p\<close> and of row \<open>p\<close> up to \<open>k\<close> are final.\<close>

definition filled :: "'a list \<Rightarrow> 'a list \<Rightarrow> nat \<Rightarrow> nat \<Rightarrow> nat list list \<Rightarrow> bool" where
  "filled l r p k t \<longleftrightarrow> table_dims (length l) (length r) t \<and>
     (\<forall>i \<le> length l. \<forall>j \<le> length r. i < p \<or> i = 0 \<or> j = 0 \<or> (i = p \<and> j \<le> k) \<longrightarrow> cell t i j = osa l r i j)"

lemma cell_set [simp]:
  "table_dims m n t \<Longrightarrow> i \<le> m \<Longrightarrow> j \<le> n \<Longrightarrow> cell (set_cell t i j v) i' j' = (if i' = i \<and> j' = j then v else cell t i' j')"
  by (auto simp: cell_def set_cell_def table_dims_def nth_list_update)

lemma set_cell_dims [simp]: "table_dims m n t \<Longrightarrow> table_dims m n (set_cell t i j v)"
  by (cases "i < length t") (auto simp: table_dims_def set_cell_def nth_list_update)

lemma initial_filled: "filled l r 0 (length r) (initial_table (length l) (length r))"
proof -
  let ?m = "length l" and ?n = "length r"
  define t0 where "t0 = replicate (?m + 1) (replicate (?n + 1) (0 :: nat))"
  have d0: "table_dims ?m ?n t0" by (simp add: t0_def table_dims_def del: replicate_Suc)
  have col: "table_dims ?m ?n (fold (\<lambda>i t. set_cell t i 0 i) [0..<k] t0) \<and>
      (\<forall>i < k. cell (fold (\<lambda>i t. set_cell t i 0 i) [0..<k] t0) i 0 = i)" if "k \<le> ?m + 1" for k
    using that by (induction k) (auto simp: d0)
  define t1 where "t1 = fold (\<lambda>i t. set_cell t i 0 i) [0..<?m + 1] t0"
  have d1: "table_dims ?m ?n t1" and c1: "i \<le> ?m \<Longrightarrow> cell t1 i 0 = i" for i
    using col [of "?m + 1"] by (auto simp: t1_def simp del: upt_Suc)
  have row: "table_dims ?m ?n (fold (\<lambda>j t. set_cell t 0 j j) [0..<k] t1) \<and>
      (\<forall>j < k. cell (fold (\<lambda>j t. set_cell t 0 j j) [0..<k] t1) 0 j = j) \<and>
      (\<forall>i \<le> ?m. cell (fold (\<lambda>j t. set_cell t 0 j j) [0..<k] t1) i 0 = i)" if "k \<le> ?n + 1" for k
    using that by (induction k) (auto simp: d1 c1)
  have osa0: "osa l r i 0 = i" for i by (cases i) simp_all
  have "initial_table ?m ?n = fold (\<lambda>j t. set_cell t 0 j j) [0..<?n + 1] t1"
    by (simp only: initial_table_def t1_def t0_def)
  then show ?thesis using row [of "?n + 1"] by (auto simp: filled_def osa0 simp del: upt_Suc)
qed

lemma fill_cell_filled:
  assumes "filled l r p k t" and "1 \<le> p" and "p \<le> length l" and "k < length r"
  shows "filled l r p (Suc k) (fill_cell l r p (Suc k) t)"
proof -
  obtain p' where p: "p = Suc p'" using assms(2) by (cases p) auto
  have d: "table_dims (length l) (length r) t"
    and c: "\<And>i j. i \<le> length l \<Longrightarrow> j \<le> length r \<Longrightarrow> i < p \<or> i = 0 \<or> j = 0 \<or> (i = p \<and> j \<le> k) \<Longrightarrow> cell t i j = osa l r i j"
    using assms(1) by (auto simp: filled_def)
  have "cell t p' (Suc k) = osa l r p' (Suc k)" "cell t (Suc p') k = osa l r (Suc p') k" "cell t p' k = osa l r p' k"
    "cell t (p' - 1) (k - 1) = osa l r (p' - 1) (k - 1)"
    using assms(3,4) p by (auto intro!: c)
  note deps = this
  let ?c = "min (min (cell t p' (Suc k) + 1) (cell t p k + 1)) (cell t p' k + (if l ! p' = r ! k then 0 else 1))"
  define u where "u = set_cell t p (Suc k) ?c"
  have du: "table_dims (length l) (length r) u" using d by (simp add: u_def)
  have cu: "cell u i j = (if i = p \<and> j = Suc k then ?c else cell t i j)" for i j
    unfolding u_def using d assms(3,4) by (intro cell_set) auto
  let ?swap = "0 < p' \<and> 0 < k \<and> l ! p' = r ! (k - 1) \<and> l ! (p' - 1) = r ! k"
  have fill: "fill_cell l r p (Suc k) t =
      (if ?swap then set_cell u p (Suc k) (min (cell u p (Suc k)) (cell u (p' - 1) (k - 1) + 1)) else u)"
    by (simp add: fill_cell_def Let_def u_def p numeral_2_eq_2)
  have val: "osa l r p (Suc k) = (if ?swap then min ?c (cell t (p' - 1) (k - 1) + 1) else ?c)"
    by (simp only: p osa.simps Let_def deps)
  have ne: "\<not> (p' - 1 = p \<and> k - 1 = Suc k)" by (cases k) simp_all
  have cu0: "cell u p (Suc k) = ?c" and cu1: "cell u (p' - 1) (k - 1) = cell t (p' - 1) (k - 1)"
    unfolding cu by (simp_all only: if_True simp_thms if_not_P [OF ne])
  have su: "cell (set_cell u p (Suc k) x) i j = (if i = p \<and> j = Suc k then x else cell u i j)" for x i j
    using du assms(3,4) by (intro cell_set) auto
  have at: "cell (fill_cell l r p (Suc k) t) p (Suc k) = osa l r p (Suc k)"
    unfolding fill val by (cases ?swap) (simp_all only: if_True if_False su cu0 cu1 simp_thms)
  have other: "cell (fill_cell l r p (Suc k) t) i j = cell t i j" if "\<not> (i = p \<and> j = Suc k)" for i j
  proof -
    have "cell u i j = cell t i j" unfolding cu if_not_P [OF that] ..
    then show ?thesis unfolding fill by (cases ?swap) (simp_all only: if_True if_False su simp_thms that)
  qed
  have "cell (fill_cell l r p (Suc k) t) i j = (if i = p \<and> j = Suc k then osa l r p (Suc k) else cell t i j)" for i j
    using at other [of i j] by auto
  moreover have "table_dims (length l) (length r) (fill_cell l r p (Suc k) t)"
    unfolding fill using du by simp
  ultimately show ?thesis using c by (auto simp: filled_def le_Suc_eq)
qed

lemma fill_row:
  assumes "filled l r p (length r) t" and "p < length l"
  shows "filled l r (Suc p) (length r) (fold (\<lambda>column t. fill_cell l r (Suc p) column t) [1..<length r + 1] t)"
proof -
  have "filled l r (Suc p) k (fold (\<lambda>column t. fill_cell l r (Suc p) column t) [1..<k + 1] t)" if "k \<le> length r" for k
    using that
  proof (induction k)
    case 0
    then show ?case using assms(1) by (auto simp: filled_def less_Suc_eq)
  next
    case (Suc k)
    then show ?case using fill_cell_filled [of l r "Suc p" k] assms(2) by simp
  qed
  then show ?thesis by blast
qed

lemma table_is_recursive: "last (last (distance_table l r)) = osa l r (length l) (length r)"
proof -
  have f: "filled l r p (length r) (fold (\<lambda>row t. fold (\<lambda>column t. fill_cell l r row column t) [1..<length r + 1] t) [1..<p + 1]
      (initial_table (length l) (length r)))" if "p \<le> length l" for p
    using that
  proof (induction p)
    case 0
    then show ?case using initial_filled [of l r] by simp
  next
    case (Suc p)
    then show ?case using fill_row [of l r p] by (simp del: upt_Suc add: upt_Suc_append)
  qed
  have "filled l r (length l) (length r) (distance_table l r)" using f [of "length l"] by (simp add: distance_table_def)
  then have d: "table_dims (length l) (length r) (distance_table l r)"
    and "cell (distance_table l r) (length l) (length r) = osa l r (length l) (length r)" by (auto simp: filled_def)
  moreover have "last (distance_table l r) = distance_table l r ! length l"
    using d by (subst last_conv_nth) (auto simp: table_dims_def)
  moreover have "last (distance_table l r ! length l) = distance_table l r ! length l ! length r"
    using d by (subst last_conv_nth) (auto simp: table_dims_def)
  ultimately show ?thesis by (simp add: cell_def)
qed

subsection \<open>Alignments\<close>

text \<open>
  What the distance means: two names are aligned at a cost when the second can be read off the first by
  keeping letters and, at a cost of one each, dropping a letter, adding one, replacing one, or swapping
  two adjacent ones.
\<close>

inductive aligned :: "'a list \<Rightarrow> 'a list \<Rightarrow> nat \<Rightarrow> bool" where
  empty: "aligned [] [] 0"
| drop: "aligned xs ys n \<Longrightarrow> aligned (xs @ [x]) ys (Suc n)"
| add: "aligned xs ys n \<Longrightarrow> aligned xs (ys @ [y]) (Suc n)"
| keep: "aligned xs ys n \<Longrightarrow> aligned (xs @ [x]) (ys @ [x]) n"
| replace: "aligned xs ys n \<Longrightarrow> aligned (xs @ [x]) (ys @ [y]) (Suc n)"
| swap: "aligned xs ys n \<Longrightarrow> aligned (xs @ [a, b]) (ys @ [b, a]) (Suc n)"

lemma osa_le:
  "osa l r (Suc i) j \<le> Suc (osa l r i j)"
  "osa l r i (Suc j) \<le> Suc (osa l r i j)"
  "osa l r (Suc i) (Suc j) \<le> osa l r i j + (if l ! i = r ! j then 0 else 1)"
  "l ! Suc i = r ! j \<Longrightarrow> l ! i = r ! Suc j \<Longrightarrow> osa l r (Suc (Suc i)) (Suc (Suc j)) \<le> Suc (osa l r i j)"
proof -
  have z: "osa l r i 0 = i" for i by (cases i) simp_all
  have le: "(if b then min c d else c) \<le> c" for b and c d :: nat by simp
  have s: "osa l r (Suc i) (Suc j) \<le> min (min (osa l r i (Suc j) + 1) (osa l r (Suc i) j + 1))
      (osa l r i j + (if l ! i = r ! j then 0 else 1))" for i j
    unfolding osa.simps(3) Let_def by (rule le)
  show "osa l r (Suc i) j \<le> Suc (osa l r i j)" using s [of i "j - 1"] by (cases j) (simp_all add: z, linarith)
  show "osa l r i (Suc j) \<le> Suc (osa l r i j)" using s [of "i - 1" j] by (cases i) (simp_all, linarith)
  show "osa l r (Suc i) (Suc j) \<le> osa l r i j + (if l ! i = r ! j then 0 else 1)" using s [of i j] by simp
  show "osa l r (Suc (Suc i)) (Suc (Suc j)) \<le> Suc (osa l r i j)" if "l ! Suc i = r ! j" "l ! i = r ! Suc j"
  proof -
    have "0 < Suc i \<and> 0 < Suc j \<and> l ! Suc i = r ! (Suc j - 1) \<and> l ! (Suc i - 1) = r ! Suc j" using that by simp
    then show ?thesis by (subst osa.simps(3)) (simp only: Let_def if_True min_le_iff_disj diff_Suc_1, simp)
  qed
qed

lemma take_snoc_cases:
  assumes "take i l = xs @ [x]" and "i \<le> length l"
  obtains i' where "i = Suc i'" and "take i' l = xs" and "l ! i' = x"
proof -
  have "i = Suc (length xs)" using arg_cong [OF assms(1), of length] assms(2) by simp
  moreover have "take (length xs) l = xs" using arg_cong [OF assms(1), of "take (length xs)"] calculation by simp
  moreover have "l ! length xs = x" using arg_cong [OF assms(1), of "\<lambda>v. v ! length xs"] calculation assms(2) by simp
  ultimately show ?thesis using that by blast
qed

lemma osa_least:
  "aligned xs ys k \<Longrightarrow> xs = take i l \<Longrightarrow> ys = take j r \<Longrightarrow> i \<le> length l \<Longrightarrow> j \<le> length r \<Longrightarrow> osa l r i j \<le> k"
proof (induction xs ys k arbitrary: i j rule: aligned.induct)
  case empty
  have "i = 0" and "j = 0" using empty by (cases l; cases r; auto)+
  then show ?case by simp
next
  case (drop xs ys n x)
  obtain i' where i: "i = Suc i'" "take i' l = xs"
    by (rule take_snoc_cases [OF drop.prems(1) [symmetric] drop.prems(3)])
  have "osa l r i' j \<le> n" using drop.prems(2-4) i by (intro drop.IH) auto
  then show ?case using osa_le(1) [of l r i' j] unfolding i(1) by linarith
next
  case (add xs ys n y)
  obtain j' where j: "j = Suc j'" "take j' r = ys"
    by (rule take_snoc_cases [OF add.prems(2) [symmetric] add.prems(4)])
  have "osa l r i j' \<le> n" using add.prems(1,3,4) j by (intro add.IH) auto
  then show ?case using osa_le(2) [of l r i j'] unfolding j(1) by linarith
next
  case (keep xs ys n x)
  obtain i' where i: "i = Suc i'" "take i' l = xs" "l ! i' = x"
    by (rule take_snoc_cases [OF keep.prems(1) [symmetric] keep.prems(3)])
  obtain j' where j: "j = Suc j'" "take j' r = ys" "r ! j' = x"
    by (rule take_snoc_cases [OF keep.prems(2) [symmetric] keep.prems(4)])
  have "osa l r i' j' \<le> n" using keep.prems(3,4) i j by (intro keep.IH) auto
  moreover have "osa l r (Suc i') (Suc j') \<le> osa l r i' j' + 0" using osa_le(3) [of l r i' j'] i(3) j(3) by simp
  ultimately show ?case unfolding i(1) j(1) by linarith
next
  case (replace xs ys n x y)
  obtain i' where i: "i = Suc i'" "take i' l = xs"
    by (rule take_snoc_cases [OF replace.prems(1) [symmetric] replace.prems(3)])
  obtain j' where j: "j = Suc j'" "take j' r = ys"
    by (rule take_snoc_cases [OF replace.prems(2) [symmetric] replace.prems(4)])
  have "osa l r i' j' \<le> n" using replace.prems(3,4) i j by (intro replace.IH) auto
  moreover have "(if l ! i' = r ! j' then 0 else 1) \<le> (1 :: nat)" by simp
  ultimately show ?case using osa_le(3) [of l r i' j'] unfolding i(1) j(1) by linarith
next
  case (swap xs ys n a b)
  have X: "take i l = (xs @ [a]) @ [b]" and Y: "take j r = (ys @ [b]) @ [a]" using swap.prems(1,2) by simp_all
  obtain i1 where i1: "i = Suc i1" "take i1 l = xs @ [a]" "l ! i1 = b" by (rule take_snoc_cases [OF X swap.prems(3)])
  have "i1 \<le> length l" using swap.prems(3) i1(1) by simp
  then obtain i2 where i2: "i1 = Suc i2" "take i2 l = xs" "l ! i2 = a" by (rule take_snoc_cases [OF i1(2)])
  obtain j1 where j1: "j = Suc j1" "take j1 r = ys @ [b]" "r ! j1 = a" by (rule take_snoc_cases [OF Y swap.prems(4)])
  have "j1 \<le> length r" using swap.prems(4) j1(1) by simp
  then obtain j2 where j2: "j1 = Suc j2" "take j2 r = ys" "r ! j2 = b" by (rule take_snoc_cases [OF j1(2)])
  have "osa l r i2 j2 \<le> n" using swap.prems(3,4) i1(1) i2(1,2) j1(1) j2(1,2) by (intro swap.IH) auto
  moreover have "osa l r (Suc (Suc i2)) (Suc (Suc j2)) \<le> Suc (osa l r i2 j2)"
    using i1(3) i2(1,3) j1(3) j2(1,3) by (intro osa_le(4)) simp_all
  ultimately show ?case unfolding i1(1) i2(1) j1(1) j2(1) by linarith
qed

lemma aligned_min: "aligned xs ys a \<Longrightarrow> aligned xs ys b \<Longrightarrow> aligned xs ys (min a b)"
  by (simp add: min_def)

lemma osa_attained:
  "i \<le> length l \<Longrightarrow> j \<le> length r \<Longrightarrow> aligned (take i l) (take j r) (osa l r i j)"
proof (induction l r i j rule: osa.induct)
  case (1 l r j)
  then show ?case
    by (induction j) (auto simp: take_Suc_conv_app_nth intro: aligned.empty aligned.add)
next
  case (2 l r i)
  have "aligned (take k l) [] k" if "k \<le> length l" for k
    using that by (induction k) (auto simp: take_Suc_conv_app_nth intro: aligned.empty aligned.drop)
  then show ?case using 2 by simp
next
  case (3 l r i j)
  let ?X = "take (Suc i) l" and ?Y = "take (Suc j) r"
  let ?swap = "0 < i \<and> 0 < j \<and> l ! i = r ! (j - 1) \<and> l ! (i - 1) = r ! j"
  have X: "?X = take i l @ [l ! i]" and Y: "?Y = take j r @ [r ! j]"
    using "3.prems" by (simp_all add: take_Suc_conv_app_nth)
  have a1: "aligned ?X ?Y (osa l r i (Suc j) + 1)" using "3.IH"(1) "3.prems" X by (simp add: aligned.drop)
  have a2: "aligned ?X ?Y (osa l r (Suc i) j + 1)" using "3.IH"(2) "3.prems" Y by (simp add: aligned.add)
  have a3: "aligned ?X ?Y (osa l r i j + (if l ! i = r ! j then 0 else 1))"
    using "3.IH"(3) "3.prems" unfolding X Y by (auto intro: aligned.keep aligned.replace)
  have c: "aligned ?X ?Y (min (min (osa l r i (Suc j) + 1) (osa l r (Suc i) j + 1)) (osa l r i j + (if l ! i = r ! j then 0 else 1)))"
    by (intro aligned_min a1 a2 a3)
  have a4: "aligned ?X ?Y (osa l r (i - 1) (j - 1) + 1)" if s: ?swap
  proof -
    obtain i0 j0 where ij: "i = Suc i0" "j = Suc j0" using s by (metis Suc_pred')
    have "?X = take i0 l @ [l ! i0, l ! i]" and "?Y = take j0 r @ [r ! j0, r ! j]"
      using "3.prems" ij by (simp_all add: take_Suc_conv_app_nth)
    moreover have "aligned (take i0 l) (take j0 r) (osa l r i0 j0)"
      using "3.IH"(4) s "3.prems" ij by simp
    ultimately show ?thesis using s ij aligned.swap [of "take i0 l" "take j0 r" "osa l r i0 j0" "l ! i0" "l ! i"] by simp
  qed
  show ?case
  proof (cases ?swap)
    case True
    show ?thesis unfolding osa.simps(3) Let_def if_P [OF True] by (intro aligned_min c a4 True)
  next
    case False
    show ?thesis unfolding osa.simps(3) Let_def if_not_P [OF False] by (rule c)
  qed
qed

subsection \<open>Algebra of alignments\<close>

lemma aligned_refl: "aligned xs xs 0"
  by (induction xs rule: rev_induct) (auto intro: aligned.empty aligned.keep)

lemma aligned_append: "aligned xs ys n \<Longrightarrow> aligned (xs @ zs) (ys @ zs) n"
proof (induction zs rule: rev_induct)
  case (snoc z zs)
  then show ?case using aligned.keep [of "xs @ zs" "ys @ zs" n z] by simp
qed simp

lemma aligned_prepend: "aligned xs ys n \<Longrightarrow> aligned (zs @ xs) (zs @ ys) n"
proof (induction xs ys n rule: aligned.induct)
  case empty
  show ?case using aligned_refl by simp
next
  case (drop xs ys n x)
  then show ?case using aligned.drop [of "zs @ xs" "zs @ ys" n x] by simp
next
  case (add xs ys n y)
  then show ?case using aligned.add [of "zs @ xs" "zs @ ys" n y] by simp
next
  case (keep xs ys n x)
  then show ?case using aligned.keep [of "zs @ xs" "zs @ ys" n x] by simp
next
  case (replace xs ys n x y)
  then show ?case using aligned.replace [of "zs @ xs" "zs @ ys" n x y] by simp
next
  case (swap xs ys n a b)
  then show ?case using aligned.swap [of "zs @ xs" "zs @ ys" n a b] by simp
qed

text \<open>A change inside a name costs as much as the change alone.\<close>

lemma aligned_inside: "aligned xs ys n \<Longrightarrow> aligned (us @ xs @ vs) (us @ ys @ vs) n"
  by (intro aligned_prepend aligned_append)

lemma single_edits:
  "aligned [x] [] 1" "aligned [] [x] 1" "aligned [a, b] [b, a] 1"
  using aligned.drop [OF aligned.empty, of x] aligned.add [OF aligned.empty, of x] aligned.swap [OF aligned.empty, of a b] by simp_all

section \<open>Generated names\<close>

record CandidateReason =
  rule_id :: string
  explanation :: string
  category :: string
  locale_name :: string

definition generic_reason :: "string \<Rightarrow> string \<Rightarrow> string \<Rightarrow> CandidateReason" where
  "generic_reason r e c = \<lparr> rule_id = r, explanation = e, category = c, locale_name = ''generic'' \<rparr>"

type_synonym RawCandidate = "string \<times> CandidateReason \<times> string"

definition partition_bar :: "string \<Rightarrow> string \<times> string" where
  "partition_bar s = (takeWhile (\<lambda>c. c \<noteq> CHR ''|'') s, drop 1 (dropWhile (\<lambda>c. c \<noteq> CHR ''|'') s))"

definition rebuild :: "string \<Rightarrow> string \<Rightarrow> string \<Rightarrow> string" where
  "rebuild token suffix kind =
     (if kind = ''domain'' then token @ ''.'' @ suffix
      else if kind = ''npm'' \<and> suffix \<noteq> '''' then suffix @ ''/'' @ token
      else if kind = ''maven-central'' then suffix @ '':'' @ token
      else if kind = ''packagist'' then suffix @ ''/'' @ token
      else if kind = ''go-module'' then
        (let (prefix, major) = partition_bar suffix in
         prefix @ ''/'' @ token @ (if major \<noteq> '''' then ''/'' @ major else ''''))
      else token)"

definition human :: "string \<Rightarrow> string \<Rightarrow> string \<Rightarrow> RawCandidate list" where
  "human token suffix kind =
     map (\<lambda>i. (rebuild (take i token @ drop (i + 1) token) suffix kind,
       generic_reason ''HUMAN.OMISSION'' ''One character was omitted.'' ''human_typo'', ''delete:'' @ str_nat i)) [0..<length token] @
     map (\<lambda>i. (rebuild (take i token @ [token ! i] @ drop i token) suffix kind,
       generic_reason ''HUMAN.REPEAT'' ''A key was accidentally repeated.'' ''human_typo'', ''repeat:'' @ str_nat i)) [0..<length token] @
     map (\<lambda>i. (rebuild (take i token @ [token ! (i + 1)] @ [token ! i] @ drop (i + 2) token) suffix kind,
       generic_reason ''HUMAN.TRANSPOSE'' ''Two adjacent characters were transposed.'' ''human_typo'', ''transpose:'' @ str_nat i))
       (filter (\<lambda>i. token ! i \<noteq> token ! (i + 1)) [0..<length token - 1]) @
     (if CHR ''-'' \<in> set token then
        [(rebuild (filter (\<lambda>c. c \<noteq> CHR ''-'') token) suffix kind,
          generic_reason ''HUMAN.MISSING_SEPARATOR'' ''A word separator was omitted.'' ''separator_confusion'', ''remove-hyphen'')]
      else if 6 \<le> length token then
        [(rebuild (take (length token div 2) token @ ''-'' @ drop (length token div 2) token) suffix kind,
          generic_reason ''HUMAN.ADDED_SEPARATOR'' ''A hyphen was inserted near a word boundary.'' ''separator_confusion'', ''add-hyphen'')]
      else [])"

fun replace_first :: "string \<Rightarrow> string \<Rightarrow> string \<Rightarrow> string" where
  "replace_first old_s new_s [] = []"
| "replace_first old_s new_s (c # s) =
     (if startswith (c # s) old_s then new_s @ drop (length old_s) (c # s) else c # replace_first old_s new_s s)"

definition phonetic :: "string \<Rightarrow> string \<Rightarrow> string \<Rightarrow> RawCandidate list" where
  "phonetic token suffix kind =
     concat (map (\<lambda>(src, rep). if str_contains src (str_lower token) then
         [(rebuild (replace_first src rep (str_lower token)) suffix kind,
           (generic_reason (''PHONETIC.'' @ str_upper src @ ''_'' @ str_upper rep)
             ''A documented phonetic or digraph confusion was applied.'' ''phonetic'')\<lparr> locale_name := ''generic-fallback'' \<rparr>,
           ''phonetic:'' @ src @ ''>'' @ rep)] else [])
       [(''ph'', ''f''), (''ck'', ''k''), (''ie'', ''ei''), (''tion'', ''shun'')])"

definition rule_rank :: "string \<Rightarrow> nat" where
  "rule_rank r = od_get [(''UNICODE.CONFUSABLE'', 1), (''HUMAN.TRANSPOSE'', 2), (''KEYBOARD.ADJACENT_SUBSTITUTION'', 3),
     (''HUMAN.OMISSION'', 4), (''HUMAN.REPEAT'', 5), (''PACKAGE.NORMALIZATION_COLLISION'', 6), (''NPM.SCOPE_OMISSION'', 6),
     (''DOMAIN.TLD_CONFUSION'', 7)] r 20"

section \<open>Scores\<close>

record ScoreBreakdown =
  total :: int
  contributions :: "(string, int) odict"

definition clamp :: "int \<Rightarrow> int" where
  "clamp v = max 0 (min 100 v)"

text \<open>\<open>int(x)\<close> of a float truncates towards zero.\<close>

definition float_int :: "pyfloat \<Rightarrow> int" where
  "float_int x = (if 0 \<le> x then \<lfloor>x\<rfloor> else \<lceil>x\<rceil>)"

definition SCORE_WEIGHTS :: "(string, int) odict" where
  "SCORE_WEIGHTS = [(''one_edit'', 25), (''omission'', 28), (''repeat'', 24), (''transposition'', 38), (''adjacent_key'', 34),
     (''separator'', 24), (''phonetic'', 22), (''unicode_confusable'', 58), (''mixed_script'', 20), (''normalization_collision'', 55),
     (''service_word'', 32), (''tld_confusion'', 25)]"

definition weight_key :: "string \<Rightarrow> string" where
  "weight_key rule =
     (if str_contains ''OMISSION'' rule then ''omission''
      else if str_contains ''REPEAT'' rule then ''repeat''
      else if str_contains ''TRANSPOSE'' rule then ''transposition''
      else if str_contains ''ADJACENT'' rule then ''adjacent_key''
      else if str_contains ''SEPARATOR'' rule then ''separator''
      else if str_contains ''PHONETIC'' rule then ''phonetic''
      else if str_contains ''UNICODE'' rule then ''unicode_confusable''
      else if str_contains ''NORMALIZATION'' rule then ''normalization_collision''
      else if str_contains ''SERVICE_WORD'' rule then ''service_word''
      else if str_contains ''TLD'' rule then ''tld_confusion'' else ''one_edit'')"

definition score_reason :: "CandidateReason \<Rightarrow> (string, int) odict \<times> int \<times> int \<Rightarrow> (string, int) odict \<times> int \<times> int" where
  "score_reason reason st = (case st of (cs, human_sum, imp_sum) \<Rightarrow>
     (let v = od_get SCORE_WEIGHTS (weight_key (rule_id reason)) 0 in
      (AList.update (rule_id reason) (max (od_get cs (rule_id reason) 0) v) cs,
       (if category reason \<in> {''human_typo'', ''regional_keyboard'', ''phonetic'', ''separator_confusion''} then human_sum + v else human_sum),
       (if category reason \<in> {''visual_confusable'', ''normalization_collision'', ''combosquatting'', ''tld_confusion'', ''namespace_confusion''}
        then imp_sum + v else imp_sum))))"

definition score :: "(int \<Rightarrow> pyfloat \<Rightarrow> pyfloat) \<Rightarrow> CandidateReason list \<Rightarrow> bool \<Rightarrow>
    ScoreBreakdown \<times> ScoreBreakdown \<times> ScoreBreakdown \<times> ScoreBreakdown" where
  "score fmul reasons exist =
     (let (cs, human_sum, imp_sum) = fold score_reason reasons ([], 0, 0);
          hb = \<lparr> total = clamp human_sum, contributions = filter (\<lambda>(k, v). startswith k ''HUMAN'' \<or> startswith k ''KEYBOARD'' \<or> startswith k ''PHONETIC'') cs \<rparr>;
          ib = \<lparr> total = clamp imp_sum, contributions = filter (\<lambda>(k, v). k \<notin> set (od_keys (contributions hb))) cs \<rparr>;
          combined = clamp (float_int (fmul (total hb + total ib) (65 / 100))) in
      (hb, ib, \<lparr> total = combined, contributions = [(''combined_similarity'', combined)] \<rparr>,
       \<lparr> total = clamp (float_int (fmul (total hb + total ib) (if exist then 80 / 100 else 35 / 100))),
         contributions = [(''existing_name_weight'', if exist then 80 else 35)] \<rparr>))"

definition closeness_value :: "string \<Rightarrow> string \<Rightarrow> int" where
  "closeness_value canon cand = (let maximum_length = max 1 (max (length canon) (length cand)) in
     clamp (round_half_even (100 * (1 - of_nat (damerau_levenshtein canon cand) / of_nat maximum_length))))"

definition risk_band :: "int \<Rightarrow> string" where
  "risk_band v = (if 80 \<le> v then ''critical'' else if 65 \<le> v then ''high'' else if 45 \<le> v then ''medium'' else ''low'')"

definition assumption_scores :: "(int \<Rightarrow> pyfloat \<Rightarrow> pyfloat) \<Rightarrow> string \<Rightarrow> string \<Rightarrow> ScoreBreakdown \<Rightarrow> ScoreBreakdown \<Rightarrow>
    CandidateReason list \<Rightarrow> ScoreBreakdown \<times> ScoreBreakdown \<times> string" where
  "assumption_scores fmul canon cand hb ib reasons =
     (let closeness = closeness_value canon cand;
          categories = set (map category reasons);
          deliberate = (if categories \<inter> {''visual_confusable'', ''normalization_collision'', ''namespace_confusion''} \<noteq> {} then 85
            else if categories \<inter> {''combosquatting'', ''tld_confusion''} \<noteq> {} then 70 else 45);
          similarity = max (total hb) (total ib);
          assumption = clamp (round_half_even (fmul closeness (42 / 100) + fmul similarity (38 / 100) + fmul deliberate (20 / 100))) in
      (\<lparr> total = closeness, contributions = [(''damerau_levenshtein_distance'', int (damerau_levenshtein canon cand))] \<rparr>,
       \<lparr> total = assumption, contributions = [(''name_closeness'', round_half_even (fmul closeness (42 / 100))),
          (''similarity_signals'', round_half_even (fmul similarity (38 / 100))),
          (''impersonation_pattern'', round_half_even (fmul deliberate (20 / 100)))] \<rparr>, risk_band assumption))"

section \<open>What the scores mean\<close>

lemma distance_osa: "damerau_levenshtein a b = osa (str_lower a) (str_lower b) (length a) (length b)"
  using table_is_recursive [of "str_lower a" "str_lower b"] by (simp add: damerau_levenshtein_def str_lower_def)

lemma distance_attained: "aligned (str_lower a) (str_lower b) (damerau_levenshtein a b)"
  using osa_attained [of "length a" "str_lower a" "length b" "str_lower b"] by (simp add: distance_osa str_lower_def)

lemma distance_least: "aligned (str_lower a) (str_lower b) k \<Longrightarrow> damerau_levenshtein a b \<le> k"
  using osa_least [of "str_lower a" "str_lower b" k "length a" "str_lower a" "length b" "str_lower b"]
  by (simp add: distance_osa str_lower_def)

text \<open>
  C34. The table computes the distance it is named for: it is the cost of some alignment of the two names,
  ignoring case, and no alignment is cheaper.\<close>

theorem distance_is_least_alignment:
  "aligned (str_lower a) (str_lower b) (damerau_levenshtein a b) \<and>
   damerau_levenshtein a b = (LEAST n. aligned (str_lower a) (str_lower b) n)"
  using distance_attained distance_least by (metis LeastI Least_le le_antisym)

lemma rebuild_context: "\<exists>us vs. \<forall>token. rebuild token suffix kind = us @ token @ vs"
proof -
  let ?go = "kind \<noteq> ''domain'' \<and> \<not> (kind = ''npm'' \<and> suffix \<noteq> '''') \<and> kind \<noteq> ''maven-central'' \<and> kind \<noteq> ''packagist'' \<and> kind = ''go-module''"
  let ?us = "if kind = ''domain'' then '''' else if kind = ''npm'' \<and> suffix \<noteq> '''' then suffix @ ''/''
      else if kind = ''maven-central'' then suffix @ '':'' else if kind = ''packagist'' then suffix @ ''/''
      else if kind = ''go-module'' then fst (partition_bar suffix) @ ''/'' else ''''"
  let ?vs = "if kind = ''domain'' then ''.'' @ suffix
      else if ?go \<and> snd (partition_bar suffix) \<noteq> '''' then ''/'' @ snd (partition_bar suffix) else ''''"
  have "rebuild token suffix kind = ?us @ token @ ?vs" for token
    by (simp add: rebuild_def case_prod_beta)
  then show ?thesis by blast
qed

lemma rebuilt_edit:
  assumes "aligned (str_lower x) (str_lower y) n"
  shows "damerau_levenshtein (rebuild (u @ x @ v) suffix kind) (rebuild (u @ y @ v) suffix kind) \<le> n"
proof -
  obtain us vs where c: "\<And>token. rebuild token suffix kind = us @ token @ vs" using rebuild_context by blast
  have "aligned (str_lower (us @ u) @ str_lower x @ str_lower (v @ vs)) (str_lower (us @ u) @ str_lower y @ str_lower (v @ vs)) n"
    using assms by (rule aligned_inside)
  then show ?thesis by (intro distance_least) (simp add: c str_lower_def)
qed

lemma lower_edits:
  "aligned (str_lower [x]) (str_lower []) 1" "aligned (str_lower []) (str_lower [x]) 1"
  "aligned (str_lower [a, b]) (str_lower [b, a]) 1"
  using single_edits by (simp_all add: str_lower_def)

text \<open>
  C35. Every typing error the engine generates is one edit away from the protected name, in every ecosystem
  and whatever surrounds the edited part; only the removal of separators may take more.\<close>

theorem typing_errors_are_one_edit:
  assumes "(name, reason, operation) \<in> set (human token suffix kind)" and "rule_id reason \<noteq> ''HUMAN.MISSING_SEPARATOR''"
  shows "damerau_levenshtein (rebuild token suffix kind) name \<le> 1"
proof -
  let ?near = "\<lambda>t. damerau_levenshtein (rebuild token suffix kind) (rebuild t suffix kind) \<le> 1"
  have omit: "?near (take i token @ drop (i + 1) token)" if "i < length token" for i
    using rebuilt_edit [OF lower_edits(1) [of "token ! i"], of "take i token" "drop (i + 1) token"] that
    by (simp add: Cons_nth_drop_Suc)
  have insert: "?near (take i token @ [c] @ drop i token)" for i c
    using rebuilt_edit [OF lower_edits(2) [of c], of "take i token" "drop i token"] by simp
  have swap: "?near (take i token @ [token ! (i + 1)] @ [token ! i] @ drop (i + 2) token)" if "i < length token - 1" for i
  proof -
    have "token = take i token @ [token ! i, token ! (i + 1)] @ drop (i + 2) token"
      using that by (simp add: Cons_nth_drop_Suc)
    then show ?thesis
      using rebuilt_edit [OF lower_edits(3) [of "token ! i" "token ! (i + 1)"], of "take i token" "drop (i + 2) token"] by simp
  qed
  from assms(1) consider
      i where "i < length token" "name = rebuild (take i token @ drop (i + 1) token) suffix kind"
    | i where "name = rebuild (take i token @ [token ! i] @ drop i token) suffix kind"
    | i where "i < length token - 1" "name = rebuild (take i token @ [token ! (i + 1)] @ [token ! i] @ drop (i + 2) token) suffix kind"
    | "rule_id reason = ''HUMAN.MISSING_SEPARATOR''"
    | i where "name = rebuild (take i token @ [CHR ''-''] @ drop i token) suffix kind"
    by (auto simp: human_def generic_reason_def split: if_splits)
  then show ?thesis using omit insert swap assms(2) by cases auto
qed

theorem typing_errors_are_one_edit_witness:
  "damerau_levenshtein ''example.com'' ''exmaple.com'' \<le> 1 \<and>
   (''exmaple.com'', generic_reason ''HUMAN.TRANSPOSE'' ''Two adjacent characters were transposed.'' ''human_typo'', ''transpose:2'')
     \<in> set (human ''example'' ''com'' ''domain'')"
proof -
  have m: "(''exmaple.com'', generic_reason ''HUMAN.TRANSPOSE'' ''Two adjacent characters were transposed.'' ''human_typo'', ''transpose:2'')
     \<in> set (human ''example'' ''com'' ''domain'')"
    by code_simp
  show ?thesis using typing_errors_are_one_edit [OF m] m by (simp add: generic_reason_def rebuild_def)
qed

text \<open>
  All scores of a candidate are percentages, a name that differs only in case is reported at full
  closeness, and the band is the one of the assumption score.\<close>

theorem typosquat_scores_bounded:
  "\<exists>hb ib db vb cb ab. score fmul reasons exist = (hb, ib, db, vb) \<and>
     assumption_scores fmul canon cand hb ib reasons = (cb, ab, risk_band (total ab)) \<and>
     list_all (\<lambda>b. 0 \<le> total b \<and> total b \<le> 100) [hb, ib, db, vb, cb, ab] \<and>
     (str_lower canon = str_lower cand \<longrightarrow> total cb = 100)"
proof -
  have c: "0 \<le> clamp v \<and> clamp v \<le> 100" for v by (simp add: clamp_def)
  have close: "closeness_value canon cand = 100" if "str_lower canon = str_lower cand"
  proof -
    have "damerau_levenshtein canon cand \<le> 0" using aligned_refl [of "str_lower cand"] that by (intro distance_least) simp
    then show ?thesis using round_half_even_of_int [of 100] by (simp add: closeness_value_def Let_def clamp_def)
  qed
  obtain cs x y where "fold score_reason reasons ([], 0, 0) = (cs, x, y)" by (metis prod_cases3)
  then show ?thesis using c close by (simp add: score_def assumption_scores_def Let_def closeness_value_def)
qed

end
