(* ===== verification/Spec2Isabelle.thy ===== *)
theory Spec2Isabelle
  imports Work_Scheduler_Limits AR_Adaptive_Demo AR_Audit AR_Evidence AR_Production AR_Containment
    AR_Windows AR_IPC Health_Assurance License_Manager Alert_Assurance Alert_Actions
    Lockdown_Assurance Typosquat
begin

text \<open>
  Verification of the decision logic of the macOS Security Audit Agent (\<open>src/mac_audit_agent\<close>).

  The agent watches a Mac with many sensors, scores what they report, contains a process it takes
  for ransomware, keeps evidence, checks that its own sensors work, turns what the monitors report
  into durable receipts and notifications, hardens the host in an emergency and undoes it, and gates
  its commercial features by a license. The development models the parts that decide: each is a
  group of executable definitions translated from one Python module, with the theorems that make it
  correct.

  \<^bold>\<open>Theories and sources\<close>

  \<^item> \<open>Prelude\<close>, \<open>Json_Values\<close>: Python values (errors as sums, floats, datetimes, strings,
    insertion-ordered dictionaries, JSON) and the loops that recur in the code, whose laws are the
    locales \<open>time_window\<close>, \<open>recency_cache\<close>, \<open>invariant_machine\<close> and \<open>hash_chain\<close>.
  \<^item> \<open>Resource_Budget\<close>, \<open>Work_Scheduler\<close>, \<open>Work_Scheduler_Limits\<close>: \<open>performance/resource_budget.py\<close>
    and \<open>performance/work_scheduler.py\<close>. The pool's bound and the priority order are invariants of
    every run of operations; the limits are runs on which the scheduler raises or misreports.
  \<^item> \<open>AR_Models\<close>, \<open>AR_Windows\<close>, \<open>AR_Adaptive\<close>, \<open>AR_Adaptive_Demo\<close>: the ransomware models, risk and
    behaviour engines, sliding windows and the adaptive detector of \<open>anti_ransomware/\<close>. Windows
    refine the whole history; the detector's state is bounded; a response needs every condition.
  \<^item> \<open>AR_Audit\<close>, \<open>AR_Evidence\<close>: the audit chain and the evidence store (tamper evidence, write-once
    evidence, retention, sanitised bundles).
  \<^item> \<open>AR_Containment\<close>, \<open>AR_Production\<close>: leases, authorization and the containment coordinator against
    a native boundary, the sensor identity registry and the native journal. Only the exact process
    is ever signalled, and the journal only holds allowed transitions.
  \<^item> \<open>AR_IPC\<close>: \<open>anti_ransomware/ipc_protocol.py\<close>. What a connection accepts is authenticated, timely,
    fresh within the replay cache and permitted to its role.
  \<^item> \<open>Health_Models\<close>, \<open>Health_Evaluator\<close>, \<open>Health_Recovery\<close>, \<open>Health_Store\<close>, \<open>Health_Faults\<close>,
    \<open>Health_Order\<close>, \<open>Health_Coordinator\<close>, \<open>Health_Assurance\<close>: the package \<open>health/\<close>. A sensor is
    healthy exactly on functional evidence, recovery keeps to its budget, transitions are stored in
    a chain, repair follows dependencies, and the coordinator composes these in one cycle.
  \<^item> \<open>License_Verifier\<close>, \<open>License_Manager\<close>: the package \<open>licensing/\<close>. A license is valid exactly when it
    is genuine and its claims hold; what the issuer signs verifies; registration fails closed.
  \<^item> \<open>Alert_Models\<close>, \<open>Alert_Redaction\<close>, \<open>Alert_Fingerprint\<close>: events, configuration, redaction and
    fingerprints of \<open>alerts/resilient_models.py\<close>, \<open>configuration.py\<close> and \<open>fingerprint.py\<close>. A validated
    event shows no secret in its attributes.
  \<^item> \<open>Alert_Store\<close>, \<open>Alert_Ledger\<close>, \<open>Alert_Notify\<close>: the transaction of \<open>alerts/resilient_store.py\<close>
    step by step, its invariant (chains verify, counts are exact, only redundant bodies are
    removed), and what notifies (a storm of duplicates, the reserve of the queue).
  \<^item> \<open>Alert_Suppression\<close>, \<open>Alert_Pipeline\<close>, \<open>Alert_Assurance\<close>: suppression rules, the pipeline in front
    of the store, and the machine of all their operations. The locale \<open>store_invariant\<close> lifts what
    every store operation keeps to the pipeline; three interpretations give the guarantees for any
    run. The last section has the runs on which the code falls short of its documents.
  \<^item> \<open>Alert_Actions\<close>: reservations, action requests, their queue, traces and handler.
  \<^item> \<open>Lockdown_Core\<close>, \<open>Lockdown_Manager\<close>: the emergency protection mode of \<open>security/lockdown/\<close>. The core
    has profiles, authorization, evidence files, the audit chain, one control and its rollback; the
    manager has preflight, activation, status, deactivation, exceptions, reports and the command line.
    An operation maps a state (machine, files, log) to a result or error and the state it leaves.
  \<^item> \<open>Lockdown_Laws\<close>, \<open>Lockdown_Progress\<close>, \<open>Lockdown_Assurance\<close>: what an operation keeps (the locales
    \<open>lockdown_files\<close>, \<open>lockdown_probed\<close>, \<open>lockdown_kept\<close>), triples for operations that return or raise,
    and the guarantees: a profile can be put in force and undone, a failed activation is undone,
    nothing happens without authorization, only probes and allow-listed programs run, the log is one
    chain. What is relied on of \<open>systemsetup\<close> and \<open>socketfilterfw\<close> is the predicate \<open>mac_tools\<close>, with a
    reference machine that satisfies it. The last section has the cases the code gets wrong.
  \<^item> \<open>Typosquat\<close>: the scores of lookalike names (\<open>anti_typosquatting/scoring.py\<close>) and the typing errors,
    phonetic variants and ranking of \<open>anti_typosquatting/engine.py\<close>. The table that is filled in place
    holds the least cost of an alignment of the two names, and a typing error is one edit away.

  \<^bold>\<open>Correspondence\<close>

  A dataclass is a record, an enum a datatype, a handler one definition that takes the state and
  returns it updated. Where a Python function raises, the definition returns \<open>Inl\<close> of the error,
  and the state it returns is the one the code leaves behind. Loops are structural recursion; the
  depth first search of \<open>Health_Order\<close> is a \<open>function\<close> with a measure. No definition uses fuel.

  \<^bold>\<open>Parameters\<close>

  Code outside the repository is an argument: the clock, SHA-256, Ed25519, base64, \<open>json.loads\<close> and
  \<open>json.dumps\<close>, \<open>isoformat\<close> and \<open>fromisoformat\<close>, the native containment helper, health providers,
  the thread pool, the runner of host commands, random tokens and jitter. A theorem that relies on such code states what it needs
  as a hypothesis, and its witness instantiates it. Errors of SQLite and of the file system are inputs
  of the operations that handle them.

  \<^bold>\<open>Limits of the model\<close>

  Floats are rationals, so the rounding of IEEE doubles is not represented. Characters are bytes and
  case conversion is that of ASCII. Locks are not modelled: each operation is atomic, as the code
  makes it by holding its lock. SQL tables are lists of rows with the constraints the schema declares.

  \<^bold>\<open>Not modelled\<close>

  The user interface, host collectors, reports, notification delivery and the SQL layer of the
  background monitor run commands of the host or render text. Of the modelled packages: health
  providers and diagnostics, the HTTPS clients and the payment service of licensing, installers and
  simulators, the delivery of notifications and the parsing of command lines. Of typosquatting, the
  Unicode and keyboard variants, namespaces, name normalisation, lookups and the service are left out.
  Data governance, segmentation and baselines are decision logic that remains to be modelled.
\<close>

end
